(* ===== verification/Js_Values.thy ===== *)
theory Js_Values
  imports Complex_Main
begin

text \<open>
  JavaScript values as the scripts use them: public keys, numbers (IEEE doubles), dynamically
  typed values, thrown errors, and the part of the standard library the sources call
  (number arithmetic with rounding, \<open>Math.floor\<close>, \<open>parseInt\<close>, \<open>toFixed\<close>, number to text,
  \<open>trim\<close>, case conversion, \<open>Date.toISOString\<close>, \<open>JSON.stringify\<close>). Strings are lists of bytes
  (UTF-8); white space and letter case are those of ASCII.
\<close>

named_theorems js_defs

section \<open>Values and errors\<close>

text \<open>A public key is identified by its base58 text: two keys are equal iff their texts are.\<close>

datatype pubkey = PublicKey string

fun toBase58 :: "pubkey \<Rightarrow> string" where
  "toBase58 (PublicKey s) = s"

definition PublicKey_default :: pubkey where
  "PublicKey_default = PublicKey (replicate 32 (CHR ''1''))"

text \<open>Finite doubles are rationals; \<open>Infinity True\<close> is the negative infinity. The two zeros are one.\<close>

datatype jsnum = NaN | Infinity bool | Fin rat

datatype jsval = JUndefined | JNull | JBool bool | JNum jsnum | JStr string | JPk pubkey | JBN int

datatype exn =
    Error string
  | TypeError string
  | RangeError string
  | Library string
  | ExitProcess nat

fun js_truthy :: "jsval \<Rightarrow> bool" where
  "js_truthy JUndefined = False"
| "js_truthy JNull = False"
| "js_truthy (JBool b) = b"
| "js_truthy (JNum NaN) = False"
| "js_truthy (JNum (Infinity _)) = True"
| "js_truthy (JNum (Fin x)) = (x \<noteq> 0)"
| "js_truthy (JStr s) = (s \<noteq> [])"
| "js_truthy (JPk _) = True"
| "js_truthy (JBN _) = True"

section \<open>Result helpers\<close>

fun res_bind :: "exn + 'a \<Rightarrow> ('a \<Rightarrow> exn + 'b) \<Rightarrow> exn + 'b" where
  "res_bind (Inl e) f = Inl e"
| "res_bind (Inr x) f = f x"

lemma res_bind_Inr_iff: "res_bind r f = Inr y \<longleftrightarrow> (\<exists>x. r = Inr x \<and> f x = Inr y)"
  by (cases r) auto

lemma res_bind_assoc: "res_bind (res_bind r f) g = res_bind r (\<lambda>x. res_bind (f x) g)"
  by (cases r) auto

fun some_or :: "exn \<Rightarrow> 'a option \<Rightarrow> exn + 'a" where
  "some_or e None = Inl e"
| "some_or e (Some x) = Inr x"

text \<open>\<open>v.toBase58()\<close> and \<open>v.toBuffer()\<close> on a value that is no key: there is no such method.\<close>

fun as_pubkey :: "string \<Rightarrow> jsval \<Rightarrow> exn + pubkey" where
  "as_pubkey m (JPk k) = Inr k"
| "as_pubkey m JUndefined = Inl (TypeError (''Cannot read properties of undefined (reading '' @ m @ '')''))"
| "as_pubkey m JNull = Inl (TypeError (''Cannot read properties of null (reading '' @ m @ '')''))"
| "as_pubkey m v = Inl (TypeError (m @ '' is not a function''))"

definition js_toBase58 :: "jsval \<Rightarrow> exn + string" where
  "js_toBase58 v = res_bind (as_pubkey ''toBase58'' v) (\<lambda>k. Inr (toBase58 k))"

lemma js_toBase58_JPk [simp]: "js_toBase58 (JPk k) = Inr (toBase58 k)"
  by (simp add: js_toBase58_def)

section \<open>Doubles\<close>

definition pow2 :: "int \<Rightarrow> rat" where
  "pow2 k = (if 0 \<le> k then 2 ^ nat k else 1 / 2 ^ nat (- k))"

fun bitlen :: "nat \<Rightarrow> nat" where
  "bitlen n = (if n = 0 then 0 else Suc (bitlen (n div 2)))"

declare bitlen.simps [simp del]

text \<open>The exponent of a positive rational: \<open>pow2 (expo x) \<le> x < pow2 (expo x + 1)\<close>.\<close>

definition expo :: "rat \<Rightarrow> int" where
  "expo x = (let q = quotient_of x; e = int (bitlen (nat (fst q))) - int (bitlen (nat (snd q)))
             in if pow2 e \<le> x then e else e - 1)"

definition round_even :: "rat \<Rightarrow> int" where
  "round_even x = (let f = \<lfloor>x\<rfloor>; d = x - of_int f
     in if d < 1 / 2 then f else if 1 / 2 < d then f + 1 else if even f then f else f + 1)"

text \<open>Rounding a rational to the nearest double, ties to even, overflow to infinity.\<close>

definition to_double :: "rat \<Rightarrow> jsnum" where
  "to_double x = (if x = 0 then Fin 0 else
     (let u = pow2 (max (expo \<bar>x\<bar>) (-1022) - 52);
          r = of_int (round_even (\<bar>x\<bar> / u)) * u
      in if pow2 1024 \<le> r then Infinity (x < 0) else Fin (sgn x * r)))"

fun js_div :: "jsnum \<Rightarrow> jsnum \<Rightarrow> jsnum" where
  "js_div (Fin a) (Fin b) =
     (if b = 0 then (if a = 0 then NaN else Infinity (a < 0)) else to_double (a / b))"
| "js_div (Fin a) (Infinity s) = Fin 0"
| "js_div (Infinity s) (Fin b) = Infinity (s \<noteq> (b < 0))"
| "js_div (Infinity s) (Infinity t) = NaN"
| "js_div NaN _ = NaN"
| "js_div _ NaN = NaN"

fun js_mul :: "jsnum \<Rightarrow> jsnum \<Rightarrow> jsnum" where
  "js_mul (Fin a) (Fin b) = to_double (a * b)"
| "js_mul (Fin a) (Infinity s) = (if a = 0 then NaN else Infinity (s \<noteq> (a < 0)))"
| "js_mul (Infinity s) (Fin b) = (if b = 0 then NaN else Infinity (s \<noteq> (b < 0)))"
| "js_mul (Infinity s) (Infinity t) = Infinity (s \<noteq> t)"
| "js_mul NaN _ = NaN"
| "js_mul _ NaN = NaN"

fun js_floor :: "jsnum \<Rightarrow> jsnum" where
  "js_floor (Fin x) = Fin (of_int \<lfloor>x\<rfloor>)"
| "js_floor v = v"

fun js_isInteger :: "jsnum \<Rightarrow> bool" where
  "js_isInteger (Fin x) = (of_int \<lfloor>x\<rfloor> = x)"
| "js_isInteger _ = False"

lemma js_isInteger_Ints [simp]: "js_isInteger (Fin x) \<longleftrightarrow> x \<in> \<int>"
  by (metis Ints_cases Ints_of_int floor_of_int js_isInteger.simps(1))

declare js_isInteger.simps(1) [simp del]

text \<open>Comparisons with a literal; every comparison with NaN is false.\<close>

fun js_lt :: "jsnum \<Rightarrow> rat \<Rightarrow> bool" where
  "js_lt (Fin x) c = (x < c)"
| "js_lt (Infinity s) c = s"
| "js_lt NaN c = False"

fun js_le :: "jsnum \<Rightarrow> rat \<Rightarrow> bool" where
  "js_le (Fin x) c = (x \<le> c)"
| "js_le (Infinity s) c = s"
| "js_le NaN c = False"

fun js_gt :: "jsnum \<Rightarrow> rat \<Rightarrow> bool" where
  "js_gt (Fin x) c = (c < x)"
| "js_gt (Infinity s) c = (\<not> s)"
| "js_gt NaN c = False"

section \<open>Facts about rounding\<close>

lemma pow2_pos [simp]: "0 < pow2 k"
  by (simp add: pow2_def)

lemma pow2_nonneg [simp]: "0 \<le> pow2 k" and pow2_neq0 [simp]: "pow2 k \<noteq> 0"
  using pow2_pos [of k] by linarith+

lemma pow2_powi: "pow2 k = 2 powi k"
  by (simp add: pow2_def power_int_def power_one_over)

lemma pow2_add: "pow2 (a + b) = pow2 a * pow2 b"
  by (simp add: pow2_powi power_int_add)

lemma pow2_diff: "pow2 (a - b) = pow2 a / pow2 b"
  by (simp add: pow2_powi power_int_diff)

lemma pow2_mono: "a \<le> b \<Longrightarrow> pow2 a \<le> pow2 b"
  by (simp add: pow2_powi power_int_increasing)

lemma pow2_nat: "pow2 (int n) = 2 ^ n"
  by (simp add: pow2_def)

lemma bitlen_bounds: "0 < n \<Longrightarrow> 2 ^ (bitlen n - 1) \<le> n \<and> n < 2 ^ bitlen n \<and> 0 < bitlen n"
proof (induction n rule: bitlen.induct)
  case (1 n)
  show ?case
  proof (cases "n div 2 = 0")
    case True
    with "1.prems" have "n = 1" by auto
    then show ?thesis by (simp add: bitlen.simps [of "Suc 0"] bitlen.simps [of 0])
  next
    case False
    with "1.prems" "1.IH" have IH: "2 ^ (bitlen (n div 2) - 1) \<le> n div 2"
      "n div 2 < 2 ^ bitlen (n div 2)" "0 < bitlen (n div 2)" by auto
    have e: "bitlen n = Suc (bitlen (n div 2))"
      using "1.prems" by (simp add: bitlen.simps [of n])
    obtain k where k: "bitlen (n div 2) = Suc k"
      using IH(3) by (cases "bitlen (n div 2)") auto
    have d: "2 * (n div 2) \<le> n" "n < 2 * (n div 2) + 2" by auto
    show ?thesis
      using IH(1,2) d unfolding e k by simp
  qed
qed

lemma expo_bounds:
  assumes "0 < x"
  shows "pow2 (expo x) \<le> x" "x < pow2 (expo x + 1)"
proof -
  obtain a b where q: "quotient_of x = (a, b)" by (cases "quotient_of x")
  have b: "0 < b" using q by (rule quotient_of_denom_pos)
  have x: "x = of_int a / of_int b" using q by (rule quotient_of_div)
  have a: "0 < a" using assms b unfolding x by (simp add: zero_less_divide_iff)
  define la lb where "la = bitlen (nat a)" and "lb = bitlen (nat b)"
  have A: "2 ^ (la - 1) \<le> nat a" "nat a < 2 ^ la" "0 < la"
    and B: "2 ^ (lb - 1) \<le> nat b" "nat b < 2 ^ lb" "0 < lb"
    using bitlen_bounds [of "nat a"] bitlen_bounds [of "nat b"] a b
    unfolding la_def lb_def by auto
  have ra: "(of_nat (nat a) :: rat) = of_int a" "(of_nat (nat b) :: rat) = of_int b"
    using a b by auto
  have A': "pow2 (int la - 1) \<le> of_int a" "of_int a < pow2 (int la)"
    and B': "pow2 (int lb - 1) \<le> of_int b" "of_int b < pow2 (int lb)"
  proof -
    have "int la - 1 = int (la - 1)" "int lb - 1 = int (lb - 1)" using A(3) B(3) by auto
    then show "pow2 (int la - 1) \<le> of_int a" "of_int a < pow2 (int la)"
      "pow2 (int lb - 1) \<le> of_int b" "of_int b < pow2 (int lb)"
      using A B unfolding ra [symmetric] pow2_nat
      by (simp_all only: pow2_nat) (metis of_nat_le_iff of_nat_less_iff of_nat_power of_nat_numeral)+
  qed
  let ?e = "int la - int lb"
  have bq: "(0::rat) < of_int b" using b by simp
  have up: "x < pow2 (?e + 1)"
  proof -
    have "of_int a < pow2 (int la)" by (rule A')
    also have "pow2 (int la) = pow2 (?e + 1) * pow2 (int lb - 1)"
      by (simp flip: pow2_add)
    also have "\<dots> \<le> pow2 (?e + 1) * of_int b"
      by (intro mult_left_mono B' pow2_nonneg)
    finally show ?thesis unfolding x using bq by (simp add: pos_divide_less_eq)
  qed
  have lo: "pow2 (?e - 1) \<le> x"
  proof -
    have "pow2 (?e - 1) * of_int b \<le> pow2 (?e - 1) * pow2 (int lb)"
      using B'(2) by (intro mult_left_mono) auto
    also have "\<dots> = pow2 (int la - 1)" by (simp flip: pow2_add)
    also have "\<dots> \<le> of_int a" by (rule A')
    finally show ?thesis unfolding x using bq by (simp add: pos_le_divide_eq)
  qed
  have e: "expo x = (if pow2 ?e \<le> x then ?e else ?e - 1)"
    by (simp add: expo_def q la_def lb_def)
  show "pow2 (expo x) \<le> x" "x < pow2 (expo x + 1)"
    using up lo by (auto simp: e)
qed

lemma round_even_error: "\<bar>of_int (round_even x) - x\<bar> \<le> 1 / 2"
proof -
  have "of_int \<lfloor>x\<rfloor> \<le> x" "x < of_int \<lfloor>x\<rfloor> + 1" by linarith+
  then show ?thesis by (auto simp: round_even_def Let_def abs_le_iff)
qed

lemma round_even_of_int [simp]: "round_even (of_int n) = n"
  by (simp add: round_even_def)

lemma to_double_error:
  assumes "to_double x = Fin y" and "x \<noteq> 0 \<Longrightarrow> pow2 (-1022) \<le> \<bar>x\<bar>"
  shows "\<bar>y - x\<bar> \<le> \<bar>x\<bar> / 2 ^ 53"
proof (cases "x = 0")
  case True
  with assms show ?thesis by (simp add: to_double_def)
next
  case False
  then have pos: "0 < \<bar>x\<bar>" by simp
  note E = expo_bounds [OF pos]
  have "- 1022 \<le> expo \<bar>x\<bar>"
  proof (rule ccontr)
    assume "\<not> ?thesis"
    then have "pow2 (expo \<bar>x\<bar> + 1) \<le> pow2 (-1022)" by (intro pow2_mono) simp
    with E(2) assms(2) [OF False] show False by linarith
  qed
  then have m: "max (expo \<bar>x\<bar>) (-1022) = expo \<bar>x\<bar>" by simp
  define u where "u = pow2 (expo \<bar>x\<bar> - 52)"
  define r where "r = rat_of_int (round_even (\<bar>x\<bar> / u))"
  have u: "0 < u" by (simp add: u_def)
  have y: "y = sgn x * (r * u)"
    using assms(1) False m by (auto simp: to_double_def Let_def u_def r_def split: if_splits)
  have "\<bar>r - \<bar>x\<bar> / u\<bar> \<le> 1 / 2" unfolding r_def by (rule round_even_error)
  then have "\<bar>r - \<bar>x\<bar> / u\<bar> * u \<le> 1 / 2 * u" using u by (intro mult_right_mono) auto
  moreover have "\<bar>r - \<bar>x\<bar> / u\<bar> * u = \<bar>r * u - \<bar>x\<bar>\<bar>"
  proof -
    have "r * u - \<bar>x\<bar> = (r - \<bar>x\<bar> / u) * u" using u by (simp add: left_diff_distrib)
    then show ?thesis using u by (simp only: abs_mult)
  qed
  ultimately have "\<bar>r * u - \<bar>x\<bar>\<bar> \<le> u / 2" by simp
  also have "u / 2 = pow2 (expo \<bar>x\<bar>) / 2 ^ 53"
    by (simp add: u_def pow2_diff) (simp add: pow2_def)
  also have "\<dots> \<le> \<bar>x\<bar> / 2 ^ 53" using E(1) by (intro divide_right_mono) auto
  finally have *: "\<bar>r * u - \<bar>x\<bar>\<bar> \<le> \<bar>x\<bar> / 2 ^ 53" .
  have "\<bar>y - x\<bar> = \<bar>sgn x * (r * u - \<bar>x\<bar>)\<bar>"
    unfolding y by (simp add: right_diff_distrib sgn_mult_abs)
  also have "\<dots> = \<bar>r * u - \<bar>x\<bar>\<bar>" using False by (simp add: abs_mult)
  finally show ?thesis using * by simp
qed

lemma to_double_exact:
  assumes "\<bar>x\<bar> / pow2 (max (expo \<bar>x\<bar>) (-1022) - 52) \<in> \<int>" and "\<bar>x\<bar> < pow2 1024"
  shows "to_double x = Fin x"
proof (cases "x = 0")
  case False
  define u where "u = pow2 (max (expo \<bar>x\<bar>) (-1022) - 52)"
  have u: "u \<noteq> 0" by (simp add: u_def)
  from assms(1) obtain k where k: "\<bar>x\<bar> / u = of_int k" unfolding u_def by (rule Ints_cases)
  then have ku: "of_int k * u = \<bar>x\<bar>" using u by (simp add: field_simps)
  show ?thesis
    using False assms(2) by (simp add: to_double_def k ku sgn_mult_abs flip: u_def)
qed (simp add: to_double_def)

lemma to_double_int:
  assumes "\<bar>n\<bar> \<le> 2 ^ 53"
  shows "to_double (of_int n) = Fin (of_int n)"
proof (cases "n = 0")
  case False
  define x :: rat where "x = \<bar>of_int n\<bar>"
  have x1: "1 \<le> x" and xb: "x \<le> pow2 53" and xi: "x = of_int \<bar>n\<bar>"
    using False assms by (auto simp: x_def pow2_def simp flip: of_int_abs)
  note E = expo_bounds [of x]
  have e0: "0 \<le> expo x"
  proof (rule ccontr)
    assume "\<not> ?thesis"
    then have "pow2 (expo x + 1) \<le> pow2 0" by (intro pow2_mono) simp
    then show False using E x1 by (simp add: pow2_def)
  qed
  have e53: "expo x \<le> 53"
  proof (rule ccontr)
    assume "\<not> ?thesis"
    then have "pow2 54 \<le> pow2 (expo x)" by (intro pow2_mono) simp
    then show False using E xb x1 by (simp add: pow2_def)
  qed
  have m: "max (expo x) (-1022) - 52 = expo x - 52" using e0 by simp
  have "x / pow2 (expo x - 52) \<in> \<int>"
  proof (cases "expo x = 53")
    case True
    then have "x = pow2 53" using E(1) xb x1 by simp
    then show ?thesis using True by (simp add: pow2_def)
  next
    case False
    then have "x / pow2 (expo x - 52) = of_int (\<bar>n\<bar> * 2 ^ nat (52 - expo x))"
      using e53 by (auto simp: pow2_def xi)
    then show ?thesis by (metis Ints_of_int)
  qed
  moreover have "x < pow2 1024" using xb by (rule le_less_trans) (simp add: pow2_def)
  ultimately show ?thesis
    using to_double_exact [of "of_int n"] by (simp add: x_def [symmetric] m)
qed (simp add: to_double_def)

lemma to_double_finite:
  assumes "\<bar>x\<bar> < pow2 1000"
  shows "\<exists>y. to_double x = Fin y"
proof (cases "x = 0")
  case False
  define u where "u = pow2 (max (expo \<bar>x\<bar>) (-1022) - 52)"
  define r where "r = rat_of_int (round_even (\<bar>x\<bar> / u))"
  have u: "0 < u" by (simp add: u_def)
  have "expo \<bar>x\<bar> < 1000"
  proof (rule ccontr)
    assume "\<not> ?thesis"
    then have "pow2 1000 \<le> pow2 (expo \<bar>x\<bar>)" by (intro pow2_mono) simp
    then show False using expo_bounds(1) [of "\<bar>x\<bar>"] assms False by simp
  qed
  then have ub: "u \<le> pow2 1000" unfolding u_def by (intro pow2_mono) simp
  have "\<bar>r - \<bar>x\<bar> / u\<bar> \<le> 1 / 2" unfolding r_def by (rule round_even_error)
  then have "r \<le> \<bar>x\<bar> / u + 1 / 2" by linarith
  then have "r * u \<le> (\<bar>x\<bar> / u + 1 / 2) * u" using u by (intro mult_right_mono) auto
  also have "\<dots> = \<bar>x\<bar> + u / 2" using u by (simp add: distrib_right)
  also have "\<dots> < pow2 1000 + pow2 1000" using assms ub u by linarith
  also have "\<dots> = pow2 1001" by (simp add: pow2_def)
  also have "\<dots> \<le> pow2 1024" by (rule pow2_mono) simp
  finally show ?thesis using False by (simp add: to_double_def flip: u_def r_def)
qed (simp add: to_double_def)

section \<open>Text\<close>

definition digit :: "nat \<Rightarrow> char" where
  "digit d = ''0123456789'' ! d"

fun nat_str :: "nat \<Rightarrow> string" where
  "nat_str n = (if n < 10 then [digit n] else nat_str (n div 10) @ [digit (n mod 10)])"

declare nat_str.simps [simp del]

definition int_str :: "int \<Rightarrow> string" where
  "int_str i = (if i < 0 then ''-'' @ nat_str (nat (- i)) else nat_str (nat i))"

definition pad_left :: "nat \<Rightarrow> string \<Rightarrow> string" where
  "pad_left w s = replicate (w - length s) (CHR ''0'') @ s"

text \<open>Decimal exponent: the \<open>n\<close> with \<open>10 ^ (n - 1) \<le> x < 10 ^ n\<close>, for a positive double.\<close>

fun leading_zeros :: "nat \<Rightarrow> rat \<Rightarrow> nat" where
  "leading_zeros 0 x = 0"
| "leading_zeros (Suc f) x = (if 1 \<le> x * 10 then 0 else Suc (leading_zeros f (x * 10)))"

definition dec_expo :: "rat \<Rightarrow> int" where
  "dec_expo x = (if 1 \<le> x then int (length (nat_str (nat \<lfloor>x\<rfloor>))) else - int (leading_zeros 400 x))"

definition ten_pow :: "int \<Rightarrow> rat" where
  "ten_pow k = (if 0 \<le> k then 10 ^ nat k else 1 / 10 ^ nat (- k))"

text \<open>
  \<open>Number::toString\<close>: the least number \<open>k\<close> of digits (17 are always enough) such that the nearest
  \<open>k\<close>-digit decimal reads back as the same double; \<open>k\<close> runs upwards with \<open>17 - f\<close>.
\<close>

fun shortest :: "nat \<Rightarrow> nat \<Rightarrow> rat \<Rightarrow> int \<Rightarrow> nat \<times> nat \<times> int" where
  "shortest f k x n =
     (let s = nat (round_even (x / ten_pow (n - int k)));
          r = (if s = 10 ^ k then (k, 10 ^ (k - 1), n + 1) else (k, s, n))
      in case f of 0 \<Rightarrow> r
         | Suc g \<Rightarrow> (if to_double (of_nat s * ten_pow (n - int k)) = Fin x then r
                    else shortest g (Suc k) x n))"

definition num_digits :: "nat \<times> nat \<times> int \<Rightarrow> string" where
  "num_digits kn = (case kn of (k, s, n) \<Rightarrow>
     let ds = nat_str s; e = n - 1 in
     if int k \<le> n \<and> n \<le> 21 then ds @ replicate (nat (n - int k)) (CHR ''0'')
     else if 0 < n \<and> n \<le> 21 then take (nat n) ds @ ''.'' @ drop (nat n) ds
     else if - 6 < n \<and> n \<le> 0 then ''0.'' @ replicate (nat (- n)) (CHR ''0'') @ ds
     else (if k = 1 then ds else take 1 ds @ ''.'' @ drop 1 ds)
          @ ''e'' @ (if e < 0 then ''-'' else ''+'') @ nat_str (nat \<bar>e\<bar>))"

fun num_str :: "jsnum \<Rightarrow> string" where
  "num_str NaN = ''NaN''"
| "num_str (Infinity s) = (if s then ''-Infinity'' else ''Infinity'')"
| "num_str (Fin x) =
     (if x = 0 then ''0''
      else (if x < 0 then ''-'' else []) @ num_digits (shortest 16 1 \<bar>x\<bar> (dec_expo \<bar>x\<bar>)))"

text \<open>\<open>x.toFixed(f)\<close>: the integer nearest to \<open>x * 10 ^ f\<close>, the larger one on a tie.\<close>

definition fixed_digits :: "nat \<Rightarrow> nat \<Rightarrow> string" where
  "fixed_digits f n = (if f = 0 then nat_str n
     else let m = pad_left (Suc f) (nat_str n); k = length m - f in take k m @ ''.'' @ drop k m)"

fun to_fixed :: "nat \<Rightarrow> jsnum \<Rightarrow> string" where
  "to_fixed f (Fin x) =
     (if 10 ^ 21 \<le> \<bar>x\<bar> then num_str (Fin x)
      else (if x < 0 then ''-'' else []) @ fixed_digits f (nat \<lfloor>\<bar>x\<bar> * 10 ^ f + 1 / 2\<rfloor>))"
| "to_fixed f v = num_str v"

definition is_ws :: "char \<Rightarrow> bool" where
  "is_ws c \<longleftrightarrow> c \<in> {CHR '' '', CHR 0x09, CHR 0x0A, CHR 0x0B, CHR 0x0C, CHR 0x0D}"

definition js_trim :: "string \<Rightarrow> string" where
  "js_trim s = rev (dropWhile is_ws (rev (dropWhile is_ws s)))"

definition lower_char :: "char \<Rightarrow> char" where
  "lower_char c = (if 65 \<le> (of_char c :: nat) \<and> (of_char c :: nat) \<le> 90 then char_of (of_char c + 32 :: nat) else c)"

definition upper_char :: "char \<Rightarrow> char" where
  "upper_char c = (if 97 \<le> (of_char c :: nat) \<and> (of_char c :: nat) \<le> 122 then char_of (of_char c - 32 :: nat) else c)"

definition toLowerCase :: "string \<Rightarrow> string" where
  "toLowerCase s = List.map lower_char s"

definition toUpperCase :: "string \<Rightarrow> string" where
  "toUpperCase s = List.map upper_char s"

definition is_digit :: "char \<Rightarrow> bool" where
  "is_digit c \<longleftrightarrow> 48 \<le> (of_char c :: nat) \<and> (of_char c :: nat) \<le> 57"

definition digits_val :: "string \<Rightarrow> nat" where
  "digits_val ds = foldl (\<lambda>a c. 10 * a + (of_char c - 48)) 0 ds"

text \<open>\<open>parseInt(s, 10)\<close>: white space, an optional sign, digits; what follows them is ignored.\<close>

definition parseInt10 :: "string \<Rightarrow> jsnum" where
  "parseInt10 s = (let t = dropWhile is_ws s;
      neg = (t \<noteq> [] \<and> hd t = CHR ''-'');
      u = (if t \<noteq> [] \<and> (hd t = CHR ''-'' \<or> hd t = CHR ''+'') then tl t else t);
      ds = takeWhile is_digit u
    in if ds = [] then NaN
       else to_double (of_int (if neg then - int (digits_val ds) else int (digits_val ds))))"

fun js_starts_with :: "string \<Rightarrow> string \<Rightarrow> bool" where
  "js_starts_with [] s = True"
| "js_starts_with (p # ps) [] = False"
| "js_starts_with (p # ps) (c # cs) = (p = c \<and> js_starts_with ps cs)"

text \<open>The text after the first occurrence of a pattern; \<open>s.replace(p, r)\<close> with a text pattern.\<close>

fun after_first :: "string \<Rightarrow> string \<Rightarrow> string option" where
  "after_first p s = (if js_starts_with p s then Some (drop (length p) s)
     else case s of [] \<Rightarrow> None | c # cs \<Rightarrow> after_first p cs)"

declare after_first.simps [simp del]

fun replace_first :: "string \<Rightarrow> string \<Rightarrow> string \<Rightarrow> string" where
  "replace_first p r s = (if js_starts_with p s then r @ drop (length p) s
     else case s of [] \<Rightarrow> [] | c # cs \<Rightarrow> c # replace_first p r cs)"

declare replace_first.simps [simp del]

end
