(* ===== verification/Network_Config.thy ===== *)
theory Network_Config
  imports Js_Values
begin

text \<open>
  \<^verbatim>\<open>scripts/utils/network-config.ts\<close>: the table of network environments, the choice of one by the
  \<open>NETWORK\<close> variable, and the early command line scan of \<^verbatim>\<open>scripts/cli/index.ts\<close> that sets this
  variable. A process environment is a function from names to optional values. A lookup in an
  object literal also finds the members that every object inherits from \<open>Object.prototype\<close>;
  such a hit is an \<open>Inherited\<close> member.
\<close>

type_synonym process_env = "string \<Rightarrow> string option"

record token_mints =
  usdc :: pubkey
  onyc :: pubkey
  usdg :: pubkey

record NetworkConfig =
  nc_name :: string
  rpcUrl :: string
  programId :: pubkey
  nc_boss :: pubkey
  mints :: token_mints

definition NetworkName :: "string list" where
  "NetworkName = [''mainnet-prod'', ''mainnet-test'', ''mainnet-dev'', ''devnet-test'', ''devnet-dev'']"

text \<open>\<open>process.env.X || "..."\<close>: an unset or empty variable takes the default.\<close>

definition env_or :: "process_env \<Rightarrow> string \<Rightarrow> string \<Rightarrow> string" where
  "env_or penv k d = (case penv k of Some v \<Rightarrow> if v = [] then d else v | None \<Rightarrow> d)"

definition MAINNET_RPC_URL :: "process_env \<Rightarrow> string" where
  "MAINNET_RPC_URL penv = env_or penv ''SOL_MAINNET_RPC_URL'' ''https://api.mainnet-beta.solana.com''"

definition DEVNET_RPC_URL :: "process_env \<Rightarrow> string" where
  "DEVNET_RPC_URL penv = env_or penv ''SOL_DEVNET_RPC_URL'' ''https://api.devnet.solana.com''"

definition PROD_SQUAD :: pubkey where
  "PROD_SQUAD = PublicKey ''45YnzauhsBM8CpUz96Djf8UG5vqq2Dua62wuW9H3jaJ5''"
definition DEV_SQUAD :: pubkey where
  "DEV_SQUAD = PublicKey ''7rzEKejyAXJXMkGfRhMV9Vg1k7tFznBBEFu3sfLNz8LC''"
definition DEVNET_SQUAD :: pubkey where
  "DEVNET_SQUAD = PublicKey ''EVdiVScB7LX1P3bn7ZLmLJTBrSSgRXPqRU3bVxrEpRb5''"

definition PROD_PROGRAM_ID :: pubkey where
  "PROD_PROGRAM_ID = PublicKey ''onreuGhHHgVzMWSkj2oQDLDtvvGvoepBPkqyaubFcwe''"
definition TEST_PROGRAM_ID :: pubkey where
  "TEST_PROGRAM_ID = PublicKey ''J24jWEosQc5jgkdPm3YzNgzQ54CqNKkhzKy56XXJsLo2''"
definition DEV_PROGRAM_ID :: pubkey where
  "DEV_PROGRAM_ID = PublicKey ''devHfQHgiFNifkLW49RCXpyTUZMyKuBNnFSbrQ8XsbX''"

definition USDC_MINT :: pubkey where
  "USDC_MINT = PublicKey ''EPjFWdd5AufqSSqeM2qN1xzybapC8G4wEGGkZwyTDt1v''"
definition ONYC_MINT :: pubkey where
  "ONYC_MINT = PublicKey ''5Y8NV33Vv7WbnLfq3zBcKSdYPrk7g2KoiQoe7M2tcxp5''"
definition USDG_MINT :: pubkey where
  "USDG_MINT = PublicKey ''2u1tszSeqZ3qBWF3uNGPFc8TzMk2tdiwknnRMWGWjGWH''"

definition USDC_TEST_MAINNET :: pubkey where
  "USDC_TEST_MAINNET = PublicKey ''6ioCVbecopp6AfrPvzgZdtoaftMq4hXouDun2ekkkVvt''"
definition ONYC_TEST_MAINNET :: pubkey where
  "ONYC_TEST_MAINNET = PublicKey ''5Uzafw84V9rCTmYULqdJA115K6zHP16vR15zrcqa6r6C''"
definition USDG_TEST_MAINNET :: pubkey where
  "USDG_TEST_MAINNET = PublicKey ''Fuisp2hZfWdqZJoRjbfoTR47DnvB8gVJFJp2ANstzbDc''"

definition MOCK_USDC_DEVNET :: pubkey where
  "MOCK_USDC_DEVNET = PublicKey ''2eW3HJzbgrCnV1fd7dUbyPj5T95D35oBPcJyfXtoGNrw''"
definition MOCK_ONYC_DEVNET :: pubkey where
  "MOCK_ONYC_DEVNET = PublicKey ''6WLYBF2o3RSkZ9SoNhhFYxUPYzLaa83xSTZ3o46cg4CN''"
definition MOCK_USDG_DEVNET :: pubkey where
  "MOCK_USDG_DEVNET = PublicKey ''HyVoVvMHRr6p1FfGSWrWDPk6bn4FAmCjajzv6SY3DHk''"

lemmas key_constants = PROD_SQUAD_def DEV_SQUAD_def DEVNET_SQUAD_def
  PROD_PROGRAM_ID_def TEST_PROGRAM_ID_def DEV_PROGRAM_ID_def
  USDC_MINT_def ONYC_MINT_def USDG_MINT_def
  USDC_TEST_MAINNET_def ONYC_TEST_MAINNET_def USDG_TEST_MAINNET_def
  MOCK_USDC_DEVNET_def MOCK_ONYC_DEVNET_def MOCK_USDG_DEVNET_def

definition NETWORK_CONFIGS :: "process_env \<Rightarrow> (string \<times> NetworkConfig) list" where
  "NETWORK_CONFIGS penv =
     [(''mainnet-prod'',
       \<lparr>nc_name = ''mainnet-prod'', rpcUrl = MAINNET_RPC_URL penv, programId = PROD_PROGRAM_ID,
        nc_boss = PROD_SQUAD,
        mints = \<lparr>usdc = USDC_MINT, onyc = ONYC_MINT, usdg = USDG_MINT\<rparr>\<rparr>),
      (''mainnet-test'',
       \<lparr>nc_name = ''mainnet-test'', rpcUrl = MAINNET_RPC_URL penv, programId = TEST_PROGRAM_ID,
        nc_boss = DEV_SQUAD,
        mints = \<lparr>usdc = USDC_TEST_MAINNET, onyc = ONYC_TEST_MAINNET, usdg = USDG_TEST_MAINNET\<rparr>\<rparr>),
      (''mainnet-dev'',
       \<lparr>nc_name = ''mainnet-dev'', rpcUrl = MAINNET_RPC_URL penv, programId = DEV_PROGRAM_ID,
        nc_boss = DEV_SQUAD,
        mints = \<lparr>usdc = USDC_TEST_MAINNET, onyc = ONYC_TEST_MAINNET, usdg = USDG_TEST_MAINNET\<rparr>\<rparr>),
      (''devnet-test'',
       \<lparr>nc_name = ''devnet-test'', rpcUrl = DEVNET_RPC_URL penv, programId = TEST_PROGRAM_ID,
        nc_boss = DEVNET_SQUAD,
        mints = \<lparr>usdc = MOCK_USDC_DEVNET, onyc = MOCK_ONYC_DEVNET, usdg = MOCK_USDG_DEVNET\<rparr>\<rparr>),
      (''devnet-dev'',
       \<lparr>nc_name = ''devnet-dev'', rpcUrl = DEVNET_RPC_URL penv, programId = DEV_PROGRAM_ID,
        nc_boss = DEVNET_SQUAD,
        mints = \<lparr>usdc = MOCK_USDC_DEVNET, onyc = MOCK_ONYC_DEVNET, usdg = MOCK_USDG_DEVNET\<rparr>\<rparr>)]"

text \<open>Member lookup \<open>obj[k]\<close> on an object literal.\<close>

datatype 'a js_member = Own 'a | Inherited string

definition object_prototype :: "string list" where
  "object_prototype = [''constructor'', ''__defineGetter__'', ''__defineSetter__'', ''hasOwnProperty'',
     ''__lookupGetter__'', ''__lookupSetter__'', ''isPrototypeOf'', ''propertyIsEnumerable'',
     ''toString'', ''valueOf'', ''__proto__'', ''toLocaleString'']"

definition js_member :: "(string \<times> 'a) list \<Rightarrow> string \<Rightarrow> 'a js_member option" where
  "js_member obj k = (case map_of obj k of Some v \<Rightarrow> Some (Own v)
     | None \<Rightarrow> if k \<in> set object_prototype then Some (Inherited k) else None)"

fun join :: "string \<Rightarrow> string list \<Rightarrow> string" where
  "join sep [] = []"
| "join sep [x] = x"
| "join sep (x # xs) = x @ sep @ join sep xs"

definition getNetworkConfig :: "process_env \<Rightarrow> exn + NetworkConfig js_member" where
  "getNetworkConfig penv =
     (let networkEnv = (case penv ''NETWORK'' of None \<Rightarrow> [] | Some v \<Rightarrow> v) in
      if networkEnv = [] then some_or (Error []) (js_member (NETWORK_CONFIGS penv) ''mainnet-prod'')
      else case js_member (NETWORK_CONFIGS penv) networkEnv of
          Some c \<Rightarrow> Inr c
        | None \<Rightarrow> Inl (Error (''Invalid NETWORK environment variable: '' @ [CHR 0x22] @ networkEnv @ [CHR 0x22]
            @ ''. Valid values are: '' @ join '', '' (List.map fst (NETWORK_CONFIGS penv)))))"

text \<open>
  The scan of \<^verbatim>\<open>cli/index.ts\<close>: the argument after the first \<open>-n\<close> or \<open>--network\<close> becomes
  \<open>NETWORK\<close>, unless it is missing or empty.
\<close>

fun findIndex :: "('a \<Rightarrow> bool) \<Rightarrow> 'a list \<Rightarrow> nat option" where
  "findIndex p [] = None"
| "findIndex p (x # xs) = (if p x then Some 0 else map_option Suc (findIndex p xs))"

definition set_network_env :: "string list \<Rightarrow> process_env \<Rightarrow> process_env" where
  "set_network_env args penv =
     (case findIndex (\<lambda>arg. arg = ''-n'' \<or> arg = ''--network'') args of
        None \<Rightarrow> penv
      | Some i \<Rightarrow> (if Suc i < length args \<and> args ! Suc i \<noteq> []
                  then penv(''NETWORK'' := Some (args ! Suc i)) else penv))"

section \<open>Lemmas\<close>

lemma env_or_nonempty: "d \<noteq> [] \<Longrightarrow> env_or penv k d \<noteq> []"
  by (auto simp: env_or_def split: option.splits)

lemma network_config_names: "List.map fst (NETWORK_CONFIGS penv) = NetworkName"
  by (simp add: NETWORK_CONFIGS_def NetworkName_def)

lemma network_config_entries:
  "map_of (NETWORK_CONFIGS penv) k = Some c \<Longrightarrow> nc_name c = k \<and> k \<in> set NetworkName"
  by (auto simp: NETWORK_CONFIGS_def NetworkName_def split: if_splits)

lemma network_config_total: "k \<in> set NetworkName \<Longrightarrow> \<exists>c. map_of (NETWORK_CONFIGS penv) k = Some c"
  by (auto simp: NETWORK_CONFIGS_def NetworkName_def)

lemma findIndex_Some_iff:
  "findIndex p xs = Some i \<longleftrightarrow> i < length xs \<and> p (xs ! i) \<and> (\<forall>j<i. \<not> p (xs ! j))"
  by (induction p xs arbitrary: i rule: findIndex.induct) (auto simp: less_Suc_eq_0_disj nth_Cons split: nat.splits)

lemma findIndex_None_iff: "findIndex p xs = None \<longleftrightarrow> (\<forall>x\<in>set xs. \<not> p x)"
  by (induction p xs rule: findIndex.induct) auto

lemma prod_program_only_prod:
  "map_of (NETWORK_CONFIGS penv) k = Some c \<Longrightarrow>
     (programId c = PROD_PROGRAM_ID \<or> nc_boss c = PROD_SQUAD \<or>
      {usdc (mints c), onyc (mints c), usdg (mints c)} \<inter> {USDC_MINT, ONYC_MINT, USDG_MINT} \<noteq> {})
     \<longleftrightarrow> k = ''mainnet-prod''"
  by (auto simp: NETWORK_CONFIGS_def key_constants split: if_splits)

lemma config_mints_distinct:
  "map_of (NETWORK_CONFIGS penv) k = Some c \<Longrightarrow> distinct [usdc (mints c), onyc (mints c), usdg (mints c)]"
  by (auto simp: NETWORK_CONFIGS_def key_constants split: if_splits)

end
