(* ===== verification/Js_Text.thy ===== *)
theory Js_Text
  imports Js_Values
begin

text \<open>
  The two printers of the standard library that the scripts use: \<open>Date.prototype.toISOString\<close>
  (the proleptic Gregorian calendar of ECMAScript) and \<open>JSON.stringify(value, null, 2)\<close>.
\<close>

section \<open>Dates\<close>

definition day_from_year :: "int \<Rightarrow> int" where
  "day_from_year y = 365 * (y - 1970) + (y - 1969) div 4 - (y - 1901) div 100 + (y - 1601) div 400"

definition leap_year :: "int \<Rightarrow> bool" where
  "leap_year y \<longleftrightarrow> y mod 4 = 0 \<and> (y mod 100 \<noteq> 0 \<or> y mod 400 = 0)"

text \<open>The year of a day: the mean year length gives a guess that is at most one off.\<close>

definition year_from_day :: "int \<Rightarrow> int" where
  "year_from_day d = (let y = 1970 + (400 * d) div 146097 in
     if d < day_from_year y then y - 1 else if day_from_year (y + 1) \<le> d then y + 1 else y)"

definition month_lengths :: "int \<Rightarrow> int list" where
  "month_lengths y = [31, if leap_year y then 29 else 28, 31, 30, 31, 30, 31, 31, 30, 31, 30, 31]"

fun month_day :: "int list \<Rightarrow> int \<Rightarrow> int \<Rightarrow> int \<times> int" where
  "month_day [] m d = (m, d + 1)"
| "month_day (l # ls) m d = (if d < l then (m, d + 1) else month_day ls (m + 1) (d - l))"

definition pad_int :: "nat \<Rightarrow> int \<Rightarrow> string" where
  "pad_int w i = pad_left w (nat_str (nat i))"

definition iso_year :: "int \<Rightarrow> string" where
  "iso_year y = (if 0 \<le> y \<and> y \<le> 9999 then pad_int 4 y
     else (if y < 0 then ''-'' else ''+'') @ pad_int 6 \<bar>y\<bar>)"

definition iso_of_ms :: "int \<Rightarrow> string" where
  "iso_of_ms t = (let d = t div 86400000; ms = t mod 86400000; y = year_from_day d;
      md = month_day (month_lengths y) 1 (d - day_from_year y)
    in iso_year y @ ''-'' @ pad_int 2 (fst md) @ ''-'' @ pad_int 2 (snd md) @ ''T''
       @ pad_int 2 (ms div 3600000) @ '':'' @ pad_int 2 (ms div 60000 mod 60) @ '':''
       @ pad_int 2 (ms div 1000 mod 60) @ ''.'' @ pad_int 3 (ms mod 1000) @ ''Z'')"

text \<open>\<open>new Date(v)\<close> truncates to whole milliseconds and is invalid beyond 8.64e15 of them.\<close>

fun time_clip :: "jsnum \<Rightarrow> int option" where
  "time_clip (Fin x) = (let t = (if x < 0 then \<lceil>x\<rceil> else \<lfloor>x\<rfloor>) in
     if \<bar>x\<bar> \<le> 8640000000000000 then Some t else None)"
| "time_clip _ = None"

definition toISOString :: "jsnum \<Rightarrow> exn + string" where
  "toISOString v = (case time_clip v of None \<Rightarrow> Inl (RangeError ''Invalid time value'')
     | Some t \<Rightarrow> Inr (iso_of_ms t))"

lemma int_div_bounds:
  fixes a m :: int
  assumes "0 < m"
  shows "m * (a div m) \<le> a" "a < m * (a div m) + m"
  using assms pos_mod_sign [of m a] pos_mod_bound [of m a] mult_div_mod_eq [of m a] by linarith+

lemma day_from_year_approx:
  "400 * day_from_year y \<le> 146097 * (y - 1970) + 1200"
  "146097 * (y - 1970) \<le> 400 * day_from_year y + 1200"
proof -
  define a b c where "a = (y - 1969) div 4" and "b = (y - 1901) div 100" and "c = (y - 1601) div 400"
  have bounds: "4 * a \<le> y - 1969" "y - 1969 < 4 * a + 4" "100 * b \<le> y - 1901"
    "y - 1901 < 100 * b + 100" "400 * c \<le> y - 1601" "y - 1601 < 400 * c + 400"
    unfolding a_def b_def c_def by (rule int_div_bounds, simp)+
  have d: "day_from_year y = 365 * (y - 1970) + a - b + c"
    by (simp add: day_from_year_def a_def b_def c_def)
  show "400 * day_from_year y \<le> 146097 * (y - 1970) + 1200"
    using bounds unfolding d by (simp add: algebra_simps)
  show "146097 * (y - 1970) \<le> 400 * day_from_year y + 1200"
    using bounds unfolding d by (simp add: algebra_simps)
qed

lemma year_from_day_bounds:
  "day_from_year (year_from_day d) \<le> d \<and> d < day_from_year (year_from_day d + 1)"
proof -
  define y where "y = 1970 + (400 * d) div 146097"
  define q where "q = (400 * d) div 146097"
  have "146097 * q \<le> 400 * d" "400 * d < 146097 * q + 146097"
    unfolding q_def by (rule int_div_bounds, simp)+
  note q = this
  have y: "y = 1970 + q" by (simp add: y_def q_def)
  have "day_from_year (y - 1) \<le> d"
    using q y day_from_year_approx [of "y - 1"] by (simp add: algebra_simps)
  moreover have "d < day_from_year (y + 1 + 1)"
    using q y day_from_year_approx [of "y + 2"] by (simp add: algebra_simps)
  moreover have "year_from_day d =
      (if d < day_from_year y then y - 1 else if day_from_year (y + 1) \<le> d then y + 1 else y)"
    by (simp add: year_from_day_def Let_def y_def)
  ultimately show ?thesis by auto
qed

section \<open>JSON\<close>

datatype json =
    JsonNull
  | JsonBool bool
  | JsonNum jsnum
  | JsonStr string
  | JsonArr "json list"
  | JsonObj "(string \<times> json) list"

definition hex_digit :: "nat \<Rightarrow> char" where
  "hex_digit d = ''0123456789abcdef'' ! d"

definition json_char :: "char \<Rightarrow> string" where
  "json_char c = (
     if c = CHR 0x22 then [CHR 0x5C, CHR 0x22]
     else if c = CHR 0x5C then [CHR 0x5C, CHR 0x5C]
     else if c = CHR 0x08 then [CHR 0x5C, CHR ''b'']
     else if c = CHR 0x0C then [CHR 0x5C, CHR ''f'']
     else if c = CHR 0x0A then [CHR 0x5C, CHR ''n'']
     else if c = CHR 0x0D then [CHR 0x5C, CHR ''r'']
     else if c = CHR 0x09 then [CHR 0x5C, CHR ''t'']
     else if (of_char c :: nat) < 32
       then [CHR 0x5C, CHR ''u'', CHR ''0'', CHR ''0'', hex_digit (of_char c div 16), hex_digit (of_char c mod 16)]
     else [c])"

definition json_quote :: "string \<Rightarrow> string" where
  "json_quote s = [CHR 0x22] @ concat (List.map json_char s) @ [CHR 0x22]"

definition newline :: string where
  "newline = [CHR 0x0A]"

fun json_sep :: "string \<Rightarrow> string list \<Rightarrow> string" where
  "json_sep sep [] = []"
| "json_sep sep [x] = x"
| "json_sep sep (x # xs) = x @ sep @ json_sep sep xs"

text \<open>\<open>JSON.stringify(v, null, 2)\<close>; the first argument is the current indentation.\<close>

fun json_stringify :: "nat \<Rightarrow> json \<Rightarrow> string" where
  "json_stringify k JsonNull = ''null''"
| "json_stringify k (JsonBool b) = (if b then ''true'' else ''false'')"
| "json_stringify k (JsonNum v) = (case v of Fin x \<Rightarrow> num_str v | _ \<Rightarrow> ''null'')"
| "json_stringify k (JsonStr s) = json_quote s"
| "json_stringify k (JsonArr vs) = (if vs = [] then ''[]'' else
     ''['' @ newline @ replicate (k + 2) (CHR '' '')
     @ json_sep ('','' @ newline @ replicate (k + 2) (CHR '' '')) (List.map (json_stringify (k + 2)) vs)
     @ newline @ replicate k (CHR '' '') @ '']'')"
| "json_stringify k (JsonObj fs) = (if fs = [] then ''{}'' else
     ''{'' @ newline @ replicate (k + 2) (CHR '' '')
     @ json_sep ('','' @ newline @ replicate (k + 2) (CHR '' ''))
         (List.map (\<lambda>f. json_quote (fst f) @ '': '' @ json_stringify (k + 2) (snd f)) fs)
     @ newline @ replicate k (CHR '' '') @ ''}'')"

text \<open>An object literal for \<open>JSON.stringify\<close>: fields whose value is \<open>undefined\<close> are left out.\<close>

definition json_object :: "(string \<times> json option) list \<Rightarrow> json" where
  "json_object fs = JsonObj (List.map (\<lambda>f. (fst f, the (snd f))) (filter (\<lambda>f. snd f \<noteq> None) fs))"

section \<open>Reading a decimal number\<close>

text \<open>
  \<open>parseFloat(s)\<close>: the longest prefix that is a decimal literal: sign, digits, fraction, exponent.
\<close>

definition parse_exponent :: "string \<Rightarrow> int" where
  "parse_exponent s = (if s \<noteq> [] \<and> hd s \<in> {CHR ''e'', CHR ''E''} then
       (let t = tl s;
            u = (if t \<noteq> [] \<and> hd t \<in> {CHR ''-'', CHR ''+''} then tl t else t);
            n = int (digits_val (takeWhile is_digit u))
        in if t \<noteq> [] \<and> hd t = CHR ''-'' then - n else n)
     else 0)"

definition parseFloat :: "string \<Rightarrow> jsnum" where
  "parseFloat s = (let t = dropWhile is_ws s;
      neg = (t \<noteq> [] \<and> hd t = CHR ''-'');
      u = (if t \<noteq> [] \<and> hd t \<in> {CHR ''-'', CHR ''+''} then tl t else t);
      ip = takeWhile is_digit u;
      r = dropWhile is_digit u;
      fp = (if r \<noteq> [] \<and> hd r = CHR ''.'' then takeWhile is_digit (tl r) else []);
      r' = (if r \<noteq> [] \<and> hd r = CHR ''.'' then dropWhile is_digit (tl r) else r)
    in if js_starts_with ''Infinity'' u then Infinity neg
       else if ip = [] \<and> fp = [] then NaN
       else to_double ((if neg then -1 else 1) * of_nat (digits_val (ip @ fp))
              * ten_pow (parse_exponent r' - int (length fp))))"

end
