(* ===== verification/Cli_Io.thy ===== *)
theory Cli_Io
  imports Network_Config Js_Text
begin

text \<open>
  The outside of the command line tool. \<open>env\<close> collects what is not in the repository: the
  libraries (web3.js, spl-token, Anchor, bn.js, bs58, inquirer, clipboardy), the file system, the
  clock and the RPC node. Answers that can change between two calls take the trace so far as an
  argument. A computation takes the trace of events and gives a result or a thrown error with the
  extended trace; \<open>io_all\<close> and \<open>io_inv\<close> are the two ways properties of traces are proved.
\<close>

type_synonym buffer = string

section \<open>Instructions and transactions\<close>

text \<open>
  \<open>program.methods.m(args).accounts(...).instruction()\<close> is kept as the request handed to Anchor:
  method, arguments, named accounts, and whether \<open>accountsPartial\<close> was used. \<open>OldIx\<close> is a call of the
  program before version 3.
\<close>

record mcall =
  mc_method :: string
  mc_args :: "jsval list"
  mc_accounts :: "(string \<times> jsval) list"
  mc_partial :: bool

datatype tx_ix =
    AnchorIx mcall
  | OldIx mcall
  | CreateAtaIx (ata_payer: jsval) (ata_address: pubkey) (ata_owner: pubkey) (ata_mint: jsval) (ata_program: pubkey)

record transaction =
  tx_ixs :: "tx_ix list"
  feePayer :: jsval
  recentBlockhash :: string

section \<open>Accounts as the Anchor client decodes them\<close>

record state_account =
  st_boss :: pubkey
  st_proposedBoss :: pubkey
  st_isKilled :: bool
  st_onycMint :: pubkey
  st_admins :: "pubkey list"
  st_approver1 :: pubkey
  st_approver2 :: pubkey
  st_maxSupply :: nat
  st_redemptionAdmin :: pubkey

record offer_vector =
  ov_startTime :: nat
  ov_baseTime :: nat
  ov_basePrice :: nat
  ov_apr :: nat
  ov_priceFixDuration :: nat

record offer_account =
  oa_tokenInMint :: pubkey
  oa_tokenOutMint :: pubkey
  oa_vectors :: "offer_vector list"
  oa_feeBasisPoints :: nat
  oa_needsApproval :: nat
  oa_allowPermissionless :: nat

record redemption_offer_account =
  ro_offer :: pubkey
  ro_tokenInMint :: pubkey
  ro_tokenOutMint :: pubkey
  ro_executedRedemptions :: nat
  ro_requestedRedemptions :: nat
  ro_feeBasisPoints :: nat
  ro_requestCounter :: nat

record redemption_request_account =
  rr_offer :: pubkey
  rr_requestId :: nat
  rr_redeemer :: pubkey
  rr_amount :: nat

text \<open>The offer of the program before version 3, as far as the upgrade reads it.\<close>

record old_offer_account =
  oo_sellTokenMint :: pubkey
  oo_buyToken1Mint :: pubkey

text \<open>\<open>getTokenAccountBalance\<close>, the parsed form of a token account, and \<open>getMint\<close>.\<close>

record token_balance =
  tb_amount :: string
  tb_uiAmountString :: "string option"
  tb_decimals :: nat

record parsed_token_account =
  pt_owner :: string
  pt_mint :: string
  pt_state :: string
  pt_closeAuthority :: "string option"
  pt_delegate :: "string option"
  pt_delegatedAmount :: "string option"

record mint_info =
  mt_decimals :: nat
  mt_supply :: nat
  mt_mintAuthority :: "pubkey option"

record memcmp_filter =
  mf_offset :: nat
  mf_bytes :: string

section \<open>Events\<close>

datatype validation = Valid | Invalid string

datatype prompt =
    PInput string "string option"
  | PNumber string jsval
  | PConfirm string jsval
  | PSelect string "(string \<times> string) list" jsval

datatype spinner = SpinStart string | SpinSucceed string | SpinFail string

datatype rpc_call =
    FetchState pubkey
  | FetchOffer pubkey
  | FetchRedemptionOffer pubkey
  | FetchRedemptionRequest pubkey
  | AllRedemptionRequests "memcmp_filter list"
  | GetAccountInfo pubkey
  | GetLatestBlockhash
  | SimulateView mcall
  | FetchOldState pubkey
  | FetchOldOffer pubkey
  | GetTokenAccountBalance pubkey
  | GetParsedAccountInfo pubkey
  | GetMint pubkey pubkey

text \<open>\<open>LogThrown s e\<close> is \<open>console.error(s, e)\<close>, which prints the thrown value in full.\<close>

text \<open>\<open>Sent t k\<close>: the transaction \<open>t\<close>, signed with the key \<open>k\<close>, is handed to the chain.\<close>

datatype event =
    Log string
  | LogErr string
  | LogThrown string exn
  | Table "string list" "nat list" "string list list"
  | Spin spinner
  | Asked prompt jsval
  | Called rpc_call
  | ClipboardWrite string
  | FileRead string
  | Sent transaction pubkey

type_synonym trace = "event list"

section \<open>The environment\<close>

record env =
  cfg :: NetworkConfig
  \<comment> \<open>\<open>new PublicKey(text)\<close>, which throws on a text that is no key\<close>
  newPublicKey :: "string \<Rightarrow> exn + pubkey"
  toBuffer :: "pubkey \<Rightarrow> buffer"
  TOKEN_PROGRAM_ID :: pubkey
  TOKEN_2022_PROGRAM_ID :: pubkey
  findProgramAddress :: "buffer list \<Rightarrow> pubkey \<Rightarrow> pubkey"
  connectionError :: "string \<Rightarrow> exn option"
  \<comment> \<open>\<open>getAssociatedTokenAddressSync(mint, owner, allowOwnerOffCurve, program)\<close>\<close>
  associatedTokenAddress :: "pubkey \<Rightarrow> pubkey \<Rightarrow> bool \<Rightarrow> pubkey \<Rightarrow> exn + pubkey"
  newBN :: "jsval \<Rightarrow> exn + int"
  bnToNumber :: "int \<Rightarrow> exn + int"
  bnToBuffer8 :: "int \<Rightarrow> exn + buffer"
  \<comment> \<open>\<open>.instruction()\<close>: Some where resolving or encoding the call throws\<close>
  instructionError :: "mcall \<Rightarrow> exn option"
  oldInstructionError :: "mcall \<Rightarrow> exn option"
  serializeTx :: "transaction \<Rightarrow> exn + buffer"
  bs58Encode :: "buffer \<Rightarrow> string"
  ixProgramId :: "tx_ix \<Rightarrow> pubkey"
  ixKeyCount :: "tx_ix \<Rightarrow> nat"
  dateParse :: "string \<Rightarrow> jsnum"
  toLocaleString :: "jsnum \<Rightarrow> string"
  homedir :: string
  dateNow :: "trace \<Rightarrow> int"
  fileExists :: "trace \<Rightarrow> string \<Rightarrow> bool"
  readFile :: "trace \<Rightarrow> string \<Rightarrow> exn + string"
  \<comment> \<open>\<open>Keypair.fromSecretKey(new Uint8Array(JSON.parse(text)))\<close>, by its public key\<close>
  keypairOfJson :: "string \<Rightarrow> exn + pubkey"
  keypairGenerate :: "trace \<Rightarrow> pubkey"
  inqInput :: "trace \<Rightarrow> string \<Rightarrow> string option \<Rightarrow> (string \<Rightarrow> validation) \<Rightarrow> exn + string"
  inqNumber :: "trace \<Rightarrow> string \<Rightarrow> jsval \<Rightarrow> (jsval \<Rightarrow> validation) \<Rightarrow> exn + jsval"
  inqConfirm :: "trace \<Rightarrow> string \<Rightarrow> jsval \<Rightarrow> exn + bool"
  inqSelect :: "trace \<Rightarrow> string \<Rightarrow> (string \<times> string) list \<Rightarrow> jsval \<Rightarrow> exn + string"
  rpcState :: "trace \<Rightarrow> pubkey \<Rightarrow> exn + state_account"
  rpcOffer :: "trace \<Rightarrow> pubkey \<Rightarrow> exn + offer_account"
  rpcRedemptionOffer :: "trace \<Rightarrow> pubkey \<Rightarrow> exn + redemption_offer_account"
  rpcRedemptionRequest :: "trace \<Rightarrow> pubkey \<Rightarrow> exn + redemption_request_account"
  rpcAllRedemptionRequests :: "trace \<Rightarrow> memcmp_filter list \<Rightarrow> exn + redemption_request_account list"
  rpcAccountInfo :: "trace \<Rightarrow> pubkey \<Rightarrow> exn + bool"
  rpcOldState :: "trace \<Rightarrow> pubkey \<Rightarrow> exn + pubkey"
  rpcOldOffer :: "trace \<Rightarrow> pubkey \<Rightarrow> exn + old_offer_account"
  rpcTokenBalance :: "trace \<Rightarrow> pubkey \<Rightarrow> exn + token_balance"
  rpcParsedAccount :: "trace \<Rightarrow> pubkey \<Rightarrow> exn + parsed_token_account option"
  rpcMint :: "trace \<Rightarrow> pubkey \<Rightarrow> pubkey \<Rightarrow> exn + mint_info"
  rpcBlockhash :: "trace \<Rightarrow> exn + string"
  rpcView :: "trace \<Rightarrow> mcall \<Rightarrow> exn + int"
  \<comment> \<open>\<open>tx.partialSign(keypair)\<close>: Some where the key is no signer of the transaction\<close>
  partialSign :: "transaction \<Rightarrow> pubkey \<Rightarrow> exn option"
  \<comment> \<open>\<open>sendAndConfirmTransaction\<close>: the signature, or the error with the logs it carries\<close>
  rpcSend :: "trace \<Rightarrow> transaction \<Rightarrow> pubkey \<Rightarrow> (exn \<times> string list option) + string"
  clipboardError :: "trace \<Rightarrow> string \<Rightarrow> exn option"

section \<open>Computations\<close>

text \<open>\<open>('e, 'a) run\<close>: a computation over events of any kind; \<open>io\<close> is the one of the scripts for Solana.\<close>

type_synonym ('e, 'a) run = "'e list \<Rightarrow> (exn + 'a) \<times> 'e list"

type_synonym 'a io = "(event, 'a) run"

definition ret :: "'a \<Rightarrow> ('e, 'a) run" where
  "ret x = (\<lambda>tr. (Inr x, tr))"

definition throw :: "exn \<Rightarrow> ('e, 'a) run" where
  "throw e = (\<lambda>tr. (Inl e, tr))"

definition bind :: "('e, 'a) run \<Rightarrow> ('a \<Rightarrow> ('e, 'b) run) \<Rightarrow> ('e, 'b) run" where
  "bind m f = (\<lambda>tr. case m tr of (Inl e, tr') \<Rightarrow> (Inl e, tr') | (Inr x, tr') \<Rightarrow> f x tr')"

definition andThen :: "('e, 'a) run \<Rightarrow> ('e, 'b) run \<Rightarrow> ('e, 'b) run" where
  "andThen m k = bind m (\<lambda>_. k)"

text \<open>\<open>try m catch (e) h\<close>; ending the process cannot be caught.\<close>

definition try_catch :: "('e, 'a) run \<Rightarrow> (exn \<Rightarrow> ('e, 'a) run) \<Rightarrow> ('e, 'a) run" where
  "try_catch m h = (\<lambda>tr. case m tr of
       (Inl (ExitProcess n), tr') \<Rightarrow> (Inl (ExitProcess n), tr')
     | (Inl e, tr') \<Rightarrow> h e tr'
     | (Inr x, tr') \<Rightarrow> (Inr x, tr'))"

definition tell :: "'e \<Rightarrow> ('e, unit) run" where
  "tell e = (\<lambda>tr. (Inr (), tr @ [e]))"

definition lift :: "exn + 'a \<Rightarrow> ('e, 'a) run" where
  "lift r = (\<lambda>tr. (r, tr))"

text \<open>An outside call: the event is recorded, then the answer given for the trace before it.\<close>

definition outside :: "'e \<Rightarrow> ('e list \<Rightarrow> exn + 'a) \<Rightarrow> ('e, 'a) run" where
  "outside e f = (\<lambda>tr. (f tr, tr @ [e]))"

definition observe :: "('e list \<Rightarrow> 'a) \<Rightarrow> ('e, 'a) run" where
  "observe f = (\<lambda>tr. (Inr (f tr), tr))"

text \<open>A prompt: the answer is part of the event; an abandoned prompt throws.\<close>

definition ask :: "prompt \<Rightarrow> ('a \<Rightarrow> jsval) \<Rightarrow> (trace \<Rightarrow> exn + 'a) \<Rightarrow> 'a io" where
  "ask p v f = (\<lambda>tr. case f tr of Inl e \<Rightarrow> (Inl e, tr) | Inr x \<Rightarrow> (Inr x, tr @ [Asked p (v x)]))"

fun tell_all :: "'e list \<Rightarrow> ('e, unit) run" where
  "tell_all [] = ret ()"
| "tell_all (e # es) = andThen (tell e) (tell_all es)"

definition do_when :: "bool \<Rightarrow> ('e, unit) run \<Rightarrow> ('e, unit) run" where
  "do_when b m = (if b then m else ret ())"

definition log_line :: "string \<Rightarrow> unit io" where
  "log_line s = tell (Log s)"

fun exn_message :: "exn \<Rightarrow> string" where
  "exn_message (Error s) = s"
| "exn_message (TypeError s) = s"
| "exn_message (RangeError s) = s"
| "exn_message (Library s) = s"
| "exn_message (ExitProcess n) = []"

text \<open>\<open>error.message || error\<close> on the console: the message, or the name of the error when it is empty.\<close>

definition exn_text :: "exn \<Rightarrow> string" where
  "exn_text e = (if exn_message e \<noteq> [] then exn_message e
     else case e of TypeError _ \<Rightarrow> ''TypeError'' | RangeError _ \<Rightarrow> ''RangeError'' | _ \<Rightarrow> ''Error'')"

lemmas io_defs = ret_def throw_def bind_def andThen_def try_catch_def tell_def lift_def outside_def
  observe_def ask_def do_when_def log_line_def

end
