(* ===== verification/Io_Logic.thy ===== *)
theory Io_Logic
  imports Cli_Io
begin

text \<open>
  Proof rules for computations, in the collection \<open>io_intros\<close>: \<open>io_all P m\<close> (every event that
  \<open>m\<close> adds satisfies \<open>P\<close>), \<open>io_inv Q m\<close> (\<open>m\<close> keeps the trace property \<open>Q\<close>) and \<open>io_res R m\<close> (a
  result of \<open>m\<close> satisfies \<open>R\<close>), with one rule per combinator, and the laws of \<open>bind\<close>.
\<close>

named_theorems io_intros
named_theorems io_simps

definition io_inv :: "('e list \<Rightarrow> bool) \<Rightarrow> ('e, 'a) run \<Rightarrow> bool" where
  "io_inv Q m \<longleftrightarrow> (\<forall>tr. Q tr \<longrightarrow> Q (snd (m tr)))"

definition io_res :: "('a \<Rightarrow> bool) \<Rightarrow> ('e, 'a) run \<Rightarrow> bool" where
  "io_res R m \<longleftrightarrow> (\<forall>tr x tr'. m tr = (Inr x, tr') \<longrightarrow> R x)"

section \<open>Laws of the combinators\<close>

lemma bind_ret [io_simps]: "bind (ret x) f = f x"
  by (simp add: io_defs)

lemma bind_throw [io_simps]: "bind (throw e) f = throw e"
  by (simp add: io_defs)

lemma bind_assoc [io_simps]: "bind (bind m f) g = bind m (\<lambda>x. bind (f x) g)"
  by (rule ext) (simp add: bind_def split: prod.splits sum.splits)

lemma andThen_ret [io_simps]: "andThen (ret x) k = k"
  by (simp add: andThen_def io_simps)

lemma lift_Inr [io_simps]: "lift (Inr x) = ret x" and lift_Inl [io_simps]: "lift (Inl e) = throw e"
  by (simp_all add: io_defs)

lemma do_when_True [io_simps]: "do_when True m = m" and do_when_False [io_simps]: "do_when False m = ret ()"
  by (simp_all add: do_when_def)

lemma bind_run: "m tr = (Inr x, tr') \<Longrightarrow> bind m f tr = f x tr'"
  by (simp add: bind_def)

lemma andThen_run: "m tr = (Inr x, tr') \<Longrightarrow> andThen m k tr = k tr'"
  by (simp add: andThen_def bind_def)

lemma bind_Inr_elim:
  assumes "bind m f tr = (Inr y, tr'')"
  obtains x tr' where "m tr = (Inr x, tr')" "f x tr' = (Inr y, tr'')"
  using assms by (auto simp: bind_def split: prod.splits sum.splits)

lemma tell_all_run: "tell_all es tr = (Inr (), tr @ es)"
  by (induction es arbitrary: tr) (simp_all add: ret_def andThen_def bind_def tell_def)

lemma log_line_run: "log_line s tr = (Inr (), tr @ [Log s])"
  by (simp add: log_line_def tell_def)

section \<open>Properties of the added events that are closed under appending\<close>

text \<open>
  A computation meets a trace contract \<open>P\<close> when the events it adds, as a whole, satisfy \<open>P\<close>. Contracts
  that hold of no events and of two blocks in a row compose along every combinator.
\<close>

definition io_trace :: "('e list \<Rightarrow> bool) \<Rightarrow> ('e, 'a) run \<Rightarrow> bool" where
  "io_trace P m \<longleftrightarrow> (\<forall>tr. \<exists>new. snd (m tr) = tr @ new \<and> P new)"

lemma io_res_True: "io_res (\<lambda>_. True) m"
  by (simp add: io_res_def)

lemma io_trace_mono: "io_trace P m \<Longrightarrow> (\<And>new. P new \<Longrightarrow> Q new) \<Longrightarrow> io_trace Q m"
  unfolding io_trace_def by blast

lemma io_traceD: "io_trace P m \<Longrightarrow> m tr = (r, tr') \<Longrightarrow> \<exists>new. tr' = tr @ new \<and> P new"
  by (metis io_trace_def snd_conv)

locale trace_contract =
  fixes P :: "'e list \<Rightarrow> bool"
  assumes nil: "P []"
    and append: "P a \<Longrightarrow> P b \<Longrightarrow> P (a @ b)"
begin

lemma contract_ret: "io_trace P (ret x)"
  by (auto simp: io_trace_def ret_def nil)

lemma contract_throw: "io_trace P (throw e)"
  by (auto simp: io_trace_def throw_def nil)

lemma contract_bind_res:
  assumes m: "io_trace P m" and r: "io_res R m" and f: "\<And>x. R x \<Longrightarrow> io_trace P (f x)"
  shows "io_trace P (bind m f)"
  unfolding io_trace_def
proof
  fix tr
  obtain q tr' where q: "m tr = (q, tr')" by fastforce
  from io_traceD [OF m q] obtain new where new: "tr' = tr @ new" "P new" by blast
  show "\<exists>new. snd (bind m f tr) = tr @ new \<and> P new"
  proof (cases q)
    case (Inl e)
    then show ?thesis using q new by (simp add: bind_def)
  next
    case (Inr x)
    then have "R x" using r q by (auto simp: io_res_def)
    then obtain new' where "snd (f x tr') = tr' @ new'" "P new'"
      using f by (meson io_trace_def)
    then show ?thesis using q new Inr append by (intro exI [of _ "new @ new'"]) (simp add: bind_def)
  qed
qed

lemma contract_bind: "io_trace P m \<Longrightarrow> (\<And>x. io_trace P (f x)) \<Longrightarrow> io_trace P (bind m f)"
  by (rule contract_bind_res [OF _ io_res_True])

lemma contract_andThen: "io_trace P m \<Longrightarrow> io_trace P k \<Longrightarrow> io_trace P (andThen m k)"
  by (simp add: andThen_def contract_bind)

lemma contract_if: "(b \<Longrightarrow> io_trace P m) \<Longrightarrow> (\<not> b \<Longrightarrow> io_trace P k) \<Longrightarrow> io_trace P (if b then m else k)"
  by simp

lemma contract_try_catch:
  assumes m: "io_trace P m" and h: "\<And>e. io_trace P (h e)"
  shows "io_trace P (try_catch m h)"
  unfolding io_trace_def
proof
  fix tr
  obtain q tr' where q: "m tr = (q, tr')" by fastforce
  from io_traceD [OF m q] obtain new where new: "tr' = tr @ new" "P new" by blast
  have "\<exists>new'. snd (h e tr') = tr' @ new' \<and> P new'" for e
    using h by (meson io_trace_def)
  then have "\<exists>new'. snd (h e tr') = tr @ new' \<and> P new'" for e
    using new append by (metis append.assoc)
  then show "\<exists>new. snd (try_catch m h tr) = tr @ new \<and> P new"
    using q new by (auto simp: try_catch_def split: sum.splits exn.splits)
qed

lemmas contract_rules = contract_ret contract_throw contract_bind contract_andThen contract_if contract_try_catch

end

text \<open>\<open>io_all\<close> is the contract that looks at each event alone.\<close>

interpretation each: trace_contract "list_all A" for A
  by unfold_locales auto

section \<open>Every added event\<close>

definition io_all :: "('e \<Rightarrow> bool) \<Rightarrow> ('e, 'a) run \<Rightarrow> bool" where
  "io_all P m \<longleftrightarrow> io_trace (list_all P) m"

lemma io_trace_of_all: "io_all A m \<Longrightarrow> (\<And>new. list_all A new \<Longrightarrow> P new) \<Longrightarrow> io_trace P m"
  unfolding io_all_def by (rule io_trace_mono)

lemma io_all_of_trace: "io_trace P m \<Longrightarrow> (\<And>new. P new \<Longrightarrow> list_all A new) \<Longrightarrow> io_all A m"
  unfolding io_all_def by (rule io_trace_mono)

lemma io_all_ret [io_intros]: "io_all P (ret x)"
  by (auto simp: io_all_def io_trace_def ret_def)

lemma io_all_throw [io_intros]: "io_all P (throw e)"
  by (auto simp: io_all_def io_trace_def throw_def)

lemma io_all_lift [io_intros]: "io_all P (lift r)"
  by (auto simp: io_all_def io_trace_def lift_def)

lemma io_all_observe [io_intros]: "io_all P (observe f)"
  by (auto simp: io_all_def io_trace_def observe_def)

lemma io_all_tell [io_intros]: "P e \<Longrightarrow> io_all P (tell e)"
  by (auto simp: io_all_def io_trace_def tell_def)

lemma io_all_log_line [io_intros]: "P (Log s) \<Longrightarrow> io_all P (log_line s)"
  by (simp add: log_line_def io_all_tell)

lemma io_all_outside [io_intros]: "P e \<Longrightarrow> io_all P (outside e f)"
  by (auto simp: io_all_def io_trace_def outside_def)

lemma io_all_ask [io_intros]: "(\<And>x. P (Asked p (v x))) \<Longrightarrow> io_all P (ask p v f)"
  by (auto simp: io_all_def io_trace_def ask_def split: sum.splits)

lemma io_allD:
  assumes "io_all P m" and "m tr = (r, tr')"
  shows "\<exists>new. tr' = tr @ new \<and> list_all P new"
  using assms by (metis io_all_def io_trace_def snd_conv)

lemma io_all_bind_res:
  "io_all P m \<Longrightarrow> io_res R m \<Longrightarrow> (\<And>x. R x \<Longrightarrow> io_all P (f x)) \<Longrightarrow> io_all P (bind m f)"
  unfolding io_all_def by (rule each.contract_bind_res)

lemma io_all_bind [io_intros]: "io_all P m \<Longrightarrow> (\<And>x. io_all P (f x)) \<Longrightarrow> io_all P (bind m f)"
  by (rule io_all_bind_res [OF _ io_res_True])

lemma io_all_andThen [io_intros]: "io_all P m \<Longrightarrow> io_all P k \<Longrightarrow> io_all P (andThen m k)"
  by (simp add: andThen_def io_all_bind)

lemma io_all_if [io_intros]:
  "(b \<Longrightarrow> io_all P m) \<Longrightarrow> (\<not> b \<Longrightarrow> io_all P k) \<Longrightarrow> io_all P (if b then m else k)"
  by simp

lemma io_all_do_when [io_intros]: "(b \<Longrightarrow> io_all P m) \<Longrightarrow> io_all P (do_when b m)"
  by (simp add: do_when_def io_all_ret)

lemma io_all_tell_all [io_intros]: "list_all P es \<Longrightarrow> io_all P (tell_all es)"
  by (induction es) (auto intro: io_intros)

lemma io_all_try_catch [io_intros]:
  "io_all P m \<Longrightarrow> (\<And>e. io_all P (h e)) \<Longrightarrow> io_all P (try_catch m h)"
  unfolding io_all_def by (rule each.contract_try_catch)

lemma io_all_case_option [io_intros]:
  "(x = None \<Longrightarrow> io_all P m) \<Longrightarrow> (\<And>y. x = Some y \<Longrightarrow> io_all P (f y)) \<Longrightarrow>
     io_all P (case x of None \<Rightarrow> m | Some y \<Rightarrow> f y)"
  by (cases x) auto

lemma io_all_case_sum [io_intros]:
  "(\<And>e. x = Inl e \<Longrightarrow> io_all P (g e)) \<Longrightarrow> (\<And>y. x = Inr y \<Longrightarrow> io_all P (f y)) \<Longrightarrow>
     io_all P (case x of Inl e \<Rightarrow> g e | Inr y \<Rightarrow> f y)"
  by (cases x) auto

lemma io_all_mono: "io_all P m \<Longrightarrow> (\<And>e. P e \<Longrightarrow> Q e) \<Longrightarrow> io_all Q m"
  unfolding io_all_def io_trace_def by (metis (mono_tags, lifting) list.pred_mono_strong)

section \<open>Results\<close>

lemma io_res_bind: "(\<And>x. io_res R (f x)) \<Longrightarrow> io_res R (bind m f)"
  by (auto simp: io_res_def bind_def split: prod.splits sum.splits)

lemma io_res_bind2: "io_res S m \<Longrightarrow> (\<And>x. S x \<Longrightarrow> io_res R (f x)) \<Longrightarrow> io_res R (bind m f)"
  by (fastforce simp: io_res_def bind_def split: prod.splits sum.splits)

lemma io_res_mono: "io_res R m \<Longrightarrow> (\<And>x. R x \<Longrightarrow> S x) \<Longrightarrow> io_res S m"
  by (auto simp: io_res_def)

lemma io_res_ret: "R x \<Longrightarrow> io_res R (ret x)"
  by (simp add: io_res_def ret_def)

lemma io_res_throw: "io_res R (throw e)"
  by (simp add: io_res_def throw_def)

lemma io_res_if: "(b \<Longrightarrow> io_res R m) \<Longrightarrow> (\<not> b \<Longrightarrow> io_res R k) \<Longrightarrow> io_res R (if b then m else k)"
  by simp

lemma io_res_andThen: "io_res R k \<Longrightarrow> io_res R (andThen m k)"
  by (simp add: andThen_def io_res_bind)

lemmas io_res_intros = io_res_bind io_res_ret io_res_throw io_res_if io_res_andThen

section \<open>Invariants of the trace\<close>

lemma io_inv_bind: "io_inv Q m \<Longrightarrow> (\<And>x. io_inv Q (f x)) \<Longrightarrow> io_inv Q (bind m f)"
  by (fastforce simp: io_inv_def bind_def split: prod.splits sum.splits)

lemma io_inv_try_catch: "io_inv Q m \<Longrightarrow> (\<And>e. io_inv Q (h e)) \<Longrightarrow> io_inv Q (try_catch m h)"
  by (fastforce simp: io_inv_def try_catch_def split: prod.splits sum.splits exn.splits)

text \<open>A trace property that no event with \<open>P\<close> can break is kept by whatever adds such events only.\<close>

lemma io_inv_of_all:
  assumes "io_all P m" and step: "\<And>tr e. Q tr \<Longrightarrow> P e \<Longrightarrow> Q (tr @ [e])"
  shows "io_inv Q m"
proof -
  have "Q tr \<Longrightarrow> list_all P new \<Longrightarrow> Q (tr @ new)" for tr new
  proof (induction new arbitrary: tr)
    case (Cons a new)
    then have "Q ((tr @ [a]) @ new)" using step by fastforce
    then show ?case by simp
  qed simp
  then show ?thesis using assms(1) by (auto simp: io_inv_def io_all_def io_trace_def) metis
qed

section \<open>Computations that succeed\<close>

text \<open>\<open>io_ok R m\<close>: after every trace \<open>m\<close> returns, and the result satisfies \<open>R\<close>.\<close>

definition io_ok :: "('a \<Rightarrow> bool) \<Rightarrow> ('e, 'a) run \<Rightarrow> bool" where
  "io_ok R m \<longleftrightarrow> (\<forall>tr. \<exists>x tr'. m tr = (Inr x, tr') \<and> R x)"

named_theorems ok_intros

lemma io_ok_ret [ok_intros]: "R x \<Longrightarrow> io_ok R (ret x)"
  by (simp add: io_ok_def ret_def)

lemma io_ok_bind: "io_ok S m \<Longrightarrow> (\<And>x. S x \<Longrightarrow> io_ok R (f x)) \<Longrightarrow> io_ok R (bind m f)"
  unfolding io_ok_def bind_def by (metis (mono_tags, lifting) case_prod_conv sum.case(2))

lemma io_ok_andThen: "io_ok (\<lambda>_. True) m \<Longrightarrow> io_ok R k \<Longrightarrow> io_ok R (andThen m k)"
  unfolding andThen_def by (rule io_ok_bind)

lemma io_ok_tell [ok_intros]: "io_ok (\<lambda>_. True) (tell e)" and io_ok_log_line [ok_intros]: "io_ok (\<lambda>_. True) (log_line s)"
  by (simp_all add: io_ok_def log_line_def tell_def)

lemma io_ok_tell_all [ok_intros]: "io_ok (\<lambda>_. True) (tell_all es)"
  by (simp add: io_ok_def tell_all_run)

lemma io_ok_lift [ok_intros]: "r = Inr x \<Longrightarrow> R x \<Longrightarrow> io_ok R (lift r)"
  by (simp add: io_ok_def lift_def)

lemma io_ok_outside [ok_intros]: "(\<And>tr. \<exists>x. f tr = Inr x \<and> R x) \<Longrightarrow> io_ok R (outside e f)"
  by (auto simp: io_ok_def outside_def)

lemma io_ok_observe [ok_intros]: "(\<And>tr. R (f tr)) \<Longrightarrow> io_ok R (observe f)"
  by (simp add: io_ok_def observe_def)

lemma io_ok_mono: "io_ok S m \<Longrightarrow> (\<And>x. S x \<Longrightarrow> R x) \<Longrightarrow> io_ok R m"
  by (meson io_ok_def)

lemma io_ok_if [ok_intros]: "(b \<Longrightarrow> io_ok R m) \<Longrightarrow> (\<not> b \<Longrightarrow> io_ok R k) \<Longrightarrow> io_ok R (if b then m else k)"
  by simp

lemma io_ok_do_when [ok_intros]: "(b \<Longrightarrow> io_ok (\<lambda>_. True) m) \<Longrightarrow> io_ok (\<lambda>_. True) (do_when b m)"
  by (simp add: do_when_def ok_intros)

lemma io_ok_try_catch [ok_intros]: "io_ok R m \<Longrightarrow> io_ok R (try_catch m h)"
  unfolding io_ok_def try_catch_def by (metis (mono_tags, lifting) case_prod_conv sum.case(2))

lemma io_res_failing: "io_res (\<lambda>_. False) m \<Longrightarrow> io_res R (andThen m k)"
  unfolding andThen_def by (rule io_res_bind2 [where S = "\<lambda>_. False"]) simp_all

end
