(* ===== verification/Script_Helper.thy ===== *)
theory Script_Helper
  imports Io_Logic
begin

text \<open>
  \<^verbatim>\<open>scripts/utils/script-helper.ts\<close>: the class \<open>ScriptHelper\<close> (program handle, wallet and derived
  addresses), its account getters, one builder per program instruction, and the preparation and
  serialisation of transactions. Parameter objects and command parameters are association lists;
  \<open>fld\<close> reads a property, undefined when it is missing.
\<close>

type_synonym jsobj = "(string \<times> jsval) list"

definition fld :: "jsobj \<Rightarrow> string \<Rightarrow> jsval" where
  "fld obj k = (case map_of obj k of Some v \<Rightarrow> v | None \<Rightarrow> JUndefined)"

text \<open>\<open>a ?? b\<close>\<close>

fun nullish :: "jsval \<Rightarrow> jsval \<Rightarrow> jsval" where
  "nullish JUndefined d = d"
| "nullish JNull d = d"
| "nullish v d = v"

abbreviation jnum :: "int \<Rightarrow> jsval" where
  "jnum n \<equiv> JNum (Fin (of_int n))"

record ScriptHelper =
  h_programId :: pubkey
  statePda :: pubkey
  h_wallet :: pubkey
  walletSource :: string
  offerVaultAuthorityPda :: pubkey
  permissionlessVaultAuthorityPda :: pubkey
  mintAuthorityPda :: pubkey

section \<open>Construction\<close>

definition new_ScriptHelper :: "env \<Rightarrow> pubkey \<Rightarrow> pubkey \<Rightarrow> string \<Rightarrow> ScriptHelper" where
  "new_ScriptHelper E prog wallet source =
     \<lparr>h_programId = prog,
      statePda = findProgramAddress E [''state''] prog,
      h_wallet = wallet,
      walletSource = source,
      offerVaultAuthorityPda = findProgramAddress E [''offer_vault_authority''] prog,
      permissionlessVaultAuthorityPda = findProgramAddress E [''permissionless-1''] prog,
      mintAuthorityPda = findProgramAddress E [''mint_authority''] prog\<rparr>"

text \<open>The address the copied interface description gets; the program handle lives at this address.\<close>

definition getIdlWithProgramId :: "env \<Rightarrow> string" where
  "getIdlWithProgramId E = toBase58 (programId (cfg E))"

text \<open>\<open>s.replace(/^~/, r)\<close>\<close>

definition replace_tilde :: "string \<Rightarrow> string \<Rightarrow> string" where
  "replace_tilde r s = (case s of [] \<Rightarrow> [] | c # cs \<Rightarrow> if c = CHR ''~'' then r @ cs else s)"

definition line_end :: "char \<Rightarrow> bool" where
  "line_end c \<longleftrightarrow> c \<in> {CHR 0x0A, CHR 0x0D}"

text \<open>
  The match of \<^verbatim>\<open>/keypair_path:\s*(.+)/\<close>: the white space after the label is skipped greedily; when
  nothing follows it, the group gives back blanks of it, which trim to the empty text.
\<close>

fun match_keypair_path :: "string \<Rightarrow> string option" where
  "match_keypair_path s = (case after_first ''keypair_path:'' s of
       None \<Rightarrow> None
     | Some t \<Rightarrow> (let u = dropWhile is_ws t in
         if u \<noteq> [] then Some (takeWhile (\<lambda>c. \<not> line_end c) u)
         else if \<exists>c\<in>set t. \<not> line_end c then Some '' '' else None))"

definition getSolanaCliKeypairPath :: "env \<Rightarrow> string option io" where
  "getSolanaCliKeypairPath E =
     (let configPath = homedir E @ ''/.config/solana/cli/config.yml'' in
      try_catch
        (bind (outside (FileRead configPath) (\<lambda>tr. readFile E tr configPath)) (\<lambda>configContent.
           ret (map_option (\<lambda>m. replace_tilde (homedir E) (js_trim m)) (match_keypair_path configContent))))
        (\<lambda>_. ret None))"

definition load_keypair :: "env \<Rightarrow> string \<Rightarrow> pubkey io" where
  "load_keypair E path =
     bind (outside (FileRead path) (\<lambda>tr. readFile E tr path)) (\<lambda>keypairData.
       lift (keypairOfJson E keypairData))"

definition resolve_wallet :: "env \<Rightarrow> string option \<Rightarrow> (pubkey \<times> string) io" where
  "resolve_wallet E walletPath =
     (if walletPath \<noteq> None \<and> the walletPath \<noteq> [] then
        (let p = the walletPath;
             keypairPath = (if CHR ''/'' \<in> set p \<or> CHR 0x5C \<in> set p then replace_tilde (homedir E) p
                            else homedir E @ ''/.config/solana/'' @ p @ ''.json'')
         in bind (load_keypair E keypairPath) (\<lambda>k. ret (k, keypairPath)))
      else
        bind (getSolanaCliKeypairPath E) (\<lambda>cliKeypairPath.
        bind (observe (\<lambda>tr. cliKeypairPath \<noteq> None \<and> the cliKeypairPath \<noteq> []
                        \<and> fileExists E tr (the cliKeypairPath))) (\<lambda>found.
          if found then bind (load_keypair E (the cliKeypairPath)) (\<lambda>k. ret (k, the cliKeypairPath))
          else bind (observe (keypairGenerate E)) (\<lambda>k. ret (k, ''generated (read-only)'')))))"

definition create :: "env \<Rightarrow> string option \<Rightarrow> ScriptHelper io" where
  "create E walletPath =
     (case connectionError E (rpcUrl (cfg E)) of
        Some e \<Rightarrow> throw e
      | None \<Rightarrow>
          bind (resolve_wallet E walletPath) (\<lambda>ws.
          andThen (log_line (''Wallet:  '' @ toBase58 (fst ws) @ '' ('' @ snd ws @ '')'' @ newline))
            (ret (new_ScriptHelper E (PublicKey (getIdlWithProgramId E)) (fst ws) (snd ws)))))"

section \<open>Accounts and derived addresses\<close>

definition getState :: "env \<Rightarrow> ScriptHelper \<Rightarrow> state_account io" where
  "getState E h = outside (Called (FetchState (statePda h))) (\<lambda>tr. rpcState E tr (statePda h))"

definition getBoss :: "env \<Rightarrow> ScriptHelper \<Rightarrow> jsval io" where
  "getBoss E h =
     bind (outside (Called (FetchState (statePda h))) (\<lambda>tr. rpcState E tr (statePda h)))
       (\<lambda>stateAccount. ret (JPk (st_boss stateAccount)))"

definition key_buffer :: "env \<Rightarrow> jsval \<Rightarrow> exn + buffer" where
  "key_buffer E v = res_bind (as_pubkey ''toBuffer'' v) (\<lambda>k. Inr (toBuffer E k))"

definition getOfferPda :: "env \<Rightarrow> ScriptHelper \<Rightarrow> jsval \<Rightarrow> jsval \<Rightarrow> exn + pubkey" where
  "getOfferPda E h tokenInMint tokenOutMint =
     res_bind (key_buffer E tokenInMint) (\<lambda>a. res_bind (key_buffer E tokenOutMint) (\<lambda>b.
       Inr (findProgramAddress E [''offer'', a, b] (h_programId h))))"

definition getOffer :: "env \<Rightarrow> ScriptHelper \<Rightarrow> jsval \<Rightarrow> jsval \<Rightarrow> offer_account io" where
  "getOffer E h tokenInMint tokenOutMint =
     bind (lift (getOfferPda E h tokenInMint tokenOutMint)) (\<lambda>offerPda.
     andThen (log_line (''Offer PDA: '' @ toBase58 offerPda))
       (outside (Called (FetchOffer offerPda)) (\<lambda>tr. rpcOffer E tr offerPda)))"

definition getRedemptionOfferPda :: "env \<Rightarrow> ScriptHelper \<Rightarrow> jsval \<Rightarrow> jsval \<Rightarrow> exn + pubkey" where
  "getRedemptionOfferPda E h tokenInMint tokenOutMint =
     res_bind (key_buffer E tokenInMint) (\<lambda>a. res_bind (key_buffer E tokenOutMint) (\<lambda>b.
       Inr (findProgramAddress E [''redemption_offer'', a, b] (h_programId h))))"

definition getRedemptionRequestPda :: "env \<Rightarrow> ScriptHelper \<Rightarrow> pubkey \<Rightarrow> jsval \<Rightarrow> exn + pubkey" where
  "getRedemptionRequestPda E h redemptionOffer counter =
     res_bind (newBN E counter) (\<lambda>n. res_bind (bnToBuffer8 E n) (\<lambda>c.
       Inr (findProgramAddress E [''redemption_request'', toBuffer E redemptionOffer, c] (h_programId h))))"

definition fetchRedemptionOffer ::
  "env \<Rightarrow> ScriptHelper \<Rightarrow> jsval \<Rightarrow> jsval \<Rightarrow> redemption_offer_account io" where
  "fetchRedemptionOffer E h tokenInMint tokenOutMint =
     bind (lift (getRedemptionOfferPda E h tokenInMint tokenOutMint)) (\<lambda>pda.
       outside (Called (FetchRedemptionOffer pda)) (\<lambda>tr. rpcRedemptionOffer E tr pda))"

definition fetchRedemptionRequest ::
  "env \<Rightarrow> ScriptHelper \<Rightarrow> pubkey \<Rightarrow> jsval \<Rightarrow> redemption_request_account io" where
  "fetchRedemptionRequest E h redemptionOffer counter =
     bind (lift (getRedemptionRequestPda E h redemptionOffer counter)) (\<lambda>pda.
       outside (Called (FetchRedemptionRequest pda)) (\<lambda>tr. rpcRedemptionRequest E tr pda))"

definition ata :: "env \<Rightarrow> jsval \<Rightarrow> jsval \<Rightarrow> bool \<Rightarrow> jsval \<Rightarrow> exn + pubkey" where
  "ata E mint owner offCurve program =
     res_bind (as_pubkey ''toBuffer'' owner) (\<lambda>w. res_bind (as_pubkey ''toBuffer'' program) (\<lambda>p.
     res_bind (as_pubkey ''toBuffer'' mint) (\<lambda>m. associatedTokenAddress E m w offCurve p)))"

text \<open>One of the two blocks that create a missing associated account of the permissionless authority.\<close>

definition create_if_missing :: "env \<Rightarrow> ScriptHelper \<Rightarrow> jsval \<Rightarrow> jsval \<Rightarrow> jsval \<Rightarrow> tx_ix list io" where
  "create_if_missing E h mint program payer =
     (let owner = permissionlessVaultAuthorityPda h in
      bind (lift (ata E mint (JPk owner) True program)) (\<lambda>account.
      bind (outside (Called (GetAccountInfo account)) (\<lambda>tr. rpcAccountInfo E tr account)) (\<lambda>exists.
      bind (lift (as_pubkey ''toBuffer'' program)) (\<lambda>p.
        ret (if exists then [] else [CreateAtaIx payer account owner mint p])))))"

definition buildCreatePermissionlessTokenAccountsIxs :: "env \<Rightarrow> ScriptHelper \<Rightarrow> jsobj \<Rightarrow> tx_ix list io" where
  "buildCreatePermissionlessTokenAccountsIxs E h params =
     bind (create_if_missing E h (fld params ''tokenInMint'') (fld params ''tokenInProgram'')
             (fld params ''payer'')) (\<lambda>createTokenIn.
     bind (create_if_missing E h (fld params ''tokenOutMint'') (fld params ''tokenOutProgram'')
             (fld params ''payer'')) (\<lambda>createTokenOut.
       ret (createTokenIn @ createTokenOut)))"

section \<open>Instruction builders\<close>

definition instruction :: "env \<Rightarrow> bool \<Rightarrow> string \<Rightarrow> jsval list \<Rightarrow> (string \<times> jsval) list \<Rightarrow> tx_ix io" where
  "instruction E partial m args accounts =
     (let c = \<lparr>mc_method = m, mc_args = args, mc_accounts = accounts, mc_partial = partial\<rparr> in
      case instructionError E c of Some e \<Rightarrow> throw e | None \<Rightarrow> ret (AnchorIx c))"

definition new_BN :: "env \<Rightarrow> jsval \<Rightarrow> jsval io" where
  "new_BN E v = bind (lift (newBN E v)) (\<lambda>n. ret (JBN n))"

definition take_fields :: "string list \<Rightarrow> jsobj \<Rightarrow> (string \<times> jsval) list" where
  "take_fields ks params = List.map (\<lambda>k. (k, fld params k)) ks"

definition token_program_of :: "env \<Rightarrow> jsobj \<Rightarrow> string \<Rightarrow> jsval" where
  "token_program_of E params k = nullish (fld params k) (JPk (TOKEN_PROGRAM_ID E))"

end
