(* ===== verification/Cli_Params.thy ===== *)
theory Cli_Params
  imports Script_Helper
begin

text \<open>
  \<^verbatim>\<open>cli/prompts/types.ts\<close> and \<^verbatim>\<open>cli/params/*.ts\<close>: the description of a command parameter and the
  parameter tables of the commands.
\<close>

section \<open>Parameter descriptions\<close>

datatype ParamType = PublicKeyParam | MintParam | AmountParam | BasisPointsParam | AprParam
  | TimestampParam | DurationParam | BooleanParam | StringParam | SelectParam

datatype param_default = NoDefault | DefaultValue jsval | DefaultOf "NetworkConfig \<Rightarrow> jsval"

record ParamDefinition =
  p_name :: string
  p_type :: ParamType
  description :: string
  required :: bool
  p_default :: param_default
  flag :: "string option"
  shortFlag :: "string option"
  choices :: "(string \<times> string) list option"
  p_validate :: "(env \<Rightarrow> string \<Rightarrow> validation) option"
  transform :: "(env \<Rightarrow> jsval \<Rightarrow> exn + jsval) option"

text \<open>\<open>typeof param.default === "function" ? param.default(config) : param.default\<close>\<close>

fun default_value :: "NetworkConfig \<Rightarrow> param_default \<Rightarrow> jsval" where
  "default_value c NoDefault = JUndefined"
| "default_value c (DefaultValue v) = v"
| "default_value c (DefaultOf f) = f c"

definition param :: "string \<Rightarrow> ParamType \<Rightarrow> string \<Rightarrow> bool \<Rightarrow> param_default \<Rightarrow> string \<Rightarrow> string option
    \<Rightarrow> ParamDefinition" where
  "param n t d r df fl sf =
     \<lparr>p_name = n, p_type = t, description = d, required = r, p_default = df, flag = Some fl,
      shortFlag = sf, choices = None, p_validate = None, transform = None\<rparr>"

section \<open>Common parameters\<close>

definition tokenPairParams :: "ParamDefinition list" where
  "tokenPairParams =
     [param ''tokenIn'' MintParam ''Token in mint (e.g., USDC)'' True
        (DefaultOf (\<lambda>c. JPk (usdc (mints c)))) ''--token-in'' (Some ''-i''),
      param ''tokenOut'' MintParam ''Token out mint (e.g., ONyc)'' True
        (DefaultOf (\<lambda>c. JPk (onyc (mints c)))) ''--token-out'' (Some ''-o'')]"

definition vaultParams :: "ParamDefinition list" where
  "vaultParams =
     [param ''tokenMint'' MintParam ''Token mint to deposit/withdraw'' True NoDefault ''--token'' (Some ''-t''),
      param ''amount'' AmountParam ''Amount (raw, with decimals)'' True NoDefault ''--amount'' (Some ''-a'')]"

definition feeParam :: ParamDefinition where
  "feeParam = param ''fee'' BasisPointsParam ''Fee in basis points (100 = 1%)'' True NoDefault ''--fee'' (Some ''-f'')"

section \<open>Initialization and mint authority\<close>

definition initProgramParams :: "ParamDefinition list" where
  "initProgramParams =
     [param ''onycMint'' MintParam ''ONyc mint address'' True
        (DefaultOf (\<lambda>c. JPk (onyc (mints c)))) ''--onyc-mint'' None]"

definition initPermissionlessParams :: "ParamDefinition list" where
  "initPermissionlessParams =
     [param ''name'' StringParam ''Authority name (e.g., 'permissionless-1')'' True
        (DefaultValue (JStr ''permissionless-1'')) ''--name'' None]"

definition mintParams :: "ParamDefinition list" where
  "mintParams =
     [param ''mint'' MintParam ''Mint address'' True
        (DefaultOf (\<lambda>c. JPk (onyc (mints c)))) ''--mint'' (Some ''-m''),
      param ''amount'' AmountParam ''Amount to mint'' True NoDefault ''--amount'' (Some ''-a'')]"

definition transferMintAuthorityParams :: "ParamDefinition list" where
  "transferMintAuthorityParams =
     [param ''mint'' MintParam ''Mint address'' True
        (DefaultOf (\<lambda>c. JPk (onyc (mints c)))) ''--mint'' (Some ''-m'')]"

section \<open>Offers\<close>

definition makeOfferParams :: "ParamDefinition list" where
  "makeOfferParams = tokenPairParams @
     [param ''fee'' BasisPointsParam ''Fee in basis points'' False (DefaultValue (jnum 0)) ''--fee'' (Some ''-f''),
      param ''needsApproval'' BooleanParam ''Require approval for transactions'' False
        (DefaultValue (JBool False)) ''--needs-approval'' None,
      param ''permissionless'' BooleanParam ''Allow permissionless transactions'' False
        (DefaultValue (JBool True)) ''--permissionless'' None]"

definition addVectorParams :: "ParamDefinition list" where
  "addVectorParams = tokenPairParams @
     [param ''baseTime'' TimestampParam ''Base time for the vector'' True NoDefault ''--base-time'' None,
      param ''basePrice'' AmountParam ''Base price (scaled by 1e9, so 1.0 = 1000000000)'' True
        (DefaultValue (jnum 1000000000)) ''--base-price'' None,
      param ''apr'' AprParam ''APR value (scale=6, so 1% = 10000)'' True NoDefault ''--apr'' None,
      param ''duration'' DurationParam ''Price fix duration in seconds'' True NoDefault ''--duration'' None]"

definition deleteVectorParams :: "ParamDefinition list" where
  "deleteVectorParams = tokenPairParams @
     [param ''startTime'' TimestampParam ''Vector start timestamp to delete'' True NoDefault ''--start-time'' None]"

definition updateFeeParams :: "ParamDefinition list" where
  "updateFeeParams = tokenPairParams @
     [param ''fee'' BasisPointsParam ''New fee in basis points'' True NoDefault ''--fee'' (Some ''-f'')]"

definition takeOfferParams :: "ParamDefinition list" where
  "takeOfferParams = tokenPairParams @
     [param ''amount'' AmountParam ''Amount of token in to provide (raw, with decimals)'' True NoDefault
        ''--amount'' (Some ''-a''),
      param ''permissionless'' BooleanParam ''Use permissionless flow'' True
        (DefaultValue (JBool False)) ''--permissionless'' None]"

section \<open>Redemptions\<close>

text \<open>The redemption tables default to selling ONyc for USDC, the other way round.\<close>

definition redemptionTokenPairParams :: "ParamDefinition list" where
  "redemptionTokenPairParams =
     [param ''tokenIn'' MintParam ''Token in mint (ONyc for redemptions)'' True
        (DefaultOf (\<lambda>c. JPk (onyc (mints c)))) ''--token-in'' (Some ''-i''),
      param ''tokenOut'' MintParam ''Token out mint (USDC for redemptions)'' True
        (DefaultOf (\<lambda>c. JPk (usdc (mints c)))) ''--token-out'' (Some ''-o'')]"

definition redemptionOfferParams :: "ParamDefinition list" where
  "redemptionOfferParams = redemptionTokenPairParams @
     [param ''fee'' BasisPointsParam ''Redemption fee in basis points'' False (DefaultValue (jnum 0))
        ''--fee'' (Some ''-f'')]"

definition createRequestParams :: "ParamDefinition list" where
  "createRequestParams = redemptionTokenPairParams @
     [param ''amount'' AmountParam ''Amount of tokens to redeem'' True NoDefault ''--amount'' (Some ''-a'')]"

text \<open>\<open>String(v)\<close>\<close>

fun js_string :: "jsval \<Rightarrow> string" where
  "js_string JUndefined = ''undefined''"
| "js_string JNull = ''null''"
| "js_string (JBool b) = (if b then ''true'' else ''false'')"
| "js_string (JNum x) = num_str x"
| "js_string (JStr s) = s"
| "js_string (JPk k) = toBase58 k"
| "js_string (JBN n) = int_str n"

text \<open>
  The number that an arithmetic operator or a numeric validator reads. Numeric parameters are
  numbers or missing; a value of another type counts as missing.
\<close>

fun as_number :: "jsval \<Rightarrow> jsnum" where
  "as_number (JNum x) = x"
| "as_number JNull = Fin 0"
| "as_number _ = NaN"

definition requestId_transform :: "env \<Rightarrow> jsval \<Rightarrow> exn + jsval" where
  "requestId_transform E v = Inr (JNum (parseInt10 (js_string v)))"

definition requestParams :: "ParamDefinition list" where
  "requestParams = redemptionTokenPairParams @
     [(param ''requestId'' StringParam ''Redemption request ID'' True NoDefault ''--request-id'' None)
        \<lparr>transform := Some requestId_transform\<rparr>]"

definition updateRedemptionFeeParams :: "ParamDefinition list" where
  "updateRedemptionFeeParams = redemptionTokenPairParams @
     [param ''fee'' BasisPointsParam ''New redemption fee in basis points'' True NoDefault ''--fee'' (Some ''-f'')]"

definition redeemer_validate :: "env \<Rightarrow> string \<Rightarrow> validation" where
  "redeemer_validate E s =
     (if s = [] \<or> js_trim s = [] then Valid
      else case newPublicKey E (js_trim s) of Inr k \<Rightarrow> Valid | Inl e \<Rightarrow> Invalid ''Invalid public key format'')"

definition redeemer_transform :: "env \<Rightarrow> jsval \<Rightarrow> exn + jsval" where
  "redeemer_transform E v =
     (if \<not> js_truthy v then Inr JUndefined
      else case v of
          JStr s \<Rightarrow> if js_trim s = [] then Inr JUndefined
                    else res_bind (newPublicKey E (js_trim s)) (\<lambda>k. Inr (JPk k))
        | _ \<Rightarrow> Inr v)"

definition listRequestsParams :: "ParamDefinition list" where
  "listRequestsParams = redemptionTokenPairParams @
     [(param ''redeemer'' StringParam ''Filter by redeemer address (leave empty for all)'' False NoDefault
        ''--redeemer'' (Some ''-r''))
        \<lparr>p_validate := Some redeemer_validate, transform := Some redeemer_transform\<rparr>]"

section \<open>Program state\<close>

definition proposeBossParams :: "ParamDefinition list" where
  "proposeBossParams = [param ''newBoss'' PublicKeyParam ''New boss public key'' True NoDefault ''--new-boss'' None]"

definition acceptBossParams :: "ParamDefinition list" where
  "acceptBossParams =
     [param ''newBoss'' PublicKeyParam ''New boss public key (must match proposed boss)'' True NoDefault ''--new-boss'' None]"

definition adminParams :: "ParamDefinition list" where
  "adminParams = [param ''admin'' PublicKeyParam ''Admin public key'' True NoDefault ''--admin'' None]"

definition approverParams :: "ParamDefinition list" where
  "approverParams = [param ''approver'' PublicKeyParam ''Approver public key'' True NoDefault ''--approver'' None]"

definition setOnycMintParams :: "ParamDefinition list" where
  "setOnycMintParams =
     [param ''mint'' MintParam ''ONyc mint address'' True (DefaultOf (\<lambda>c. JPk (onyc (mints c)))) ''--mint'' None]"

definition maxSupplyParams :: "ParamDefinition list" where
  "maxSupplyParams =
     [param ''amount'' AmountParam ''Maximum supply amount (raw, with 9 decimals)'' True NoDefault ''--amount'' None]"

definition redemptionAdminParams :: "ParamDefinition list" where
  "redemptionAdminParams =
     [param ''redemptionAdmin'' PublicKeyParam ''Redemption admin public key'' True NoDefault
        ''--redemption-admin'' None]"

lemmas param_tables = tokenPairParams_def vaultParams_def feeParam_def initProgramParams_def
  initPermissionlessParams_def mintParams_def transferMintAuthorityParams_def makeOfferParams_def
  addVectorParams_def deleteVectorParams_def updateFeeParams_def takeOfferParams_def
  redemptionTokenPairParams_def redemptionOfferParams_def createRequestParams_def requestParams_def
  updateRedemptionFeeParams_def listRequestsParams_def proposeBossParams_def acceptBossParams_def
  adminParams_def approverParams_def setOnycMintParams_def maxSupplyParams_def redemptionAdminParams_def

end
