(* ===== verification/Cli_Prompts.thy ===== *)
theory Cli_Prompts
  imports Cli_Params
begin

text \<open>
  \<^verbatim>\<open>cli/prompts/validators.ts\<close> and \<^verbatim>\<open>cli/prompts/index.ts\<close>: the validators, one prompt per parameter
  type, the conversion of values given on the command line, and \<open>promptForParams\<close>, which combines
  them. A prompt of the inquirer library is a parameter of the environment that receives the
  message, the default and the validator.
\<close>

section \<open>Validators\<close>

fun js_isNaN :: "jsnum \<Rightarrow> bool" where
  "js_isNaN NaN = True"
| "js_isNaN _ = False"

definition validatePublicKey :: "env \<Rightarrow> string \<Rightarrow> validation" where
  "validatePublicKey E value =
     (if value = [] \<or> js_trim value = [] then Invalid ''Public key is required''
      else case newPublicKey E (js_trim value) of
          Inr k \<Rightarrow> Valid
        | Inl e \<Rightarrow> Invalid ''Invalid public key format'')"

text \<open>The numeric validators refuse a missing value before they look at the number.\<close>

definition no_number :: "jsval \<Rightarrow> bool" where
  "no_number v \<longleftrightarrow> v = JUndefined \<or> v = JNull \<or> js_isNaN (as_number v)"

definition validateBasisPoints :: "jsval \<Rightarrow> validation" where
  "validateBasisPoints v = (let value = as_number v in
     if no_number v then Invalid ''Basis points value is required''
     else if js_lt value 0 \<or> js_gt value 10000 then Invalid ''Basis points must be between 0 and 10000''
     else if \<not> js_isInteger value then Invalid ''Basis points must be a whole number''
     else Valid)"

definition validateAmount :: "jsval \<Rightarrow> validation" where
  "validateAmount v = (let value = as_number v in
     if no_number v then Invalid ''Amount is required''
     else if js_le value 0 then Invalid ''Amount must be positive''
     else if \<not> js_isInteger value then Invalid ''Amount must be a whole number''
     else Valid)"

definition validateApr :: "jsval \<Rightarrow> validation" where
  "validateApr v = (let value = as_number v in
     if no_number v then Invalid ''APR is required''
     else if js_lt value 0 then Invalid ''APR cannot be negative''
     else Valid)"

definition validateTimestamp :: "env \<Rightarrow> jsval \<Rightarrow> validation" where
  "validateTimestamp E value =
     (if value = JUndefined \<or> value = JNull \<or> value = JStr [] then Invalid ''Timestamp is required''
      else case value of
          JStr s \<Rightarrow>
            if toLowerCase s = ''now'' then Valid
            else if js_isNaN (dateParse E s)
            then Invalid (''Invalid date format. Use ISO format (e.g., 2025-06-01T00:00:00Z) or 'now'' @ [CHR 0x27])
            else Valid
        | JNum x \<Rightarrow> if js_lt x 0 then Invalid ''Timestamp cannot be negative'' else Valid
        | _ \<Rightarrow> Valid)"

definition validateDuration :: "jsval \<Rightarrow> validation" where
  "validateDuration v = (let value = as_number v in
     if no_number v then Invalid ''Duration is required''
     else if js_le value 0 then Invalid ''Duration must be positive''
     else if \<not> js_isInteger value then Invalid ''Duration must be a whole number of seconds''
     else Valid)"

definition parseTimestamp :: "env \<Rightarrow> jsval \<Rightarrow> jsval io" where
  "parseTimestamp E value = (case value of
       JNum x \<Rightarrow> ret (JNum x)
     | JStr s \<Rightarrow>
         if toLowerCase s = ''now''
         then bind (observe (dateNow E)) (\<lambda>t. ret (JNum (js_floor (js_div (Fin (of_int t)) (Fin 1000)))))
         else ret (JNum (js_floor (js_div (dateParse E s) (Fin 1000))))
     | _ \<Rightarrow> throw (TypeError ''value.toLowerCase is not a function''))"

section \<open>Prompts\<close>

text \<open>The four prompts of the library; the answer is recorded with the prompt.\<close>

definition input :: "env \<Rightarrow> string \<Rightarrow> string option \<Rightarrow> (string \<Rightarrow> validation) \<Rightarrow> string io" where
  "input E message d validate = ask (PInput message d) JStr (\<lambda>tr. inqInput E tr message d validate)"

definition number :: "env \<Rightarrow> string \<Rightarrow> jsval \<Rightarrow> (jsval \<Rightarrow> validation) \<Rightarrow> jsval io" where
  "number E message d validate = ask (PNumber message d) (\<lambda>v. v) (\<lambda>tr. inqNumber E tr message d validate)"

definition confirm :: "env \<Rightarrow> string \<Rightarrow> jsval \<Rightarrow> bool io" where
  "confirm E message d = ask (PConfirm message d) JBool (\<lambda>tr. inqConfirm E tr message d)"

definition select :: "env \<Rightarrow> string \<Rightarrow> (string \<times> string) list \<Rightarrow> jsval \<Rightarrow> string io" where
  "select E message cs d = ask (PSelect message cs d) JStr (\<lambda>tr. inqSelect E tr message cs d)"

text \<open>\<open>v?.toBase58()\<close>\<close>

fun opt_base58 :: "jsval \<Rightarrow> exn + string option" where
  "opt_base58 JUndefined = Inr None"
| "opt_base58 JNull = Inr None"
| "opt_base58 v = res_bind (js_toBase58 v) (\<lambda>s. Inr (Some s))"

definition new_PublicKey :: "env \<Rightarrow> string \<Rightarrow> jsval io" where
  "new_PublicKey E s = bind (lift (newPublicKey E s)) (\<lambda>k. ret (JPk k))"

definition promptPublicKey :: "env \<Rightarrow> string \<Rightarrow> jsval \<Rightarrow> jsval io" where
  "promptPublicKey E message defaultValue =
     bind (lift (opt_base58 defaultValue)) (\<lambda>d.
     bind (input E message d (validatePublicKey E)) (\<lambda>value.
       new_PublicKey E (js_trim value)))"

definition default_choice :: "token_mints \<Rightarrow> jsval \<Rightarrow> exn + string" where
  "default_choice ms defaultValue =
     (if \<not> js_truthy defaultValue then Inr ''custom''
      else res_bind (as_pubkey ''equals'' defaultValue) (\<lambda>k. Inr
        (if k = usdc ms then ''usdc'' else if k = onyc ms then ''onyc''
         else if k = usdg ms then ''usdg'' else ''custom'')))"

definition mint_choices :: "token_mints \<Rightarrow> (string \<times> string) list" where
  "mint_choices ms =
     [(''USDC  '' @ take 8 (toBase58 (usdc ms)) @ ''...'', ''usdc''),
      (''ONyc  '' @ take 8 (toBase58 (onyc ms)) @ ''...'', ''onyc''),
      (''USDG  '' @ take 8 (toBase58 (usdg ms)) @ ''...'', ''usdg''),
      (''Custom address'', ''custom'')]"

definition mint_of_name :: "token_mints \<Rightarrow> string \<Rightarrow> pubkey option" where
  "mint_of_name ms s = (if s = ''usdc'' then Some (usdc ms) else if s = ''onyc'' then Some (onyc ms)
     else if s = ''usdg'' then Some (usdg ms) else None)"

definition promptMint :: "env \<Rightarrow> string \<Rightarrow> jsval \<Rightarrow> jsval io" where
  "promptMint E message defaultValue =
     bind (lift (default_choice (mints (cfg E)) defaultValue)) (\<lambda>defaultChoice.
     bind (select E message (mint_choices (mints (cfg E))) (JStr defaultChoice)) (\<lambda>selection.
       if selection = ''custom'' then
         bind (lift (opt_base58 defaultValue)) (\<lambda>d.
         bind (input E ''Enter mint address:'' d (validatePublicKey E)) (\<lambda>address.
           new_PublicKey E (js_trim address)))
       else ret (case mint_of_name (mints (cfg E)) selection of Some k \<Rightarrow> JPk k | None \<Rightarrow> JUndefined)))"

definition promptAmount :: "env \<Rightarrow> string \<Rightarrow> jsval \<Rightarrow> jsval io" where
  "promptAmount E message defaultValue =
     number E message defaultValue
       (\<lambda>val. if val = JUndefined then Invalid ''Amount is required'' else validateAmount val)"

definition promptBasisPoints :: "env \<Rightarrow> string \<Rightarrow> jsval \<Rightarrow> jsval io" where
  "promptBasisPoints E message defaultValue =
     bind (number E (message @ '' (100 = 1%)'') (nullish defaultValue (jnum 0))
             (\<lambda>val. if val = JUndefined then Valid else validateBasisPoints val)) (\<lambda>value.
       ret (nullish (nullish value defaultValue) (jnum 0)))"

definition promptApr :: "env \<Rightarrow> string \<Rightarrow> jsval \<Rightarrow> jsval io" where
  "promptApr E message defaultValue =
     number E (message @ '' (e.g., 36500 = 3.65%)'') defaultValue
       (\<lambda>val. if val = JUndefined then Invalid ''APR is required'' else validateApr val)"

definition timestamp_default :: "jsval \<Rightarrow> exn + string option" where
  "timestamp_default v = (case v of
       JUndefined \<Rightarrow> Inr (Some ''now'')
     | JNum x \<Rightarrow> res_bind (toISOString (js_mul x (Fin 1000))) (\<lambda>s. Inr (Some s))
     | JStr s \<Rightarrow> Inr (Some s)
     | JNull \<Rightarrow> Inr None
     | _ \<Rightarrow> Inr (Some (js_string v)))"

definition promptTimestamp :: "env \<Rightarrow> string \<Rightarrow> jsval \<Rightarrow> jsval io" where
  "promptTimestamp E message defaultValue =
     bind (lift (timestamp_default defaultValue)) (\<lambda>defaultStr.
     bind (input E (message @ '' (ISO date or '' @ [CHR 0x22] @ ''now'' @ [CHR 0x22] @ '')'') defaultStr
             (\<lambda>s. validateTimestamp E (JStr s))) (\<lambda>value.
       parseTimestamp E (JStr value)))"

definition promptDuration :: "env \<Rightarrow> string \<Rightarrow> jsval \<Rightarrow> jsval io" where
  "promptDuration E message defaultValue =
     number E (message @ '' (in seconds)'') defaultValue
       (\<lambda>val. if val = JUndefined then Invalid ''Duration is required'' else validateDuration val)"

text \<open>\<open>v?.toString()\<close>\<close>

fun opt_string :: "jsval \<Rightarrow> string option" where
  "opt_string JUndefined = None"
| "opt_string JNull = None"
| "opt_string v = Some (js_string v)"

definition promptForSingleParam :: "env \<Rightarrow> ParamDefinition \<Rightarrow> jsval io" where
  "promptForSingleParam E p =
     (let message = description p; defaultValue = default_value (cfg E) (p_default p) in
      case p_type p of
        PublicKeyParam \<Rightarrow> promptPublicKey E message defaultValue
      | MintParam \<Rightarrow> promptMint E message defaultValue
      | AmountParam \<Rightarrow> promptAmount E message defaultValue
      | BasisPointsParam \<Rightarrow> promptBasisPoints E message defaultValue
      | AprParam \<Rightarrow> promptApr E message defaultValue
      | TimestampParam \<Rightarrow> promptTimestamp E message defaultValue
      | DurationParam \<Rightarrow> promptDuration E message defaultValue
      | BooleanParam \<Rightarrow>
          bind (confirm E message (nullish defaultValue (JBool False))) (\<lambda>b. ret (JBool b))
      | SelectParam \<Rightarrow>
          bind (select E message (case choices p of Some cs \<Rightarrow> cs | None \<Rightarrow> []) defaultValue) (\<lambda>s. ret (JStr s))
      | StringParam \<Rightarrow>
          bind (input E message (opt_string defaultValue) (\<lambda>_. Valid)) (\<lambda>s. ret (JStr s)))"

section \<open>Values from the command line\<close>

definition transformValue :: "env \<Rightarrow> jsval \<Rightarrow> ParamDefinition \<Rightarrow> jsval io" where
  "transformValue E value p = (case transform p of
       Some f \<Rightarrow> lift (f E value)
     | None \<Rightarrow> (case p_type p of
          PublicKeyParam \<Rightarrow> (case value of JStr s \<Rightarrow> new_PublicKey E s | _ \<Rightarrow> ret value)
        | MintParam \<Rightarrow> (case value of
              JStr s \<Rightarrow> (case mint_of_name (mints (cfg E)) (toLowerCase s) of
                  Some k \<Rightarrow> ret (JPk k)
                | None \<Rightarrow> new_PublicKey E s)
            | _ \<Rightarrow> ret value)
        | TimestampParam \<Rightarrow> parseTimestamp E value
        | AmountParam \<Rightarrow> ret (case value of JStr s \<Rightarrow> JNum (parseInt10 s) | _ \<Rightarrow> value)
        | BasisPointsParam \<Rightarrow> ret (case value of JStr s \<Rightarrow> JNum (parseInt10 s) | _ \<Rightarrow> value)
        | AprParam \<Rightarrow> ret (case value of JStr s \<Rightarrow> JNum (parseInt10 s) | _ \<Rightarrow> value)
        | DurationParam \<Rightarrow> ret (case value of JStr s \<Rightarrow> JNum (parseInt10 s) | _ \<Rightarrow> value)
        | BooleanParam \<Rightarrow> ret (JBool (case value of
              JStr s \<Rightarrow> toLowerCase s = ''true'' \<or> s = ''1''
            | _ \<Rightarrow> js_truthy value))
        | _ \<Rightarrow> ret value))"

section \<open>All parameters of a command\<close>

text \<open>\<open>obj[k] = v\<close>: an existing key keeps its place.\<close>

fun obj_set :: "string \<Rightarrow> jsval \<Rightarrow> jsobj \<Rightarrow> jsobj" where
  "obj_set k v [] = [(k, v)]"
| "obj_set k v (x # xs) = (if fst x = k then (k, v) # xs else x # obj_set k v xs)"

text \<open>\<open>param.default !== undefined\<close>\<close>

fun has_default :: "param_default \<Rightarrow> bool" where
  "has_default NoDefault = False"
| "has_default (DefaultValue v) = (v \<noteq> JUndefined)"
| "has_default (DefaultOf f) = True"

text \<open>One round of the loop: the value that the parameter gets.\<close>

definition param_value :: "env \<Rightarrow> ParamDefinition \<Rightarrow> jsobj \<Rightarrow> bool \<Rightarrow> jsval io" where
  "param_value E p providedValues noInteractive =
     (if fld providedValues (p_name p) \<noteq> JUndefined then transformValue E (fld providedValues (p_name p)) p
      else if has_default (p_default p) \<and> (\<not> required p \<or> noInteractive)
      then ret (default_value (cfg E) (p_default p))
      else if noInteractive \<and> required p
      then throw (Error (''Missing required parameter: '' @ p_name p @ '' (''
             @ (case flag p of Some f \<Rightarrow> if f = [] then p_name p else f | None \<Rightarrow> p_name p) @ '')''))
      else promptForSingleParam E p)"

fun promptForParams_from :: "env \<Rightarrow> jsobj \<Rightarrow> bool \<Rightarrow> jsobj \<Rightarrow> ParamDefinition list \<Rightarrow> jsobj io" where
  "promptForParams_from E providedValues noInteractive result [] = ret result"
| "promptForParams_from E providedValues noInteractive result (p # ps) =
     bind (param_value E p providedValues noInteractive) (\<lambda>v.
       promptForParams_from E providedValues noInteractive (obj_set (p_name p) v result) ps)"

definition promptForParams :: "env \<Rightarrow> ParamDefinition list \<Rightarrow> jsobj \<Rightarrow> jsval \<Rightarrow> jsobj io" where
  "promptForParams E params providedValues noInteractive =
     promptForParams_from E providedValues (js_truthy noInteractive) [] params"

end
