(* ===== verification/Cli_Display.thy ===== *)
theory Cli_Display
  imports Cli_Params
begin

text \<open>
  \<^verbatim>\<open>cli/utils/display.ts\<close>, \<^verbatim>\<open>cli/utils/token-utils.ts\<close> and \<open>printConfigSummary\<close> of
  \<^verbatim>\<open>utils/network-config.ts\<close>: what the commands print. A line is a \<open>Log\<close> event with the text without
  terminal colours; a table is a \<open>Table\<close> event with its head, column widths and rows.
\<close>

section \<open>Token mints\<close>

definition getTokenDecimals :: "env \<Rightarrow> jsval \<Rightarrow> exn + nat" where
  "getTokenDecimals E tokenMint =
     res_bind (js_toBase58 tokenMint) (\<lambda>mintAddress.
       if mintAddress = toBase58 (usdc (mints (cfg E))) then Inr 6
       else if mintAddress = toBase58 (usdg (mints (cfg E))) then Inr 6
       else if mintAddress = toBase58 (onyc (mints (cfg E))) then Inr 9
       else Inl (Error (''Unknown token mint: '' @ mintAddress @ ''. ''
              @ ''Please add explicit decimal configuration for this token.'')))"

definition getTokenProgramId :: "env \<Rightarrow> jsval \<Rightarrow> exn + pubkey" where
  "getTokenProgramId E tokenMint =
     res_bind (js_toBase58 tokenMint) (\<lambda>mintAddress.
       if mintAddress = toBase58 (usdc (mints (cfg E))) then Inr (TOKEN_PROGRAM_ID E)
       else if mintAddress = toBase58 (usdg (mints (cfg E))) then Inr (TOKEN_2022_PROGRAM_ID E)
       else if mintAddress = toBase58 (onyc (mints (cfg E))) then Inr (TOKEN_PROGRAM_ID E)
       else Inl (Error (''Unknown token mint: '' @ mintAddress @ ''. ''
              @ ''Please add explicit token program configuration for this token.'')))"

section \<open>Banner and summaries\<close>

definition printNetworkBanner :: "NetworkConfig \<Rightarrow> unit io" where
  "printNetworkBanner config = tell_all
     [Log (newline @ ''=== Network: '' @ toUpperCase (nc_name config) @ '' ===''),
      Log (''RPC:     '' @ rpcUrl config),
      Log (''Program: '' @ toBase58 (programId config)),
      Log (''Boss:    '' @ toBase58 (nc_boss config)),
      Log []]"

definition double_rule :: string where
  "double_rule = concat (replicate 63 [CHR 0xE2, CHR 0x95, CHR 0x90])"

definition printConfigSummary :: "NetworkConfig \<Rightarrow> unit io" where
  "printConfigSummary config = tell_all
     [Log double_rule,
      Log (''  NETWORK: '' @ toUpperCase (nc_name config)),
      Log double_rule,
      Log (''  RPC:     '' @ rpcUrl config),
      Log (''  Program: '' @ toBase58 (programId config)),
      Log (''  Boss:    '' @ toBase58 (nc_boss config)),
      Log (''  USDC:    '' @ toBase58 (usdc (mints config))),
      Log (''  ONyc:    '' @ toBase58 (onyc (mints config))),
      Log (''  USDG:    '' @ toBase58 (usdg (mints config))),
      Log (double_rule @ newline)]"

text \<open>A blank before every capital, the first character in upper case, blanks trimmed.\<close>

definition formatParamName :: "string \<Rightarrow> string" where
  "formatParamName name =
     (let spaced = concat (List.map (\<lambda>c. if 65 \<le> (of_char c :: nat) \<and> (of_char c :: nat) \<le> 90 then [CHR '' '', c] else [c]) name)
      in js_trim (case spaced of [] \<Rightarrow> [] | c # cs \<Rightarrow> upper_char c # cs))"

fun formatParamValue :: "env \<Rightarrow> jsval \<Rightarrow> string" where
  "formatParamValue E JNull = ''(not set)''"
| "formatParamValue E JUndefined = ''(not set)''"
| "formatParamValue E (JBool b) = (if b then ''Yes'' else ''No'')"
| "formatParamValue E (JPk k) = toBase58 k"
| "formatParamValue E (JNum x) = toLocaleString E x"
| "formatParamValue E v = js_string v"

definition printParamSummary :: "env \<Rightarrow> string \<Rightarrow> jsobj \<Rightarrow> unit io" where
  "printParamSummary E title params = tell_all
     ([Log (newline @ title @ newline)]
      @ List.map (\<lambda>kv. Log (''  '' @ formatParamName (fst kv) @ '': '' @ formatParamValue E (snd kv))) params
      @ [Log []])"

section \<open>Program state\<close>

definition json_line :: "json \<Rightarrow> unit io" where
  "json_line v = log_line (json_stringify 0 v)"

definition field_value :: "string list" where
  "field_value = [''Field'', ''Value'']"

text \<open>\<open>admins.forEach\<close> with the index of the entry; default keys are skipped.\<close>

fun admin_lines :: "nat \<Rightarrow> pubkey list \<Rightarrow> event list" where
  "admin_lines i [] = []"
| "admin_lines i (a # as) =
     (if toBase58 a \<noteq> ''11111111111111111111111111111111''
      then [Log (''  '' @ nat_str (i + 1) @ ''. '' @ toBase58 a)] else [])
     @ admin_lines (i + 1) as"

definition state_json :: "state_account \<Rightarrow> json" where
  "state_json st = JsonObj
     [(''boss'', JsonStr (toBase58 (st_boss st))),
      (''proposedBoss'', JsonStr (toBase58 (st_proposedBoss st))),
      (''isKilled'', JsonBool (st_isKilled st)),
      (''onycMint'', JsonStr (toBase58 (st_onycMint st))),
      (''maxSupply'', JsonStr (nat_str (st_maxSupply st))),
      (''approver1'', JsonStr (toBase58 (st_approver1 st))),
      (''approver2'', JsonStr (toBase58 (st_approver2 st))),
      (''redemptionAdmin'', JsonStr (toBase58 (st_redemptionAdmin st))),
      (''admins'', JsonArr (List.map (\<lambda>a. JsonStr (toBase58 a)) (st_admins st)))]"

definition printState :: "state_account \<Rightarrow> jsval \<Rightarrow> unit io" where
  "printState st json =
     (if js_truthy json then json_line (state_json st)
      else tell_all
        ([Log (newline @ ''=== Program State ==='' @ newline),
          Table field_value [20, 50]
            [[''Boss'', toBase58 (st_boss st)],
             [''Proposed Boss'', toBase58 (st_proposedBoss st)],
             [''Kill Switch'', if st_isKilled st then ''ENABLED'' else ''Disabled''],
             [''ONyc Mint'', toBase58 (st_onycMint st)],
             [''Max Supply'', nat_str (st_maxSupply st)],
             [''Approver 1'', toBase58 (st_approver1 st)],
             [''Approver 2'', toBase58 (st_approver2 st)],
             [''Redemption Admin'', toBase58 (st_redemptionAdmin st)]]]
         @ (if st_admins st \<noteq> [] then Log (newline @ ''Admins:'') # admin_lines 0 (st_admins st) else [])))"

section \<open>Offers\<close>

definition formatDuration :: "jsnum \<Rightarrow> string" where
  "formatDuration seconds =
     (if js_lt seconds 60 then num_str seconds @ ''s''
      else if js_lt seconds 3600 then num_str (js_floor (js_div seconds (Fin 60))) @ ''m''
      else if js_lt seconds 86400 then num_str (js_floor (js_div seconds (Fin 3600))) @ ''h''
      else num_str (js_floor (js_div seconds (Fin 86400))) @ ''d'')"

abbreviation nat_num :: "nat \<Rightarrow> jsnum" where
  "nat_num n \<equiv> Fin (of_nat n)"

text \<open>\<open>`${fee / 100}% (${fee} bps)`\<close>\<close>

definition fee_text :: "jsval \<Rightarrow> string" where
  "fee_text fee = num_str (js_div (as_number fee) (Fin 100)) @ ''% ('' @ js_string fee @ '' bps)''"

definition toNumber :: "env \<Rightarrow> nat \<Rightarrow> exn + jsnum" where
  "toNumber E n = res_bind (bnToNumber E (int n)) (\<lambda>i. Inr (Fin (of_int i)))"

definition vector_json :: "offer_vector \<Rightarrow> json" where
  "vector_json v = JsonObj
     [(''baseTime'', JsonStr (nat_str (ov_baseTime v))),
      (''basePrice'', JsonStr (nat_str (ov_basePrice v))),
      (''apr'', JsonStr (nat_str (ov_apr v))),
      (''priceFixDuration'', JsonStr (nat_str (ov_priceFixDuration v)))]"

definition vector_row :: "env \<Rightarrow> nat \<Rightarrow> offer_vector \<Rightarrow> exn + string list" where
  "vector_row E i v =
     res_bind (toNumber E (ov_baseTime v)) (\<lambda>t.
     res_bind (toISOString (js_mul t (Fin 1000))) (\<lambda>baseTime.
     res_bind (toNumber E (ov_basePrice v)) (\<lambda>p.
     res_bind (toNumber E (ov_apr v)) (\<lambda>a.
     res_bind (toNumber E (ov_priceFixDuration v)) (\<lambda>d. Inr
       [nat_str (i + 1),
        replace_first ''.000Z'' [] (replace_first ''T'' '' '' baseTime),
        to_fixed 9 (js_div p (Fin 1000000000)),
        to_fixed 2 (js_div a (Fin 10000)) @ ''%'',
        formatDuration d])))))"

fun vector_rows :: "env \<Rightarrow> nat \<Rightarrow> offer_vector list \<Rightarrow> exn + string list list" where
  "vector_rows E i [] = Inr []"
| "vector_rows E i (v # vs) =
     res_bind (vector_row E i v) (\<lambda>r. res_bind (vector_rows E (i + 1) vs) (\<lambda>rs. Inr (r # rs)))"

definition yes_no :: "bool \<Rightarrow> string" where
  "yes_no b = (if b then ''Yes'' else ''No'')"

definition printOffer :: "env \<Rightarrow> offer_account \<Rightarrow> string \<Rightarrow> string \<Rightarrow> jsval \<Rightarrow> unit io" where
  "printOffer E offer tokenInMint tokenOutMint json =
     (if js_truthy json then json_line (JsonObj
        [(''tokenInMint'', JsonStr tokenInMint),
         (''tokenOutMint'', JsonStr tokenOutMint),
         (''feeBasisPoints'', JsonNum (nat_num (oa_feeBasisPoints offer))),
         (''needsApproval'', JsonNum (nat_num (oa_needsApproval offer))),
         (''allowPermissionless'', JsonNum (nat_num (oa_allowPermissionless offer))),
         (''vectors'', JsonArr (List.map vector_json (oa_vectors offer)))])
      else andThen (tell_all
        [Log (newline @ ''=== Offer Details ==='' @ newline),
         Table field_value [25, 50]
           [[''Token In Mint'', tokenInMint],
            [''Token Out Mint'', tokenOutMint],
            [''Fee'', fee_text (JNum (nat_num (oa_feeBasisPoints offer)))],
            [''Needs Approval'', yes_no (oa_needsApproval offer \<noteq> 0)],
            [''Allow Permissionless'', yes_no (oa_allowPermissionless offer \<noteq> 0)]]])
        (if oa_vectors offer \<noteq> [] then
           andThen (log_line (newline @ ''Pricing Vectors:''))
             (bind (lift (vector_rows E 0 (oa_vectors offer))) (\<lambda>rows.
               tell (Table [''#'', ''Base Time'', ''Base Price'', ''APR'', ''Duration''] [4, 24, 16, 12, 12] rows)))
         else log_line (newline @ ''No pricing vectors configured.'')))"

section \<open>Market values\<close>

definition printNavUnder :: "string \<Rightarrow> jsnum \<Rightarrow> jsval \<Rightarrow> unit io" where
  "printNavUnder title nav json =
     (let navDecimal = to_fixed 9 (js_div nav (Fin 1000000000)) in
      if js_truthy json then json_line (JsonObj [(''nav'', JsonNum nav), (''navDecimal'', JsonStr navDecimal)])
      else tell_all
        [Log (newline @ title @ newline),
         Log (''  Raw Value:     '' @ num_str nav),
         Log (''  Decimal:       '' @ navDecimal),
         Log (''  Display:       $'' @ to_fixed 4 (parseFloat navDecimal))])"

definition printNav :: "jsnum \<Rightarrow> jsval \<Rightarrow> unit io" where
  "printNav nav json = printNavUnder ''=== NAV (Net Asset Value) ==='' nav json"

definition printNavAdjustment :: "jsnum \<Rightarrow> jsval \<Rightarrow> unit io" where
  "printNavAdjustment nav json = printNavUnder ''=== NAV (Net Asset Value) Adjustment ==='' nav json"

definition printApy :: "jsnum \<Rightarrow> jsval \<Rightarrow> unit io" where
  "printApy apy json =
     (let apyPercent = to_fixed 4 (js_div apy (Fin 10000)) in
      if js_truthy json
      then json_line (JsonObj [(''apy'', JsonNum apy), (''apyPercent'', JsonNum (parseFloat apyPercent))])
      else tell_all
        [Log (newline @ ''=== APY ==='' @ newline),
         Log (''  Raw Value:     '' @ num_str apy),
         Log (''  Percentage:    '' @ apyPercent @ ''%'')])"

text \<open>\<open>typeof v === "string" ? parseFloat(v) : v\<close>\<close>

fun float_of :: "jsval \<Rightarrow> jsnum" where
  "float_of (JStr s) = parseFloat s"
| "float_of v = as_number v"

definition printTvl :: "env \<Rightarrow> jsval \<Rightarrow> jsval \<Rightarrow> unit io" where
  "printTvl E tvl json =
     (let tvlUsdc = js_div (float_of tvl) (Fin 1000000) in
      if js_truthy json then json_line (JsonObj [(''tvl'', JsonStr (js_string tvl)), (''tvlUsdc'', JsonNum tvlUsdc)])
      else tell_all
        [Log (newline @ ''=== TVL (Total Value Locked) ==='' @ newline),
         Log (''  Raw Value:     '' @ js_string tvl),
         Log (''  USDC:          '' @ toLocaleString E tvlUsdc @ '' USDC'')])"

definition printCirculatingSupply :: "env \<Rightarrow> jsval \<Rightarrow> jsval \<Rightarrow> unit io" where
  "printCirculatingSupply E supply json =
     (let supplyTokens = js_div (float_of supply) (Fin 1000000000) in
      if js_truthy json
      then json_line (JsonObj [(''supply'', JsonStr (js_string supply)), (''supplyTokens'', JsonNum supplyTokens)])
      else tell_all
        [Log (newline @ ''=== Circulating Supply ==='' @ newline),
         Log (''  Raw Value:     '' @ js_string supply),
         Log (''  Tokens:        '' @ toLocaleString E supplyTokens)])"

section \<open>Redemptions\<close>

definition printRedemptionOffer :: "redemption_offer_account \<Rightarrow> string \<Rightarrow> string \<Rightarrow> jsval \<Rightarrow> unit io" where
  "printRedemptionOffer offer tokenInMint tokenOutMint json =
     (if js_truthy json then json_line (JsonObj
        [(''tokenInMint'', JsonStr tokenInMint),
         (''tokenOutMint'', JsonStr tokenOutMint),
         (''feeBasisPoints'', JsonNum (nat_num (ro_feeBasisPoints offer))),
         (''requestCounter'', JsonStr (nat_str (ro_requestCounter offer))),
         (''executedRedemptions'', JsonStr (nat_str (ro_executedRedemptions offer))),
         (''requestedRedemptions'', JsonStr (nat_str (ro_requestedRedemptions offer))),
         (''offer'', JsonStr (toBase58 (ro_offer offer)))])
      else tell_all
        [Log (newline @ ''=== Redemption Offer Details ==='' @ newline),
         Table field_value [25, 50]
           [[''Token In Mint'', tokenInMint],
            [''Token Out Mint'', tokenOutMint],
            [''Fee'', fee_text (JNum (nat_num (ro_feeBasisPoints offer)))],
            [''Underlying Offer'', toBase58 (ro_offer offer)],
            [''Request Counter'', nat_str (ro_requestCounter offer)],
            [''Executed Redemptions'', nat_str (ro_executedRedemptions offer)],
            [''Requested Redemptions'', nat_str (ro_requestedRedemptions offer)]]])"

text \<open>The id is a number, or a text when it was typed at the prompt.\<close>

definition id_json :: "jsval \<Rightarrow> json" where
  "id_json requestId = (case requestId of JStr s \<Rightarrow> JsonStr s | v \<Rightarrow> JsonNum (as_number v))"

definition request_json :: "json \<Rightarrow> redemption_request_account \<Rightarrow> json" where
  "request_json requestId request = JsonObj
     [(''requestId'', requestId),
      (''offer'', JsonStr (toBase58 (rr_offer request))),
      (''redeemer'', JsonStr (toBase58 (rr_redeemer request))),
      (''amount'', JsonStr (nat_str (rr_amount request)))]"

definition printRedemptionRequest :: "redemption_request_account \<Rightarrow> jsval \<Rightarrow> jsval \<Rightarrow> unit io" where
  "printRedemptionRequest request requestId json =
     (if js_truthy json then json_line (request_json (id_json requestId) request)
      else tell_all
        [Log (newline @ ''=== Redemption Request Details ==='' @ newline),
         Table field_value [20, 50]
           [[''Request ID'', js_string requestId],
            [''Redemption Offer'', toBase58 (rr_offer request)],
            [''Redeemer'', toBase58 (rr_redeemer request)],
            [''Amount'', nat_str (rr_amount request)]]])"

definition printRedemptionRequestsList :: "(int \<times> redemption_request_account) list \<Rightarrow> jsval \<Rightarrow> unit io" where
  "printRedemptionRequestsList requests json =
     (if js_truthy json
      then json_line (JsonArr (List.map (\<lambda>r. request_json (JsonNum (Fin (of_int (fst r)))) (snd r)) requests))
      else if requests = [] then log_line (newline @ ''No pending redemption requests found.'')
      else tell_all
        [Log (newline @ ''=== Redemption Requests ('' @ nat_str (length requests) @ '' found) ==='' @ newline),
         Table [''ID'', ''Redeemer'', ''Amount''] [6, 46, 20]
           (List.map (\<lambda>r. [num_str (Fin (of_int (fst r))), toBase58 (rr_redeemer (snd r)),
                         nat_str (rr_amount (snd r))]) requests)])"

end
