(* ===== verification/Script_Builders.thy ===== *)
theory Script_Builders
  imports Script_Helper
begin

text \<open>
  \<^verbatim>\<open>scripts/utils/script-helper.ts\<close>, second half: one builder per instruction of the program, in the
  order of the file, then the preparation, serialisation and printing of transactions.
\<close>

section \<open>Offers\<close>

definition buildMakeOfferIx :: "env \<Rightarrow> jsobj \<Rightarrow> tx_ix io" where
  "buildMakeOfferIx E params =
     (let feeBasisPoints = nullish (fld params ''feeBasisPoints'') (jnum 0);
          needsApproval = nullish (fld params ''needsApproval'') (JBool False);
          allowPermissionless = nullish (fld params ''allowPermissionless'') (JBool False)
      in instruction E True ''makeOffer'' [feeBasisPoints, needsApproval, allowPermissionless]
           [(''tokenInMint'', fld params ''tokenInMint''),
            (''tokenInProgram'', token_program_of E params ''tokenInProgram''),
            (''tokenOutMint'', fld params ''tokenOutMint''),
            (''boss'', fld params ''boss'')])"

definition buildAddOfferVectorIx :: "env \<Rightarrow> jsobj \<Rightarrow> tx_ix io" where
  "buildAddOfferVectorIx E params =
     bind (new_BN E (fld params ''baseTime'')) (\<lambda>baseTime.
     bind (new_BN E (fld params ''basePrice'')) (\<lambda>basePrice.
     bind (new_BN E (fld params ''apr'')) (\<lambda>apr.
     bind (new_BN E (fld params ''priceFixDuration'')) (\<lambda>priceFixDuration.
       instruction E True ''addOfferVector'' [JNull, baseTime, basePrice, apr, priceFixDuration]
         (take_fields [''tokenInMint'', ''tokenOutMint'', ''boss''] params)))))"

definition buildUpdateOfferFeeIx :: "env \<Rightarrow> jsobj \<Rightarrow> tx_ix io" where
  "buildUpdateOfferFeeIx E params =
     instruction E True ''updateOfferFee'' [fld params ''newFeeBasisPoints'']
       (take_fields [''tokenInMint'', ''tokenOutMint'', ''boss''] params)"

definition buildDeleteOfferVectorIx :: "env \<Rightarrow> jsobj \<Rightarrow> tx_ix io" where
  "buildDeleteOfferVectorIx E params =
     bind (new_BN E (fld params ''vectorStartTimestamp'')) (\<lambda>t.
       instruction E True ''deleteOfferVector'' [t]
         (take_fields [''tokenInMint'', ''tokenOutMint'', ''boss''] params))"

definition buildTakeOfferIx :: "env \<Rightarrow> jsobj \<Rightarrow> tx_ix io" where
  "buildTakeOfferIx E params =
     bind (new_BN E (fld params ''tokenInAmount'')) (\<lambda>amount.
       instruction E True ''takeOffer'' [amount, JNull]
         [(''tokenInMint'', fld params ''tokenInMint''),
          (''tokenOutMint'', fld params ''tokenOutMint''),
          (''user'', fld params ''user''),
          (''tokenInProgram'', token_program_of E params ''tokenInProgram''),
          (''tokenOutProgram'', token_program_of E params ''tokenOutProgram'')])"

definition buildTakeOfferPermissionlessIx :: "env \<Rightarrow> ScriptHelper \<Rightarrow> jsobj \<Rightarrow> tx_ix io" where
  "buildTakeOfferPermissionlessIx E h params =
     bind (new_BN E (fld params ''tokenInAmount'')) (\<lambda>amount.
       instruction E False ''takeOfferPermissionless'' [amount, JNull]
         [(''tokenInMint'', fld params ''tokenInMint''),
          (''tokenOutMint'', fld params ''tokenOutMint''),
          (''user'', fld params ''user''),
          (''vaultAuthority'', JPk (offerVaultAuthorityPda h)),
          (''permissionlessAuthority'', JPk (permissionlessVaultAuthorityPda h)),
          (''mintAuthority'', JPk (mintAuthorityPda h)),
          (''tokenInProgram'', token_program_of E params ''tokenInProgram''),
          (''tokenOutProgram'', token_program_of E params ''tokenOutProgram'')])"

section \<open>Vaults\<close>

text \<open>The common shape of the four vault builders: \<open>m(new BN(amount))\<close> on one token mint.\<close>

definition vault_instruction :: "env \<Rightarrow> string \<Rightarrow> jsobj \<Rightarrow> tx_ix io" where
  "vault_instruction E m params =
     bind (new_BN E (fld params ''amount'')) (\<lambda>amount.
       instruction E True m [amount]
         [(''tokenMint'', fld params ''tokenMint''),
          (''tokenProgram'', token_program_of E params ''tokenProgram''),
          (''boss'', fld params ''boss'')])"

definition buildOfferVaultDepositIx :: "env \<Rightarrow> jsobj \<Rightarrow> tx_ix io" where
  "buildOfferVaultDepositIx E params = vault_instruction E ''offerVaultDeposit'' params"

definition buildOfferVaultWithdrawIx :: "env \<Rightarrow> jsobj \<Rightarrow> tx_ix io" where
  "buildOfferVaultWithdrawIx E params = vault_instruction E ''offerVaultWithdraw'' params"

definition buildRedemptionVaultDepositIx :: "env \<Rightarrow> jsobj \<Rightarrow> tx_ix io" where
  "buildRedemptionVaultDepositIx E params = vault_instruction E ''redemptionVaultDeposit'' params"

definition buildRedemptionVaultWithdrawIx :: "env \<Rightarrow> jsobj \<Rightarrow> tx_ix io" where
  "buildRedemptionVaultWithdrawIx E params = vault_instruction E ''redemptionVaultWithdraw'' params"

section \<open>Program state\<close>

definition buildSetRedemptionAdminIx :: "env \<Rightarrow> jsobj \<Rightarrow> tx_ix io" where
  "buildSetRedemptionAdminIx E params =
     instruction E True ''setRedemptionAdmin'' [fld params ''redemptionAdmin''] (take_fields [''boss''] params)"

definition buildDeleteAllOfferVectorsIx :: "env \<Rightarrow> jsobj \<Rightarrow> tx_ix io" where
  "buildDeleteAllOfferVectorsIx E params =
     instruction E True ''deleteAllOfferVectors'' [] (take_fields [''tokenInMint'', ''tokenOutMint'', ''boss''] params)"

definition buildClearAdminsIx :: "env \<Rightarrow> jsobj \<Rightarrow> tx_ix io" where
  "buildClearAdminsIx E params = instruction E True ''clearAdmins'' [] (take_fields [''boss''] params)"

definition buildAddAdminIx :: "env \<Rightarrow> jsobj \<Rightarrow> tx_ix io" where
  "buildAddAdminIx E params = instruction E True ''addAdmin'' [fld params ''admin''] (take_fields [''boss''] params)"

definition buildRemoveAdminIx :: "env \<Rightarrow> jsobj \<Rightarrow> tx_ix io" where
  "buildRemoveAdminIx E params = instruction E True ''removeAdmin'' [fld params ''admin''] (take_fields [''boss''] params)"

definition buildProposeBossIx :: "env \<Rightarrow> jsobj \<Rightarrow> tx_ix io" where
  "buildProposeBossIx E params = instruction E True ''proposeBoss'' [fld params ''newBoss''] (take_fields [''boss''] params)"

definition buildAcceptBossIx :: "env \<Rightarrow> jsobj \<Rightarrow> tx_ix io" where
  "buildAcceptBossIx E params = instruction E True ''acceptBoss'' [] (take_fields [''newBoss''] params)"

definition buildSetKillSwitchIx :: "env \<Rightarrow> jsobj \<Rightarrow> tx_ix io" where
  "buildSetKillSwitchIx E params =
     instruction E True ''setKillSwitch'' [fld params ''enable''] [(''signer'', fld params ''boss'')]"

definition buildCloseStateIx :: "env \<Rightarrow> ScriptHelper \<Rightarrow> jsobj \<Rightarrow> tx_ix io" where
  "buildCloseStateIx E h params =
     instruction E True ''closeState'' [] [(''boss'', fld params ''boss''), (''state'', JPk (statePda h))]"

definition buildConfigureMaxSupplyIx :: "env \<Rightarrow> jsobj \<Rightarrow> tx_ix io" where
  "buildConfigureMaxSupplyIx E params =
     bind (new_BN E (fld params ''maxSupply'')) (\<lambda>m.
       instruction E True ''configureMaxSupply'' [m] (take_fields [''boss''] params))"

definition buildAddApproverIx :: "env \<Rightarrow> jsobj \<Rightarrow> tx_ix io" where
  "buildAddApproverIx E params =
     instruction E True ''addApprover'' [fld params ''approver''] (take_fields [''boss''] params)"

definition buildRemoveApproverIx :: "env \<Rightarrow> jsobj \<Rightarrow> tx_ix io" where
  "buildRemoveApproverIx E params =
     instruction E True ''removeApprover'' [fld params ''approver''] (take_fields [''boss''] params)"

definition buildSetOnycMintIx :: "env \<Rightarrow> jsobj \<Rightarrow> tx_ix io" where
  "buildSetOnycMintIx E params = instruction E True ''setOnycMint'' [] (take_fields [''boss'', ''onycMint''] params)"

definition BPF_LOADER_UPGRADEABLE :: pubkey where
  "BPF_LOADER_UPGRADEABLE = PublicKey ''BPFLoaderUpgradeab1e11111111111111111111111''"

definition buildInitializeIx :: "env \<Rightarrow> jsobj \<Rightarrow> tx_ix io" where
  "buildInitializeIx E params =
     instruction E True ''initialize'' []
       [(''boss'', fld params ''boss''),
        (''program'', JPk (programId (cfg E))),
        (''programData'', nullish (fld params ''programData'')
           (JPk (findProgramAddress E [toBuffer E (programId (cfg E))] BPF_LOADER_UPGRADEABLE))),
        (''onycMint'', nullish (fld params ''onycMint'') (JPk (onyc (mints (cfg E)))))]"

definition buildInitializePermissionlessAuthorityIx :: "env \<Rightarrow> jsobj \<Rightarrow> tx_ix io" where
  "buildInitializePermissionlessAuthorityIx E params =
     instruction E True ''initializePermissionlessAuthority'' [fld params ''name''] (take_fields [''boss''] params)"

definition buildTransferMintAuthorityToProgramIx :: "env \<Rightarrow> jsobj \<Rightarrow> tx_ix io" where
  "buildTransferMintAuthorityToProgramIx E params =
     instruction E True ''transferMintAuthorityToProgram'' []
       [(''boss'', fld params ''boss''), (''mint'', fld params ''mint''),
        (''tokenProgram'', token_program_of E params ''tokenProgram'')]"

definition buildTransferMintAuthorityToBossIx :: "env \<Rightarrow> jsobj \<Rightarrow> tx_ix io" where
  "buildTransferMintAuthorityToBossIx E params =
     instruction E True ''transferMintAuthorityToBoss'' []
       [(''boss'', fld params ''boss''), (''mint'', fld params ''mint''),
        (''tokenProgram'', token_program_of E params ''tokenProgram'')]"

definition buildMintToIx :: "env \<Rightarrow> jsobj \<Rightarrow> tx_ix io" where
  "buildMintToIx E params =
     bind (new_BN E (fld params ''amount'')) (\<lambda>amount.
       instruction E False ''mintTo'' [amount] [(''tokenProgram'', JPk (TOKEN_PROGRAM_ID E))])"

section \<open>Redemption\<close>

definition buildMakeRedemptionOfferIx :: "env \<Rightarrow> jsobj \<Rightarrow> tx_ix io" where
  "buildMakeRedemptionOfferIx E params =
     instruction E True ''makeRedemptionOffer'' [fld params ''feeBasisPoints'']
       (take_fields [''tokenInMint'', ''tokenInProgram'', ''tokenOutMint'', ''tokenOutProgram''] params
        @ [(''signer'', fld params ''boss'')])"

text \<open>
  The request address and the two associated accounts are computed and not used: they only can throw.
\<close>

definition buildCreateRedemptionRequestIx :: "env \<Rightarrow> ScriptHelper \<Rightarrow> jsobj \<Rightarrow> tx_ix io" where
  "buildCreateRedemptionRequestIx E h params =
     (let pda = fld params ''redemptionOfferPda''; program = token_program_of E params ''tokenProgram'' in
      bind (lift (as_pubkey ''toBuffer'' pda)) (\<lambda>offerPda.
      bind (outside (Called (FetchRedemptionOffer offerPda)) (\<lambda>tr. rpcRedemptionOffer E tr offerPda)) (\<lambda>redemptionOffer.
      bind (lift (bnToBuffer8 E (int (ro_requestCounter redemptionOffer)))) (\<lambda>counter.
      bind (lift (ata E (fld params ''tokenInMint'') (fld params ''redeemer'') False program)) (\<lambda>redeemerTokenAccount.
      bind (lift (ata E (fld params ''tokenInMint'')
                  (JPk (findProgramAddress E [''redemption_offer_vault_authority''] (h_programId h))) True program))
        (\<lambda>vaultTokenAccount.
      bind (new_BN E (fld params ''amount'')) (\<lambda>amount.
        instruction E True ''createRedemptionRequest'' [amount]
          [(''redemptionOffer'', pda),
           (''tokenInMint'', fld params ''tokenInMint''),
           (''redeemer'', fld params ''redeemer''),
           (''tokenProgram'', program)])))))))"

definition buildFulfillRedemptionRequestIx :: "env \<Rightarrow> jsobj \<Rightarrow> tx_ix io" where
  "buildFulfillRedemptionRequestIx E params =
     instruction E True ''fulfillRedemptionRequest'' []
       [(''redemptionOffer'', fld params ''redemptionOfferPda''),
        (''redemptionRequest'', fld params ''redemptionRequestPda''),
        (''redemptionAdmin'', fld params ''redemptionAdmin'')]"

definition buildCancelRedemptionRequestIx :: "env \<Rightarrow> jsobj \<Rightarrow> tx_ix io" where
  "buildCancelRedemptionRequestIx E params =
     instruction E True ''cancelRedemptionRequest'' []
       [(''redemptionOffer'', fld params ''redemptionOfferPda''),
        (''redemptionRequest'', fld params ''redemptionRequestPda''),
        (''signer'', fld params ''signer'')]"

definition buildUpdateRedemptionOfferFeeIx :: "env \<Rightarrow> jsobj \<Rightarrow> tx_ix io" where
  "buildUpdateRedemptionOfferFeeIx E params =
     instruction E True ''updateRedemptionOfferFee'' [fld params ''newFeeBasisPoints'']
       [(''redemptionOffer'', fld params ''redemptionOfferPda''), (''boss'', fld params ''boss'')]"

section \<open>Transactions\<close>

fun add_ixs :: "transaction \<Rightarrow> tx_ix list \<Rightarrow> transaction" where
  "add_ixs tx [] = tx"
| "add_ixs tx (ix # ixs) = add_ixs (tx\<lparr>tx_ixs := tx_ixs tx @ [ix]\<rparr>) ixs"

definition prepareTransactionMultipleIxs :: "env \<Rightarrow> tx_ix list \<Rightarrow> jsval \<Rightarrow> transaction io" where
  "prepareTransactionMultipleIxs E ixs payer =
     (let tx = (add_ixs \<lparr>tx_ixs = [], feePayer = JUndefined, recentBlockhash = []\<rparr> ixs)\<lparr>feePayer := payer\<rparr> in
      bind (outside (Called GetLatestBlockhash) (rpcBlockhash E)) (\<lambda>blockhash.
        ret (tx\<lparr>recentBlockhash := blockhash\<rparr>)))"

definition prepareTransaction :: "env \<Rightarrow> tx_ix \<Rightarrow> jsval \<Rightarrow> transaction io" where
  "prepareTransaction E ix payer = prepareTransactionMultipleIxs E [ix] payer"

definition serializeTransaction :: "env \<Rightarrow> transaction \<Rightarrow> string io" where
  "serializeTransaction E tx = bind (lift (serializeTx E tx)) (\<lambda>b. ret (bs58Encode E b))"

definition printTransaction :: "env \<Rightarrow> transaction \<Rightarrow> string \<Rightarrow> string io" where
  "printTransaction E tx title =
     bind (serializeTransaction E tx) (\<lambda>base58Tx.
     andThen (log_line (title @ '' (Base58):'')) (andThen (log_line base58Tx) (ret base58Tx)))"

section \<open>Lemmas\<close>

text \<open>All builders.\<close>

lemmas builder_defs = buildMakeOfferIx_def buildAddOfferVectorIx_def buildUpdateOfferFeeIx_def
  buildDeleteOfferVectorIx_def buildTakeOfferIx_def buildTakeOfferPermissionlessIx_def vault_instruction_def
  buildOfferVaultDepositIx_def buildOfferVaultWithdrawIx_def buildRedemptionVaultDepositIx_def
  buildRedemptionVaultWithdrawIx_def buildSetRedemptionAdminIx_def buildDeleteAllOfferVectorsIx_def
  buildClearAdminsIx_def buildAddAdminIx_def buildRemoveAdminIx_def buildProposeBossIx_def buildAcceptBossIx_def
  buildSetKillSwitchIx_def buildCloseStateIx_def buildConfigureMaxSupplyIx_def buildAddApproverIx_def
  buildRemoveApproverIx_def buildSetOnycMintIx_def buildInitializeIx_def buildInitializePermissionlessAuthorityIx_def
  buildTransferMintAuthorityToProgramIx_def buildTransferMintAuthorityToBossIx_def buildMintToIx_def
  buildMakeRedemptionOfferIx_def buildCreateRedemptionRequestIx_def buildFulfillRedemptionRequestIx_def
  buildCancelRedemptionRequestIx_def buildUpdateRedemptionOfferFeeIx_def

lemma add_ixs_spec: "add_ixs tx ixs = tx\<lparr>tx_ixs := tx_ixs tx @ ixs\<rparr>"
  by (induction ixs arbitrary: tx) auto

lemma prepare_result:
  "io_res (\<lambda>tx. tx_ixs tx = ixs \<and> feePayer tx = payer) (prepareTransactionMultipleIxs E ixs payer)"
  unfolding prepareTransactionMultipleIxs_def Let_def
  by (rule io_res_bind, rule io_res_ret) (simp add: add_ixs_spec)

lemma instruction_result:
  "io_res (\<lambda>ix. ix = AnchorIx \<lparr>mc_method = m, mc_args = args, mc_accounts = acs, mc_partial = p\<rparr>)
     (instruction E p m args acs)"
  by (simp add: instruction_def Let_def io_res_def ret_def throw_def split: option.splits)

lemma new_BN_result: "io_res (\<lambda>v. \<exists>n. newBN E x = Inr n \<and> v = JBN n) (new_BN E x)"
  by (auto simp: new_BN_def io_res_def bind_def lift_def ret_def split: sum.splits)

text \<open>Building only reads: no event of a builder is a transaction, a prompt or a write.\<close>

fun reads_only :: "event \<Rightarrow> bool" where
  "reads_only (Called _) = True"
| "reads_only _ = False"

lemma instruction_reads [io_intros]: "io_all P (instruction E p m args acs)"
  unfolding instruction_def Let_def by (intro io_intros)

lemma new_BN_reads [io_intros]: "io_all P (new_BN E v)"
  unfolding new_BN_def by (intro io_intros)

end
