(* ===== verification/Tx_Handler.thy ===== *)
theory Tx_Handler
  imports Cli_Prompts Cli_Display Script_Builders
begin

text \<open>
  \<^verbatim>\<open>cli/transaction/handler.ts\<close> (showing, copying, signing and sending a transaction) and
  \<^verbatim>\<open>cli/helpers/*.ts\<close> (confirmation, the building of a command's transaction and the wrapper that
  every command runs in). Two trace predicates state what a command is allowed to do: \<open>no_chain\<close>
  (nothing is sent) and \<open>hands_off\<close> (neither sent nor written to the clipboard).
\<close>

section \<open>The transaction menu\<close>

datatype TransactionResult = ResultSent string | ResultCopied string | ResultCancelled

record TransactionOptions =
  to_title :: string
  to_description :: "string option"
  to_dryRun :: jsval
  to_json :: jsval

definition displayTransactionDetails :: "env \<Rightarrow> transaction \<Rightarrow> unit io" where
  "displayTransactionDetails E tx =
     andThen (log_line ''Transaction Details:'')
       (bind (lift (opt_base58 (feePayer tx))) (\<lambda>payer.
         tell_all
           ([Log (''  Fee Payer:        '' @ (case payer of Some s \<Rightarrow> s | None \<Rightarrow> ''undefined'')),
             Log (''  Recent Blockhash: '' @ take 16 (recentBlockhash tx) @ ''...''),
             Log (''  Instructions:     '' @ nat_str (length (tx_ixs tx)))]
            @ concat (List.map (\<lambda>(i, ix).
                [Log (newline @ ''  ['' @ nat_str (i + 1) @ ''] Program: ''
                      @ take 12 (toBase58 (ixProgramId E ix)) @ ''...''),
                 Log (''      Accounts: '' @ nat_str (ixKeyCount E ix))])
              (enumerate 0 (tx_ixs tx))))))"

definition copyTransaction :: "env \<Rightarrow> string \<Rightarrow> TransactionResult io" where
  "copyTransaction E base58 =
     andThen
       (try_catch
         (andThen (outside (ClipboardWrite base58)
                    (\<lambda>tr. case clipboardError E tr base58 of Some e \<Rightarrow> Inl e | None \<Rightarrow> Inr ()))
           (log_line (newline @ ''Transaction copied to clipboard!'')))
         (\<lambda>_. log_line (newline @ ''Could not copy to clipboard automatically.'')))
       (andThen (tell_all
          [Log (newline @ ''Base58 Transaction:''), Log base58,
           Log (newline @ ''Next steps:''),
           Log ''  1. Go to your Squad multisig at https://v4.squads.so'',
           Log ''  2. Create a new transaction using the transaction builder'',
           Log ''  3. Paste this Base58 string'',
           Log ''  4. Get required signatures and execute''])
         (ret (ResultCopied base58)))"

text \<open>\<open>helper.walletKeypair\<close>: the class has no such member, so the property is always undefined.\<close>

definition walletKeypair :: "ScriptHelper \<Rightarrow> pubkey option" where
  "walletKeypair h = None"

definition wallet_path :: "env \<Rightarrow> string io" where
  "wallet_path E =
     bind (select E ''Select wallet to sign with:''
             [(''Default (~/.config/solana/id.json)'', ''id''), (''Custom wallet file'', ''custom'')] JUndefined)
       (\<lambda>walletName.
         if walletName = ''custom'' then
           bind (input E ''Enter path to keypair file:'' (Some ''~/.config/solana/id.json'') (\<lambda>_. Valid)) (\<lambda>customPath.
             ret (replace_first ''~'' (homedir E) customPath))
         else ret (homedir E @ ''/.config/solana/id.json''))"

text \<open>The key to sign with; None stands for the two early returns.\<close>

definition signing_key :: "env \<Rightarrow> ScriptHelper \<Rightarrow> pubkey option io" where
  "signing_key E helper = (case walletKeypair helper of
       Some k \<Rightarrow> andThen (log_line (newline @ ''Using loaded wallet: '' @ toBase58 k)) (ret (Some k))
     | None \<Rightarrow>
         bind (wallet_path E) (\<lambda>keypairPath.
         bind (observe (\<lambda>tr. fileExists E tr keypairPath)) (\<lambda>exists.
           if \<not> exists then
             andThen (log_line (newline @ ''Keypair file not found: '' @ keypairPath)) (ret None)
           else
             bind (try_catch (bind (load_keypair E keypairPath) (\<lambda>k. ret (Some k)))
                     (\<lambda>e. andThen (log_line (newline @ ''Failed to load keypair: '' @ exn_text e)) (ret None)))
               (\<lambda>r. case r of
                   None \<Rightarrow> ret None
                 | Some k \<Rightarrow> andThen (log_line (newline @ ''Signing with: '' @ toBase58 k)) (ret (Some k))))))"

definition log_lines :: "string list option \<Rightarrow> event list" where
  "log_lines logs = (case logs of None \<Rightarrow> []
     | Some ls \<Rightarrow> Log (newline @ ''Transaction logs:'') # List.map (\<lambda>l. Log (''  '' @ l)) ls)"

text \<open>Signing and sending; the transaction leaves with the one \<open>Sent\<close> event.\<close>

definition sign_and_send :: "env \<Rightarrow> transaction \<Rightarrow> pubkey \<Rightarrow> ((exn \<times> string list option) + string) io" where
  "sign_and_send E tx keypair = (case partialSign E tx keypair of
       Some e \<Rightarrow> ret (Inl (e, None))
     | None \<Rightarrow> outside (Sent tx keypair) (\<lambda>tr. Inr (rpcSend E tr tx keypair)))"

definition send_transaction :: "env \<Rightarrow> transaction \<Rightarrow> pubkey \<Rightarrow> TransactionResult io" where
  "send_transaction E tx keypair =
     andThen (tell (Spin (SpinStart ''Sending transaction...'')))
       (bind (sign_and_send E tx keypair) (\<lambda>answer. case answer of
            Inr signature \<Rightarrow>
              andThen (tell_all
                [Spin (SpinSucceed ''Transaction confirmed!''),
                 Log (newline @ ''Signature: '' @ signature),
                 Log (''Explorer: https://solscan.io/tx/'' @ signature
                      @ (if js_starts_with ''devnet'' (nc_name (cfg E)) then ''?cluster=devnet'' else []))])
                (ret (ResultSent signature))
          | Inl (e, logs) \<Rightarrow>
              andThen (tell_all
                ([Spin (SpinFail ''Transaction failed''), Log (newline @ ''Error: '' @ exn_text e)] @ log_lines logs))
                (ret ResultCancelled)))"

definition signAndSendTransaction :: "env \<Rightarrow> transaction \<Rightarrow> ScriptHelper \<Rightarrow> TransactionResult io" where
  "signAndSendTransaction E tx helper =
     bind (signing_key E helper) (\<lambda>key. case key of
         None \<Rightarrow> ret ResultCancelled
       | Some keypair \<Rightarrow>
           bind (confirm E ''Send transaction to chain?'' (JBool False)) (\<lambda>confirmed.
             if \<not> confirmed then andThen (log_line (newline @ ''Transaction cancelled.'')) (ret ResultCancelled)
             else send_transaction E tx keypair))"

definition transaction_json :: "string \<Rightarrow> string \<Rightarrow> string option \<Rightarrow> transaction \<Rightarrow> json" where
  "transaction_json title base58 payer tx = json_object
     [(''title'', Some (JsonStr title)),
      (''base58'', Some (JsonStr base58)),
      (''feePayer'', map_option JsonStr payer),
      (''recentBlockhash'', Some (JsonStr (recentBlockhash tx))),
      (''instructionCount'', Some (JsonNum (nat_num (length (tx_ixs tx)))))]"

definition action_choices :: "(string \<times> string) list" where
  "action_choices = [(''Copy Base58 for Squad multisig'', ''copy''),
     (''Sign locally and send to chain'', ''sign''), (''Cancel'', ''cancel'')]"

definition handleTransaction :: "env \<Rightarrow> transaction \<Rightarrow> ScriptHelper \<Rightarrow> TransactionOptions \<Rightarrow> TransactionResult io" where
  "handleTransaction E tx helper options =
     bind (serializeTransaction E tx) (\<lambda>base58.
       if js_truthy (to_json options) then
         bind (lift (opt_base58 (feePayer tx))) (\<lambda>payer.
         andThen (json_line (transaction_json (to_title options) base58 payer tx))
           (ret (ResultCopied base58)))
       else
         andThen (tell_all
           ([Log (newline @ ''=== '' @ to_title options @ '' ==='')]
            @ (case to_description options of Some d \<Rightarrow> if d = [] then [] else [Log d] | None \<Rightarrow> [])
            @ [Log []]))
         (andThen (displayTransactionDetails E tx)
           (if js_truthy (to_dryRun options) then
              andThen (tell_all
                [Log (newline @ ''[Dry Run] Transaction generated but not executed.''),
                 Log (newline @ ''Base58:''), Log base58])
                (ret (ResultCopied base58))
            else
              bind (select E ''What would you like to do?'' action_choices JUndefined) (\<lambda>action.
                if action = ''copy'' then copyTransaction E base58
                else if action = ''sign'' then signAndSendTransaction E tx helper
                else if action = ''cancel'' then
                  andThen (log_line (newline @ ''Transaction cancelled.'')) (ret ResultCancelled)
                else ret ResultCancelled))))"

section \<open>Helpers of the commands\<close>

definition confirmDangerousOperation :: "env \<Rightarrow> string \<Rightarrow> string option \<Rightarrow> string option \<Rightarrow> bool io" where
  "confirmDangerousOperation E message details requireExactMatch =
     andThen (case details of Some d \<Rightarrow> do_when (d \<noteq> []) (log_line d) | None \<Rightarrow> ret ())
       (if requireExactMatch \<noteq> None \<and> requireExactMatch \<noteq> Some [] then
          bind (input E (message @ '' (Type '' @ [CHR 0x22] @ the requireExactMatch @ [CHR 0x22] @ '' to confirm):'')
                  None (\<lambda>_. Valid)) (\<lambda>userInput.
            ret (userInput = the requireExactMatch))
        else confirm E message (JBool False))"

record TransactionBuilderOptions =
  bo_buildIx :: "ScriptHelper \<Rightarrow> jsobj \<Rightarrow> tx_ix list io"
  bo_title :: string
  bo_description :: "string option"
  bo_payer :: jsval
  bo_summary :: "(string \<times> jsobj) option"

definition buildAndHandleTransaction ::
  "env \<Rightarrow> ScriptHelper \<Rightarrow> jsobj \<Rightarrow> jsobj \<Rightarrow> TransactionBuilderOptions \<Rightarrow> unit io" where
  "buildAndHandleTransaction E helper params opts options =
     andThen (case bo_summary options of Some (t, ps) \<Rightarrow> printParamSummary E t ps | None \<Rightarrow> ret ())
       (bind (if js_truthy (bo_payer options) then ret (bo_payer options) else getBoss E helper) (\<lambda>payer.
        bind (bo_buildIx options helper params) (\<lambda>instructions.
        bind (if length instructions = 1 then prepareTransaction E (hd instructions) payer
              else prepareTransactionMultipleIxs E instructions payer) (\<lambda>tx.
        bind (handleTransaction E tx helper
               \<lparr>to_title = bo_title options, to_description = bo_description options,
                to_dryRun = fld opts ''dryRun'', to_json = fld opts ''json''\<rparr>) (\<lambda>_.
          ret ())))))"

text \<open>The wrapper of every command; the configuration is the one of the process.\<close>

definition executeCommand ::
  "env \<Rightarrow> jsobj \<Rightarrow> ParamDefinition list \<Rightarrow> (ScriptHelper \<Rightarrow> jsobj \<Rightarrow> unit io) \<Rightarrow> unit io" where
  "executeCommand E opts paramDefs handler =
     try_catch
       (andThen (do_when (\<not> js_truthy (fld opts ''json'')) (printNetworkBanner (cfg E)))
         (bind (create E None) (\<lambda>helper.
          bind (promptForParams E paramDefs opts (fld opts ''noInteractive'')) (\<lambda>params.
            handler helper params))))
       (\<lambda>error. andThen (tell (LogErr (''Error: '' @ exn_text error))) (throw (ExitProcess 1)))"

text \<open>A builder that returns one instruction and no array of them.\<close>

definition one_ix :: "tx_ix io \<Rightarrow> tx_ix list io" where
  "one_ix m = bind m (\<lambda>ix. ret [ix])"

text \<open>\<open>`...${key.toBase58()}...`\<close>: reading the text of a parameter that must be a key.\<close>

definition key_text :: "jsobj \<Rightarrow> string \<Rightarrow> string io" where
  "key_text params k = lift (js_toBase58 (fld params k))"

text \<open>\<open>new Date(v * 1000).toISOString()\<close>\<close>

definition iso_seconds :: "jsval \<Rightarrow> string io" where
  "iso_seconds v = lift (toISOString (js_mul (as_number v) (Fin 1000)))"

end
