(* ===== verification/Command_Contract.thy ===== *)
theory Command_Contract
  imports Tx_Handler
begin

text \<open>
  What every command keeps, whatever the libraries and the chain answer: in the JSON and dry-run
  modes nothing is sent or copied; a transaction is sent only after its own confirmation, with the
  key announced before; and it satisfies the predicate \<open>Q\<close> of the command. The three together are
  one trace contract, proved for \<open>buildAndHandleTransaction\<close> and \<open>executeCommand\<close> once.
\<close>

section \<open>The contract\<close>

text \<open>Events that neither send nor copy.\<close>

fun hands_off :: "event \<Rightarrow> bool" where
  "hands_off (Sent t k) = False"
| "hands_off (ClipboardWrite s) = False"
| "hands_off _ = True"

text \<open>
  Sending needs the last question before it to be the final confirmation, answered with yes, and
  the last line before that question to name the key. \<open>l\<close> is the last line, \<open>c\<close> the line confirmed.
\<close>

definition send_question :: prompt where
  "send_question = PConfirm ''Send transaction to chain?'' (JBool False)"

definition signing_line :: "pubkey \<Rightarrow> string" where
  "signing_line k = newline @ ''Signing with: '' @ toBase58 k"

fun confirmed_sends :: "string option \<Rightarrow> string option \<Rightarrow> trace \<Rightarrow> bool" where
  "confirmed_sends l c [] = True"
| "confirmed_sends l c (e # es) = (case e of
      Log s \<Rightarrow> confirmed_sends (Some s) c es
    | Asked p v \<Rightarrow> confirmed_sends l (if p = send_question \<and> v = JBool True then l else None) es
    | Sent t k \<Rightarrow> c = Some (signing_line k) \<and> confirmed_sends l None es
    | _ \<Rightarrow> confirmed_sends l c es)"

fun sent_ok :: "(transaction \<Rightarrow> bool) \<Rightarrow> event \<Rightarrow> bool" where
  "sent_ok Q (Sent t k) = Q t"
| "sent_ok Q _ = True"

definition command_trace :: "bool \<Rightarrow> (transaction \<Rightarrow> bool) \<Rightarrow> trace \<Rightarrow> bool" where
  "command_trace quiet Q new \<longleftrightarrow>
     (quiet \<longrightarrow> list_all hands_off new) \<and> confirmed_sends None None new \<and> list_all (sent_ok Q) new"

abbreviation contract :: "bool \<Rightarrow> (transaction \<Rightarrow> bool) \<Rightarrow> 'a io \<Rightarrow> bool" where
  "contract quiet Q m \<equiv> io_trace (command_trace quiet Q) m"

text \<open>The modes in which a command only shows its transaction.\<close>

definition shows_only :: "jsobj \<Rightarrow> bool" where
  "shows_only opts \<longleftrightarrow> js_truthy (fld opts ''json'') \<or> js_truthy (fld opts ''dryRun'')"

section \<open>It is a trace contract\<close>

lemma confirmed_sends_mono:
  "confirmed_sends l c es \<Longrightarrow> l \<in> {None, l'} \<Longrightarrow> c \<in> {None, c'} \<Longrightarrow> confirmed_sends l' c' es"
proof (induction es arbitrary: l c l' c')
  case (Cons e es)
  then show ?case by (cases e) (auto split: if_splits)
qed simp

lemma confirmed_sends_append:
  assumes "confirmed_sends None None b"
  shows "confirmed_sends l c a \<Longrightarrow> confirmed_sends l c (a @ b)"
proof (induction a arbitrary: l c)
  case Nil
  then show ?case using confirmed_sends_mono [OF assms] by simp
next
  case (Cons e es)
  then show ?case by (cases e) auto
qed

lemma confirmed_sends_hands_off: "list_all hands_off es \<Longrightarrow> confirmed_sends l c es"
proof (induction es arbitrary: l c)
  case (Cons e es)
  then show ?case by (cases e) auto
qed simp

interpretation command: trace_contract "command_trace quiet Q" for quiet Q
  by unfold_locales (auto simp: command_trace_def confirmed_sends_append)

lemma sent_ok_hands_off: "hands_off e \<Longrightarrow> sent_ok Q e"
  by (cases e) auto

lemma sent_ok_mono: "(\<And>t. Q t \<Longrightarrow> Q' t) \<Longrightarrow> sent_ok Q e \<Longrightarrow> sent_ok Q' e"
  by (cases e) auto

lemma hands_off_block: "list_all hands_off es \<Longrightarrow> command_trace quiet Q es"
  using list.pred_mono_strong [of hands_off es "sent_ok Q"] sent_ok_hands_off
  by (auto simp: command_trace_def confirmed_sends_hands_off)

lemma contract_hands_off: "io_all hands_off m \<Longrightarrow> contract quiet Q m"
  by (erule io_trace_of_all) (rule hands_off_block)

lemma contract_mono: "contract quiet Q m \<Longrightarrow> (\<And>t. Q t \<Longrightarrow> Q' t) \<Longrightarrow> contract quiet Q' m"
proof (erule io_trace_mono)
  fix new assume Q: "\<And>t. Q t \<Longrightarrow> Q' t" and *: "command_trace quiet Q new"
  have "sent_ok Q e \<Longrightarrow> sent_ok Q' e" for e using Q by (cases e) auto
  then have "list_all (sent_ok Q) new \<Longrightarrow> list_all (sent_ok Q') new" by (auto simp: list_all_iff)
  with * show "command_trace quiet Q' new" by (simp add: command_trace_def)
qed

section \<open>Reading, asking and building are hands-off\<close>

lemmas hands_off_unfold = key_buffer_def getState_def getBoss_def create_def
  load_keypair_def resolve_wallet_def getSolanaCliKeypairPath_def Let_def

lemma hands_off_input [io_intros]: "io_all hands_off (input E s d v)"
  unfolding input_def by (intro io_intros) simp

lemma hands_off_number [io_intros]: "io_all hands_off (number E s d v)"
  unfolding number_def by (intro io_intros) simp

lemma hands_off_confirm [io_intros]: "io_all hands_off (confirm E s d)"
  unfolding confirm_def by (intro io_intros) simp

lemma hands_off_select [io_intros]: "io_all hands_off (select E s cs d)"
  unfolding select_def by (intro io_intros) simp

lemma hands_off_new_PublicKey [io_intros]: "io_all hands_off (new_PublicKey E s)"
  unfolding new_PublicKey_def by (intro io_intros)

lemma hands_off_parseTimestamp [io_intros]: "io_all hands_off (parseTimestamp E v)"
  unfolding parseTimestamp_def by (cases v) (auto intro!: io_intros)

lemma hands_off_transformValue [io_intros]: "io_all hands_off (transformValue E v p)"
  unfolding transformValue_def
  by (cases v; cases "p_type p") (auto intro!: io_intros)

lemma hands_off_promptForSingleParam [io_intros]: "io_all hands_off (promptForSingleParam E p)"
  unfolding promptForSingleParam_def Let_def promptPublicKey_def promptMint_def promptAmount_def
    promptBasisPoints_def promptApr_def promptTimestamp_def promptDuration_def
  by (cases "p_type p") (auto intro!: io_intros)

lemma hands_off_param_value [io_intros]: "io_all hands_off (param_value E p vs b)"
  unfolding param_value_def by (intro io_intros)

lemma hands_off_promptForParams_from [io_intros]: "io_all hands_off (promptForParams_from E vs b r ps)"
  by (induction ps arbitrary: r) (auto intro!: io_intros)

lemma hands_off_promptForParams [io_intros]: "io_all hands_off (promptForParams E ps vs b)"
  unfolding promptForParams_def by (intro io_intros)

lemma hands_off_load_keypair [io_intros]: "io_all hands_off (load_keypair E p)"
  unfolding load_keypair_def by (intro io_intros) simp

lemma hands_off_create [io_intros]: "io_all hands_off (create E w)"
  unfolding create_def resolve_wallet_def getSolanaCliKeypairPath_def Let_def
  by (intro io_intros) simp_all

lemma hands_off_getState [io_intros]: "io_all hands_off (getState E h)"
  unfolding getState_def by (intro io_intros) simp

lemma hands_off_getBoss [io_intros]: "io_all hands_off (getBoss E h)"
  unfolding getBoss_def by (intro io_intros) simp

lemma hands_off_logs: "list_all (\<lambda>e. \<exists>s. e = Log s) es \<Longrightarrow> list_all hands_off es"
  by (erule list.pred_mono_strong) auto

lemma hands_off_printNetworkBanner [io_intros]: "io_all hands_off (printNetworkBanner c)"
  unfolding printNetworkBanner_def by (intro io_intros) simp

lemma hands_off_printParamSummary [io_intros]: "io_all hands_off (printParamSummary E t ps)"
  unfolding printParamSummary_def by (intro io_intros) (simp add: list_all_iff)

lemma hands_off_json_line [io_intros]: "io_all hands_off (json_line v)"
  unfolding json_line_def by (intro io_intros) simp

lemma hands_off_confirmDangerous [io_intros]: "io_all hands_off (confirmDangerousOperation E m d r)"
  unfolding confirmDangerousOperation_def by (intro io_intros) simp

lemma hands_off_key_text [io_intros]: "io_all P (key_text params k)"
  unfolding key_text_def by (intro io_intros)

lemma hands_off_iso_seconds [io_intros]: "io_all P (iso_seconds v)"
  unfolding iso_seconds_def by (intro io_intros)

lemma hands_off_one_ix [io_intros]: "io_all P m \<Longrightarrow> io_all P (one_ix m)"
  unfolding one_ix_def by (intro io_intros)

lemma hands_off_prepare [io_intros]: "io_all hands_off (prepareTransactionMultipleIxs E ixs payer)"
  unfolding prepareTransactionMultipleIxs_def Let_def by (intro io_intros) simp

lemma hands_off_prepare1 [io_intros]: "io_all hands_off (prepareTransaction E ix payer)"
  unfolding prepareTransaction_def by (intro io_intros)

lemma hands_off_serialize [io_intros]: "io_all P (serializeTransaction E tx)"
  unfolding serializeTransaction_def by (intro io_intros)

lemma hands_off_display [io_intros]: "io_all hands_off (displayTransactionDetails E tx)"
  unfolding displayTransactionDetails_def by (intro io_intros) (auto simp: list_all_iff)

section \<open>Handling a transaction\<close>

lemma copy_contract: "contract False Q (copyTransaction E s)"
proof -
  have "list_all (\<lambda>e. case e of Sent t k \<Rightarrow> False | _ \<Rightarrow> True) new \<Longrightarrow> command_trace False Q new" for new
  proof -
    assume "list_all (\<lambda>e. case e of Sent t k \<Rightarrow> False | _ \<Rightarrow> True) new"
    moreover from this have "confirmed_sends l c new" for l c
    proof (induction new arbitrary: l c)
      case (Cons e new)
      then show ?case by (cases e) auto
    qed simp
    moreover have "(case e of Sent t k \<Rightarrow> False | _ \<Rightarrow> True) \<Longrightarrow> sent_ok Q e" for e
      by (cases e) auto
    ultimately show ?thesis by (auto simp: command_trace_def list_all_iff)
  qed
  then show ?thesis
    by (rule io_trace_of_all [rotated]) (auto simp: copyTransaction_def intro!: io_intros)
qed

lemma signing_key_hands_off [io_intros]: "io_all hands_off (signing_key E h)"
  unfolding signing_key_def wallet_path_def walletKeypair_def
  by (auto intro!: io_intros split: option.split)

text \<open>The one place of a sending: the announced key, the confirmation, the transaction.\<close>

definition announced :: "pubkey option \<Rightarrow> trace \<Rightarrow> bool" where
  "announced key new \<longleftrightarrow> list_all hands_off new \<and>
     (case key of None \<Rightarrow> True | Some k \<Rightarrow> new \<noteq> [] \<and> last new = Log (signing_line k))"

definition announces :: "pubkey option io \<Rightarrow> bool" where
  "announces m \<longleftrightarrow> (\<forall>tr key tr'. m tr = (Inr key, tr') \<longrightarrow> (\<exists>new. tr' = tr @ new \<and> announced key new))"

lemma announced_append: "list_all hands_off a \<Longrightarrow> announced key b \<Longrightarrow> announced key (a @ b)"
  by (auto simp: announced_def split: option.splits)

lemma announces_bind:
  assumes m: "io_all hands_off m" and f: "\<And>x. announces (f x)"
  shows "announces (bind m f)"
  unfolding announces_def
proof (intro allI impI, elim bind_Inr_elim)
  fix tr key tr' x tr1
  assume "m tr = (Inr x, tr1)" and k: "f x tr1 = (Inr key, tr')"
  then obtain a where a: "tr1 = tr @ a" "list_all hands_off a" using m by (meson io_allD)
  obtain b where "tr' = tr1 @ b" "announced key b" using f k unfolding announces_def by blast
  with a announced_append show "\<exists>new. tr' = tr @ new \<and> announced key new" by auto
qed

lemma announces_None: "announces (ret None)" "announces (andThen (log_line s) (ret None))"
  by (simp_all add: announces_def announced_def andThen_def bind_def log_line_def tell_def ret_def)

lemma announces_Some:
  "s = newline @ ''Signing with: '' @ toBase58 k \<Longrightarrow> announces (andThen (log_line s) (ret (Some k)))"
  by (simp add: announces_def announced_def signing_line_def andThen_def bind_def log_line_def tell_def ret_def)

lemma signing_key_announces: "announces (signing_key E h)"
  unfolding signing_key_def walletKeypair_def wallet_path_def
  by (auto intro!: announces_bind announces_None announces_Some io_intros split: option.split)

section \<open>Sending\<close>

text \<open>After the announcement and the confirmation, sending meets the contract.\<close>

lemma send_transaction_trace:
  "\<exists>a b. snd (send_transaction E tx k tr) = tr @ Spin (SpinStart ''Sending transaction...'') # a @ b
     \<and> (a = [] \<or> a = [Sent tx k]) \<and> list_all hands_off b"
proof -
  have log: "list_all hands_off (log_lines l)" for l
    by (auto simp: log_lines_def list_all_iff split: option.split)
  show ?thesis
  proof (cases "partialSign E tx k")
    case None
    show ?thesis
      by (rule exI [of _ "[Sent tx k]"])
        (auto simp: None send_transaction_def sign_and_send_def andThen_def bind_def tell_def outside_def
           tell_all_run ret_def log simp del: tell_all.simps split: sum.split prod.split)
  next
    case (Some e)
    show ?thesis
      by (rule exI [of _ "[]"])
        (auto simp: Some send_transaction_def sign_and_send_def andThen_def bind_def tell_def outside_def
           tell_all_run ret_def log simp del: tell_all.simps)
  qed
qed

lemma confirmed_sends_last:
  assumes "list_all hands_off a" "a \<noteq> []" "last a = Log s"
  shows "\<exists>c'. confirmed_sends l c (a @ b) = confirmed_sends (Some s) c' b"
  using assms
proof (induction a arbitrary: l c)
  case (Cons e a)
  then show ?case by (cases e; cases "a = []") (auto split: if_splits)
qed simp

lemma signed_block:
  assumes "announced (Some k) a" and "list_all hands_off b" and "x = [] \<or> x = [Sent tx k]" and "Q tx"
  shows "command_trace False Q (a @ Asked send_question (JBool True) # Spin (SpinStart m) # x @ b)"
proof -
  from assms(1) have a: "list_all hands_off a" "a \<noteq> []" "last a = Log (signing_line k)"
    by (auto simp: announced_def)
  have ok: "list_all hands_off es \<Longrightarrow> list_all (sent_ok Q) es" for es
    by (erule list.pred_mono_strong) (rule sent_ok_hands_off)
  obtain c' where "confirmed_sends None None (a @ Asked send_question (JBool True) # Spin (SpinStart m) # x @ b)
      = confirmed_sends (Some (signing_line k)) c' (Asked send_question (JBool True) # Spin (SpinStart m) # x @ b)"
    using confirmed_sends_last [OF a] by blast
  then show ?thesis
    using assms(2-4) ok a(1) by (auto simp: command_trace_def confirmed_sends_hands_off)
qed

lemma sign_contract:
  assumes "Q tx"
  shows "contract False Q (signAndSendTransaction E tx h)"
  unfolding io_trace_def
proof
  fix tr
  obtain r tr1 where r: "signing_key E h tr = (r, tr1)" by fastforce
  have refuse: "\<exists>new. snd (m tr1) = tr @ new \<and> command_trace False Q new"
    if quiet: "io_all hands_off m" for m :: "TransactionResult io"
  proof -
    obtain a where a: "tr1 = tr @ a" "list_all hands_off a"
      using signing_key_hands_off r by (meson io_allD)
    moreover obtain b where "snd (m tr1) = tr1 @ b" "list_all hands_off b"
      using quiet unfolding io_all_def io_trace_def by blast
    ultimately show ?thesis using hands_off_block [of "a @ b"] by auto
  qed
  have stop: "\<exists>new. tr1 = tr @ new \<and> command_trace False Q new"
    using refuse [OF io_all_ret [of hands_off ResultCancelled]] by (simp add: ret_def)
  show "\<exists>new. snd (signAndSendTransaction E tx h tr) = tr @ new \<and> command_trace False Q new"
  proof (cases "\<exists>k. r = Inr (Some k)")
    case False
    then show ?thesis
      using r stop by (cases r) (auto simp: signAndSendTransaction_def bind_def ret_def split: option.splits)
  next
    case True
    then obtain k where k: "r = Inr (Some k)" by blast
    with r signing_key_announces obtain a where a: "tr1 = tr @ a" "announced (Some k) a"
      unfolding announces_def by blast
    have run: "signAndSendTransaction E tx h tr =
        bind (confirm E ''Send transaction to chain?'' (JBool False)) (\<lambda>confirmed.
          if \<not> confirmed then andThen (log_line (newline @ ''Transaction cancelled.'')) (ret ResultCancelled)
          else send_transaction E tx k) tr1"
      using r k by (simp add: signAndSendTransaction_def bind_run)
    show ?thesis
    proof (cases "inqConfirm E tr1 ''Send transaction to chain?'' (JBool False)")
      case (Inl e)
      then show ?thesis using stop run by (simp add: bind_def confirm_def ask_def)
    next
      case (Inr yes)
      show ?thesis
      proof (cases yes)
        case False
        let ?m = "andThen (tell (Asked send_question (JBool False)))
           (andThen (log_line (newline @ ''Transaction cancelled.'')) (ret ResultCancelled))"
        have "io_all hands_off ?m" by (intro io_intros) simp_all
        then show ?thesis using refuse [of ?m] run Inr False
          by (simp add: bind_def confirm_def ask_def andThen_def tell_def send_question_def)
      next
        case True
        obtain x b where x: "snd (send_transaction E tx k (tr1 @ [Asked send_question (JBool True)]))
            = (tr1 @ [Asked send_question (JBool True)]) @ Spin (SpinStart ''Sending transaction...'') # x @ b"
          "x = [] \<or> x = [Sent tx k]" "list_all hands_off b"
          using send_transaction_trace by blast
        have "command_trace False Q
            (a @ Asked send_question (JBool True) # Spin (SpinStart ''Sending transaction...'') # x @ b)"
          by (rule signed_block [where Q = Q and tx = tx, OF a(2) x(3,2) assms])
        then show ?thesis using run Inr True x(1) a(1)
          by (simp add: bind_def confirm_def ask_def send_question_def)
      qed
    qed
  qed
qed

section \<open>The transaction menu and the wrapper\<close>

lemma handle_contract:
  assumes "Q tx"
  shows "contract (js_truthy (to_json os) \<or> js_truthy (to_dryRun os)) Q (handleTransaction E tx h os)"
    (is "contract ?q Q _")
proof -
  have menu: "contract ?q Q (bind (select E s cs d) (\<lambda>action.
                if action = ''copy'' then copyTransaction E base58
                else if action = ''sign'' then signAndSendTransaction E tx h
                else if action = ''cancel'' then
                  andThen (log_line (newline @ ''Transaction cancelled.'')) (ret ResultCancelled)
                else ret ResultCancelled))" if "\<not> ?q" for s cs d base58
  proof -
    have q: "?q = False" using that by blast
    show ?thesis
      unfolding q
      by (intro command.contract_bind command.contract_if copy_contract sign_contract [where Q = Q, OF assms])
        ((rule contract_hands_off, (intro io_intros | simp)+)[1])+
  qed
  show ?thesis
    unfolding handleTransaction_def
    by (intro command.contract_bind command.contract_if command.contract_andThen menu)
      (((rule contract_hands_off, (intro io_intros | simp split: option.split)+)[1])+, simp)
qed

text \<open>
  The rule for the transactions of a command: \<open>R\<close> describes what the builder returns, \<open>PP\<close> the payer.
\<close>

lemma build_contract:
  assumes events: "\<And>h ps. io_all hands_off (bo_buildIx os h ps)"
    and result: "io_res R (bo_buildIx os helper params)"
    and payer: "io_res PP (if js_truthy (bo_payer os) then ret (bo_payer os) else getBoss E helper)"
    and Q: "\<And>tx :: transaction. R (tx_ixs tx) \<Longrightarrow> PP (feePayer tx) \<Longrightarrow> Q tx"
  shows "contract (shows_only opts) Q (buildAndHandleTransaction E helper params opts os)"
proof -
  have prep: "io_res (\<lambda>tx :: transaction. tx_ixs tx = ixs \<and> feePayer tx = p)
      (if length ixs = 1 then prepareTransaction E (hd ixs) p else prepareTransactionMultipleIxs E ixs p)" for ixs p
    by (cases ixs) (auto simp: prepareTransaction_def intro: prepare_result)
  have hands: "io_all hands_off (case bo_summary os of Some (t, ps) \<Rightarrow> printParamSummary E t ps | None \<Rightarrow> ret ())"
    by (auto intro!: io_intros split: option.split)
  define handle where "handle tx = handleTransaction E tx helper
      \<lparr>to_title = bo_title os, to_description = bo_description os,
       to_dryRun = fld opts ''dryRun'', to_json = fld opts ''json''\<rparr>" for tx
  have A: "contract (shows_only opts) Q (bind (handle tx) (\<lambda>_. ret ()))" if "Q tx" for tx
  proof -
    have "contract (shows_only opts) Q (handle tx)"
      unfolding handle_def shows_only_def
      using handle_contract [where Q = Q, OF that, of "\<lparr>to_title = bo_title os,
          to_description = bo_description os, to_dryRun = fld opts ''dryRun'', to_json = fld opts ''json''\<rparr>"]
      by simp
    then show ?thesis by (intro command.contract_bind command.contract_ret)
  qed
  have B: "contract (shows_only opts) Q (bind (if length ixs = 1 then prepareTransaction E (hd ixs) p
      else prepareTransactionMultipleIxs E ixs p) (\<lambda>tx. bind (handle tx) (\<lambda>_. ret ())))"
    if "PP p" "R ixs" for p ixs
    by (rule command.contract_bind_res [OF contract_hands_off prep], intro io_intros)
      (rule A, rule Q, use that in simp_all)
  have C: "contract (shows_only opts) Q (bind (bo_buildIx os helper params) (\<lambda>ixs.
      bind (if length ixs = 1 then prepareTransaction E (hd ixs) p
        else prepareTransactionMultipleIxs E ixs p) (\<lambda>tx. bind (handle tx) (\<lambda>_. ret ()))))"
    if "PP p" for p
    by (rule command.contract_bind_res [OF contract_hands_off [OF events] result], rule B [OF that])
  show ?thesis
    unfolding buildAndHandleTransaction_def handle_def [symmetric]
    by (intro command.contract_andThen contract_hands_off [OF hands],
        rule command.contract_bind_res [OF contract_hands_off payer], intro io_intros, rule C)
qed

lemma execute_contract:
  assumes "\<And>helper params. contract (shows_only opts) Q (handler helper params)"
  shows "contract (shows_only opts) Q (executeCommand E opts ps handler)"
proof -
  have hands: "io_all hands_off (create E w)" "io_all hands_off (promptForParams E ps vs b)"
    "io_all hands_off (do_when d (printNetworkBanner c))" for w vs b d c
    by (intro io_intros)+
  show ?thesis
    unfolding executeCommand_def
    by (intro command.contract_try_catch command.contract_andThen command.contract_bind assms
        contract_hands_off hands command.contract_throw io_all_tell) simp
qed

text \<open>A command that only reads and prints keeps every contract.\<close>

lemma execute_reading:
  assumes "\<And>helper params. io_all hands_off (handler helper params)"
  shows "contract (shows_only opts) Q (executeCommand E opts ps handler)"
  by (intro execute_contract contract_hands_off assms)

section \<open>Commands signed by the boss\<close>

text \<open>The state account does not change while the command runs.\<close>

definition stable_state :: "env \<Rightarrow> state_account \<Rightarrow> bool" where
  "stable_state E st \<longleftrightarrow> (\<forall>tr k. rpcState E tr k = Inr st)"

definition is_boss :: "env \<Rightarrow> jsval \<Rightarrow> bool" where
  "is_boss E v \<longleftrightarrow> (\<forall>st. stable_state E st \<longrightarrow> v = JPk (st_boss st))"

text \<open>One call of the method \<open>m\<close>.\<close>

definition one_call :: "string \<Rightarrow> tx_ix list \<Rightarrow> bool" where
  "one_call m ixs \<longleftrightarrow> (\<exists>args acs p. ixs = [AnchorIx \<lparr>mc_method = m, mc_args = args, mc_accounts = acs, mc_partial = p\<rparr>])"

text \<open>One call of the method \<open>m\<close> that names \<open>boss\<close> in the account \<open>a\<close>.\<close>

definition boss_ixs :: "string \<Rightarrow> string \<Rightarrow> jsval \<Rightarrow> tx_ix list \<Rightarrow> bool" where
  "boss_ixs m a boss ixs \<longleftrightarrow>
     (\<exists>args acs p. ixs = [AnchorIx \<lparr>mc_method = m, mc_args = args, mc_accounts = acs, mc_partial = p\<rparr>]
        \<and> map_of acs a = Some boss)"

definition boss_tx :: "env \<Rightarrow> string \<Rightarrow> string \<Rightarrow> transaction \<Rightarrow> bool" where
  "boss_tx E m a tx \<longleftrightarrow> is_boss E (feePayer tx) \<and> (\<exists>boss. is_boss E boss \<and> boss_ixs m a boss (tx_ixs tx))"

lemma getBoss_is_boss: "io_res (is_boss E) (getBoss E h)"
  by (auto simp: getBoss_def io_res_def is_boss_def stable_state_def bind_def outside_def ret_def
      split: sum.splits)

lemma payer_boss: "io_res (is_boss E) (if js_truthy JUndefined then ret JUndefined else getBoss E h)"
  by (simp add: getBoss_is_boss)

lemma payer_given: "js_truthy p \<Longrightarrow> io_res (\<lambda>v. v = p) (if js_truthy p then ret p else getBoss E h)"
  by (simp add: io_res_ret)

lemma boss_ixs_one_call: "boss_ixs m a b ixs \<Longrightarrow> one_call m ixs"
  by (auto simp: boss_ixs_def one_call_def)

lemma boss_tx_one_call: "boss_tx E m a tx \<Longrightarrow> one_call m (tx_ixs tx)"
  by (auto simp: boss_tx_def intro: boss_ixs_one_call)

lemma boss_contract:
  assumes events: "\<And>h ps b. io_all hands_off (inner h ps b)"
    and result: "\<And>b. io_res (boss_ixs m a b) (inner helper params b)"
  shows "contract (shows_only opts) (boss_tx E m a) (buildAndHandleTransaction E helper params opts
     \<lparr>bo_buildIx = (\<lambda>h ps. bind (getBoss E h) (inner h ps)), bo_title = t, bo_description = d,
      bo_payer = JUndefined, bo_summary = sm\<rparr>)"
proof (rule build_contract [where R = "\<lambda>ixs. \<exists>b. is_boss E b \<and> boss_ixs m a b ixs" and PP = "is_boss E"])
  show "io_all hands_off (bo_buildIx \<lparr>bo_buildIx = (\<lambda>h ps. bind (getBoss E h) (inner h ps)), bo_title = t,
      bo_description = d, bo_payer = JUndefined, bo_summary = sm\<rparr> h ps)" for h ps
    by (simp add: io_intros events)
  have "io_res (\<lambda>ixs. \<exists>b. is_boss E b \<and> boss_ixs m a b ixs) (inner helper params b)" if "is_boss E b" for b
    using result [of b] that by (auto simp: io_res_def)
  then show "io_res (\<lambda>ixs. \<exists>b. is_boss E b \<and> boss_ixs m a b ixs)
      (bo_buildIx \<lparr>bo_buildIx = (\<lambda>h ps. bind (getBoss E h) (inner h ps)), bo_title = t,
      bo_description = d, bo_payer = JUndefined, bo_summary = sm\<rparr> helper params)"
    by (simp add: io_res_bind2 [OF getBoss_is_boss])
  show "io_res (is_boss E) (if js_truthy (bo_payer \<lparr>bo_buildIx = (\<lambda>h ps. bind (getBoss E h) (inner h ps)),
      bo_title = t, bo_description = d, bo_payer = JUndefined, bo_summary = sm\<rparr>)
      then ret (bo_payer \<lparr>bo_buildIx = (\<lambda>h ps. bind (getBoss E h) (inner h ps)), bo_title = t,
        bo_description = d, bo_payer = JUndefined, bo_summary = sm\<rparr>) else getBoss E helper)"
    by (simp add: getBoss_is_boss)
qed (simp add: boss_tx_def)

text \<open>
  The interface of the builders that take the boss as a parameter: the builder sends nothing, and its
  instruction calls \<open>m\<close> with the parameter \<open>key\<close> as the account \<open>a\<close>.
\<close>

locale boss_instruction =
  fixes build :: "env \<Rightarrow> jsobj \<Rightarrow> tx_ix io" and m a key :: string
  assumes events: "io_all hands_off (build E ps)"
    and result: "io_res (\<lambda>ix. boss_ixs m a (fld ps key) [ix]) (build E ps)"
begin

lemma one_events: "io_all hands_off (one_ix (build E ps))"
  by (intro hands_off_one_ix events)

lemma one_result:
  assumes "fld ps key = b"
  shows "io_res (boss_ixs m a b) (one_ix (build E ps))"
  unfolding one_ix_def by (rule io_res_bind2 [OF result]) (simp add: io_res_ret assms)

lemma sends_boss_call:
  assumes "\<And>h ps b. fld (f h ps b) key = b"
  shows "contract (shows_only opts) (boss_tx E m a) (buildAndHandleTransaction E helper params opts
     \<lparr>bo_buildIx = (\<lambda>h ps. bind (getBoss E h) (\<lambda>b. one_ix (build E (f h ps b)))), bo_title = t,
      bo_description = d, bo_payer = JUndefined, bo_summary = sm\<rparr>)"
  by (intro boss_contract one_events one_result assms)

end

text \<open>The result of the common shape of a builder.\<close>

lemma instruction_boss_ixs:
  "map_of acs a = Some b \<Longrightarrow> io_res (\<lambda>ix. boss_ixs m a b [ix]) (instruction E p m args acs)"
  by (rule io_res_mono [OF instruction_result]) (auto simp: boss_ixs_def)

lemma instruction_one_call: "io_res (\<lambda>ix. one_call m [ix]) (instruction E p m args acs)"
  by (rule io_res_mono [OF instruction_result]) (auto simp: one_call_def)

lemma one_ix_result: "io_res (\<lambda>ix. R [ix]) b \<Longrightarrow> io_res R (one_ix b)"
  unfolding one_ix_def by (rule io_res_bind2, assumption) (simp add: io_res_ret)

text \<open>A command whose transaction is one call of \<open>m\<close>, whoever pays.\<close>

lemma call_contract:
  assumes "\<And>h ps. io_all hands_off (bo_buildIx os h ps)"
    and "io_res (one_call m) (bo_buildIx os helper params)"
  shows "contract (shows_only opts) (\<lambda>tx. one_call m (tx_ixs tx)) (buildAndHandleTransaction E helper params opts os)"
  by (rule build_contract [where PP = "\<lambda>_. True", OF assms io_res_True])

end
