(* ===== verification/Cmd_State.thy ===== *)
theory Cmd_State
  imports Command_Contract
begin

text \<open>
  \<^verbatim>\<open>cli/implementations/state/*.ts\<close>: the commands on the program state. A command takes the options
  of the command line; its handler runs inside \<open>executeCommand\<close>. The fields of the options object are
  computed before \<open>buildAndHandleTransaction\<close> runs, in the order of the literal.
\<close>

section \<open>Boss transfer\<close>

definition executeStateProposeBoss :: "env \<Rightarrow> jsobj \<Rightarrow> unit io" where
  "executeStateProposeBoss E opts = executeCommand E opts proposeBossParams (\<lambda>helper params.
     bind (key_text params ''newBoss'') (\<lambda>newBoss.
       buildAndHandleTransaction E helper params opts
         \<lparr>bo_buildIx = (\<lambda>helper _. bind (getBoss E helper) (\<lambda>boss.
            one_ix (buildProposeBossIx E [(''newBoss'', fld params ''newBoss''), (''boss'', boss)]))),
          bo_title = ''Propose Boss Transfer Transaction'',
          bo_description = Some (''Proposes '' @ newBoss @ '' as new boss''),
          bo_payer = JUndefined,
          bo_summary = Some (''Proposing new boss:'', [(''newBoss'', fld params ''newBoss'')])\<rparr>))"

definition executeStateAcceptBoss :: "env \<Rightarrow> jsobj \<Rightarrow> unit io" where
  "executeStateAcceptBoss E opts = executeCommand E opts acceptBossParams (\<lambda>helper params.
     buildAndHandleTransaction E helper params opts
       \<lparr>bo_buildIx = (\<lambda>helper _. one_ix (buildAcceptBossIx E [(''newBoss'', fld params ''newBoss'')])),
        bo_title = ''Accept Boss Transfer Transaction'',
        bo_description = Some ''Accepts boss transfer proposal'',
        bo_payer = fld params ''newBoss'',
        bo_summary = Some (''Accepting boss transfer:'', [(''newBoss'', fld params ''newBoss'')])\<rparr>)"

section \<open>Admins and approvers\<close>

definition executeStateAddAdmin :: "env \<Rightarrow> jsobj \<Rightarrow> unit io" where
  "executeStateAddAdmin E opts = executeCommand E opts adminParams (\<lambda>helper params.
     bind (key_text params ''admin'') (\<lambda>admin.
       buildAndHandleTransaction E helper params opts
         \<lparr>bo_buildIx = (\<lambda>helper _. bind (getBoss E helper) (\<lambda>boss.
            one_ix (buildAddAdminIx E [(''admin'', fld params ''admin''), (''boss'', boss)]))),
          bo_title = ''Add Admin Transaction'',
          bo_description = Some (''Adds '' @ admin @ '' as admin''),
          bo_payer = JUndefined,
          bo_summary = Some (''Adding admin:'', [(''admin'', fld params ''admin'')])\<rparr>))"

definition executeStateRemoveAdmin :: "env \<Rightarrow> jsobj \<Rightarrow> unit io" where
  "executeStateRemoveAdmin E opts = executeCommand E opts adminParams (\<lambda>helper params.
     bind (key_text params ''admin'') (\<lambda>admin.
       buildAndHandleTransaction E helper params opts
         \<lparr>bo_buildIx = (\<lambda>helper _. bind (getBoss E helper) (\<lambda>boss.
            one_ix (buildRemoveAdminIx E [(''admin'', fld params ''admin''), (''boss'', boss)]))),
          bo_title = ''Remove Admin Transaction'',
          bo_description = Some (''Removes '' @ admin @ '' from admins''),
          bo_payer = JUndefined,
          bo_summary = Some (''Removing admin:'', [(''admin'', fld params ''admin'')])\<rparr>))"

text \<open>
  The count compares the admins with the key of the wallet, \<open>provider.publicKey\<close>; empty slots, which
  hold the default key, are counted.
\<close>

definition adminCount :: "ScriptHelper \<Rightarrow> state_account \<Rightarrow> nat" where
  "adminCount helper state = length (filter (\<lambda>a. a \<noteq> h_wallet helper) (st_admins state))"

definition clearAdmins_options :: "env \<Rightarrow> nat \<Rightarrow> TransactionBuilderOptions" where
  "clearAdmins_options E n =
     \<lparr>bo_buildIx = (\<lambda>helper _. bind (getBoss E helper) (\<lambda>boss. one_ix (buildClearAdminsIx E [(''boss'', boss)]))),
      bo_title = ''Clear Admins Transaction'',
      bo_description = Some (''Removes all '' @ nat_str n @ '' admin(s)''),
      bo_payer = JUndefined,
      bo_summary = None\<rparr>"

definition executeStateClearAdmins :: "env \<Rightarrow> jsobj \<Rightarrow> unit io" where
  "executeStateClearAdmins E opts = executeCommand E opts [] (\<lambda>helper params.
     bind (getState E helper) (\<lambda>state.
       let n = adminCount helper state;
           build = buildAndHandleTransaction E helper params opts (clearAdmins_options E n)
       in if n = 0 \<and> \<not> js_truthy (fld opts ''json'') then log_line ''No admins to clear.''
          else if \<not> js_truthy (fld opts ''json'') \<and> \<not> js_truthy (fld opts ''dryRun'') then
            andThen (log_line (newline @ ''This will remove all '' @ nat_str n @ '' admin(s).''))
              (bind (confirmDangerousOperation E (''Remove all '' @ nat_str n @ '' admin(s)?'') None None) (\<lambda>confirmed.
                 if \<not> confirmed then log_line (newline @ ''Operation cancelled.'') else build))
          else build))"

definition executeStateAddApprover :: "env \<Rightarrow> jsobj \<Rightarrow> unit io" where
  "executeStateAddApprover E opts = executeCommand E opts approverParams (\<lambda>helper params.
     bind (key_text params ''approver'') (\<lambda>approver.
       buildAndHandleTransaction E helper params opts
         \<lparr>bo_buildIx = (\<lambda>helper _. bind (getBoss E helper) (\<lambda>boss.
            one_ix (buildAddApproverIx E [(''approver'', fld params ''approver''), (''boss'', boss)]))),
          bo_title = ''Add Approver Transaction'',
          bo_description = Some (''Adds '' @ approver @ '' as approver''),
          bo_payer = JUndefined,
          bo_summary = Some (''Adding approver:'', [(''approver'', fld params ''approver'')])\<rparr>))"

definition executeStateRemoveApprover :: "env \<Rightarrow> jsobj \<Rightarrow> unit io" where
  "executeStateRemoveApprover E opts = executeCommand E opts approverParams (\<lambda>helper params.
     bind (key_text params ''approver'') (\<lambda>approver.
       buildAndHandleTransaction E helper params opts
         \<lparr>bo_buildIx = (\<lambda>helper _. bind (getBoss E helper) (\<lambda>boss.
            one_ix (buildRemoveApproverIx E [(''approver'', fld params ''approver''), (''boss'', boss)]))),
          bo_title = ''Remove Approver Transaction'',
          bo_description = Some (''Removes '' @ approver @ '' from approvers''),
          bo_payer = JUndefined,
          bo_summary = Some (''Removing approver:'', [(''approver'', fld params ''approver'')])\<rparr>))"

section \<open>Mint, supply and redemption admin\<close>

definition executeStateSetOnycMint :: "env \<Rightarrow> jsobj \<Rightarrow> unit io" where
  "executeStateSetOnycMint E opts = executeCommand E opts setOnycMintParams (\<lambda>helper params.
     bind (key_text params ''mint'') (\<lambda>mint.
       buildAndHandleTransaction E helper params opts
         \<lparr>bo_buildIx = (\<lambda>helper _. bind (getBoss E helper) (\<lambda>boss.
            one_ix (buildSetOnycMintIx E [(''onycMint'', fld params ''mint''), (''boss'', boss)]))),
          bo_title = ''Set ONyc Mint Transaction'',
          bo_description = Some (''Sets ONyc mint to '' @ mint),
          bo_payer = JUndefined,
          bo_summary = Some (''Setting ONyc mint:'', [(''mint'', fld params ''mint'')])\<rparr>))"

definition executeStateMaxSupply :: "env \<Rightarrow> jsobj \<Rightarrow> unit io" where
  "executeStateMaxSupply E opts = executeCommand E opts maxSupplyParams (\<lambda>helper params.
     buildAndHandleTransaction E helper params opts
       \<lparr>bo_buildIx = (\<lambda>helper _. bind (getBoss E helper) (\<lambda>boss.
          one_ix (buildConfigureMaxSupplyIx E [(''maxSupply'', fld params ''amount''), (''boss'', boss)]))),
        bo_title = ''Set Max Supply Transaction'',
        bo_description = Some (''Sets maximum supply to '' @ js_string (fld params ''amount'')),
        bo_payer = JUndefined,
        bo_summary = Some (''Setting max supply:'',
          [(''amount'', fld params ''amount''),
           (''displayAmount'', JStr (toLocaleString E (js_div (as_number (fld params ''amount'')) (Fin 1000000000))
              @ '' ONyc''))])\<rparr>)"

definition executeStateSetRedemptionAdmin :: "env \<Rightarrow> jsobj \<Rightarrow> unit io" where
  "executeStateSetRedemptionAdmin E opts = executeCommand E opts redemptionAdminParams (\<lambda>helper params.
     bind (key_text params ''redemptionAdmin'') (\<lambda>redemptionAdmin.
       buildAndHandleTransaction E helper params opts
         \<lparr>bo_buildIx = (\<lambda>helper _. bind (getBoss E helper) (\<lambda>boss.
            one_ix (buildSetRedemptionAdminIx E [(''redemptionAdmin'', fld params ''redemptionAdmin''), (''boss'', boss)]))),
          bo_title = ''Set Redemption Admin Transaction'',
          bo_description = Some (''Sets redemption admin to '' @ redemptionAdmin),
          bo_payer = JUndefined,
          bo_summary = Some (''Setting redemption admin:'', [(''redemptionAdmin'', fld params ''redemptionAdmin'')])\<rparr>))"

section \<open>Kill switch, closing and display\<close>

text \<open>The warning sign of the messages, as UTF-8.\<close>

definition warning_sign :: string where
  "warning_sign = [CHR 0xE2, CHR 0x9A, CHR 0xA0, CHR 0xEF, CHR 0xB8, CHR 0x8F]"

definition killSwitch_options :: "env \<Rightarrow> TransactionBuilderOptions" where
  "killSwitch_options E =
     \<lparr>bo_buildIx = (\<lambda>helper _. bind (getBoss E helper) (\<lambda>admin.
        one_ix (buildSetKillSwitchIx E [(''enable'', JBool True), (''boss'', admin)]))),
      bo_title = ''Enable Kill Switch Transaction'',
      bo_description = Some (warning_sign @ ''  EMERGENCY: Enables kill switch to pause all operations''),
      bo_payer = JUndefined,
      bo_summary = None\<rparr>"

definition executeStateKillSwitch :: "env \<Rightarrow> jsobj \<Rightarrow> unit io" where
  "executeStateKillSwitch E opts = executeCommand E opts [] (\<lambda>helper params.
     let build = buildAndHandleTransaction E helper params opts (killSwitch_options E) in
     if \<not> js_truthy (fld opts ''json'') \<and> \<not> js_truthy (fld opts ''dryRun'') then
       andThen (tell_all
         [Log (newline @ warning_sign @ ''  WARNING: This will enable the kill switch!''),
          Log ''This is an emergency action that pauses all program operations.'', Log []])
         (bind (confirmDangerousOperation E ''Are you sure you want to enable the kill switch?'' None
                 (Some ''ENABLE KILL SWITCH'')) (\<lambda>confirmed.
            if \<not> confirmed then log_line (newline @ ''Operation cancelled.'') else build))
     else build)"

definition closeState_options :: "env \<Rightarrow> TransactionBuilderOptions" where
  "closeState_options E =
     \<lparr>bo_buildIx = (\<lambda>helper _. bind (getBoss E helper) (\<lambda>boss.
        one_ix (buildCloseStateIx E helper [(''boss'', boss)]))),
      bo_title = ''Close State Transaction'',
      bo_description = Some (warning_sign @ ''  DANGER: Closes the program state account''),
      bo_payer = JUndefined,
      bo_summary = None\<rparr>"

definition executeStateClose :: "env \<Rightarrow> jsobj \<Rightarrow> unit io" where
  "executeStateClose E opts = executeCommand E opts [] (\<lambda>helper params.
     let build = buildAndHandleTransaction E helper params opts (closeState_options E) in
     if \<not> js_truthy (fld opts ''json'') \<and> \<not> js_truthy (fld opts ''dryRun'') then
       andThen (tell_all
         [Log (newline @ warning_sign @ ''  DANGER: This will close the program state account!''),
          Log ''This action is irreversible and will disable the entire program.'', Log []])
         (bind (confirmDangerousOperation E ''Type 'CLOSE STATE' to confirm:'' None (Some ''CLOSE STATE'')) (\<lambda>confirmed.
            if \<not> confirmed then log_line (newline @ ''Operation cancelled.'') else build))
     else build)"

definition executeStateGet :: "env \<Rightarrow> jsobj \<Rightarrow> unit io" where
  "executeStateGet E opts = executeCommand E opts [] (\<lambda>helper params.
     bind (getState E helper) (\<lambda>state. printState state (fld opts ''json'')))"

section \<open>The builders keep the boss interface\<close>

interpretation propose: boss_instruction buildProposeBossIx "''proposeBoss''" "''boss''" "''boss''"
  by unfold_locales (auto simp: buildProposeBossIx_def take_fields_def intro!: io_intros io_res_bind instruction_boss_ixs)

interpretation addAdmin: boss_instruction buildAddAdminIx "''addAdmin''" "''boss''" "''boss''"
  by unfold_locales (auto simp: buildAddAdminIx_def take_fields_def intro!: io_intros io_res_bind instruction_boss_ixs)

interpretation removeAdmin: boss_instruction buildRemoveAdminIx "''removeAdmin''" "''boss''" "''boss''"
  by unfold_locales (auto simp: buildRemoveAdminIx_def take_fields_def intro!: io_intros io_res_bind instruction_boss_ixs)

interpretation clearAdmins: boss_instruction buildClearAdminsIx "''clearAdmins''" "''boss''" "''boss''"
  by unfold_locales (auto simp: buildClearAdminsIx_def take_fields_def intro!: io_intros io_res_bind instruction_boss_ixs)

interpretation addApprover: boss_instruction buildAddApproverIx "''addApprover''" "''boss''" "''boss''"
  by unfold_locales (auto simp: buildAddApproverIx_def take_fields_def intro!: io_intros io_res_bind instruction_boss_ixs)

interpretation removeApprover: boss_instruction buildRemoveApproverIx "''removeApprover''" "''boss''" "''boss''"
  by unfold_locales (auto simp: buildRemoveApproverIx_def take_fields_def intro!: io_intros io_res_bind instruction_boss_ixs)

interpretation setOnycMint: boss_instruction buildSetOnycMintIx "''setOnycMint''" "''boss''" "''boss''"
  by unfold_locales (auto simp: buildSetOnycMintIx_def take_fields_def intro!: io_intros io_res_bind instruction_boss_ixs)

interpretation maxSupply: boss_instruction buildConfigureMaxSupplyIx "''configureMaxSupply''" "''boss''" "''boss''"
  by unfold_locales (auto simp: buildConfigureMaxSupplyIx_def take_fields_def intro!: io_intros io_res_bind instruction_boss_ixs)

interpretation setRedemptionAdmin: boss_instruction buildSetRedemptionAdminIx "''setRedemptionAdmin''" "''boss''" "''boss''"
  by unfold_locales (auto simp: buildSetRedemptionAdminIx_def take_fields_def intro!: io_intros io_res_bind instruction_boss_ixs)

interpretation killSwitch: boss_instruction buildSetKillSwitchIx "''setKillSwitch''" "''signer''" "''boss''"
  by unfold_locales (auto simp: buildSetKillSwitchIx_def take_fields_def intro!: io_intros io_res_bind instruction_boss_ixs)

interpretation closeState: boss_instruction "\<lambda>E. buildCloseStateIx E h" "''closeState''" "''boss''" "''boss''" for h
  by unfold_locales (auto simp: buildCloseStateIx_def intro!: io_intros instruction_boss_ixs)

section \<open>The commands keep the contract\<close>

lemma ProposeBoss_contract: "contract (shows_only opts) (boss_tx E ''proposeBoss'' ''boss'') (executeStateProposeBoss E opts)"
  unfolding executeStateProposeBoss_def
  by (intro execute_contract command.contract_bind contract_hands_off [OF hands_off_key_text] propose.sends_boss_call)
    (simp add: fld_def)

lemma AddAdmin_contract: "contract (shows_only opts) (boss_tx E ''addAdmin'' ''boss'') (executeStateAddAdmin E opts)"
  unfolding executeStateAddAdmin_def
  by (intro execute_contract command.contract_bind contract_hands_off [OF hands_off_key_text] addAdmin.sends_boss_call)
    (simp add: fld_def)

lemma RemoveAdmin_contract: "contract (shows_only opts) (boss_tx E ''removeAdmin'' ''boss'') (executeStateRemoveAdmin E opts)"
  unfolding executeStateRemoveAdmin_def
  by (intro execute_contract command.contract_bind contract_hands_off [OF hands_off_key_text] removeAdmin.sends_boss_call)
    (simp add: fld_def)

lemma AddApprover_contract: "contract (shows_only opts) (boss_tx E ''addApprover'' ''boss'') (executeStateAddApprover E opts)"
  unfolding executeStateAddApprover_def
  by (intro execute_contract command.contract_bind contract_hands_off [OF hands_off_key_text] addApprover.sends_boss_call)
    (simp add: fld_def)

lemma RemoveApprover_contract: "contract (shows_only opts) (boss_tx E ''removeApprover'' ''boss'') (executeStateRemoveApprover E opts)"
  unfolding executeStateRemoveApprover_def
  by (intro execute_contract command.contract_bind contract_hands_off [OF hands_off_key_text] removeApprover.sends_boss_call)
    (simp add: fld_def)

lemma SetOnycMint_contract: "contract (shows_only opts) (boss_tx E ''setOnycMint'' ''boss'') (executeStateSetOnycMint E opts)"
  unfolding executeStateSetOnycMint_def
  by (intro execute_contract command.contract_bind contract_hands_off [OF hands_off_key_text] setOnycMint.sends_boss_call)
    (simp add: fld_def)

lemma SetRedemptionAdmin_contract: "contract (shows_only opts) (boss_tx E ''setRedemptionAdmin'' ''boss'') (executeStateSetRedemptionAdmin E opts)"
  unfolding executeStateSetRedemptionAdmin_def
  by (intro execute_contract command.contract_bind contract_hands_off [OF hands_off_key_text] setRedemptionAdmin.sends_boss_call)
    (simp add: fld_def)

lemma MaxSupply_contract:
  "contract (shows_only opts) (boss_tx E ''configureMaxSupply'' ''boss'') (executeStateMaxSupply E opts)"
  unfolding executeStateMaxSupply_def
  by (intro execute_contract maxSupply.sends_boss_call) (simp add: fld_def)

lemma clearAdmins_build:
  "contract (shows_only opts) (boss_tx E ''clearAdmins'' ''boss'')
     (buildAndHandleTransaction E helper params opts (clearAdmins_options E n))"
  unfolding clearAdmins_options_def by (rule clearAdmins.sends_boss_call) (simp add: fld_def)

lemma ClearAdmins_contract:
  "contract (shows_only opts) (boss_tx E ''clearAdmins'' ''boss'') (executeStateClearAdmins E opts)"
  unfolding executeStateClearAdmins_def Let_def
  by (intro execute_contract command.contract_bind command.contract_if command.contract_andThen clearAdmins_build)
    (rule contract_hands_off, (intro io_intros, simp?)[1])+

lemma killSwitch_build:
  "contract (shows_only opts) (boss_tx E ''setKillSwitch'' ''signer'')
     (buildAndHandleTransaction E helper params opts (killSwitch_options E))"
  unfolding killSwitch_options_def by (rule killSwitch.sends_boss_call) (simp add: fld_def)

lemma KillSwitch_contract:
  "contract (shows_only opts) (boss_tx E ''setKillSwitch'' ''signer'') (executeStateKillSwitch E opts)"
  unfolding executeStateKillSwitch_def Let_def
  by (intro execute_contract command.contract_bind command.contract_if command.contract_andThen killSwitch_build)
    (rule contract_hands_off, (intro io_intros, simp?)[1])+

lemma closeState_build:
  "contract (shows_only opts) (boss_tx E ''closeState'' ''boss'')
     (buildAndHandleTransaction E helper params opts (closeState_options E))"
  unfolding closeState_options_def
  by (intro boss_contract closeState.one_events closeState.one_result) (simp add: fld_def)

lemma Close_contract:
  "contract (shows_only opts) (boss_tx E ''closeState'' ''boss'') (executeStateClose E opts)"
  unfolding executeStateClose_def Let_def
  by (intro execute_contract command.contract_bind command.contract_if command.contract_andThen closeState_build)
    (rule contract_hands_off, (intro io_intros, simp?)[1])+

lemma AcceptBoss_contract:
  "contract (shows_only opts) (\<lambda>tx. one_call ''acceptBoss'' (tx_ixs tx)) (executeStateAcceptBoss E opts)"
  unfolding executeStateAcceptBoss_def
  by (intro execute_contract call_contract)
    (auto simp: buildAcceptBossIx_def intro!: io_intros one_ix_result instruction_one_call)

lemma printState_hands_off [io_intros]: "io_all hands_off (printState st v)"
proof -
  have "list_all hands_off (admin_lines i as)" for i as
    by (induction as arbitrary: i) auto
  then show ?thesis unfolding printState_def by (auto intro!: io_intros)
qed

lemma Get_contract: "contract (shows_only opts) Q (executeStateGet E opts)"
  unfolding executeStateGet_def by (intro execute_reading io_intros)

end
