(* ===== verification/Cmd_Offer.thy ===== *)
theory Cmd_Offer
  imports Command_Contract
begin

text \<open>
  \<^verbatim>\<open>cli/implementations/offer/*.ts\<close>: the commands on offers and their pricing vectors.
\<close>

text \<open>\<open>`${in.slice(0, 8)}... (arrow) ${out.slice(0, 8)}...`\<close>\<close>

definition arrow :: string where
  "arrow = [CHR 0xE2, CHR 0x86, CHR 0x92]"

definition pair_text :: "string \<Rightarrow> string \<Rightarrow> string" where
  "pair_text tokenIn tokenOut = take 8 tokenIn @ ''... '' @ arrow @ '' '' @ take 8 tokenOut @ ''...''"

text \<open>\<open>opts.json\<close> and \<open>params.permissionless\<close> decide inside the builder of \<open>offer make\<close>.\<close>

definition makeOffer_ixs :: "env \<Rightarrow> jsobj \<Rightarrow> jsobj \<Rightarrow> ScriptHelper \<Rightarrow> tx_ix list io" where
  "makeOffer_ixs E opts params helper =
     bind (getBoss E helper) (\<lambda>boss.
     bind (lift (getTokenProgramId E (fld params ''tokenIn''))) (\<lambda>tokenInProgram.
     bind (lift (getTokenProgramId E (fld params ''tokenOut''))) (\<lambda>tokenOutProgram.
     andThen (do_when (\<not> js_truthy (fld opts ''json''))
        (tell_all
          [Log (''  Token In Program: '' @ take 12 (toBase58 tokenInProgram) @ ''...''),
           Log (''  Token Out Program: '' @ take 12 (toBase58 tokenOutProgram) @ ''...'')]))
     (bind (if js_truthy (fld params ''permissionless'') then
              buildCreatePermissionlessTokenAccountsIxs E helper
                [(''tokenInMint'', fld params ''tokenIn''), (''tokenOutMint'', fld params ''tokenOut''),
                 (''tokenInProgram'', JPk tokenInProgram), (''tokenOutProgram'', JPk tokenOutProgram),
                 (''payer'', boss)]
            else ret []) (\<lambda>permissionlessIxs.
      bind (buildMakeOfferIx E
              [(''tokenInMint'', fld params ''tokenIn''), (''tokenOutMint'', fld params ''tokenOut''),
               (''tokenInProgram'', JPk tokenInProgram), (''feeBasisPoints'', fld params ''fee''),
               (''needsApproval'', fld params ''needsApproval''),
               (''allowPermissionless'', fld params ''permissionless''), (''boss'', boss)]) (\<lambda>makeOfferIx.
        ret (permissionlessIxs @ [makeOfferIx])))))))"

definition executeOfferMake :: "env \<Rightarrow> jsobj \<Rightarrow> unit io" where
  "executeOfferMake E opts = executeCommand E opts makeOfferParams (\<lambda>helper params.
     bind (key_text params ''tokenIn'') (\<lambda>tokenIn.
     bind (key_text params ''tokenOut'') (\<lambda>tokenOut.
       buildAndHandleTransaction E helper params opts
         \<lparr>bo_buildIx = (\<lambda>helper _. makeOffer_ixs E opts params helper),
          bo_title = ''Make Offer Transaction'',
          bo_description = Some (''Creates a new '' @ pair_text tokenIn tokenOut @ '' offer''),
          bo_payer = JUndefined,
          bo_summary = Some (''Creating offer:'',
            [(''tokenIn'', fld params ''tokenIn''),
             (''tokenOut'', fld params ''tokenOut''),
             (''fee'', JStr (fee_text (fld params ''fee''))),
             (''needsApproval'', fld params ''needsApproval''),
             (''permissionless'', fld params ''permissionless'')])\<rparr>)))"

definition executeOfferFetch :: "env \<Rightarrow> jsobj \<Rightarrow> unit io" where
  "executeOfferFetch E opts = executeCommand E opts tokenPairParams (\<lambda>helper params.
     bind (getOffer E helper (fld params ''tokenIn'') (fld params ''tokenOut'')) (\<lambda>offer.
     bind (key_text params ''tokenIn'') (\<lambda>tokenIn.
     bind (key_text params ''tokenOut'') (\<lambda>tokenOut.
       printOffer E offer tokenIn tokenOut (fld opts ''json'')))))"

definition takeOffer_ix :: "env \<Rightarrow> jsobj \<Rightarrow> ScriptHelper \<Rightarrow> tx_ix io" where
  "takeOffer_ix E params helper =
     bind (lift (getTokenProgramId E (fld params ''tokenIn''))) (\<lambda>tokenInProgram.
     bind (lift (getTokenProgramId E (fld params ''tokenOut''))) (\<lambda>tokenOutProgram.
       let args = [(''tokenInAmount'', fld params ''amount''), (''tokenInMint'', fld params ''tokenIn''),
                   (''tokenOutMint'', fld params ''tokenOut''), (''user'', JPk (h_wallet helper)),
                   (''tokenInProgram'', JPk tokenInProgram), (''tokenOutProgram'', JPk tokenOutProgram)]
       in if js_truthy (fld params ''permissionless'') then buildTakeOfferPermissionlessIx E helper args
          else buildTakeOfferIx E args))"

definition executeOfferTake :: "env \<Rightarrow> jsobj \<Rightarrow> unit io" where
  "executeOfferTake E opts = executeCommand E opts takeOfferParams (\<lambda>helper params.
     bind (key_text params ''tokenIn'') (\<lambda>tokenIn.
     bind (key_text params ''tokenOut'') (\<lambda>tokenOut.
       buildAndHandleTransaction E helper params opts
         \<lparr>bo_buildIx = (\<lambda>helper _. one_ix (takeOffer_ix E params helper)),
          bo_title = ''Take Offer Transaction'',
          bo_description = Some (''Takes '' @ js_string (fld params ''amount'') @ '' of '' @ take 8 tokenIn
             @ ''... for '' @ take 8 tokenOut @ ''...''),
          bo_payer = JPk (h_wallet helper),
          bo_summary = Some (''Taking offer:'',
            [(''tokenIn'', fld params ''tokenIn''),
             (''tokenOut'', fld params ''tokenOut''),
             (''amount'', fld params ''amount''),
             (''permissionless'', fld params ''permissionless'')])\<rparr>)))"

section \<open>Pricing vectors\<close>

definition executeOfferAddVector :: "env \<Rightarrow> jsobj \<Rightarrow> unit io" where
  "executeOfferAddVector E opts = executeCommand E opts addVectorParams (\<lambda>helper params.
     bind (key_text params ''tokenIn'') (\<lambda>tokenIn.
     bind (key_text params ''tokenOut'') (\<lambda>tokenOut.
     bind (iso_seconds (fld params ''baseTime'')) (\<lambda>baseTime.
       buildAndHandleTransaction E helper params opts
         \<lparr>bo_buildIx = (\<lambda>helper _. bind (getBoss E helper) (\<lambda>boss.
            one_ix (buildAddOfferVectorIx E
              [(''tokenInMint'', fld params ''tokenIn''), (''tokenOutMint'', fld params ''tokenOut''),
               (''baseTime'', fld params ''baseTime''), (''basePrice'', fld params ''basePrice''),
               (''apr'', fld params ''apr''), (''priceFixDuration'', fld params ''duration''), (''boss'', boss)]))),
          bo_title = ''Add Offer Vector Transaction'',
          bo_description = Some (''Adds pricing vector to '' @ pair_text tokenIn tokenOut @ '' offer''),
          bo_payer = JUndefined,
          bo_summary = Some (''Adding price vector:'',
            [(''tokenIn'', fld params ''tokenIn''),
             (''tokenOut'', fld params ''tokenOut''),
             (''baseTime'', JStr baseTime),
             (''basePrice'', fld params ''basePrice''),
             (''apr'', JStr (num_str (js_div (as_number (fld params ''apr'')) (Fin 10000))
                @ ''% ('' @ js_string (fld params ''apr'') @ '')'')),
             (''duration'', JStr (js_string (fld params ''duration'') @ ''s''))])\<rparr>))))"

definition executeOfferDeleteVector :: "env \<Rightarrow> jsobj \<Rightarrow> unit io" where
  "executeOfferDeleteVector E opts = executeCommand E opts deleteVectorParams (\<lambda>helper params.
     bind (iso_seconds (fld params ''startTime'')) (\<lambda>startTime.
       buildAndHandleTransaction E helper params opts
         \<lparr>bo_buildIx = (\<lambda>helper _. bind (getBoss E helper) (\<lambda>boss.
            one_ix (buildDeleteOfferVectorIx E
              [(''tokenInMint'', fld params ''tokenIn''), (''tokenOutMint'', fld params ''tokenOut''),
               (''vectorStartTimestamp'', fld params ''startTime''), (''boss'', boss)]))),
          bo_title = ''Delete Offer Vector Transaction'',
          bo_description = Some (''Deletes vector starting at '' @ js_string (fld params ''startTime'') @ '' from offer''),
          bo_payer = JUndefined,
          bo_summary = Some (''Deleting price vector:'',
            [(''tokenIn'', fld params ''tokenIn''),
             (''tokenOut'', fld params ''tokenOut''),
             (''startTime'', JStr startTime)])\<rparr>))"

definition executeOfferDeleteAllVectors :: "env \<Rightarrow> jsobj \<Rightarrow> unit io" where
  "executeOfferDeleteAllVectors E opts = executeCommand E opts tokenPairParams (\<lambda>helper params.
     buildAndHandleTransaction E helper params opts
       \<lparr>bo_buildIx = (\<lambda>helper _. bind (getBoss E helper) (\<lambda>boss.
          one_ix (buildDeleteAllOfferVectorsIx E
            [(''tokenInMint'', fld params ''tokenIn''), (''tokenOutMint'', fld params ''tokenOut''), (''boss'', boss)]))),
        bo_title = ''Delete All Offer Vectors Transaction'',
        bo_description = Some ''Deletes all pricing vectors from offer'',
        bo_payer = JUndefined,
        bo_summary = Some (''Deleting all price vectors:'',
          [(''tokenIn'', fld params ''tokenIn''), (''tokenOut'', fld params ''tokenOut'')])\<rparr>)"

definition executeOfferUpdateFee :: "env \<Rightarrow> jsobj \<Rightarrow> unit io" where
  "executeOfferUpdateFee E opts = executeCommand E opts updateFeeParams (\<lambda>helper params.
     buildAndHandleTransaction E helper params opts
       \<lparr>bo_buildIx = (\<lambda>helper _. bind (getBoss E helper) (\<lambda>boss.
          one_ix (buildUpdateOfferFeeIx E
            [(''tokenInMint'', fld params ''tokenIn''), (''tokenOutMint'', fld params ''tokenOut''),
             (''newFeeBasisPoints'', fld params ''fee''), (''boss'', boss)]))),
        bo_title = ''Update Offer Fee Transaction'',
        bo_description = Some (''Updates fee to '' @ num_str (js_div (as_number (fld params ''fee'')) (Fin 100)) @ ''%''),
        bo_payer = JUndefined,
        bo_summary = Some (''Updating offer fee:'',
          [(''tokenIn'', fld params ''tokenIn''),
           (''tokenOut'', fld params ''tokenOut''),
           (''newFee'', JStr (fee_text (fld params ''fee'')))])\<rparr>)"

section \<open>The commands keep the contract\<close>

interpretation addVector: boss_instruction buildAddOfferVectorIx "''addOfferVector''" "''boss''" "''boss''"
  by unfold_locales (auto simp: buildAddOfferVectorIx_def vault_instruction_def take_fields_def intro!: io_intros io_res_bind instruction_boss_ixs)

interpretation deleteVector: boss_instruction buildDeleteOfferVectorIx "''deleteOfferVector''" "''boss''" "''boss''"
  by unfold_locales (auto simp: buildDeleteOfferVectorIx_def vault_instruction_def take_fields_def intro!: io_intros io_res_bind instruction_boss_ixs)

interpretation deleteAllVectors: boss_instruction buildDeleteAllOfferVectorsIx "''deleteAllOfferVectors''" "''boss''" "''boss''"
  by unfold_locales (auto simp: buildDeleteAllOfferVectorsIx_def vault_instruction_def take_fields_def intro!: io_intros io_res_bind instruction_boss_ixs)

interpretation updateFee: boss_instruction buildUpdateOfferFeeIx "''updateOfferFee''" "''boss''" "''boss''"
  by unfold_locales (auto simp: buildUpdateOfferFeeIx_def vault_instruction_def take_fields_def intro!: io_intros io_res_bind instruction_boss_ixs)

lemma AddVector_contract: "contract (shows_only opts) (boss_tx E ''addOfferVector'' ''boss'') (executeOfferAddVector E opts)"
  unfolding executeOfferAddVector_def
  by (intro execute_contract command.contract_bind contract_hands_off [OF hands_off_key_text]
      contract_hands_off [OF hands_off_iso_seconds] addVector.sends_boss_call)
    (simp add: fld_def)

lemma DeleteVector_contract: "contract (shows_only opts) (boss_tx E ''deleteOfferVector'' ''boss'') (executeOfferDeleteVector E opts)"
  unfolding executeOfferDeleteVector_def
  by (intro execute_contract command.contract_bind contract_hands_off [OF hands_off_key_text]
      contract_hands_off [OF hands_off_iso_seconds] deleteVector.sends_boss_call)
    (simp add: fld_def)

lemma DeleteAllVectors_contract: "contract (shows_only opts) (boss_tx E ''deleteAllOfferVectors'' ''boss'') (executeOfferDeleteAllVectors E opts)"
  unfolding executeOfferDeleteAllVectors_def
  by (intro execute_contract command.contract_bind contract_hands_off [OF hands_off_key_text]
      contract_hands_off [OF hands_off_iso_seconds] deleteAllVectors.sends_boss_call)
    (simp add: fld_def)

lemma UpdateFee_contract: "contract (shows_only opts) (boss_tx E ''updateOfferFee'' ''boss'') (executeOfferUpdateFee E opts)"
  unfolding executeOfferUpdateFee_def
  by (intro execute_contract command.contract_bind contract_hands_off [OF hands_off_key_text]
      contract_hands_off [OF hands_off_iso_seconds] updateFee.sends_boss_call)
    (simp add: fld_def)

lemma takeOffer_ix_hands_off: "io_all hands_off (takeOffer_ix E params h)"
  unfolding takeOffer_ix_def buildTakeOfferIx_def buildTakeOfferPermissionlessIx_def Let_def by (intro io_intros)

definition take_call :: "pubkey \<Rightarrow> tx_ix list \<Rightarrow> bool" where
  "take_call user ixs \<longleftrightarrow>
     (\<exists>c. ixs = [AnchorIx c] \<and> mc_method c \<in> {''takeOffer'', ''takeOfferPermissionless''}
        \<and> map_of (mc_accounts c) ''user'' = Some (JPk user))"

lemma takeOffer_ix_result: "io_res (\<lambda>ix. take_call (h_wallet h) [ix]) (takeOffer_ix E params h)"
  unfolding takeOffer_ix_def buildTakeOfferIx_def buildTakeOfferPermissionlessIx_def Let_def
  by (intro io_res_bind io_res_if; rule io_res_mono [OF instruction_result]) (auto simp: take_call_def fld_def)

text \<open>The taker pays and is the user of the instruction.\<close>

definition take_tx :: "transaction \<Rightarrow> bool" where
  "take_tx tx \<longleftrightarrow> (\<exists>user. feePayer tx = JPk user \<and> take_call user (tx_ixs tx))"

lemma Take_contract: "contract (shows_only opts) take_tx (executeOfferTake E opts)"
  unfolding executeOfferTake_def
proof (intro execute_contract command.contract_bind contract_hands_off [OF hands_off_key_text])
  fix helper params tokenIn tokenOut
  show "contract (shows_only opts) take_tx (buildAndHandleTransaction E helper params opts
         \<lparr>bo_buildIx = \<lambda>helper _. one_ix (takeOffer_ix E params helper),
            bo_title = t, bo_description = d, bo_payer = JPk (h_wallet helper), bo_summary = s\<rparr>)" for t d s
    by (rule build_contract [where R = "take_call (h_wallet helper)" and PP = "\<lambda>p. p = JPk (h_wallet helper)"])
      (auto simp: take_tx_def intro!: io_intros takeOffer_ix_hands_off one_ix_result takeOffer_ix_result io_res_ret)
qed

text \<open>
  What \<open>offer make\<close> sends: at most two new token accounts, of the permissionless authority, then the
  offer.
\<close>

fun creates_account_of :: "pubkey \<Rightarrow> tx_ix \<Rightarrow> bool" where
  "creates_account_of owner (CreateAtaIx p a ow m pr) = (ow = owner)"
| "creates_account_of owner (AnchorIx c) = False"

definition make_call :: "pubkey \<Rightarrow> tx_ix list \<Rightarrow> bool" where
  "make_call owner ixs \<longleftrightarrow>
     (\<exists>accounts c. ixs = accounts @ [AnchorIx c] \<and> length accounts \<le> 2
        \<and> list_all (creates_account_of owner) accounts \<and> mc_method c = ''makeOffer'')"

lemma create_if_missing_hands_off: "io_all hands_off (create_if_missing E h m p payer)"
  unfolding create_if_missing_def Let_def by (intro io_intros) simp

lemma create_if_missing_result:
  "io_res (\<lambda>ixs. length ixs \<le> 1 \<and> list_all (creates_account_of (permissionlessVaultAuthorityPda h)) ixs)
     (create_if_missing E h m p payer)"
  unfolding create_if_missing_def Let_def by (intro io_res_bind io_res_ret) simp

lemma permissionless_accounts_result:
  "io_res (\<lambda>ixs. length ixs \<le> 2 \<and> list_all (creates_account_of (permissionlessVaultAuthorityPda h)) ixs)
     (buildCreatePermissionlessTokenAccountsIxs E h ps)"
  unfolding buildCreatePermissionlessTokenAccountsIxs_def
  by (rule io_res_bind2 [OF create_if_missing_result], rule io_res_bind2 [OF create_if_missing_result],
      rule io_res_ret) simp

lemma makeOffer_ixs_hands_off: "io_all hands_off (makeOffer_ixs E opts params h)"
  unfolding makeOffer_ixs_def buildMakeOfferIx_def buildCreatePermissionlessTokenAccountsIxs_def Let_def
  by (intro io_intros create_if_missing_hands_off) simp

lemma buildMakeOfferIx_result:
  "io_res (\<lambda>ix. \<exists>c. ix = AnchorIx c \<and> mc_method c = ''makeOffer'') (buildMakeOfferIx E ps)"
  unfolding buildMakeOfferIx_def Let_def by (rule io_res_mono [OF instruction_result]) simp

lemma make_block:
  "io_res (make_call (permissionlessVaultAuthorityPda h))
     (bind (if b then buildCreatePermissionlessTokenAccountsIxs E h ps else ret [])
       (\<lambda>permissionlessIxs. bind (buildMakeOfferIx E qs) (\<lambda>makeOfferIx. ret (permissionlessIxs @ [makeOfferIx]))))"
proof (rule io_res_bind2 [where S = "\<lambda>ixs. length ixs \<le> 2
          \<and> list_all (creates_account_of (permissionlessVaultAuthorityPda h)) ixs"])
  show "io_res (\<lambda>ixs. length ixs \<le> 2 \<and> list_all (creates_account_of (permissionlessVaultAuthorityPda h)) ixs)
      (if b then buildCreatePermissionlessTokenAccountsIxs E h ps else ret [])"
    by (simp add: permissionless_accounts_result io_res_ret)
qed (rule io_res_bind2 [OF buildMakeOfferIx_result], rule io_res_ret, auto simp: make_call_def)

lemma makeOffer_ixs_result: "io_res (make_call (permissionlessVaultAuthorityPda h)) (makeOffer_ixs E opts params h)"
  unfolding makeOffer_ixs_def
  by (rule io_res_bind, rule io_res_bind, rule io_res_bind, rule io_res_andThen, rule make_block)

definition make_tx :: "transaction \<Rightarrow> bool" where
  "make_tx tx \<longleftrightarrow> (\<exists>owner. make_call owner (tx_ixs tx))"

lemma Make_contract: "contract (shows_only opts) make_tx (executeOfferMake E opts)"
  unfolding executeOfferMake_def
proof (intro execute_contract command.contract_bind contract_hands_off [OF hands_off_key_text])
  fix helper params tokenIn tokenOut
  show "contract (shows_only opts) make_tx (buildAndHandleTransaction E helper params opts
         \<lparr>bo_buildIx = \<lambda>helper _. makeOffer_ixs E opts params helper,
            bo_title = t, bo_description = d, bo_payer = JUndefined, bo_summary = s\<rparr>)" for t d s
    by (rule build_contract [where R = "make_call (permissionlessVaultAuthorityPda helper)" and PP = "\<lambda>_. True"])
      (auto simp: make_tx_def intro!: makeOffer_ixs_hands_off makeOffer_ixs_result io_res_True)
qed

lemma printOffer_hands_off [io_intros]: "io_all hands_off (printOffer E off a b v)"
  unfolding printOffer_def by (auto intro!: io_intros)

lemma getOffer_hands_off [io_intros]: "io_all hands_off (getOffer E h a b)"
  unfolding getOffer_def by (intro io_intros) simp_all

lemma Fetch_contract: "contract (shows_only opts) Q (executeOfferFetch E opts)"
  unfolding executeOfferFetch_def by (intro execute_reading io_intros)

end
