(* ===== verification/Cmd_Redemption.thy ===== *)
theory Cmd_Redemption
  imports Command_Contract
begin

text \<open>
  \<^verbatim>\<open>cli/implementations/redemption/*.ts\<close>: redemption offers and the requests against them.
\<close>

section \<open>Offers\<close>

definition executeRedemptionMakeOffer :: "env \<Rightarrow> jsobj \<Rightarrow> unit io" where
  "executeRedemptionMakeOffer E opts = executeCommand E opts redemptionOfferParams (\<lambda>helper params.
     buildAndHandleTransaction E helper params opts
       \<lparr>bo_buildIx = (\<lambda>helper _. bind (getBoss E helper) (\<lambda>boss.
          bind (lift (getTokenProgramId E (fld params ''tokenIn''))) (\<lambda>tokenInProgram.
          bind (lift (getTokenProgramId E (fld params ''tokenOut''))) (\<lambda>tokenOutProgram.
            one_ix (buildMakeRedemptionOfferIx E
              [(''tokenInMint'', fld params ''tokenIn''), (''tokenOutMint'', fld params ''tokenOut''),
               (''tokenInProgram'', JPk tokenInProgram), (''tokenOutProgram'', JPk tokenOutProgram),
               (''feeBasisPoints'', fld params ''fee''), (''boss'', boss)]))))),
        bo_title = ''Make Redemption Offer Transaction'',
        bo_description = Some ''Creates redemption offer'',
        bo_payer = JUndefined,
        bo_summary = Some (''Creating redemption offer:'',
          [(''tokenIn'', fld params ''tokenIn''),
           (''tokenOut'', fld params ''tokenOut''),
           (''fee'', JStr (fee_text (fld params ''fee'')))])\<rparr>)"

text \<open>
  \<open>tokenPairParams\<close> here is the export of \<^verbatim>\<open>params/common.ts\<close>: the explicit export of \<^verbatim>\<open>params/index.ts\<close>
  hides the table of the same name that \<^verbatim>\<open>params/redemption.ts\<close> exports.
\<close>

definition executeRedemptionFetchOffer :: "env \<Rightarrow> jsobj \<Rightarrow> unit io" where
  "executeRedemptionFetchOffer E opts = executeCommand E opts tokenPairParams (\<lambda>helper params.
     bind (fetchRedemptionOffer E helper (fld params ''tokenIn'') (fld params ''tokenOut'')) (\<lambda>offer.
     bind (key_text params ''tokenIn'') (\<lambda>tokenIn.
     bind (key_text params ''tokenOut'') (\<lambda>tokenOut.
       printRedemptionOffer offer tokenIn tokenOut (fld opts ''json'')))))"

definition executeRedemptionUpdateFee :: "env \<Rightarrow> jsobj \<Rightarrow> unit io" where
  "executeRedemptionUpdateFee E opts = executeCommand E opts updateRedemptionFeeParams (\<lambda>helper params.
     buildAndHandleTransaction E helper params opts
       \<lparr>bo_buildIx = (\<lambda>helper _. bind (getBoss E helper) (\<lambda>boss.
          bind (lift (getRedemptionOfferPda E helper (fld params ''tokenIn'') (fld params ''tokenOut''))) (\<lambda>redemptionOfferPda.
            one_ix (buildUpdateRedemptionOfferFeeIx E
              [(''redemptionOfferPda'', JPk redemptionOfferPda), (''newFeeBasisPoints'', fld params ''fee''),
               (''boss'', boss)])))),
        bo_title = ''Update Redemption Fee Transaction'',
        bo_description = Some (''Updates redemption fee to '' @ num_str (js_div (as_number (fld params ''fee'')) (Fin 100)) @ ''%''),
        bo_payer = JUndefined,
        bo_summary = Some (''Updating redemption fee:'',
          [(''tokenIn'', fld params ''tokenIn''),
           (''tokenOut'', fld params ''tokenOut''),
           (''newFee'', JStr (fee_text (fld params ''fee'')))])\<rparr>)"

section \<open>Requests\<close>

definition executeRedemptionCreateRequest :: "env \<Rightarrow> jsobj \<Rightarrow> unit io" where
  "executeRedemptionCreateRequest E opts = executeCommand E opts createRequestParams (\<lambda>helper params.
     buildAndHandleTransaction E helper params opts
       \<lparr>bo_buildIx = (\<lambda>helper _.
          bind (lift (getRedemptionOfferPda E helper (fld params ''tokenIn'') (fld params ''tokenOut''))) (\<lambda>redemptionOfferPda.
            one_ix (buildCreateRedemptionRequestIx E helper
              [(''redemptionOfferPda'', JPk redemptionOfferPda), (''tokenInMint'', fld params ''tokenIn''),
               (''amount'', fld params ''amount''), (''redeemer'', JPk (h_wallet helper))]))),
        bo_title = ''Create Redemption Request Transaction'',
        bo_description = Some (''Creates redemption request for '' @ js_string (fld params ''amount'') @ '' tokens''),
        bo_payer = JPk (h_wallet helper),
        bo_summary = Some (''Creating redemption request:'',
          [(''redeemer'', JPk (h_wallet helper)),
           (''tokenIn'', fld params ''tokenIn''),
           (''tokenOut'', fld params ''tokenOut''),
           (''amount'', fld params ''amount'')])\<rparr>)"

text \<open>The addresses of the redemption offer and of the request with the id of the parameters.\<close>

definition request_pdas :: "env \<Rightarrow> ScriptHelper \<Rightarrow> jsobj \<Rightarrow> (pubkey \<times> pubkey) io" where
  "request_pdas E helper params =
     bind (lift (getRedemptionOfferPda E helper (fld params ''tokenIn'') (fld params ''tokenOut''))) (\<lambda>redemptionOfferPda.
     bind (lift (getRedemptionRequestPda E helper redemptionOfferPda (fld params ''requestId''))) (\<lambda>redemptionRequestPda.
       ret (redemptionOfferPda, redemptionRequestPda)))"

definition executeRedemptionFetchRequest :: "env \<Rightarrow> jsobj \<Rightarrow> unit io" where
  "executeRedemptionFetchRequest E opts = executeCommand E opts requestParams (\<lambda>helper params.
     bind (request_pdas E helper params) (\<lambda>(redemptionOfferPda, requestAddress).
     bind (outside (Called (FetchRedemptionRequest requestAddress))
             (\<lambda>tr. rpcRedemptionRequest E tr requestAddress)) (\<lambda>request.
       printRedemptionRequest request (fld params ''requestId'') (fld opts ''json''))))"

definition request_summary :: "jsobj \<Rightarrow> jsobj" where
  "request_summary params =
     [(''tokenIn'', fld params ''tokenIn''), (''tokenOut'', fld params ''tokenOut''),
      (''requestId'', fld params ''requestId'')]"

definition fulfill_ix :: "env \<Rightarrow> jsobj \<Rightarrow> ScriptHelper \<Rightarrow> tx_ix io" where
  "fulfill_ix E params helper =
     bind (getState E helper) (\<lambda>state.
     bind (request_pdas E helper params) (\<lambda>(redemptionOfferPda, redemptionRequestPda).
       if st_redemptionAdmin state = PublicKey_default then
         throw (Error (''Redemption admin is not set in program state. ''
           @ ''Please set a redemption admin first using: npm run cli -- state set-redemption-admin''))
       else buildFulfillRedemptionRequestIx E
         [(''redemptionOfferPda'', JPk redemptionOfferPda), (''redemptionRequestPda'', JPk redemptionRequestPda),
          (''redemptionAdmin'', JPk (st_redemptionAdmin state))]))"

definition executeRedemptionFulfill :: "env \<Rightarrow> jsobj \<Rightarrow> unit io" where
  "executeRedemptionFulfill E opts = executeCommand E opts requestParams (\<lambda>helper params.
     buildAndHandleTransaction E helper params opts
       \<lparr>bo_buildIx = (\<lambda>helper _. one_ix (fulfill_ix E params helper)),
        bo_title = ''Fulfill Redemption Request Transaction'',
        bo_description = Some (''Fulfills redemption request #'' @ js_string (fld params ''requestId'')),
        bo_payer = JUndefined,
        bo_summary = Some (''Fulfilling redemption request:'', request_summary params)\<rparr>)"

definition executeRedemptionCancel :: "env \<Rightarrow> jsobj \<Rightarrow> unit io" where
  "executeRedemptionCancel E opts = executeCommand E opts requestParams (\<lambda>helper params.
     buildAndHandleTransaction E helper params opts
       \<lparr>bo_buildIx = (\<lambda>helper _. bind (getBoss E helper) (\<lambda>requester.
          bind (request_pdas E helper params) (\<lambda>(redemptionOfferPda, redemptionRequestPda).
            one_ix (buildCancelRedemptionRequestIx E
              [(''redemptionOfferPda'', JPk redemptionOfferPda),
               (''redemptionRequestPda'', JPk redemptionRequestPda), (''signer'', requester)])))),
        bo_title = ''Cancel Redemption Request Transaction'',
        bo_description = Some (''Cancels redemption request #'' @ js_string (fld params ''requestId'')),
        bo_payer = JUndefined,
        bo_summary = Some (''Cancelling redemption request:'', request_summary params)\<rparr>)"

section \<open>Listing\<close>

text \<open>The filters of the query: the offer after the discriminator, the redeemer after offer and id.\<close>

definition request_filters :: "pubkey \<Rightarrow> jsval \<Rightarrow> exn + memcmp_filter list" where
  "request_filters redemptionOfferPda redeemer =
     (let byOffer = \<lparr>mf_offset = 8, mf_bytes = toBase58 redemptionOfferPda\<rparr> in
      if js_truthy redeemer
      then res_bind (js_toBase58 redeemer) (\<lambda>bytes. Inr [byOffer, \<lparr>mf_offset = 8 + 32 + 8, mf_bytes = bytes\<rparr>])
      else Inr [byOffer])"

fun request_ids :: "env \<Rightarrow> redemption_request_account list \<Rightarrow> exn + (int \<times> redemption_request_account) list" where
  "request_ids E [] = Inr []"
| "request_ids E (r # rs) =
     res_bind (bnToNumber E (int (rr_requestId r))) (\<lambda>i.
     res_bind (request_ids E rs) (\<lambda>irs. Inr ((i, r) # irs)))"

text \<open>\<open>sort((a, b) => a.id - b.id)\<close> is stable.\<close>

definition listRequests_handler :: "env \<Rightarrow> jsobj \<Rightarrow> ScriptHelper \<Rightarrow> jsobj \<Rightarrow> unit io" where
  "listRequests_handler E opts helper params =
     bind (lift (getRedemptionOfferPda E helper (fld params ''tokenIn'') (fld params ''tokenOut''))) (\<lambda>redemptionOfferPda.
     bind (lift (request_filters redemptionOfferPda (fld params ''redeemer''))) (\<lambda>filters.
     bind (outside (Called (AllRedemptionRequests filters)) (\<lambda>tr. rpcAllRedemptionRequests E tr filters)) (\<lambda>requests.
     bind (lift (request_ids E requests)) (\<lambda>withIds.
       printRedemptionRequestsList (sort_key fst withIds) (fld opts ''json'')))))"

definition executeRedemptionListRequests :: "env \<Rightarrow> jsobj \<Rightarrow> unit io" where
  "executeRedemptionListRequests E opts = executeCommand E opts listRequestsParams (listRequests_handler E opts)"

section \<open>The commands keep the contract\<close>

interpretation makeRedemption: boss_instruction buildMakeRedemptionOfferIx "''makeRedemptionOffer''" "''signer''" "''boss''"
  by unfold_locales (auto simp: buildMakeRedemptionOfferIx_def vault_instruction_def take_fields_def intro!: io_intros io_res_bind instruction_boss_ixs)

interpretation redemptionFee: boss_instruction buildUpdateRedemptionOfferFeeIx "''updateRedemptionOfferFee''" "''boss''" "''boss''"
  by unfold_locales (auto simp: buildUpdateRedemptionOfferFeeIx_def vault_instruction_def take_fields_def intro!: io_intros io_res_bind instruction_boss_ixs)

interpretation cancelRequest: boss_instruction buildCancelRedemptionRequestIx "''cancelRedemptionRequest''" "''signer''" "''signer''"
  by unfold_locales (auto simp: buildCancelRedemptionRequestIx_def vault_instruction_def take_fields_def intro!: io_intros io_res_bind instruction_boss_ixs)

lemma request_pdas_hands_off [io_intros]: "io_all P (request_pdas E h ps)"
  unfolding request_pdas_def by (intro io_intros)

lemma MakeOffer_contract:
  "contract (shows_only opts) (boss_tx E ''makeRedemptionOffer'' ''signer'') (executeRedemptionMakeOffer E opts)"
  unfolding executeRedemptionMakeOffer_def
  by (intro execute_contract boss_contract io_intros io_res_bind makeRedemption.one_events makeRedemption.one_result)
    (simp add: fld_def)

lemma RedemptionUpdateFee_contract:
  "contract (shows_only opts) (boss_tx E ''updateRedemptionOfferFee'' ''boss'') (executeRedemptionUpdateFee E opts)"
  unfolding executeRedemptionUpdateFee_def
  by (intro execute_contract boss_contract io_intros io_res_bind redemptionFee.one_events redemptionFee.one_result)
    (simp add: fld_def)

lemma Cancel_contract:
  "contract (shows_only opts) (boss_tx E ''cancelRedemptionRequest'' ''signer'') (executeRedemptionCancel E opts)"
  unfolding executeRedemptionCancel_def case_prod_beta
  by (intro execute_contract boss_contract io_intros io_res_bind cancelRequest.one_events cancelRequest.one_result)
    (simp add: fld_def)

text \<open>The redeemer pays and is the redeemer of the request.\<close>

definition redeemer_tx :: "transaction \<Rightarrow> bool" where
  "redeemer_tx tx \<longleftrightarrow>
     (\<exists>redeemer. feePayer tx = JPk redeemer
        \<and> boss_ixs ''createRedemptionRequest'' ''redeemer'' (JPk redeemer) (tx_ixs tx))"

lemma createRequest_hands_off: "io_all hands_off (buildCreateRedemptionRequestIx E h ps)"
  unfolding buildCreateRedemptionRequestIx_def Let_def by (intro io_intros) simp

lemma createRequest_result:
  "io_res (\<lambda>ix. boss_ixs ''createRedemptionRequest'' ''redeemer'' (fld ps ''redeemer'') [ix])
     (buildCreateRedemptionRequestIx E h ps)"
  unfolding buildCreateRedemptionRequestIx_def Let_def by (intro io_res_bind instruction_boss_ixs) simp

lemma CreateRequest_contract: "contract (shows_only opts) redeemer_tx (executeRedemptionCreateRequest E opts)"
  unfolding executeRedemptionCreateRequest_def
proof (intro execute_contract)
  fix helper params
  let ?args = "\<lambda>pda h. [(''redemptionOfferPda'', JPk pda), (''tokenInMint'', fld params ''tokenIn''),
               (''amount'', fld params ''amount''), (''redeemer'', JPk (h_wallet h))]"
  have "io_res (boss_ixs ''createRedemptionRequest'' ''redeemer'' (JPk (h_wallet h)))
      (one_ix (buildCreateRedemptionRequestIx E h (?args pda h)))" for h pda
    using createRequest_result [of "?args pda h" E h] by (intro one_ix_result) (simp add: fld_def)
  then show "contract (shows_only opts) redeemer_tx (buildAndHandleTransaction E helper params opts
       \<lparr>bo_buildIx = (\<lambda>helper _.
          bind (lift (getRedemptionOfferPda E helper (fld params ''tokenIn'') (fld params ''tokenOut''))) (\<lambda>redemptionOfferPda.
            one_ix (buildCreateRedemptionRequestIx E helper (?args redemptionOfferPda helper)))),
        bo_title = t, bo_description = d, bo_payer = JPk (h_wallet helper), bo_summary = s\<rparr>)" for t d s
    by (intro build_contract [where R = "boss_ixs ''createRedemptionRequest'' ''redeemer'' (JPk (h_wallet helper))"
          and PP = "\<lambda>p. p = JPk (h_wallet helper)"])
      (auto simp: redeemer_tx_def intro!: io_intros createRequest_hands_off io_res_bind io_res_ret)
qed

lemma fulfill_hands_off: "io_all hands_off (fulfill_ix E params h)"
  unfolding fulfill_ix_def buildFulfillRedemptionRequestIx_def case_prod_beta by (intro io_intros)

text \<open>A fulfilment names a redemption admin other than the default key.\<close>

definition fulfill_call :: "tx_ix list \<Rightarrow> bool" where
  "fulfill_call ixs \<longleftrightarrow>
     (\<exists>admin. admin \<noteq> PublicKey_default
        \<and> boss_ixs ''fulfillRedemptionRequest'' ''redemptionAdmin'' (JPk admin) ixs)"

lemma fulfill_result: "io_res (\<lambda>ix. fulfill_call [ix]) (fulfill_ix E params h)"
  unfolding fulfill_ix_def buildFulfillRedemptionRequestIx_def case_prod_beta
proof (intro io_res_bind io_res_if io_res_throw)
  fix state pdas
  assume "st_redemptionAdmin state \<noteq> PublicKey_default"
  then show "io_res (\<lambda>ix. fulfill_call [ix]) (instruction E True ''fulfillRedemptionRequest'' []
      [(''redemptionOffer'', x), (''redemptionRequest'', y),
       (''redemptionAdmin'', fld [(''redemptionOfferPda'', x'), (''redemptionRequestPda'', y'),
         (''redemptionAdmin'', JPk (st_redemptionAdmin state))] ''redemptionAdmin'')])" for x y x' y'
    by (intro io_res_mono [OF instruction_boss_ixs [where a = "''redemptionAdmin''"
            and b = "JPk (st_redemptionAdmin state)"]]) (auto simp: fld_def fulfill_call_def)
qed

lemma Fulfill_contract:
  "contract (shows_only opts) (\<lambda>tx. fulfill_call (tx_ixs tx)) (executeRedemptionFulfill E opts)"
  unfolding executeRedemptionFulfill_def
  by (intro execute_contract build_contract [where R = fulfill_call and PP = "\<lambda>_. True"])
    (auto intro!: io_intros fulfill_hands_off one_ix_result fulfill_result io_res_True)

lemma redemption_printers_hands_off [io_intros]:
  "io_all hands_off (printRedemptionOffer ro a b v)" "io_all hands_off (printRedemptionRequest rr i v)"
  "io_all hands_off (printRedemptionRequestsList rs v)"
  unfolding printRedemptionOffer_def printRedemptionRequest_def printRedemptionRequestsList_def
  by (auto intro!: io_intros)

lemma fetchRedemptionOffer_hands_off [io_intros]: "io_all hands_off (fetchRedemptionOffer E h a b)"
  unfolding fetchRedemptionOffer_def by (intro io_intros) simp

lemma FetchOffer_contract: "contract (shows_only opts) Q (executeRedemptionFetchOffer E opts)"
  unfolding executeRedemptionFetchOffer_def by (intro execute_reading io_intros)

lemma FetchRequest_contract: "contract (shows_only opts) Q (executeRedemptionFetchRequest E opts)"
  unfolding executeRedemptionFetchRequest_def case_prod_beta by (intro execute_reading io_intros) simp

lemma ListRequests_contract: "contract (shows_only opts) Q (executeRedemptionListRequests E opts)"
  unfolding executeRedemptionListRequests_def listRequests_handler_def by (intro execute_reading io_intros) simp

end
