(* ===== verification/Cmd_Vault.thy ===== *)
theory Cmd_Vault
  imports Command_Contract
begin

text \<open>
  \<^verbatim>\<open>cli/implementations/vault/*.ts\<close>: deposits to and withdrawals from the offer and redemption vaults.
\<close>

text \<open>\<open>`${(amount / Math.pow(10, decimals)).toLocaleString()} tokens`\<close>\<close>

definition displayAmount :: "env \<Rightarrow> nat \<Rightarrow> jsval \<Rightarrow> string" where
  "displayAmount E decimals amount =
     toLocaleString E (js_div (as_number amount) (Fin (10 ^ decimals))) @ '' tokens''"

definition executeVaultDeposit :: "env \<Rightarrow> jsobj \<Rightarrow> unit io" where
  "executeVaultDeposit E opts = executeCommand E opts vaultParams (\<lambda>helper params.
     bind (lift (getTokenDecimals E (fld params ''tokenMint''))) (\<lambda>decimals.
       buildAndHandleTransaction E helper params opts
         \<lparr>bo_buildIx = (\<lambda>helper params. bind (getBoss E helper) (\<lambda>boss.
            bind (lift (getTokenProgramId E (fld params ''tokenMint''))) (\<lambda>tokenProgram.
              one_ix (buildOfferVaultDepositIx E
                [(''amount'', fld params ''amount''), (''tokenMint'', fld params ''tokenMint''),
                 (''tokenProgram'', JPk tokenProgram), (''boss'', boss)])))),
          bo_title = ''Vault Deposit Transaction'',
          bo_description = None,
          bo_payer = JUndefined,
          bo_summary = Some (''Depositing to vault:'',
            [(''tokenMint'', fld params ''tokenMint''),
             (''amount'', fld params ''amount''),
             (''displayAmount'', JStr (displayAmount E decimals (fld params ''amount'')))])\<rparr>))"

definition executeVaultWithdraw :: "env \<Rightarrow> jsobj \<Rightarrow> unit io" where
  "executeVaultWithdraw E opts = executeCommand E opts vaultParams (\<lambda>helper params.
     bind (lift (getTokenDecimals E (fld params ''tokenMint''))) (\<lambda>decimals.
       buildAndHandleTransaction E helper params opts
         \<lparr>bo_buildIx = (\<lambda>helper params. bind (getBoss E helper) (\<lambda>boss.
            bind (lift (getTokenProgramId E (fld params ''tokenMint''))) (\<lambda>tokenProgram.
              one_ix (buildOfferVaultWithdrawIx E
                [(''amount'', fld params ''amount''), (''tokenMint'', fld params ''tokenMint''),
                 (''tokenProgram'', JPk tokenProgram), (''boss'', boss)])))),
          bo_title = ''Vault Withdraw Transaction'',
          bo_description = None,
          bo_payer = JUndefined,
          bo_summary = Some (''Withdrawing from vault:'',
            [(''tokenMint'', fld params ''tokenMint''),
             (''amount'', fld params ''amount''),
             (''displayAmount'', JStr (displayAmount E decimals (fld params ''amount'')))])\<rparr>))"

definition executeVaultRedemptionDeposit :: "env \<Rightarrow> jsobj \<Rightarrow> unit io" where
  "executeVaultRedemptionDeposit E opts = executeCommand E opts vaultParams (\<lambda>helper params.
     bind (lift (getTokenDecimals E (fld params ''tokenMint''))) (\<lambda>decimals.
       buildAndHandleTransaction E helper params opts
         \<lparr>bo_buildIx = (\<lambda>helper params. bind (getBoss E helper) (\<lambda>boss.
            bind (lift (getTokenProgramId E (fld params ''tokenMint''))) (\<lambda>tokenProgram.
              one_ix (buildRedemptionVaultDepositIx E
                [(''amount'', fld params ''amount''), (''tokenMint'', fld params ''tokenMint''),
                 (''tokenProgram'', JPk tokenProgram), (''boss'', boss)])))),
          bo_title = ''Redemption Vault Deposit Transaction'',
          bo_description = None,
          bo_payer = JUndefined,
          bo_summary = Some (''Depositing to redemption vault:'',
            [(''tokenMint'', fld params ''tokenMint''),
             (''amount'', fld params ''amount''),
             (''displayAmount'', JStr (displayAmount E decimals (fld params ''amount'')))])\<rparr>))"

definition executeVaultRedemptionWithdraw :: "env \<Rightarrow> jsobj \<Rightarrow> unit io" where
  "executeVaultRedemptionWithdraw E opts = executeCommand E opts vaultParams (\<lambda>helper params.
     bind (lift (getTokenDecimals E (fld params ''tokenMint''))) (\<lambda>decimals.
       buildAndHandleTransaction E helper params opts
         \<lparr>bo_buildIx = (\<lambda>helper params. bind (getBoss E helper) (\<lambda>boss.
            bind (lift (getTokenProgramId E (fld params ''tokenMint''))) (\<lambda>tokenProgram.
              one_ix (buildRedemptionVaultWithdrawIx E
                [(''amount'', fld params ''amount''), (''tokenMint'', fld params ''tokenMint''),
                 (''tokenProgram'', JPk tokenProgram), (''boss'', boss)])))),
          bo_title = ''Redemption Vault Withdraw Transaction'',
          bo_description = None,
          bo_payer = JUndefined,
          bo_summary = Some (''Withdrawing from redemption vault:'',
            [(''tokenMint'', fld params ''tokenMint''),
             (''amount'', fld params ''amount''),
             (''displayAmount'', JStr (displayAmount E decimals (fld params ''amount'')))])\<rparr>))"

section \<open>The commands keep the contract\<close>

interpretation deposit: boss_instruction buildOfferVaultDepositIx "''offerVaultDeposit''" "''boss''" "''boss''"
  by unfold_locales (auto simp: buildOfferVaultDepositIx_def vault_instruction_def take_fields_def intro!: io_intros io_res_bind instruction_boss_ixs)

interpretation withdraw: boss_instruction buildOfferVaultWithdrawIx "''offerVaultWithdraw''" "''boss''" "''boss''"
  by unfold_locales (auto simp: buildOfferVaultWithdrawIx_def vault_instruction_def take_fields_def intro!: io_intros io_res_bind instruction_boss_ixs)

interpretation redemptionDeposit: boss_instruction buildRedemptionVaultDepositIx "''redemptionVaultDeposit''" "''boss''" "''boss''"
  by unfold_locales (auto simp: buildRedemptionVaultDepositIx_def vault_instruction_def take_fields_def intro!: io_intros io_res_bind instruction_boss_ixs)

interpretation redemptionWithdraw: boss_instruction buildRedemptionVaultWithdrawIx "''redemptionVaultWithdraw''" "''boss''" "''boss''"
  by unfold_locales (auto simp: buildRedemptionVaultWithdrawIx_def vault_instruction_def take_fields_def intro!: io_intros io_res_bind instruction_boss_ixs)

lemma Deposit_contract: "contract (shows_only opts) (boss_tx E ''offerVaultDeposit'' ''boss'') (executeVaultDeposit E opts)"
  unfolding executeVaultDeposit_def
  by (intro execute_contract command.contract_bind boss_contract io_intros io_res_bind deposit.one_events
      deposit.one_result contract_hands_off [OF io_all_lift])
    (simp add: fld_def)

lemma Withdraw_contract: "contract (shows_only opts) (boss_tx E ''offerVaultWithdraw'' ''boss'') (executeVaultWithdraw E opts)"
  unfolding executeVaultWithdraw_def
  by (intro execute_contract command.contract_bind boss_contract io_intros io_res_bind withdraw.one_events
      withdraw.one_result contract_hands_off [OF io_all_lift])
    (simp add: fld_def)

lemma RedemptionDeposit_contract: "contract (shows_only opts) (boss_tx E ''redemptionVaultDeposit'' ''boss'') (executeVaultRedemptionDeposit E opts)"
  unfolding executeVaultRedemptionDeposit_def
  by (intro execute_contract command.contract_bind boss_contract io_intros io_res_bind redemptionDeposit.one_events
      redemptionDeposit.one_result contract_hands_off [OF io_all_lift])
    (simp add: fld_def)

lemma RedemptionWithdraw_contract: "contract (shows_only opts) (boss_tx E ''redemptionVaultWithdraw'' ''boss'') (executeVaultRedemptionWithdraw E opts)"
  unfolding executeVaultRedemptionWithdraw_def
  by (intro execute_contract command.contract_bind boss_contract io_intros io_res_bind redemptionWithdraw.one_events
      redemptionWithdraw.one_result contract_hands_off [OF io_all_lift])
    (simp add: fld_def)

end
