(* ===== verification/Cmd_Market.thy ===== *)
theory Cmd_Market
  imports Command_Contract
begin

text \<open>
  \<^verbatim>\<open>cli/implementations/market/*.ts\<close>: the read-only views. A view is a simulated call of the program
  whose return value is a big number.
\<close>

text \<open>\<open>new PublicKey(v)\<close> on a key copies it; on anything but a key or a text it throws.\<close>

definition PublicKey_of :: "env \<Rightarrow> jsval \<Rightarrow> jsval io" where
  "PublicKey_of E v = (case v of
       JPk k \<Rightarrow> ret (JPk k)
     | JStr s \<Rightarrow> new_PublicKey E s
     | _ \<Rightarrow> throw (Library ''Invalid public key input''))"

definition view :: "env \<Rightarrow> string \<Rightarrow> (string \<times> jsval) list \<Rightarrow> int io" where
  "view E m accounts =
     (let c = \<lparr>mc_method = m, mc_args = [], mc_accounts = accounts, mc_partial = False\<rparr> in
      outside (Called (SimulateView c)) (\<lambda>tr. rpcView E tr c))"

text \<open>A view on the token pair of the parameters.\<close>

definition pair_view :: "env \<Rightarrow> string \<Rightarrow> jsobj \<Rightarrow> int io" where
  "pair_view E m params =
     bind (PublicKey_of E (fld params ''tokenIn'')) (\<lambda>tokenInMint.
     bind (PublicKey_of E (fld params ''tokenOut'')) (\<lambda>tokenOutMint.
       view E m [(''tokenInMint'', tokenInMint), (''tokenOutMint'', tokenOutMint)]))"

definition bn_number :: "env \<Rightarrow> int \<Rightarrow> jsnum io" where
  "bn_number E n = bind (lift (bnToNumber E n)) (\<lambda>i. ret (Fin (of_int i)))"

definition executeMarketNav :: "env \<Rightarrow> jsobj \<Rightarrow> unit io" where
  "executeMarketNav E opts = executeCommand E opts tokenPairParams (\<lambda>helper params.
     bind (pair_view E ''getNav'' params) (\<lambda>nav.
     bind (bn_number E nav) (\<lambda>n.
     andThen (log_line (''Raw nav: '' @ num_str n)) (printNav n (fld opts ''json'')))))"

definition executeMarketNavAdjustment :: "env \<Rightarrow> jsobj \<Rightarrow> unit io" where
  "executeMarketNavAdjustment E opts = executeCommand E opts tokenPairParams (\<lambda>helper params.
     bind (pair_view E ''getNavAdjustment'' params) (\<lambda>nav.
     bind (bn_number E nav) (\<lambda>n.
     andThen (log_line (''Raw nav adjustment: '' @ num_str n)) (printNavAdjustment n (fld opts ''json'')))))"

definition executeMarketApy :: "env \<Rightarrow> jsobj \<Rightarrow> unit io" where
  "executeMarketApy E opts = executeCommand E opts tokenPairParams (\<lambda>helper params.
     bind (pair_view E ''getApy'' params) (\<lambda>apy.
     bind (bn_number E apy) (\<lambda>n. printApy n (fld opts ''json''))))"

definition executeMarketTvl :: "env \<Rightarrow> jsobj \<Rightarrow> unit io" where
  "executeMarketTvl E opts = executeCommand E opts tokenPairParams (\<lambda>helper params.
     bind (lift (getTokenProgramId E (fld params ''tokenOut''))) (\<lambda>tokenOutProgram.
     bind (lift (ata E (fld params ''tokenOut'') (JPk (offerVaultAuthorityPda helper)) True (JPk tokenOutProgram)))
       (\<lambda>offerVaultTokenOut.
     bind (PublicKey_of E (fld params ''tokenIn'')) (\<lambda>tokenInMint.
     bind (PublicKey_of E (fld params ''tokenOut'')) (\<lambda>tokenOutMint.
     bind (view E ''getTvl''
             [(''tokenInMint'', tokenInMint), (''tokenOutMint'', tokenOutMint),
              (''vaultTokenOutAccount'', JPk offerVaultTokenOut), (''tokenOutProgram'', JPk tokenOutProgram)]) (\<lambda>tvl.
       printTvl E (JStr (int_str tvl)) (fld opts ''json'')))))))"

definition executeMarketSupply :: "env \<Rightarrow> jsobj \<Rightarrow> unit io" where
  "executeMarketSupply E opts = executeCommand E opts [] (\<lambda>helper params.
     (let onycMint = JPk (onyc (mints (cfg E))) in
      bind (lift (getTokenProgramId E onycMint)) (\<lambda>tokenProgram.
      bind (lift (ata E onycMint (JPk (offerVaultAuthorityPda helper)) True (JPk tokenProgram))) (\<lambda>onycVaultAccount.
      bind (view E ''getCirculatingSupply''
              [(''onycVaultAccount'', JPk onycVaultAccount), (''tokenProgram'', JPk tokenProgram)]) (\<lambda>supply.
        printCirculatingSupply E (JStr (int_str supply)) (fld opts ''json''))))))"

section \<open>The commands only read\<close>

lemma view_hands_off [io_intros]: "io_all hands_off (view E m acs)"
  unfolding view_def Let_def by (intro io_intros) simp

lemma PublicKey_of_hands_off [io_intros]: "io_all hands_off (PublicKey_of E v)"
  unfolding PublicKey_of_def by (cases v) (auto intro!: io_intros)

lemma pair_view_hands_off [io_intros]: "io_all hands_off (pair_view E m ps)"
  unfolding pair_view_def by (intro io_intros)

lemma bn_number_hands_off [io_intros]: "io_all P (bn_number E n)"
  unfolding bn_number_def by (intro io_intros)

lemma market_printers_hands_off [io_intros]:
  "io_all hands_off (printNav x v)" "io_all hands_off (printNavAdjustment x v)" "io_all hands_off (printApy x v)"
  "io_all hands_off (printTvl E w v)" "io_all hands_off (printCirculatingSupply E w v)"
  unfolding printNav_def printNavAdjustment_def printNavUnder_def printApy_def printTvl_def
    printCirculatingSupply_def Let_def
  by (auto intro!: io_intros)

lemma Nav_contract: "contract (shows_only opts) Q (executeMarketNav E opts)"
  unfolding executeMarketNav_def Let_def by (intro execute_reading io_intros) simp_all

lemma NavAdjustment_contract: "contract (shows_only opts) Q (executeMarketNavAdjustment E opts)"
  unfolding executeMarketNavAdjustment_def Let_def by (intro execute_reading io_intros) simp_all

lemma Apy_contract: "contract (shows_only opts) Q (executeMarketApy E opts)"
  unfolding executeMarketApy_def Let_def by (intro execute_reading io_intros)

lemma Tvl_contract: "contract (shows_only opts) Q (executeMarketTvl E opts)"
  unfolding executeMarketTvl_def Let_def by (intro execute_reading io_intros)

lemma Supply_contract: "contract (shows_only opts) Q (executeMarketSupply E opts)"
  unfolding executeMarketSupply_def Let_def by (intro execute_reading io_intros)

end
