(* ===== verification/Cmd_Init_Mint.thy ===== *)
theory Cmd_Init_Mint
  imports Command_Contract
begin

text \<open>
  \<^verbatim>\<open>cli/implementations/init/*.ts\<close> and \<^verbatim>\<open>cli/implementations/mint-authority/*.ts\<close>: the initialisation
  of the program and of its authorities, and the commands on the mint authority.
\<close>

section \<open>Initialisation\<close>

definition programDataPda :: "env \<Rightarrow> pubkey" where
  "programDataPda E = findProgramAddress E [toBuffer E (programId (cfg E))] BPF_LOADER_UPGRADEABLE"

definition executeInitProgram :: "env \<Rightarrow> jsobj \<Rightarrow> unit io" where
  "executeInitProgram E opts = executeCommand E opts initProgramParams (\<lambda>helper params.
     let build = buildAndHandleTransaction E helper params opts
           \<lparr>bo_buildIx = (\<lambda>helper _. one_ix (buildInitializeIx E
               [(''boss'', JPk (nc_boss (cfg E))), (''programData'', JPk (programDataPda E)),
                (''onycMint'', fld params ''onycMint'')])),
            bo_title = ''Initialize Program Transaction'',
            bo_description = Some ''Initializes the program state account'',
            bo_payer = JPk (nc_boss (cfg E)),
            bo_summary = None\<rparr>
     in andThen
          (if \<not> js_truthy (fld opts ''json'') then
             andThen (tell_all
               [Log (newline @ ''Program initialization details:''),
                Log (''  Program ID:    '' @ toBase58 (programId (cfg E)))])
             (bind (key_text params ''onycMint'') (\<lambda>onycMint.
               tell_all
                 [Log (''  ONyc Mint:     '' @ onycMint),
                  Log (''  Program Data:  '' @ toBase58 (programDataPda E)),
                  Log (''  Boss:          '' @ toBase58 (nc_boss (cfg E))),
                  Log []]))
           else ret ())
          (if \<not> js_truthy (fld opts ''dryRun'') then
             bind (confirmDangerousOperation E ''This will initialize the program state. Continue?'' None None) (\<lambda>confirmed.
               if \<not> confirmed then log_line (newline @ ''Operation cancelled.'') else build)
           else build))"

definition executeInitPermissionless :: "env \<Rightarrow> jsobj \<Rightarrow> unit io" where
  "executeInitPermissionless E opts = executeCommand E opts initPermissionlessParams (\<lambda>helper params.
     buildAndHandleTransaction E helper params opts
       \<lparr>bo_buildIx = (\<lambda>helper _. bind (getBoss E helper) (\<lambda>boss.
          one_ix (buildInitializePermissionlessAuthorityIx E [(''name'', fld params ''name''), (''boss'', boss)]))),
        bo_title = ''Initialize Permissionless Authority Transaction'',
        bo_description = Some (''Creates permissionless vault authority with name: '' @ js_string (fld params ''name'')),
        bo_payer = JUndefined,
        bo_summary = Some (''Initializing permissionless authority:'', [(''name'', fld params ''name'')])\<rparr>)"

section \<open>Mint authority\<close>

definition executeMintTo :: "env \<Rightarrow> jsobj \<Rightarrow> unit io" where
  "executeMintTo E opts = executeCommand E opts mintParams (\<lambda>helper params.
     bind (key_text params ''mint'') (\<lambda>mint.
       buildAndHandleTransaction E helper params opts
         \<lparr>bo_buildIx = (\<lambda>helper _. one_ix (buildMintToIx E [(''amount'', fld params ''amount'')])),
          bo_title = ''Mint To Transaction'',
          bo_description = Some (''Mints '' @ js_string (fld params ''amount'') @ '' tokens of '' @ take 12 mint @ ''... to boss''),
          bo_payer = JUndefined,
          bo_summary = Some (''Minting tokens to boss:'',
            [(''mint'', fld params ''mint''), (''amount'', fld params ''amount'')])\<rparr>))"

definition transfer_args :: "jsobj \<Rightarrow> pubkey \<Rightarrow> jsval \<Rightarrow> jsobj" where
  "transfer_args params tokenProgram boss =
     [(''mint'', fld params ''mint''), (''tokenProgram'', JPk tokenProgram), (''boss'', boss)]"

definition executeMintAuthorityToProgram :: "env \<Rightarrow> jsobj \<Rightarrow> unit io" where
  "executeMintAuthorityToProgram E opts = executeCommand E opts transferMintAuthorityParams (\<lambda>helper params.
     let build = bind (key_text params ''mint'') (\<lambda>mint.
           buildAndHandleTransaction E helper params opts
             \<lparr>bo_buildIx = (\<lambda>helper _. bind (getBoss E helper) (\<lambda>boss.
                bind (lift (getTokenProgramId E (fld params ''mint''))) (\<lambda>tokenProgram.
                  one_ix (buildTransferMintAuthorityToProgramIx E (transfer_args params tokenProgram boss))))),
              bo_title = ''Transfer Mint Authority to Program'',
              bo_description = Some (''Transfers mint authority of '' @ take 12 mint @ ''... to program PDA''),
              bo_payer = JUndefined,
              bo_summary = None\<rparr>)
     in andThen
          (if \<not> js_truthy (fld opts ''json'') then
             andThen (log_line (newline @ ''Transferring mint authority:''))
             (bind (key_text params ''mint'') (\<lambda>mint.
               tell_all
                 [Log (''  Mint:              '' @ mint),
                  Log (''  Target Authority:  '' @ toBase58 (mintAuthorityPda helper)),
                  Log []]))
           else ret ())
          (if \<not> js_truthy (fld opts ''dryRun'') then
             bind (confirmDangerousOperation E
                ''This will generate a transaction to transfer mint authority to the program. Continue?'' None None) (\<lambda>confirmed.
               if \<not> confirmed then log_line (newline @ ''Operation cancelled.'') else build)
           else build))"

definition executeMintAuthorityToBoss :: "env \<Rightarrow> jsobj \<Rightarrow> unit io" where
  "executeMintAuthorityToBoss E opts = executeCommand E opts mintParams (\<lambda>helper params.
     bind (key_text params ''mint'') (\<lambda>mint.
       buildAndHandleTransaction E helper params opts
         \<lparr>bo_buildIx = (\<lambda>helper _. bind (getBoss E helper) (\<lambda>boss.
            bind (lift (getTokenProgramId E (fld params ''mint''))) (\<lambda>tokenProgram.
              one_ix (buildTransferMintAuthorityToBossIx E (transfer_args params tokenProgram boss))))),
          bo_title = ''Transfer Mint Authority to Boss'',
          bo_description = Some (''Transfers mint authority of '' @ take 12 mint @ ''... back to boss''),
          bo_payer = JUndefined,
          bo_summary = Some (''Transferring mint authority to boss:'',
            [(''mint'', fld params ''mint''), (''targetAuthority'', JStr ''boss'')])\<rparr>))"

section \<open>The commands keep the contract\<close>

interpretation permissionless: boss_instruction buildInitializePermissionlessAuthorityIx "''initializePermissionlessAuthority''" "''boss''" "''boss''"
  by unfold_locales (auto simp: buildInitializePermissionlessAuthorityIx_def vault_instruction_def take_fields_def intro!: io_intros io_res_bind instruction_boss_ixs)

interpretation toProgram: boss_instruction buildTransferMintAuthorityToProgramIx "''transferMintAuthorityToProgram''" "''boss''" "''boss''"
  by unfold_locales (auto simp: buildTransferMintAuthorityToProgramIx_def vault_instruction_def take_fields_def intro!: io_intros io_res_bind instruction_boss_ixs)

interpretation toBoss: boss_instruction buildTransferMintAuthorityToBossIx "''transferMintAuthorityToBoss''" "''boss''" "''boss''"
  by unfold_locales (auto simp: buildTransferMintAuthorityToBossIx_def vault_instruction_def take_fields_def intro!: io_intros io_res_bind instruction_boss_ixs)

lemma InitPermissionless_contract:
  "contract (shows_only opts) (boss_tx E ''initializePermissionlessAuthority'' ''boss'') (executeInitPermissionless E opts)"
  unfolding executeInitPermissionless_def
  by (intro execute_contract permissionless.sends_boss_call) (simp add: fld_def)

lemma MintAuthorityToBoss_contract:
  "contract (shows_only opts) (boss_tx E ''transferMintAuthorityToBoss'' ''boss'') (executeMintAuthorityToBoss E opts)"
  unfolding executeMintAuthorityToBoss_def
  by (intro execute_contract command.contract_bind contract_hands_off [OF hands_off_key_text] boss_contract
      io_intros io_res_bind toBoss.one_events toBoss.one_result)
    (simp add: fld_def transfer_args_def)

lemma MintAuthorityToProgram_contract:
  "contract (shows_only opts) (boss_tx E ''transferMintAuthorityToProgram'' ''boss'') (executeMintAuthorityToProgram E opts)"
proof -
  have build: "contract (shows_only opts) (boss_tx E ''transferMintAuthorityToProgram'' ''boss'')
      (bind (key_text params ''mint'') (\<lambda>mint. buildAndHandleTransaction E helper params opts
        \<lparr>bo_buildIx = (\<lambda>helper _. bind (getBoss E helper) (\<lambda>boss.
           bind (lift (getTokenProgramId E (fld params ''mint''))) (\<lambda>tokenProgram.
             one_ix (buildTransferMintAuthorityToProgramIx E (transfer_args params tokenProgram boss))))),
         bo_title = t, bo_description = d mint, bo_payer = JUndefined, bo_summary = None\<rparr>))" for params helper t d
    by (intro command.contract_bind contract_hands_off [OF hands_off_key_text] boss_contract
        io_intros io_res_bind toProgram.one_events toProgram.one_result)
      (simp add: fld_def transfer_args_def)
  show ?thesis
    unfolding executeMintAuthorityToProgram_def Let_def
    by (intro execute_contract command.contract_andThen command.contract_if build command.contract_bind)
      (rule contract_hands_off, (intro io_intros, simp?)[1])+
qed

text \<open>The initialisation is paid and signed by the boss of the configuration.\<close>

definition init_tx :: "env \<Rightarrow> transaction \<Rightarrow> bool" where
  "init_tx E tx \<longleftrightarrow> feePayer tx = JPk (nc_boss (cfg E)) \<and> boss_ixs ''initialize'' ''boss'' (JPk (nc_boss (cfg E))) (tx_ixs tx)"

lemma initialize_hands_off: "io_all hands_off (buildInitializeIx E ps)"
  unfolding buildInitializeIx_def by (intro io_intros)

lemma initialize_result: "io_res (\<lambda>ix. boss_ixs ''initialize'' ''boss'' (fld ps ''boss'') [ix]) (buildInitializeIx E ps)"
  unfolding buildInitializeIx_def by (intro instruction_boss_ixs) simp

lemma InitProgram_contract: "contract (shows_only opts) (init_tx E) (executeInitProgram E opts)"
proof -
  let ?args = "\<lambda>params. [(''boss'', JPk (nc_boss (cfg E))), (''programData'', JPk (programDataPda E)),
      (''onycMint'', fld params ''onycMint'')]"
  have "io_res (boss_ixs ''initialize'' ''boss'' (JPk (nc_boss (cfg E)))) (one_ix (buildInitializeIx E (?args params)))" for params
    using initialize_result [of "?args params" E] by (intro one_ix_result) (simp add: fld_def)
  then have build: "contract (shows_only opts) (init_tx E) (buildAndHandleTransaction E helper params opts
      \<lparr>bo_buildIx = (\<lambda>helper _. one_ix (buildInitializeIx E (?args params))), bo_title = t,
       bo_description = d, bo_payer = JPk (nc_boss (cfg E)), bo_summary = None\<rparr>)" for params helper t d
    by (intro build_contract [where R = "boss_ixs ''initialize'' ''boss'' (JPk (nc_boss (cfg E)))"
          and PP = "\<lambda>p. p = JPk (nc_boss (cfg E))"])
      (auto simp: init_tx_def intro!: io_intros initialize_hands_off io_res_ret)
  show ?thesis
    unfolding executeInitProgram_def Let_def
    by (intro execute_contract command.contract_andThen command.contract_if build command.contract_bind)
      (rule contract_hands_off, (intro io_intros, simp?)[1])+
qed

lemma MintTo_contract:
  "contract (shows_only opts) (\<lambda>tx. one_call ''mintTo'' (tx_ixs tx)) (executeMintTo E opts)"
  unfolding executeMintTo_def
  by (intro execute_contract command.contract_bind contract_hands_off [OF hands_off_key_text] call_contract)
    (auto simp: buildMintToIx_def intro!: io_intros one_ix_result io_res_bind instruction_one_call)

end
