(* ===== verification/Cli_Commands.thy ===== *)
theory Cli_Commands
  imports Cmd_State Cmd_Offer Cmd_Redemption Cmd_Vault Cmd_Market Cmd_Init_Mint
begin

text \<open>
  \<^verbatim>\<open>cli/commands/*.ts\<close> and \<^verbatim>\<open>cli/index.ts\<close>: the commands as they are registered with the commander
  library, with the options each declares and the action that merges the parsed options, and the
  dispatch. What commander makes of the arguments is an argument (\<open>parsed\<close>); \<open>commander_ok\<close> states
  its documented behaviour: an option is stored under its long flag in camel case, a flag without
  an argument as true, \<open>--no-x\<close> as \<open>x\<close>, and an option that is not given is not stored.
\<close>

section \<open>Registered commands\<close>

text \<open>\<open>{...a, ...b}\<close>\<close>

definition spread :: "jsobj \<Rightarrow> jsobj \<Rightarrow> jsobj" where
  "spread a b = foldl (\<lambda>o' kv. obj_set (fst kv) (snd kv) o') a b"

text \<open>The parsed options of the command itself and of the program (the global ones).\<close>

record parsed =
  pr_options :: jsobj
  pr_globals :: jsobj

definition optsWithGlobals :: "parsed \<Rightarrow> jsobj" where
  "optsWithGlobals p = spread (pr_options p) (pr_globals p)"

definition command_opts :: "parsed \<Rightarrow> jsobj" where
  "command_opts p = spread (pr_options p) (optsWithGlobals p)"

definition vault_opts :: "parsed \<Rightarrow> jsobj" where
  "vault_opts p = obj_set ''tokenMint'' (fld (pr_options p) ''token'') (command_opts p)"

record cli_command =
  c_group :: string
  c_name :: string
  c_description :: string
  c_options :: "(string \<times> string) list"
  c_params :: "ParamDefinition list"
  c_opts :: "parsed \<Rightarrow> jsobj"
  c_execute :: "env \<Rightarrow> jsobj \<Rightarrow> unit io"

definition command :: "string \<Rightarrow> string \<Rightarrow> string \<Rightarrow> (string \<times> string) list \<Rightarrow> ParamDefinition list
    \<Rightarrow> (parsed \<Rightarrow> jsobj) \<Rightarrow> (env \<Rightarrow> jsobj \<Rightarrow> unit io) \<Rightarrow> cli_command" where
  "command g n d os ps f ex =
     \<lparr>c_group = g, c_name = n, c_description = d, c_options = os, c_params = ps, c_opts = f, c_execute = ex\<rparr>"

definition registerStateCommands :: "cli_command list" where
  "registerStateCommands =
    [command ''state'' ''get'' ''Display current program state''
       []
       [] optsWithGlobals executeStateGet,
     command ''state'' ''propose-boss'' ''Propose a new boss (step 1 of 2)''
       [(''--new-boss <address>'', ''New boss public key'')]
       proposeBossParams command_opts executeStateProposeBoss,
     command ''state'' ''accept-boss'' ''Accept boss transfer (step 2 of 2)''
       [(''--new-boss <address>'', ''New boss public key (must match proposed)'')]
       acceptBossParams command_opts executeStateAcceptBoss,
     command ''state'' ''add-admin'' ''Add an admin to the program''
       [(''--admin <address>'', ''Admin public key to add'')]
       adminParams command_opts executeStateAddAdmin,
     command ''state'' ''remove-admin'' ''Remove an admin from the program''
       [(''--admin <address>'', ''Admin public key to remove'')]
       adminParams command_opts executeStateRemoveAdmin,
     command ''state'' ''add-approver'' ''Add an approver to the program''
       [(''--approver <address>'', ''Approver public key to add'')]
       approverParams command_opts executeStateAddApprover,
     command ''state'' ''remove-approver'' ''Remove an approver from the program''
       [(''--approver <address>'', ''Approver public key to remove'')]
       approverParams command_opts executeStateRemoveApprover,
     command ''state'' ''set-onyc-mint'' ''Set the ONyc mint address''
       [(''--mint <address>'', ''ONyc mint public key'')]
       setOnycMintParams command_opts executeStateSetOnycMint,
     command ''state'' ''kill-switch'' ''Enable or disable the kill switch''
       [(''--enable'', ''Enable the kill switch''), (''--disable'', ''Disable the kill switch'')]
       [] command_opts executeStateKillSwitch,
     command ''state'' ''max-supply'' ''Configure maximum ONyc supply''
       [(''--amount <value>'', ''Maximum supply amount (raw)'')]
       maxSupplyParams command_opts executeStateMaxSupply,
     command ''state'' ''set-redemption-admin'' ''Set the redemption admin who can fulfill redemption requests''
       [(''--admin <address>'', ''Redemption admin public key'')]
       redemptionAdminParams command_opts executeStateSetRedemptionAdmin,
     command ''state'' ''clear-admins'' ''Remove all admins from the program''
       []
       [] command_opts executeStateClearAdmins,
     command ''state'' ''close'' ''Close the program state account (DANGEROUS)''
       []
       [] command_opts executeStateClose]"

definition registerMarketCommands :: "cli_command list" where
  "registerMarketCommands =
    [command ''market'' ''nav'' ''Get current NAV (Net Asset Value) for an offer''
       [(''-i, --token-in <mint>'', ''Token in mint (usdc, onyc, usdg, or address)''), (''-o, --token-out <mint>'', ''Token out mint (usdc, onyc, usdg, or address)'')]
       tokenPairParams command_opts executeMarketNav,
     command ''market'' ''nav-adjustment'' ''Get NAV adjustment (price change) for an offer''
       [(''-i, --token-in <mint>'', ''Token in mint (usdc, onyc, usdg, or address)''), (''-o, --token-out <mint>'', ''Token out mint (usdc, onyc, usdg, or address)'')]
       tokenPairParams command_opts executeMarketNavAdjustment,
     command ''market'' ''apy'' ''Get current APY for an offer''
       [(''-i, --token-in <mint>'', ''Token in mint''), (''-o, --token-out <mint>'', ''Token out mint'')]
       tokenPairParams command_opts executeMarketApy,
     command ''market'' ''tvl'' ''Get Total Value Locked''
       [(''-i, --token-in <mint>'', ''Token in mint''), (''-o, --token-out <mint>'', ''Token out mint'')]
       tokenPairParams command_opts executeMarketTvl,
     command ''market'' ''supply'' ''Get circulating supply of ONyc tokens''
       []
       [] optsWithGlobals executeMarketSupply]"

definition registerOfferCommands :: "cli_command list" where
  "registerOfferCommands =
    [command ''offer'' ''make'' ''Create a new token offer''
       [(''-i, --token-in <mint>'', ''Token in mint''), (''-o, --token-out <mint>'', ''Token out mint''), (''-f, --fee <bps>'', ''Fee in basis points (100 = 1%)''), (''--needs-approval'', ''Require approval for transactions''), (''--permissionless'', ''Allow permissionless transactions'')]
       makeOfferParams command_opts executeOfferMake,
     command ''offer'' ''fetch'' ''Fetch and display offer details''
       [(''-i, --token-in <mint>'', ''Token in mint''), (''-o, --token-out <mint>'', ''Token out mint'')]
       tokenPairParams command_opts executeOfferFetch,
     command ''offer'' ''take'' ''Take an existing offer''
       [(''-i, --token-in <mint>'', ''Token in mint''), (''-o, --token-out <mint>'', ''Token out mint''), (''-a, --amount <amount>'', ''Amount of token in to provide''), (''--permissionless'', ''Use permissionless flow'')]
       takeOfferParams command_opts executeOfferTake,
     command ''offer'' ''add-vector'' ''Add a pricing vector to an offer''
       [(''-i, --token-in <mint>'', ''Token in mint''), (''-o, --token-out <mint>'', ''Token out mint''), (''--base-time <timestamp>'', ''Base time (ISO date or unix timestamp)''), (''--base-price <price>'', ''Base price (scaled by 1e9)''), (''--apr <value>'', ''APR in basis points (36500 = 3.65%)''), (''--duration <seconds>'', ''Price fix duration in seconds'')]
       addVectorParams command_opts executeOfferAddVector,
     command ''offer'' ''delete-vector'' ''Delete a pricing vector from an offer''
       [(''-i, --token-in <mint>'', ''Token in mint''), (''-o, --token-out <mint>'', ''Token out mint''), (''--start-time <timestamp>'', ''Vector start timestamp to delete'')]
       deleteVectorParams command_opts executeOfferDeleteVector,
     command ''offer'' ''update-fee'' ''Update the fee for an offer''
       [(''-i, --token-in <mint>'', ''Token in mint''), (''-o, --token-out <mint>'', ''Token out mint''), (''-f, --fee <bps>'', ''New fee in basis points'')]
       updateFeeParams command_opts executeOfferUpdateFee,
     command ''offer'' ''delete-all-vectors'' ''Delete all pricing vectors from an offer''
       [(''-i, --token-in <mint>'', ''Token in mint''), (''-o, --token-out <mint>'', ''Token out mint'')]
       tokenPairParams command_opts executeOfferDeleteAllVectors]"

definition registerVaultCommands :: "cli_command list" where
  "registerVaultCommands =
    [command ''vault'' ''deposit'' ''Deposit tokens to the offer vault''
       [(''-t, --token <mint>'', ''Token mint''), (''-a, --amount <value>'', ''Amount to deposit (raw)'')]
       vaultParams vault_opts executeVaultDeposit,
     command ''vault'' ''withdraw'' ''Withdraw tokens from the offer vault''
       [(''-t, --token <mint>'', ''Token mint''), (''-a, --amount <value>'', ''Amount to withdraw (raw)'')]
       vaultParams vault_opts executeVaultWithdraw,
     command ''vault'' ''redemption-deposit'' ''Deposit tokens to the redemption vault''
       [(''-t, --token <mint>'', ''Token mint''), (''-a, --amount <value>'', ''Amount to deposit (raw)'')]
       vaultParams vault_opts executeVaultRedemptionDeposit,
     command ''vault'' ''redemption-withdraw'' ''Withdraw tokens from the redemption vault''
       [(''-t, --token <mint>'', ''Token mint''), (''-a, --amount <value>'', ''Amount to withdraw (raw)'')]
       vaultParams vault_opts executeVaultRedemptionWithdraw]"

definition registerMintAuthorityCommands :: "cli_command list" where
  "registerMintAuthorityCommands =
    [command ''mint-authority'' ''mint-to'' ''Mint tokens directly to the boss's account''
       [(''-m, --mint <address>'', ''Mint address''), (''-a, --amount <number>'', ''Amount to mint'')]
       mintParams command_opts executeMintTo,
     command ''mint-authority'' ''to-program'' ''Transfer mint authority to the program PDA''
       [(''-m, --mint <address>'', ''Mint address'')]
       transferMintAuthorityParams command_opts executeMintAuthorityToProgram,
     command ''mint-authority'' ''to-boss'' ''Transfer mint authority back to the boss''
       [(''-m, --mint <address>'', ''Mint address'')]
       mintParams command_opts executeMintAuthorityToBoss]"

definition registerRedemptionCommands :: "cli_command list" where
  "registerRedemptionCommands =
    [command ''redemption'' ''make-offer'' ''Create a redemption offer (ONyc -> USDC)''
       [(''-i, --token-in <mint>'', ''Token in mint (ONyc)''), (''-o, --token-out <mint>'', ''Token out mint (USDC)''), (''-f, --fee <bps>'', ''Fee in basis points'')]
       redemptionOfferParams command_opts executeRedemptionMakeOffer,
     command ''redemption'' ''fetch-offer'' ''Fetch and display redemption offer details''
       [(''-i, --token-in <mint>'', ''Token in mint (ONyc)''), (''-o, --token-out <mint>'', ''Token out mint (USDC)'')]
       tokenPairParams command_opts executeRedemptionFetchOffer,
     command ''redemption'' ''update-fee'' ''Update redemption offer fee''
       [(''-i, --token-in <mint>'', ''Token in mint (ONyc)''), (''-o, --token-out <mint>'', ''Token out mint (USDC)''), (''-f, --fee <bps>'', ''New fee in basis points'')]
       updateRedemptionFeeParams command_opts executeRedemptionUpdateFee,
     command ''redemption'' ''create-request'' ''Create a redemption request (locks tokens)''
       [(''-i, --token-in <mint>'', ''Token in mint (ONyc)''), (''-o, --token-out <mint>'', ''Token out mint (USDC)''), (''-a, --amount <tokens>'', ''Amount of tokens to redeem'')]
       createRequestParams command_opts executeRedemptionCreateRequest,
     command ''redemption'' ''fetch-request'' ''Fetch and display redemption request details''
       [(''-i, --token-in <mint>'', ''Token in mint (ONyc)''), (''-o, --token-out <mint>'', ''Token out mint (USDC)''), (''--request-id <number>'', ''Request ID'')]
       requestParams command_opts executeRedemptionFetchRequest,
     command ''redemption'' ''fulfill'' ''Fulfill a pending redemption request (redemption admin only)''
       [(''-i, --token-in <mint>'', ''Token in mint (ONyc)''), (''-o, --token-out <mint>'', ''Token out mint (USDC)''), (''--request-id <number>'', ''Request ID'')]
       requestParams command_opts executeRedemptionFulfill,
     command ''redemption'' ''cancel'' ''Cancel a redemption request (returns locked tokens)''
       [(''-i, --token-in <mint>'', ''Token in mint (ONyc)''), (''-o, --token-out <mint>'', ''Token out mint (USDC)''), (''--request-id <number>'', ''Request ID'')]
       requestParams command_opts executeRedemptionCancel,
     command ''redemption'' ''list-requests'' ''List all redemption requests for an offer''
       [(''-i, --token-in <mint>'', ''Token in mint (ONyc)''), (''-o, --token-out <mint>'', ''Token out mint (USDC)'')]
       listRequestsParams command_opts executeRedemptionListRequests]"

definition registerInitCommands :: "cli_command list" where
  "registerInitCommands =
    [command ''init'' ''program'' ''Initialize the program state''
       [(''--onyc-mint <address>'', ''ONyc mint address'')]
       initProgramParams command_opts executeInitProgram,
     command ''init'' ''permissionless'' ''Initialize the permissionless vault authority''
       [(''--name <name>'', ''Authority name (e.g., 'permissionless-1')'')]
       initPermissionlessParams command_opts executeInitPermissionless]"

definition cli_commands :: "cli_command list" where
  "cli_commands = registerStateCommands @ registerMarketCommands @ registerOfferCommands @
     registerVaultCommands @ registerMintAuthorityCommands @ registerRedemptionCommands @
     registerInitCommands"

lemmas register_defs = registerStateCommands_def registerMarketCommands_def registerOfferCommands_def
  registerVaultCommands_def registerMintAuthorityCommands_def registerRedemptionCommands_def
  registerInitCommands_def

definition globalOptions :: "(string \<times> string) list" where
  "globalOptions =
     [(''-n, --network <network>'', ''Network to use (mainnet-prod, mainnet-test, mainnet-dev, devnet-test, devnet-dev)''),
      (''--json'', ''Output in JSON format''),
      (''--dry-run'', ''Generate transaction without execution prompt''),
      (''--no-interactive'', ''Disable interactive prompts (require all params as flags)'')]"

section \<open>Running a command\<close>

definition run_command :: "cli_command \<Rightarrow> env \<Rightarrow> parsed \<Rightarrow> unit io" where
  "run_command c E p = c_execute c E (c_opts c p)"

definition find_command :: "string \<Rightarrow> string \<Rightarrow> cli_command option" where
  "find_command g n = find (\<lambda>c. c_group c = g \<and> c_name c = n) cli_commands"

text \<open>
  The start of \<^verbatim>\<open>cli/index.ts\<close>: the network of the arguments is put into the environment, then the
  configuration is chosen once for the whole process.
\<close>

definition cli_config :: "process_env \<Rightarrow> string list \<Rightarrow> exn + NetworkConfig js_member" where
  "cli_config penv args = getNetworkConfig (set_network_env args penv)"

section \<open>Option keys\<close>

definition long_flag :: "string \<Rightarrow> string" where
  "long_flag flags = (case after_first ''--'' flags of None \<Rightarrow> [] | Some t \<Rightarrow> takeWhile (\<lambda>c. c \<noteq> CHR '' '') t)"

fun camelcase :: "string \<Rightarrow> string" where
  "camelcase [] = []"
| "camelcase (c # cs) = (if c = CHR ''-'' then (case cs of [] \<Rightarrow> [] | d # ds \<Rightarrow> upper_char d # camelcase ds)
     else c # camelcase cs)"

definition negated_flag :: "string \<Rightarrow> bool" where
  "negated_flag flags \<longleftrightarrow> js_starts_with ''no-'' (long_flag flags)"

definition option_key :: "string \<Rightarrow> string" where
  "option_key flags = camelcase (if negated_flag flags then drop 3 (long_flag flags) else long_flag flags)"

definition takes_value :: "string \<Rightarrow> bool" where
  "takes_value flags \<longleftrightarrow> CHR ''<'' \<in> set flags"

fun is_JStr :: "jsval \<Rightarrow> bool" where
  "is_JStr (JStr s) = True"
| "is_JStr _ = False"

definition option_value :: "string \<Rightarrow> jsval \<Rightarrow> bool" where
  "option_value flags v \<longleftrightarrow>
     (if takes_value flags then is_JStr v
      else if negated_flag flags then v = JBool True \<or> v = JBool False
      else v = JBool True)"

definition stored_ok :: "(string \<times> string) list \<Rightarrow> jsobj \<Rightarrow> bool" where
  "stored_ok os obj \<longleftrightarrow>
     distinct (List.map fst obj) \<and>
     list_all (\<lambda>kv. list_ex (\<lambda>o'. option_key (fst o') = fst kv \<and> option_value (fst o') (snd kv)) os) obj"

definition commander_ok :: "cli_command \<Rightarrow> parsed \<Rightarrow> bool" where
  "commander_ok c p \<longleftrightarrow> stored_ok (c_options c) (pr_options p) \<and> stored_ok globalOptions (pr_globals p)"

text \<open>The parameters of a command that no option of the command line can give.\<close>

definition given_keys :: "cli_command \<Rightarrow> string list" where
  "given_keys c = List.map (\<lambda>o'. option_key (fst o')) (c_options c)
     @ (if c_group c = ''vault'' then [''tokenMint''] else [])"

definition unreachable_params :: "cli_command \<Rightarrow> string list" where
  "unreachable_params c = filter (\<lambda>n. n \<notin> set (given_keys c)) (List.map p_name (c_params c))"

end
