(* ===== verification/Config_Props.thy ===== *)
theory Config_Props
  imports Cli_Commands
begin

text \<open>
  The choice of the network: which configuration a process gets from its arguments and environment.
\<close>

text \<open>The value of \<open>NETWORK\<close> after the arguments were scanned; empty when there is none.\<close>

definition requested :: "process_env \<Rightarrow> string list \<Rightarrow> string" where
  "requested penv args = (case set_network_env args penv ''NETWORK'' of None \<Rightarrow> [] | Some v \<Rightarrow> v)"

lemma cli_config_requested:
  "cli_config penv args =
     (if requested penv args = [] then some_or (Error []) (js_member (NETWORK_CONFIGS (set_network_env args penv)) ''mainnet-prod'')
      else case js_member (NETWORK_CONFIGS (set_network_env args penv)) (requested penv args) of
          Some c \<Rightarrow> Inr c
        | None \<Rightarrow> Inl (Error (''Invalid NETWORK environment variable: '' @ [CHR 0x22] @ requested penv args @ [CHR 0x22]
            @ ''. Valid values are: '' @ join '', '' NetworkName)))"
  unfolding cli_config_def getNetworkConfig_def requested_def Let_def network_config_names by (rule refl)

lemma cli_config_Own:
  assumes "cli_config penv args = Inr (Own c)"
  shows "map_of (NETWORK_CONFIGS (set_network_env args penv))
     (if requested penv args = [] then ''mainnet-prod'' else requested penv args) = Some c"
  using assms by (auto simp: cli_config_requested js_member_def split: if_splits option.splits)

text \<open>
  The configuration of the process is the entry of the table for the requested network, production
  when none is requested, and it is found exactly when that name is in the table.
\<close>

lemma config_is_the_requested_network:
  "(\<exists>c. cli_config penv args = Inr (Own c) \<and> nc_name c = k) \<longleftrightarrow>
     k \<in> set NetworkName \<and> k = (if requested penv args = [] then ''mainnet-prod'' else requested penv args)"
proof
  assume "\<exists>c. cli_config penv args = Inr (Own c) \<and> nc_name c = k"
  then obtain c where "cli_config penv args = Inr (Own c)" "nc_name c = k" by blast
  then show "k \<in> set NetworkName \<and> k = (if requested penv args = [] then ''mainnet-prod'' else requested penv args)"
    using network_config_entries [OF cli_config_Own] by auto
next
  assume k: "k \<in> set NetworkName \<and> k = (if requested penv args = [] then ''mainnet-prod'' else requested penv args)"
  then obtain c where "map_of (NETWORK_CONFIGS (set_network_env args penv)) k = Some c"
    using network_config_total by blast
  then show "\<exists>c. cli_config penv args = Inr (Own c) \<and> nc_name c = k"
    using k network_config_entries by (auto simp: cli_config_requested js_member_def split: if_splits)
qed

text \<open>
  A name outside the table is refused with a message that lists the names, unless it is the name
  of a member that every object has.
\<close>

lemma unknown_network_is_refused:
  assumes "requested penv args \<notin> set NetworkName" and "requested penv args \<noteq> []"
  shows "cli_config penv args =
     (if requested penv args \<in> set object_prototype then Inr (Inherited (requested penv args))
      else Inl (Error (''Invalid NETWORK environment variable: '' @ [CHR 0x22] @ requested penv args @ [CHR 0x22]
        @ ''. Valid values are: mainnet-prod, mainnet-test, mainnet-dev, devnet-test, devnet-dev'')))"
proof -
  have "map_of (NETWORK_CONFIGS (set_network_env args penv)) (requested penv args) = None"
    using assms(1) network_config_entries
    by (cases "map_of (NETWORK_CONFIGS (set_network_env args penv)) (requested penv args)") auto
  then show ?thesis using assms(2) by (simp add: cli_config_requested js_member_def NetworkName_def)
qed

lemma unknown_network_is_refused_witness:
  "cli_config (\<lambda>_. None) [''-n'', ''testnet''] =
     Inl (Error (''Invalid NETWORK environment variable: '' @ [CHR 0x22] @ ''testnet'' @ [CHR 0x22]
        @ ''. Valid values are: mainnet-prod, mainnet-test, mainnet-dev, devnet-test, devnet-dev''))"
proof -
  have "requested (\<lambda>_. None) [''-n'', ''testnet''] = ''testnet''"
    by (simp add: requested_def set_network_env_def)
  then show ?thesis
    using unknown_network_is_refused [of "\<lambda>_. None" "[''-n'', ''testnet'']"]
    by (simp add: NetworkName_def object_prototype_def)
qed

text \<open>
  C19: no network but production ever gets the program, the boss or one of the token mints of production.
\<close>

theorem production_is_isolated:
  assumes "cli_config penv args = Inr (Own c)"
  shows "(programId c = PROD_PROGRAM_ID \<or> nc_boss c = PROD_SQUAD \<or>
      {usdc (mints c), onyc (mints c), usdg (mints c)} \<inter> {USDC_MINT, ONYC_MINT, USDG_MINT} \<noteq> {})
     \<longleftrightarrow> nc_name c = ''mainnet-prod''"
  using prod_program_only_prod [OF cli_config_Own [OF assms]] network_config_entries [OF cli_config_Own [OF assms]]
  by simp

theorem production_is_isolated_witness:
  "\<exists>c. cli_config (\<lambda>_. None) [''-n'', ''devnet-test''] = Inr (Own c) \<and> programId c \<noteq> PROD_PROGRAM_ID"
proof -
  have "requested (\<lambda>_. None) [''-n'', ''devnet-test''] = ''devnet-test''"
    by (simp add: requested_def set_network_env_def)
  then obtain c where c: "cli_config (\<lambda>_. None) [''-n'', ''devnet-test''] = Inr (Own c)" "nc_name c = ''devnet-test''"
    by (auto simp: cli_config_requested js_member_def NETWORK_CONFIGS_def)
  from production_is_isolated [OF c(1)] c(2) have "programId c \<noteq> PROD_PROGRAM_ID" by auto
  with c(1) show ?thesis by blast
qed

text \<open>
  Only the two exact spellings choose a network: with \<open>--network=devnet-test\<close> or \<open>-ndevnet-test\<close>
  and an unset variable the process runs on production.
\<close>

lemma joined_network_flag_is_production:
  assumes "\<forall>a\<in>set args. a \<noteq> ''-n'' \<and> a \<noteq> ''--network''" and "penv ''NETWORK'' = None"
  shows "\<exists>c. cli_config penv args = Inr (Own c) \<and> nc_name c = ''mainnet-prod'' \<and> programId c = PROD_PROGRAM_ID"
proof -
  have "findIndex (\<lambda>a. a = ''-n'' \<or> a = ''--network'') args = None"
    using assms(1) by (auto simp: findIndex_None_iff)
  then have "requested penv args = []"
    using assms(2) by (simp add: requested_def set_network_env_def)
  then show ?thesis by (simp add: cli_config_requested js_member_def NETWORK_CONFIGS_def)
qed

lemma joined_network_flag_is_production_witness:
  "\<exists>c. cli_config (\<lambda>_. None) [''--network=devnet-test'', ''state'', ''get''] = Inr (Own c)
     \<and> nc_name c = ''mainnet-prod'' \<and> programId c = PROD_PROGRAM_ID"
  by (rule joined_network_flag_is_production) simp_all

end
