(* ===== verification/Demo_Env.thy ===== *)
theory Demo_Env
  imports Cli_Commands
begin

text \<open>
  A concrete environment on which the properties are exercised: keys are accepted when their text has
  at least 32 characters, a derived address is the text of its seeds and program, a menu answers with
  the given choice, and the node holds the given accounts.
\<close>

definition demo_boss :: pubkey where
  "demo_boss = PublicKey ''EVdiVScB7LX1P3bn7ZLmLJTBrSSgRXPqRU3bVxrEpRb5''"

definition demo_wallet :: pubkey where
  "demo_wallet = PublicKey ''7rzEKejyAXJXMkGfRhMV9Vg1k7tFznBBEFu3sfLNz8LC''"

definition demo_admin :: pubkey where
  "demo_admin = PublicKey ''45YnzauhsBM8CpUz96Djf8UG5vqq2Dua62wuW9H3jaJ5''"

definition demo_cfg :: NetworkConfig where
  "demo_cfg = \<lparr>nc_name = ''devnet-test'', rpcUrl = ''https://api.devnet.solana.com'',
     programId = TEST_PROGRAM_ID, nc_boss = DEVNET_SQUAD,
     mints = \<lparr>usdc = MOCK_USDC_DEVNET, onyc = MOCK_ONYC_DEVNET, usdg = MOCK_USDG_DEVNET\<rparr>\<rparr>"

definition demo_state :: state_account where
  "demo_state = \<lparr>st_boss = demo_boss, st_proposedBoss = PublicKey_default, st_isKilled = False,
     st_onycMint = MOCK_ONYC_DEVNET, st_admins = [demo_admin] @ replicate 19 PublicKey_default,
     st_approver1 = PublicKey_default, st_approver2 = PublicKey_default, st_maxSupply = 0,
     st_redemptionAdmin = demo_admin\<rparr>"

definition demo_offer :: offer_account where
  "demo_offer = \<lparr>oa_tokenInMint = MOCK_USDC_DEVNET, oa_tokenOutMint = MOCK_ONYC_DEVNET, oa_vectors = [],
     oa_feeBasisPoints = 0, oa_needsApproval = 0, oa_allowPermissionless = 1\<rparr>"

definition demo_redemption_offer :: redemption_offer_account where
  "demo_redemption_offer = \<lparr>ro_offer = demo_boss, ro_tokenInMint = MOCK_ONYC_DEVNET,
     ro_tokenOutMint = MOCK_USDC_DEVNET, ro_executedRedemptions = 0, ro_requestedRedemptions = 0,
     ro_feeBasisPoints = 0, ro_requestCounter = 3\<rparr>"

definition demo_request :: "nat \<Rightarrow> redemption_request_account" where
  "demo_request i = \<lparr>rr_offer = demo_boss, rr_requestId = i, rr_redeemer = demo_wallet, rr_amount = 5\<rparr>"

definition demo_newBN :: "jsval \<Rightarrow> exn + int" where
  "demo_newBN v = (case v of JNum (Fin x) \<Rightarrow> Inr \<lfloor>x\<rfloor> | JBN n \<Rightarrow> Inr n | JStr s \<Rightarrow> Inr (int (digits_val s))
     | _ \<Rightarrow> Inl (Library ''Assertion failed''))"

text \<open>
  \<open>menu\<close> is the choice in every menu that has it (the first entry in the others), \<open>typed\<close> the text
  typed at every input, \<open>yes\<close> every confirmation, 7 every number; an answer that the validator refuses
  abandons the prompt.
\<close>

definition demo :: "string \<Rightarrow> string \<Rightarrow> bool \<Rightarrow> env" where
  "demo menu typed yes =
     \<lparr>cfg = demo_cfg,
      newPublicKey = (\<lambda>s. if 32 \<le> length s then Inr (PublicKey s) else Inl (Library ''Invalid public key input'')),
      toBuffer = toBase58,
      TOKEN_PROGRAM_ID = PublicKey ''TokenkegQfeZyiNwAJbNbGKPFXCWuBvf9Ss623VQ5DA'',
      TOKEN_2022_PROGRAM_ID = PublicKey ''TokenzQdBNbLqP5VEhdkAS6EPFLC1PHnBqCXEpPxuEb'',
      findProgramAddress = (\<lambda>seeds p. PublicKey (concat seeds @ toBase58 p)),
      connectionError = (\<lambda>u. None),
      associatedTokenAddress = (\<lambda>m w b p. Inr (PublicKey (toBase58 m @ toBase58 w))),
      newBN = demo_newBN,
      bnToNumber = Inr,
      bnToBuffer8 = (\<lambda>n. Inr (int_str n)),
      instructionError = (\<lambda>c. None),
      oldInstructionError = (\<lambda>c. None),
      serializeTx = (\<lambda>t. Inr ''tx''),
      bs58Encode = (\<lambda>b. b),
      ixProgramId = (\<lambda>ix. TEST_PROGRAM_ID),
      ixKeyCount = (\<lambda>ix. 3),
      dateParse = (\<lambda>s. NaN),
      toLocaleString = num_str,
      homedir = ''/home/demo'',
      dateNow = (\<lambda>tr. 1750000000500),
      fileExists = (\<lambda>tr p. True),
      readFile = (\<lambda>tr p. Inr ''[1,2,3]''),
      keypairOfJson = (\<lambda>s. Inr demo_wallet),
      keypairGenerate = (\<lambda>tr. demo_wallet),
      inqInput = (\<lambda>tr s d v. if v typed = Valid then Inr typed else Inl (Library ''abandoned'')),
      inqNumber = (\<lambda>tr s d v. if v (jnum 7) = Valid then Inr (jnum 7) else Inl (Library ''abandoned'')),
      inqConfirm = (\<lambda>tr s d. Inr yes),
      inqSelect = (\<lambda>tr s cs d. if menu \<in> set (List.map snd cs) then Inr menu
        else case cs of [] \<Rightarrow> Inl (Library ''abandoned'') | c # _ \<Rightarrow> Inr (snd c)),
      rpcState = (\<lambda>tr k. Inr demo_state),
      rpcOffer = (\<lambda>tr k. Inr demo_offer),
      rpcRedemptionOffer = (\<lambda>tr k. Inr demo_redemption_offer),
      rpcRedemptionRequest = (\<lambda>tr k. Inr (demo_request 1)),
      rpcAllRedemptionRequests = (\<lambda>tr fs. Inr (List.map demo_request [3, 1, 2])),
      rpcAccountInfo = (\<lambda>tr k. Inr True),
      rpcOldState = (\<lambda>tr k. Inr demo_boss),
      rpcOldOffer = (\<lambda>tr k. Inr \<lparr>oo_sellTokenMint = MOCK_ONYC_DEVNET, oo_buyToken1Mint = MOCK_USDC_DEVNET\<rparr>),
      rpcTokenBalance = (\<lambda>tr k. Inr \<lparr>tb_amount = ''2500000'', tb_uiAmountString = Some ''2.5'', tb_decimals = 6\<rparr>),
      rpcParsedAccount = (\<lambda>tr k. Inr None),
      rpcMint = (\<lambda>tr k p. Inr \<lparr>mt_decimals = 9, mt_supply = 1000, mt_mintAuthority = Some demo_boss\<rparr>),
      rpcBlockhash = (\<lambda>tr. Inr ''hash''),
      rpcView = (\<lambda>tr c. Inr 1234567891),
      partialSign = (\<lambda>t k. None),
      rpcSend = (\<lambda>tr t k. Inr ''signature''),
      clipboardError = (\<lambda>tr s. None)\<rparr>"

lemma demo_simps [simp]:
  "cfg (demo a b c) = demo_cfg" "rpcState (demo a b c) tr k = Inr demo_state"
  by (simp_all add: demo_def)

lemma demo_stable: "stable_state (demo a b c) demo_state"
  by (simp add: stable_state_def)

end
