(* ===== verification/Prompt_Props.thy ===== *)
theory Prompt_Props
  imports Demo_Env
begin

text \<open>
  What \<open>promptForParams\<close> promises to the handlers: the keys and the types of the parameters, when it
  asks, and what a typed answer can be. \<open>inquirer_ok\<close> is the documented behaviour of the prompt
  library: an answer has passed the validator, a number prompt gives a number or nothing, and a menu
  gives the value of one of its choices.
\<close>

section \<open>The prompt library\<close>

definition inquirer_ok :: "env \<Rightarrow> bool" where
  "inquirer_ok E \<longleftrightarrow>
     (\<forall>tr m d v s. inqInput E tr m d v = Inr s \<longrightarrow> v s = Valid) \<and>
     (\<forall>tr m d v x. inqNumber E tr m d v = Inr x \<longrightarrow> v x = Valid \<and> (x = JUndefined \<or> (\<exists>n. x = JNum n))) \<and>
     (\<forall>tr m cs d s. inqSelect E tr m cs d = Inr s \<longrightarrow> s \<in> set (List.map snd cs))"

lemma demo_inquirer: "inquirer_ok (demo a b c)"
  by (auto simp: inquirer_ok_def demo_def split: if_splits list.splits)

lemma ask_result: "(\<And>tr x. f tr = Inr x \<Longrightarrow> R x) \<Longrightarrow> io_res R (ask p v f)"
  by (auto simp: io_res_def ask_def split: sum.splits)

lemma input_result: "inquirer_ok E \<Longrightarrow> io_res (\<lambda>s. v s = Valid) (input E m d v)"
  unfolding input_def by (rule ask_result) (auto simp: inquirer_ok_def)

lemma number_result:
  "inquirer_ok E \<Longrightarrow> io_res (\<lambda>x. v x = Valid \<and> (x = JUndefined \<or> (\<exists>n. x = JNum n))) (number E m d v)"
  unfolding number_def by (rule ask_result) (auto simp: inquirer_ok_def)

lemma select_result: "inquirer_ok E \<Longrightarrow> io_res (\<lambda>s. s \<in> set (List.map snd cs)) (select E m cs d)"
  unfolding select_def by (rule ask_result) (auto simp: inquirer_ok_def)

section \<open>Answers\<close>

text \<open>The values a validated answer can have.\<close>

fun in_range :: "ParamType \<Rightarrow> jsval \<Rightarrow> bool" where
  "in_range PublicKeyParam v = (\<exists>k. v = JPk k)"
| "in_range MintParam v = (\<exists>k. v = JPk k)"
| "in_range AmountParam v = (\<exists>n. v = jnum n \<and> 0 < n)"
| "in_range BasisPointsParam v = (\<exists>n. v = jnum n \<and> 0 \<le> n \<and> n \<le> 10000)"
| "in_range AprParam v = (\<exists>x. v = JNum x \<and> x \<noteq> NaN \<and> \<not> js_lt x 0)"
| "in_range DurationParam v = (\<exists>n. v = jnum n \<and> 0 < n)"
| "in_range TimestampParam v = (\<exists>x. v = JNum x)"
| "in_range BooleanParam v = (\<exists>b. v = JBool b)"
| "in_range StringParam v = (\<exists>s. v = JStr s)"
| "in_range SelectParam v = (\<exists>s. v = JStr s)"

text \<open>What the types of the parameters promise, whether typed or given on the command line.\<close>

fun has_type :: "ParamType \<Rightarrow> jsval \<Rightarrow> bool" where
  "has_type AmountParam v = (\<exists>x. v = JNum x)"
| "has_type BasisPointsParam v = (\<exists>x. v = JNum x)"
| "has_type AprParam v = (\<exists>x. v = JNum x)"
| "has_type DurationParam v = (\<exists>x. v = JNum x)"
| "has_type t v = in_range t v"

lemma type_preds:
  "in_range PublicKeyParam = (\<lambda>v. \<exists>k. v = JPk k)" "in_range MintParam = (\<lambda>v. \<exists>k. v = JPk k)"
  "in_range TimestampParam = (\<lambda>v. \<exists>x. v = JNum x)" "has_type PublicKeyParam = (\<lambda>v. \<exists>k. v = JPk k)"
  "has_type MintParam = (\<lambda>v. \<exists>k. v = JPk k)" "has_type TimestampParam = (\<lambda>v. \<exists>x. v = JNum x)"
  by (rule ext, simp)+

lemma in_range_has_type: "in_range t v \<Longrightarrow> has_type t v"
  by (cases t) auto

lemma validateAmount_range: "validateAmount (JNum x) = Valid \<Longrightarrow> in_range AmountParam (JNum x)"
  by (cases x) (auto simp: validateAmount_def no_number_def elim!: Ints_cases split: if_splits)

lemma validateDuration_range: "validateDuration (JNum x) = Valid \<Longrightarrow> in_range DurationParam (JNum x)"
  by (cases x) (auto simp: validateDuration_def no_number_def elim!: Ints_cases split: if_splits)

lemma validateApr_range: "validateApr (JNum x) = Valid \<Longrightarrow> in_range AprParam (JNum x)"
  by (cases x) (auto simp: validateApr_def no_number_def split: if_splits)

lemma of_int_le_10000: "(of_int n :: rat) \<le> 10000 \<longleftrightarrow> n \<le> 10000"
  by (metis of_int_le_iff of_int_numeral)

lemma validateBasisPoints_range: "validateBasisPoints (JNum x) = Valid \<Longrightarrow> in_range BasisPointsParam (JNum x)"
  by (cases x) (auto simp: validateBasisPoints_def no_number_def of_int_le_10000 elim!: Ints_cases split: if_splits)

lemma new_PublicKey_result: "io_res (\<lambda>v. \<exists>k. v = JPk k) (new_PublicKey E s)"
  unfolding new_PublicKey_def by (intro io_res_bind io_res_ret) simp

lemma parseTimestamp_result: "io_res (\<lambda>v. \<exists>x. v = JNum x) (parseTimestamp E v)"
  unfolding parseTimestamp_def
  by (cases v) (auto intro!: io_res_bind io_res_ret io_res_throw io_res_if)

lemma promptMint_result:
  assumes "inquirer_ok E"
  shows "io_res (in_range MintParam) (promptMint E m d)"
proof -
  have "io_res (in_range MintParam) (ret (case mint_of_name (mints (cfg E)) s of Some k \<Rightarrow> JPk k | None \<Rightarrow> JUndefined))"
    if "s \<in> set (List.map snd (mint_choices (mints (cfg E))))" "s \<noteq> ''custom''" for s
    using that by (intro io_res_ret) (auto simp: mint_choices_def mint_of_name_def)
  moreover have "io_res (in_range MintParam) (new_PublicKey E s)" for s
    by (rule io_res_mono [OF new_PublicKey_result]) auto
  ultimately show ?thesis
    unfolding promptMint_def
    by (intro io_res_bind io_res_bind2 [OF select_result [OF assms]] io_res_if)
qed

text \<open>\<open>validated t\<close>: the defaults that the number prompts may fall back to are in range.\<close>

definition default_ok :: "env \<Rightarrow> ParamDefinition \<Rightarrow> bool" where
  "default_ok E p \<longleftrightarrow> (has_default (p_default p) \<longrightarrow> in_range (p_type p) (default_value (cfg E) (p_default p)))
     \<and> (\<not> has_default (p_default p) \<longrightarrow> default_value (cfg E) (p_default p) = JUndefined)"

lemma promptBasisPoints_result:
  assumes E: "inquirer_ok E" and d: "d = JUndefined \<or> in_range BasisPointsParam d"
  shows "io_res (in_range BasisPointsParam) (promptBasisPoints E m d)"
  unfolding promptBasisPoints_def
proof (rule io_res_bind2 [OF number_result [OF E]], rule io_res_ret)
  fix v
  assume v: "(if v = JUndefined then Valid else validateBasisPoints v) = Valid \<and> (v = JUndefined \<or> (\<exists>n. v = JNum n))"
  then show "in_range BasisPointsParam (nullish (nullish v d) (jnum 0))"
    using d validateBasisPoints_range by (auto intro: exI [of _ 0])
qed

lemma number_range:
  assumes E: "inquirer_ok E"
    and v: "\<And>x. val (JNum x) = Valid \<Longrightarrow> in_range t (JNum x)" and u: "val JUndefined \<noteq> Valid"
  shows "io_res (in_range t) (number E m d val)"
  by (rule io_res_mono [OF number_result [OF E]]) (use v u in auto)

lemma single_param_range:
  assumes E: "inquirer_ok E" and d: "default_ok E p"
  shows "io_res (in_range (p_type p)) (promptForSingleParam E p)"
proof (cases "p_type p")
  case PublicKeyParam
  have "io_res (in_range PublicKeyParam) (new_PublicKey E s)" for s
    by (rule io_res_mono [OF new_PublicKey_result]) auto
  then show ?thesis unfolding promptForSingleParam_def PublicKeyParam Let_def promptPublicKey_def
    by (simp only: ParamType.case) (intro io_res_bind)
next
  case BasisPointsParam
  then show ?thesis
    using promptBasisPoints_result [OF E] d by (auto simp: promptForSingleParam_def default_ok_def)
next
  case TimestampParam
  have "io_res (in_range TimestampParam) (parseTimestamp E s)" for s
    by (rule io_res_mono [OF parseTimestamp_result]) auto
  then show ?thesis unfolding promptForSingleParam_def TimestampParam Let_def promptTimestamp_def
    by (simp only: ParamType.case) (intro io_res_bind)
next
  case AmountParam
  have "io_res (in_range AmountParam) (promptAmount E m d)" for m d
    unfolding promptAmount_def by (rule number_range [OF E]) (simp_all add: validateAmount_range del: in_range.simps)
  then show ?thesis by (simp add: promptForSingleParam_def AmountParam)
next
  case AprParam
  have "io_res (in_range AprParam) (promptApr E m d)" for m d
    unfolding promptApr_def by (rule number_range [OF E]) (simp_all add: validateApr_range del: in_range.simps)
  then show ?thesis by (simp add: promptForSingleParam_def AprParam)
next
  case DurationParam
  have "io_res (in_range DurationParam) (promptDuration E m d)" for m d
    unfolding promptDuration_def by (rule number_range [OF E]) (simp_all add: validateDuration_range del: in_range.simps)
  then show ?thesis by (simp add: promptForSingleParam_def DurationParam)
qed (simp_all add: promptForSingleParam_def promptMint_result [OF E] io_res_bind io_res_ret)

section \<open>Values from the command line\<close>

text \<open>What commander stores for a parameter: nothing, a text, or a boolean for a flag without argument.\<close>

definition given_ok :: "ParamType \<Rightarrow> jsval \<Rightarrow> bool" where
  "given_ok t v \<longleftrightarrow> v = JUndefined \<or> is_JStr v \<or> (t = BooleanParam \<and> (\<exists>b. v = JBool b))"

lemma is_JStr_iff: "is_JStr v \<longleftrightarrow> (\<exists>s. v = JStr s)"
  by (cases v) auto

lemma transformValue_type:
  assumes "given_ok (p_type p) v" and "v \<noteq> JUndefined" and "transform p = None"
  shows "io_res (has_type (p_type p)) (transformValue E v p)"
proof -
  from assms(1,2) consider s where "v = JStr s" | b where "v = JBool b" "p_type p = BooleanParam"
    by (auto simp: given_ok_def is_JStr_iff)
  then show ?thesis
  proof cases
    case 1
    show ?thesis
      unfolding transformValue_def assms(3) 1
      by (cases "p_type p") (auto simp: type_preds new_PublicKey_result parseTimestamp_result io_res_ret split: option.split)
  next
    case 2
    then show ?thesis by (simp add: transformValue_def assms(3) io_res_ret)
  qed
qed

lemma param_value_type:
  assumes E: "inquirer_ok E" and d: "default_ok E p" and g: "given_ok (p_type p) (fld vs (p_name p))"
    and t: "transform p = None"
  shows "io_res (has_type (p_type p)) (param_value E p vs b)"
  unfolding param_value_def
proof (intro io_res_if)
  show "fld vs (p_name p) \<noteq> JUndefined \<Longrightarrow> io_res (has_type (p_type p)) (transformValue E (fld vs (p_name p)) p)"
    by (rule transformValue_type [OF g _ t])
next
  assume "has_default (p_default p) \<and> (\<not> required p \<or> b)"
  then show "io_res (has_type (p_type p)) (ret (default_value (cfg E) (p_default p)))"
    using d by (intro io_res_ret in_range_has_type) (simp add: default_ok_def)
next
  show "io_res (has_type (p_type p)) (promptForSingleParam E p)"
    using single_param_range [OF E d] in_range_has_type by (rule io_res_mono)
qed (rule io_res_throw)

section \<open>The whole loop\<close>

lemma fld_obj_set [simp]: "fld (obj_set k v obj) k' = (if k = k' then v else fld obj k')"
  by (induction obj) (auto simp: fld_def)

lemma keys_obj_set: "List.map fst (obj_set k v obj) =
    (if k \<in> set (List.map fst obj) then List.map fst obj else List.map fst obj @ [k])"
  by (induction obj) auto

lemma loop_keys:
  "distinct (List.map fst r @ List.map p_name ps) \<Longrightarrow>
     io_res (\<lambda>r'. List.map fst r' = List.map fst r @ List.map p_name ps) (promptForParams_from E vs b r ps)"
proof (induction ps arbitrary: r)
  case (Cons p ps)
  have "io_res (\<lambda>r'. List.map fst r' = List.map fst r @ List.map p_name (p # ps))
      (promptForParams_from E vs b (obj_set (p_name p) v r) ps)" for v
    using Cons.IH [of "obj_set (p_name p) v r"] Cons.prems by (simp add: keys_obj_set)
  then show ?case by (simp add: io_res_bind)
qed (simp add: io_res_ret)

lemma loop_values:
  assumes "\<And>p. p \<in> set ps \<Longrightarrow> io_res (P p) (param_value E p vs b)"
    and "distinct (List.map p_name (qs @ ps))" and "\<forall>q\<in>set qs. P q (fld r (p_name q))"
  shows "io_res (\<lambda>r'. \<forall>p\<in>set (qs @ ps). P p (fld r' (p_name p))) (promptForParams_from E vs b r ps)"
  using assms
proof (induction ps arbitrary: qs r)
  case (Cons p ps)
  have "io_res (\<lambda>r'. \<forall>q\<in>set (qs @ p # ps). P q (fld r' (p_name q)))
      (promptForParams_from E vs b (obj_set (p_name p) v r) ps)" if "P p v" for v
  proof -
    have "\<forall>q\<in>set (qs @ [p]). P q (fld (obj_set (p_name p) v r) (p_name q))"
      using Cons.prems(2,3) that by force
    then show ?thesis using Cons.IH [of "qs @ [p]" "obj_set (p_name p) v r"] Cons.prems by simp
  qed
  with Cons.prems(1) [of p] show ?case by (simp add: io_res_bind2)
qed (simp add: io_res_ret)

lemma params_values:
  assumes "\<And>p. p \<in> set ps \<Longrightarrow> io_res (P p) (param_value E p vs (js_truthy ni))" and "distinct (List.map p_name ps)"
  shows "io_res (\<lambda>r. \<forall>p\<in>set ps. P p (fld r (p_name p))) (promptForParams E ps vs ni)"
  using loop_values [of ps P E vs "js_truthy ni" "[]" "[]"] assms by (simp add: promptForParams_def)

section \<open>The parameter tables\<close>

text \<open>
  A table has distinct names and defaults in range; a transformation belongs to a text parameter, and
  an optional parameter without a default is a text.
\<close>

definition param_ok :: "ParamDefinition \<Rightarrow> bool" where
  "param_ok p \<longleftrightarrow> (p_type p = StringParam \<or> transform p = None) \<and> (\<forall>E. default_ok E p)
     \<and> (p_type p = StringParam \<or> required p \<or> has_default (p_default p))"

definition table_ok :: "ParamDefinition list \<Rightarrow> bool" where
  "table_ok ps \<longleftrightarrow> distinct (List.map p_name ps) \<and> list_all param_ok ps"

lemma param_ok_simps:
  "param_ok (param n t d r NoDefault fl sf) \<longleftrightarrow> t = StringParam \<or> r"
  "param_ok (param n t d r (DefaultValue v) fl sf) \<longleftrightarrow>
     (v \<noteq> JUndefined \<longrightarrow> in_range t v) \<and> (t = StringParam \<or> r \<or> v \<noteq> JUndefined)"
  "param_ok (param n t d r (DefaultOf f) fl sf) \<longleftrightarrow> (\<forall>E. in_range t (f (cfg (E :: env))))"
  "param_ok ((param n StringParam d r NoDefault fl sf)\<lparr>transform := g\<rparr>)"
  "param_ok ((param n StringParam d r NoDefault fl sf)\<lparr>p_validate := h, transform := g\<rparr>)"
  by (auto simp: param_ok_def param_def default_ok_def)

lemma command_tables_ok: "list_all (\<lambda>c. table_ok (c_params c)) cli_commands"
proof -
  have t: "table_ok []" "table_ok proposeBossParams" "table_ok acceptBossParams" "table_ok adminParams"
    "table_ok approverParams" "table_ok setOnycMintParams" "table_ok maxSupplyParams" "table_ok redemptionAdminParams"
    "table_ok tokenPairParams" "table_ok makeOfferParams" "table_ok takeOfferParams" "table_ok addVectorParams"
    "table_ok deleteVectorParams" "table_ok updateFeeParams" "table_ok vaultParams" "table_ok mintParams"
    "table_ok transferMintAuthorityParams" "table_ok redemptionOfferParams" "table_ok updateRedemptionFeeParams"
    "table_ok createRequestParams" "table_ok requestParams" "table_ok listRequestsParams"
    "table_ok initProgramParams" "table_ok initPermissionlessParams"
    by (auto simp: table_ok_def param_tables param_ok_simps) (auto simp: param_def)
  show ?thesis
    unfolding cli_commands_def register_defs
    by (simp add: command_def t)
qed

lemma registered_table: "c \<in> set cli_commands \<Longrightarrow> table_ok (c_params c)"
  using command_tables_ok by (simp add: list_all_iff)

lemma registered_param:
  "c \<in> set cli_commands \<Longrightarrow> p \<in> set (c_params c) \<Longrightarrow> param_ok p"
  using registered_table [of c] by (simp add: table_ok_def list_all_iff)

section \<open>Options of the command line\<close>

lemma fld_Cons [simp]: "fld ((k, v) # obj) k' = (if k = k' then v else fld obj k')"
  by (simp add: fld_def)

lemma fld_Nil [simp]: "fld [] k = JUndefined"
  by (simp add: fld_def)

lemma fld_notin: "k \<notin> set (List.map fst obj) \<Longrightarrow> fld obj k = JUndefined"
  by (induction obj) auto

lemma fld_in: "fld obj k \<noteq> JUndefined \<Longrightarrow> (k, fld obj k) \<in> set obj"
  by (auto simp: fld_def map_of_SomeD split: option.splits)

lemma fld_spread:
  "distinct (List.map fst b) \<Longrightarrow> fld (spread a b) k = (if k \<in> set (List.map fst b) then fld b k else fld a k)"
proof (induction b arbitrary: a)
  case (Cons x b)
  then have "fld (spread (obj_set (fst x) (snd x) a) b) k =
      (if k \<in> set (List.map fst b) then fld b k else fld (obj_set (fst x) (snd x) a) k)" by simp
  then show ?case using Cons.prems by (cases x) (auto simp: spread_def)
qed (simp add: spread_def)

lemma stored_entry:
  assumes "stored_ok os obj" and "(k, v) \<in> set obj"
  shows "\<exists>o'\<in>set os. option_key (fst o') = k \<and> option_value (fst o') v"
proof -
  have "list_ex (\<lambda>o'. option_key (fst o') = fst (k, v) \<and> option_value (fst o') (snd (k, v))) os"
    using assms unfolding stored_ok_def list_all_iff by blast
  then show ?thesis by (simp add: list_ex_iff)
qed

lemma stored_keys:
  assumes "stored_ok os obj"
  shows "set (List.map fst obj) \<subseteq> set (List.map (\<lambda>o'. option_key (fst o')) os)"
proof
  fix k
  assume "k \<in> set (List.map fst obj)"
  then obtain v where "(k, v) \<in> set obj" by auto
  from stored_entry [OF assms this] show "k \<in> set (List.map (\<lambda>o'. option_key (fst o')) os)" by auto
qed

lemma stored_value:
  "stored_ok os obj \<Longrightarrow> fld obj k \<noteq> JUndefined \<Longrightarrow>
     \<exists>o'\<in>set os. option_key (fst o') = k \<and> option_value (fst o') (fld obj k)"
  by (rule stored_entry [OF _ fld_in])

definition global_keys :: "string list" where
  "global_keys = [''network'', ''json'', ''dryRun'', ''interactive'']"

lemma global_keys_eq: "List.map (\<lambda>o'. option_key (fst o')) globalOptions = global_keys"
  by code_simp

text \<open>The merged options: the global ones win, then those of the command.\<close>

lemma set_keys_obj_set: "fst ` set (obj_set k v obj) = insert k (fst ` set obj)"
  by (induction obj) auto

lemma keys_spread: "fst ` set (spread a b) = fst ` set a \<union> fst ` set b"
proof (induction b arbitrary: a)
  case (Cons x b)
  from Cons.IH [of "obj_set (fst x) (snd x) a"] show ?case by (simp add: spread_def set_keys_obj_set)
qed (simp add: spread_def)

lemma distinct_spread:
  "distinct (List.map fst a) \<Longrightarrow> distinct (List.map fst (spread a b))"
proof (induction b arbitrary: a)
  case (Cons x b)
  have "distinct (List.map fst (obj_set (fst x) (snd x) a))"
    using Cons.prems by (simp add: keys_obj_set)
  from Cons.IH [OF this] show ?case by (simp add: spread_def)
qed (simp add: spread_def)

definition merged :: "parsed \<Rightarrow> string \<Rightarrow> jsval" where
  "merged p k = (if k \<in> set (List.map fst (pr_globals p)) then fld (pr_globals p) k else fld (pr_options p) k)"

lemma fld_merged:
  assumes "distinct (List.map fst (pr_options p))" "distinct (List.map fst (pr_globals p))"
  shows "fld (optsWithGlobals p) k = merged p k" "fld (command_opts p) k = merged p k"
    "fld (vault_opts p) k = (if k = ''tokenMint'' then fld (pr_options p) ''token'' else merged p k)"
proof -
  show 1: "fld (optsWithGlobals p) k = merged p k" for k
    using assms by (simp add: optsWithGlobals_def fld_spread merged_def)
  have "distinct (List.map fst (optsWithGlobals p))"
    unfolding optsWithGlobals_def by (rule distinct_spread [OF assms(1)])
  moreover have "fst ` set (optsWithGlobals p) = fst ` set (pr_options p) \<union> fst ` set (pr_globals p)"
    unfolding optsWithGlobals_def by (rule keys_spread)
  ultimately show 2: "fld (command_opts p) k = merged p k" for k
    using 1 [of k] fld_notin [of k "pr_options p"]
    by (auto simp: command_opts_def fld_spread merged_def)
  show "fld (vault_opts p) k = (if k = ''tokenMint'' then fld (pr_options p) ''token'' else merged p k)"
    using 2 by (simp add: vault_opts_def)
qed

section \<open>Promises of the parameters\<close>

text \<open>
  The type that a parameter arrives with, for the value \<open>g\<close> that the command line gives: the declared one, but for the
  two texts that are transformed when they are given as an option, a request number and the key of a redeemer.
\<close>

definition declared :: "ParamDefinition \<Rightarrow> jsval \<Rightarrow> jsval \<Rightarrow> bool" where
  "declared p g v \<longleftrightarrow>
     (if g = JUndefined \<or> transform p = None then has_type (p_type p) v
      else if p_name p = ''requestId'' then \<exists>n. v = JNum n
      else p_name p = ''redeemer'' \<and> (v = JUndefined \<or> (\<exists>k. v = JPk k)))"

lemma command_transforms: "list_all (\<lambda>c. list_all (\<lambda>p. transform p = None \<or>
    (p_name p = ''requestId'' \<and> transform p = Some requestId_transform) \<or>
    (p_name p = ''redeemer'' \<and> transform p = Some redeemer_transform)) (c_params c)) cli_commands"
  unfolding cli_commands_def register_defs by (simp add: command_def param_tables) (simp add: param_def)

lemma redeemer_transform_type:
  "io_res (\<lambda>v. v = JUndefined \<or> (\<exists>k. v = JPk k)) (lift (redeemer_transform E (JStr s)))"
  by (cases "newPublicKey E (js_trim s)") (auto simp: redeemer_transform_def io_res_def lift_def)

lemma declared_value:
  assumes "inquirer_ok E" and "c \<in> set cli_commands" and p: "p \<in> set (c_params c)"
    and g: "given_ok (p_type p) (fld vs (p_name p))"
  shows "io_res (declared p (fld vs (p_name p))) (param_value E p vs b)"
proof -
  have ok: "param_ok p" by (rule registered_param [OF assms(2) p])
  have t: "transform p = None \<or> (p_name p = ''requestId'' \<and> transform p = Some requestId_transform) \<or>
    (p_name p = ''redeemer'' \<and> transform p = Some redeemer_transform)"
    using command_transforms assms(2) p unfolding list_all_iff by blast
  show ?thesis
  proof (cases "fld vs (p_name p) = JUndefined")
    case True
    have d: "default_ok E p" using ok by (simp add: param_ok_def)
    have "io_res (has_type (p_type p)) (param_value E p vs b)"
      unfolding param_value_def using True d
      by (intro io_res_if io_res_throw io_res_ret in_range_has_type io_res_mono [OF single_param_range [OF assms(1) d]])
        (auto simp: default_ok_def)
    then show ?thesis by (rule io_res_mono) (simp add: declared_def True)
  next
    case False
    note given = this
    show ?thesis
    proof (cases "transform p")
      case None
      from param_value_type [OF assms(1) _ g None] ok have "io_res (has_type (p_type p)) (param_value E p vs b)"
        by (simp add: param_ok_def)
      then show ?thesis by (rule io_res_mono) (simp add: declared_def None)
    next
      case (Some f)
      with ok g given obtain s where s: "fld vs (p_name p) = JStr s" by (auto simp: param_ok_def given_ok_def is_JStr_iff)
      have v: "param_value E p vs b = lift (f E (JStr s))" by (simp add: param_value_def transformValue_def s Some)
      from t Some consider "p_name p = ''requestId''" "f = requestId_transform" | "p_name p = ''redeemer''" "f = redeemer_transform"
        by auto
      then show ?thesis
      proof cases
        case 1
        show ?thesis unfolding v
          using 1 s by (simp add: declared_def Some requestId_transform_def io_res_def lift_def)
      next
        case 2
        show ?thesis unfolding v 2(2)
          by (rule io_res_mono [OF redeemer_transform_type]) (use 2(1) s in \<open>auto simp: declared_def Some\<close>)
      qed
    qed
  qed
qed

text \<open>
  The handler of a registered command receives exactly the parameters of its table, in the order of
  the table, and each has the type of its declaration, whether it was given, defaulted or typed.
\<close>

lemma typed_parameters:
  assumes "inquirer_ok E" and "c \<in> set cli_commands"
    and "\<forall>p\<in>set (c_params c). given_ok (p_type p) (fld vs (p_name p))"
  shows "io_res (\<lambda>r. List.map fst r = List.map p_name (c_params c) \<and>
      (\<forall>p\<in>set (c_params c). declared p (fld vs (p_name p)) (fld r (p_name p))))
    (promptForParams E (c_params c) vs ni)"
proof -
  have d: "distinct (List.map p_name (c_params c))"
    using registered_table [OF assms(2)] by (simp add: table_ok_def)
  have keys: "io_res (\<lambda>r. List.map fst r = List.map p_name (c_params c)) (promptForParams E (c_params c) vs ni)"
    using loop_keys [of "[]" "c_params c" E vs "js_truthy ni"] d by (simp add: promptForParams_def)
  have "io_res (\<lambda>r. \<forall>p\<in>set (c_params c). declared p (fld vs (p_name p)) (fld r (p_name p))) (promptForParams E (c_params c) vs ni)"
    using assms(3) by (intro params_values [OF declared_value [OF assms(1,2)] d]) simp_all
  with keys show ?thesis by (auto simp: io_res_def)
qed

lemma example_registered2: "cli_commands ! i \<in> set cli_commands" if "i < 42"
  by (rule nth_mem) (use that in \<open>simp add: cli_commands_def register_defs\<close>)

text \<open>
  C18: what is typed at a prompt of a registered command has passed its check: amounts and durations are
  positive integers, fees integers between 0 and 10000, an APR is not negative, keys and mints are keys.
\<close>

theorem typed_answers_are_valid:
  assumes "inquirer_ok E" and "c \<in> set cli_commands" and "p \<in> set (c_params c)"
  shows "io_res (in_range (p_type p)) (promptForSingleParam E p)"
  using registered_param [OF assms(2,3)] single_param_range [OF assms(1), of p] by (simp add: param_ok_def)

theorem typed_answers_are_valid_witness:
  "io_res (in_range BasisPointsParam) (promptForSingleParam (demo [] [] True) (c_params (cli_commands ! 23) ! 2))
   \<and> fst (promptForSingleParam (demo [] [] True) (c_params (cli_commands ! 23) ! 2) []) = Inr (jnum 7)"
proof
  have c: "c_params (cli_commands ! 23) = updateFeeParams"
    by (simp add: cli_commands_def registerStateCommands_def registerMarketCommands_def registerOfferCommands_def command_def)
  then have t: "p_type (c_params (cli_commands ! 23) ! 2) = BasisPointsParam"
    "c_params (cli_commands ! 23) ! 2 \<in> set (c_params (cli_commands ! 23))"
    by (simp_all add: updateFeeParams_def tokenPairParams_def param_def)
  show "io_res (in_range BasisPointsParam) (promptForSingleParam (demo [] [] True) (c_params (cli_commands ! 23) ! 2))"
    using typed_answers_are_valid [OF demo_inquirer example_registered2 t(2)] t(1) by simp
  show "fst (promptForSingleParam (demo [] [] True) (c_params (cli_commands ! 23) ! 2) []) = Inr (jnum 7)"
    unfolding c by code_simp
qed

lemma transformValue_silent: "io_all (\<lambda>e. False) (transformValue E v p)"
proof -
  have "io_all (\<lambda>e. False) (parseTimestamp E v)" for v
    unfolding parseTimestamp_def by (cases v) (auto intro!: io_intros)
  moreover have "io_all (\<lambda>e. False) (new_PublicKey E s)" for s
    unfolding new_PublicKey_def by (intro io_intros)
  ultimately show ?thesis
    unfolding transformValue_def by (cases v; cases "p_type p") (auto intro!: io_intros)
qed

lemma silent_run: "io_all (\<lambda>e. False) m \<Longrightarrow> snd (m tr) = tr"
  by (auto simp: io_all_def io_trace_def list_all_iff)

lemma loop_all:
  "(\<And>p. p \<in> set ps \<Longrightarrow> io_all P (param_value E p vs b)) \<Longrightarrow> io_all P (promptForParams_from E vs b r ps)"
  by (induction ps arbitrary: r) (auto intro!: io_intros)

text \<open>When every parameter is given, nothing is asked, printed or looked up before the handler runs.\<close>

lemma given_parameters_ask_nothing:
  assumes "\<forall>p\<in>set ps. fld vs (p_name p) \<noteq> JUndefined"
  shows "snd (promptForParams E ps vs ni tr) = tr"
  unfolding promptForParams_def
  by (rule silent_run, rule loop_all) (use assms in \<open>simp add: param_value_def transformValue_silent\<close>)

lemma given_parameters_ask_nothing_witness:
  "promptForParams (demo [] [] True) vaultParams [(''tokenMint'', JStr ''USDC''), (''amount'', JStr ''12abc'')] JUndefined []
     = (Inr [(''tokenMint'', JPk MOCK_USDC_DEVNET), (''amount'', jnum 12)], [])"
proof -
  have "fst (promptForParams (demo [] [] True) vaultParams [(''tokenMint'', JStr ''USDC''), (''amount'', JStr ''12abc'')] JUndefined [])
     = Inr [(''tokenMint'', JPk MOCK_USDC_DEVNET), (''amount'', jnum 12)]" by code_simp
  moreover have "snd (promptForParams (demo [] [] True) vaultParams
      [(''tokenMint'', JStr ''USDC''), (''amount'', JStr ''12abc'')] JUndefined []) = []"
    by (rule given_parameters_ask_nothing) (simp add: vaultParams_def param_def)
  ultimately show ?thesis by (simp add: prod_eq_iff)
qed

text \<open>
  In the non-interactive mode of \<open>promptForParams\<close> nothing is asked either, if every parameter is
  required or has a default; and a required parameter without value and default is an error.
\<close>

lemma non_interactive_never_asks:
  assumes "js_truthy ni" and "\<forall>p\<in>set ps. required p \<or> has_default (p_default p)"
  shows "snd (promptForParams E ps vs ni tr) = tr \<and>
    ((\<exists>p\<in>set ps. required p \<and> \<not> has_default (p_default p) \<and> fld vs (p_name p) = JUndefined) \<longrightarrow>
       (\<exists>e. fst (promptForParams E ps vs ni tr) = Inl e))"
proof (intro conjI impI)
  have v: "io_all (\<lambda>e. False) (param_value E p vs True)" if "p \<in> set ps" for p
    using assms(2) that unfolding param_value_def by (auto intro!: io_intros transformValue_silent)
  show "snd (promptForParams E ps vs ni tr) = tr"
    unfolding promptForParams_def using assms(1) v by (intro silent_run loop_all) simp
  assume "\<exists>p\<in>set ps. required p \<and> \<not> has_default (p_default p) \<and> fld vs (p_name p) = JUndefined"
  then obtain p where p: "p \<in> set ps" "required p" "\<not> has_default (p_default p)" "fld vs (p_name p) = JUndefined"
    by blast
  have "io_res (\<lambda>_. False) (promptForParams_from E vs True r ps)" for r
    using p(1)
  proof (induction ps arbitrary: r)
    case (Cons q qs)
    show ?case
    proof (cases "p \<in> set qs")
      case True
      with Cons.IH show ?thesis by (simp add: io_res_bind)
    next
      case False
      then have "io_res (\<lambda>_. False) (param_value E q vs True)"
        using Cons.prems p by (auto simp: param_value_def io_res_throw)
      then show ?thesis by (simp add: io_res_bind2)
    qed
  qed simp
  then have "io_res (\<lambda>_. False) (promptForParams E ps vs ni)" using assms(1) by (simp add: promptForParams_def)
  then show "\<exists>e. fst (promptForParams E ps vs ni tr) = Inl e"
    unfolding io_res_def by (metis prod.collapse old.sum.exhaust)
qed

lemma non_interactive_never_asks_witness:
  "snd (promptForParams (demo [] [] True) vaultParams [(''amount'', JStr ''5'')] (JBool True) []) = []
   \<and> fst (promptForParams (demo [] [] True) vaultParams [(''amount'', JStr ''5'')] (JBool True) [])
     = Inl (Error ''Missing required parameter: tokenMint (--token)'')"
proof
  show "snd (promptForParams (demo [] [] True) vaultParams [(''amount'', JStr ''5'')] (JBool True) []) = []"
    using non_interactive_never_asks [of "JBool True" vaultParams] by (simp add: vaultParams_def param_def)
  show "fst (promptForParams (demo [] [] True) vaultParams [(''amount'', JStr ''5'')] (JBool True) [])
     = Inl (Error ''Missing required parameter: tokenMint (--token)'')" by code_simp
qed

end
