(* ===== verification/Option_Props.thy ===== *)
theory Option_Props
  imports Prompt_Props
begin

text \<open>
  From the parsed command line to the parameters: which options reach which parameter, and which do
  not. \<open>commander_ok\<close> is the documented behaviour of the commander library.
\<close>

section \<open>The merged options of a command\<close>

lemma registered_opts: "c \<in> set cli_commands \<Longrightarrow> c_opts c \<in> {optsWithGlobals, command_opts, vault_opts}"
proof -
  have "list_all (\<lambda>c. c_opts c \<in> {optsWithGlobals, command_opts, vault_opts}) cli_commands"
    unfolding cli_commands_def register_defs
    by (simp add: command_def)
  then show "c \<in> set cli_commands \<Longrightarrow> c_opts c \<in> {optsWithGlobals, command_opts, vault_opts}"
    by (simp only: list_all_iff)
qed

lemma vault_registered: "c \<in> set cli_commands \<Longrightarrow> c_opts c = vault_opts \<Longrightarrow> c_group c = ''vault''"
proof -
  have differ: "optsWithGlobals \<noteq> vault_opts" "command_opts \<noteq> vault_opts"
  proof -
    let ?p = "\<lparr>pr_options = [], pr_globals = []\<rparr>"
    have "optsWithGlobals ?p \<noteq> vault_opts ?p" "command_opts ?p \<noteq> vault_opts ?p" by code_simp+
    then show "optsWithGlobals \<noteq> vault_opts" "command_opts \<noteq> vault_opts" by metis+
  qed
  have "list_all (\<lambda>c. c_opts c = vault_opts \<longrightarrow> c_group c = ''vault'') cli_commands"
    unfolding cli_commands_def register_defs
    by (simp add: command_def differ)
  then show "c \<in> set cli_commands \<Longrightarrow> c_opts c = vault_opts \<Longrightarrow> c_group c = ''vault''"
    by (simp only: list_all_iff)
qed

text \<open>Where the value of a key comes from, for a registered command.\<close>

lemma opts_value:
  assumes "c \<in> set cli_commands" and "commander_ok c p" and "fld (c_opts c p) k \<noteq> JUndefined"
    and "k \<notin> set global_keys"
  shows "\<exists>o'\<in>set (c_options c). option_value (fst o') (fld (c_opts c p) k)
     \<and> (option_key (fst o') = k \<or> (c_group c = ''vault'' \<and> k = ''tokenMint'' \<and> option_key (fst o') = ''token''))"
proof -
  have so: "stored_ok (c_options c) (pr_options p)" and sg: "stored_ok globalOptions (pr_globals p)"
    using assms(2) by (simp_all add: commander_ok_def)
  have d: "distinct (List.map fst (pr_options p))" "distinct (List.map fst (pr_globals p))"
    using so sg by (simp_all add: stored_ok_def)
  have "k \<notin> set (List.map fst (pr_globals p))"
    using stored_keys [OF sg] assms(4) global_keys_eq by auto
  then have m: "merged p k = fld (pr_options p) k" by (simp add: merged_def)
  have plain: "\<exists>o'\<in>set (c_options c). option_key (fst o') = k \<and> option_value (fst o') (fld (pr_options p) k)"
    if "fld (pr_options p) k \<noteq> JUndefined" for k
    by (rule stored_value [OF so that])
  show ?thesis
  proof (cases "c_opts c = vault_opts \<and> k = ''tokenMint''")
    case True
    with fld_merged(3) [OF d] have v: "fld (c_opts c p) k = fld (pr_options p) ''token''" by simp
    show ?thesis
      using plain [of "''token''"] assms(3) True vault_registered [OF assms(1)] unfolding v by auto
  next
    case False
    with registered_opts [OF assms(1)] have v: "fld (c_opts c p) k = fld (pr_options p) k"
      using fld_merged [OF d] m by auto
    show ?thesis using plain [of k] assms(3) unfolding v by auto
  qed
qed

section \<open>The keys of the declared options\<close>

lemma option_keys:
  "option_key ''--admin <address>'' = ''admin''"
  "option_key ''--amount <value>'' = ''amount''"
  "option_key ''--approver <address>'' = ''approver''"
  "option_key ''--apr <value>'' = ''apr''"
  "option_key ''--base-price <price>'' = ''basePrice''"
  "option_key ''--base-time <timestamp>'' = ''baseTime''"
  "option_key ''--disable'' = ''disable''"
  "option_key ''--duration <seconds>'' = ''duration''"
  "option_key ''--enable'' = ''enable''"
  "option_key ''--mint <address>'' = ''mint''"
  "option_key ''--name <name>'' = ''name''"
  "option_key ''--needs-approval'' = ''needsApproval''"
  "option_key ''--new-boss <address>'' = ''newBoss''"
  "option_key ''--onyc-mint <address>'' = ''onycMint''"
  "option_key ''--permissionless'' = ''permissionless''"
  "option_key ''--request-id <number>'' = ''requestId''"
  "option_key ''--start-time <timestamp>'' = ''startTime''"
  "option_key ''-a, --amount <amount>'' = ''amount''"
  "option_key ''-a, --amount <number>'' = ''amount''"
  "option_key ''-a, --amount <tokens>'' = ''amount''"
  "option_key ''-a, --amount <value>'' = ''amount''"
  "option_key ''-f, --fee <bps>'' = ''fee''"
  "option_key ''-i, --token-in <mint>'' = ''tokenIn''"
  "option_key ''-m, --mint <address>'' = ''mint''"
  "option_key ''-o, --token-out <mint>'' = ''tokenOut''"
  "option_key ''-t, --token <mint>'' = ''token''"
  by code_simp+

lemma positive_flags: "\<not> negated_flag ''--needs-approval''" "\<not> negated_flag ''--permissionless''"
  by code_simp+

lemmas all_params_defs = tokenPairParams_def vaultParams_def initProgramParams_def initPermissionlessParams_def
  mintParams_def transferMintAuthorityParams_def makeOfferParams_def addVectorParams_def deleteVectorParams_def
  updateFeeParams_def takeOfferParams_def redemptionTokenPairParams_def redemptionOfferParams_def
  createRequestParams_def requestParams_def updateRedemptionFeeParams_def listRequestsParams_def proposeBossParams_def
  acceptBossParams_def adminParams_def approverParams_def setOnycMintParams_def maxSupplyParams_def
  redemptionAdminParams_def

section \<open>The flag \<open>--no-interactive\<close>\<close>

text \<open>
  No command line sets the option that the wrapper passes on as \<open>noInteractive\<close>: commander stores
  \<open>--no-interactive\<close> as \<open>interactive\<close>, so the non-interactive mode of the parameters is never entered.
\<close>

lemma no_interactive_never_reaches_the_prompts:
  assumes "c \<in> set cli_commands" and "commander_ok c p"
  shows "fld (c_opts c p) ''noInteractive'' = JUndefined"
proof (rule ccontr)
  assume *: "fld (c_opts c p) ''noInteractive'' \<noteq> JUndefined"
  have "''noInteractive'' \<notin> set global_keys" by code_simp
  from opts_value [OF assms * this] have "\<exists>o'\<in>set (c_options c). option_key (fst o') = ''noInteractive''"
    by auto
  moreover have "list_all (\<lambda>c. list_all (\<lambda>o'. option_key (fst o') \<noteq> ''noInteractive'') (c_options c)) cli_commands"
    by (simp add: cli_commands_def register_defs command_def option_keys)
  ultimately show False using assms(1) by (auto simp: list_all_iff)
qed

lemma no_interactive_never_reaches_the_prompts_witness:
  "commander_ok (cli_commands ! 3) \<lparr>pr_options = [], pr_globals = [(''interactive'', JBool False)]\<rparr>
   \<and> fld (c_opts (cli_commands ! 3) \<lparr>pr_options = [], pr_globals = [(''interactive'', JBool False)]\<rparr>)
       ''noInteractive'' = JUndefined"
proof
  show c: "commander_ok (cli_commands ! 3) \<lparr>pr_options = [], pr_globals = [(''interactive'', JBool False)]\<rparr>"
    by code_simp
  show "fld (c_opts (cli_commands ! 3) \<lparr>pr_options = [], pr_globals = [(''interactive'', JBool False)]\<rparr>)
       ''noInteractive'' = JUndefined"
    by (rule no_interactive_never_reaches_the_prompts [OF example_registered2 c]) simp
qed

section \<open>Options and parameters\<close>

text \<open>Every option of a command that feeds a parameter fits its type.\<close>

definition options_fit :: "cli_command \<Rightarrow> bool" where
  "options_fit c \<longleftrightarrow> list_all (\<lambda>q. p_name q \<notin> set global_keys \<and>
     list_all (\<lambda>o'. (option_key (fst o') = p_name q \<or>
          (c_group c = ''vault'' \<and> p_name q = ''tokenMint'' \<and> option_key (fst o') = ''token'')) \<longrightarrow>
        takes_value (fst o') \<or> (p_type q = BooleanParam \<and> \<not> negated_flag (fst o'))) (c_options c)) (c_params c)"

lemma all_options_fit: "list_all options_fit cli_commands"
  by (simp add: options_fit_def global_keys_def takes_value_def param_def cli_commands_def register_defs command_def
      option_keys positive_flags all_params_defs)

lemma param_not_global: "c \<in> set cli_commands \<Longrightarrow> q \<in> set (c_params c) \<Longrightarrow> p_name q \<notin> set global_keys"
  using all_options_fit by (auto simp: list_all_iff options_fit_def)

lemma given_values_fit:
  assumes "c \<in> set cli_commands" and "commander_ok c p" and q: "q \<in> set (c_params c)"
  shows "given_ok (p_type q) (fld (c_opts c p) (p_name q))"
proof (cases "fld (c_opts c p) (p_name q) = JUndefined")
  case False
  have fit: "options_fit c" using all_options_fit assms(1) by (simp add: list_all_iff)
  from opts_value [OF assms(1,2) False param_not_global [OF assms(1) q]]
  obtain o' where o': "o' \<in> set (c_options c)" "option_value (fst o') (fld (c_opts c p) (p_name q))"
    "option_key (fst o') = p_name q \<or> (c_group c = ''vault'' \<and> p_name q = ''tokenMint'' \<and> option_key (fst o') = ''token'')"
    by blast
  with fit q have "takes_value (fst o') \<or> (p_type q = BooleanParam \<and> \<not> negated_flag (fst o'))"
    by (auto simp: options_fit_def list_all_iff)
  with o'(2) show ?thesis by (auto simp: given_ok_def option_value_def split: if_splits)
qed (simp add: given_ok_def)

text \<open>
  What commander hands to a parameter of a registered command is a text, or the true of a flag for a
  boolean parameter; in particular \<open>--token\<close> of the vault commands reaches the parameter \<open>tokenMint\<close>.
\<close>

lemma command_line_values_fit:
  assumes "c \<in> set cli_commands" and "commander_ok c p" and "q \<in> set (c_params c)"
  shows "given_ok (p_type q) (fld (c_opts c p) (p_name q))
     \<and> (c_group c = ''vault'' \<longrightarrow> fld (c_opts c p) ''tokenMint'' = fld (pr_options p) ''token'')"
proof
  show "given_ok (p_type q) (fld (c_opts c p) (p_name q))" by (rule given_values_fit [OF assms])
  have "list_all (\<lambda>c. c_group c = ''vault'' \<longrightarrow> c_opts c = vault_opts) cli_commands"
    unfolding cli_commands_def register_defs
    by (simp add: command_def)
  then have "c_group c = ''vault'' \<longrightarrow> c_opts c = vault_opts" using assms(1) unfolding list_all_iff by blast
  then show "c_group c = ''vault'' \<longrightarrow> fld (c_opts c p) ''tokenMint'' = fld (pr_options p) ''token''"
    by (simp add: vault_opts_def)
qed

lemma command_line_values_fit_witness:
  "fld (c_opts (the (find_command ''vault'' ''deposit''))
     \<lparr>pr_options = [(''token'', JStr ''usdc'')], pr_globals = []\<rparr>) ''tokenMint'' = JStr ''usdc''"
proof -
  have c: "find_command ''vault'' ''deposit'' = Some (cli_commands ! 25)"
    by (simp add: find_command_def cli_commands_def registerStateCommands_def registerMarketCommands_def
        registerOfferCommands_def registerVaultCommands_def command_def)
  have v: "c_params (cli_commands ! 25) = vaultParams" "c_group (cli_commands ! 25) = ''vault''"
    by (simp_all add: cli_commands_def registerStateCommands_def registerMarketCommands_def
        registerOfferCommands_def registerVaultCommands_def command_def)
  have "commander_ok (cli_commands ! 25) \<lparr>pr_options = [(''token'', JStr ''usdc'')], pr_globals = []\<rparr>"
    by code_simp
  from command_line_values_fit [OF example_registered2 this, of "hd vaultParams"]
  show ?thesis unfolding c by (simp add: v vaultParams_def)
qed

text \<open>
  The parameters that no option can give: \<open>--admin\<close> of \<open>state set-redemption-admin\<close> is stored under
  another name than its parameter, and two commands do not declare the option of a parameter.
\<close>

definition unreachable_table :: "(string \<times> string \<times> string list) list" where
  "unreachable_table =
     [(''state'', ''set-redemption-admin'', [''redemptionAdmin'']),
      (''mint-authority'', ''to-boss'', [''amount'']),
      (''redemption'', ''list-requests'', [''redeemer''])]"

lemma unreachable_in_table:
  "List.map (\<lambda>c. (c_group c, c_name c, unreachable_params c))
     (List.filter (\<lambda>c. unreachable_params c \<noteq> []) cli_commands) = unreachable_table"
  by code_simp

lemma unreachable_never_given:
  assumes "c \<in> set cli_commands" and "commander_ok c p" and "n \<in> set (unreachable_params c)"
  shows "fld (c_opts c p) n = JUndefined"
proof (rule ccontr)
  assume *: "fld (c_opts c p) n \<noteq> JUndefined"
  from assms(3) obtain q where q: "q \<in> set (c_params c)" "p_name q = n" "n \<notin> set (given_keys c)"
    by (auto simp: unreachable_params_def)
  then have "n \<notin> set global_keys" using param_not_global [OF assms(1)] by blast
  from opts_value [OF assms(1,2) * this] have "n \<in> set (given_keys c)"
    by (auto simp: given_keys_def)
  with q(3) show False by blast
qed

text \<open>
  A parameter of a registered command can be given on the command line, except the three of the
  table; those are never given, so the two that are required are asked for on every run.
\<close>

lemma unreachable_parameters:
  assumes "c \<in> set cli_commands" and "commander_ok c p" and "q \<in> set (c_params c)"
  shows "p_name q \<in> set (given_keys c) \<or>
    ((c_group c, c_name c, [p_name q]) \<in> set unreachable_table \<and> fld (c_opts c p) (p_name q) = JUndefined)"
proof (cases "p_name q \<in> set (given_keys c)")
  case False
  then have u: "p_name q \<in> set (unreachable_params c)"
    using assms(3) by (auto simp: unreachable_params_def)
  then have "(c_group c, c_name c, unreachable_params c) \<in>
      set (List.map (\<lambda>c. (c_group c, c_name c, unreachable_params c))
        (List.filter (\<lambda>c. unreachable_params c \<noteq> []) cli_commands))"
    using assms(1) by auto
  then have "(c_group c, c_name c, unreachable_params c) \<in> set unreachable_table"
    unfolding unreachable_in_table .
  with u have "(c_group c, c_name c, [p_name q]) \<in> set unreachable_table"
    by (auto simp: unreachable_table_def)
  then show ?thesis using unreachable_never_given [OF assms(1,2) u] by blast
qed simp

lemma unreachable_parameters_witness:
  "fld (c_opts (cli_commands ! 10)
     \<lparr>pr_options = [(''admin'', JStr ''45YnzauhsBM8CpUz96Djf8UG5vqq2Dua62wuW9H3jaJ5'')], pr_globals = []\<rparr>)
     ''redemptionAdmin'' = JUndefined"
proof -
  have c: "c_params (cli_commands ! 10) = redemptionAdminParams"
    "given_keys (cli_commands ! 10) = [''admin'']"
    by (simp add: cli_commands_def register_defs command_def) code_simp
  have "commander_ok (cli_commands ! 10)
     \<lparr>pr_options = [(''admin'', JStr ''45YnzauhsBM8CpUz96Djf8UG5vqq2Dua62wuW9H3jaJ5'')], pr_globals = []\<rparr>"
    by code_simp
  from unreachable_parameters [OF example_registered2 this, of "hd redemptionAdminParams"]
  show ?thesis by (simp add: c) (simp add: redemptionAdminParams_def param_def)
qed

section \<open>Values that the command line cannot choose\<close>

lemma permissionless_param:
  "q \<in> set makeOfferParams \<Longrightarrow> p_name q = ''permissionless'' \<Longrightarrow>
     p_type q = BooleanParam \<and> transform q = None \<and> \<not> required q \<and> p_default q = DefaultValue (JBool True)"
  by (auto simp: makeOfferParams_def tokenPairParams_def param_def)

text \<open>
  \<open>offer make\<close> always creates an offer with the permissionless flow: the flag can only be given, and
  when it is not given the default is the same.
\<close>

lemma made_offers_are_permissionless:
  assumes "find_command ''offer'' ''make'' = Some c" and "commander_ok c p"
  shows "io_res (\<lambda>r. fld r ''permissionless'' = JBool True)
           (promptForParams E (c_params c) (c_opts c p) (fld (c_opts c p) ''noInteractive''))"
proof -
  have c: "c = cli_commands ! 18"
    using assms(1) by (simp add: find_command_def cli_commands_def register_defs command_def)
  have ps: "c_params c = makeOfferParams" "c_group c = ''offer''"
    unfolding c by (simp_all add: cli_commands_def register_defs command_def)
  have reg: "c \<in> set cli_commands" unfolding c by (rule example_registered2) simp
  have opts: "list_all (\<lambda>o'. option_key (fst o') = ''permissionless'' \<longrightarrow> \<not> takes_value (fst o') \<and> \<not> negated_flag (fst o'))
      (c_options c)"
    unfolding c by code_simp
  have ng: "''permissionless'' \<notin> set global_keys" by code_simp
  have v: "fld (c_opts c p) ''permissionless'' \<in> {JUndefined, JBool True}"
  proof (cases "fld (c_opts c p) ''permissionless'' = JUndefined")
    case False
    from opts_value [OF reg assms(2) False ng] opts show ?thesis
      by (auto simp: ps list_all_iff option_value_def split: if_splits)
  qed simp
  have "io_res (\<lambda>x. p_name q = ''permissionless'' \<longrightarrow> x = JBool True)
      (param_value E q (c_opts c p) (js_truthy (fld (c_opts c p) ''noInteractive'')))"
    if q: "q \<in> set (c_params c)" for q
  proof (cases "p_name q = ''permissionless''")
    case True
    with permissionless_param [of q] q have "p_type q = BooleanParam" "transform q = None" "\<not> required q"
      "p_default q = DefaultValue (JBool True)" by (auto simp: ps)
    with True v show ?thesis
      by (auto simp: param_value_def transformValue_def io_res_ret)
  qed (simp add: io_res_True)
  moreover have "distinct (List.map p_name (c_params c))"
    using registered_table [OF reg] by (simp add: table_ok_def)
  ultimately have "io_res (\<lambda>r. \<forall>q\<in>set (c_params c). p_name q = ''permissionless'' \<longrightarrow> fld r (p_name q) = JBool True)
      (promptForParams E (c_params c) (c_opts c p) (fld (c_opts c p) ''noInteractive''))"
    by (rule params_values)
  then show ?thesis
    by (rule io_res_mono) (auto simp: ps makeOfferParams_def tokenPairParams_def param_def)
qed

lemma made_offers_are_permissionless_witness:
  "io_res (\<lambda>r. fld r ''permissionless'' = JBool True)
     (promptForParams (demo ''usdc'' [] True) makeOfferParams (command_opts \<lparr>pr_options = [], pr_globals = []\<rparr>) JUndefined)"
proof -
  have f: "find_command ''offer'' ''make'' = Some (cli_commands ! 18)"
    by (simp add: find_command_def cli_commands_def register_defs command_def)
  have c: "c_params (cli_commands ! 18) = makeOfferParams" "c_opts (cli_commands ! 18) = command_opts"
    by (simp_all add: cli_commands_def register_defs command_def)
  have "commander_ok (cli_commands ! 18) \<lparr>pr_options = [], pr_globals = []\<rparr>" by code_simp
  moreover have "fld (command_opts \<lparr>pr_options = [], pr_globals = []\<rparr>) ''noInteractive'' = JUndefined" by code_simp
  ultimately show ?thesis
    using made_offers_are_permissionless [OF f, of "\<lparr>pr_options = [], pr_globals = []\<rparr>" "demo ''usdc'' [] True"]
    by (simp add: c)
qed

end
