(* ===== verification/Number_Props.thy ===== *)
theory Number_Props
  imports Prompt_Props
begin

text \<open>
  What the tool does with numbers: reading them from the command line, whole units of a quotient,
  and the decimals of the market values, with the rounding of doubles accounted for.
\<close>

section \<open>Digits\<close>

lemma digit_code: "d < 10 \<Longrightarrow> of_char (digit d) = (48 + d :: nat)"
proof -
  have "\<forall>d\<in>{..<10}. of_char (digit d) = (48 + d :: nat)" by code_simp
  then show "d < 10 \<Longrightarrow> of_char (digit d) = (48 + d :: nat)" by simp
qed

lemma digit_is_digit: "d < 10 \<Longrightarrow> is_digit (digit d)"
  by (simp add: is_digit_def digit_code)

lemma digits_val_snoc: "digits_val (ds @ [c]) = 10 * digits_val ds + (of_char c - 48)"
  by (simp add: digits_val_def)

lemma nat_str_digits: "list_all is_digit (nat_str n) \<and> nat_str n \<noteq> [] \<and> digits_val (nat_str n) = n"
proof (induction n rule: nat_str.induct)
  case (1 n)
  show ?case
  proof (cases "n < 10")
    case True
    then show ?thesis
      by (simp add: nat_str.simps [of n] digit_is_digit digits_val_def digit_code)
  next
    case False
    with "1.IH" have "list_all is_digit (nat_str (n div 10)) \<and> nat_str (n div 10) \<noteq> []
        \<and> digits_val (nat_str (n div 10)) = n div 10" by simp
    then show ?thesis
      using False by (simp add: nat_str.simps [of n] digit_is_digit digits_val_snoc digit_code)
  qed
qed

lemma digit_plain: "is_digit c \<Longrightarrow> \<not> is_ws c \<and> c \<noteq> CHR ''-'' \<and> c \<noteq> CHR ''+''"
  by (auto simp: is_digit_def is_ws_def)

lemma parseInt10_digits:
  assumes "list_all is_digit s" and "s \<noteq> []"
  shows "parseInt10 s = to_double (of_nat (digits_val s))"
proof -
  obtain c cs where s: "s = c # cs" using assms(2) by (cases s) auto
  then have c: "is_digit c" "\<forall>x\<in>set cs. is_digit x" using assms(1) by (auto simp: list_all_iff)
  have tw: "takeWhile is_digit cs = cs" using c(2) by (simp add: takeWhile_eq_all_conv)
  show ?thesis using c(1) digit_plain [OF c(1)] by (simp add: parseInt10_def s tw)
qed

text \<open>Reading back a printed number: exact up to \<open>2 ^ 53\<close>.\<close>

lemma parseInt10_nat_str: "n \<le> 2 ^ 53 \<Longrightarrow> parseInt10 (nat_str n) = Fin (of_nat n)"
proof -
  assume n: "n \<le> 2 ^ 53"
  have "parseInt10 (nat_str n) = to_double (of_nat n)"
    using parseInt10_digits [of "nat_str n"] nat_str_digits [of n] by simp
  also have "\<dots> = to_double (of_int (int n))" by simp
  also have "\<dots> = Fin (of_int (int n))" by (rule to_double_int) (use n in simp)
  finally show ?thesis by simp
qed

text \<open>The types whose command line text is read by \<open>parseInt\<close>.\<close>

definition numeric_types :: "ParamType list" where
  "numeric_types = [AmountParam, BasisPointsParam, AprParam, DurationParam]"

text \<open>
  A number given as an option arrives unchanged, up to \<open>2 ^ 53\<close>, for every numeric parameter and
  without the validator of the prompt: a fee above 10000 basis points is passed on, although the prompt
  would refuse it.
\<close>

lemma number_options_arrive_unchecked:
  assumes "c \<in> set cli_commands" and "q \<in> set (c_params c)" and "p_type q \<in> set numeric_types"
    and "fld vs (p_name q) = JStr (nat_str n)" and "n \<le> 2 ^ 53"
  shows "param_value E q vs b tr = (Inr (JNum (Fin (of_nat n))), tr)
     \<and> (validateBasisPoints (JNum (Fin (of_nat n))) = Valid \<longleftrightarrow> n \<le> 10000)"
proof
  have "transform q = None"
    using registered_param [OF assms(1,2)] assms(3) by (auto simp: param_ok_def numeric_types_def)
  then show "param_value E q vs b tr = (Inr (JNum (Fin (of_nat n))), tr)"
    using assms(3-5)
    by (auto simp: param_value_def transformValue_def numeric_types_def parseInt10_nat_str ret_def)
  have "(of_nat n :: rat) \<le> 10000 \<longleftrightarrow> n \<le> 10000"
    by (metis of_nat_le_iff of_nat_numeral)
  moreover have "(of_nat n :: rat) \<in> \<int>" by simp
  ultimately show "validateBasisPoints (JNum (Fin (of_nat n))) = Valid \<longleftrightarrow> n \<le> 10000"
    by (auto simp: validateBasisPoints_def no_number_def)
qed

lemma number_options_arrive_unchecked_witness:
  "param_value (demo [] [] True) (updateFeeParams ! 2) [(''fee'', JStr ''99999'')] False [] = (Inr (jnum 99999), [])
   \<and> validateBasisPoints (jnum 99999) \<noteq> Valid"
proof -
  have c: "c_params (cli_commands ! 23) = updateFeeParams"
    by (simp add: cli_commands_def register_defs command_def)
  have q: "updateFeeParams ! 2 \<in> set updateFeeParams" "p_type (updateFeeParams ! 2) \<in> set numeric_types"
    "p_name (updateFeeParams ! 2) = ''fee''"
    by (simp_all add: updateFeeParams_def tokenPairParams_def param_def numeric_types_def)
  have n: "nat_str 99999 = ''99999''" by (simp add: nat_str.simps digit_def)
  show ?thesis
    using number_options_arrive_unchecked [OF example_registered2 [of 23], of "updateFeeParams ! 2"
        "[(''fee'', JStr ''99999'')]" 99999 "demo [] [] True" False "[]"]
    by (simp add: c q n)
qed

section \<open>Quotients of whole numbers\<close>

lemma quotient_double:
  assumes "0 < d" and "d \<le> 2 ^ 60" and "n < 2 ^ 53"
  obtains y where "js_div (Fin (of_nat n)) (Fin (of_nat d)) = Fin y"
    and "\<bar>y - of_nat n / of_nat d\<bar> \<le> of_nat n / of_nat d / 2 ^ 53"
proof -
  define x :: rat where "x = of_nat n / of_nat d"
  have d: "(0::rat) < of_nat d" "(of_nat d :: rat) \<le> 2 ^ 60" using assms(1,2) of_nat_le_iff [of d "2 ^ 60", where 'a = rat] by simp_all
  have n: "(of_nat n :: rat) < 2 ^ 53" using assms(3) by (metis of_nat_less_iff of_nat_numeral of_nat_power)
  have x: "0 \<le> x" "x \<le> of_nat n"
    using d assms(1) by (simp_all add: x_def divide_le_eq mult_le_cancel_left1)
  have "\<bar>x\<bar> < pow2 1000" using x n by (simp add: pow2_def)
  then obtain y where y: "to_double x = Fin y" using to_double_finite by blast
  have "pow2 (-1022) \<le> \<bar>x\<bar>" if "x \<noteq> 0"
  proof -
    from that have "1 \<le> (of_nat n :: rat)" by (cases n) (auto simp: x_def)
    then have "1 / 2 ^ 60 \<le> x" unfolding x_def using d by (intro frac_le) auto
    moreover have "pow2 (-1022) \<le> 1 / 2 ^ 60" by (simp add: pow2_def)
    ultimately show ?thesis using x by simp
  qed
  from to_double_error [OF y this] have "\<bar>y - x\<bar> \<le> x / 2 ^ 53" using x by simp
  with y that [of y] d show thesis by (simp add: x_def)
qed

lemma quotient_floor:
  assumes "0 < d" and "d \<le> 2 ^ 60" and "n < 2 ^ 53"
  shows "js_floor (js_div (Fin (of_nat n)) (Fin (of_nat d))) = Fin (of_nat (n div d))"
proof -
  obtain y where y: "js_div (Fin (of_nat n)) (Fin (of_nat d)) = Fin y"
    "\<bar>y - of_nat n / of_nat d\<bar> \<le> of_nat n / of_nat d / 2 ^ 53"
    using quotient_double [OF assms] by blast
  define q r where "q = n div d" and "r = n mod d"
  have d: "(0::rat) < of_nat d" using assms(1) by simp
  have "(of_nat n :: rat) = of_nat q * of_nat d + of_nat r"
    unfolding q_def r_def by (metis div_mult_mod_eq of_nat_add of_nat_mult)
  then have x: "(of_nat n :: rat) / of_nat d = of_nat q + of_nat r / of_nat d"
    using d by (simp add: add_divide_distrib)
  have "\<lfloor>y\<rfloor> = int q"
  proof (cases "r = 0")
    case True
    have "n div d \<le> n" by (rule div_le_dividend)
    then have "q \<le> 2 ^ 53" using assms(3) unfolding q_def by linarith
    then have "\<bar>int q\<bar> \<le> 2 ^ 53" by simp
    from to_double_int [OF this] have "Fin y = Fin (of_nat q)"
      using y(1) d x True by simp
    then show ?thesis by simp
  next
    case False
    have n: "(of_nat n :: rat) < 2 ^ 53" using assms(3) by (metis of_nat_less_iff of_nat_numeral of_nat_power)
    have "of_nat n / of_nat d / 2 ^ 53 < 1 / (of_nat d :: rat)"
      using n d by (simp add: divide_less_eq)
    then have e: "\<bar>y - (of_nat q + of_nat r / of_nat d)\<bar> < 1 / of_nat d" using y(2) x by simp
    have "1 \<le> r" using False by simp
    moreover have "r + 1 \<le> d" using mod_less_divisor [OF assms(1), of n] unfolding r_def by simp
    ultimately have "(1::rat) \<le> of_nat r" "(of_nat r :: rat) + 1 \<le> of_nat d"
      by (simp, metis of_nat_1 of_nat_add of_nat_le_iff)
    then have "1 / of_nat d \<le> (of_nat r :: rat) / of_nat d" "(of_nat r :: rat) / of_nat d + 1 / of_nat d \<le> 1"
      using d by (simp_all add: divide_right_mono flip: add_divide_distrib)
    with e have "of_nat q < y" "y < of_nat q + 1" by linarith+
    then show ?thesis by (intro floor_unique) simp_all
  qed
  then show ?thesis unfolding y(1) by (simp add: q_def)
qed

text \<open>
  Durations of pricing vectors are shown in the largest fitting unit, rounded down, for every number
  of seconds below \<open>2 ^ 53\<close>; the rounding of the division never shows.
\<close>

lemma durations_are_whole_units:
  assumes "n < 2 ^ 53"
  shows "formatDuration (Fin (of_nat n)) =
    (if n < 60 then num_str (Fin (of_nat n)) @ ''s''
     else if n < 3600 then num_str (Fin (of_nat (n div 60))) @ ''m''
     else if n < 86400 then num_str (Fin (of_nat (n div 3600))) @ ''h''
     else num_str (Fin (of_nat (n div 86400))) @ ''d'')"
proof -
  have lt: "(of_nat n :: rat) < 60 \<longleftrightarrow> n < 60" "(of_nat n :: rat) < 3600 \<longleftrightarrow> n < 3600"
    "(of_nat n :: rat) < 86400 \<longleftrightarrow> n < 86400"
    by (metis of_nat_less_iff of_nat_numeral)+
  show ?thesis
    using quotient_floor [of 60 n] quotient_floor [of 3600 n] quotient_floor [of 86400 n] assms
    unfolding formatDuration_def by (simp add: lt del: js_div.simps)
qed

lemma durations_are_whole_units_witness:
  "formatDuration (Fin 172799) = num_str (Fin 1) @ ''d'' \<and> formatDuration (Fin 59) = num_str (Fin 59) @ ''s''"
  using durations_are_whole_units [of 172799] durations_are_whole_units [of 59] by simp

section \<open>Fixed decimals\<close>

lemma pad_left_length: "length (nat_str n) \<le> w \<Longrightarrow> length (pad_left w (nat_str n)) = w"
  by (simp add: pad_left_def)

lemma nat_str_small: "n < 10 \<Longrightarrow> nat_str n = [digit n]"
  and nat_str_large: "\<not> n < 10 \<Longrightarrow> nat_str n = nat_str (n div 10) @ [digit (n mod 10)]"
  by (simp_all add: nat_str.simps [of n])

lemma nat_str_length: "n < 10 ^ Suc f \<Longrightarrow> length (nat_str n) \<le> Suc f"
proof (induction f arbitrary: n)
  case (Suc f)
  show ?case
  proof (cases "n < 10")
    case False
    have "n div 10 < 10 ^ Suc f" using Suc.prems by (simp add: less_mult_imp_div_less)
    from Suc.IH [OF this] show ?thesis using False by (simp add: nat_str_large)
  qed (simp add: nat_str_small)
qed (simp add: nat_str_small)

lemma pad_left_snoc:
  "pad_left (Suc (Suc f)) (nat_str m) = pad_left (Suc f) (nat_str (m div 10)) @ [digit (m mod 10)]"
proof (cases "m < 10")
  case True
  have "digit 0 = CHR ''0''" by (simp add: digit_def)
  then show ?thesis using True by (simp add: pad_left_def nat_str_small replicate_append_same)
qed (simp add: pad_left_def nat_str_large)

lemma nat_str_split:
  "10 ^ Suc f \<le> n \<Longrightarrow> nat_str n = nat_str (n div 10 ^ Suc f) @ pad_left (Suc f) (nat_str (n mod 10 ^ Suc f))"
proof (induction f arbitrary: n)
  case 0
  then show ?case by (simp add: nat_str_large [of n] nat_str_small pad_left_def)
next
  case (Suc f)
  define m where "m = n mod 10 ^ Suc (Suc f)"
  have "10 ^ Suc f \<le> n div 10" using Suc.prems by (simp add: less_eq_div_iff_mult_less_eq mult.commute)
  moreover have "n div 10 div 10 ^ Suc f = n div 10 ^ Suc (Suc f)"
    by (simp only: power_Suc [of 10 "Suc f"] div_mult2_eq)
  ultimately have IH: "nat_str (n div 10) = nat_str (n div 10 ^ Suc (Suc f))
      @ pad_left (Suc f) (nat_str ((n div 10) mod 10 ^ Suc f))"
    using Suc.IH [of "n div 10"] by metis
  have m: "m div 10 = (n div 10) mod 10 ^ Suc f" "m mod 10 = n mod 10"
    using mod_mult2_eq [of n 10 "10 ^ Suc f"] unfolding m_def power_Suc [of 10 "Suc f"]
    by (simp_all only:) simp_all
  have "10 * 1 \<le> (10::nat) * 10 ^ Suc f" by (intro mult_le_mono2) simp
  then have "\<not> n < 10" using Suc.prems unfolding power_Suc [of 10 "Suc f"] by linarith
  then have "nat_str n = nat_str (n div 10 ^ Suc (Suc f))
      @ (pad_left (Suc f) (nat_str (m div 10)) @ [digit (m mod 10)])"
    by (simp add: nat_str_large IH m)
  then show ?case unfolding pad_left_snoc [symmetric] m_def .
qed

text \<open>The decimal text of \<open>n\<close> units of \<open>10 ^ (- f)\<close>.\<close>

definition decimal_text :: "nat \<Rightarrow> nat \<Rightarrow> string" where
  "decimal_text f n = nat_str (n div 10 ^ f) @ ''.'' @ pad_left f (nat_str (n mod 10 ^ f))"

lemma fixed_digits_decimal: "fixed_digits (Suc f) n = decimal_text (Suc f) n"
proof (cases "n < 10 ^ Suc f")
  case True
  have l: "length (nat_str n) \<le> Suc f" by (rule nat_str_length [OF True])
  have "n div 10 ^ Suc f = 0" "n mod 10 ^ Suc f = n" using True by simp_all
  moreover have "pad_left (Suc (Suc f)) (nat_str n) = CHR ''0'' # pad_left (Suc f) (nat_str n)"
    using l by (simp add: pad_left_def Suc_diff_le)
  moreover have "nat_str 0 = ''0''" by (simp add: nat_str_small digit_def)
  ultimately show ?thesis
    using pad_left_length [OF l] by (simp add: fixed_digits_def decimal_text_def Let_def)
next
  case False
  define a b where "a = nat_str (n div 10 ^ Suc f)" and "b = pad_left (Suc f) (nat_str (n mod 10 ^ Suc f))"
  have b: "length b = Suc f"
    unfolding b_def by (rule pad_left_length, rule nat_str_length) simp
  have n: "nat_str n = a @ b" unfolding a_def b_def by (rule nat_str_split) (use False in simp)
  have "a \<noteq> []" unfolding a_def using nat_str_digits by blast
  then have "pad_left (Suc (Suc f)) (nat_str n) = a @ b"
    using b unfolding n pad_left_def by (cases a) simp_all
  moreover have "fixed_digits (Suc f) n =
      (let m = pad_left (Suc (Suc f)) (nat_str n); k = length m - Suc f in take k m @ ''.'' @ drop k m)"
    by (simp add: fixed_digits_def)
  ultimately show ?thesis
    using b unfolding decimal_text_def a_def [symmetric] b_def [symmetric] by (simp add: Let_def)
qed

lemma to_fixed_quotient:
  assumes "n < 2 ^ 52" and "f < 18"
  shows "to_fixed (Suc f) (js_div (Fin (of_nat n)) (Fin (10 ^ Suc f))) = decimal_text (Suc f) n"
proof -
  define d :: nat where "d = 10 ^ Suc f"
  have dr: "(10 :: rat) ^ Suc f = of_nat d" by (simp add: d_def)
  have "d \<le> 10 ^ 18" unfolding d_def using assms(2) by (intro power_increasing) auto
  then have "0 < d" "d \<le> 2 ^ 60" by (simp add: d_def, simp)
  moreover have "n < 2 ^ 53" using assms(1) by simp
  ultimately obtain y where y: "js_div (Fin (of_nat n)) (Fin (of_nat d)) = Fin y"
    "\<bar>y - of_nat n / of_nat d\<bar> \<le> of_nat n / of_nat d / 2 ^ 53"
    using quotient_double by blast
  have d: "(0::rat) < of_nat d" using \<open>0 < d\<close> by simp
  have n: "(of_nat n :: rat) < 2 ^ 52" using assms(1) of_nat_less_iff [of n "2 ^ 52", where 'a = rat] by simp
  have "of_nat n / of_nat d / 2 ^ 53 \<le> of_nat n / (of_nat d :: rat)"
    using d by (simp add: divide_le_eq mult_le_cancel_left1)
  with y(2) have y0: "0 \<le> y" by linarith
  have nd: "of_nat n / of_nat d \<le> (of_nat n :: rat)"
    using d \<open>0 < d\<close> by (simp add: divide_le_eq mult_le_cancel_left1)
  with y(2) have y1: "y < 10 ^ 21"
  proof -
    have "y \<le> 2 * (of_nat n / of_nat d)"
      using y(2) \<open>of_nat n / of_nat d / 2 ^ 53 \<le> of_nat n / (of_nat d :: rat)\<close> by linarith
    with nd n have "y < 2 * 2 ^ 52" by linarith
    then show ?thesis by simp
  qed
  have "\<bar>y * of_nat d - of_nat n\<bar> = \<bar>y - of_nat n / of_nat d\<bar> * of_nat d"
  proof -
    have "y * of_nat d - of_nat n = (y - of_nat n / of_nat d) * of_nat d" using d by (simp add: left_diff_distrib)
    then show ?thesis by (simp only: abs_mult abs_of_nat)
  qed
  also have "\<dots> \<le> of_nat n / of_nat d / 2 ^ 53 * of_nat d" by (rule mult_right_mono [OF y(2)]) simp
  also have "\<dots> < 1 / 2" using n d by simp
  finally have "of_nat n \<le> y * of_nat d + 1 / 2" "y * of_nat d + 1 / 2 < of_nat n + 1" by linarith+
  then have "\<lfloor>y * of_nat d + 1 / 2\<rfloor> = int n" by (intro floor_unique) simp_all
  then show ?thesis
    using y0 y1 unfolding dr by (simp add: y(1) dr fixed_digits_decimal del: js_div.simps power_Suc)
qed

text \<open>
  C40: the NAV is shown with its nine decimals digit by digit, and the APY with its four, in both output
  modes, for every raw value below \<open>2 ^ 52\<close>: the division of doubles loses nothing.
\<close>

theorem market_decimals_are_exact:
  assumes "n < 2 ^ 52"
  shows "printNav (Fin (of_nat n)) json tr = (Inr (), tr @
      (if js_truthy json then
         [Log (json_stringify 0 (JsonObj [(''nav'', JsonNum (Fin (of_nat n))), (''navDecimal'', JsonStr (decimal_text 9 n))]))]
       else [Log (newline @ ''=== NAV (Net Asset Value) ==='' @ newline),
             Log (''  Raw Value:     '' @ num_str (Fin (of_nat n))),
             Log (''  Decimal:       '' @ decimal_text 9 n),
             Log (''  Display:       $'' @ to_fixed 4 (parseFloat (decimal_text 9 n)))]))
    \<and> printApy (Fin (of_nat n)) json tr = (Inr (), tr @
      (if js_truthy json then
         [Log (json_stringify 0 (JsonObj [(''apy'', JsonNum (Fin (of_nat n))),
            (''apyPercent'', JsonNum (parseFloat (decimal_text 4 n)))]))]
       else [Log (newline @ ''=== APY ==='' @ newline),
             Log (''  Raw Value:     '' @ num_str (Fin (of_nat n))),
             Log (''  Percentage:    '' @ decimal_text 4 n @ ''%'')]))"
proof -
  have "to_fixed 9 (js_div (Fin (of_nat n)) (Fin 1000000000)) = decimal_text 9 n"
    "to_fixed 4 (js_div (Fin (of_nat n)) (Fin 10000)) = decimal_text 4 n"
    using to_fixed_quotient [OF assms, of 8] to_fixed_quotient [OF assms, of 3]
    by (simp_all add: eval_nat_numeral)
  then show ?thesis
    unfolding printNav_def printNavUnder_def printApy_def json_line_def Let_def
    by (simp only: log_line_run tell_all_run split: if_split) simp
qed

theorem market_decimals_are_exact_witness:
  "snd (printNav (Fin 1063912345) JUndefined []) ! 2 = Log ''  Decimal:       1.063912345''"
proof -
  have "decimal_text 9 1063912345 = ''1.063912345''"
    by (simp add: decimal_text_def nat_str.simps digit_def pad_left_def)
  then show ?thesis
    using market_decimals_are_exact [of 1063912345 JUndefined "[]"] by simp
qed

end
