(* ===== verification/Command_Props.thy ===== *)
theory Command_Props
  imports Demo_Env
begin

text \<open>
  The promises that hold for every registered command at once, by the contracts of the commands, and
  for single commands where the source promises more.
\<close>

section \<open>What a command may send\<close>

text \<open>The methods of the program that a command is for; the empty list for the commands that only read.\<close>

type_synonym method_row = "string \<times> string \<times> string list"

definition state_methods :: "method_row list" where
  "state_methods =
     [(''state'', ''get'', []),
      (''state'', ''propose-boss'', [''proposeBoss'']),
      (''state'', ''accept-boss'', [''acceptBoss'']),
      (''state'', ''add-admin'', [''addAdmin'']),
      (''state'', ''remove-admin'', [''removeAdmin'']),
      (''state'', ''add-approver'', [''addApprover'']),
      (''state'', ''remove-approver'', [''removeApprover'']),
      (''state'', ''set-onyc-mint'', [''setOnycMint'']),
      (''state'', ''kill-switch'', [''setKillSwitch'']),
      (''state'', ''max-supply'', [''configureMaxSupply'']),
      (''state'', ''set-redemption-admin'', [''setRedemptionAdmin'']),
      (''state'', ''clear-admins'', [''clearAdmins'']),
      (''state'', ''close'', [''closeState''])]"

definition market_methods :: "method_row list" where
  "market_methods =
     [(''market'', ''nav'', []),
      (''market'', ''nav-adjustment'', []),
      (''market'', ''apy'', []),
      (''market'', ''tvl'', []),
      (''market'', ''supply'', [])]"

definition offer_methods :: "method_row list" where
  "offer_methods =
     [(''offer'', ''make'', [''makeOffer'']),
      (''offer'', ''fetch'', []),
      (''offer'', ''take'', [''takeOffer'', ''takeOfferPermissionless'']),
      (''offer'', ''add-vector'', [''addOfferVector'']),
      (''offer'', ''delete-vector'', [''deleteOfferVector'']),
      (''offer'', ''update-fee'', [''updateOfferFee'']),
      (''offer'', ''delete-all-vectors'', [''deleteAllOfferVectors''])]"

definition vault_methods :: "method_row list" where
  "vault_methods =
     [(''vault'', ''deposit'', [''offerVaultDeposit'']),
      (''vault'', ''withdraw'', [''offerVaultWithdraw'']),
      (''vault'', ''redemption-deposit'', [''redemptionVaultDeposit'']),
      (''vault'', ''redemption-withdraw'', [''redemptionVaultWithdraw''])]"

definition mint_methods :: "method_row list" where
  "mint_methods =
     [(''mint-authority'', ''mint-to'', [''mintTo'']),
      (''mint-authority'', ''to-program'', [''transferMintAuthorityToProgram'']),
      (''mint-authority'', ''to-boss'', [''transferMintAuthorityToBoss''])]"

definition redemption_methods :: "method_row list" where
  "redemption_methods =
     [(''redemption'', ''make-offer'', [''makeRedemptionOffer'']),
      (''redemption'', ''fetch-offer'', []),
      (''redemption'', ''update-fee'', [''updateRedemptionOfferFee'']),
      (''redemption'', ''create-request'', [''createRedemptionRequest'']),
      (''redemption'', ''fetch-request'', []),
      (''redemption'', ''fulfill'', [''fulfillRedemptionRequest'']),
      (''redemption'', ''cancel'', [''cancelRedemptionRequest'']),
      (''redemption'', ''list-requests'', [])]"

definition init_methods :: "method_row list" where
  "init_methods =
     [(''init'', ''program'', [''initialize'']),
      (''init'', ''permissionless'', [''initializePermissionlessAuthority''])]"

definition command_methods :: "method_row list" where
  "command_methods = state_methods @ market_methods @ offer_methods @ vault_methods @ mint_methods @ redemption_methods @ init_methods"

text \<open>Exactly one call of one of the methods, after at most two created token accounts.\<close>

definition own_tx :: "string list \<Rightarrow> transaction \<Rightarrow> bool" where
  "own_tx ms tx \<longleftrightarrow> (\<exists>accounts c. tx_ixs tx = accounts @ [AnchorIx c] \<and> mc_method c \<in> set ms
     \<and> length accounts \<le> 2 \<and> (\<forall>ix\<in>set accounts. \<exists>ow. creates_account_of ow ix))"

lemma own_tx_one_call: "one_call m (tx_ixs tx) \<Longrightarrow> m \<in> set ms \<Longrightarrow> own_tx ms tx"
  by (auto simp: one_call_def own_tx_def intro!: exI [of _ "[]"])

lemma own_tx_boss: "boss_tx E m a tx \<Longrightarrow> m \<in> set ms \<Longrightarrow> own_tx ms tx"
  by (rule own_tx_one_call, rule boss_tx_one_call)

lemma own_tx_take: "take_tx tx \<Longrightarrow> own_tx [''takeOffer'', ''takeOfferPermissionless''] tx"
  by (auto simp: take_tx_def take_call_def own_tx_def intro!: exI [of _ "[]"])

lemma own_tx_make: "make_tx tx \<Longrightarrow> own_tx [''makeOffer''] tx"
  by (auto simp: make_tx_def make_call_def own_tx_def list_all_iff)

lemma own_tx_boss_ixs: "boss_ixs m a b (tx_ixs tx) \<Longrightarrow> m \<in> set ms \<Longrightarrow> own_tx ms tx"
  by (rule own_tx_one_call, rule boss_ixs_one_call)

lemma own_tx_redeemer: "redeemer_tx tx \<Longrightarrow> own_tx [''createRedemptionRequest''] tx"
  by (auto simp: redeemer_tx_def intro: own_tx_boss_ixs)

lemma own_tx_fulfill: "fulfill_call (tx_ixs tx) \<Longrightarrow> own_tx [''fulfillRedemptionRequest''] tx"
  by (auto simp: fulfill_call_def intro: own_tx_boss_ixs)

lemma own_tx_init: "init_tx E tx \<Longrightarrow> own_tx [''initialize''] tx"
  by (auto simp: init_tx_def intro: own_tx_boss_ixs)

lemmas boss_contracts = ProposeBoss_contract AddAdmin_contract RemoveAdmin_contract ClearAdmins_contract
  AddApprover_contract RemoveApprover_contract SetOnycMint_contract SetRedemptionAdmin_contract
  MaxSupply_contract KillSwitch_contract Close_contract AddVector_contract DeleteVector_contract
  DeleteAllVectors_contract UpdateFee_contract Deposit_contract Withdraw_contract
  RedemptionDeposit_contract RedemptionWithdraw_contract MakeOffer_contract
  RedemptionUpdateFee_contract Cancel_contract InitPermissionless_contract
  MintAuthorityToBoss_contract MintAuthorityToProgram_contract

lemmas reading_contracts = Get_contract Nav_contract NavAdjustment_contract Apy_contract Tvl_contract
  Supply_contract Fetch_contract FetchOffer_contract FetchRequest_contract ListRequests_contract

lemmas own_contracts = boss_contracts [THEN contract_mono, OF own_tx_boss]
  AcceptBoss_contract [THEN contract_mono, OF own_tx_one_call]
  MintTo_contract [THEN contract_mono, OF own_tx_one_call]
  Take_contract [THEN contract_mono, OF own_tx_take] Make_contract [THEN contract_mono, OF own_tx_make]
  CreateRequest_contract [THEN contract_mono, OF own_tx_redeemer]
  Fulfill_contract [THEN contract_mono, OF own_tx_fulfill]
  InitProgram_contract [THEN contract_mono, OF own_tx_init]

text \<open>A row of the table and a registered command belong together.\<close>

definition row_ok :: "env \<Rightarrow> jsobj \<Rightarrow> cli_command \<Rightarrow> method_row \<Rightarrow> bool" where
  "row_ok E opts c row \<longleftrightarrow> c_group c = fst row \<and> c_name c = fst (snd row) \<and>
     contract (shows_only opts) (own_tx (snd (snd row))) (c_execute c E opts)"

lemma row_okI:
  "contract (shows_only opts) (own_tx ms) (ex E opts) \<Longrightarrow> row_ok E opts (command g n d os ps f ex) (g, n, ms)"
  by (simp add: row_ok_def command_def)

lemma state_methods_ok: "list_all2 (row_ok E opts) registerStateCommands state_methods"
  unfolding registerStateCommands_def state_methods_def
  by (intro list_all2_Cons [THEN iffD2, OF conjI] row_okI) (simp_all add: own_contracts reading_contracts)

lemma market_methods_ok: "list_all2 (row_ok E opts) registerMarketCommands market_methods"
  unfolding registerMarketCommands_def market_methods_def
  by (intro list_all2_Cons [THEN iffD2, OF conjI] row_okI) (simp_all add: own_contracts reading_contracts)

lemma offer_methods_ok: "list_all2 (row_ok E opts) registerOfferCommands offer_methods"
  unfolding registerOfferCommands_def offer_methods_def
  by (intro list_all2_Cons [THEN iffD2, OF conjI] row_okI) (simp_all add: own_contracts reading_contracts)

lemma vault_methods_ok: "list_all2 (row_ok E opts) registerVaultCommands vault_methods"
  unfolding registerVaultCommands_def vault_methods_def
  by (intro list_all2_Cons [THEN iffD2, OF conjI] row_okI) (simp_all add: own_contracts reading_contracts)

lemma mint_methods_ok: "list_all2 (row_ok E opts) registerMintAuthorityCommands mint_methods"
  unfolding registerMintAuthorityCommands_def mint_methods_def
  by (intro list_all2_Cons [THEN iffD2, OF conjI] row_okI) (simp_all add: own_contracts reading_contracts)

lemma redemption_methods_ok: "list_all2 (row_ok E opts) registerRedemptionCommands redemption_methods"
  unfolding registerRedemptionCommands_def redemption_methods_def
  by (intro list_all2_Cons [THEN iffD2, OF conjI] row_okI) (simp_all add: own_contracts reading_contracts)

lemma init_methods_ok: "list_all2 (row_ok E opts) registerInitCommands init_methods"
  unfolding registerInitCommands_def init_methods_def
  by (intro list_all2_Cons [THEN iffD2, OF conjI] row_okI) (simp_all add: own_contracts reading_contracts)

lemma command_methods_ok: "list_all2 (row_ok E opts) cli_commands command_methods"
  unfolding cli_commands_def command_methods_def
  by (intro list_all2_appendI state_methods_ok market_methods_ok offer_methods_ok vault_methods_ok
      mint_methods_ok redemption_methods_ok init_methods_ok)

lemma command_contract:
  assumes "c \<in> set cli_commands"
  shows "\<exists>ms. contract (shows_only opts) (own_tx ms) (c_execute c E opts)"
proof -
  from assms obtain i where "i < length cli_commands" "c = cli_commands ! i"
    by (auto simp: in_set_conv_nth)
  with command_methods_ok have "row_ok E opts c (command_methods ! i)"
    by (auto simp: list_all2_conv_all_nth)
  then show ?thesis by (auto simp: row_ok_def)
qed

section \<open>Promises of every command\<close>

text \<open>The runs below are those of \<open>state kill-switch\<close> and \<open>state add-admin\<close> in the example environment.\<close>

fun is_sent :: "event \<Rightarrow> bool" where
  "is_sent (Sent t k) = True"
| "is_sent _ = False"

lemma example_registered: "cli_commands ! 8 \<in> set cli_commands" "cli_commands ! 3 \<in> set cli_commands"
  by (rule nth_mem, simp add: cli_commands_def register_defs)+

text \<open>
  C4: whatever the libraries, the user and the chain answer, a command sends a transaction only when
  the last question before was the final confirmation, answered with yes, and the last line before
  that question announced the key that signs.
\<close>

theorem sends_are_confirmed:
  assumes "c \<in> set cli_commands"
  shows "\<exists>new. snd (run_command c E p tr) = tr @ new \<and> confirmed_sends None None new"
  using command_contract [OF assms, of "c_opts c p" E]
  unfolding run_command_def io_trace_def command_trace_def by blast

theorem sends_are_confirmed_witness:
  "list_ex is_sent (snd (run_command (cli_commands ! 8) (demo ''sign'' ''ENABLE KILL SWITCH'' True)
       \<lparr>pr_options = [], pr_globals = []\<rparr> []))
   \<and> (\<exists>new. snd (run_command (cli_commands ! 8) (demo ''sign'' ''ENABLE KILL SWITCH'' True)
       \<lparr>pr_options = [], pr_globals = []\<rparr> []) = [] @ new \<and> confirmed_sends None None new)"
proof
  show "list_ex is_sent (snd (run_command (cli_commands ! 8) (demo ''sign'' ''ENABLE KILL SWITCH'' True)
       \<lparr>pr_options = [], pr_globals = []\<rparr> []))" by code_simp
qed (rule sends_are_confirmed [OF example_registered(1)])

text \<open>C15: with \<open>--json\<close> or \<open>--dry-run\<close> no command sends a transaction or writes to the clipboard.\<close>

theorem show_modes_are_hands_off:
  assumes "c \<in> set cli_commands" and "shows_only (c_opts c p)"
  shows "\<exists>new. snd (run_command c E p tr) = tr @ new \<and> list_all hands_off new"
  using command_contract [OF assms(1), of "c_opts c p" E] assms(2)
  unfolding run_command_def io_trace_def command_trace_def by blast

theorem show_modes_are_hands_off_witness:
  "\<exists>new. snd (run_command (cli_commands ! 3) (demo ''sign'' [] True)
       \<lparr>pr_options = [(''admin'', JStr ''45YnzauhsBM8CpUz96Djf8UG5vqq2Dua62wuW9H3jaJ5'')],
        pr_globals = [(''json'', JBool True)]\<rparr> []) = [] @ new \<and> list_all hands_off new"
proof (rule show_modes_are_hands_off [OF example_registered(2)])
  show "shows_only (c_opts (cli_commands ! 3)
      \<lparr>pr_options = [(''admin'', JStr ''45YnzauhsBM8CpUz96Djf8UG5vqq2Dua62wuW9H3jaJ5'')],
       pr_globals = [(''json'', JBool True)]\<rparr>)" by code_simp
qed

lemma commands_methods_each:
  "list_all2 (\<lambda>c row. c_group c = fst row \<and> c_name c = fst (snd row) \<and>
     io_all (sent_ok (own_tx (snd (snd row)))) (c_execute c E opts)) cli_commands command_methods"
proof (rule list_all2_mono [OF command_methods_ok [of E opts]])
  fix c row
  assume *: "row_ok E opts c row"
  have "io_all (sent_ok (own_tx (snd (snd row)))) (c_execute c E opts)"
    by (rule io_all_of_trace [of "command_trace (shows_only opts) (own_tx (snd (snd row)))"])
      (use * in \<open>auto simp: row_ok_def command_trace_def\<close>)
  with * show "c_group c = fst row \<and> c_name c = fst (snd row) \<and>
     io_all (sent_ok (own_tx (snd (snd row)))) (c_execute c E opts)"
    by (simp add: row_ok_def)
qed

text \<open>
  C16: the table of the commands: each sends only transactions with exactly one call of a method of
  its own row, preceded by at most two created token accounts; the commands that only read send
  nothing.
\<close>

theorem commands_send_their_own_methods:
  "list_all2 (\<lambda>c row. c_group c = fst row \<and> c_name c = fst (snd row) \<and>
     io_all (sent_ok (own_tx (snd (snd row)))) (c_execute c E opts)) cli_commands command_methods"
  by (rule commands_methods_each)

section \<open>Commands signed by the boss\<close>

definition boss_commands :: "((env \<Rightarrow> jsobj \<Rightarrow> unit io) \<times> string \<times> string) list" where
  "boss_commands =
     [(executeStateProposeBoss, ''proposeBoss'', ''boss''),
      (executeStateAddAdmin, ''addAdmin'', ''boss''),
      (executeStateRemoveAdmin, ''removeAdmin'', ''boss''),
      (executeStateClearAdmins, ''clearAdmins'', ''boss''),
      (executeStateAddApprover, ''addApprover'', ''boss''),
      (executeStateRemoveApprover, ''removeApprover'', ''boss''),
      (executeStateSetOnycMint, ''setOnycMint'', ''boss''),
      (executeStateMaxSupply, ''configureMaxSupply'', ''boss''),
      (executeStateSetRedemptionAdmin, ''setRedemptionAdmin'', ''boss''),
      (executeStateKillSwitch, ''setKillSwitch'', ''signer''),
      (executeStateClose, ''closeState'', ''boss''),
      (executeOfferAddVector, ''addOfferVector'', ''boss''),
      (executeOfferDeleteVector, ''deleteOfferVector'', ''boss''),
      (executeOfferDeleteAllVectors, ''deleteAllOfferVectors'', ''boss''),
      (executeOfferUpdateFee, ''updateOfferFee'', ''boss''),
      (executeVaultDeposit, ''offerVaultDeposit'', ''boss''),
      (executeVaultWithdraw, ''offerVaultWithdraw'', ''boss''),
      (executeVaultRedemptionDeposit, ''redemptionVaultDeposit'', ''boss''),
      (executeVaultRedemptionWithdraw, ''redemptionVaultWithdraw'', ''boss''),
      (executeRedemptionMakeOffer, ''makeRedemptionOffer'', ''signer''),
      (executeRedemptionUpdateFee, ''updateRedemptionOfferFee'', ''boss''),
      (executeRedemptionCancel, ''cancelRedemptionRequest'', ''signer''),
      (executeInitPermissionless, ''initializePermissionlessAuthority'', ''boss''),
      (executeMintAuthorityToProgram, ''transferMintAuthorityToProgram'', ''boss''),
      (executeMintAuthorityToBoss, ''transferMintAuthorityToBoss'', ''boss'')]"

lemma boss_commands_contract:
  "list_all (\<lambda>(ex, m, a). contract (shows_only opts) (boss_tx E m a) (ex E opts)) boss_commands"
  unfolding boss_commands_def by (simp only: list.pred_inject prod.case boss_contracts simp_thms)

text \<open>
  While the state account does not change, the transaction of each of these 25 commands is paid
  by the boss on record and names this boss as the signing account of its one instruction.
\<close>

lemma boss_pays_and_signs:
  assumes "stable_state E st" and "(ex, m, a) \<in> set boss_commands"
  shows "io_all (sent_ok (\<lambda>tx. feePayer tx = JPk (st_boss st) \<and> boss_ixs m a (JPk (st_boss st)) (tx_ixs tx)))
           (ex E opts)"
proof -
  have "contract (shows_only opts) (boss_tx E m a) (ex E opts)"
    using boss_commands_contract [of opts E] assms(2) by (auto simp: list_all_iff)
  then have "contract (shows_only opts)
      (\<lambda>tx. feePayer tx = JPk (st_boss st) \<and> boss_ixs m a (JPk (st_boss st)) (tx_ixs tx)) (ex E opts)"
    by (rule contract_mono) (use assms(1) in \<open>auto simp: boss_tx_def is_boss_def\<close>)
  then show ?thesis by (rule io_all_of_trace) (simp add: command_trace_def)
qed

lemma boss_pays_and_signs_witness:
  "stable_state (demo ''sign'' [] True) demo_state
   \<and> io_all (sent_ok (\<lambda>tx. feePayer tx = JPk demo_boss \<and> boss_ixs ''addAdmin'' ''boss'' (JPk demo_boss) (tx_ixs tx)))
       (executeStateAddAdmin (demo ''sign'' [] True)
          [(''admin'', JStr ''45YnzauhsBM8CpUz96Djf8UG5vqq2Dua62wuW9H3jaJ5'')])"
proof
  have st: "st_boss demo_state = demo_boss" by (simp add: demo_state_def)
  show "io_all (sent_ok (\<lambda>tx. feePayer tx = JPk demo_boss \<and> boss_ixs ''addAdmin'' ''boss'' (JPk demo_boss) (tx_ixs tx)))
       (executeStateAddAdmin (demo ''sign'' [] True)
          [(''admin'', JStr ''45YnzauhsBM8CpUz96Djf8UG5vqq2Dua62wuW9H3jaJ5'')])"
    using boss_pays_and_signs [OF demo_stable, of executeStateAddAdmin "''addAdmin''" "''boss''"]
    unfolding st by (simp add: boss_commands_def)
qed (rule demo_stable)

section \<open>Single commands\<close>

lemma killSwitch_enables:
  "contract (shows_only opts)
     (\<lambda>tx. \<exists>b. tx_ixs tx = [AnchorIx \<lparr>mc_method = ''setKillSwitch'', mc_args = [JBool True],
        mc_accounts = [(''signer'', b)], mc_partial = True\<rparr>])
     (buildAndHandleTransaction E helper params opts (killSwitch_options E))"
  by (rule build_contract [where PP = "\<lambda>_. True" and
        R = "\<lambda>ixs. \<exists>b. ixs = [AnchorIx \<lparr>mc_method = ''setKillSwitch'', mc_args = [JBool True],
           mc_accounts = [(''signer'', b)], mc_partial = True\<rparr>]"])
    (auto simp: killSwitch_options_def buildSetKillSwitchIx_def fld_def
      intro!: io_intros io_res_True io_res_bind one_ix_result io_res_mono [OF instruction_result])

lemma kill_switch_calls:
  "io_all (sent_ok (\<lambda>tx. \<exists>signer. tx_ixs tx =
       [AnchorIx \<lparr>mc_method = ''setKillSwitch'', mc_args = [JBool True],
          mc_accounts = [(''signer'', signer)], mc_partial = True\<rparr>])) (executeStateKillSwitch E opts)"
proof -
  have "contract (shows_only opts) (\<lambda>tx. \<exists>signer. tx_ixs tx =
       [AnchorIx \<lparr>mc_method = ''setKillSwitch'', mc_args = [JBool True],
          mc_accounts = [(''signer'', signer)], mc_partial = True\<rparr>]) (executeStateKillSwitch E opts)"
    unfolding executeStateKillSwitch_def Let_def
    by (intro execute_contract command.contract_bind command.contract_if command.contract_andThen killSwitch_enables)
      (rule contract_hands_off, (intro io_intros, simp?)[1])+
  then show ?thesis by (rule io_all_of_trace) (simp add: command_trace_def)
qed

text \<open>
  Whatever its options (\<open>--disable\<close> included), \<open>state kill-switch\<close> sends nothing but the call that
  enables the switch.
\<close>

lemma kill_switch_only_enables:
  "io_all (sent_ok (\<lambda>tx. \<exists>signer. tx_ixs tx =
       [AnchorIx \<lparr>mc_method = ''setKillSwitch'', mc_args = [JBool True],
          mc_accounts = [(''signer'', signer)], mc_partial = True\<rparr>])) (executeStateKillSwitch E opts)"
  by (rule kill_switch_calls)

lemma other_commands_no_kill:
  "list_all2 (\<lambda>c row. c_execute c = executeStateKillSwitch \<or> ''setKillSwitch'' \<notin> set (snd (snd row)))
     cli_commands command_methods"
  unfolding cli_commands_def command_methods_def
  by (intro list_all2_appendI; unfold register_defs state_methods_def market_methods_def offer_methods_def
      vault_methods_def mint_methods_def redemption_methods_def init_methods_def)
    (simp_all add: command_def)

text \<open>No command of the tool can switch the kill switch off.\<close>

lemma no_command_disables_kill_switch:
  assumes "c \<in> set cli_commands"
  shows "io_all (sent_ok (\<lambda>tx. \<forall>call. AnchorIx call \<in> set (tx_ixs tx) \<longrightarrow>
           mc_method call = ''setKillSwitch'' \<longrightarrow> mc_args call = [JBool True])) (c_execute c E opts)"
    (is "io_all (sent_ok ?Q) _")
proof -
  from assms obtain i where i: "i < length cli_commands" "c = cli_commands ! i"
    by (auto simp: in_set_conv_nth)
  let ?ms = "snd (snd (command_methods ! i))"
  have row: "io_all (sent_ok (own_tx ?ms)) (c_execute c E opts)"
    using commands_methods_each [of E opts] i by (auto simp: list_all2_conv_all_nth)
  have "c_execute c = executeStateKillSwitch \<or> ''setKillSwitch'' \<notin> set ?ms"
    using other_commands_no_kill i by (auto simp: list_all2_conv_all_nth)
  then show ?thesis
  proof
    assume "c_execute c = executeStateKillSwitch"
    moreover have "io_all (sent_ok ?Q) (executeStateKillSwitch E opts)"
      by (rule io_all_mono [OF kill_switch_calls], erule sent_ok_mono [rotated]) auto
    ultimately show ?thesis by simp
  next
    assume *: "''setKillSwitch'' \<notin> set ?ms"
    have "?Q tx" if "own_tx ?ms tx" for tx
    proof (intro allI impI)
      fix call
      assume "AnchorIx call \<in> set (tx_ixs tx)" "mc_method call = ''setKillSwitch''"
      with that * show "mc_args call = [JBool True]" by (fastforce simp: own_tx_def)
    qed
    then show ?thesis by (rule io_all_mono [OF row, OF sent_ok_mono])
  qed
qed

lemma no_command_disables_kill_switch_witness:
  "io_all (sent_ok (\<lambda>tx. \<forall>call. AnchorIx call \<in> set (tx_ixs tx) \<longrightarrow>
      mc_method call = ''setKillSwitch'' \<longrightarrow> mc_args call = [JBool True]))
     (c_execute (cli_commands ! 8) (demo ''sign'' ''ENABLE KILL SWITCH'' True) [(''disable'', JBool True)])"
  by (rule no_command_disables_kill_switch [OF example_registered(1)])

end
