(* ===== verification/Role_Props.thy ===== *)
theory Role_Props
  imports Prompt_Props Command_Props
begin

text \<open>
  Who pays and signs where it is not the boss alone, what must be typed before a dangerous command goes
  on, and how a command ends.
\<close>

section \<open>Payers and signers\<close>

lemma fulfill_stable:
  assumes "stable_state E st"
  shows "io_res (\<lambda>ix. st_redemptionAdmin st \<noteq> PublicKey_default
      \<and> boss_ixs ''fulfillRedemptionRequest'' ''redemptionAdmin'' (JPk (st_redemptionAdmin st)) [ix]) (fulfill_ix E params h)"
  unfolding fulfill_ix_def buildFulfillRedemptionRequestIx_def case_prod_beta
proof (rule io_res_bind2 [where S = "\<lambda>state. state = st"])
  show "io_res (\<lambda>state. state = st) (getState E h)"
    using assms by (auto simp: getState_def io_res_def outside_def stable_state_def)
next
  fix state assume state: "state = st"
  show "io_res (\<lambda>ix. st_redemptionAdmin st \<noteq> PublicKey_default
      \<and> boss_ixs ''fulfillRedemptionRequest'' ''redemptionAdmin'' (JPk (st_redemptionAdmin st)) [ix])
     (bind (request_pdas E h params) (\<lambda>p. if st_redemptionAdmin state = PublicKey_default then
         throw (Error (''Redemption admin is not set in program state. ''
           @ ''Please set a redemption admin first using: npm run cli -- state set-redemption-admin''))
       else instruction E True ''fulfillRedemptionRequest'' []
      [(''redemptionOffer'', fld [(''redemptionOfferPda'', JPk (fst p)), (''redemptionRequestPda'', JPk (snd p)),
         (''redemptionAdmin'', JPk (st_redemptionAdmin state))] ''redemptionOfferPda''),
       (''redemptionRequest'', fld [(''redemptionOfferPda'', JPk (fst p)), (''redemptionRequestPda'', JPk (snd p)),
         (''redemptionAdmin'', JPk (st_redemptionAdmin state))] ''redemptionRequestPda''),
       (''redemptionAdmin'', fld [(''redemptionOfferPda'', JPk (fst p)), (''redemptionRequestPda'', JPk (snd p)),
         (''redemptionAdmin'', JPk (st_redemptionAdmin state))] ''redemptionAdmin'')]))"
  proof (intro io_res_bind io_res_if io_res_throw)
    fix p :: "pubkey \<times> pubkey"
    assume "st_redemptionAdmin state \<noteq> PublicKey_default"
    then show "io_res (\<lambda>ix. st_redemptionAdmin st \<noteq> PublicKey_default
      \<and> boss_ixs ''fulfillRedemptionRequest'' ''redemptionAdmin'' (JPk (st_redemptionAdmin st)) [ix])
        (instruction E True ''fulfillRedemptionRequest'' []
      [(''redemptionOffer'', fld [(''redemptionOfferPda'', JPk (fst p)), (''redemptionRequestPda'', JPk (snd p)),
         (''redemptionAdmin'', JPk (st_redemptionAdmin state))] ''redemptionOfferPda''),
       (''redemptionRequest'', fld [(''redemptionOfferPda'', JPk (fst p)), (''redemptionRequestPda'', JPk (snd p)),
         (''redemptionAdmin'', JPk (st_redemptionAdmin state))] ''redemptionRequestPda''),
       (''redemptionAdmin'', fld [(''redemptionOfferPda'', JPk (fst p)), (''redemptionRequestPda'', JPk (snd p)),
         (''redemptionAdmin'', JPk (st_redemptionAdmin state))] ''redemptionAdmin'')])"
      by (intro io_res_mono [OF instruction_boss_ixs [where a = "''redemptionAdmin''"
              and b = "JPk (st_redemptionAdmin st)"]]) (simp_all add: state)
  qed
qed

text \<open>
  A fulfilment is paid by the boss and signed by the redemption admin on record, which is set: it
  needs two signatures whenever the two differ, and the local signing of the tool gives one.
\<close>

lemma fulfilment_needs_boss_and_admin:
  assumes "stable_state E st"
  shows "io_all (sent_ok (\<lambda>tx. feePayer tx = JPk (st_boss st) \<and> st_redemptionAdmin st \<noteq> PublicKey_default
       \<and> boss_ixs ''fulfillRedemptionRequest'' ''redemptionAdmin'' (JPk (st_redemptionAdmin st)) (tx_ixs tx)))
     (executeRedemptionFulfill E opts)"
proof -
  have "contract (shows_only opts) (\<lambda>tx. feePayer tx = JPk (st_boss st) \<and> st_redemptionAdmin st \<noteq> PublicKey_default
       \<and> boss_ixs ''fulfillRedemptionRequest'' ''redemptionAdmin'' (JPk (st_redemptionAdmin st)) (tx_ixs tx))
     (executeRedemptionFulfill E opts)"
    unfolding executeRedemptionFulfill_def
    by (intro execute_contract build_contract [where PP = "is_boss E"
          and R = "\<lambda>ixs. st_redemptionAdmin st \<noteq> PublicKey_default
            \<and> boss_ixs ''fulfillRedemptionRequest'' ''redemptionAdmin'' (JPk (st_redemptionAdmin st)) ixs"])
      (use assms in \<open>auto simp: getBoss_is_boss is_boss_def
         intro!: io_intros fulfill_hands_off one_ix_result fulfill_stable\<close>)
  then show ?thesis by (rule io_all_of_trace) (simp add: command_trace_def)
qed

lemma fulfilment_needs_boss_and_admin_witness:
  "st_boss demo_state \<noteq> st_redemptionAdmin demo_state \<and>
   io_all (sent_ok (\<lambda>tx. feePayer tx = JPk demo_boss
       \<and> boss_ixs ''fulfillRedemptionRequest'' ''redemptionAdmin'' (JPk demo_admin) (tx_ixs tx)))
     (executeRedemptionFulfill (demo ''usdc'' [] True) [])"
proof
  have st: "st_boss demo_state = demo_boss" "st_redemptionAdmin demo_state = demo_admin"
    by (simp_all add: demo_state_def)
  show "st_boss demo_state \<noteq> st_redemptionAdmin demo_state"
    by (simp add: st demo_boss_def demo_admin_def)
  show "io_all (sent_ok (\<lambda>tx. feePayer tx = JPk demo_boss
       \<and> boss_ixs ''fulfillRedemptionRequest'' ''redemptionAdmin'' (JPk demo_admin) (tx_ixs tx)))
     (executeRedemptionFulfill (demo ''usdc'' [] True) [])"
    by (rule io_all_mono [OF fulfilment_needs_boss_and_admin [OF demo_stable]])
      (erule sent_ok_mono [rotated], simp add: st)
qed

text \<open>Commands whose payer is named by the instruction itself.\<close>

definition self_paid_commands :: "((env \<Rightarrow> jsobj \<Rightarrow> unit io) \<times> string list \<times> string) list" where
  "self_paid_commands =
     [(executeOfferTake, [''takeOffer'', ''takeOfferPermissionless''], ''user''),
      (executeRedemptionCreateRequest, [''createRedemptionRequest''], ''redeemer''),
      (executeInitProgram, [''initialize''], ''boss'')]"

definition self_paid :: "string list \<Rightarrow> string \<Rightarrow> transaction \<Rightarrow> bool" where
  "self_paid ms a tx \<longleftrightarrow> (\<exists>c k. tx_ixs tx = [AnchorIx c] \<and> mc_method c \<in> set ms
     \<and> feePayer tx = JPk k \<and> map_of (mc_accounts c) a = Some (JPk k))"

lemma self_paid_contracts:
  "list_all (\<lambda>(ex, ms, a). contract (shows_only opts) (self_paid ms a) (ex E opts)) self_paid_commands"
proof -
  have "contract (shows_only opts) (self_paid [''takeOffer'', ''takeOfferPermissionless''] ''user'') (executeOfferTake E opts)"
    by (rule contract_mono [OF Take_contract]) (auto simp: take_tx_def take_call_def self_paid_def)
  moreover have "contract (shows_only opts) (self_paid [''createRedemptionRequest''] ''redeemer'')
      (executeRedemptionCreateRequest E opts)"
    by (rule contract_mono [OF CreateRequest_contract]) (auto simp: redeemer_tx_def boss_ixs_def self_paid_def)
  moreover have "contract (shows_only opts) (self_paid [''initialize''] ''boss'') (executeInitProgram E opts)"
    by (rule contract_mono [OF InitProgram_contract]) (auto simp: init_tx_def boss_ixs_def self_paid_def)
  ultimately show ?thesis by (simp add: self_paid_commands_def)
qed

text \<open>
  Takers, redeemers and the boss of a new program pay for their own transaction: the payer is the key
  that the one instruction names as its user, redeemer or boss.
\<close>

lemma acting_key_pays:
  assumes "(ex, ms, a) \<in> set self_paid_commands"
  shows "io_all (sent_ok (self_paid ms a)) (ex E opts)"
proof -
  have "contract (shows_only opts) (self_paid ms a) (ex E opts)"
    using self_paid_contracts [of opts E] assms by (auto simp: list_all_iff)
  then show ?thesis by (rule io_all_of_trace) (simp add: command_trace_def)
qed

lemma acting_key_pays_witness:
  "io_all (sent_ok (self_paid [''takeOffer'', ''takeOfferPermissionless''] ''user''))
     (executeOfferTake (demo ''usdc'' [] True) [])"
  by (rule acting_key_pays) (simp add: self_paid_commands_def)

section \<open>Dangerous commands\<close>

text \<open>Before the first effect there is an event with \<open>q\<close>.\<close>

fun guarded :: "(event \<Rightarrow> bool) \<Rightarrow> trace \<Rightarrow> bool" where
  "guarded q [] = True"
| "guarded q (e # es) = (q e \<or> (hands_off e \<and> guarded q es))"

lemma guarded_append: "guarded q a \<Longrightarrow> guarded q b \<Longrightarrow> guarded q (a @ b)"
  by (induction a) auto

lemma guarded_hands_off: "list_all hands_off es \<Longrightarrow> guarded q es"
  by (induction es) auto

interpretation guard: trace_contract "guarded q" for q
  by unfold_locales (simp_all add: guarded_append)

lemma io_guarded_hands_off: "io_all hands_off m \<Longrightarrow> io_trace (guarded q) m"
  by (erule io_trace_of_all) (rule guarded_hands_off)

lemma contract_grows: "contract b Q m \<Longrightarrow> io_trace (\<lambda>_. True) m"
  by (erule io_trace_mono) simp

text \<open>A question: when the answer is the one asked for, what follows is free.\<close>

lemma guarded_ask:
  assumes "\<And>x. io_trace (\<lambda>_. True) (g x)" and "\<And>x. \<not> q (Asked p (v x)) \<Longrightarrow> io_trace (guarded q) (g x)"
  shows "io_trace (guarded q) (bind (ask p v f) g)"
  unfolding io_trace_def
proof
  fix tr
  show "\<exists>new. snd (bind (ask p v f) g tr) = tr @ new \<and> guarded q new"
  proof (cases "f tr")
    case (Inr x)
    have run: "bind (ask p v f) g tr = g x (tr @ [Asked p (v x)])" by (simp add: bind_def ask_def Inr)
    show ?thesis
    proof (cases "q (Asked p (v x))")
      case True
      obtain new where "snd (g x (tr @ [Asked p (v x)])) = (tr @ [Asked p (v x)]) @ new"
        using assms(1) unfolding io_trace_def by blast
      then show ?thesis using True by (intro exI [of _ "Asked p (v x) # new"]) (simp add: run)
    next
      case False
      then obtain new where "snd (g x (tr @ [Asked p (v x)])) = (tr @ [Asked p (v x)]) @ new" "guarded q new"
        using assms(2) unfolding io_trace_def by blast
      then show ?thesis by (intro exI [of _ "Asked p (v x) # new"]) (simp add: run)
    qed
  qed (simp add: bind_def ask_def)
qed

text \<open>The two ways in which a command asks before it goes on.\<close>

lemma guarded_phrase:
  assumes "phrase \<noteq> []" and "contract b Q build"
    and "q (Asked (PInput (m @ '' (Type '' @ [CHR 0x22] @ phrase @ [CHR 0x22] @ '' to confirm):'') None) (JStr phrase))"
  shows "io_trace (guarded q) (bind (confirmDangerousOperation E m None (Some phrase)) (\<lambda>confirmed.
      if \<not> confirmed then log_line s else build))"
proof -
  have grows: "io_trace (\<lambda>_. True) (log_line s)" by (simp add: io_trace_def log_line_run)
  show ?thesis
    unfolding confirmDangerousOperation_def input_def
    by (simp add: io_simps assms(1) del: append_Cons append.simps)
      (rule guarded_ask, use assms(2,3) grows in \<open>auto intro: contract_grows intro!: io_guarded_hands_off io_intros\<close>)
qed

lemma guarded_question:
  assumes "contract b Q build" and "q (Asked (PConfirm m (JBool False)) (JBool True))"
  shows "io_trace (guarded q) (bind (confirmDangerousOperation E m None None) (\<lambda>confirmed.
      if \<not> confirmed then log_line s else build))"
proof -
  have grows: "io_trace (\<lambda>_. True) (log_line s)" by (simp add: io_trace_def log_line_run)
  show ?thesis
    unfolding confirmDangerousOperation_def confirm_def
    by (simp add: io_simps)
      (rule guarded_ask, use assms grows in \<open>auto intro: contract_grows intro!: io_guarded_hands_off io_intros\<close>)
qed

lemma guarded_execute:
  assumes "\<And>helper params. io_trace (guarded q) (handler helper params)"
  shows "io_trace (guarded q) (executeCommand E opts ps handler)"
proof -
  have hands: "io_all hands_off (create E w)" "io_all hands_off (promptForParams E ps vs b)"
    "io_all hands_off (do_when d (printNetworkBanner c))" for w vs b d c
    by (intro io_intros)+
  show ?thesis
    unfolding executeCommand_def
    by (intro guard.contract_try_catch guard.contract_andThen guard.contract_bind assms
        io_guarded_hands_off hands guard.contract_throw io_all_tell) simp
qed

text \<open>The answers that a dangerous command waits for.\<close>

definition typed_phrase :: "string \<Rightarrow> event \<Rightarrow> bool" where
  "typed_phrase phrase e \<longleftrightarrow> (\<exists>m. e = Asked (PInput m None) (JStr phrase))"

definition said_yes :: "event \<Rightarrow> bool" where
  "said_yes e \<longleftrightarrow> (\<exists>m. m \<noteq> ''Send transaction to chain?'' \<and> e = Asked (PConfirm m (JBool False)) (JBool True))"

definition dangerous_commands :: "((env \<Rightarrow> jsobj \<Rightarrow> unit io) \<times> (event \<Rightarrow> bool)) list" where
  "dangerous_commands =
     [(executeStateKillSwitch, typed_phrase ''ENABLE KILL SWITCH''),
      (executeStateClose, typed_phrase ''CLOSE STATE''),
      (executeStateClearAdmins, said_yes)]"

text \<open>
  C20: \<open>kill-switch\<close>, \<open>close\<close> and \<open>clear-admins\<close> send or copy nothing before the phrase was typed exactly, or
  the question of the command, which is not the last one before the sending, was answered with yes; in
  the modes that only show the transaction they do not ask and do neither.
\<close>

theorem dangerous_commands_wait:
  assumes "(ex, q) \<in> set dangerous_commands"
  shows "io_trace (guarded q) (ex E opts)"
proof -
  have quiet: "io_trace (guarded q) m" if "contract (shows_only opts) Q m" and
      "\<not> (\<not> js_truthy (fld opts ''json'') \<and> \<not> js_truthy (fld opts ''dryRun''))" for q Q and m :: "unit io"
    using that(1) by (rule io_trace_mono) (use that(2) in \<open>auto simp: command_trace_def shows_only_def guarded_hands_off\<close>)
  have kill: "io_trace (guarded (typed_phrase ''ENABLE KILL SWITCH'')) (executeStateKillSwitch E opts)"
    unfolding executeStateKillSwitch_def Let_def
    by (intro guarded_execute guard.contract_if guard.contract_andThen guarded_phrase [OF _ killSwitch_build]
        quiet [OF killSwitch_build] io_guarded_hands_off io_all_tell_all) (auto simp: typed_phrase_def)
  have close: "io_trace (guarded (typed_phrase ''CLOSE STATE'')) (executeStateClose E opts)"
    unfolding executeStateClose_def Let_def
    by (intro guarded_execute guard.contract_if guard.contract_andThen guarded_phrase [OF _ closeState_build]
        quiet [OF closeState_build] io_guarded_hands_off io_all_tell_all) (auto simp: typed_phrase_def)
  have clear: "io_trace (guarded said_yes) (executeStateClearAdmins E opts)"
    unfolding executeStateClearAdmins_def Let_def
    by (intro guarded_execute guard.contract_bind guard.contract_if guard.contract_andThen
        guarded_question [OF clearAdmins_build] quiet [OF clearAdmins_build] io_guarded_hands_off io_intros)
      (auto simp: said_yes_def)
  show ?thesis using assms kill close clear by (auto simp: dangerous_commands_def)
qed

theorem dangerous_commands_wait_witness:
  "io_trace (guarded (typed_phrase ''CLOSE STATE'')) (executeStateClose (demo ''copy'' ''CLOSE STATE'' True) [])"
  by (rule dangerous_commands_wait) (simp add: dangerous_commands_def)

end
