(* ===== verification/Outcome_Props.thy ===== *)
theory Outcome_Props
  imports Role_Props
begin

text \<open>
  How commands end: exceptions stop at the wrapper, and a transaction that the chain refuses ends its
  command like one that went through; and what \<open>offer make\<close> adds to its transaction.
\<close>

section \<open>Nothing escapes\<close>

definition exits :: "'a io \<Rightarrow> bool" where
  "exits m \<longleftrightarrow> (\<forall>tr e. fst (m tr) = Inl e \<longrightarrow> (\<exists>n. e = ExitProcess n))"

lemma exits_executeCommand: "exits (executeCommand E opts ps handler)"
proof -
  have "\<exists>n. e = ExitProcess n" if "fst (try_catch m (\<lambda>error. andThen (tell (LogErr (''Error: '' @ exn_text error)))
      (throw (ExitProcess 1))) tr) = Inl e" for m :: "unit io" and tr e
  proof (cases "m tr")
    case (Pair r tr')
    show ?thesis
    proof (cases r)
      case (Inl x)
      with Pair that show ?thesis
        by (cases x) (auto simp: try_catch_def andThen_def bind_def tell_def throw_def)
    qed (use Pair that in \<open>simp add: try_catch_def\<close>)
  qed
  then show ?thesis unfolding exits_def executeCommand_def by blast
qed

lemmas execute_defs = executeInitProgram_def executeInitPermissionless_def executeMintTo_def
  executeMintAuthorityToProgram_def executeMintAuthorityToBoss_def executeMarketNav_def
  executeMarketNavAdjustment_def executeMarketApy_def executeMarketTvl_def executeMarketSupply_def
  executeOfferMake_def executeOfferFetch_def executeOfferTake_def executeOfferAddVector_def
  executeOfferDeleteVector_def executeOfferDeleteAllVectors_def executeOfferUpdateFee_def
  executeRedemptionMakeOffer_def executeRedemptionFetchOffer_def executeRedemptionUpdateFee_def
  executeRedemptionCreateRequest_def executeRedemptionFetchRequest_def executeRedemptionFulfill_def
  executeRedemptionCancel_def executeRedemptionListRequests_def executeStateProposeBoss_def
  executeStateAcceptBoss_def executeStateAddAdmin_def executeStateRemoveAdmin_def executeStateClearAdmins_def
  executeStateAddApprover_def executeStateRemoveApprover_def executeStateSetOnycMint_def
  executeStateMaxSupply_def executeStateSetRedemptionAdmin_def executeStateKillSwitch_def
  executeStateClose_def executeStateGet_def executeVaultDeposit_def executeVaultWithdraw_def
  executeVaultRedemptionDeposit_def executeVaultRedemptionWithdraw_def

lemma commands_exit: "list_all (\<lambda>c. exits (c_execute c E opts)) cli_commands"
  unfolding cli_commands_def register_defs
  by (simp only: append.simps list.pred_inject command_def cli_command.simps) (simp only: execute_defs exits_executeCommand simp_thms)

text \<open>
  No exception leaves a command, whatever the libraries and the chain answer: it returns, or it ends
  the process.
\<close>

lemma no_exception_escapes:
  assumes "c \<in> set cli_commands" and "fst (run_command c E p tr) = Inl e"
  shows "\<exists>n. e = ExitProcess n"
  using commands_exit [of E "c_opts c p"] assms by (auto simp: list_all_iff exits_def run_command_def)

lemma no_exception_escapes_witness:
  "fst (run_command (cli_commands ! 3) (demo ''sign'' [] True)
      \<lparr>pr_options = [(''admin'', JStr ''nobody'')], pr_globals = []\<rparr> []) = Inl (ExitProcess 1)
   \<and> (\<exists>n. ExitProcess 1 = ExitProcess n)"
proof
  show *: "fst (run_command (cli_commands ! 3) (demo ''sign'' [] True)
      \<lparr>pr_options = [(''admin'', JStr ''nobody'')], pr_globals = []\<rparr> []) = Inl (ExitProcess 1)"
    by code_simp
  show "\<exists>n. ExitProcess 1 = ExitProcess n"
    by (rule no_exception_escapes [OF example_registered2 [of 3] *]) simp
qed

section \<open>A refused transaction\<close>

text \<open>
  Sending never throws: a key that is no signer sends nothing, an answer of the chain is shown, and the
  command goes on with the result; after an error the text of the error is shown and the result is that
  of a cancelled transaction.
\<close>

lemma sending_never_throws:
  "\<exists>r new. send_transaction E tx k tr = (Inr r, tr @ new) \<and>
     (case partialSign E tx k of
        Some e \<Rightarrow> r = ResultCancelled \<and> list_all hands_off new \<and> Log (newline @ ''Error: '' @ exn_text e) \<in> set new
      | None \<Rightarrow> (case rpcSend E (tr @ [Spin (SpinStart ''Sending transaction...'')]) tx k of
            Inl (e, logs) \<Rightarrow> r = ResultCancelled \<and> Spin (SpinFail ''Transaction failed'') \<in> set new
              \<and> Log (newline @ ''Error: '' @ exn_text e) \<in> set new
          | Inr s \<Rightarrow> r = ResultSent s \<and> Log (newline @ ''Signature: '' @ s) \<in> set new))"
proof (cases "partialSign E tx k")
  case (Some e)
  then show ?thesis
    by (simp add: send_transaction_def sign_and_send_def andThen_def bind_def tell_def tell_all_run ret_def
        log_lines_def del: tell_all.simps)
next
  case None
  have run: "send_transaction E tx k tr =
      (case rpcSend E (tr @ [Spin (SpinStart ''Sending transaction...'')]) tx k of
         Inl (e, logs) \<Rightarrow> (Inr ResultCancelled, tr @ [Spin (SpinStart ''Sending transaction...''), Sent tx k,
            Spin (SpinFail ''Transaction failed''), Log (newline @ ''Error: '' @ exn_text e)] @ log_lines logs)
       | Inr s \<Rightarrow> (Inr (ResultSent s), tr @ [Spin (SpinStart ''Sending transaction...''), Sent tx k,
            Spin (SpinSucceed ''Transaction confirmed!''), Log (newline @ ''Signature: '' @ s),
            Log (''Explorer: https://solscan.io/tx/'' @ s
              @ (if js_starts_with ''devnet'' (nc_name (cfg E)) then ''?cluster=devnet'' else []))]))"
    by (simp add: None send_transaction_def sign_and_send_def andThen_def bind_def tell_def outside_def
        tell_all_run ret_def del: tell_all.simps split: sum.split)
  show ?thesis
    by (cases "rpcSend E (tr @ [Spin (SpinStart ''Sending transaction...'')]) tx k")
      (auto simp: run None)
qed

text \<open>An environment whose node refuses every transaction.\<close>

definition refusing :: env where
  "refusing = (demo ''sign'' ''ENABLE KILL SWITCH'' True)\<lparr>rpcSend := \<lambda>tr t k. Inl (Library ''custom program error'', None)\<rparr>"

lemma refused_kill_switch:
  "fst (executeStateKillSwitch refusing [] []) = Inr ()
   \<and> list_ex (\<lambda>e. e = Spin (SpinFail ''Transaction failed'')) (snd (executeStateKillSwitch refusing [] []))"
  unfolding refusing_def by code_simp

section \<open>The token accounts of a new offer\<close>

text \<open>
  For a permissionless offer exactly the associated accounts of the permissionless authority that the
  chain does not have are created, token in before token out, each owned by the authority, with the
  program of its own mint.
\<close>

lemma missing_accounts_are_created:
  assumes "\<And>tr k. rpcAccountInfo E tr k = Inr (existing k)"
    and "associatedTokenAddress E m1 owner True p1 = Inr a1"
    and "associatedTokenAddress E m2 owner True p2 = Inr a2"
    and "owner = permissionlessVaultAuthorityPda h"
  shows "buildCreatePermissionlessTokenAccountsIxs E h
      [(''tokenInMint'', JPk m1), (''tokenOutMint'', JPk m2), (''tokenInProgram'', JPk p1),
       (''tokenOutProgram'', JPk p2), (''payer'', payer)] tr =
    (Inr ((if existing a1 then [] else [CreateAtaIx payer a1 owner (JPk m1) p1])
          @ (if existing a2 then [] else [CreateAtaIx payer a2 owner (JPk m2) p2])),
     tr @ [Called (GetAccountInfo a1), Called (GetAccountInfo a2)])"
  using assms
  by (simp add: buildCreatePermissionlessTokenAccountsIxs_def create_if_missing_def ata_def bind_def lift_def
      outside_def ret_def)

lemma missing_accounts_are_created_witness:
  "buildCreatePermissionlessTokenAccountsIxs ((demo [] [] True)\<lparr>rpcAccountInfo := \<lambda>tr k. Inr False\<rparr>)
      (new_ScriptHelper (demo [] [] True) demo_boss demo_wallet [])
      [(''tokenInMint'', JPk demo_boss), (''tokenOutMint'', JPk demo_admin), (''tokenInProgram'', JPk demo_wallet),
       (''tokenOutProgram'', JPk demo_wallet), (''payer'', JNull)] [] =
    (let owner = permissionlessVaultAuthorityPda (new_ScriptHelper (demo [] [] True) demo_boss demo_wallet []);
         a1 = PublicKey (toBase58 demo_boss @ toBase58 owner); a2 = PublicKey (toBase58 demo_admin @ toBase58 owner)
     in (Inr [CreateAtaIx JNull a1 owner (JPk demo_boss) demo_wallet, CreateAtaIx JNull a2 owner (JPk demo_admin) demo_wallet],
         [Called (GetAccountInfo a1), Called (GetAccountInfo a2)]))"
proof -
  let ?E = "(demo [] [] True)\<lparr>rpcAccountInfo := \<lambda>tr k. Inr False\<rparr>"
  have e: "rpcAccountInfo ?E tr k = Inr ((\<lambda>_. False) k)"
    "associatedTokenAddress ?E m w b p = Inr (PublicKey (toBase58 m @ toBase58 w))" for tr k m w b p
    by (simp_all add: demo_def)
  show ?thesis
    using missing_accounts_are_created [OF e(1) e(2) [where m = demo_boss and p = demo_wallet]
        e(2) [where m = demo_admin and p = demo_wallet] refl,
        where h = "new_ScriptHelper (demo [] [] True) demo_boss demo_wallet []" and payer = JNull and tr = "[]"]
    by (simp add: Let_def)
qed

end
