(* ===== verification/Display_Props.thy ===== *)
theory Display_Props
  imports Prompt_Props "HOL-Library.Multiset"
begin

text \<open>
  What the reading commands show: the token tables, the admins, the state in JSON, and the list of
  redemption requests.
\<close>

section \<open>Token mints\<close>

text \<open>
  The decimals and the token program of a mint are known for exactly the three mints of the network
  (6 and the standard program for USDC, 9 for ONyc, Token-2022 for USDG); for every other key both
  lookups are an error, so no command builds a transaction on a mint it does not know.
\<close>

lemma token_tables_cover_the_network:
  assumes "distinct [usdc (mints (cfg E)), onyc (mints (cfg E)), usdg (mints (cfg E))]"
  shows "getTokenDecimals E (JPk k) =
       (if k \<in> {usdc (mints (cfg E)), usdg (mints (cfg E))} then Inr 6
        else if k = onyc (mints (cfg E)) then Inr 9
        else Inl (Error (''Unknown token mint: '' @ toBase58 k @ ''. ''
               @ ''Please add explicit decimal configuration for this token.'')))
    \<and> getTokenProgramId E (JPk k) =
       (if k \<in> {usdc (mints (cfg E)), onyc (mints (cfg E))} then Inr (TOKEN_PROGRAM_ID E)
        else if k = usdg (mints (cfg E)) then Inr (TOKEN_2022_PROGRAM_ID E)
        else Inl (Error (''Unknown token mint: '' @ toBase58 k @ ''. ''
               @ ''Please add explicit token program configuration for this token.'')))"
proof -
  have eq: "toBase58 a = toBase58 b \<longleftrightarrow> a = b" for a b
    by (cases a; cases b) simp
  show ?thesis
    using assms by (auto simp: getTokenDecimals_def getTokenProgramId_def eq)
qed

lemma token_tables_cover_the_network_witness:
  "getTokenProgramId (demo [] [] True) (JPk MOCK_USDG_DEVNET) = Inr (TOKEN_2022_PROGRAM_ID (demo [] [] True))
   \<and> getTokenDecimals (demo [] [] True) (JPk MOCK_ONYC_DEVNET) = Inr 9"
proof -
  have m: "usdc (mints demo_cfg) = MOCK_USDC_DEVNET" "onyc (mints demo_cfg) = MOCK_ONYC_DEVNET"
    "usdg (mints demo_cfg) = MOCK_USDG_DEVNET"
    by (simp_all add: demo_cfg_def)
  have d: "distinct [MOCK_USDC_DEVNET, MOCK_ONYC_DEVNET, MOCK_USDG_DEVNET]" by code_simp
  show ?thesis
    using token_tables_cover_the_network [of "demo [] [] True"] d by (auto simp: m)
qed

section \<open>Admins\<close>

lemma admin_lines_filter:
  "admin_lines i as = List.map (\<lambda>(j, a). Log (''  '' @ nat_str (j + 1) @ ''. '' @ toBase58 a))
     (List.filter (\<lambda>(j, a). a \<noteq> PublicKey_default) (enumerate i as))"
proof (induction as arbitrary: i)
  case (Cons a as)
  have "toBase58 a = ''11111111111111111111111111111111'' \<longleftrightarrow> a = PublicKey_default"
    by (cases a) (simp add: PublicKey_default_def eval_nat_numeral)
  then show ?case by (simp add: Cons.IH)
qed simp

text \<open>
  The list of admins has one line per slot that is not the default key, in order, with the number of
  the slot.
\<close>

lemma admins_are_listed_by_slot:
  assumes "st_admins st \<noteq> []"
  shows "\<exists>table. printState st JUndefined tr = (Inr (), tr @
     [Log (newline @ ''=== Program State ==='' @ newline), table, Log (newline @ ''Admins:'')]
     @ List.map (\<lambda>(j, a). Log (''  '' @ nat_str (j + 1) @ ''. '' @ toBase58 a))
         (List.filter (\<lambda>(j, a). a \<noteq> PublicKey_default) (enumerate 0 (st_admins st))))"
  using assms by (simp add: printState_def tell_all_run admin_lines_filter del: tell_all.simps)

lemma admins_are_listed_by_slot_witness:
  "drop 3 (snd (printState demo_state JUndefined [])) = [Log (''  1. '' @ toBase58 demo_admin)]"
proof -
  have st: "st_admins demo_state = demo_admin # replicate 19 PublicKey_default" by (simp add: demo_state_def)
  have none: "List.filter (\<lambda>(j, a). a \<noteq> PublicKey_default) (enumerate i (replicate n PublicKey_default)) = []" for i n
    by (induction n arbitrary: i) auto
  have "demo_admin \<noteq> PublicKey_default" by code_simp
  moreover have "nat_str (Suc 0) = ''1''" by code_simp
  moreover have "st_admins demo_state \<noteq> []" by (simp add: st)
  ultimately show ?thesis
    using admins_are_listed_by_slot [of demo_state "[]"] none by (auto simp: st)
qed

section \<open>Redemption requests\<close>

lemma request_ids_ok:
  assumes "\<And>n. bnToNumber E (int n) = Inr (int n)"
  shows "request_ids E rs = Inr (List.map (\<lambda>r. (int (rr_requestId r), r)) rs)"
  using assms by (induction rs) simp_all

lemma sorted_requests:
  fixes rs :: "redemption_request_account list"
  defines "xs \<equiv> sort_key (\<lambda>r. int (rr_requestId r)) rs"
  shows "sort_key fst (List.map (\<lambda>r. (int (rr_requestId r), r)) rs) = List.map (\<lambda>r. (int (rr_requestId r), r)) xs"
    and "mset xs = mset rs" and "sorted (List.map rr_requestId xs)"
    and "List.filter (\<lambda>r. rr_requestId r = i) xs = List.filter (\<lambda>r. rr_requestId r = i) rs"
proof -
  have insort: "insort_key fst (int (rr_requestId x), x) (List.map (\<lambda>r. (int (rr_requestId r), r)) ys) =
      List.map (\<lambda>r. (int (rr_requestId r), r)) (insort_key (\<lambda>r. int (rr_requestId r)) x ys)" for x :: redemption_request_account and ys
    by (induction ys) simp_all
  have "foldr (insort_key fst) (List.map (\<lambda>r. (int (rr_requestId r), r)) rs) [] =
      List.map (\<lambda>r. (int (rr_requestId r), r)) (foldr (insort_key (\<lambda>r. int (rr_requestId r))) rs [])"
    by (induction rs) (simp_all add: insort)
  then show "sort_key fst (List.map (\<lambda>r. (int (rr_requestId r), r)) rs) = List.map (\<lambda>r. (int (rr_requestId r), r)) xs"
    unfolding xs_def sort_key_def .
  show "mset xs = mset rs" by (simp add: xs_def)
  have "sorted (List.map (\<lambda>r. int (rr_requestId r)) xs)" unfolding xs_def by (rule sorted_sort_key)
  then show "sorted (List.map rr_requestId xs)" by (simp add: sorted_map)
  show "List.filter (\<lambda>r. rr_requestId r = i) xs = List.filter (\<lambda>r. rr_requestId r = i) rs"
    using sort_key_stable [of "\<lambda>r. int (rr_requestId r)" "int i" rs] by (simp add: xs_def)
qed

text \<open>
  The list of requests shows every request of the node once, by ascending id, and requests with the
  same id in the order of the node.
\<close>

lemma requests_are_listed_by_id:
  assumes "\<And>n. bnToNumber E (int n) = Inr (int n)"
    and "\<And>tr fs. rpcAllRedemptionRequests E tr fs = Inr rs"
    and "getRedemptionOfferPda E h (fld params ''tokenIn'') (fld params ''tokenOut'') = Inr pda"
    and "request_filters pda (fld params ''redeemer'') = Inr filters"
  shows "\<exists>xs. mset xs = mset rs \<and> sorted (List.map rr_requestId xs)
    \<and> (\<forall>i. List.filter (\<lambda>r. rr_requestId r = i) xs = List.filter (\<lambda>r. rr_requestId r = i) rs)
    \<and> listRequests_handler E opts h params tr =
        printRedemptionRequestsList (List.map (\<lambda>r. (int (rr_requestId r), r)) xs) (fld opts ''json'')
          (tr @ [Called (AllRedemptionRequests filters)])"
proof (intro exI conjI allI)
  show "listRequests_handler E opts h params tr =
        printRedemptionRequestsList (List.map (\<lambda>r. (int (rr_requestId r), r)) (sort_key (\<lambda>r. int (rr_requestId r)) rs))
          (fld opts ''json'') (tr @ [Called (AllRedemptionRequests filters)])"
    using assms
    by (simp add: listRequests_handler_def io_simps request_ids_ok bind_def outside_def ret_def
        flip: sorted_requests(1))
qed (rule sorted_requests)+

lemma requests_are_listed_by_id_witness:
  "\<exists>xs. mset xs = mset (List.map demo_request [3, 1, 2]) \<and> sorted (List.map rr_requestId xs)"
proof -
  let ?E = "demo [] [] True" and ?ps = "[(''tokenIn'', JPk MOCK_ONYC_DEVNET), (''tokenOut'', JPk MOCK_USDC_DEVNET)]"
  have e: "bnToNumber ?E (int n) = Inr (int n)"
    "rpcAllRedemptionRequests ?E tr fs = Inr (List.map demo_request [3, 1, 2])" for n tr fs
    by (simp_all add: demo_def)
  have "\<exists>pda. getRedemptionOfferPda ?E h (fld ?ps ''tokenIn'') (fld ?ps ''tokenOut'') = Inr pda" for h
    by (simp add: getRedemptionOfferPda_def key_buffer_def)
  then obtain pda where "getRedemptionOfferPda ?E (new_ScriptHelper ?E demo_boss demo_wallet []) (fld ?ps ''tokenIn'')
      (fld ?ps ''tokenOut'') = Inr pda" by blast
  moreover have "\<exists>fs. request_filters pda (fld ?ps ''redeemer'') = Inr fs" by (simp add: request_filters_def)
  ultimately show ?thesis
    using requests_are_listed_by_id [OF e] by blast
qed

text \<open>
  The filter by redeemer cannot be used: the answer of its prompt stays a text, and with a text that is
  not empty the command fails before it asks the node; the empty answer lists all requests.
\<close>

lemma redeemer_filter_fails:
  assumes "getRedemptionOfferPda E h (fld params ''tokenIn'') (fld params ''tokenOut'') = Inr pda"
    and "fld params ''redeemer'' = JStr s"
  shows "(\<forall>q\<in>set listRequestsParams. p_name q = ''redeemer'' \<longrightarrow> io_res (\<lambda>v. \<exists>s. v = JStr s) (promptForSingleParam E q))
    \<and> (if s = [] then request_filters pda (fld params ''redeemer'') = Inr [\<lparr>mf_offset = 8, mf_bytes = toBase58 pda\<rparr>]
       else listRequests_handler E opts h params tr = (Inl (TypeError ''toBase58 is not a function''), tr))"
proof
  show "\<forall>q\<in>set listRequestsParams. p_name q = ''redeemer'' \<longrightarrow> io_res (\<lambda>v. \<exists>s. v = JStr s) (promptForSingleParam E q)"
    by (auto simp: listRequestsParams_def redemptionTokenPairParams_def param_def promptForSingleParam_def
        intro!: io_res_bind io_res_ret)
  show "if s = [] then request_filters pda (fld params ''redeemer'') = Inr [\<lparr>mf_offset = 8, mf_bytes = toBase58 pda\<rparr>]
       else listRequests_handler E opts h params tr = (Inl (TypeError ''toBase58 is not a function''), tr)"
    using assms by (simp add: request_filters_def listRequests_handler_def io_simps js_toBase58_def throw_def bind_def ret_def)
qed

lemma redeemer_filter_fails_witness:
  "fst (listRequests_handler (demo [] [] True) [] (new_ScriptHelper (demo [] [] True) demo_boss demo_wallet [])
      [(''tokenIn'', JPk MOCK_ONYC_DEVNET), (''tokenOut'', JPk MOCK_USDC_DEVNET),
       (''redeemer'', JStr ''7rzEKejyAXJXMkGfRhMV9Vg1k7tFznBBEFu3sfLNz8LC'')] [])
     = Inl (TypeError ''toBase58 is not a function'')"
proof -
  let ?E = "demo [] [] True" and ?ps = "[(''tokenIn'', JPk MOCK_ONYC_DEVNET), (''tokenOut'', JPk MOCK_USDC_DEVNET),
       (''redeemer'', JStr ''7rzEKejyAXJXMkGfRhMV9Vg1k7tFznBBEFu3sfLNz8LC'')]"
  have "\<exists>pda. getRedemptionOfferPda ?E h (fld ?ps ''tokenIn'') (fld ?ps ''tokenOut'') = Inr pda" for h
    by (simp add: getRedemptionOfferPda_def key_buffer_def)
  then obtain pda where "getRedemptionOfferPda ?E (new_ScriptHelper ?E demo_boss demo_wallet []) (fld ?ps ''tokenIn'')
      (fld ?ps ''tokenOut'') = Inr pda" by blast
  from redeemer_filter_fails [OF this, of "''7rzEKejyAXJXMkGfRhMV9Vg1k7tFznBBEFu3sfLNz8LC''" "[]" "[]"]
  show ?thesis by simp
qed

section \<open>JSON mode\<close>

lemma create_prints_wallet:
  assumes "create E w tr = (Inr h, tr1)"
  shows "tr1 \<noteq> [] \<and> last tr1 = Log (''Wallet:  '' @ toBase58 (h_wallet h) @ '' ('' @ walletSource h @ '')'' @ newline)"
  using assms
  by (auto simp: create_def new_ScriptHelper_def andThen_def bind_def log_line_def tell_def ret_def throw_def
      split: option.splits prod.splits sum.splits)

text \<open>
  \<open>state get --json\<close> prints the state as one JSON text, but after the line of the wallet, so its output
  is not JSON.
\<close>

lemma json_state_follows_the_wallet_line:
  assumes "js_truthy (fld opts ''json'')" and "create E None tr = (Inr h, tr1)" and "stable_state E st"
  shows "executeStateGet E opts tr =
      (Inr (), tr1 @ [Called (FetchState (statePda h)), Log (json_stringify 0 (state_json st))])
    \<and> last tr1 = Log (''Wallet:  '' @ toBase58 (h_wallet h) @ '' ('' @ walletSource h @ '')'' @ newline)"
  using assms create_prints_wallet [OF assms(2)]
  by (simp add: executeStateGet_def executeCommand_def promptForParams_def getState_def printState_def json_line_def
      stable_state_def try_catch_def io_simps bind_def outside_def log_line_def tell_def ret_def andThen_def)

lemma json_state_follows_the_wallet_line_witness:
  "\<exists>h tr1. create (demo [] [] True) None [] = (Inr h, tr1) \<and>
     executeStateGet (demo [] [] True) [(''json'', JBool True)] [] =
       (Inr (), tr1 @ [Called (FetchState (statePda h)), Log (json_stringify 0 (state_json demo_state))])"
proof -
  obtain r tr1 where c: "create (demo [] [] True) None [] = (r, tr1)" by fastforce
  have "\<not> isl (fst (create (demo [] [] True) None []))" by code_simp
  with c obtain h where "r = Inr h" by (cases r) auto
  with c have "create (demo [] [] True) None [] = (Inr h, tr1)" by simp
  then show ?thesis
    using json_state_follows_the_wallet_line [OF _ _ demo_stable, where opts = "[(''json'', JBool True)]" and tr = "[]"]
    by fastforce
qed

end
