(* ===== verification/Chain_Core.thy ===== *)
theory Chain_Core
  imports Js_Values "HOL-Library.Word"
begin

text \<open>
  The on-chain program, \<^verbatim>\<open>programs/onreapp/src\<close>: the accounts it keeps (\<^verbatim>\<open>state.rs\<close>,
  \<^verbatim>\<open>offer_state.rs\<close>, \<^verbatim>\<open>redemption_offer_state.rs\<close>), its events and errors, checked arithmetic, and the
  interface of what surrounds it: the Solana runtime, derived addresses and the token program.
  An instruction handler is a function from the accounts it is given and the chain before to an error
  or the chain after; an error leaves the chain as it was. Integers are natural numbers with their
  width written out: \<open>u64\<close> amounts and times lie below \<open>2 ^ 64\<close>, \<open>u128\<close> values below \<open>2 ^ 128\<close>, and
  every addition, subtraction and multiplication that can leave the width is checked, as the source
  or the overflow checks of its release profile do.
\<close>

named_theorems chain_simps

section \<open>Results and checked arithmetic\<close>

text \<open>
  Errors: a variant of one of the program's error enums, a failed account constraint that names no
  error of its own, an error of the token program, and a panic (overflow check, division by zero, \<open>unwrap\<close>).
\<close>

datatype chain_error = Custom string string | Constraint string | TokenError string | Panic

text \<open>The question mark operator, \<open>require!\<close> with the rest of the handler, and \<open>ok_or\<close>.\<close>

fun attempt :: "chain_error + 'a \<Rightarrow> ('a \<Rightarrow> chain_error + 'b) \<Rightarrow> chain_error + 'b" where
  "attempt (Inl e) f = Inl e"
| "attempt (Inr x) f = f x"

definition require :: "bool \<Rightarrow> chain_error \<Rightarrow> chain_error + 'a \<Rightarrow> chain_error + 'a" where
  "require c e k = (if c then k else Inl e)"

fun ok_or :: "'a option \<Rightarrow> chain_error \<Rightarrow> chain_error + 'a" where
  "ok_or None e = Inl e"
| "ok_or (Some x) e = Inr x"

lemma attempt_Inr [simp]: "attempt r f = Inr y \<longleftrightarrow> (\<exists>x. r = Inr x \<and> f x = Inr y)"
  by (cases r) auto

lemma attempt_Inl [simp]: "attempt r f = Inl e \<longleftrightarrow> r = Inl e \<or> (\<exists>x. r = Inr x \<and> f x = Inl e)"
  by (cases r) auto

lemma require_Inr [simp]: "require c e k = Inr y \<longleftrightarrow> c \<and> k = Inr y"
  by (simp add: require_def)

lemma require_True [simp]: "require True e k = k"
  by (simp add: require_def)

lemma require_False [simp]: "require False e k = Inl e"
  by (simp add: require_def)

lemma require_Inl: "require c e k = Inl e' \<longleftrightarrow> \<not> c \<and> e = e' \<or> c \<and> k = Inl e'"
  by (auto simp: require_def)

lemma ok_or_Inr [simp]: "ok_or x e = Inr y \<longleftrightarrow> x = Some y"
  by (cases x) auto

lemma ok_or_Inl [simp]: "ok_or x e = Inl e' \<longleftrightarrow> x = None \<and> e = e'"
  by (cases x) auto

text \<open>The checked operations on unsigned integers of a width in bits.\<close>

definition checked_add :: "nat \<Rightarrow> nat \<Rightarrow> nat \<Rightarrow> nat option" where
  "checked_add w a b = (if a + b < 2 ^ w then Some (a + b) else None)"

definition checked_sub :: "nat \<Rightarrow> nat \<Rightarrow> nat option" where
  "checked_sub a b = (if b \<le> a then Some (a - b) else None)"

definition checked_mul :: "nat \<Rightarrow> nat \<Rightarrow> nat \<Rightarrow> nat option" where
  "checked_mul w a b = (if a * b < 2 ^ w then Some (a * b) else None)"

definition checked_div :: "nat \<Rightarrow> nat \<Rightarrow> nat option" where
  "checked_div a b = (if b = 0 then None else Some (a div b))"

lemma checked_add_Some [simp]: "checked_add w a b = Some c \<longleftrightarrow> c = a + b \<and> a + b < 2 ^ w"
  by (auto simp: checked_add_def)

lemma checked_add_None [simp]: "checked_add w a b = None \<longleftrightarrow> 2 ^ w \<le> a + b"
  by (auto simp: checked_add_def)

lemma checked_sub_Some [simp]: "checked_sub a b = Some c \<longleftrightarrow> c = a - b \<and> b \<le> a"
  by (auto simp: checked_sub_def)

lemma checked_sub_None [simp]: "checked_sub a b = None \<longleftrightarrow> a < b"
  by (auto simp: checked_sub_def)

lemma checked_mul_Some [simp]: "checked_mul w a b = Some c \<longleftrightarrow> c = a * b \<and> a * b < 2 ^ w"
  by (auto simp: checked_mul_def)

lemma checked_mul_None [simp]: "checked_mul w a b = None \<longleftrightarrow> 2 ^ w \<le> a * b"
  by (auto simp: checked_mul_def)

lemma checked_div_Some [simp]: "checked_div a b = Some c \<longleftrightarrow> c = a div b \<and> b \<noteq> 0"
  by (auto simp: checked_div_def)

lemma checked_div_None [simp]: "checked_div a b = None \<longleftrightarrow> b = 0"
  by (auto simp: checked_div_def)

section \<open>Accounts\<close>

definition MAX_VECTORS :: nat where "MAX_VECTORS = 10"
definition MAX_ADMINS :: nat where "MAX_ADMINS = 20"
definition PRICE_DECIMALS :: nat where "PRICE_DECIMALS = 9"
definition MAX_BASIS_POINTS :: nat where "MAX_BASIS_POINTS = 10000"
definition MAX_ALLOWED_FEE_BPS :: nat where "MAX_ALLOWED_FEE_BPS = 1000"

record State =
  boss :: pubkey
  proposed_boss :: pubkey
  is_killed :: bool
  onyc_mint :: pubkey
  admins :: "pubkey list"
  approver1 :: pubkey
  approver2 :: pubkey
  max_supply :: nat
  redemption_admin :: pubkey

record OfferVector =
  start_time :: nat
  base_time :: nat
  base_price :: nat
  apr :: nat
  price_fix_duration :: nat

definition OfferVector_default :: OfferVector where
  "OfferVector_default = \<lparr>start_time = 0, base_time = 0, base_price = 0, apr = 0, price_fix_duration = 0\<rparr>"

lemma OfferVector_default_start [simp]: "start_time OfferVector_default = 0"
  by (simp add: OfferVector_default_def)

record Offer =
  offer_token_in_mint :: pubkey
  offer_token_out_mint :: pubkey
  vectors :: "OfferVector list"
  fee_basis_points :: nat
  needs_approval_flag :: nat
  allow_permissionless_flag :: nat

definition needs_approval :: "Offer \<Rightarrow> bool" where
  "needs_approval off = (needs_approval_flag off \<noteq> 0)"

definition set_approval :: "bool \<Rightarrow> Offer \<Rightarrow> Offer" where
  "set_approval b off = off\<lparr>needs_approval_flag := if b then 1 else 0\<rparr>"

definition allow_permissionless :: "Offer \<Rightarrow> bool" where
  "allow_permissionless off = (allow_permissionless_flag off \<noteq> 0)"

definition set_permissionless :: "bool \<Rightarrow> Offer \<Rightarrow> Offer" where
  "set_permissionless b off = off\<lparr>allow_permissionless_flag := if b then 1 else 0\<rparr>"

record RedemptionOffer =
  ro_offer :: pubkey
  ro_token_in_mint :: pubkey
  ro_token_out_mint :: pubkey
  executed_redemptions :: nat
  requested_redemptions :: nat
  ro_fee_basis_points :: nat
  request_counter :: nat

record RedemptionRequest =
  rr_offer :: pubkey
  request_id :: nat
  redeemer :: pubkey
  amount :: nat

text \<open>
  A mint and the token accounts, kept by the token programs. A token account is the associated account
  of an owner for a mint. The transfer fee is the fee of the current epoch of a mint that has that
  extension: basis points and maximum.
\<close>

record Mint =
  mint_authority :: "pubkey option"
  mint_supply :: nat
  decimals :: nat
  transfer_fee :: "(nat \<times> nat) option"

record tokens =
  mints :: "pubkey \<Rightarrow> Mint option"
  balance :: "pubkey \<Rightarrow> pubkey \<Rightarrow> nat"

section \<open>Events\<close>

datatype (plugins only: code) chain_event =
    AdminAddedEvent pubkey pubkey
  | AdminRemovedEvent pubkey pubkey
  | AdminsClearedEvent pubkey
  | ApproverAddedEvent pubkey pubkey
  | ApproverRemovedEvent pubkey pubkey
  | BossProposedEvent pubkey pubkey
  | BossAcceptedEvent pubkey pubkey
  | KillSwitchToggledEvent bool pubkey
  | RedemptionAdminUpdatedEvent pubkey pubkey
  | ONycMintUpdatedEvent pubkey pubkey
  | MaxSupplyConfiguredEvent nat nat
  | StateClosedEvent pubkey pubkey
  | OfferMadeEvent pubkey pubkey pubkey nat pubkey bool bool
  | OfferVectorAddedEvent pubkey nat nat nat nat nat
  | OfferVectorEvictedEvent pubkey pubkey nat
  | OfferVectorDeletedEvent pubkey nat
  | AllOfferVectorsDeletedEvent pubkey nat
  | OfferFeeUpdatedEvent pubkey nat nat pubkey
  | OfferTakenEvent pubkey nat nat nat pubkey
  | OfferTakenPermissionlessEvent pubkey nat nat nat pubkey
  | RedemptionOfferCreatedEvent pubkey pubkey pubkey pubkey nat
  | RedemptionRequestCreatedEvent pubkey pubkey pubkey nat nat
  | RedemptionRequestFulfilledEvent pubkey pubkey pubkey nat nat nat nat
  | RedemptionRequestCancelledEvent pubkey pubkey pubkey nat pubkey
  | RedemptionOfferFeeUpdatedEvent pubkey nat nat pubkey
  | OfferVaultDepositEvent pubkey nat pubkey
  | OfferVaultWithdrawEvent pubkey nat pubkey
  | RedemptionVaultDepositEvent pubkey nat pubkey
  | RedemptionVaultWithdrawEvent pubkey nat pubkey
  | OnycTokensMintedEvent pubkey pubkey nat
  | MintAuthorityTransferredToBossEvent pubkey pubkey pubkey
  | MintAuthorityTransferredToProgramEvent pubkey pubkey pubkey
  | GetNAVEvent pubkey nat nat nat
  | GetAPYEvent pubkey nat nat nat
  | GetTVLEvent pubkey nat nat nat nat
  | GetCirculatingSupplyEvent nat nat nat nat
  | GetNavAdjustmentEvent pubkey nat "nat option" int nat

section \<open>The chain and what surrounds the program\<close>

text \<open>
  The accounts by address. The state account has one address, so it is there or not; the two authority
  accounts that the initialisation creates have no contents; \<open>tok\<close> are the mints and token accounts, \<open>events\<close> the events emitted so far.
\<close>

record chain =
  state_acc :: "State option"
  permissionless_acc :: "string option"
  authorities_created :: bool
  offers :: "pubkey \<Rightarrow> Offer option"
  redemption_offers :: "pubkey \<Rightarrow> RedemptionOffer option"
  redemption_requests :: "pubkey \<Rightarrow> RedemptionRequest option"
  tok :: tokens
  lamports :: "pubkey \<Rightarrow> nat"
  events :: "chain_event list"

text \<open>
  The runtime, a parameter: the program's id, \<open>find_program_address\<close> for it (the first component, the
  address, of a list of seeds), the time of the block as \<open>u64\<close>, and the operations of the token program.
  Their arguments: mint, source and destination owner, the owner or authority whose signature is on
  the call, and the amount.
\<close>

datatype seed = Seed string | KeySeed pubkey | U64Seed nat

record runtime =
  program_id :: pubkey
  find_program_address :: "seed list \<Rightarrow> pubkey"
  now :: nat
  transfer_checked :: "tokens \<Rightarrow> pubkey \<Rightarrow> pubkey \<Rightarrow> pubkey \<Rightarrow> pubkey \<Rightarrow> nat \<Rightarrow> chain_error + tokens"
  mint_to_checked :: "tokens \<Rightarrow> pubkey \<Rightarrow> pubkey \<Rightarrow> pubkey \<Rightarrow> nat \<Rightarrow> chain_error + tokens"
  burn_checked :: "tokens \<Rightarrow> pubkey \<Rightarrow> pubkey \<Rightarrow> pubkey \<Rightarrow> nat \<Rightarrow> chain_error + tokens"
  set_authority :: "tokens \<Rightarrow> pubkey \<Rightarrow> pubkey \<Rightarrow> pubkey \<Rightarrow> chain_error + tokens"

definition state_pda :: "runtime \<Rightarrow> pubkey" where
  "state_pda R = find_program_address R [Seed ''state'']"

definition offer_pda :: "runtime \<Rightarrow> pubkey \<Rightarrow> pubkey \<Rightarrow> pubkey" where
  "offer_pda R a b = find_program_address R [Seed ''offer'', KeySeed a, KeySeed b]"

definition vault_authority :: "runtime \<Rightarrow> pubkey" where
  "vault_authority R = find_program_address R [Seed ''offer_vault_authority'']"

definition permissionless_authority :: "runtime \<Rightarrow> pubkey" where
  "permissionless_authority R = find_program_address R [Seed ''permissionless-1'']"

definition mint_authority_pda :: "runtime \<Rightarrow> pubkey" where
  "mint_authority_pda R = find_program_address R [Seed ''mint_authority'']"

definition redemption_offer_pda :: "runtime \<Rightarrow> pubkey \<Rightarrow> pubkey \<Rightarrow> pubkey" where
  "redemption_offer_pda R a b = find_program_address R [Seed ''redemption_offer'', KeySeed a, KeySeed b]"

definition redemption_vault_authority :: "runtime \<Rightarrow> pubkey" where
  "redemption_vault_authority R = find_program_address R [Seed ''redemption_offer_vault_authority'']"

definition redemption_request_pda :: "runtime \<Rightarrow> pubkey \<Rightarrow> nat \<Rightarrow> pubkey" where
  "redemption_request_pda R ro n = find_program_address R [Seed ''redemption_request'', KeySeed ro, U64Seed n]"

definition emit :: "chain_event \<Rightarrow> chain \<Rightarrow> chain" where
  "emit e c = c\<lparr>events := events c @ [e]\<rparr>"

text \<open>
  The documented behaviour of the token program that the program relies on: an operation that succeeds
  was signed by the owner (or the mint's authority), moves exactly the amount, and touches nothing
  else; a transfer or a burn needs the balance. (Mints with a transfer fee are excluded where the program
  excludes them.)
\<close>

definition credit :: "pubkey \<Rightarrow> pubkey \<Rightarrow> nat \<Rightarrow> tokens \<Rightarrow> tokens" where
  "credit m a n t = t\<lparr>balance := (balance t)(a := (balance t a)(m := balance t a m + n))\<rparr>"

definition debit :: "pubkey \<Rightarrow> pubkey \<Rightarrow> nat \<Rightarrow> tokens \<Rightarrow> tokens" where
  "debit m a n t = t\<lparr>balance := (balance t)(a := (balance t a)(m := balance t a m - n))\<rparr>"

definition set_supply :: "pubkey \<Rightarrow> (nat \<Rightarrow> nat) \<Rightarrow> tokens \<Rightarrow> tokens" where
  "set_supply m f t = t\<lparr>mints := (mints t)(m := map_option (\<lambda>x. x\<lparr>mint_supply := f (mint_supply x)\<rparr>) (mints t m))\<rparr>"

definition plain_mint :: "tokens \<Rightarrow> pubkey \<Rightarrow> bool" where
  "plain_mint t m = (case mints t m of None \<Rightarrow> False
     | Some x \<Rightarrow> (case transfer_fee x of None \<Rightarrow> True | Some (bps, maximum_fee) \<Rightarrow> bps = 0 \<and> maximum_fee = 0))"

definition token_program_ok :: "runtime \<Rightarrow> bool" where
  "token_program_ok R =
    ((\<forall>t m a b s n t'. transfer_checked R t m a b s n = Inr t' \<longrightarrow> plain_mint t m \<longrightarrow>
        s = a \<and> n \<le> balance t a m \<and> t' = credit m b n (debit m a n t)) \<and>
     (\<forall>t m b s n t'. mint_to_checked R t m b s n = Inr t' \<longrightarrow>
        (\<exists>x. mints t m = Some x \<and> mint_authority x = Some s \<and> mint_supply x + n < 2 ^ 64) \<and>
        t' = credit m b n (set_supply m (\<lambda>s. s + n) t)) \<and>
     (\<forall>t m a s n t'. burn_checked R t m a s n = Inr t' \<longrightarrow>
        s = a \<and> n \<le> balance t a m \<and> (\<exists>x. mints t m = Some x \<and> n \<le> mint_supply x) \<and>
        t' = debit m a n (set_supply m (\<lambda>s. s - n) t)) \<and>
     (\<forall>t m s a t'. set_authority R t m s a = Inr t' \<longrightarrow>
        (\<exists>x. mints t m = Some x \<and> mint_authority x = Some s \<and>
          t' = t\<lparr>mints := (mints t)(m \<mapsto> x\<lparr>mint_authority := Some a\<rparr>)\<rparr>)))"

end
