(* ===== verification/Chain_State.thy ===== *)
theory Chain_State
  imports Chain_Core
begin

text \<open>
  The governance of the on-chain program: \<^verbatim>\<open>instructions/state_operations/*.rs\<close> and
  \<^verbatim>\<open>instructions/initialization/*.rs\<close>, one handler per instruction, with the account constraints
  of its \<open>Accounts\<close> struct first. \<open>signer\<close> is the key whose signature the transaction carries.
\<close>

section \<open>Account constraints\<close>

text \<open>
  The state account at its address; with \<open>has_one = boss\<close> and a boss that signs, the key of the signer
  is the boss on record. An update writes the account back.
\<close>

definition with_state :: "chain \<Rightarrow> (State \<Rightarrow> chain_error + 'a) \<Rightarrow> chain_error + 'a" where
  "with_state c k = attempt (ok_or (state_acc c) (Constraint ''AccountNotInitialized'')) k"

definition has_one_boss :: "pubkey \<Rightarrow> State \<Rightarrow> chain_error \<Rightarrow> chain_error + 'a \<Rightarrow> chain_error + 'a" where
  "has_one_boss signer s e k = require (boss s = signer) e k"

definition put_state :: "State \<Rightarrow> chain \<Rightarrow> chain" where
  "put_state s c = c\<lparr>state_acc := Some s\<rparr>"

definition as_boss :: "pubkey \<Rightarrow> chain \<Rightarrow> (State \<Rightarrow> chain_error + 'a) \<Rightarrow> chain_error + 'a" where
  "as_boss signer c k = with_state c (\<lambda>s. has_one_boss signer s (Constraint ''ConstraintHasOne'') (k s))"

lemma with_state_Inr [simp]: "with_state c k = Inr y \<longleftrightarrow> (\<exists>s. state_acc c = Some s \<and> k s = Inr y)"
  by (simp add: with_state_def)

lemma as_boss_Inr [simp]:
  "as_boss k c f = Inr y \<longleftrightarrow> (\<exists>s. state_acc c = Some s \<and> boss s = k \<and> f s = Inr y)"
  by (simp add: as_boss_def has_one_boss_def)

section \<open>Admins\<close>

text \<open>
  The loops over the slots: the first slot that holds a key, the first empty one being the first that
  holds the default key.
\<close>

fun replace_slot :: "pubkey \<Rightarrow> pubkey \<Rightarrow> pubkey list \<Rightarrow> pubkey list option" where
  "replace_slot old new [] = None"
| "replace_slot old new (a # as) =
     (if a = old then Some (new # as) else map_option (Cons a) (replace_slot old new as))"

definition add_admin :: "pubkey \<Rightarrow> pubkey \<Rightarrow> chain \<Rightarrow> chain_error + chain" where
  "add_admin signer new_admin c = as_boss signer c (\<lambda>s.
     require (new_admin \<notin> set (admins s)) (Custom ''AddAdminErrorCode'' ''AdminAlreadyExists'')
     (attempt (ok_or (replace_slot PublicKey_default new_admin (admins s))
                 (Custom ''AddAdminErrorCode'' ''MaxAdminsReached'')) (\<lambda>as.
      Inr (emit (AdminAddedEvent new_admin signer) (put_state (s\<lparr>admins := as\<rparr>) c)))))"

definition remove_admin :: "pubkey \<Rightarrow> pubkey \<Rightarrow> chain \<Rightarrow> chain_error + chain" where
  "remove_admin signer admin_to_remove c = as_boss signer c (\<lambda>s.
     attempt (ok_or (replace_slot admin_to_remove PublicKey_default (admins s))
                (Custom ''RemoveAdminErrorCode'' ''AdminNotFound'')) (\<lambda>as.
     Inr (emit (AdminRemovedEvent admin_to_remove signer) (put_state (s\<lparr>admins := as\<rparr>) c))))"

definition clear_admins :: "pubkey \<Rightarrow> chain \<Rightarrow> chain_error + chain" where
  "clear_admins signer c = as_boss signer c (\<lambda>s.
     Inr (emit (AdminsClearedEvent signer)
       (put_state (s\<lparr>admins := replicate MAX_ADMINS PublicKey_default\<rparr>) c)))"

section \<open>Approvers\<close>

definition add_approver :: "pubkey \<Rightarrow> pubkey \<Rightarrow> chain \<Rightarrow> chain_error + chain" where
  "add_approver signer approver c = as_boss signer c (\<lambda>s.
     if approver = PublicKey_default then Inl (Custom ''AddApproverError'' ''InvalidApprover'')
     else if approver1 s = approver \<or> approver2 s = approver
       then Inl (Custom ''AddApproverError'' ''ApproverAlreadyExists'')
     else if approver1 s = PublicKey_default
       then Inr (emit (ApproverAddedEvent approver signer) (put_state (s\<lparr>approver1 := approver\<rparr>) c))
     else if approver2 s = PublicKey_default
       then Inr (emit (ApproverAddedEvent approver signer) (put_state (s\<lparr>approver2 := approver\<rparr>) c))
     else Inl (Custom ''AddApproverError'' ''BothApproversFilled''))"

definition remove_approver :: "pubkey \<Rightarrow> pubkey \<Rightarrow> chain \<Rightarrow> chain_error + chain" where
  "remove_approver signer approver c = as_boss signer c (\<lambda>s.
     if approver = PublicKey_default then Inl (Custom ''RemoveApproverError'' ''InvalidApprover'')
     else if approver1 s = approver
       then Inr (emit (ApproverRemovedEvent approver signer) (put_state (s\<lparr>approver1 := PublicKey_default\<rparr>) c))
     else if approver2 s = approver
       then Inr (emit (ApproverRemovedEvent approver signer) (put_state (s\<lparr>approver2 := PublicKey_default\<rparr>) c))
     else Inl (Custom ''RemoveApproverError'' ''NotAnApprover''))"

section \<open>The boss\<close>

definition propose_boss :: "pubkey \<Rightarrow> pubkey \<Rightarrow> chain \<Rightarrow> chain_error + chain" where
  "propose_boss signer new_boss c = as_boss signer c (\<lambda>s.
     require (new_boss \<noteq> PublicKey_default) (Custom ''ProposeBossErrorCode'' ''InvalidBossAddress'')
     (Inr (emit (BossProposedEvent signer new_boss) (put_state (s\<lparr>proposed_boss := new_boss\<rparr>) c))))"

definition accept_boss :: "pubkey \<Rightarrow> chain \<Rightarrow> chain_error + chain" where
  "accept_boss signer c = with_state c (\<lambda>s.
     require (proposed_boss s \<noteq> PublicKey_default) (Custom ''AcceptBossErrorCode'' ''NoBossProposal'')
     (require (signer = proposed_boss s) (Custom ''AcceptBossErrorCode'' ''NotProposedBoss'')
     (Inr (emit (BossAcceptedEvent (boss s) (proposed_boss s))
        (put_state (s\<lparr>boss := proposed_boss s, proposed_boss := PublicKey_default\<rparr>) c)))))"

section \<open>Kill switch and configuration\<close>

definition set_kill_switch :: "pubkey \<Rightarrow> bool \<Rightarrow> chain \<Rightarrow> chain_error + chain" where
  "set_kill_switch signer enable c = with_state c (\<lambda>s.
     let boss_signed = (boss s = signer); admin_signed = (signer \<in> set (admins s));
         toggle = (\<lambda>b. Inr (emit (KillSwitchToggledEvent enable signer) (put_state (s\<lparr>is_killed := b\<rparr>) c))) in
     if enable
     then require (boss_signed \<or> admin_signed) (Custom ''ErrorCode'' ''UnauthorizedToEnable'') (toggle True)
     else require boss_signed (Custom ''ErrorCode'' ''OnlyBossCanDisable'') (toggle False))"

definition set_redemption_admin :: "pubkey \<Rightarrow> pubkey \<Rightarrow> chain \<Rightarrow> chain_error + chain" where
  "set_redemption_admin signer new_admin c = as_boss signer c (\<lambda>s.
     require (new_admin \<noteq> redemption_admin s) (Custom ''SetRedemptionAdminErrorCode'' ''NoChange'')
     (Inr (emit (RedemptionAdminUpdatedEvent (redemption_admin s) new_admin)
        (put_state (s\<lparr>redemption_admin := new_admin\<rparr>) c))))"

definition set_onyc_mint :: "pubkey \<Rightarrow> pubkey \<Rightarrow> chain \<Rightarrow> chain_error + chain" where
  "set_onyc_mint signer mint c = as_boss signer c (\<lambda>s.
     require (mints (tok c) mint \<noteq> None) (Constraint ''AccountNotInitialized'')
     (Inr (emit (ONycMintUpdatedEvent (onyc_mint s) mint) (put_state (s\<lparr>onyc_mint := mint\<rparr>) c))))"

definition configure_max_supply :: "pubkey \<Rightarrow> nat \<Rightarrow> chain \<Rightarrow> chain_error + chain" where
  "configure_max_supply signer cap c = as_boss signer c (\<lambda>s.
     Inr (emit (MaxSupplyConfiguredEvent (max_supply s) cap) (put_state (s\<lparr>max_supply := cap\<rparr>) c)))"

text \<open>
  Closing takes an unchecked account: \<open>state_key\<close> is the key that was passed, and only the account at
  the program's state address is owned by the program and holds a boss in its data. The lamports go to
  the boss. When the boss is the state account itself the sum is written and then zeroed.
\<close>

definition close_state :: "runtime \<Rightarrow> pubkey \<Rightarrow> pubkey \<Rightarrow> chain \<Rightarrow> chain_error + chain" where
  "close_state R state_key signer c = (
     let owned = (state_key = state_pda R \<and> state_acc c \<noteq> None) \<or> offers c state_key \<noteq> None \<or>
           redemption_offers c state_key \<noteq> None \<or> redemption_requests c state_key \<noteq> None \<or>
           (state_key = permissionless_authority R \<and> permissionless_acc c \<noteq> None) \<or>
           (state_key \<in> {mint_authority_pda R, vault_authority R} \<and> authorities_created c) in
     require owned (Custom ''CloseStateErrorCode'' ''InvalidStateOwner'')
     (require (state_key = state_pda R) (Custom ''CloseStateErrorCode'' ''InvalidStatePda'')
     (attempt (ok_or (state_acc c) (Custom ''CloseStateErrorCode'' ''InvalidStateData'')) (\<lambda>s.
      require (signer = boss s) (Custom ''CloseStateErrorCode'' ''UnauthorizedSigner'')
     (attempt (ok_or (checked_add 64 (lamports c signer) (lamports c state_key))
                 (Custom ''CloseStateErrorCode'' ''LamportOverflow'')) (\<lambda>after.
      Inr (emit (StateClosedEvent state_key signer)
         (c\<lparr>state_acc := None, lamports := (lamports c)(signer := after, state_key := 0)\<rparr>))))))))"

section \<open>Initialisation\<close>

text \<open>
  The program account and its data account as the handler sees them: owner and key, and what bincode
  reads from the data: not a loader state, another loader state, or program data with its authority.
\<close>

datatype loader_state = Undecodable | OtherLoaderState | ProgramData "pubkey option"

record account_info =
  info_key :: pubkey
  info_owner :: pubkey
  info_data :: loader_state

definition get_upgrade_authority ::
  "pubkey \<Rightarrow> (pubkey \<Rightarrow> pubkey) \<Rightarrow> account_info \<Rightarrow> account_info option \<Rightarrow> chain_error + pubkey option" where
  "get_upgrade_authority loader get_program_data_address program program_data =
     (if info_owner program = loader
      then attempt (ok_or program_data (Custom ''InitializeErrorCode'' ''MissingProgramData'')) (\<lambda>pd.
        require (info_owner pd = loader) (Custom ''InitializeErrorCode'' ''WrongOwner'')
        (require (get_program_data_address (info_key program) = info_key pd)
           (Custom ''InitializeErrorCode'' ''WrongProgramData'')
        (case info_data pd of
           Undecodable \<Rightarrow> Inl (Constraint ''InvalidAccountData'')
         | ProgramData auth \<Rightarrow> Inr auth
         | OtherLoaderState \<Rightarrow> Inl (Custom ''InitializeErrorCode'' ''NotProgramData''))))
      else Inl (Custom ''InitializeErrorCode'' ''WrongOwner''))"

definition new_State :: "pubkey \<Rightarrow> pubkey \<Rightarrow> State" where
  "new_State b mint = \<lparr>boss = b, proposed_boss = PublicKey_default, is_killed = False, onyc_mint = mint,
     admins = replicate MAX_ADMINS PublicKey_default, approver1 = PublicKey_default,
     approver2 = PublicKey_default, max_supply = 0, redemption_admin = PublicKey_default\<rparr>"

text \<open>
  The state account is created by the instruction (\<open>init\<close>), so it must not exist; a new account is all
  zeros, with the default key as its boss. The executable account must be the program itself.
\<close>

definition initialize ::
  "runtime \<Rightarrow> pubkey \<Rightarrow> (pubkey \<Rightarrow> pubkey) \<Rightarrow> account_info \<Rightarrow> account_info option \<Rightarrow> pubkey \<Rightarrow> pubkey \<Rightarrow>
    chain \<Rightarrow> chain_error + chain" where
  "initialize R loader data_address program program_data signer mint c =
     require (state_acc c = None) (Constraint ''AccountAlreadyInUse'')
     (require (info_key program = program_id R) (Constraint ''ConstraintAddress'')
     (require (mints (tok c) mint \<noteq> None) (Constraint ''AccountNotInitialized'')
     (attempt (get_upgrade_authority loader data_address program program_data) (\<lambda>auth.
      require (case auth of None \<Rightarrow> True | Some k \<Rightarrow> signer = k) (Custom ''InitializeErrorCode'' ''WrongOwner'')
     (Inr (put_state (new_State signer mint) (c\<lparr>authorities_created := True\<rparr>)))))))"

text \<open>
  \<open>trim\<close> is that of Rust; the names are ASCII here. A name of more than 50 bytes does not fit the space of
  the account.
\<close>

definition rust_trim :: "string \<Rightarrow> string" where
  "rust_trim s = (let ws = (\<lambda>x. x \<in> set [CHR '' '', CHR 0x09, CHR 0x0A, CHR 0x0B, CHR 0x0C, CHR 0x0D]) in
     rev (dropWhile ws (rev (dropWhile ws s))))"

definition initialize_permissionless_authority :: "pubkey \<Rightarrow> string \<Rightarrow> chain \<Rightarrow> chain_error + chain" where
  "initialize_permissionless_authority signer name c =
     require (permissionless_acc c = None) (Constraint ''AccountAlreadyInUse'')
     (as_boss signer c (\<lambda>s.
      let name_cleaned = rust_trim name in
      require (name_cleaned \<noteq> []) (Custom ''InitializePermissionlessErrorCode'' ''InvalidPermissionlessAccountName'')
     (require (length name_cleaned \<le> 50) (Constraint ''AccountDidNotSerialize'')
     (Inr (c\<lparr>permissionless_acc := Some name_cleaned\<rparr>)))))"

lemmas state_op_defs = add_admin_def remove_admin_def clear_admins_def add_approver_def remove_approver_def
  propose_boss_def accept_boss_def set_kill_switch_def set_redemption_admin_def set_onyc_mint_def
  configure_max_supply_def close_state_def initialize_def initialize_permissionless_authority_def

end
