(* ===== verification/Chain_Offer.thy ===== *)
theory Chain_Offer
  imports Chain_State
begin

text \<open>
  Offers of the on-chain program: the choice of the pricing vector and the price it gives
  (\<^verbatim>\<open>offer/offer_utils.rs\<close>), and the instructions of the boss that make an offer, change its fee
  and add and delete vectors (\<^verbatim>\<open>offer/*.rs\<close>).
\<close>

section \<open>Iterator adaptors\<close>

text \<open>\<open>max_by_key\<close> gives the last of the greatest elements, \<open>min_by_key\<close> the first of the least.\<close>

fun max_by_key :: "('a \<Rightarrow> nat) \<Rightarrow> 'a list \<Rightarrow> 'a option" where
  "max_by_key f [] = None"
| "max_by_key f (x # xs) = Some (foldl (\<lambda>b y. if f b \<le> f y then y else b) x xs)"

fun min_by_key :: "('a \<Rightarrow> nat) \<Rightarrow> 'a list \<Rightarrow> 'a option" where
  "min_by_key f [] = None"
| "min_by_key f (x # xs) = Some (foldl (\<lambda>b y. if f y < f b then y else b) x xs)"

fun position :: "('a \<Rightarrow> bool) \<Rightarrow> 'a list \<Rightarrow> nat option" where
  "position P [] = None"
| "position P (x # xs) = (if P x then Some 0 else map_option Suc (position P xs))"

section \<open>Pricing\<close>

definition SECONDS_IN_YEAR :: nat where "SECONDS_IN_YEAR = 31536000"
definition APR_SCALE :: nat where "APR_SCALE = 1000000"

definition find_active_vector_at :: "Offer \<Rightarrow> nat \<Rightarrow> chain_error + OfferVector" where
  "find_active_vector_at off t =
     ok_or (max_by_key start_time
        (List.filter (\<lambda>v. start_time v \<noteq> 0 \<and> start_time v \<le> t) (vectors off)))
       (Custom ''OfferCoreError'' ''NoActiveVector'')"

definition calculate_vector_price :: "nat \<Rightarrow> nat \<Rightarrow> nat \<Rightarrow> chain_error + nat" where
  "calculate_vector_price rate p0 elapsed_time = (
     let overflow = Custom ''OfferCoreError'' ''OverflowError'' in
     attempt (ok_or (checked_mul 128 APR_SCALE SECONDS_IN_YEAR) Panic) (\<lambda>factor_den.
     attempt (ok_or (checked_mul 128 rate elapsed_time) overflow) (\<lambda>y_part.
     attempt (ok_or (checked_add 128 factor_den y_part) overflow) (\<lambda>factor_num.
     attempt (ok_or (checked_mul 128 p0 factor_num) overflow) (\<lambda>scaled.
     attempt (ok_or (checked_div scaled factor_den) overflow) (\<lambda>price.
     require (price \<le> 2 ^ 64 - 1) overflow (Inr price)))))))"

definition calculate_step_price_at :: "nat \<Rightarrow> nat \<Rightarrow> nat \<Rightarrow> nat \<Rightarrow> nat \<Rightarrow> chain_error + nat" where
  "calculate_step_price_at rate p0 base duration t =
     require (base \<le> t) (Custom ''OfferCoreError'' ''NoActiveVector'')
     (attempt (ok_or (checked_div (t - base) duration) Panic) (\<lambda>current_step.
      attempt (ok_or (checked_add 64 current_step 1) Panic) (\<lambda>next_step.
      attempt (ok_or (checked_mul 64 next_step duration)
                (Custom ''OfferCoreError'' ''OverflowError'')) (\<lambda>step_end_time.
      calculate_vector_price rate p0 step_end_time))))"

definition calculate_current_step_price :: "runtime \<Rightarrow> nat \<Rightarrow> nat \<Rightarrow> nat \<Rightarrow> nat \<Rightarrow> chain_error + nat" where
  "calculate_current_step_price R rate p0 base duration =
     calculate_step_price_at rate p0 base duration (now R)"

definition find_vector_index_by_start_time :: "Offer \<Rightarrow> nat \<Rightarrow> nat option" where
  "find_vector_index_by_start_time off t = position (\<lambda>v. start_time v = t) (vectors off)"

section \<open>Instructions on offers\<close>

text \<open>The offer account of two mints, which must hold these mints, as the \<open>Accounts\<close> structs require.\<close>

definition with_offer ::
  "runtime \<Rightarrow> pubkey \<Rightarrow> pubkey \<Rightarrow> chain \<Rightarrow> (Offer \<Rightarrow> chain_error + 'a) \<Rightarrow> chain_error + 'a" where
  "with_offer R tin tout c k =
     attempt (ok_or (offers c (offer_pda R tin tout)) (Constraint ''AccountNotInitialized'')) (\<lambda>off.
     require (tin = offer_token_in_mint off) (Custom ''OfferCoreError'' ''InvalidTokenInMint'')
     (require (tout = offer_token_out_mint off) (Custom ''OfferCoreError'' ''InvalidTokenOutMint'') (k off)))"

definition put_offer :: "pubkey \<Rightarrow> Offer \<Rightarrow> chain \<Rightarrow> chain" where
  "put_offer a off c = c\<lparr>offers := (offers c)(a \<mapsto> off)\<rparr>"

lemma with_offer_Inr [simp]:
  "with_offer R a b c k = Inr y \<longleftrightarrow> (\<exists>off. offers c (offer_pda R a b) = Some off \<and>
     offer_token_in_mint off = a \<and> offer_token_out_mint off = b \<and> k off = Inr y)"
  by (auto simp: with_offer_def)

definition make_offer ::
  "runtime \<Rightarrow> pubkey \<Rightarrow> pubkey \<Rightarrow> pubkey \<Rightarrow> nat \<Rightarrow> bool \<Rightarrow> bool \<Rightarrow> chain \<Rightarrow> chain_error + chain" where
  "make_offer R signer tin tout fee needs allow c = (
     let pda = offer_pda R tin tout in
     require (mints (tok c) tin \<noteq> None \<and> mints (tok c) tout \<noteq> None) (Constraint ''AccountNotInitialized'')
     (require (offers c pda = None) (Constraint ''AccountAlreadyInUse'')
     (as_boss signer c (\<lambda>s.
      require (fee \<le> MAX_ALLOWED_FEE_BPS) (Custom ''MakeOfferErrorCode'' ''InvalidFee'')
     (Inr (emit (OfferMadeEvent pda tin tout fee signer needs allow)
        (put_offer pda
          (set_permissionless allow (set_approval needs
            \<lparr>offer_token_in_mint = tin, offer_token_out_mint = tout,
             vectors = replicate MAX_VECTORS OfferVector_default, fee_basis_points = fee,
             needs_approval_flag = 0, allow_permissionless_flag = 0\<rparr>)) c)))))))"

definition update_offer_fee ::
  "runtime \<Rightarrow> pubkey \<Rightarrow> pubkey \<Rightarrow> pubkey \<Rightarrow> nat \<Rightarrow> chain \<Rightarrow> chain_error + chain" where
  "update_offer_fee R signer tin tout new_fee c = with_offer R tin tout c (\<lambda>off. as_boss signer c (\<lambda>s.
     require (new_fee \<le> MAX_BASIS_POINTS) (Custom ''UpdateOfferFeeErrorCode'' ''InvalidFee'')
     (Inr (emit (OfferFeeUpdatedEvent (offer_pda R tin tout) (fee_basis_points off) new_fee signer)
        (put_offer (offer_pda R tin tout) (off\<lparr>fee_basis_points := new_fee\<rparr>) c)))))"

definition validate_inputs :: "nat \<Rightarrow> nat \<Rightarrow> nat \<Rightarrow> nat \<Rightarrow> nat \<Rightarrow> Offer \<Rightarrow> chain_error + unit" where
  "validate_inputs start base price duration current off = (
     let err = (\<lambda>v. Custom ''AddOfferVectorErrorCode'' v);
         existing = List.filter (\<lambda>t. t \<noteq> 0) (List.map start_time (vectors off)) in
     require (current \<le> start) (err ''StartTimeInPast'')
     (require (0 < base) (err ''ZeroValue'')
     (require (0 < price) (err ''ZeroValue'')
     (require (0 < duration) (err ''ZeroValue'')
     (require (start \<notin> set existing) (err ''DuplicateStartTime'')
     (require (existing = [] \<or> foldl max 0 existing < start) (err ''InvalidTimeRange'')
     (Inr ())))))))"

text \<open>
  Only the active vector, the one before it and future vectors survive; the events of the evicted
  vectors come in the order of the slots. The subtraction of one is checked.
\<close>

definition evicted :: "nat \<Rightarrow> nat \<Rightarrow> OfferVector \<Rightarrow> bool" where
  "evicted active prev v = (start_time v \<noteq> 0 \<and> start_time v \<noteq> active \<and> start_time v \<noteq> prev \<and>
     start_time v < active)"

definition clean_old_vectors :: "Offer \<Rightarrow> OfferVector \<Rightarrow> nat \<Rightarrow> chain_error + Offer \<times> chain_event list" where
  "clean_old_vectors off new_vector current = (
     let active = (if start_time new_vector = current then Inr new_vector
                   else find_active_vector_at off current) in
     case active of
       Inl _ \<Rightarrow> Inr (off, [])
     | Inr av \<Rightarrow>
         attempt (ok_or (checked_sub (start_time av) 1) Panic) (\<lambda>before.
         let prev = (case find_active_vector_at off before of Inr v \<Rightarrow> start_time v | Inl _ \<Rightarrow> 0);
             gone = evicted (start_time av) prev in
         Inr (off\<lparr>vectors := List.map (\<lambda>v. if gone v then OfferVector_default else v) (vectors off)\<rparr>,
              List.map (\<lambda>v. OfferVectorEvictedEvent (offer_token_in_mint off) (offer_token_out_mint off)
                 (start_time v)) (List.filter gone (vectors off)))))"

definition add_offer_vector ::
  "runtime \<Rightarrow> pubkey \<Rightarrow> pubkey \<Rightarrow> pubkey \<Rightarrow> nat option \<Rightarrow> nat \<Rightarrow> nat \<Rightarrow> nat \<Rightarrow> nat \<Rightarrow> chain \<Rightarrow> chain_error + chain" where
  "add_offer_vector R signer tin tout start_opt base price rate duration c =
     with_offer R tin tout c (\<lambda>off. as_boss signer c (\<lambda>s.
     let start = (case start_opt of Some t \<Rightarrow> t | None \<Rightarrow> max (now R) base);
         new = \<lparr>start_time = start, base_time = base, base_price = price, apr = rate,
                price_fix_duration = duration\<rparr> in
     attempt (validate_inputs start base price duration (now R) off) (\<lambda>_.
     attempt (clean_old_vectors off new (now R)) (\<lambda>(cleaned, evs).
     attempt (ok_or (find_vector_index_by_start_time cleaned 0)
                (Custom ''AddOfferVectorErrorCode'' ''TooManyVectors'')) (\<lambda>i.
     Inr (emit (OfferVectorAddedEvent (offer_pda R tin tout) start base price rate duration)
       (fold emit evs
         (put_offer (offer_pda R tin tout) (cleaned\<lparr>vectors := (vectors cleaned)[i := new]\<rparr>) c))))))))"

definition delete_offer_vector ::
  "runtime \<Rightarrow> pubkey \<Rightarrow> pubkey \<Rightarrow> pubkey \<Rightarrow> nat \<Rightarrow> chain \<Rightarrow> chain_error + chain" where
  "delete_offer_vector R signer tin tout start c = with_offer R tin tout c (\<lambda>off. as_boss signer c (\<lambda>s.
     require (now R < start) (Custom ''DeleteOfferVectorErrorCode'' ''StartTimeInPast'')
     (attempt (ok_or (find_vector_index_by_start_time off start)
                 (Custom ''DeleteOfferVectorErrorCode'' ''VectorNotFound'')) (\<lambda>i.
      Inr (emit (OfferVectorDeletedEvent (offer_pda R tin tout) start)
        (put_offer (offer_pda R tin tout) (off\<lparr>vectors := (vectors off)[i := OfferVector_default]\<rparr>) c))))))"

definition delete_all_offer_vectors ::
  "runtime \<Rightarrow> pubkey \<Rightarrow> pubkey \<Rightarrow> pubkey \<Rightarrow> chain \<Rightarrow> chain_error + chain" where
  "delete_all_offer_vectors R signer tin tout c = with_offer R tin tout c (\<lambda>off. as_boss signer c (\<lambda>s.
     let live = List.filter (\<lambda>v. start_time v \<noteq> 0) (vectors off) in
     Inr (emit (AllOfferVectorsDeletedEvent (offer_pda R tin tout) (length live))
       (put_offer (offer_pda R tin tout)
         (off\<lparr>vectors := List.map (\<lambda>v. if start_time v \<noteq> 0 then OfferVector_default else v) (vectors off)\<rparr>) c))))"

lemmas offer_op_defs = make_offer_def update_offer_fee_def add_offer_vector_def delete_offer_vector_def
  delete_all_offer_vectors_def

end
