(* ===== verification/Chain_Token.thy ===== *)
theory Chain_Token
  imports Chain_Offer
begin

text \<open>
  Token amounts and token movements of the on-chain program, \<^verbatim>\<open>utils/token_utils.rs\<close>: fees, the amount
  of a purchase, prices as text, and the composed operations on token accounts that a trade runs. Token
  accounts are named by their owner; the mints of an instruction are the copies read when it started.
\<close>

section \<open>Amounts\<close>

definition MAX_TOKEN_DECIMALS :: nat where "MAX_TOKEN_DECIMALS = 18"

definition token_err :: "string \<Rightarrow> chain_error" where
  "token_err v = Custom ''TokenUtilsErrorCode'' v"

definition calculate_token_out_amount :: "nat \<Rightarrow> nat \<Rightarrow> nat \<Rightarrow> nat \<Rightarrow> chain_error + nat" where
  "calculate_token_out_amount token_in price in_decimals out_decimals =
     require (0 < price) (token_err ''ZeroPriceNotAllowed'')
     (require (in_decimals \<le> MAX_TOKEN_DECIMALS) (token_err ''DecimalsExceedMax'')
     (require (out_decimals \<le> MAX_TOKEN_DECIMALS) (token_err ''DecimalsExceedMax'')
     (attempt (ok_or (checked_mul 128 token_in (10 ^ (out_decimals + PRICE_DECIMALS)))
                 (token_err ''MathOverflow'')) (\<lambda>numerator.
      attempt (ok_or (checked_mul 128 price (10 ^ in_decimals)) (token_err ''MathOverflow'')) (\<lambda>denominator.
      let result = numerator div denominator in
      require (result \<le> 2 ^ 64 - 1) (token_err ''ResultOverflow'') (Inr result))))))"

text \<open>The result is the fee and the net amount; the cast of the fee to \<open>u64\<close> wraps.\<close>

definition calculate_fees :: "nat \<Rightarrow> nat \<Rightarrow> chain_error + nat \<times> nat" where
  "calculate_fees token_in bps =
     attempt (ok_or (checked_mul 128 token_in bps) (token_err ''MathOverflow'')) (\<lambda>scaled.
     attempt (ok_or (Option.bind (checked_add 128 scaled (MAX_BASIS_POINTS - 1))
                       (\<lambda>adjusted. checked_div adjusted MAX_BASIS_POINTS)) (token_err ''MathOverflow'')) (\<lambda>q.
     let fee = q mod 2 ^ 64 in
     attempt (ok_or (checked_sub token_in fee) (token_err ''MathOverflow'')) (\<lambda>net.
     Inr (fee, net))))"

text \<open>A price with its nine decimals, without trailing zeros.\<close>

fun strip_zeros :: "string \<Rightarrow> string" where
  "strip_zeros [] = []"
| "strip_zeros (ch # s) = (if ch = CHR ''0'' then strip_zeros s else ch # s)"

definition u64_to_dec9 :: "nat \<Rightarrow> string" where
  "u64_to_dec9 n = (let int_part = n div 1000000000; frac_part = n mod 1000000000 in
     if frac_part = 0 then nat_str int_part
     else nat_str int_part @ ''.'' @ rev (strip_zeros (rev (pad_left 9 (nat_str frac_part)))))"

section \<open>Token operations\<close>

definition program_controls_mint :: "Mint \<Rightarrow> pubkey \<Rightarrow> bool" where
  "program_controls_mint m pda = (mint_authority m = Some pda)"

definition has_transfer_fee :: "Mint \<Rightarrow> bool" where
  "has_transfer_fee m = (case transfer_fee m of None \<Rightarrow> False
     | Some (bps, maximum_fee) \<Rightarrow> 0 < bps \<or> 0 < maximum_fee)"

definition transfer_tokens ::
  "runtime \<Rightarrow> pubkey \<Rightarrow> pubkey \<Rightarrow> pubkey \<Rightarrow> pubkey \<Rightarrow> nat \<Rightarrow> tokens \<Rightarrow> chain_error + tokens" where
  "transfer_tokens R m from_account to_account authority n t = transfer_checked R t m from_account to_account authority n"

definition mint_tokens ::
  "runtime \<Rightarrow> pubkey \<Rightarrow> Mint \<Rightarrow> pubkey \<Rightarrow> pubkey \<Rightarrow> nat \<Rightarrow> nat \<Rightarrow> tokens \<Rightarrow> chain_error + tokens" where
  "mint_tokens R m mint to_account authority n cap t =
     attempt (if 0 < cap
       then attempt (ok_or (checked_add 64 (mint_supply mint) n) (token_err ''MathOverflow'')) (\<lambda>new_supply.
              require (new_supply \<le> cap) (token_err ''MaxSupplyExceeded'') (Inr ()))
       else Inr ()) (\<lambda>_. mint_to_checked R t m to_account authority n)"

definition burn_tokens ::
  "runtime \<Rightarrow> pubkey \<Rightarrow> pubkey \<Rightarrow> pubkey \<Rightarrow> nat \<Rightarrow> tokens \<Rightarrow> chain_error + tokens" where
  "burn_tokens R m from_account authority n t = burn_checked R t m from_account authority n"

record ExecTokenOpsParams =
  token_in_mint :: pubkey
  token_in_net_amount :: nat
  token_in_fee_amount :: nat
  token_in_authority :: pubkey
  token_in_source_account :: pubkey
  token_in_destination_account :: pubkey
  token_in_burn_account :: pubkey
  token_in_burn_authority :: pubkey
  token_out_mint :: pubkey
  token_out_amount :: nat
  token_out_authority :: pubkey
  token_out_source_account :: pubkey
  token_out_destination_account :: pubkey
  token_out_mint_authority :: pubkey
  token_out_max_supply :: nat

definition pay_token_in ::
  "runtime \<Rightarrow> ExecTokenOpsParams \<Rightarrow> Mint \<Rightarrow> tokens \<Rightarrow> chain_error + tokens" where
  "pay_token_in R p mint_in t =
     (if program_controls_mint mint_in (token_out_mint_authority p)
      then attempt (transfer_tokens R (token_in_mint p) (token_in_source_account p) (token_in_burn_account p)
                     (token_in_authority p) (token_in_net_amount p) t) (\<lambda>t.
           attempt (burn_tokens R (token_in_mint p) (token_in_burn_account p) (token_in_burn_authority p)
                     (token_in_net_amount p) t) (\<lambda>t.
           if 0 < token_in_fee_amount p
           then transfer_tokens R (token_in_mint p) (token_in_source_account p) (token_in_destination_account p)
                  (token_in_authority p) (token_in_fee_amount p) t
           else Inr t))
      else attempt (ok_or (checked_add 64 (token_in_net_amount p) (token_in_fee_amount p))
                      (token_err ''MathOverflow'')) (\<lambda>total.
           transfer_tokens R (token_in_mint p) (token_in_source_account p) (token_in_destination_account p)
             (token_in_authority p) total t))"

definition pay_token_out ::
  "runtime \<Rightarrow> ExecTokenOpsParams \<Rightarrow> Mint \<Rightarrow> tokens \<Rightarrow> chain_error + tokens" where
  "pay_token_out R p mint_out t =
     (if program_controls_mint mint_out (token_out_mint_authority p)
      then mint_tokens R (token_out_mint p) mint_out (token_out_destination_account p)
             (token_out_mint_authority p) (token_out_amount p) (token_out_max_supply p) t
      else transfer_tokens R (token_out_mint p) (token_out_source_account p) (token_out_destination_account p)
             (token_out_authority p) (token_out_amount p) t)"

definition execute_token_operations ::
  "runtime \<Rightarrow> ExecTokenOpsParams \<Rightarrow> Mint \<Rightarrow> Mint \<Rightarrow> tokens \<Rightarrow> chain_error + tokens" where
  "execute_token_operations R p mint_in mint_out t =
     require (\<not> has_transfer_fee mint_in) (token_err ''TransferFeeNotSupported'')
     (require (\<not> has_transfer_fee mint_out) (token_err ''TransferFeeNotSupported'')
     (attempt (pay_token_in R p mint_in t) (pay_token_out R p mint_out)))"

end
