(* ===== verification/Chain_Approval.thy ===== *)
theory Chain_Approval
  imports Chain_Core
begin

text \<open>
  Off-chain approvals: the parser of an Ed25519 instruction (\<^verbatim>\<open>utils/ed25519_parser.rs\<close>) and the check of
  an approval message against the instruction before the current one (\<^verbatim>\<open>utils/approver/*.rs\<close>). Bytes are
  words of eight bits.
\<close>

section \<open>The Ed25519 instruction\<close>

record ParsedEd25519 =
  sig_count :: "8 word"
  ed_pubkey :: "8 word list"
  ed_message :: "8 word list"

text \<open>\<open>u16::from_le_bytes\<close> of the two bytes at an index, and a slice.\<close>

definition u16_at :: "8 word list \<Rightarrow> nat \<Rightarrow> nat" where
  "u16_at bytes i = unat (bytes ! i) + 256 * unat (bytes ! (i + 1))"

definition slice :: "8 word list \<Rightarrow> nat \<Rightarrow> nat \<Rightarrow> 8 word list" where
  "slice bytes off len = take len (drop off bytes)"

definition parse_ed25519_ix :: "8 word list \<Rightarrow> ParsedEd25519 option" where
  "parse_ed25519_ix bytes =
     (if length bytes < 16 then None
      else if bytes ! 0 \<noteq> 1 then None
      else if u16_at bytes 4 \<noteq> 65535 \<or> u16_at bytes 8 \<noteq> 65535 \<or> u16_at bytes 14 \<noteq> 65535 then None
      else let sig_offset = u16_at bytes 2; pubkey_offset = u16_at bytes 6;
               msg_offset = u16_at bytes 10; msg_size = u16_at bytes 12 in
        if length bytes < sig_offset + 64 then None
        else if length bytes < pubkey_offset + 32 then None
        else if length bytes < msg_offset + msg_size then None
        else Some \<lparr>sig_count = bytes ! 0, ed_pubkey = slice bytes pubkey_offset 32,
                   ed_message = slice bytes msg_offset msg_size\<rparr>)"

section \<open>Approval messages\<close>

record ApprovalMessage =
  msg_program_id :: pubkey
  msg_user_pubkey :: pubkey
  expiry_unix :: nat

text \<open>
  What the check reads from the transaction, a parameter: the index of the running instruction and the
  instructions of the transaction (the instructions sysvar), the address of the Ed25519 program, the bytes
  of a key, and the deserialisation of a message. That the Ed25519 program has run without an error when
  its instruction precedes the current one, and so that the signature is valid, is the runtime's part.
\<close>

record sys_instruction =
  ix_program_id :: pubkey
  ix_accounts :: "pubkey list"
  ix_data :: "8 word list"

record tx_context =
  current_index :: "nat option"
  instruction_at :: "nat \<Rightarrow> sys_instruction option"
  ed25519_program_id :: pubkey
  to_bytes :: "pubkey \<Rightarrow> 8 word list"
  try_from_slice :: "8 word list \<Rightarrow> ApprovalMessage option"

definition approval_err :: "string \<Rightarrow> chain_error" where
  "approval_err v = Custom ''ErrorCode'' v"

definition verify_approval_message_generic ::
  "runtime \<Rightarrow> tx_context \<Rightarrow> pubkey \<Rightarrow> pubkey \<Rightarrow> pubkey \<Rightarrow> ApprovalMessage \<Rightarrow> chain_error + unit" where
  "verify_approval_message_generic R T user a1 a2 msg =
     require (now R \<le> expiry_unix msg) (approval_err ''Expired'')
     (require (msg_program_id msg = program_id R) (approval_err ''WrongProgram'')
     (require (msg_user_pubkey msg = user) (approval_err ''WrongUser'')
     (attempt (ok_or (current_index T) (approval_err ''MissingEd25519Ix'')) (\<lambda>cur.
      require (0 < cur) (approval_err ''MissingEd25519Ix'')
     (attempt (ok_or (instruction_at T (cur - 1)) (approval_err ''MissingEd25519Ix'')) (\<lambda>ix.
      require (ix_program_id ix = ed25519_program_id T) (approval_err ''WrongIxProgram'')
     (require (ix_accounts ix = []) (approval_err ''BadEd25519Accounts'')
     (attempt (ok_or (parse_ed25519_ix (ix_data ix)) (approval_err ''MalformedEd25519Ix'')) (\<lambda>parsed.
      require (sig_count parsed = 1) (approval_err ''MultipleSigs'')
     (let is_approver1 = (a1 \<noteq> PublicKey_default \<and> ed_pubkey parsed = to_bytes T a1);
          is_approver2 = (a2 \<noteq> PublicKey_default \<and> ed_pubkey parsed = to_bytes T a2) in
      require (is_approver1 \<or> is_approver2) (approval_err ''WrongAuthority'')
     (attempt (ok_or (try_from_slice T (ed_message parsed)) (approval_err ''MsgDeserialize'')) (\<lambda>signed_msg.
      require (msg_program_id signed_msg = program_id R) (approval_err ''WrongProgram'')
     (require (msg_user_pubkey signed_msg = user) (approval_err ''WrongUser'')
     (require (now R \<le> expiry_unix signed_msg) (approval_err ''Expired'')
     (require (signed_msg = msg) (approval_err ''MsgMismatch'') (Inr ()))))))))))))))))"

end
