(* ===== verification/Chain_Trade.thy ===== *)
theory Chain_Trade
  imports Chain_Token Chain_Approval
begin

text \<open>
  Taking an offer, with and without the intermediary of the program (\<^verbatim>\<open>offer/take_offer*.rs\<close> with the
  shared part of \<^verbatim>\<open>offer/offer_utils.rs\<close>), the vaults (\<^verbatim>\<open>vault_operations/*.rs\<close>) and the mint authority
  (\<^verbatim>\<open>mint_authority/*.rs\<close>). Rent and the creation of empty token accounts are not modelled.
\<close>

section \<open>Approval and price of a purchase\<close>

definition verify_offer_approval ::
  "runtime \<Rightarrow> tx_context \<Rightarrow> Offer \<Rightarrow> ApprovalMessage option \<Rightarrow> pubkey \<Rightarrow> pubkey \<Rightarrow> pubkey \<Rightarrow> chain_error + unit" where
  "verify_offer_approval R T off approval user a1 a2 =
     (if needs_approval off
      then case approval of
             Some msg \<Rightarrow> verify_approval_message_generic R T user a1 a2 msg
           | None \<Rightarrow> Inl (Custom ''OfferCoreError'' ''ApprovalRequired'')
      else Inr ())"

record OfferProcessResult =
  current_price :: nat
  net_amount :: nat
  fee_amount :: nat
  out_amount :: nat

definition process_offer_core ::
  "runtime \<Rightarrow> Offer \<Rightarrow> nat \<Rightarrow> pubkey \<Rightarrow> Mint \<Rightarrow> pubkey \<Rightarrow> Mint \<Rightarrow> chain_error + OfferProcessResult" where
  "process_offer_core R off token_in tin mint_in tout mint_out =
     require (offer_token_in_mint off = tin) (Custom ''OfferCoreError'' ''InvalidTokenInMint'')
     (require (offer_token_out_mint off = tout) (Custom ''OfferCoreError'' ''InvalidTokenOutMint'')
     (attempt (find_active_vector_at off (now R)) (\<lambda>v.
      attempt (calculate_current_step_price R (apr v) (base_price v) (base_time v) (price_fix_duration v)) (\<lambda>price.
      attempt (calculate_fees token_in (fee_basis_points off)) (\<lambda>(fee, net).
      attempt (calculate_token_out_amount net price (decimals mint_in) (decimals mint_out)) (\<lambda>out.
      Inr \<lparr>current_price = price, net_amount = net, fee_amount = fee, out_amount = out\<rparr>))))))"

section \<open>Taking an offer\<close>

text \<open>
  The accounts a taker names: the boss, the two mints and itself. \<open>with_trade\<close> checks the accounts: the state
  with \<open>has_one = boss\<close> and the kill switch off, the mints of the offer.
\<close>

definition with_mint :: "chain \<Rightarrow> pubkey \<Rightarrow> (Mint \<Rightarrow> chain_error + 'a) \<Rightarrow> chain_error + 'a" where
  "with_mint c m k = attempt (ok_or (mints (tok c) m) (Constraint ''AccountNotInitialized'')) k"

lemma with_mint_Inr [simp]: "with_mint c m k = Inr y \<longleftrightarrow> (\<exists>x. mints (tok c) m = Some x \<and> k x = Inr y)"
  by (simp add: with_mint_def)

definition put_tok :: "tokens \<Rightarrow> chain \<Rightarrow> chain" where
  "put_tok t c = c\<lparr>tok := t\<rparr>"

definition take_offer ::
  "runtime \<Rightarrow> tx_context \<Rightarrow> pubkey \<Rightarrow> pubkey \<Rightarrow> pubkey \<Rightarrow> pubkey \<Rightarrow> nat \<Rightarrow> ApprovalMessage option \<Rightarrow>
    chain \<Rightarrow> chain_error + chain" where
  "take_offer R T user boss_key tin tout token_in approval c =
     with_state c (\<lambda>s.
     require (boss s = boss_key) (Custom ''TakeOfferErrorCode'' ''InvalidBoss'')
     (require (\<not> is_killed s) (Custom ''TakeOfferErrorCode'' ''KillSwitchActivated'')
     (with_offer R tin tout c (\<lambda>off. with_mint c tin (\<lambda>mint_in. with_mint c tout (\<lambda>mint_out.
     attempt (verify_offer_approval R T off approval user (approver1 s) (approver2 s)) (\<lambda>_.
     attempt (process_offer_core R off token_in tin mint_in tout mint_out) (\<lambda>res.
     attempt (execute_token_operations R
        \<lparr>token_in_mint = tin, token_in_net_amount = net_amount res, token_in_fee_amount = fee_amount res,
         token_in_authority = user, token_in_source_account = user, token_in_destination_account = boss_key,
         token_in_burn_account = vault_authority R, token_in_burn_authority = vault_authority R,
         token_out_mint = tout, token_out_amount = out_amount res, token_out_authority = vault_authority R,
         token_out_source_account = vault_authority R, token_out_destination_account = user,
         token_out_mint_authority = mint_authority_pda R, token_out_max_supply = max_supply s\<rparr>
        mint_in mint_out (tok c)) (\<lambda>t.
     Inr (emit (OfferTakenEvent (offer_pda R tin tout) (net_amount res) (out_amount res) (fee_amount res) user)
       (put_tok t c)))))))))))"

definition take_offer_permissionless ::
  "runtime \<Rightarrow> tx_context \<Rightarrow> pubkey \<Rightarrow> pubkey \<Rightarrow> pubkey \<Rightarrow> pubkey \<Rightarrow> pubkey \<Rightarrow> pubkey \<Rightarrow> pubkey \<Rightarrow> nat \<Rightarrow>
    ApprovalMessage option \<Rightarrow> chain \<Rightarrow> chain_error + chain" where
  "take_offer_permissionless R T user boss_key va pa ma tin tout token_in approval c =
     attempt (ok_or (offers c (offer_pda R tin tout)) (Constraint ''AccountNotInitialized'')) (\<lambda>off.
     with_state c (\<lambda>s.
     require (\<not> is_killed s) (Custom ''TakeOfferPermissionlessErrorCode'' ''KillSwitchActivated'')
     (require (boss s = boss_key) (Custom ''TakeOfferPermissionlessErrorCode'' ''InvalidBoss'')
     (with_mint c tin (\<lambda>mint_in. with_mint c tout (\<lambda>mint_out.
     require (va = vault_authority R) (Constraint ''RequireKeysEqViolated'')
     (require (pa = permissionless_authority R) (Constraint ''RequireKeysEqViolated'')
     (require (ma = mint_authority_pda R) (Constraint ''RequireKeysEqViolated'')
     (require (offer_token_in_mint off = tin) (Custom ''OfferCoreError'' ''InvalidTokenInMint'')
     (require (offer_token_out_mint off = tout) (Custom ''OfferCoreError'' ''InvalidTokenOutMint'')
     (require (allow_permissionless off) (Custom ''TakeOfferPermissionlessErrorCode'' ''PermissionlessNotAllowed'')
     (attempt (verify_offer_approval R T off approval user (approver1 s) (approver2 s)) (\<lambda>_.
     attempt (process_offer_core R off token_in tin mint_in tout mint_out) (\<lambda>res.
     attempt (transfer_tokens R tin user pa user token_in (tok c)) (\<lambda>t.
     attempt (execute_token_operations R
        \<lparr>token_in_mint = tin, token_in_net_amount = net_amount res, token_in_fee_amount = fee_amount res,
         token_in_authority = pa, token_in_source_account = pa, token_in_destination_account = boss_key,
         token_in_burn_account = va, token_in_burn_authority = va,
         token_out_mint = tout, token_out_amount = out_amount res, token_out_authority = va,
         token_out_source_account = va, token_out_destination_account = pa,
         token_out_mint_authority = ma, token_out_max_supply = max_supply s\<rparr>
        mint_in mint_out t) (\<lambda>t.
     attempt (transfer_tokens R tout pa user pa (out_amount res) t) (\<lambda>t.
     Inr (emit (OfferTakenPermissionlessEvent (offer_pda R tin tout) (net_amount res) (out_amount res)
            (fee_amount res) user) (put_tok t c)))))))))))))))))))"

section \<open>Vaults\<close>

definition offer_vault_deposit :: "runtime \<Rightarrow> pubkey \<Rightarrow> pubkey \<Rightarrow> nat \<Rightarrow> chain \<Rightarrow> chain_error + chain" where
  "offer_vault_deposit R signer m n c = with_mint c m (\<lambda>_. as_boss signer c (\<lambda>s.
     attempt (transfer_tokens R m signer (vault_authority R) signer n (tok c)) (\<lambda>t.
     Inr (emit (OfferVaultDepositEvent m n signer) (put_tok t c)))))"

definition offer_vault_withdraw :: "runtime \<Rightarrow> pubkey \<Rightarrow> pubkey \<Rightarrow> nat \<Rightarrow> chain \<Rightarrow> chain_error + chain" where
  "offer_vault_withdraw R signer m n c = with_mint c m (\<lambda>_. as_boss signer c (\<lambda>s.
     attempt (transfer_tokens R m (vault_authority R) signer (vault_authority R) n (tok c)) (\<lambda>t.
     Inr (emit (OfferVaultWithdrawEvent m n signer) (put_tok t c)))))"

definition redemption_vault_deposit :: "runtime \<Rightarrow> pubkey \<Rightarrow> pubkey \<Rightarrow> nat \<Rightarrow> chain \<Rightarrow> chain_error + chain" where
  "redemption_vault_deposit R signer m n c = with_mint c m (\<lambda>_. as_boss signer c (\<lambda>s.
     attempt (transfer_tokens R m signer (redemption_vault_authority R) signer n (tok c)) (\<lambda>t.
     Inr (emit (RedemptionVaultDepositEvent m n signer) (put_tok t c)))))"

definition redemption_vault_withdraw :: "runtime \<Rightarrow> pubkey \<Rightarrow> pubkey \<Rightarrow> nat \<Rightarrow> chain \<Rightarrow> chain_error + chain" where
  "redemption_vault_withdraw R signer m n c = with_mint c m (\<lambda>_. as_boss signer c (\<lambda>s.
     attempt (transfer_tokens R m (redemption_vault_authority R) signer (redemption_vault_authority R) n (tok c)) (\<lambda>t.
     Inr (emit (RedemptionVaultWithdrawEvent m n signer) (put_tok t c)))))"

section \<open>The mint authority\<close>

text \<open>\<open>unwrap\<close> of a mint without authority panics.\<close>

definition mint_to :: "runtime \<Rightarrow> pubkey \<Rightarrow> pubkey \<Rightarrow> nat \<Rightarrow> chain \<Rightarrow> chain_error + chain" where
  "mint_to R signer m n c = as_boss signer c (\<lambda>s.
     require (onyc_mint s = m) (Constraint ''ConstraintHasOne'')
     (with_mint c m (\<lambda>mint.
     attempt (ok_or (mint_authority mint) Panic) (\<lambda>auth.
     require (auth = mint_authority_pda R) (Custom ''MintToErrorCode'' ''NoMintAuthority'')
     (attempt (mint_tokens R m mint signer (mint_authority_pda R) n (max_supply s) (tok c)) (\<lambda>t.
     Inr (emit (OnycTokensMintedEvent m signer n) (put_tok t c))))))))"

definition transfer_mint_authority_to_boss :: "runtime \<Rightarrow> pubkey \<Rightarrow> pubkey \<Rightarrow> chain \<Rightarrow> chain_error + chain" where
  "transfer_mint_authority_to_boss R signer m c = as_boss signer c (\<lambda>s. with_mint c m (\<lambda>mint.
     attempt (ok_or (mint_authority mint) Panic) (\<lambda>auth.
     require (auth = mint_authority_pda R)
       (Custom ''TransferMintAuthorityToBossErrorCode'' ''ProgramNotMintAuthority'')
     (attempt (set_authority R (tok c) m (mint_authority_pda R) signer) (\<lambda>t.
     Inr (emit (MintAuthorityTransferredToBossEvent m (mint_authority_pda R) signer) (put_tok t c)))))))"

definition transfer_mint_authority_to_program :: "runtime \<Rightarrow> pubkey \<Rightarrow> pubkey \<Rightarrow> chain \<Rightarrow> chain_error + chain" where
  "transfer_mint_authority_to_program R signer m c = as_boss signer c (\<lambda>s. with_mint c m (\<lambda>mint.
     attempt (ok_or (mint_authority mint) Panic) (\<lambda>auth.
     require (auth = signer)
       (Custom ''TransferMintAuthorityToProgramErrorCode'' ''BossNotMintAuthority'')
     (attempt (set_authority R (tok c) m signer (mint_authority_pda R)) (\<lambda>t.
     Inr (emit (MintAuthorityTransferredToProgramEvent m signer (mint_authority_pda R)) (put_tok t c)))))))"

lemmas trade_op_defs = take_offer_def take_offer_permissionless_def offer_vault_deposit_def
  offer_vault_withdraw_def redemption_vault_deposit_def redemption_vault_withdraw_def mint_to_def
  transfer_mint_authority_to_boss_def transfer_mint_authority_to_program_def

end
