(* ===== verification/Chain_Market.thy ===== *)
theory Chain_Market
  imports Chain_Trade
begin

text \<open>
  The market queries, \<^verbatim>\<open>instructions/market_info/*.rs\<close>: price and its next change, the yield of an offer,
  the change of price between vectors, circulating supply and total value. They emit an event and
  return a value.
\<close>

section \<open>Yield\<close>

definition EXT_SCALE :: nat where "EXT_SCALE = 1000000"
definition INT_SCALE :: nat where "INT_SCALE = 1000000000000000000"
definition COMPOUNDING :: nat where "COMPOUNDING = 365"

definition apy_err :: "string \<Rightarrow> chain_error" where
  "apy_err v = Custom ''GetAPYErrorCode'' v"

definition mul_div_round :: "nat \<Rightarrow> nat \<Rightarrow> nat \<Rightarrow> chain_error + nat" where
  "mul_div_round a b denom =
     attempt (ok_or (checked_mul 128 a b) (apy_err ''Overflow'')) (\<lambda>prod.
     attempt (ok_or (checked_add 128 prod (denom div 2)) (apy_err ''Overflow'')) (\<lambda>adj.
     ok_or (checked_div adj denom) (apy_err ''DivByZero'')))"

text \<open>The loop of \<open>pow_fixed\<close>: square and multiply, with the last squaring left out.\<close>

function pow_loop :: "nat \<Rightarrow> nat \<Rightarrow> nat \<Rightarrow> nat \<Rightarrow> chain_error + nat" where
  "pow_loop scale base e acc =
     (if e = 0 then Inr acc
      else attempt (if e mod 2 = 1 then mul_div_round acc base scale else Inr acc) (\<lambda>acc'.
           attempt (if 0 < e div 2 then mul_div_round base base scale else Inr base) (\<lambda>base'.
           pow_loop scale base' (e div 2) acc')))"
  by pat_completeness auto
termination by (relation "measure (\<lambda>(scale, base, e, acc). e)") auto

declare pow_loop.simps [simp del]

definition pow_fixed :: "nat \<Rightarrow> nat \<Rightarrow> nat \<Rightarrow> chain_error + nat" where
  "pow_fixed base e scale = pow_loop scale base e scale"

definition calculate_apy_from_apr :: "nat \<Rightarrow> chain_error + nat" where
  "calculate_apy_from_apr rate =
     attempt (ok_or (checked_mul 128 INT_SCALE rate) (apy_err ''Overflow'')) (\<lambda>num.
     attempt (ok_or (checked_mul 128 EXT_SCALE COMPOUNDING) (apy_err ''Overflow'')) (\<lambda>den.
     attempt (ok_or (checked_add 128 num (den div 2)) (apy_err ''Overflow'')) (\<lambda>adj.
     attempt (ok_or (checked_div adj den) (apy_err ''DivByZero'')) (\<lambda>incr.
     attempt (ok_or (checked_add 128 INT_SCALE incr) (apy_err ''Overflow'')) (\<lambda>base.
     attempt (pow_fixed base COMPOUNDING INT_SCALE) (\<lambda>pow.
     attempt (ok_or (checked_sub pow INT_SCALE) (apy_err ''Overflow'')) (\<lambda>apy_int.
     attempt (mul_div_round apy_int EXT_SCALE INT_SCALE) (\<lambda>apy_scaled.
     require (apy_scaled \<le> 2 ^ 64 - 1) (apy_err ''Overflow'') (Inr apy_scaled)))))))))"

section \<open>Queries about an offer\<close>

definition get_apy :: "runtime \<Rightarrow> pubkey \<Rightarrow> pubkey \<Rightarrow> chain \<Rightarrow> chain_error + nat \<times> chain" where
  "get_apy R tin tout c = with_offer R tin tout c (\<lambda>off.
     attempt (find_active_vector_at off (now R)) (\<lambda>v.
     attempt (calculate_apy_from_apr (apr v)) (\<lambda>apy.
     Inr (apy, emit (GetAPYEvent (offer_pda R tin tout) apy (apr v) (now R)) c))))"

definition find_next_vector_after :: "Offer \<Rightarrow> nat \<Rightarrow> OfferVector option" where
  "find_next_vector_after off t = min_by_key start_time (List.filter (\<lambda>v. t < start_time v) (vectors off))"

definition overflow_err :: chain_error where
  "overflow_err = Custom ''OfferCoreError'' ''OverflowError''"

text \<open>The time of the next change of the price, with its checked additions and its one unchecked.\<close>

definition next_price_change :: "Offer \<Rightarrow> OfferVector \<Rightarrow> nat \<Rightarrow> chain_error + nat" where
  "next_price_change off v t =
     attempt (ok_or (checked_div (t - base_time v) (price_fix_duration v)) Panic) (\<lambda>current_step.
     attempt (ok_or (checked_add 64 current_step 1) Panic) (\<lambda>next_step.
     attempt (ok_or (checked_mul 64 next_step (price_fix_duration v)) overflow_err) (\<lambda>offset.
     attempt (ok_or (checked_add 64 (base_time v) offset) overflow_err) (\<lambda>next_interval.
     Inr (case find_next_vector_after off t of
            Some w \<Rightarrow> min next_interval (start_time w)
          | None \<Rightarrow> next_interval)))))"

definition get_nav :: "runtime \<Rightarrow> pubkey \<Rightarrow> pubkey \<Rightarrow> chain \<Rightarrow> chain_error + nat \<times> chain" where
  "get_nav R tin tout c = with_offer R tin tout c (\<lambda>off.
     attempt (find_active_vector_at off (now R)) (\<lambda>v.
     attempt (calculate_current_step_price R (apr v) (base_price v) (base_time v) (price_fix_duration v)) (\<lambda>price.
     attempt (next_price_change off v (now R)) (\<lambda>next.
     Inr (price, emit (GetNAVEvent (offer_pda R tin tout) price (now R) next) c)))))"

definition find_previous_vector :: "Offer \<Rightarrow> nat \<Rightarrow> OfferVector option" where
  "find_previous_vector off t =
     max_by_key start_time (List.filter (\<lambda>v. start_time v \<noteq> 0 \<and> start_time v < t) (vectors off))"

text \<open>A cast of a \<open>u64\<close> to \<open>i64\<close>, which wraps; the negation of the least number panics.\<close>

definition as_i64 :: "nat \<Rightarrow> int" where
  "as_i64 n = (if n < 2 ^ 63 then int n else int n - 2 ^ 64)"

definition neg_i64 :: "int \<Rightarrow> chain_error + int" where
  "neg_i64 i = (if i = - (2 ^ 63) then Inl Panic else Inr (- i))"

definition price_adjustment :: "Offer \<Rightarrow> OfferVector \<Rightarrow> chain_error + nat \<times> nat option \<times> int" where
  "price_adjustment off v =
     attempt (calculate_step_price_at (apr v) (base_price v) (base_time v) (price_fix_duration v) (start_time v)) (\<lambda>price.
     case find_previous_vector off (start_time v) of
       None \<Rightarrow> Inr (price, None, as_i64 price)
     | Some w \<Rightarrow>
         attempt (calculate_step_price_at (apr w) (base_price w) (base_time w) (price_fix_duration w) (start_time v)) (\<lambda>previous.
         attempt (if previous \<le> price then Inr (as_i64 (price - previous))
                  else neg_i64 (as_i64 (previous - price))) (\<lambda>adjustment.
         Inr (price, Some previous, adjustment))))"

definition get_nav_adjustment :: "runtime \<Rightarrow> pubkey \<Rightarrow> pubkey \<Rightarrow> chain \<Rightarrow> chain_error + int \<times> chain" where
  "get_nav_adjustment R tin tout c = with_offer R tin tout c (\<lambda>off.
     attempt (find_active_vector_at off (now R)) (\<lambda>v.
     attempt (price_adjustment off v) (\<lambda>(price, previous, adjustment).
     Inr (adjustment, emit (GetNavAdjustmentEvent (offer_pda R tin tout) price previous adjustment (now R)) c))))"

section \<open>Supply and value\<close>

text \<open>
  The account of the vault is passed unchecked but for its address, the associated account of the vault
  authority, the mint and a token program that the caller names: the address derivation and the raw
  account at an address are parameters.
\<close>

datatype account_data = NoData | TokenAccountData nat | OtherData

record raw_account =
  raw_owner :: pubkey
  raw_data :: account_data

record account_env =
  associated_address :: "pubkey \<Rightarrow> pubkey \<Rightarrow> pubkey \<Rightarrow> pubkey"
  account_at :: "pubkey \<Rightarrow> raw_account"

fun read_optional_ata_amount :: "raw_account \<Rightarrow> pubkey \<Rightarrow> nat" where
  "read_optional_ata_amount acc token_program =
     (if raw_owner acc \<noteq> token_program then 0
      else case raw_data acc of NoData \<Rightarrow> 0 | TokenAccountData n \<Rightarrow> n | OtherData \<Rightarrow> 0)"

definition get_circulating_supply ::
  "runtime \<Rightarrow> account_env \<Rightarrow> pubkey \<Rightarrow> pubkey \<Rightarrow> pubkey \<Rightarrow> chain \<Rightarrow> chain_error + nat \<times> chain" where
  "get_circulating_supply R A mint vault_key token_program c = with_mint c mint (\<lambda>m. with_state c (\<lambda>s.
     require (onyc_mint s = mint) (Constraint ''ConstraintHasOne'')
     (require (vault_key = associated_address A (vault_authority R) (onyc_mint s) token_program)
        (Custom ''GetCirculatingSupplyErrorCode'' ''InvalidVaultAccount'')
     (let vault_amount = read_optional_ata_amount (account_at A vault_key) token_program in
      attempt (ok_or (checked_sub (mint_supply m) vault_amount) Panic) (\<lambda>circulating.
      Inr (circulating,
        emit (GetCirculatingSupplyEvent circulating (mint_supply m) vault_amount (now R)) c))))))"

definition get_tvl ::
  "runtime \<Rightarrow> account_env \<Rightarrow> pubkey \<Rightarrow> pubkey \<Rightarrow> pubkey \<Rightarrow> pubkey \<Rightarrow> chain \<Rightarrow> chain_error + nat \<times> chain" where
  "get_tvl R A tin tout vault_key token_program c = with_offer R tin tout c (\<lambda>off. with_mint c tout (\<lambda>m.
     require (vault_key = associated_address A (vault_authority R) tout token_program)
        (Custom ''GetTVLErrorCode'' ''InvalidVaultAccount'')
     (attempt (find_active_vector_at off (now R)) (\<lambda>v.
      attempt (calculate_current_step_price R (apr v) (base_price v) (base_time v) (price_fix_duration v)) (\<lambda>price.
      let vault_amount = read_optional_ata_amount (account_at A vault_key) token_program in
      attempt (ok_or (checked_sub (mint_supply m) vault_amount) Panic) (\<lambda>token_supply.
      attempt (ok_or (Option.bind (checked_mul 128 token_supply price) (\<lambda>x.
                 Option.bind (checked_div x (10 ^ PRICE_DECIMALS)) (\<lambda>x.
                 if x \<le> 2 ^ 64 - 1 then Some x else None))) (Custom ''GetTVLErrorCode'' ''Overflow'')) (\<lambda>tvl.
      Inr (tvl, emit (GetTVLEvent (offer_pda R tin tout) tvl price token_supply (now R)) c))))))))"

end
