(* ===== verification/Chain_Redemption.thy ===== *)
theory Chain_Redemption
  imports Chain_Trade
begin

text \<open>
  Redemptions, \<^verbatim>\<open>instructions/redemption/*.rs\<close>: a redemption offer keeps the ledger of its requests; a
  request locks tokens in the redemption vault and is closed by its fulfilment or its cancellation.
\<close>

section \<open>Price and token operations of a redemption\<close>

definition redemption_err :: "string \<Rightarrow> chain_error" where
  "redemption_err v = Custom ''RedemptionCoreError'' v"

text \<open>Powers of ten are panics beyond 128 bits, as all overflowing arithmetic.\<close>

definition pow10_u128 :: "nat \<Rightarrow> chain_error + nat" where
  "pow10_u128 d = (if 10 ^ d < (2::nat) ^ 128 then Inr (10 ^ d) else Inl Panic)"

definition process_redemption_core ::
  "runtime \<Rightarrow> Offer \<Rightarrow> nat \<Rightarrow> Mint \<Rightarrow> Mint \<Rightarrow> nat \<Rightarrow> chain_error + OfferProcessResult" where
  "process_redemption_core R off token_in mint_in mint_out fee_bps =
     attempt (find_active_vector_at off (now R)) (\<lambda>v.
     attempt (calculate_current_step_price R (apr v) (base_price v) (base_time v) (price_fix_duration v)) (\<lambda>price.
     attempt (calculate_fees token_in fee_bps) (\<lambda>(fee, net).
     attempt (ok_or (checked_mul 128 net price) (redemption_err ''OverflowError'')) (\<lambda>value.
     attempt (pow10_u128 (decimals mint_out)) (\<lambda>out_unit.
     attempt (ok_or (checked_mul 128 value out_unit) (redemption_err ''OverflowError'')) (\<lambda>numerator.
     attempt (pow10_u128 (decimals mint_in)) (\<lambda>in_unit.
     attempt (ok_or (checked_mul 128 in_unit (10 ^ PRICE_DECIMALS)) (redemption_err ''OverflowError'')) (\<lambda>denominator.
     let out = numerator div denominator in
     require (out \<le> 2 ^ 64 - 1) (redemption_err ''OverflowError'')
     (Inr \<lparr>current_price = price, net_amount = net, fee_amount = fee, out_amount = out\<rparr>)))))))))"

record ExecuteRedemptionOpsParams =
  r_token_in_mint :: pubkey
  r_token_in_net_amount :: nat
  r_token_in_fee_amount :: nat
  r_boss :: pubkey
  r_vault :: pubkey
  r_token_out_mint :: pubkey
  r_token_out_amount :: nat
  r_user :: pubkey
  r_mint_authority :: pubkey
  r_token_out_max_supply :: nat

definition execute_redemption_operations ::
  "runtime \<Rightarrow> ExecuteRedemptionOpsParams \<Rightarrow> Mint \<Rightarrow> Mint \<Rightarrow> tokens \<Rightarrow> chain_error + tokens" where
  "execute_redemption_operations R p mint_in mint_out t =
     attempt (if program_controls_mint mint_in (r_mint_authority p)
        then attempt (burn_tokens R (r_token_in_mint p) (r_vault p) (r_vault p) (r_token_in_net_amount p) t) (\<lambda>t.
             if 0 < r_token_in_fee_amount p
             then transfer_tokens R (r_token_in_mint p) (r_vault p) (r_boss p) (r_vault p) (r_token_in_fee_amount p) t
             else Inr t)
        else attempt (ok_or (checked_add 64 (r_token_in_net_amount p) (r_token_in_fee_amount p))
                        (redemption_err ''OverflowError'')) (\<lambda>total.
             transfer_tokens R (r_token_in_mint p) (r_vault p) (r_boss p) (r_vault p) total t)) (\<lambda>t.
     if program_controls_mint mint_out (r_mint_authority p)
     then mint_tokens R (r_token_out_mint p) mint_out (r_user p) (r_mint_authority p) (r_token_out_amount p)
            (r_token_out_max_supply p) t
     else transfer_tokens R (r_token_out_mint p) (r_vault p) (r_user p) (r_vault p) (r_token_out_amount p) t)"

section \<open>Redemption offers\<close>

definition put_redemption_offer :: "pubkey \<Rightarrow> RedemptionOffer \<Rightarrow> chain \<Rightarrow> chain" where
  "put_redemption_offer a r c = c\<lparr>redemption_offers := (redemption_offers c)(a \<mapsto> r)\<rparr>"

text \<open>The offer must exist at the address of the mints in the other order.\<close>

definition make_redemption_offer ::
  "runtime \<Rightarrow> pubkey \<Rightarrow> pubkey \<Rightarrow> pubkey \<Rightarrow> nat \<Rightarrow> chain \<Rightarrow> chain_error + chain" where
  "make_redemption_offer R signer tin tout fee c = with_state c (\<lambda>s.
     let pda = redemption_offer_pda R tin tout; off_key = offer_pda R tout tin in
     require (offers c off_key \<noteq> None) (Constraint ''AccountNotInitialized'')
     (require (mints (tok c) tin \<noteq> None \<and> mints (tok c) tout \<noteq> None) (Constraint ''AccountNotInitialized'')
     (require (redemption_offers c pda = None) (Constraint ''AccountAlreadyInUse'')
     (require (signer = boss s \<or> signer = redemption_admin s)
        (Custom ''MakeRedemptionOfferErrorCode'' ''Unauthorized'')
     (require (fee \<le> MAX_ALLOWED_FEE_BPS) (Custom ''MakeRedemptionOfferErrorCode'' ''InvalidFee'')
     (Inr (emit (RedemptionOfferCreatedEvent pda off_key tin tout fee)
        (put_redemption_offer pda
          \<lparr>ro_offer = off_key, ro_token_in_mint = tin, ro_token_out_mint = tout, executed_redemptions = 0,
           requested_redemptions = 0, ro_fee_basis_points = fee, request_counter = 0\<rparr> c))))))))"

text \<open>An account given as a redemption offer must be at the address of the mints it holds.\<close>

definition with_redemption_offer ::
  "runtime \<Rightarrow> pubkey \<Rightarrow> chain \<Rightarrow> (RedemptionOffer \<Rightarrow> chain_error + 'a) \<Rightarrow> chain_error + 'a" where
  "with_redemption_offer R ro_key c k =
     attempt (ok_or (redemption_offers c ro_key) (Constraint ''AccountNotInitialized'')) (\<lambda>ro.
     require (ro_key = redemption_offer_pda R (ro_token_in_mint ro) (ro_token_out_mint ro))
       (Constraint ''ConstraintSeeds'') (k ro))"

lemma with_redemption_offer_Inr [simp]:
  "with_redemption_offer R a c k = Inr y \<longleftrightarrow> (\<exists>ro. redemption_offers c a = Some ro \<and>
     a = redemption_offer_pda R (ro_token_in_mint ro) (ro_token_out_mint ro) \<and> k ro = Inr y)"
  by (simp add: with_redemption_offer_def)

definition update_redemption_offer_fee ::
  "runtime \<Rightarrow> pubkey \<Rightarrow> pubkey \<Rightarrow> nat \<Rightarrow> chain \<Rightarrow> chain_error + chain" where
  "update_redemption_offer_fee R signer ro_key new_fee c = with_redemption_offer R ro_key c (\<lambda>ro.
     with_state c (\<lambda>s.
     has_one_boss signer s (Custom ''UpdateRedemptionOfferFeeErrorCode'' ''Unauthorized'')
     (require (new_fee \<le> MAX_ALLOWED_FEE_BPS) (Custom ''UpdateRedemptionOfferFeeErrorCode'' ''InvalidFee'')
     (require (new_fee \<noteq> ro_fee_basis_points ro) (Custom ''UpdateRedemptionOfferFeeErrorCode'' ''NoChange'')
     (Inr (emit (RedemptionOfferFeeUpdatedEvent ro_key (ro_fee_basis_points ro) new_fee signer)
        (put_redemption_offer ro_key (ro\<lparr>ro_fee_basis_points := new_fee\<rparr>) c)))))))"

section \<open>Requests\<close>

definition put_request :: "pubkey \<Rightarrow> RedemptionRequest option \<Rightarrow> chain \<Rightarrow> chain" where
  "put_request a r c = c\<lparr>redemption_requests := (redemption_requests c)(a := r)\<rparr>"

definition create_redemption_request ::
  "runtime \<Rightarrow> pubkey \<Rightarrow> pubkey \<Rightarrow> pubkey \<Rightarrow> nat \<Rightarrow> chain \<Rightarrow> chain_error + chain" where
  "create_redemption_request R signer ro_key tin n c = with_state c (\<lambda>s.
     let err = (\<lambda>v. Custom ''CreateRedemptionRequestErrorCode'' v) in
     require (\<not> is_killed s) (err ''KillSwitchActivated'')
     (with_redemption_offer R ro_key c (\<lambda>ro.
     let req_key = redemption_request_pda R ro_key (request_counter ro) in
     require (redemption_requests c req_key = None) (Constraint ''AccountAlreadyInUse'')
     (require (tin = ro_token_in_mint ro) (err ''InvalidMint'')
     (with_mint c tin (\<lambda>mint_in.
     require (ro_offer ro \<noteq> PublicKey_default) (err ''InvalidRedemptionOffer'')
     (require (ro_token_out_mint ro \<noteq> PublicKey_default) (err ''InvalidRedemptionOffer'')
     (attempt (transfer_tokens R tin signer (redemption_vault_authority R) signer n (tok c)) (\<lambda>t.
     attempt (ok_or (checked_add 128 (requested_redemptions ro) n) (err ''ArithmeticOverflow'')) (\<lambda>requested.
     attempt (ok_or (checked_add 64 (request_counter ro) 1) (err ''ArithmeticOverflow'')) (\<lambda>counter.
     Inr (emit (RedemptionRequestCreatedEvent req_key ro_key signer n (request_counter ro))
       (put_redemption_offer ro_key (ro\<lparr>requested_redemptions := requested, request_counter := counter\<rparr>)
       (put_request req_key
          (Some \<lparr>rr_offer = ro_key, request_id = request_counter ro, redeemer = signer, amount = n\<rparr>)
       (put_tok t c)))))))))))))))"

text \<open>The account of a request must be at the address of the fields it holds and belong to the redemption offer.\<close>

definition with_request ::
  "runtime \<Rightarrow> pubkey \<Rightarrow> pubkey \<Rightarrow> chain_error \<Rightarrow> chain \<Rightarrow> (RedemptionRequest \<Rightarrow> chain_error + 'a) \<Rightarrow> chain_error + 'a" where
  "with_request R req_key ro_key mismatch c k =
     attempt (ok_or (redemption_requests c req_key) (Constraint ''AccountNotInitialized'')) (\<lambda>rr.
     require (req_key = redemption_request_pda R (rr_offer rr) (request_id rr)) (Constraint ''ConstraintSeeds'')
     (require (rr_offer rr = ro_key) mismatch (k rr)))"

lemma with_request_Inr [simp]:
  "with_request R a b e c k = Inr y \<longleftrightarrow> (\<exists>rr. redemption_requests c a = Some rr \<and>
     a = redemption_request_pda R (rr_offer rr) (request_id rr) \<and> rr_offer rr = b \<and> k rr = Inr y)"
  by (auto simp: with_request_def)

definition cancel_redemption_request ::
  "runtime \<Rightarrow> pubkey \<Rightarrow> pubkey \<Rightarrow> pubkey \<Rightarrow> pubkey \<Rightarrow> pubkey \<Rightarrow> pubkey \<Rightarrow> chain \<Rightarrow> chain_error + chain" where
  "cancel_redemption_request R signer ro_key req_key redeemer_key admin_key tin c = with_state c (\<lambda>s.
     let err = (\<lambda>v. Custom ''CancelRedemptionRequestErrorCode'' v) in
     require (\<not> is_killed s) (err ''KillSwitchActivated'')
     (with_redemption_offer R ro_key c (\<lambda>ro. with_request R req_key ro_key (err ''OfferMismatch'') c (\<lambda>rr.
     require (signer = boss s \<or> signer = redemption_admin s \<or> signer = redeemer rr) (err ''Unauthorized'')
     (require (redeemer_key = redeemer rr) (err ''InvalidRedeemer'')
     (require (admin_key = redemption_admin s) (err ''InvalidRedemptionAdmin'')
     (require (tin = ro_token_in_mint ro) (err ''InvalidMint'')
     (with_mint c tin (\<lambda>mint_in.
     attempt (transfer_tokens R tin (redemption_vault_authority R) redeemer_key (redemption_vault_authority R)
                (amount rr) (tok c)) (\<lambda>t.
     attempt (ok_or (checked_sub (requested_redemptions ro) (amount rr)) (err ''ArithmeticUnderflow'')) (\<lambda>requested.
     Inr (emit (RedemptionRequestCancelledEvent req_key ro_key (redeemer rr) (amount rr) signer)
       (put_redemption_offer ro_key (ro\<lparr>requested_redemptions := requested\<rparr>)
       (put_request req_key None (put_tok t c)))))))))))))))"

definition fulfill_redemption_request ::
  "runtime \<Rightarrow> pubkey \<Rightarrow> pubkey \<Rightarrow> pubkey \<Rightarrow> pubkey \<Rightarrow> pubkey \<Rightarrow> pubkey \<Rightarrow> pubkey \<Rightarrow> pubkey \<Rightarrow> chain \<Rightarrow> chain_error + chain" where
  "fulfill_redemption_request R signer boss_key off_key ro_key req_key redeemer_key tin tout c = with_state c (\<lambda>s.
     let err = (\<lambda>v. Custom ''FulfillRedemptionRequestErrorCode'' v) in
     require (boss s = boss_key) (err ''InvalidBoss'')
     (require (\<not> is_killed s) (err ''KillSwitchActivated'')
     (attempt (ok_or (offers c off_key) (Constraint ''AccountNotInitialized'')) (\<lambda>off.
     with_redemption_offer R ro_key c (\<lambda>ro.
     require (ro_offer ro = off_key) (err ''OfferMismatch'')
     (with_request R req_key ro_key (err ''OfferMismatch'') c (\<lambda>rr.
     require (tin = ro_token_in_mint ro) (err ''InvalidTokenInMint'')
     (require (tout = ro_token_out_mint ro) (err ''InvalidTokenOutMint'')
     (with_mint c tin (\<lambda>mint_in. with_mint c tout (\<lambda>mint_out.
     require (redeemer_key = redeemer rr) (err ''InvalidRedeemer'')
     (require (signer = redemption_admin s) (err ''Unauthorized'')
     (attempt (process_redemption_core R off (amount rr) mint_in mint_out (ro_fee_basis_points ro)) (\<lambda>res.
     attempt (execute_redemption_operations R
        \<lparr>r_token_in_mint = tin, r_token_in_net_amount = net_amount res, r_token_in_fee_amount = fee_amount res,
         r_boss = boss_key, r_vault = redemption_vault_authority R, r_token_out_mint = tout,
         r_token_out_amount = out_amount res, r_user = redeemer_key,
         r_mint_authority = mint_authority_pda R, r_token_out_max_supply = 0\<rparr>
        mint_in mint_out (tok c)) (\<lambda>t.
     attempt (ok_or (checked_add 128 (executed_redemptions ro) (amount rr)) (err ''ArithmeticOverflow'')) (\<lambda>executed.
     attempt (ok_or (checked_sub (requested_redemptions ro) (amount rr)) (err ''ArithmeticUnderflow'')) (\<lambda>requested.
     Inr (emit (RedemptionRequestFulfilledEvent req_key ro_key redeemer_key (net_amount res) (fee_amount res)
            (out_amount res) (current_price res))
       (put_redemption_offer ro_key (ro\<lparr>executed_redemptions := executed, requested_redemptions := requested\<rparr>)
       (put_request req_key None (put_tok t c)))))))))))))))))))))"

lemmas redemption_op_defs = make_redemption_offer_def update_redemption_offer_fee_def
  create_redemption_request_def cancel_redemption_request_def fulfill_redemption_request_def

end
