(* ===== verification/Chain_Program.thy ===== *)
theory Chain_Program
  imports Chain_Market Chain_Redemption
begin

text \<open>
  The program as a whole, \<^verbatim>\<open>lib.rs\<close>: its instructions with the accounts and arguments that a
  transaction chooses, the dispatch to the handlers, and the chains that transactions can reach. An
  instruction that fails changes nothing. Between instructions other programs may change mints, token
  balances and lamports in any way.
\<close>

datatype (plugins only: code) instruction =
    Initialize pubkey account_info "account_info option" pubkey
  | InitializePermissionlessAuthority pubkey string
  | OfferVaultDeposit pubkey pubkey nat
  | OfferVaultWithdraw pubkey pubkey nat
  | RedemptionVaultDeposit pubkey pubkey nat
  | RedemptionVaultWithdraw pubkey pubkey nat
  | MakeOffer pubkey pubkey pubkey nat bool bool
  | AddOfferVector pubkey pubkey pubkey "nat option" nat nat nat nat
  | DeleteOfferVector pubkey pubkey pubkey nat
  | DeleteAllOfferVectors pubkey pubkey pubkey
  | UpdateOfferFee pubkey pubkey pubkey nat
  | TakeOffer pubkey pubkey pubkey pubkey nat "ApprovalMessage option"
  | TakeOfferPermissionless pubkey pubkey pubkey pubkey pubkey pubkey pubkey nat "ApprovalMessage option"
  | ProposeBoss pubkey pubkey
  | AcceptBoss pubkey
  | AddAdmin pubkey pubkey
  | RemoveAdmin pubkey pubkey
  | ClearAdmins pubkey
  | TransferMintAuthorityToProgram pubkey pubkey
  | TransferMintAuthorityToBoss pubkey pubkey
  | SetKillSwitch pubkey bool
  | SetOnycMint pubkey pubkey
  | SetRedemptionAdmin pubkey pubkey
  | MintTo pubkey pubkey nat
  | GetNav pubkey pubkey
  | GetApy pubkey pubkey
  | GetNavAdjustment pubkey pubkey
  | GetTvl pubkey pubkey pubkey pubkey
  | GetCirculatingSupply pubkey pubkey pubkey
  | AddApprover pubkey pubkey
  | RemoveApprover pubkey pubkey
  | ConfigureMaxSupply pubkey nat
  | CloseState pubkey pubkey
  | MakeRedemptionOffer pubkey pubkey pubkey nat
  | CreateRedemptionRequest pubkey pubkey pubkey nat
  | FulfillRedemptionRequest pubkey pubkey pubkey pubkey pubkey pubkey pubkey pubkey
  | CancelRedemptionRequest pubkey pubkey pubkey pubkey pubkey pubkey
  | UpdateRedemptionOfferFee pubkey pubkey nat

text \<open>What surrounds one instruction.\<close>

record world =
  rt :: runtime
  txc :: tx_context
  acc :: account_env
  loader_id :: pubkey
  program_data_address :: "pubkey \<Rightarrow> pubkey"

definition drop_value :: "chain_error + 'a \<times> chain \<Rightarrow> chain_error + chain" where
  "drop_value r = attempt r (\<lambda>(_, c). Inr c)"

fun execute :: "world \<Rightarrow> instruction \<Rightarrow> chain \<Rightarrow> chain_error + chain" where
  "execute W (Initialize b prog pd m) c = initialize (rt W) (loader_id W) (program_data_address W) prog pd b m c"
| "execute W (InitializePermissionlessAuthority b name) c = initialize_permissionless_authority b name c"
| "execute W (OfferVaultDeposit b m n) c = offer_vault_deposit (rt W) b m n c"
| "execute W (OfferVaultWithdraw b m n) c = offer_vault_withdraw (rt W) b m n c"
| "execute W (RedemptionVaultDeposit b m n) c = redemption_vault_deposit (rt W) b m n c"
| "execute W (RedemptionVaultWithdraw b m n) c = redemption_vault_withdraw (rt W) b m n c"
| "execute W (MakeOffer b i ot fee needs allow) c = make_offer (rt W) b i ot fee needs allow c"
| "execute W (AddOfferVector b i ot start base price rate dur) c = add_offer_vector (rt W) b i ot start base price rate dur c"
| "execute W (DeleteOfferVector b i ot start) c = delete_offer_vector (rt W) b i ot start c"
| "execute W (DeleteAllOfferVectors b i ot) c = delete_all_offer_vectors (rt W) b i ot c"
| "execute W (UpdateOfferFee b i ot fee) c = update_offer_fee (rt W) b i ot fee c"
| "execute W (TakeOffer u b i ot n ap) c = take_offer (rt W) (txc W) u b i ot n ap c"
| "execute W (TakeOfferPermissionless u b va pa ma i ot n ap) c =
     take_offer_permissionless (rt W) (txc W) u b va pa ma i ot n ap c"
| "execute W (ProposeBoss b k) c = propose_boss b k c"
| "execute W (AcceptBoss k) c = accept_boss k c"
| "execute W (AddAdmin b k) c = add_admin b k c"
| "execute W (RemoveAdmin b k) c = remove_admin b k c"
| "execute W (ClearAdmins b) c = clear_admins b c"
| "execute W (TransferMintAuthorityToProgram b m) c = transfer_mint_authority_to_program (rt W) b m c"
| "execute W (TransferMintAuthorityToBoss b m) c = transfer_mint_authority_to_boss (rt W) b m c"
| "execute W (SetKillSwitch k e) c = set_kill_switch k e c"
| "execute W (SetOnycMint b m) c = set_onyc_mint b m c"
| "execute W (SetRedemptionAdmin b k) c = set_redemption_admin b k c"
| "execute W (MintTo b m n) c = mint_to (rt W) b m n c"
| "execute W (GetNav i ot) c = drop_value (get_nav (rt W) i ot c)"
| "execute W (GetApy i ot) c = drop_value (get_apy (rt W) i ot c)"
| "execute W (GetNavAdjustment i ot) c = drop_value (get_nav_adjustment (rt W) i ot c)"
| "execute W (GetTvl i ot va tp) c = drop_value (get_tvl (rt W) (acc W) i ot va tp c)"
| "execute W (GetCirculatingSupply m va tp) c = drop_value (get_circulating_supply (rt W) (acc W) m va tp c)"
| "execute W (AddApprover b k) c = add_approver b k c"
| "execute W (RemoveApprover b k) c = remove_approver b k c"
| "execute W (ConfigureMaxSupply b n) c = configure_max_supply b n c"
| "execute W (CloseState sk b) c = close_state (rt W) sk b c"
| "execute W (MakeRedemptionOffer b i ot fee) c = make_redemption_offer (rt W) b i ot fee c"
| "execute W (CreateRedemptionRequest u ro i n) c = create_redemption_request (rt W) u ro i n c"
| "execute W (FulfillRedemptionRequest a b off ro rq u i ot) c =
     fulfill_redemption_request (rt W) a b off ro rq u i ot c"
| "execute W (CancelRedemptionRequest k ro rq u a i) c = cancel_redemption_request (rt W) k ro rq u a i c"
| "execute W (UpdateRedemptionOfferFee b ro fee) c = update_redemption_offer_fee (rt W) b ro fee c"

text \<open>Before the first instruction there is no account of the program.\<close>

definition empty_chain :: "tokens \<Rightarrow> (pubkey \<Rightarrow> nat) \<Rightarrow> chain" where
  "empty_chain t l = \<lparr>state_acc = None, permissionless_acc = None, authorities_created = False,
     offers = (\<lambda>_. None), redemption_offers = (\<lambda>_. None), redemption_requests = (\<lambda>_. None), tok = t,
     lamports = l, events = []\<rparr>"

text \<open>
  One step of the chain, labelled with the instruction, for programs whose addresses are derived by
  \<open>F\<close>; \<open>None\<close> labels a step of other programs.
\<close>

inductive chain_step :: "(seed list \<Rightarrow> pubkey) \<Rightarrow> chain \<Rightarrow> instruction option \<Rightarrow> chain \<Rightarrow> bool" for F where
  Run: "find_program_address (rt W) = F \<Longrightarrow> execute W i c = Inr c' \<Longrightarrow> chain_step F c (Some i) c'"
| Outside: "chain_step F c None (c\<lparr>tok := t, lamports := l\<rparr>)"

inductive reachable :: "(seed list \<Rightarrow> pubkey) \<Rightarrow> chain \<Rightarrow> bool" for F where
  Start: "reachable F (empty_chain t l)"
| Step: "reachable F c \<Longrightarrow> chain_step F c lbl c' \<Longrightarrow> reachable F c'"

text \<open>A run is a sequence of steps with its labels.\<close>

inductive run :: "(seed list \<Rightarrow> pubkey) \<Rightarrow> chain \<Rightarrow> instruction option list \<Rightarrow> chain \<Rightarrow> bool" for F where
  Halt: "run F c [] c"
| Continue: "run F c ls c' \<Longrightarrow> chain_step F c' lbl c'' \<Longrightarrow> run F c (ls @ [lbl]) c''"

text \<open>The key whose signature an instruction requires; the queries require none.\<close>

fun signer_of :: "instruction \<Rightarrow> pubkey option" where
  "signer_of (Initialize b _ _ _) = Some b"
| "signer_of (InitializePermissionlessAuthority b _) = Some b"
| "signer_of (OfferVaultDeposit b _ _) = Some b"
| "signer_of (OfferVaultWithdraw b _ _) = Some b"
| "signer_of (RedemptionVaultDeposit b _ _) = Some b"
| "signer_of (RedemptionVaultWithdraw b _ _) = Some b"
| "signer_of (MakeOffer b _ _ _ _ _) = Some b"
| "signer_of (AddOfferVector b _ _ _ _ _ _ _) = Some b"
| "signer_of (DeleteOfferVector b _ _ _) = Some b"
| "signer_of (DeleteAllOfferVectors b _ _) = Some b"
| "signer_of (UpdateOfferFee b _ _ _) = Some b"
| "signer_of (TakeOffer u _ _ _ _ _) = Some u"
| "signer_of (TakeOfferPermissionless u _ _ _ _ _ _ _ _) = Some u"
| "signer_of (ProposeBoss b _) = Some b"
| "signer_of (AcceptBoss k) = Some k"
| "signer_of (AddAdmin b _) = Some b"
| "signer_of (RemoveAdmin b _) = Some b"
| "signer_of (ClearAdmins b) = Some b"
| "signer_of (TransferMintAuthorityToProgram b _) = Some b"
| "signer_of (TransferMintAuthorityToBoss b _) = Some b"
| "signer_of (SetKillSwitch k _) = Some k"
| "signer_of (SetOnycMint b _) = Some b"
| "signer_of (SetRedemptionAdmin b _) = Some b"
| "signer_of (MintTo b _ _) = Some b"
| "signer_of (AddApprover b _) = Some b"
| "signer_of (RemoveApprover b _) = Some b"
| "signer_of (ConfigureMaxSupply b _) = Some b"
| "signer_of (CloseState _ b) = Some b"
| "signer_of (MakeRedemptionOffer k _ _ _) = Some k"
| "signer_of (CreateRedemptionRequest u _ _ _) = Some u"
| "signer_of (FulfillRedemptionRequest k _ _ _ _ _ _ _) = Some k"
| "signer_of (CancelRedemptionRequest k _ _ _ _ _) = Some k"
| "signer_of (UpdateRedemptionOfferFee b _ _) = Some b"
| "signer_of (GetNav _ _) = None"
| "signer_of (GetApy _ _) = None"
| "signer_of (GetNavAdjustment _ _) = None"
| "signer_of (GetTvl _ _ _ _) = None"
| "signer_of (GetCirculatingSupply _ _ _) = None"

inductive_cases Run_elim: "chain_step F c (Some i) c'"
inductive_cases chain_step_elim: "chain_step F c lbl c'"

end
