(* ===== verification/Chain_Frame.thy ===== *)
theory Chain_Frame
  imports Chain_Program
begin

text \<open>
  What an instruction leaves alone: the selectors of the chain after each kind of write, and for every
  group of accounts the instructions that can change it.
\<close>

section \<open>Writes and selectors\<close>

lemma emit_sel [simp]:
  "state_acc (emit e c) = state_acc c" "offers (emit e c) = offers c" "tok (emit e c) = tok c"
  "redemption_offers (emit e c) = redemption_offers c" "redemption_requests (emit e c) = redemption_requests c"
  "permissionless_acc (emit e c) = permissionless_acc c" "lamports (emit e c) = lamports c"
  "events (emit e c) = events c @ [e]"
  by (simp_all add: emit_def)

lemma fold_emit [simp]:
  "state_acc (fold emit es c) = state_acc c" "offers (fold emit es c) = offers c" "tok (fold emit es c) = tok c"
  "redemption_offers (fold emit es c) = redemption_offers c"
  "redemption_requests (fold emit es c) = redemption_requests c"
  "events (fold emit es c) = events c @ es"
  by (induction es arbitrary: c) simp_all

lemma put_state_sel [simp]:
  "state_acc (put_state s c) = Some s" "offers (put_state s c) = offers c" "tok (put_state s c) = tok c"
  "redemption_offers (put_state s c) = redemption_offers c"
  "redemption_requests (put_state s c) = redemption_requests c"
  by (simp_all add: put_state_def)

lemma put_offer_sel [simp]:
  "state_acc (put_offer a off c) = state_acc c" "offers (put_offer a off c) = (offers c)(a \<mapsto> off)"
  "tok (put_offer a off c) = tok c" "redemption_offers (put_offer a off c) = redemption_offers c"
  "redemption_requests (put_offer a off c) = redemption_requests c"
  by (simp_all add: put_offer_def)

lemma put_tok_sel [simp]:
  "state_acc (put_tok t c) = state_acc c" "offers (put_tok t c) = offers c" "tok (put_tok t c) = t"
  "redemption_offers (put_tok t c) = redemption_offers c"
  "redemption_requests (put_tok t c) = redemption_requests c"
  by (simp_all add: put_tok_def)

lemma put_redemption_offer_sel [simp]:
  "state_acc (put_redemption_offer a r c) = state_acc c" "offers (put_redemption_offer a r c) = offers c"
  "tok (put_redemption_offer a r c) = tok c"
  "redemption_offers (put_redemption_offer a r c) = (redemption_offers c)(a \<mapsto> r)"
  "redemption_requests (put_redemption_offer a r c) = redemption_requests c"
  by (simp_all add: put_redemption_offer_def)

lemma put_request_sel [simp]:
  "state_acc (put_request a r c) = state_acc c" "offers (put_request a r c) = offers c"
  "tok (put_request a r c) = tok c" "redemption_offers (put_request a r c) = redemption_offers c"
  "redemption_requests (put_request a r c) = (redemption_requests c)(a := r)"
  by (simp_all add: put_request_def)

lemma queries_frame:
  assumes "drop_value q = Inr c'" and "\<And>v c'. q = Inr (v, c') \<Longrightarrow> \<exists>e. c' = emit e c"
  shows "\<exists>e. c' = emit e c"
  using assms by (auto simp: drop_value_def split: prod.splits)

section \<open>Who writes what\<close>

fun writes_state :: "instruction \<Rightarrow> bool" where
  "writes_state (Initialize _ _ _ _) = True"
| "writes_state (ProposeBoss _ _) = True"
| "writes_state (AcceptBoss _) = True"
| "writes_state (AddAdmin _ _) = True"
| "writes_state (RemoveAdmin _ _) = True"
| "writes_state (ClearAdmins _) = True"
| "writes_state (SetKillSwitch _ _) = True"
| "writes_state (SetOnycMint _ _) = True"
| "writes_state (SetRedemptionAdmin _ _) = True"
| "writes_state (AddApprover _ _) = True"
| "writes_state (RemoveApprover _ _) = True"
| "writes_state (ConfigureMaxSupply _ _) = True"
| "writes_state (CloseState _ _) = True"
| "writes_state _ = False"

fun writes_offers :: "instruction \<Rightarrow> bool" where
  "writes_offers (MakeOffer _ _ _ _ _ _) = True"
| "writes_offers (AddOfferVector _ _ _ _ _ _ _ _) = True"
| "writes_offers (DeleteOfferVector _ _ _ _) = True"
| "writes_offers (DeleteAllOfferVectors _ _ _) = True"
| "writes_offers (UpdateOfferFee _ _ _ _) = True"
| "writes_offers _ = False"

fun writes_redemptions :: "instruction \<Rightarrow> bool" where
  "writes_redemptions (MakeRedemptionOffer _ _ _ _) = True"
| "writes_redemptions (CreateRedemptionRequest _ _ _ _) = True"
| "writes_redemptions (FulfillRedemptionRequest _ _ _ _ _ _ _ _) = True"
| "writes_redemptions (CancelRedemptionRequest _ _ _ _ _ _) = True"
| "writes_redemptions (UpdateRedemptionOfferFee _ _ _) = True"
| "writes_redemptions _ = False"

lemmas query_defs = get_nav_def get_apy_def get_nav_adjustment_def get_tvl_def get_circulating_supply_def

lemma state_frame:
  assumes "execute W i c = Inr c'" and "\<not> writes_state i"
  shows "state_acc c' = state_acc c"
  using assms
  by (cases i) (auto simp: trade_op_defs offer_op_defs redemption_op_defs query_defs drop_value_def Let_def
      initialize_permissionless_authority_def has_one_boss_def split: prod.splits if_splits)

lemma offers_frame:
  assumes "execute W i c = Inr c'" and "\<not> writes_offers i"
  shows "offers c' = offers c"
  using assms
  by (cases i) (auto simp: trade_op_defs state_op_defs redemption_op_defs query_defs drop_value_def Let_def
      has_one_boss_def split: prod.splits if_splits)

lemma redemptions_frame:
  assumes "execute W i c = Inr c'" and "\<not> writes_redemptions i"
  shows "redemption_offers c' = redemption_offers c \<and> redemption_requests c' = redemption_requests c"
  using assms
  by (cases i) (auto simp: trade_op_defs state_op_defs offer_op_defs query_defs drop_value_def Let_def
      split: prod.splits if_splits)

end
