(* ===== verification/Chain_State_Inv.thy ===== *)
theory Chain_State_Inv
  imports Chain_Frame
begin

text \<open>
  The governance account: its well-formedness, which every instruction keeps, and the refinement of the
  admin slots by a set of bounded size.
\<close>

section \<open>Slots as a set\<close>

definition admin_set :: "pubkey list \<Rightarrow> pubkey set" where
  "admin_set as = set as - {PublicKey_default}"

definition admin_slots :: "pubkey list \<Rightarrow> bool" where
  "admin_slots as = (length as = MAX_ADMINS \<and> distinct (List.filter (\<lambda>a. a \<noteq> PublicKey_default) as))"

lemma replace_slot_None [simp]: "replace_slot old new as = None \<longleftrightarrow> old \<notin> set as"
  by (induction as) auto

lemma replace_slot_Some:
  "replace_slot old new as = Some bs \<Longrightarrow> \<exists>xs ys. as = xs @ old # ys \<and> bs = xs @ new # ys \<and> old \<notin> set xs"
proof (induction as arbitrary: bs)
  case (Cons a as)
  show ?case
  proof (cases "a = old")
    case True
    with Cons.prems show ?thesis by (intro exI [of _ "[]"] exI [of _ as]) auto
  next
    case False
    with Cons.prems obtain cs where cs: "replace_slot old new as = Some cs" "bs = a # cs" by auto
    from Cons.IH [OF cs(1)] obtain xs ys where "as = xs @ old # ys" "cs = xs @ new # ys" "old \<notin> set xs" by blast
    with False cs(2) show ?thesis by (intro exI [of _ "a # xs"] exI [of _ ys]) auto
  qed
qed simp

lemma replace_slot_length: "replace_slot old new as = Some bs \<Longrightarrow> length bs = length as"
  by (drule replace_slot_Some) auto

lemma add_slot:
  assumes "admin_slots as" and "k \<notin> set as" and "replace_slot PublicKey_default k as = Some bs"
  shows "admin_slots bs" and "admin_set bs = insert k (admin_set as)"
proof -
  obtain xs ys where xy: "as = xs @ PublicKey_default # ys" "bs = xs @ k # ys"
    using replace_slot_Some [OF assms(3)] by blast
  with assms(2) have "k \<noteq> PublicKey_default" by auto
  with assms(1,2) xy show "admin_slots bs" "admin_set bs = insert k (admin_set as)"
    by (auto simp: admin_slots_def admin_set_def)
qed

lemma remove_slot:
  assumes "admin_slots as" and "replace_slot k PublicKey_default as = Some bs"
  shows "admin_slots bs" and "admin_set bs = admin_set as - {k}"
proof -
  obtain xs ys where xy: "as = xs @ k # ys" "bs = xs @ PublicKey_default # ys"
    using replace_slot_Some [OF assms(2)] by blast
  with assms(1) show "admin_slots bs" "admin_set bs = admin_set as - {k}"
    by (auto simp: admin_slots_def admin_set_def split: if_splits)
qed

lemma empty_slots [simp]: "admin_slots (replicate MAX_ADMINS PublicKey_default)"
  by (simp add: admin_slots_def)

lemma admin_set_empty [simp]: "admin_set (replicate n PublicKey_default) = {}"
  by (auto simp: admin_set_def)

lemma full_slots:
  assumes "admin_slots as"
  shows "PublicKey_default \<notin> set as \<longleftrightarrow> card (admin_set as) = MAX_ADMINS"
proof -
  let ?f = "List.filter (\<lambda>a. a \<noteq> PublicKey_default) as"
  have card: "card (admin_set as) = length ?f"
    using assms distinct_card [of ?f] by (simp add: admin_slots_def admin_set_def set_filter set_diff_eq)
  show ?thesis
  proof
    assume "PublicKey_default \<notin> set as"
    then have "?f = as" by (auto simp: filter_id_conv)
    with card assms show "card (admin_set as) = MAX_ADMINS" by (simp add: admin_slots_def)
  next
    assume "card (admin_set as) = MAX_ADMINS"
    with card assms have "length ?f = length as" by (simp add: admin_slots_def)
    then show "PublicKey_default \<notin> set as" by (metis (mono_tags, lifting) length_filter_less nat_neq_iff)
  qed
qed

section \<open>The invariant of the state account\<close>

definition state_wf :: "State \<Rightarrow> bool" where
  "state_wf s = (admin_slots (admins s) \<and> (approver1 s = approver2 s \<longrightarrow> approver1 s = PublicKey_default))"

lemma new_State_wf [simp]: "state_wf (new_State b m)"
  by (simp add: state_wf_def new_State_def)

lemma state_wf_step:
  assumes run: "execute W i c = Inr c'" and wf: "\<And>s. state_acc c = Some s \<Longrightarrow> state_wf s"
    and s': "state_acc c' = Some s'"
  shows "state_wf s'"
proof (cases "writes_state i")
  case False
  with assms show ?thesis using state_frame by metis
next
  case True
  show ?thesis
  proof (cases "\<exists>b k. i = AddAdmin b k \<or> i = RemoveAdmin b k")
    case True
    with run wf s' show ?thesis
      by (auto simp: add_admin_def remove_admin_def state_wf_def; metis add_slot(1) remove_slot(1))
  next
    case False
    with \<open>writes_state i\<close> assms show ?thesis
      by (cases i) (auto simp: propose_boss_def accept_boss_def clear_admins_def set_kill_switch_def set_onyc_mint_def
          set_redemption_admin_def add_approver_def remove_approver_def configure_max_supply_def close_state_def
          initialize_def has_one_boss_def Let_def state_wf_def new_State_def split: if_splits)
  qed
qed

lemma state_wf_reachable: "reachable F c \<Longrightarrow> state_acc c = Some s \<Longrightarrow> state_wf s"
proof (induction arbitrary: s rule: reachable.induct)
  case (Start t l)
  then show ?case by (simp add: empty_chain_def)
next
  case (Step c lbl c')
  from Step.hyps(2) show ?case
  proof (cases rule: chain_step.cases)
    case (Run W i)
    with Step show ?thesis using state_wf_step by blast
  next
    case (Outside t l)
    with Step show ?thesis by simp
  qed
qed

end
