(* ===== verification/Chain_Demo.thy ===== *)
theory Chain_Demo
  imports Chain_Program
begin

text \<open>
  A concrete runtime for the witnesses: an injective address derivation, a token program that keeps
  balances as numbers, and small chains.
\<close>

section \<open>Addresses\<close>

definition quote :: "string \<Rightarrow> string" where
  "quote s = concat (List.map (\<lambda>ch. [CHR ''1'', ch]) s) @ [CHR ''0'']"

lemma quote_inj: "quote s @ x = quote t @ y \<longleftrightarrow> s = t \<and> x = y"
proof (induction s arbitrary: t)
  case Nil
  show ?case by (cases t) (auto simp: quote_def)
next
  case (Cons a s)
  show ?case
  proof (cases t)
    case Nil
    then show ?thesis by (auto simp: quote_def)
  next
    case (Cons b u)
    have "quote (a # s) @ x = quote (b # u) @ y \<longleftrightarrow> a = b \<and> quote s @ x = quote u @ y"
      by (simp add: quote_def)
    with Cons Cons.IH show ?thesis by simp
  qed
qed

fun seed_code :: "seed \<Rightarrow> string" where
  "seed_code (Seed s) = CHR ''s'' # quote s"
| "seed_code (KeySeed (PublicKey s)) = CHR ''k'' # quote s"
| "seed_code (U64Seed n) = CHR ''n'' # quote (replicate n CHR ''1'')"

lemma seed_code_inj: "seed_code a @ x = seed_code b @ y \<longleftrightarrow> a = b \<and> x = y"
  by (cases a rule: seed_code.cases; cases b rule: seed_code.cases)
     (auto simp: quote_inj dest: arg_cong [where f = length])

definition demo_find :: "seed list \<Rightarrow> pubkey" where
  "demo_find ss = PublicKey (concat (List.map seed_code ss))"

lemma concat_seed_code_inj:
  "concat (List.map seed_code ss) = concat (List.map seed_code ts) \<longleftrightarrow> ss = ts"
proof (induction ss arbitrary: ts)
  case Nil
  have "seed_code t \<noteq> []" for t by (cases t rule: seed_code.cases) auto
  then show ?case by (cases ts) auto
next
  case (Cons a ss)
  have "seed_code t \<noteq> []" for t by (cases t rule: seed_code.cases) auto
  with Cons show ?case by (cases ts) (auto simp: seed_code_inj)
qed

lemma demo_find_inj: "inj demo_find"
  by (auto simp: inj_def demo_find_def concat_seed_code_inj)

lemma demo_find_eq [simp]: "demo_find ss = demo_find ts \<longleftrightarrow> ss = ts"
  using demo_find_inj by (auto simp: inj_def)

lemma demo_find_not_default [simp]: "demo_find (Seed s # ss) \<noteq> PublicKey_default"
  by (simp add: demo_find_def PublicKey_default_def numeral_eq_Suc)

section \<open>Tokens\<close>

definition demo_transfer :: "tokens \<Rightarrow> pubkey \<Rightarrow> pubkey \<Rightarrow> pubkey \<Rightarrow> pubkey \<Rightarrow> nat \<Rightarrow> chain_error + tokens" where
  "demo_transfer t m a b s n = (if s = a \<and> n \<le> balance t a m then Inr (credit m b n (debit m a n t))
     else Inl (TokenError ''insufficient funds''))"

definition demo_mint_to :: "tokens \<Rightarrow> pubkey \<Rightarrow> pubkey \<Rightarrow> pubkey \<Rightarrow> nat \<Rightarrow> chain_error + tokens" where
  "demo_mint_to t m b s n = (case mints t m of
     Some x \<Rightarrow> if mint_authority x = Some s \<and> mint_supply x + n < 2 ^ 64
       then Inr (credit m b n (set_supply m (\<lambda>s. s + n) t)) else Inl (TokenError ''owner does not match'')
   | None \<Rightarrow> Inl (TokenError ''invalid mint''))"

definition demo_burn :: "tokens \<Rightarrow> pubkey \<Rightarrow> pubkey \<Rightarrow> pubkey \<Rightarrow> nat \<Rightarrow> chain_error + tokens" where
  "demo_burn t m a s n = (case mints t m of
     Some x \<Rightarrow> if s = a \<and> n \<le> balance t a m \<and> n \<le> mint_supply x
       then Inr (debit m a n (set_supply m (\<lambda>s. s - n) t)) else Inl (TokenError ''insufficient funds'')
   | None \<Rightarrow> Inl (TokenError ''invalid mint''))"

definition demo_set_authority :: "tokens \<Rightarrow> pubkey \<Rightarrow> pubkey \<Rightarrow> pubkey \<Rightarrow> chain_error + tokens" where
  "demo_set_authority t m s a = (case mints t m of
     Some x \<Rightarrow> if mint_authority x = Some s
       then Inr (t\<lparr>mints := (mints t)(m \<mapsto> x\<lparr>mint_authority := Some a\<rparr>)\<rparr>) else Inl (TokenError ''owner does not match'')
   | None \<Rightarrow> Inl (TokenError ''invalid mint''))"

definition demo_rt :: "nat \<Rightarrow> runtime" where
  "demo_rt time = \<lparr>program_id = PublicKey ''onre'', find_program_address = demo_find, now = time,
     transfer_checked = demo_transfer, mint_to_checked = demo_mint_to, burn_checked = demo_burn,
     set_authority = demo_set_authority\<rparr>"

lemma demo_rt_sel [simp]:
  "program_id (demo_rt t) = PublicKey ''onre''" "find_program_address (demo_rt t) = demo_find" "now (demo_rt t) = t"
  "transfer_checked (demo_rt t) = demo_transfer" "mint_to_checked (demo_rt t) = demo_mint_to"
  "burn_checked (demo_rt t) = demo_burn" "set_authority (demo_rt t) = demo_set_authority"
  by (simp_all add: demo_rt_def)

lemma demo_token_program_ok: "token_program_ok (demo_rt t)"
  by (simp add: token_program_ok_def demo_transfer_def demo_mint_to_def demo_burn_def demo_set_authority_def
      split: option.splits)

section \<open>Keys, mints and a state\<close>

definition k_boss :: pubkey where "k_boss = PublicKey ''boss''"
definition k_admin :: pubkey where "k_admin = PublicKey ''admin''"
definition k_user :: pubkey where "k_user = PublicKey ''user''"
definition k_new :: pubkey where "k_new = PublicKey ''new''"
definition m_usdc :: pubkey where "m_usdc = PublicKey ''usdc''"
definition m_onyc :: pubkey where "m_onyc = PublicKey ''onyc''"

lemmas key_defs = k_boss_def k_admin_def k_user_def k_new_def m_usdc_def m_onyc_def

lemma keys_differ [simp]:
  "k_boss \<noteq> k_admin" "k_admin \<noteq> k_boss" "k_boss \<noteq> k_user" "k_user \<noteq> k_boss" "k_boss \<noteq> k_new" "k_new \<noteq> k_boss"
  "k_user \<noteq> k_admin" "k_admin \<noteq> k_user" "k_new \<noteq> k_admin" "k_admin \<noteq> k_new" "k_new \<noteq> k_user" "k_user \<noteq> k_new"
  "m_usdc \<noteq> m_onyc" "m_onyc \<noteq> m_usdc"
  by (simp_all add: key_defs)

lemma keys_not_default [simp]:
  "k_boss \<noteq> PublicKey_default" "k_admin \<noteq> PublicKey_default" "k_user \<noteq> PublicKey_default" "k_new \<noteq> PublicKey_default"
  "m_usdc \<noteq> PublicKey_default" "m_onyc \<noteq> PublicKey_default"
  by (simp_all add: key_defs PublicKey_default_def numeral_eq_Suc)

text \<open>The program holds the mint authority of the second mint; both mints have no transfer fee.\<close>

definition demo_tok :: tokens where
  "demo_tok = \<lparr>mints = [m_usdc \<mapsto> \<lparr>mint_authority = None, mint_supply = 5000000000, decimals = 6, transfer_fee = None\<rparr>,
       m_onyc \<mapsto> \<lparr>mint_authority = Some (demo_find [Seed ''mint_authority'']), mint_supply = 0, decimals = 9,
                   transfer_fee = None\<rparr>],
     balance = (\<lambda>a m. if a = k_user \<and> m = m_usdc then 5000000000 else 0)\<rparr>"

definition demo_state :: State where
  "demo_state = new_State k_boss m_onyc"

definition demo_txc :: tx_context where
  "demo_txc = \<lparr>current_index = None, instruction_at = (\<lambda>_. None), ed25519_program_id = PublicKey ''ed25519'',
     to_bytes = (\<lambda>_. []), try_from_slice = (\<lambda>_. None)\<rparr>"

definition demo_world :: "nat \<Rightarrow> world" where
  "demo_world t = \<lparr>rt = demo_rt t, txc = demo_txc,
     acc = \<lparr>associated_address = (\<lambda>_ _ _. PublicKey_default), account_at = (\<lambda>_. \<lparr>raw_owner = PublicKey_default, raw_data = NoData\<rparr>)\<rparr>,
     loader_id = PublicKey ''loader'', program_data_address = (\<lambda>_. PublicKey ''data'')\<rparr>"

lemma demo_world_rt [simp]: "rt (demo_world t) = demo_rt t" "txc (demo_world t) = demo_txc"
  "loader_id (demo_world t) = PublicKey ''loader''" "program_data_address (demo_world t) = (\<lambda>_. PublicKey ''data'')"
  by (simp_all add: demo_world_def)

definition demo_init :: instruction where
  "demo_init = Initialize k_boss \<lparr>info_key = PublicKey ''onre'', info_owner = PublicKey ''loader'', info_data = Undecodable\<rparr>
     (Some \<lparr>info_key = PublicKey ''data'', info_owner = PublicKey ''loader'', info_data = ProgramData (Some k_boss)\<rparr>) m_onyc"

definition demo_chain :: chain where
  "demo_chain = put_state demo_state ((empty_chain demo_tok (\<lambda>_. 0))\<lparr>authorities_created := True\<rparr>)"

lemma demo_init_runs: "execute (demo_world t) demo_init (empty_chain demo_tok l) =
    Inr (put_state demo_state ((empty_chain demo_tok l)\<lparr>authorities_created := True\<rparr>))"
  by (simp add: demo_init_def initialize_def get_upgrade_authority_def empty_chain_def demo_tok_def demo_state_def)

lemma demo_reachable: "reachable demo_find demo_chain"
  unfolding demo_chain_def
  by (rule reachable.Step [OF reachable.Start chain_step.Run [OF _ demo_init_runs [of 0]]]) simp


section \<open>An offer with one vector\<close>

definition demo_pda :: pubkey where
  "demo_pda = demo_find [Seed ''offer'', KeySeed m_usdc, KeySeed m_onyc]"

lemma demo_offer_pda [simp]: "offer_pda (demo_rt t) m_usdc m_onyc = demo_pda"
  by (simp add: offer_pda_def demo_pda_def)

definition demo_vector :: OfferVector where
  "demo_vector = \<lparr>start_time = 1000, base_time = 1000, base_price = 1000000000, apr = 36500, price_fix_duration = 86400\<rparr>"

definition demo_offer :: "OfferVector list \<Rightarrow> Offer" where
  "demo_offer vs = \<lparr>offer_token_in_mint = m_usdc, offer_token_out_mint = m_onyc, vectors = vs, fee_basis_points = 100,
     needs_approval_flag = 0, allow_permissionless_flag = 1\<rparr>"

definition demo_chain2 :: chain where
  "demo_chain2 = emit (OfferMadeEvent demo_pda m_usdc m_onyc 100 k_boss False True)
     (put_offer demo_pda (demo_offer (replicate MAX_VECTORS OfferVector_default)) demo_chain)"

definition demo_chain3 :: chain where
  "demo_chain3 = emit (OfferVectorAddedEvent demo_pda 1000 1000 1000000000 36500 86400)
     (put_offer demo_pda (demo_offer (demo_vector # replicate 9 OfferVector_default)) demo_chain2)"

lemma demo_chain_sel [simp]:
  "state_acc demo_chain = Some demo_state" "tok demo_chain = demo_tok" "offers demo_chain = (\<lambda>_. None)"
  "redemption_offers demo_chain = (\<lambda>_. None)" "redemption_requests demo_chain = (\<lambda>_. None)"
  by (simp_all add: demo_chain_def put_state_def empty_chain_def)

lemma demo_chain2_sel [simp]:
  "state_acc demo_chain2 = Some demo_state" "tok demo_chain2 = demo_tok"
  "offers demo_chain2 = [demo_pda \<mapsto> demo_offer (replicate MAX_VECTORS OfferVector_default)]"
  "redemption_offers demo_chain2 = (\<lambda>_. None)" "redemption_requests demo_chain2 = (\<lambda>_. None)"
  by (simp_all add: demo_chain2_def emit_def put_offer_def)

lemma demo_chain3_sel [simp]:
  "state_acc demo_chain3 = Some demo_state" "tok demo_chain3 = demo_tok"
  "offers demo_chain3 = [demo_pda \<mapsto> demo_offer (demo_vector # replicate 9 OfferVector_default)]"
  "redemption_offers demo_chain3 = (\<lambda>_. None)" "redemption_requests demo_chain3 = (\<lambda>_. None)"
  by (simp_all add: demo_chain3_def emit_def put_offer_def)

lemma demo_state_sel [simp]:
  "boss demo_state = k_boss" "is_killed demo_state = False" "max_supply demo_state = 0"
  "onyc_mint demo_state = m_onyc" "proposed_boss demo_state = PublicKey_default"
  "redemption_admin demo_state = PublicKey_default" "admins demo_state = replicate MAX_ADMINS PublicKey_default"
  "approver1 demo_state = PublicKey_default" "approver2 demo_state = PublicKey_default"
  by (simp_all add: demo_state_def new_State_def)

lemma demo_offer_sel [simp]:
  "vectors (demo_offer vs) = vs" "offer_token_in_mint (demo_offer vs) = m_usdc"
  "offer_token_out_mint (demo_offer vs) = m_onyc" "fee_basis_points (demo_offer vs) = 100"
  "needs_approval (demo_offer vs) = False" "allow_permissionless (demo_offer vs) = True"
  by (simp_all add: demo_offer_def needs_approval_def allow_permissionless_def)

lemma demo_vector_sel [simp]:
  "start_time demo_vector = 1000" "base_time demo_vector = 1000" "base_price demo_vector = 1000000000"
  "apr demo_vector = 36500" "price_fix_duration demo_vector = 86400"
  by (simp_all add: demo_vector_def)

lemma demo_tok_sel [simp]:
  "mints demo_tok m_usdc = Some \<lparr>mint_authority = None, mint_supply = 5000000000, decimals = 6, transfer_fee = None\<rparr>"
  "mints demo_tok m_onyc = Some \<lparr>mint_authority = Some (demo_find [Seed ''mint_authority'']), mint_supply = 0,
     decimals = 9, transfer_fee = None\<rparr>"
  "balance demo_tok a m = (if a = k_user \<and> m = m_usdc then 5000000000 else 0)"
  by (simp_all add: demo_tok_def)

lemmas guard_defs = as_boss_def with_state_def has_one_boss_def with_offer_def with_mint_def Let_def

lemmas guard_simps = option.distinct ok_or.simps attempt.simps not_False_eq_True simp_thms require_True

lemma demo_make_runs: "make_offer (demo_rt t) k_boss m_usdc m_onyc 100 False True demo_chain = Inr demo_chain2"
  unfolding make_offer_def guard_defs demo_offer_pda demo_chain_sel demo_tok_sel
  by (simp only: guard_simps demo_state_sel MAX_ALLOWED_FEE_BPS_def)
     (simp add: demo_chain2_def demo_offer_def set_permissionless_def set_approval_def)

lemma ten_slots: "replicate MAX_VECTORS x = x # replicate 9 x"
  by (simp add: MAX_VECTORS_def numeral_eq_Suc)

lemma demo_validate: "validate_inputs 1000 1000 1000000000 86400 1000 (demo_offer (replicate n OfferVector_default)) = Inr ()"
  by (simp add: validate_inputs_def)

lemma demo_clean: "clean_old_vectors (demo_offer (replicate n OfferVector_default)) demo_vector 1000 =
    Inr (demo_offer (replicate n OfferVector_default), [])"
  by (simp add: clean_old_vectors_def find_active_vector_at_def evicted_def demo_offer_def)

lemma demo_slot: "find_vector_index_by_start_time (demo_offer (replicate MAX_VECTORS OfferVector_default)) 0 = Some 0"
  by (simp add: find_vector_index_by_start_time_def ten_slots)

lemma demo_add_runs:
  "add_offer_vector (demo_rt 1000) k_boss m_usdc m_onyc None 1000 1000000000 36500 86400 demo_chain2 = Inr demo_chain3"
  unfolding add_offer_vector_def guard_defs demo_offer_pda demo_chain2_sel
  by (simp only: guard_simps demo_state_sel demo_offer_sel fun_upd_same demo_rt_sel option.case max.idem
        demo_validate demo_clean [unfolded demo_vector_def] prod.case demo_slot fold_simps(1) id_apply)
     (simp add: demo_chain3_def demo_offer_def demo_vector_def ten_slots)

lemma demo_reachable2: "reachable demo_find demo_chain2"
  by (rule reachable.Step [OF demo_reachable chain_step.Run
        [of "demo_world 0" _ "MakeOffer k_boss m_usdc m_onyc 100 False True"]]) (simp_all add: demo_make_runs)

lemma demo_reachable3: "reachable demo_find demo_chain3"
  by (rule reachable.Step [OF demo_reachable2 chain_step.Run
        [of "demo_world 1000" _ "AddOfferVector k_boss m_usdc m_onyc None 1000 1000000000 36500 86400"]])
     (simp_all add: demo_add_runs)

end
