(* ===== verification/Chain_State_Props.thy ===== *)
theory Chain_State_Props
  imports Chain_State_Inv Chain_Demo
begin

text \<open>
  Who may change what on the chain, the handover of the boss, the kill switch, and the admin slots as a
  bounded set.
\<close>

section \<open>Authority\<close>

lemma state_authority:
  assumes "execute W i c = Inr c'" and "state_acc c = Some s" and "state_acc c' \<noteq> Some s"
  shows "signer_of i = Some (boss s) \<or>
    (\<exists>k. i = SetKillSwitch k True \<and> k \<in> set (admins s) \<and> state_acc c' = Some (s\<lparr>is_killed := True\<rparr>)) \<or>
    (i = AcceptBoss (proposed_boss s) \<and> proposed_boss s \<noteq> PublicKey_default \<and>
      state_acc c' = Some (s\<lparr>boss := proposed_boss s, proposed_boss := PublicKey_default\<rparr>))"
proof (cases "writes_state i")
  case False
  with assms show ?thesis using state_frame by metis
next
  case True
  with assms show ?thesis
    by (cases i) (auto simp: state_op_defs has_one_boss_def Let_def split: if_splits)
qed

lemma offers_authority:
  assumes "execute W i c = Inr c'" and "offers c' \<noteq> offers c"
  shows "\<exists>s. state_acc c = Some s \<and> signer_of i = Some (boss s)"
proof (cases "writes_offers i")
  case False
  with assms show ?thesis using offers_frame by metis
next
  case True
  with assms show ?thesis
    by (cases i) (auto simp: offer_op_defs Let_def split: prod.splits if_splits)
qed


text \<open>
  C2: whoever runs an instruction, the state account is only changed with the signature of the boss on
  record, but for two changes: an admin may set the kill switch, and the proposed boss may take over; and
  no offer is made or changed without the signature of the boss.
\<close>

theorem account_changes_are_authorised:
  assumes "execute W i c = Inr c'" and "state_acc c = Some s"
  shows "(state_acc c' \<noteq> Some s \<longrightarrow> signer_of i = Some (boss s) \<or>
      (\<exists>k. i = SetKillSwitch k True \<and> k \<in> set (admins s) \<and> state_acc c' = Some (s\<lparr>is_killed := True\<rparr>)) \<or>
      (i = AcceptBoss (proposed_boss s) \<and> proposed_boss s \<noteq> PublicKey_default \<and>
        state_acc c' = Some (s\<lparr>boss := proposed_boss s, proposed_boss := PublicKey_default\<rparr>))) \<and>
    (offers c' \<noteq> offers c \<longrightarrow> signer_of i = Some (boss s))"
  using state_authority [OF assms] offers_authority [OF assms(1)] assms(2) by auto

theorem account_changes_are_authorised_witness:
  "\<exists>c1. execute (demo_world 0) (ProposeBoss k_boss k_new) demo_chain = Inr c1 \<and>
     (state_acc c1 \<noteq> Some demo_state \<longrightarrow> signer_of (ProposeBoss k_boss k_new) = Some (boss demo_state))"
proof -
  have st: "state_acc demo_chain = Some demo_state" by (simp add: demo_chain_def)
  obtain c1 where c1: "execute (demo_world 0) (ProposeBoss k_boss k_new) demo_chain = Inr c1"
    by (simp add: propose_boss_def as_boss_def with_state_def has_one_boss_def demo_chain_def demo_state_def new_State_def)
  show ?thesis using c1 conjunct1 [OF account_changes_are_authorised [OF c1 st]] by blast
qed

section \<open>The handover of the boss\<close>

lemma run_induct_state:
  assumes "run F c ls c'" and "P (state_acc c)"
    and "\<And>W i d d'. find_program_address (rt W) = F \<Longrightarrow> Some i \<in> set ls \<Longrightarrow> execute W i d = Inr d' \<Longrightarrow>
           P (state_acc d) \<Longrightarrow> P (state_acc d')"
  shows "P (state_acc c')"
  using assms
proof (induction rule: run.induct)
  case (Continue c ls c' lbl c'')
  have P: "P (state_acc c')"
    by (rule Continue.IH [OF Continue.prems(1)]) (use Continue.prems(2) in auto)
  from Continue.hyps(2) show ?case
  proof (cases rule: chain_step.cases)
    case (Run W i)
    with Continue.prems(2) [of W i c' c''] P show ?thesis by simp
  next
    case (Outside t l)
    with P show ?thesis by simp
  qed
qed simp

text \<open>
  C32: once the boss has proposed a new boss, nobody else can stop the handover: whatever instructions run in
  between, in any order and mixed with other programs, as long as neither key signs one of them, the
  acceptance of the proposed key succeeds and makes it the boss, with no proposal left.
\<close>

theorem handover_completes:
  assumes "state_acc c = Some s" and "new \<noteq> PublicKey_default"
  shows "\<exists>c1. propose_boss (boss s) new c = Inr c1 \<and>
    (\<forall>F ls c2. run F c1 ls c2 \<longrightarrow> (\<forall>i. Some i \<in> set ls \<longrightarrow> signer_of i \<noteq> Some (boss s) \<and> signer_of i \<noteq> Some new) \<longrightarrow>
      (\<exists>c3 s3. accept_boss new c2 = Inr c3 \<and> state_acc c3 = Some s3 \<and> boss s3 = new \<and>
        proposed_boss s3 = PublicKey_default))"
proof -
  let ?P = "\<lambda>st. \<exists>s2. st = Some s2 \<and> boss s2 = boss s \<and> proposed_boss s2 = new"
  obtain c1 where c1: "propose_boss (boss s) new c = Inr c1" "?P (state_acc c1)"
    using assms by (auto simp: propose_boss_def as_boss_def with_state_def has_one_boss_def)
  have "\<exists>c3 s3. accept_boss new c2 = Inr c3 \<and> state_acc c3 = Some s3 \<and> boss s3 = new \<and>
      proposed_boss s3 = PublicKey_default"
    if run: "run F c1 ls c2" and ls: "\<forall>i. Some i \<in> set ls \<longrightarrow> signer_of i \<noteq> Some (boss s) \<and> signer_of i \<noteq> Some new"
    for F ls c2
  proof -
    have "?P (state_acc c2)"
    proof (rule run_induct_state [where P = ?P, OF run c1(2)])
      fix W i d d'
      assume i: "Some i \<in> set ls" and ex: "execute W i d = Inr d'" and P: "?P (state_acc d)"
      from P obtain s2 where s2: "state_acc d = Some s2" "boss s2 = boss s" "proposed_boss s2 = new" by blast
      show "?P (state_acc d')"
        using state_authority [OF ex s2(1)] ls [rule_format, OF i] s2 by (cases "state_acc d' = Some s2") auto
    qed
    with assms(2) show ?thesis by (auto simp: accept_boss_def with_state_def)
  qed
  with c1(1) show ?thesis by blast
qed

theorem handover_completes_witness:
  "\<exists>c1 c3 s3. propose_boss k_boss k_new demo_chain = Inr c1 \<and> accept_boss k_new (c1\<lparr>tok := demo_tok, lamports := \<lambda>_. 7\<rparr>) = Inr c3 \<and>
     state_acc c3 = Some s3 \<and> boss s3 = k_new"
proof -
  have st: "state_acc demo_chain = Some demo_state" by (simp add: demo_chain_def)
  have b: "boss demo_state = k_boss" by (simp add: demo_state_def new_State_def)
  obtain c1 where c1: "propose_boss k_boss k_new demo_chain = Inr c1"
    "\<And>F ls c2. run F c1 ls c2 \<Longrightarrow> (\<forall>i. Some i \<in> set ls \<longrightarrow> signer_of i \<noteq> Some k_boss \<and> signer_of i \<noteq> Some k_new) \<Longrightarrow>
      (\<exists>c3 s3. accept_boss k_new c2 = Inr c3 \<and> state_acc c3 = Some s3 \<and> boss s3 = k_new)"
    using handover_completes [OF st keys_not_default(4)] unfolding b by metis
  have "run demo_find c1 ([] @ [None]) (c1\<lparr>tok := demo_tok, lamports := \<lambda>_. 7\<rparr>)"
    by (rule run.Continue [OF run.Halt chain_step.Outside])
  from c1(2) [OF this] c1(1) show ?thesis by auto
qed

section \<open>The kill switch\<close>

fun trades :: "instruction \<Rightarrow> bool" where
  "trades (TakeOffer _ _ _ _ _ _) = True"
| "trades (TakeOfferPermissionless _ _ _ _ _ _ _ _ _) = True"
| "trades (CreateRedemptionRequest _ _ _ _) = True"
| "trades (FulfillRedemptionRequest _ _ _ _ _ _ _ _) = True"
| "trades (CancelRedemptionRequest _ _ _ _ _ _) = True"
| "trades _ = False"

lemma killed_refuses:
  assumes "state_acc c = Some s" and "is_killed s" and "trades i"
  shows "\<exists>e. execute W i c = Inl e"
proof -
  have "execute W i c \<noteq> Inr c'" for c'
    using assms by (cases i) (auto simp: trade_op_defs redemption_op_defs Let_def)
  then show ?thesis by (cases "execute W i c") auto
qed

lemma kill_switch_stays:
  assumes "execute W i c = Inr c'" and "state_acc c = Some s" and "is_killed s"
    and "\<And>k. i \<noteq> SetKillSwitch k False" and "\<And>a k. i \<noteq> CloseState a k"
  shows "\<exists>s'. state_acc c' = Some s' \<and> is_killed s'"
proof (cases "writes_state i")
  case False
  with assms show ?thesis using state_frame by metis
next
  case True
  with assms show ?thesis
    by (cases i) (auto simp: state_op_defs has_one_boss_def Let_def split: if_splits)
qed

text \<open>
  C11: the boss and every admin can throw the kill switch, the boss alone can release it; and from then until
  it is released (or the state account closed) no purchase and no redemption request, fulfilment or
  cancellation succeeds, whatever else runs.
\<close>

theorem kill_switch_halts_trading:
  assumes "state_acc c = Some s" and "k = boss s \<or> k \<in> set (admins s)"
  shows "\<exists>c1. set_kill_switch k True c = Inr c1 \<and>
    (\<forall>F ls c2. run F c1 ls c2 \<longrightarrow>
      (\<forall>i. Some i \<in> set ls \<longrightarrow> (\<forall>b. i \<noteq> SetKillSwitch b False) \<and> (\<forall>a b. i \<noteq> CloseState a b)) \<longrightarrow>
      (\<forall>W i. trades i \<longrightarrow> (\<exists>e. execute W i c2 = Inl e)) \<and>
      (\<exists>s2. state_acc c2 = Some s2 \<and>
        (\<forall>b. (\<exists>c3. set_kill_switch b False c2 = Inr c3) \<longleftrightarrow> b = boss s2)))"
proof -
  let ?P = "\<lambda>st. \<exists>s2. st = Some s2 \<and> is_killed s2"
  obtain c1 where c1: "set_kill_switch k True c = Inr c1" "?P (state_acc c1)"
    using assms by (auto simp: set_kill_switch_def with_state_def)
  have "(\<forall>W i. trades i \<longrightarrow> (\<exists>e. execute W i c2 = Inl e)) \<and>
      (\<exists>s2. state_acc c2 = Some s2 \<and> (\<forall>b. (\<exists>c3. set_kill_switch b False c2 = Inr c3) \<longleftrightarrow> b = boss s2))"
    if run: "run F c1 ls c2"
      and ls: "\<forall>i. Some i \<in> set ls \<longrightarrow> (\<forall>b. i \<noteq> SetKillSwitch b False) \<and> (\<forall>a b. i \<noteq> CloseState a b)"
    for F ls c2
  proof -
    have "?P (state_acc c2)"
    proof (rule run_induct_state [where P = ?P, OF run c1(2)])
      fix W i d d'
      assume i: "Some i \<in> set ls" and ex: "execute W i d = Inr d'" and P: "?P (state_acc d)"
      from P obtain s2 where s2: "state_acc d = Some s2" "is_killed s2" by blast
      show "?P (state_acc d')"
        using kill_switch_stays [OF ex s2] ls [rule_format, OF i] by blast
    qed
    then obtain s2 where s2: "state_acc c2 = Some s2" "is_killed s2" by blast
    have "(\<exists>c3. set_kill_switch b False c2 = Inr c3) \<longleftrightarrow> b = boss s2" for b
      using s2 by (auto simp: set_kill_switch_def)
    with s2 killed_refuses [OF s2] show ?thesis by blast
  qed
  with c1(1) show ?thesis by blast
qed

theorem kill_switch_halts_trading_witness:
  "\<exists>c1. set_kill_switch k_boss True demo_chain = Inr c1 \<and>
     (\<exists>e. execute (demo_world 9) (TakeOffer k_user k_boss m_usdc m_onyc 5 None) c1 = Inl e)"
proof -
  have st: "state_acc demo_chain = Some demo_state" by (simp add: demo_chain_def)
  have b: "k_boss = boss demo_state \<or> k_boss \<in> set (admins demo_state)" by (simp add: demo_state_def new_State_def)
  obtain c1 where c1: "set_kill_switch k_boss True demo_chain = Inr c1"
    "\<And>F ls c2. run F c1 ls c2 \<Longrightarrow> (\<forall>i. Some i \<in> set ls \<longrightarrow> (\<forall>b. i \<noteq> SetKillSwitch b False) \<and> (\<forall>a b. i \<noteq> CloseState a b)) \<Longrightarrow>
       (\<forall>W i. trades i \<longrightarrow> (\<exists>e. execute W i c2 = Inl e))"
    using kill_switch_halts_trading [OF st b] by metis
  have "\<forall>W i. trades i \<longrightarrow> (\<exists>e. execute W i c1 = Inl e)"
    by (rule c1(2) [OF run.Halt]) simp
  moreover have "trades (TakeOffer k_user k_boss m_usdc m_onyc 5 None)" by simp
  ultimately show ?thesis using c1(1) by blast
qed

section \<open>The admin slots\<close>

text \<open>The contract of the admin list: a set of at most twenty keys, without the default key.\<close>

definition spec_add :: "pubkey \<Rightarrow> pubkey set \<Rightarrow> pubkey set option" where
  "spec_add k A = (if k = PublicKey_default \<or> k \<in> A \<or> card A = MAX_ADMINS then None else Some (insert k A))"

definition spec_remove :: "pubkey \<Rightarrow> pubkey set \<Rightarrow> pubkey set option" where
  "spec_remove k A = (if k \<in> A \<or> k = PublicKey_default \<and> card A < MAX_ADMINS then Some (A - {k}) else None)"

definition admins_after :: "chain_error + chain \<Rightarrow> pubkey set option" where
  "admins_after r = (case r of Inl _ \<Rightarrow> None | Inr c \<Rightarrow> map_option (\<lambda>s. admin_set (admins s)) (state_acc c))"

lemma add_admin_refines:
  assumes "state_acc c = Some s" and slots: "admin_slots (admins s)"
  shows "admins_after (add_admin (boss s) k c) = spec_add k (admin_set (admins s))"
proof (cases "k \<in> set (admins s)")
  case True
  then show ?thesis
    using assms by (auto simp: add_admin_def as_boss_def with_state_def has_one_boss_def admins_after_def
        spec_add_def admin_set_def)
next
  case new: False
  show ?thesis
  proof (cases "replace_slot PublicKey_default k (admins s)")
    case None
    then have "PublicKey_default \<notin> set (admins s)" by simp
    with full_slots [OF slots] assms new show ?thesis
      by (simp add: None add_admin_def as_boss_def with_state_def has_one_boss_def admins_after_def spec_add_def)
  next
    case (Some bs)
    then have "PublicKey_default \<in> set (admins s)" by (metis option.distinct(1) replace_slot_None)
    with new full_slots [OF slots] have "k \<noteq> PublicKey_default" "card (admin_set (admins s)) \<noteq> MAX_ADMINS" by auto
    with new assms Some add_slot(2) [OF slots new Some] show ?thesis
      by (auto simp: add_admin_def as_boss_def with_state_def has_one_boss_def admins_after_def spec_add_def
          admin_set_def)
  qed
qed

lemma admin_set_card:
  assumes "admin_slots as" shows "card (admin_set as) \<le> MAX_ADMINS"
proof -
  have "card (admin_set as) \<le> card (set as)" unfolding admin_set_def by (intro card_mono) auto
  also have "\<dots> \<le> MAX_ADMINS" using assms card_length [of as] by (simp add: admin_slots_def)
  finally show ?thesis .
qed

lemma remove_admin_refines:
  assumes "state_acc c = Some s" and slots: "admin_slots (admins s)"
  shows "admins_after (remove_admin (boss s) k c) = spec_remove k (admin_set (admins s))"
proof (cases "replace_slot k PublicKey_default (admins s)")
  case None
  then have k: "k \<notin> set (admins s)" by simp
  then have "k \<notin> admin_set (admins s)" by (simp add: admin_set_def)
  moreover have "\<not> (k = PublicKey_default \<and> card (admin_set (admins s)) < MAX_ADMINS)"
    using full_slots [OF slots] k by force
  ultimately have "spec_remove k (admin_set (admins s)) = None" by (auto simp: spec_remove_def)
  with assms(1) show ?thesis
    by (simp add: None remove_admin_def as_boss_def with_state_def has_one_boss_def admins_after_def)
next
  case (Some bs)
  then have "k \<in> set (admins s)" by (metis option.distinct(1) replace_slot_None)
  then have "k \<in> admin_set (admins s) \<or> k = PublicKey_default \<and> card (admin_set (admins s)) < MAX_ADMINS"
  proof (cases "k = PublicKey_default")
    case True
    with \<open>k \<in> set (admins s)\<close> have "card (admin_set (admins s)) \<noteq> MAX_ADMINS" using full_slots [OF slots] by simp
    with True admin_set_card [OF slots] show ?thesis by simp
  qed (simp add: admin_set_def)
  then have "spec_remove k (admin_set (admins s)) = Some (admin_set (admins s) - {k})" by (simp add: spec_remove_def)
  with assms(1) remove_slot(2) [OF slots Some] show ?thesis
    by (simp add: Some remove_admin_def as_boss_def with_state_def has_one_boss_def admins_after_def)
qed

text \<open>
  C34: on every reachable chain the twenty slots of the state account implement a set of at most twenty admins:
  adding, removing and clearing by the boss act on the set of the keys in the slots as on that set, and
  fail exactly where it does. (Removing the default key, which marks an empty slot, succeeds without effect.)
\<close>

theorem admin_slots_refine_a_set:
  assumes "reachable F c" and "state_acc c = Some s"
  shows "length (admins s) = MAX_ADMINS \<and>
    admins_after (add_admin (boss s) k c) = spec_add k (admin_set (admins s)) \<and>
    admins_after (remove_admin (boss s) k c) = spec_remove k (admin_set (admins s)) \<and>
    admins_after (clear_admins (boss s) c) = Some {}"
proof -
  have slots: "admin_slots (admins s)" using state_wf_reachable [OF assms] by (simp add: state_wf_def)
  have "admins_after (clear_admins (boss s) c) = Some {}"
    using assms(2) by (simp add: clear_admins_def as_boss_def with_state_def has_one_boss_def admins_after_def
        admin_set_def set_replicate_conv_if)
  with slots show ?thesis
    using add_admin_refines [OF assms(2) slots] remove_admin_refines [OF assms(2) slots]
    by (simp add: admin_slots_def)
qed

theorem admin_slots_refine_a_set_witness:
  "admins_after (add_admin k_boss k_admin demo_chain) = Some {k_admin}"
proof -
  have st: "state_acc demo_chain = Some demo_state" by (simp add: demo_chain_def)
  show ?thesis
    using admin_slots_refine_a_set [OF demo_reachable st, of k_admin] by (simp add: spec_add_def MAX_ADMINS_def)
qed

end
