(* ===== verification/Chain_Offer_Inv.thy ===== *)
theory Chain_Offer_Inv
  imports Chain_Frame
begin

text \<open>
  Offers: the active vector as the latest that has started, what eviction keeps, and the
  well-formedness of offers, which every instruction keeps.
\<close>

section \<open>Iterator adaptors\<close>

lemma foldl_max:
  fixes f :: "'a \<Rightarrow> nat"
  defines "g \<equiv> \<lambda>b y. if f b \<le> f y then y else b"
  shows "foldl g x xs \<in> insert x (set xs) \<and> (\<forall>y\<in>insert x (set xs). f y \<le> f (foldl g x xs))"
proof (induction xs arbitrary: x)
  case (Cons a xs)
  have "f x \<le> f (g x a)" "f a \<le> f (g x a)" "g x a \<in> {x, a}" by (auto simp: g_def)
  with Cons [of "g x a"] show ?case by (auto intro: order_trans)
qed simp

lemma max_by_key_Some:
  assumes "max_by_key f xs = Some m"
  shows "m \<in> set xs" and "\<forall>x\<in>set xs. f x \<le> f m"
  using assms foldl_max [of f] by (cases xs; force)+

lemma max_by_key_None [simp]: "max_by_key f xs = None \<longleftrightarrow> xs = []"
  by (cases xs) auto

lemma position_Some: "position P xs = Some i \<Longrightarrow> i < length xs \<and> P (xs ! i)"
  by (induction xs arbitrary: i) (auto split: if_splits)

lemma position_None [simp]: "position P xs = None \<longleftrightarrow> (\<forall>x\<in>set xs. \<not> P x)"
  by (induction xs) auto

section \<open>Live vectors\<close>

text \<open>The vectors in use, that their start times tell them apart, and the latest of a set that has started.\<close>

definition live :: "OfferVector list \<Rightarrow> OfferVector set" where
  "live vs = {v \<in> set vs. start_time v \<noteq> 0}"

definition starts_distinct :: "OfferVector list \<Rightarrow> bool" where
  "starts_distinct vs = (\<forall>i<length vs. \<forall>j<length vs.
     start_time (vs ! i) = start_time (vs ! j) \<longrightarrow> start_time (vs ! i) \<noteq> 0 \<longrightarrow> i = j)"

definition is_latest :: "OfferVector set \<Rightarrow> nat \<Rightarrow> OfferVector \<Rightarrow> bool" where
  "is_latest S t v = (v \<in> S \<and> start_time v \<le> t \<and> (\<forall>w\<in>S. start_time w \<le> t \<longrightarrow> start_time w \<le> start_time v))"

lemma live_inj: "starts_distinct vs \<Longrightarrow> v \<in> live vs \<Longrightarrow> w \<in> live vs \<Longrightarrow> start_time v = start_time w \<Longrightarrow> v = w"
  by (auto simp: starts_distinct_def live_def in_set_conv_nth)

lemma is_latest_unique:
  "starts_distinct vs \<Longrightarrow> is_latest (live vs) t v \<Longrightarrow> is_latest (live vs) t w \<Longrightarrow> v = w"
  by (rule live_inj [of vs]) (auto simp: is_latest_def intro: antisym)

lemma find_active_None:
  "find_active_vector_at off t = Inl e \<longleftrightarrow>
     e = Custom ''OfferCoreError'' ''NoActiveVector'' \<and> (\<forall>v\<in>live (vectors off). t < start_time v)"
  by (auto simp: find_active_vector_at_def live_def filter_empty_conv not_le)

lemma find_active_latest:
  assumes "starts_distinct (vectors off)"
  shows "find_active_vector_at off t = Inr v \<longleftrightarrow> is_latest (live (vectors off)) t v"
proof -
  let ?xs = "List.filter (\<lambda>v. start_time v \<noteq> 0 \<and> start_time v \<le> t) (vectors off)"
  have latest: "is_latest (live (vectors off)) t m" if "max_by_key start_time ?xs = Some m" for m
    using max_by_key_Some [OF that] by (auto simp: is_latest_def live_def)
  show ?thesis
  proof (cases "max_by_key start_time ?xs")
    case None
    then have "\<not> is_latest (live (vectors off)) t v"
      by (auto simp: is_latest_def live_def filter_empty_conv)
    with None show ?thesis by (simp add: find_active_vector_at_def)
  next
    case (Some m)
    with latest is_latest_unique [OF assms] show ?thesis by (auto simp: find_active_vector_at_def)
  qed
qed

lemma find_active_cong:
  assumes "starts_distinct (vectors off)" and "starts_distinct (vectors off')"
    and "\<And>v. is_latest (live (vectors off)) t v \<longleftrightarrow> is_latest (live (vectors off')) t v"
  shows "find_active_vector_at off t = find_active_vector_at off' t"
proof (cases "find_active_vector_at off t")
  case (Inr v)
  with assms(3) have "is_latest (live (vectors off')) t v" by (simp add: find_active_latest [OF assms(1)])
  then have "find_active_vector_at off' t = Inr v" by (simp add: find_active_latest [OF assms(2)])
  with Inr show ?thesis by simp
next
  case (Inl e)
  then have "find_active_vector_at off' t \<noteq> Inr v" for v
    using assms by (metis Inr_Inl_False find_active_latest)
  then obtain e' where "find_active_vector_at off' t = Inl e'" by (cases "find_active_vector_at off' t") auto
  moreover from this Inl have "e = e'" by (simp add: find_active_None)
  ultimately show ?thesis using Inl by simp
qed

lemma find_previous_active:
  assumes "starts_distinct (vectors off)" and "0 < t"
  shows "find_previous_vector off t = Some v \<longleftrightarrow> find_active_vector_at off (t - 1) = Inr v"
proof -
  have "find_previous_vector off t =
      max_by_key start_time (List.filter (\<lambda>v. start_time v \<noteq> 0 \<and> start_time v \<le> t - 1) (vectors off))"
    unfolding find_previous_vector_def
    by (rule arg_cong [where f = "max_by_key start_time"], rule filter_cong) (use assms(2) in auto)
  then show ?thesis by (simp add: find_active_vector_at_def)
qed

section \<open>Eviction\<close>

lemma evict_starts:
  "starts_distinct vs \<Longrightarrow> starts_distinct (List.map (\<lambda>v. if gone v then OfferVector_default else v) vs)"
  by (auto simp: starts_distinct_def split: if_splits)

lemma evict_live:
  "live (List.map (\<lambda>v. if gone v then OfferVector_default else v) vs) = {v \<in> live vs. \<not> gone v}"
  by (auto simp: live_def split: if_splits)

lemma insert_starts:
  assumes "starts_distinct vs" and "i < length vs" and "start_time (vs ! i) = 0"
    and "\<forall>v\<in>live vs. start_time v \<noteq> start_time new"
  shows "starts_distinct (vs[i := new])"
  unfolding starts_distinct_def length_list_update
proof (intro allI impI)
  fix a b
  assume ab: "a < length vs" "b < length vs" "start_time (vs[i := new] ! a) = start_time (vs[i := new] ! b)"
    "start_time (vs[i := new] ! a) \<noteq> 0"
  have other: "start_time (vs ! j) \<noteq> start_time new" if "j < length vs" "start_time (vs ! j) \<noteq> 0" for j
    using assms(4) that by (auto simp: live_def)
  consider "a = i" "b = i" | "a = i" "b \<noteq> i" | "a \<noteq> i" "b = i" | "a \<noteq> i" "b \<noteq> i" by blast
  then show "a = b"
  proof cases
    case 2
    with ab assms(2) other [of b] show ?thesis by (metis nth_list_update)
  next
    case 3
    with ab assms(2) other [of a] show ?thesis by (metis nth_list_update)
  next
    case 4
    with ab assms(1) show ?thesis by (simp add: starts_distinct_def)
  qed simp
qed

lemma insert_live:
  assumes "i < length vs" and "start_time (vs ! i) = 0" and "start_time new \<noteq> 0"
  shows "live (vs[i := new]) = insert new (live vs)"
proof -
  have "set (vs[i := new]) \<subseteq> insert new (set vs)" by (rule set_update_subset_insert)
  moreover have "new \<in> set (vs[i := new])" using assms(1) by (rule set_update_memI)
  moreover have "v \<in> set (vs[i := new])" if "v \<in> set vs" "start_time v \<noteq> 0" for v
  proof -
    obtain j where j: "j < length vs" "vs ! j = v" using \<open>v \<in> set vs\<close> by (auto simp: in_set_conv_nth)
    with assms(2) that(2) have "j \<noteq> i" by auto
    with j have "vs[i := new] ! j = v" by simp
    with j show ?thesis by (metis length_list_update nth_mem)
  qed
  ultimately show ?thesis using assms(3) by (auto simp: live_def)
qed

lemma delete_starts:
  "starts_distinct vs \<Longrightarrow> starts_distinct (vs[i := OfferVector_default])"
  by (cases "i < length vs") (auto simp: starts_distinct_def nth_list_update list_update_beyond split: if_splits)

lemma delete_live: "live (vs[i := OfferVector_default]) \<subseteq> live vs"
  using set_update_subset_insert [of vs i OfferVector_default] by (auto simp: live_def)

lemma le_foldl_max: "x \<in> insert b (set xs) \<Longrightarrow> (x :: nat) \<le> foldl max b xs"
proof (induction xs arbitrary: b x)
  case (Cons a xs)
  have "max b a \<le> foldl max (max b a) xs" by (rule Cons.IH) simp
  with Cons show ?case by auto
qed simp

lemma validate_inputs_ok:
  assumes "validate_inputs start base price dur t off = Inr u"
  shows "t \<le> start" and "0 < base" and "0 < price" and "0 < dur" and "\<forall>v\<in>live (vectors off). start_time v < start"
proof -
  let ?ex = "List.filter (\<lambda>t. t \<noteq> 0) (List.map start_time (vectors off))"
  have ex: "?ex = [] \<or> foldl max 0 ?ex < start" "t \<le> start" "0 < base" "0 < price" "0 < dur"
    using assms by (auto simp: validate_inputs_def Let_def)
  then show "t \<le> start" "0 < base" "0 < price" "0 < dur" by auto
  show "\<forall>v\<in>live (vectors off). start_time v < start"
  proof
    fix v assume "v \<in> live (vectors off)"
    then have v: "start_time v \<in> set ?ex" by (auto simp: live_def)
    then have "?ex \<noteq> []" by (metis empty_iff empty_set)
    with ex(1) have "foldl max 0 ?ex < start" by simp
    moreover have "start_time v \<le> foldl max 0 ?ex" using v by (intro le_foldl_max) simp
    ultimately show "start_time v < start" by simp
  qed
qed


section \<open>The invariant of offers\<close>

definition vector_wf :: "OfferVector \<Rightarrow> bool" where
  "vector_wf v = (0 < base_time v \<and> 0 < base_price v \<and> 0 < price_fix_duration v)"

definition offer_wf :: "Offer \<Rightarrow> bool" where
  "offer_wf off = (length (vectors off) = MAX_VECTORS \<and> starts_distinct (vectors off) \<and>
     (\<forall>v\<in>live (vectors off). vector_wf v) \<and> fee_basis_points off \<le> MAX_BASIS_POINTS)"

lemma no_vectors [simp]: "starts_distinct (replicate n OfferVector_default)" "live (replicate n OfferVector_default) = {}"
  by (auto simp: starts_distinct_def live_def)

lemma set_flags_sel [simp]:
  "vectors (set_permissionless a off) = vectors off" "vectors (set_approval a off) = vectors off"
  "fee_basis_points (set_permissionless a off) = fee_basis_points off"
  "fee_basis_points (set_approval a off) = fee_basis_points off"
  by (simp_all add: set_permissionless_def set_approval_def)

text \<open>What is evicted: nothing when no vector is active, else the vectors before the active one but the last of them.\<close>

lemma clean_old_vectors_Inr:
  assumes "clean_old_vectors off new t = Inr (off', evs)"
  obtains gone where "off' = off\<lparr>vectors := List.map (\<lambda>v. if gone v then OfferVector_default else v) (vectors off)\<rparr>"
    and "(start_time new \<noteq> t \<and> (\<forall>e. find_active_vector_at off t \<noteq> Inr e) \<and> gone = (\<lambda>v. False)) \<or>
      (\<exists>av. (if start_time new = t then av = new else find_active_vector_at off t = Inr av) \<and> 0 < start_time av \<and>
         gone = evicted (start_time av)
           (case find_active_vector_at off (start_time av - 1) of Inr v \<Rightarrow> start_time v | Inl _ \<Rightarrow> 0))"
proof (cases "if start_time new = t then Inr new else find_active_vector_at off t")
  case (Inl e)
  with assms have "off' = off" by (simp add: clean_old_vectors_def)
  with Inl that [of "\<lambda>v. False"] show thesis by (auto split: if_splits)
next
  case (Inr av)
  with assms have "0 < start_time av \<and> off' = off\<lparr>vectors := List.map (\<lambda>v. if evicted (start_time av)
           (case find_active_vector_at off (start_time av - 1) of Inr v \<Rightarrow> start_time v | Inl _ \<Rightarrow> 0) v
         then OfferVector_default else v) (vectors off)\<rparr>"
    by (auto simp: clean_old_vectors_def Let_def Suc_le_eq)
  with Inr that show thesis by (auto split: if_splits)
qed

lemma add_offer_vector_Inr:
  assumes "add_offer_vector R b tin tout so base price rate dur c = Inr c'"
  obtains off cleaned evs i new where "offers c (offer_pda R tin tout) = Some off"
    and "new = \<lparr>start_time = (case so of Some t \<Rightarrow> t | None \<Rightarrow> max (now R) base), base_time = base,
           base_price = price, apr = rate, price_fix_duration = dur\<rparr>"
    and "now R \<le> start_time new" "vector_wf new" "\<forall>v\<in>live (vectors off). start_time v < start_time new"
    and "clean_old_vectors off new (now R) = Inr (cleaned, evs)"
    and "i < length (vectors cleaned)" "start_time (vectors cleaned ! i) = 0"
    and "offers c' = (offers c)(offer_pda R tin tout \<mapsto> cleaned\<lparr>vectors := (vectors cleaned)[i := new]\<rparr>)"
proof -
  let ?start = "case so of Some t \<Rightarrow> t | None \<Rightarrow> max (now R) base"
  let ?new = "\<lparr>start_time = ?start, base_time = base, base_price = price, apr = rate, price_fix_duration = dur\<rparr>"
  from assms obtain off s u cleaned evs i where *: "offers c (offer_pda R tin tout) = Some off"
    "validate_inputs ?start base price dur (now R) off = Inr u"
    "clean_old_vectors off ?new (now R) = Inr (cleaned, evs)"
    "find_vector_index_by_start_time cleaned 0 = Some i"
    "offers c' = (offers c)(offer_pda R tin tout \<mapsto> cleaned\<lparr>vectors := (vectors cleaned)[i := ?new]\<rparr>)"
    by (auto simp: add_offer_vector_def Let_def)
  note v = validate_inputs_ok [OF *(2)]
  have "i < length (vectors cleaned) \<and> start_time (vectors cleaned ! i) = 0"
    using *(4) position_Some unfolding find_vector_index_by_start_time_def by fast
  with * v show thesis by (intro that [of off ?new cleaned evs i]) (auto simp: vector_wf_def)
qed

text \<open>The live vectors after an addition.\<close>

lemma added_vectors:
  assumes "clean_old_vectors off new t = Inr (cleaned, evs)" and "t \<le> start_time new"
    and "starts_distinct (vectors off)" and "\<forall>v\<in>live (vectors off). start_time v < start_time new"
    and "i < length (vectors cleaned)" and "start_time (vectors cleaned ! i) = 0"
  obtains gone where "live ((vectors cleaned)[i := new]) = insert new {v \<in> live (vectors off). \<not> gone v}"
    and "starts_distinct ((vectors cleaned)[i := new])" and "length ((vectors cleaned)[i := new]) = length (vectors off)"
    and "(start_time new \<noteq> t \<and> (\<forall>v\<in>live (vectors off). t < start_time v) \<and> gone = (\<lambda>v. False)) \<or>
      (\<exists>av. (if start_time new = t then av = new else is_latest (live (vectors off)) t av) \<and> 0 < start_time av \<and>
         gone = evicted (start_time av)
           (case find_active_vector_at off (start_time av - 1) of Inr v \<Rightarrow> start_time v | Inl _ \<Rightarrow> 0))"
    and "0 < start_time new"
proof -
  from clean_old_vectors_Inr [OF assms(1)] obtain gone where
    cl: "cleaned = off\<lparr>vectors := List.map (\<lambda>v. if gone v then OfferVector_default else v) (vectors off)\<rparr>"
    and g: "(start_time new \<noteq> t \<and> (\<forall>e. find_active_vector_at off t \<noteq> Inr e) \<and> gone = (\<lambda>v. False)) \<or>
      (\<exists>av. (if start_time new = t then av = new else find_active_vector_at off t = Inr av) \<and> 0 < start_time av \<and>
         gone = evicted (start_time av)
           (case find_active_vector_at off (start_time av - 1) of Inr v \<Rightarrow> start_time v | Inl _ \<Rightarrow> 0))" .
  have g': "(start_time new \<noteq> t \<and> (\<forall>v\<in>live (vectors off). t < start_time v) \<and> gone = (\<lambda>v. False)) \<or>
      (\<exists>av. (if start_time new = t then av = new else is_latest (live (vectors off)) t av) \<and> 0 < start_time av \<and>
         gone = evicted (start_time av)
           (case find_active_vector_at off (start_time av - 1) of Inr v \<Rightarrow> start_time v | Inl _ \<Rightarrow> 0))"
  proof (rule disj_forward [OF g])
    assume *: "start_time new \<noteq> t \<and> (\<forall>e. find_active_vector_at off t \<noteq> Inr e) \<and> gone = (\<lambda>v. False)"
    then obtain e where "find_active_vector_at off t = Inl e" by (cases "find_active_vector_at off t") auto
    with * show "start_time new \<noteq> t \<and> (\<forall>v\<in>live (vectors off). t < start_time v) \<and> gone = (\<lambda>v. False)"
      by (simp add: find_active_None)
  qed (unfold find_active_latest [OF assms(3)], assumption)
  have new: "0 < start_time new"
  proof (cases "start_time new = t")
    case True
    with g show ?thesis by auto
  next
    case False
    with assms(2) show ?thesis by simp
  qed
  show thesis
  proof (rule that [of gone, OF _ _ _ g' new])
    show "live ((vectors cleaned)[i := new]) = insert new {v \<in> live (vectors off). \<not> gone v}"
      using insert_live [OF assms(5,6)] new by (simp add: cl evict_live)
    have "\<forall>v\<in>live (vectors cleaned). start_time v \<noteq> start_time new"
      using assms(4) by (auto simp: cl evict_live)
    with assms(3,5,6) show "starts_distinct ((vectors cleaned)[i := new])"
      by (intro insert_starts) (simp_all add: cl evict_starts)
    show "length ((vectors cleaned)[i := new]) = length (vectors off)" by (simp add: cl)
  qed
qed

lemma delete_vector_wf:
  assumes "offer_wf off" shows "offer_wf (off\<lparr>vectors := (vectors off)[i := OfferVector_default]\<rparr>)"
  using assms delete_live [of "vectors off" i] by (auto simp: offer_wf_def delete_starts)

lemma delete_all_wf:
  assumes "offer_wf off"
  shows "offer_wf (off\<lparr>vectors := List.map (\<lambda>v. if start_time v \<noteq> 0 then OfferVector_default else v) (vectors off)\<rparr>)"
  using assms by (auto simp: offer_wf_def evict_starts evict_live)

lemma add_vector_wf:
  assumes "add_offer_vector R b tin tout so base price rate dur c = Inr c'"
    and wf: "\<And>a off. offers c a = Some off \<Longrightarrow> offer_wf off" and "offers c' a = Some off'"
  shows "offer_wf off'"
proof -
  from add_offer_vector_Inr [OF assms(1)] obtain off cleaned evs i new where
    *: "offers c (offer_pda R tin tout) = Some off" "now R \<le> start_time new" "vector_wf new"
      "\<forall>v\<in>live (vectors off). start_time v < start_time new"
      "clean_old_vectors off new (now R) = Inr (cleaned, evs)"
      "i < length (vectors cleaned)" "start_time (vectors cleaned ! i) = 0"
      "offers c' = (offers c)(offer_pda R tin tout \<mapsto> cleaned\<lparr>vectors := (vectors cleaned)[i := new]\<rparr>)" .
  have off: "offer_wf off" using wf *(1) .
  then have sd: "starts_distinct (vectors off)" by (simp add: offer_wf_def)
  from added_vectors [OF *(5,2) sd *(4,6,7)] obtain gone where
    **: "live ((vectors cleaned)[i := new]) = insert new {v \<in> live (vectors off). \<not> gone v}"
      "starts_distinct ((vectors cleaned)[i := new])" "length ((vectors cleaned)[i := new]) = length (vectors off)" .
  have "fee_basis_points cleaned = fee_basis_points off"
    using clean_old_vectors_Inr [OF *(5)] by (metis (no_types, lifting) Offer.select_convs(4) Offer.surjective Offer.update_convs(3))
  then have "offer_wf (cleaned\<lparr>vectors := (vectors cleaned)[i := new]\<rparr>)"
    using off ** *(3) by (auto simp: offer_wf_def)
  with wf *(8) assms(3) show ?thesis by (auto split: if_splits)
qed

lemma offer_wf_step:
  assumes run: "execute W i c = Inr c'" and wf: "\<And>a off. offers c a = Some off \<Longrightarrow> offer_wf off"
    and "offers c' a = Some off'"
  shows "offer_wf off'"
proof (cases "writes_offers i")
  case False
  with assms show ?thesis using offers_frame by metis
next
  case True
  then show ?thesis
  proof (cases rule: writes_offers.elims(2))
    case (2 b tin tout so base price rate dur)
    with assms add_vector_wf show ?thesis by fastforce
  next
    case (3 b tin tout start)
    with assms show ?thesis
      by (auto simp: delete_offer_vector_def split: if_splits) (rule delete_vector_wf, blast)
  next
    case (4 b tin tout)
    with assms show ?thesis
      by (auto simp: delete_all_offer_vectors_def Let_def split: if_splits)
        (rule delete_all_wf [unfolded neq0_conv], blast)
  next
    case (5 b tin tout fee)
    with assms show ?thesis
      by (auto simp: update_offer_fee_def offer_wf_def split: if_splits)
  qed (use assms in \<open>auto simp: make_offer_def Let_def offer_wf_def MAX_ALLOWED_FEE_BPS_def MAX_BASIS_POINTS_def
        split: if_splits\<close>)
qed

lemma offer_wf_reachable: "reachable F c \<Longrightarrow> offers c a = Some off \<Longrightarrow> offer_wf off"
proof (induction arbitrary: a off rule: reachable.induct)
  case (Start t l)
  then show ?case by (simp add: empty_chain_def)
next
  case (Step c lbl c')
  from Step.hyps(2) show ?case
  proof (cases rule: chain_step.cases)
    case (Run W i)
    with Step show ?thesis using offer_wf_step by blast
  next
    case (Outside t l)
    with Step show ?thesis by simp
  qed
qed

end
