(* ===== verification/Chain_Offer_Props.thy ===== *)
theory Chain_Offer_Props
  imports Chain_Offer_Inv Chain_State_Props
begin

text \<open>
  The accounts of every reachable chain are well formed; adding a vector leaves the prices of the time
  before its start alone; the price within a vector.
\<close>

section \<open>Stored accounts\<close>

text \<open>
  C9: on every reachable chain the admin slots hold no key twice and the two approvers differ unless unset;
  every offer has its ten slots, no two of its vectors start at the same time, each vector in use has a
  base time, a base price and a step length above zero, and its fee is at most 100 percent.
\<close>

theorem stored_accounts_are_well_formed:
  assumes "reachable F c"
  shows "(\<forall>s. state_acc c = Some s \<longrightarrow> length (admins s) = MAX_ADMINS \<and>
        distinct (List.filter (\<lambda>a. a \<noteq> PublicKey_default) (admins s)) \<and>
        (approver1 s = approver2 s \<longrightarrow> approver1 s = PublicKey_default)) \<and>
    (\<forall>a off. offers c a = Some off \<longrightarrow> length (vectors off) = MAX_VECTORS \<and>
        (\<forall>i<MAX_VECTORS. \<forall>j<i. start_time (vectors off ! i) = start_time (vectors off ! j) \<longrightarrow>
           start_time (vectors off ! i) = 0) \<and>
        (\<forall>v\<in>set (vectors off). start_time v \<noteq> 0 \<longrightarrow>
           0 < base_time v \<and> 0 < base_price v \<and> 0 < price_fix_duration v) \<and>
        fee_basis_points off \<le> MAX_BASIS_POINTS)"
proof (intro conjI allI impI)
  fix s assume "state_acc c = Some s"
  with assms have "state_wf s" by (rule state_wf_reachable)
  then show "length (admins s) = MAX_ADMINS" "distinct (List.filter (\<lambda>a. a \<noteq> PublicKey_default) (admins s))"
    "approver1 s = approver2 s \<Longrightarrow> approver1 s = PublicKey_default"
    by (simp_all add: state_wf_def admin_slots_def)
next
  fix a off assume "offers c a = Some off"
  with assms have wf: "offer_wf off" by (rule offer_wf_reachable)
  then show "length (vectors off) = MAX_VECTORS" "fee_basis_points off \<le> MAX_BASIS_POINTS"
    by (simp_all add: offer_wf_def)
  show "\<forall>v\<in>set (vectors off). start_time v \<noteq> 0 \<longrightarrow>
           0 < base_time v \<and> 0 < base_price v \<and> 0 < price_fix_duration v"
    using wf by (auto simp: offer_wf_def live_def vector_wf_def)
  fix i j assume "i < MAX_VECTORS" "j < i" "start_time (vectors off ! i) = start_time (vectors off ! j)"
  with wf have "start_time (vectors off ! i) \<noteq> 0 \<longrightarrow> i = j"
    unfolding offer_wf_def starts_distinct_def by (metis less_trans)
  with \<open>j < i\<close> show "start_time (vectors off ! i) = 0" by auto
qed

theorem stored_accounts_are_well_formed_witness:
  "length (admins demo_state) = 20 \<and> distinct (List.filter (\<lambda>a. a \<noteq> PublicKey_default) (admins demo_state))"
  using stored_accounts_are_well_formed [OF demo_reachable] by (simp add: demo_chain_def MAX_ADMINS_def)

section \<open>Adding a vector\<close>

lemma added_latest:
  assumes A': "A' = insert new {v \<in> A. \<not> gone v}"
    and new: "\<forall>v\<in>A. start_time v < start_time new" "0 < start_time new" "now0 \<le> start_time new"
    and g: "(start_time new \<noteq> now0 \<and> (\<forall>v\<in>A. now0 < start_time v) \<and> gone = (\<lambda>v. False)) \<or>
      (\<exists>av p. (if start_time new = now0 then av = new else is_latest A now0 av) \<and> gone = evicted (start_time av) p)"
    and t: "now0 \<le> t"
  shows "is_latest A' t v \<longleftrightarrow> (if start_time new \<le> t then v = new else is_latest A t v)"
proof (cases "start_time new \<le> t")
  case True
  have "start_time w \<le> start_time new" if "w \<in> A'" for w using that new(1) by (auto simp: A' intro: less_imp_le)
  moreover have "new \<in> A'" by (simp add: A')
  moreover have "v = new" if "v \<in> A'" "start_time new \<le> start_time v" for v
    using that new(1) by (auto simp: A' dest: leD)
  ultimately show ?thesis using True by (auto simp: is_latest_def)
next
  case False
  then have "start_time new \<noteq> now0" using t by simp
  with g consider "gone = (\<lambda>v. False)"
    | av p where "is_latest A now0 av" "gone = evicted (start_time av) p" by auto
  then show ?thesis
  proof cases
    case 1
    with False show ?thesis by (auto simp: is_latest_def A')
  next
    case 2
    then have av: "av \<in> A'" "start_time av \<le> t" using t by (auto simp: A' is_latest_def evicted_def)
    have kept: "\<not> gone w" if "start_time av \<le> start_time w" for w using that 2 by (auto simp: evicted_def)
    show ?thesis
    proof
      assume v: "is_latest A' t v"
      then have "start_time av \<le> start_time v" using av by (auto simp: is_latest_def)
      moreover have "start_time w \<le> start_time v" if "w \<in> A" "start_time w \<le> t" for w
      proof (cases "gone w")
        case True
        then have "start_time w < start_time av" using 2 by (simp add: evicted_def)
        with \<open>start_time av \<le> start_time v\<close> show ?thesis by simp
      next
        case False
        with v that show ?thesis by (auto simp: is_latest_def A')
      qed
      moreover have "v \<in> A" using v False by (auto simp: is_latest_def A')
      ultimately show "if start_time new \<le> t then v = new else is_latest A t v"
        using v False by (auto simp: is_latest_def)
    next
      assume "if start_time new \<le> t then v = new else is_latest A t v"
      with False have v: "is_latest A t v" by simp
      have "av \<in> A" "start_time av \<le> t" using 2 t by (auto simp: is_latest_def)
      with v have "start_time av \<le> start_time v" by (auto simp: is_latest_def)
      with kept v show "is_latest A' t v" using False by (auto simp: is_latest_def A')
    qed
  qed
qed

text \<open>The vector before the active one survives, too.\<close>

lemma added_previous:
  assumes A': "A' = insert new {v \<in> A. \<not> gone v}"
    and new: "\<forall>v\<in>A. start_time v < start_time new" "0 < start_time new" "now0 \<le> start_time new"
    and inj: "\<And>v w. v \<in> A \<Longrightarrow> w \<in> A \<Longrightarrow> start_time v = start_time w \<Longrightarrow> v = w"
    and pos: "\<And>v. v \<in> A \<Longrightarrow> 0 < start_time v"
    and g: "(start_time new \<noteq> now0 \<and> (\<forall>v\<in>A. now0 < start_time v) \<and> gone = (\<lambda>v. False)) \<or>
      (\<exists>av p. (if start_time new = now0 then av = new else is_latest A now0 av) \<and> gone = evicted (start_time av) p \<and>
        ((\<exists>w. is_latest A (start_time av - 1) w \<and> p = start_time w) \<or> (\<forall>w\<in>A. start_time av - 1 < start_time w)))"
    and v: "is_latest A' t v" and t: "now0 \<le> t"
  shows "is_latest A' (start_time v - 1) u \<longleftrightarrow> is_latest A (start_time v - 1) u"
proof -
  have "v \<in> A'" using v by (simp add: is_latest_def)
  then have v_new: "start_time v \<le> start_time new" "0 < start_time v" using new pos by (auto simp: A' intro: less_imp_le)
  have g0: "(start_time new \<noteq> now0 \<and> (\<forall>v\<in>A. now0 < start_time v) \<and> gone = (\<lambda>v. False)) \<or>
      (\<exists>av p. (if start_time new = now0 then av = new else is_latest A now0 av) \<and> gone = evicted (start_time av) p)"
    using g by blast
  show ?thesis
  proof (cases "now0 \<le> start_time v - 1")
    case True
    from added_latest [OF A' new g0 True, of u] v_new show ?thesis by auto
  next
    case False
    then have le: "start_time v \<le> now0" by simp
    from g consider "\<forall>v\<in>A. now0 < start_time v" "start_time new \<noteq> now0" "gone = (\<lambda>v. False)"
      | av p where "if start_time new = now0 then av = new else is_latest A now0 av" "gone = evicted (start_time av) p"
        "(\<exists>w. is_latest A (start_time av - 1) w \<and> p = start_time w) \<or> (\<forall>w\<in>A. start_time av - 1 < start_time w)"
      by blast
    then show ?thesis
    proof cases
      case 1
      with le \<open>v \<in> A'\<close> new(3) show ?thesis by (auto simp: A')
    next
      case 2
      have av: "av \<in> A'" "start_time av \<le> now0" using 2(1,2) by (auto simp: A' is_latest_def evicted_def split: if_splits)
      then have "start_time av \<le> start_time v" using v t by (auto simp: is_latest_def)
      moreover have "start_time v \<le> start_time av"
        using 2(1) le \<open>v \<in> A'\<close> new(3) by (auto simp: A' is_latest_def split: if_splits)
      ultimately have eq: "start_time av = start_time v" by simp
      have small: "w \<noteq> new" if "start_time w \<le> start_time v - 1" for w using that v_new by auto
      show ?thesis
        using 2(3)
      proof
        assume "\<exists>w. is_latest A (start_time av - 1) w \<and> p = start_time w"
        then obtain w where w: "is_latest A (start_time v - 1) w" "p = start_time w" by (auto simp: eq)
        then have "\<not> gone w" using 2(2) by (simp add: evicted_def)
        with w(1) have wA': "w \<in> A'" "start_time w \<le> start_time v - 1" by (auto simp: is_latest_def A')
        have uA: "start_time x \<le> start_time w" if "x \<in> A'" "start_time x \<le> start_time v - 1" for x
          using that w(1) small by (auto simp: is_latest_def A')
        show ?thesis
        proof
          assume u: "is_latest A' (start_time v - 1) u"
          then have "start_time u = start_time w" using wA' uA by (auto simp: is_latest_def intro: antisym)
          moreover have "u \<in> A" using u small by (auto simp: is_latest_def A')
          ultimately have "u = w" using w(1) inj by (auto simp: is_latest_def)
          with w(1) show "is_latest A (start_time v - 1) u" by simp
        next
          assume u: "is_latest A (start_time v - 1) u"
          then have "u = w" using w(1) inj by (auto simp: is_latest_def intro!: inj antisym)
          with wA' uA show "is_latest A' (start_time v - 1) u" by (simp add: is_latest_def)
        qed
      next
        assume "\<forall>w\<in>A. start_time av - 1 < start_time w"
        then have "\<not> is_latest A (start_time v - 1) u" "\<not> is_latest A' (start_time v - 1) u"
          using small by (auto simp: eq is_latest_def A')
        then show ?thesis by simp
      qed
    qed
  qed
qed


lemma previous_of_active:
  assumes "starts_distinct (vectors off)"
  shows "(\<exists>w. is_latest (live (vectors off)) t w \<and>
        (case find_active_vector_at off t of Inr v \<Rightarrow> start_time v | Inl _ \<Rightarrow> 0) = start_time w) \<or>
      (\<forall>w\<in>live (vectors off). t < start_time w)"
proof (cases "find_active_vector_at off t")
  case (Inl e)
  then show ?thesis by (simp add: find_active_None)
next
  case (Inr v)
  with find_active_latest [OF assms, of t v] show ?thesis by auto
qed

text \<open>
  C10: adding a vector on a reachable chain changes no price before the start of the new vector: from the
  time of the instruction on, the active vector is the one it was until the new vector starts and the
  new vector afterwards; and the vector before the active one, with which the price adjustment is computed,
  is the same, although older vectors may have been evicted.
\<close>

theorem adding_keeps_prices:
  assumes "reachable F c" and "add_offer_vector R b tin tout so base price rate dur c = Inr c'"
  shows "\<exists>off off' new. offers c (offer_pda R tin tout) = Some off \<and> offers c' (offer_pda R tin tout) = Some off' \<and>
    start_time new = (case so of Some t \<Rightarrow> t | None \<Rightarrow> max (now R) base) \<and> base_price new = price \<and> apr new = rate \<and>
    (\<forall>t\<ge>now R. find_active_vector_at off' t =
        (if start_time new \<le> t then Inr new else find_active_vector_at off t) \<and>
      (\<forall>v. find_active_vector_at off' t = Inr v \<longrightarrow>
        find_previous_vector off' (start_time v) = find_previous_vector off (start_time v)))"
proof -
  from add_offer_vector_Inr [OF assms(2)] obtain off cleaned evs i new where
    *: "offers c (offer_pda R tin tout) = Some off"
      "new = \<lparr>start_time = (case so of Some t \<Rightarrow> t | None \<Rightarrow> max (now R) base), base_time = base,
           base_price = price, apr = rate, price_fix_duration = dur\<rparr>"
      "now R \<le> start_time new"
      "\<forall>v\<in>live (vectors off). start_time v < start_time new"
      "clean_old_vectors off new (now R) = Inr (cleaned, evs)"
      "i < length (vectors cleaned)" "start_time (vectors cleaned ! i) = 0"
      "offers c' = (offers c)(offer_pda R tin tout \<mapsto> cleaned\<lparr>vectors := (vectors cleaned)[i := new]\<rparr>)" .
  let ?A = "live (vectors off)"
  let ?off' = "cleaned\<lparr>vectors := (vectors cleaned)[i := new]\<rparr>"
  have sd: "starts_distinct (vectors off)" using offer_wf_reachable [OF assms(1) *(1)] by (simp add: offer_wf_def)
  from added_vectors [OF *(5,3) sd *(4,6,7)] obtain gone where
    upd: "live ((vectors cleaned)[i := new]) = insert new {v \<in> ?A. \<not> gone v}"
      "starts_distinct ((vectors cleaned)[i := new])" "length ((vectors cleaned)[i := new]) = length (vectors off)"
    and g: "(start_time new \<noteq> now R \<and> (\<forall>v\<in>?A. now R < start_time v) \<and> gone = (\<lambda>v. False)) \<or>
      (\<exists>av. (if start_time new = now R then av = new else is_latest ?A (now R) av) \<and> 0 < start_time av \<and>
         gone = evicted (start_time av)
           (case find_active_vector_at off (start_time av - 1) of Inr v \<Rightarrow> start_time v | Inl _ \<Rightarrow> 0))"
    and pos: "0 < start_time new" .
  have A': "live (vectors ?off') = insert new {v \<in> ?A. \<not> gone v}" and sd': "starts_distinct (vectors ?off')"
    using upd by simp_all
  have g1: "(start_time new \<noteq> now R \<and> (\<forall>v\<in>?A. now R < start_time v) \<and> gone = (\<lambda>v. False)) \<or>
      (\<exists>av p. (if start_time new = now R then av = new else is_latest ?A (now R) av) \<and> gone = evicted (start_time av) p \<and>
        ((\<exists>w. is_latest ?A (start_time av - 1) w \<and> p = start_time w) \<or> (\<forall>w\<in>?A. start_time av - 1 < start_time w)))"
  proof (rule disj_forward [OF g])
    assume "\<exists>av. (if start_time new = now R then av = new else is_latest ?A (now R) av) \<and> 0 < start_time av \<and>
         gone = evicted (start_time av)
           (case find_active_vector_at off (start_time av - 1) of Inr v \<Rightarrow> start_time v | Inl _ \<Rightarrow> 0)"
    then obtain av where "if start_time new = now R then av = new else is_latest ?A (now R) av"
      "gone = evicted (start_time av)
           (case find_active_vector_at off (start_time av - 1) of Inr v \<Rightarrow> start_time v | Inl _ \<Rightarrow> 0)" by blast
    with previous_of_active [OF sd, of "start_time av - 1"]
    show "\<exists>av p. (if start_time new = now R then av = new else is_latest ?A (now R) av) \<and> gone = evicted (start_time av) p \<and>
        ((\<exists>w. is_latest ?A (start_time av - 1) w \<and> p = start_time w) \<or> (\<forall>w\<in>?A. start_time av - 1 < start_time w))"
      by (intro exI conjI)
  qed
  then have g0: "(start_time new \<noteq> now R \<and> (\<forall>v\<in>?A. now R < start_time v) \<and> gone = (\<lambda>v. False)) \<or>
      (\<exists>av p. (if start_time new = now R then av = new else is_latest ?A (now R) av) \<and> gone = evicted (start_time av) p)"
    by blast
  have active: "find_active_vector_at ?off' t = (if start_time new \<le> t then Inr new else find_active_vector_at off t)"
    if "now R \<le> t" for t
  proof (cases "start_time new \<le> t")
    case True
    with added_latest [OF A' *(4) pos *(3) g0 that] show ?thesis by (simp add: find_active_latest [OF sd'])
  next
    case False
    with added_latest [OF A' *(4) pos *(3) g0 that] have "find_active_vector_at ?off' t = find_active_vector_at off t"
      by (intro find_active_cong [OF sd' sd]) simp
    with False show ?thesis by simp
  qed
  have previous: "find_previous_vector ?off' (start_time v) = find_previous_vector off (start_time v)"
    if t: "now R \<le> t" and v: "find_active_vector_at ?off' t = Inr v" for t v
  proof -
    have latest: "is_latest (live (vectors ?off')) t v" using v by (simp only: find_active_latest [OF sd'])
    then have st: "0 < start_time v" by (auto simp: is_latest_def live_def)
    have "find_active_vector_at ?off' (start_time v - 1) = find_active_vector_at off (start_time v - 1)"
      by (intro find_active_cong [OF sd' sd]
          added_previous [OF A' *(4) pos *(3) live_inj [OF sd] _ g1 latest t]) (auto simp: live_def)
    then show ?thesis
      using find_previous_active [OF sd' st] find_previous_active [OF sd st]
      by (metis option.exhaust)
  qed
  have "start_time new = (case so of Some t \<Rightarrow> t | None \<Rightarrow> max (now R) base)" "base_price new = price" "apr new = rate"
    by (simp_all add: *(2))
  with *(1,8) active previous show ?thesis by (intro exI [of _ off] exI [of _ ?off'] exI [of _ new]) simp
qed


theorem adding_keeps_prices_witness:
  "find_active_vector_at (demo_offer (demo_vector # replicate 9 OfferVector_default)) 2000 = Inr demo_vector"
proof -
  obtain off' new where *: "offers demo_chain3 demo_pda = Some off'" "start_time new = 1000" "base_price new = 1000000000"
    "apr new = 36500" "find_active_vector_at off' 2000 = Inr new"
    using adding_keeps_prices [OF demo_reachable2 demo_add_runs] by auto
  then have off': "off' = demo_offer (demo_vector # replicate 9 OfferVector_default)" by simp
  have "is_latest (live (vectors off')) 2000 new"
    using *(5) find_active_latest [of off'] offer_wf_reachable [OF demo_reachable3 *(1)] by (simp add: offer_wf_def)
  then have "new = demo_vector" by (auto simp: off' is_latest_def live_def split: if_splits)
  with * off' show ?thesis by simp
qed

section \<open>Room for vectors\<close>

lemma distinct_starts_card:
  assumes "starts_distinct vs" and "\<forall>v\<in>set vs. start_time v \<noteq> 0"
  shows "card (live vs) = length vs"
proof -
  have "distinct vs"
    unfolding distinct_conv_nth using assms by (auto simp: starts_distinct_def)
  moreover have "live vs = set vs" using assms(2) by (auto simp: live_def)
  ultimately show ?thesis by (simp add: distinct_card)
qed

lemma finite_live [simp]: "finite (live vs)"
  by (simp add: live_def)

text \<open>
  C39: on a well-formed offer, as all reachable ones are, an addition fails for lack of a slot only when at
  least eight vectors are already scheduled for the future: eviction makes room for everything else.
\<close>

theorem slots_run_out_only_when_scheduled:
  assumes wf: "offer_wf off" and "offers c (offer_pda R tin tout) = Some off"
    and "add_offer_vector R b tin tout so base price rate dur c = Inl (Custom ''AddOfferVectorErrorCode'' ''TooManyVectors'')"
  shows "8 \<le> card {v \<in> set (vectors off). now R < start_time v}"
proof -
  let ?start = "case so of Some t \<Rightarrow> t | None \<Rightarrow> max (now R) base"
  let ?new = "\<lparr>start_time = ?start, base_time = base, base_price = price, apr = rate, price_fix_duration = dur\<rparr>"
  let ?A = "live (vectors off)"
  let ?future = "{v \<in> set (vectors off). now R < start_time v}"
  have no: "validate_inputs ?start base price dur (now R) off \<noteq> Inl (Custom ''AddOfferVectorErrorCode'' ''TooManyVectors'')"
    "clean_old_vectors off ?new (now R) \<noteq> Inl (Custom ''AddOfferVectorErrorCode'' ''TooManyVectors'')"
    by (auto simp: validate_inputs_def clean_old_vectors_def Let_def require_Inl split: sum.splits)
  from assms(2,3) no obtain u cleaned evs where
    v: "validate_inputs ?start base price dur (now R) off = Inr u" and
    cl: "clean_old_vectors off ?new (now R) = Inr (cleaned, evs)" and
    full: "find_vector_index_by_start_time cleaned 0 = None"
    by (auto simp: add_offer_vector_def with_offer_def as_boss_def with_state_def has_one_boss_def Let_def
        require_Inl)
  have sd: "starts_distinct (vectors off)" using wf by (simp add: offer_wf_def)
  note new = validate_inputs_ok [OF v]
  from clean_old_vectors_Inr [OF cl] obtain gone where
    c: "cleaned = off\<lparr>vectors := List.map (\<lambda>v. if gone v then OfferVector_default else v) (vectors off)\<rparr>" and
    g: "(start_time ?new \<noteq> now R \<and> (\<forall>e. find_active_vector_at off (now R) \<noteq> Inr e) \<and> gone = (\<lambda>v. False)) \<or>
      (\<exists>av. (if start_time ?new = now R then av = ?new else find_active_vector_at off (now R) = Inr av) \<and> 0 < start_time av \<and>
         gone = evicted (start_time av)
           (case find_active_vector_at off (start_time av - 1) of Inr v \<Rightarrow> start_time v | Inl _ \<Rightarrow> 0))" .
  have "\<forall>v\<in>set (vectors cleaned). start_time v \<noteq> 0"
    using full by (simp add: find_vector_index_by_start_time_def)
  with sd c wf have "card (live (vectors cleaned)) = MAX_VECTORS"
    using distinct_starts_card [of "vectors cleaned"] by (simp add: evict_starts offer_wf_def)
  then have ten: "card {v \<in> ?A. \<not> gone v} = 10" by (simp add: c evict_live MAX_VECTORS_def)
  have "\<exists>S. finite S \<and> card S \<le> 2 \<and> start_time ` {v \<in> ?A. \<not> gone v} \<subseteq> S \<union> start_time ` ?future"
    using g
  proof
    assume "start_time ?new \<noteq> now R \<and> (\<forall>e. find_active_vector_at off (now R) \<noteq> Inr e) \<and> gone = (\<lambda>v. False)"
    then obtain e where "find_active_vector_at off (now R) = Inl e" by (cases "find_active_vector_at off (now R)") auto
    then have "?A \<subseteq> ?future" by (auto simp: find_active_None live_def)
    then show ?thesis by (intro exI [of _ "{}"]) auto
  next
    assume "\<exists>av. (if start_time ?new = now R then av = ?new else find_active_vector_at off (now R) = Inr av) \<and> 0 < start_time av \<and>
         gone = evicted (start_time av)
           (case find_active_vector_at off (start_time av - 1) of Inr v \<Rightarrow> start_time v | Inl _ \<Rightarrow> 0)"
    then obtain av p where av: "if start_time ?new = now R then av = ?new else find_active_vector_at off (now R) = Inr av"
      "gone = evicted (start_time av) p" by blast
    have "start_time w \<le> start_time av \<or> now R < start_time w" if "w \<in> ?A" for w
    proof (cases "start_time ?new = now R")
      case True
      with av(1) new(5) that show ?thesis by auto
    next
      case False
      with av(1) have "is_latest ?A (now R) av" by (simp add: find_active_latest [OF sd])
      with that show ?thesis by (auto simp: is_latest_def)
    qed
    then have "start_time w \<in> {start_time av, p} \<or> w \<in> ?future" if "w \<in> ?A" "\<not> gone w" for w
      using that by (fastforce simp: av(2) evicted_def live_def)
    then show ?thesis by (intro exI [of _ "{start_time av, p}"]) (auto simp: card_insert_if)
  qed
  then obtain S where S: "finite S" "card S \<le> 2" "start_time ` {v \<in> ?A. \<not> gone v} \<subseteq> S \<union> start_time ` ?future" by blast
  have "inj_on start_time {v \<in> ?A. \<not> gone v}" using live_inj [OF sd] by (auto simp: inj_on_def)
  then have "10 = card (start_time ` {v \<in> ?A. \<not> gone v})" using ten by (simp add: card_image)
  also have "\<dots> \<le> card (S \<union> start_time ` ?future)" using S by (intro card_mono) auto
  also have "\<dots> \<le> card S + card (start_time ` ?future)" by (rule card_Un_le)
  also have "\<dots> \<le> 2 + card ?future" using S(2) card_image_le [of ?future start_time] by simp
  finally show ?thesis by simp
qed


definition scheduled :: "nat \<Rightarrow> OfferVector" where
  "scheduled i = demo_vector\<lparr>start_time := 2000 + i\<rparr>"

theorem slots_run_out_only_when_scheduled_witness:
  "8 \<le> card {v \<in> set (List.map scheduled [0..<10]). 1000 < start_time v}"
proof -
  let ?off = "demo_offer (List.map scheduled [0..<10])"
  let ?c = "put_offer demo_pda ?off demo_chain"
  have upt: "[0..<10] = [0, 1, 2, 3, 4, 5, 6, 7, 8, 9 :: nat]" by (simp add: upt_rec)
  have wf: "offer_wf ?off"
    by (auto simp: offer_wf_def live_def vector_wf_def starts_distinct_def scheduled_def MAX_VECTORS_def MAX_BASIS_POINTS_def)
  have off: "offers ?c (offer_pda (demo_rt 1000) m_usdc m_onyc) = Some ?off" by (simp add: put_offer_def)
  have v: "validate_inputs 3000 1000 5 60 1000 ?off = Inr ()" by (simp add: validate_inputs_def upt scheduled_def)
  have cl: "clean_old_vectors ?off \<lparr>start_time = 3000, base_time = 1000, base_price = 5, apr = 7, price_fix_duration = 60\<rparr>
      1000 = Inr (?off, [])"
    by (simp add: clean_old_vectors_def find_active_vector_at_def upt scheduled_def)
  have slot: "find_vector_index_by_start_time ?off 0 = None"
    by (simp add: find_vector_index_by_start_time_def scheduled_def)
  have "add_offer_vector (demo_rt 1000) k_boss m_usdc m_onyc (Some 3000) 1000 5 7 60 ?c =
      Inl (Custom ''AddOfferVectorErrorCode'' ''TooManyVectors'')"
    unfolding add_offer_vector_def guard_defs off
    by (simp add: v cl slot put_offer_def)
  from slots_run_out_only_when_scheduled [OF wf off this] show ?thesis by simp
qed

section \<open>The price of a vector\<close>

definition vector_time :: "nat \<Rightarrow> nat \<Rightarrow> nat \<Rightarrow> nat" where
  "vector_time base dur t = ((t - base) div dur + 1) * dur"

definition vector_price :: "nat \<Rightarrow> nat \<Rightarrow> nat \<Rightarrow> nat" where
  "vector_price rate p0 e = p0 * (1000000 * 31536000 + rate * e) div (1000000 * 31536000)"

lemma calculate_vector_price_eq:
  assumes "rate < 2 ^ 64" and "e < 2 ^ 64"
  shows "calculate_vector_price rate p0 e =
    (if p0 * (1000000 * 31536000 + rate * e) < 2 ^ 128 \<and> vector_price rate p0 e < 2 ^ 64
     then Inr (vector_price rate p0 e) else Inl (Custom ''OfferCoreError'' ''OverflowError''))"
proof -
  have "rate * e \<le> (2 ^ 64 - 1) * (2 ^ 64 - 1)" using assms by (intro mult_le_mono) auto
  then have "rate * e < 2 ^ 128" "1000000 * 31536000 + rate * e < 2 ^ 128" by simp_all
  then show ?thesis
    by (auto simp: calculate_vector_price_def vector_price_def APR_SCALE_def SECONDS_IN_YEAR_def checked_mul_def
        checked_add_def checked_div_def require_def Let_def)
qed


lemma vector_price_real:
  "int (vector_price rate p0 e) = \<lfloor>real p0 * (1 + real rate / 1000000 * (real e / 31536000))\<rfloor>"
proof -
  let ?d = "1000000 * 31536000 :: nat"
  have "int (vector_price rate p0 e) = \<lfloor>real (p0 * (?d + rate * e)) / real ?d\<rfloor>"
    unfolding vector_price_def by (simp only: floor_divide_of_nat_eq)
  also have "real (p0 * (?d + rate * e)) / real ?d = real p0 * (1 + real rate / 1000000 * (real e / 31536000))"
    by (simp add: field_simps)
  finally show ?thesis .
qed

lemma vector_price_mono: "e \<le> e' \<Longrightarrow> vector_price rate p0 e \<le> vector_price rate p0 e'"
  unfolding vector_price_def by (intro div_le_mono mult_le_mono add_le_mono) auto

lemma vector_price_ge: "p0 \<le> vector_price rate p0 e"
proof -
  have "p0 = vector_price rate p0 0" by (simp add: vector_price_def)
  then show ?thesis using vector_price_mono [of 0 e rate p0] by simp
qed

lemma vector_time_mono: "t \<le> t' \<Longrightarrow> vector_time base dur t \<le> vector_time base dur t'"
  unfolding vector_time_def by (intro mult_le_mono add_le_mono div_le_mono diff_le_mono) auto

lemma vector_time_bounds:
  assumes "0 < dur" shows "t - base < vector_time base dur t" and "vector_time base dur t \<le> t - base + dur"
  using assms dividend_less_div_times [of dur "t - base"] div_times_less_eq_dividend [of "t - base" dur]
  by (simp_all add: vector_time_def algebra_simps)

lemma step_price_eq:
  assumes "0 < dur" and "0 < base" and "base \<le> t" and "t < 2 ^ 64" and "rate < 2 ^ 64"
  defines "e \<equiv> vector_time base dur t"
  shows "calculate_step_price_at rate p0 base dur t =
      (if e < 2 ^ 64 \<and> p0 * (1000000 * 31536000 + rate * e) < 2 ^ 128 \<and> vector_price rate p0 e < 2 ^ 64
       then Inr (vector_price rate p0 e) else Inl (Custom ''OfferCoreError'' ''OverflowError''))"
proof -
  have "(t - base) div dur \<le> t - base" by (rule div_le_dividend)
  then have step: "(t - base) div dur + 1 < 2 ^ 64" using assms(2-4) by linarith
  have "calculate_step_price_at rate p0 base dur t =
      attempt (ok_or (checked_mul 64 ((t - base) div dur + 1) dur) (Custom ''OfferCoreError'' ''OverflowError''))
        (calculate_vector_price rate p0)"
    using assms(1,3) step by (simp add: calculate_step_price_at_def checked_div_def checked_add_def)
  also have "\<dots> = (if e < 2 ^ 64 then calculate_vector_price rate p0 e else Inl (Custom ''OfferCoreError'' ''OverflowError''))"
    by (simp add: checked_mul_def e_def vector_time_def)
  finally show ?thesis using calculate_vector_price_eq [OF assms(5)] by (auto simp: e_def)
qed

text \<open>
  C12: the price of a vector at a time is the base price grown by simple interest at the yearly rate, rounded
  down to nine decimals, for the time from the base time to the end of the running step, which is at most one
  step ahead; so it is constant within a step, never below the base price and never falls. There is
  no error but the overflow error, and that only when a value leaves its width.
\<close>

theorem price_is_simple_interest:
  assumes "0 < dur" and "0 < base" and "base \<le> t" and "t < 2 ^ 64" and "rate < 2 ^ 64"
  defines "e \<equiv> vector_time base dur t"
  shows "calculate_step_price_at rate p0 base dur t =
      (if e < 2 ^ 64 \<and> p0 * (1000000 * 31536000 + rate * e) < 2 ^ 128 \<and> vector_price rate p0 e < 2 ^ 64
       then Inr (vector_price rate p0 e) else Inl (Custom ''OfferCoreError'' ''OverflowError'')) \<and>
    int (vector_price rate p0 e) = \<lfloor>real p0 * (1 + real rate / 1000000 * (real e / 31536000))\<rfloor> \<and>
    t - base < e \<and> e \<le> t - base + dur \<and> p0 \<le> vector_price rate p0 e \<and>
    (\<forall>t'\<ge>t. vector_price rate p0 e \<le> vector_price rate p0 (vector_time base dur t'))"
  using step_price_eq [OF assms(1-5)] vector_price_real vector_price_ge
    vector_price_mono [OF vector_time_mono] vector_time_bounds [OF assms(1)]
  by (auto simp: e_def)

theorem price_is_simple_interest_witness:
  "calculate_step_price_at 36500 1000000000 1000 86400 90000 = Inr 1000200000"
  using price_is_simple_interest [of 86400 1000 90000 36500 1000000000]
  by (simp add: vector_time_def vector_price_def)

end
