(* ===== verification/Chain_Settlement.thy ===== *)
theory Chain_Settlement
  imports Chain_Trade
begin

text \<open>
  What the composed token operations of a trade amount to: an atomic exchange of balances and supplies.
\<close>

section \<open>Balances after elementary changes\<close>

lemma tokens_eqI: "mints t = mints t' \<Longrightarrow> balance t = balance t' \<Longrightarrow> t = (t' :: tokens)"
  by simp

lemma balance_credit [simp]:
  "balance (credit m b n t) a m' = (if a = b \<and> m' = m then balance t a m' + n else balance t a m')"
  "mints (credit m b n t) = mints t"
  by (auto simp: credit_def)

lemma balance_debit [simp]:
  "balance (debit m b n t) a m' = (if a = b \<and> m' = m then balance t a m' - n else balance t a m')"
  "mints (debit m b n t) = mints t"
  by (auto simp: debit_def)

lemma set_supply_sel [simp]:
  "balance (set_supply m f t) = balance t"
  "mints (set_supply m f t) m' =
     (if m' = m then map_option (\<lambda>x. x\<lparr>mint_supply := f (mint_supply x)\<rparr>) (mints t m') else mints t m')"
  by (auto simp: set_supply_def)

lemma plain_credit [simp]: "plain_mint (credit m b n t) m' = plain_mint t m'"
  by (simp add: plain_mint_def)

lemma plain_debit [simp]: "plain_mint (debit m b n t) m' = plain_mint t m'"
  by (simp add: plain_mint_def)

lemma plain_set_supply [simp]: "plain_mint (set_supply m f t) m' = plain_mint t m'"
  by (auto simp: plain_mint_def split: option.splits)

section \<open>Laws of the token program\<close>

lemma transfer_ok:
  assumes "token_program_ok R" and "plain_mint t m" and "transfer_tokens R m a b s n t = Inr t'"
  shows "s = a \<and> n \<le> balance t a m \<and> t' = credit m b n (debit m a n t)"
  using assms(1) [unfolded token_program_ok_def, THEN conjunct1, rule_format,
      OF assms(3) [unfolded transfer_tokens_def] assms(2)] .

lemma burn_ok:
  assumes "token_program_ok R" and "burn_tokens R m a s n t = Inr t'"
  shows "s = a \<and> n \<le> balance t a m \<and> (\<exists>x. mints t m = Some x \<and> n \<le> mint_supply x) \<and>
    t' = debit m a n (set_supply m (\<lambda>s. s - n) t)"
  using assms(1) [unfolded token_program_ok_def, THEN conjunct2, THEN conjunct2, THEN conjunct1, rule_format,
      OF assms(2) [unfolded burn_tokens_def]] .

lemma mint_ok:
  assumes "token_program_ok R" and "mint_tokens R m mint b s n cap t = Inr t'"
  shows "t' = credit m b n (set_supply m (\<lambda>s. s + n) t) \<and> (0 < cap \<longrightarrow> mint_supply mint + n \<le> cap) \<and>
    (\<exists>x. mints t m = Some x \<and> mint_authority x = Some s)"
proof -
  have run: "mint_to_checked R t m b s n = Inr t'" and "0 < cap \<longrightarrow> mint_supply mint + n \<le> cap"
    using assms(2) by (auto simp: mint_tokens_def split: if_splits)
  moreover note assms(1) [unfolded token_program_ok_def, THEN conjunct2, THEN conjunct1, rule_format, OF run]
  ultimately show ?thesis by blast
qed

text \<open>
  The documented transfer of a mint with a transfer fee: the source loses the amount, and a fee is withheld from the
  destination; no other account changes.
\<close>

definition fees_withheld :: "runtime \<Rightarrow> bool" where
  "fees_withheld R \<longleftrightarrow> (\<forall>t m a b s n t'. transfer_checked R t m a b s n = Inr t' \<longrightarrow>
     s = a \<and> n \<le> balance t a m \<and> (\<exists>fee\<le>n. t' = credit m b (n - fee) (debit m a n t)))"

lemma transfer_withheld:
  assumes "fees_withheld R" and "transfer_tokens R m a b s n t = Inr t'"
  obtains fee where "s = a" and "n \<le> balance t a m" and "fee \<le> n" and "t' = credit m b (n - fee) (debit m a n t)"
  using assms unfolding fees_withheld_def transfer_tokens_def by blast

section \<open>Derived addresses\<close>

text \<open>
  The seeds of all addresses that the program derives. An address is a hash of the concatenated bytes of its seeds; the
  seeds of the program have different bytes, whatever the 32 bytes of the keys are. That no two of these addresses
  collide is a hypothesis on the derivation, \<open>distinct_addresses\<close>.
\<close>

inductive_set program_seeds :: "seed list set" where
  "[Seed ''state''] \<in> program_seeds"
| "[Seed ''offer_vault_authority''] \<in> program_seeds"
| "[Seed ''permissionless-1''] \<in> program_seeds"
| "[Seed ''mint_authority''] \<in> program_seeds"
| "[Seed ''redemption_offer_vault_authority''] \<in> program_seeds"
| "[Seed ''offer'', KeySeed a, KeySeed b] \<in> program_seeds"
| "[Seed ''redemption_offer'', KeySeed a, KeySeed b] \<in> program_seeds"
| "n < 2 ^ 64 \<Longrightarrow> [Seed ''redemption_request'', KeySeed a, U64Seed n] \<in> program_seeds"

declare program_seeds.intros [simp]

definition distinct_addresses :: "(seed list \<Rightarrow> pubkey) \<Rightarrow> bool" where
  "distinct_addresses F \<longleftrightarrow> inj_on F program_seeds"

lemma distinct_addressesD:
  "distinct_addresses F \<Longrightarrow> ss \<in> program_seeds \<Longrightarrow> ts \<in> program_seeds \<Longrightarrow> F ss = F ts \<longleftrightarrow> ss = ts"
  unfolding distinct_addresses_def by (rule inj_on_eq_iff)

fun seed_bytes :: "(pubkey \<Rightarrow> char list) \<Rightarrow> seed \<Rightarrow> char list" where
  "seed_bytes K (Seed s) = s"
| "seed_bytes K (KeySeed k) = K k"
| "seed_bytes K (U64Seed n) = List.map (\<lambda>i. char_of (n div 256 ^ i)) [0..<8]"

lemma eight_digits:
  assumes "n < 2 ^ 64" and "m < 2 ^ 64" and "\<And>i. i < 8 \<Longrightarrow> n div 256 ^ i mod 256 = m div 256 ^ i mod (256::nat)"
  shows "n = m"
proof -
  have digits: "x = (\<Sum>i<8. x div 256 ^ i mod 256 * 256 ^ i)" if "x < 2 ^ 64" for x :: nat
  proof -
    have "(\<Sum>i<k. x div 256 ^ i mod 256 * 256 ^ i) = x mod 256 ^ k" for k
    proof (induction k)
      case (Suc k)
      then show ?case using mod_mult2_eq [of x "256 ^ k" 256] by (simp add: mult.commute)
    qed simp
    then show ?thesis using that by simp
  qed
  have "(\<Sum>i<8. n div 256 ^ i mod 256 * 256 ^ i) = (\<Sum>i<8. m div 256 ^ i mod 256 * 256 ^ i)"
    by (intro sum.cong) (simp_all only: assms(3) lessThan_iff)
  then show ?thesis by (rule box_equals [OF _ digits [OF assms(1), symmetric] digits [OF assms(2), symmetric]])
qed

lemma u64_bytes_inject:
  assumes "n < 2 ^ 64" and "m < 2 ^ 64" and "seed_bytes K (U64Seed n) = seed_bytes K (U64Seed m)"
  shows "n = m"
proof (rule eight_digits [OF assms(1,2)])
  fix i :: nat assume "i < 8"
  with assms(3) have "char_of (n div 256 ^ i) = (char_of (m div 256 ^ i) :: char)" by simp
  then have "of_char (char_of (n div 256 ^ i) :: char) = (of_char (char_of (m div 256 ^ i) :: char) :: nat)" by simp
  then show "n div 256 ^ i mod 256 = m div 256 ^ i mod 256" by simp
qed

text \<open>The number of bytes tells the kinds of seeds apart.\<close>

lemma program_seeds_differ:
  assumes len: "\<And>k. length (K k) = 32" and inj: "inj K"
  shows "inj_on (\<lambda>ss. concat (List.map (seed_bytes K) ss)) program_seeds"
proof (rule inj_onI)
  let ?b = "\<lambda>ss. concat (List.map (seed_bytes K) ss)"
  fix ss ts assume ss: "ss \<in> program_seeds" and ts: "ts \<in> program_seeds" and eq: "?b ss = ?b ts"
  have u64: "length (seed_bytes K (U64Seed n)) = 8" for n by simp
  note bytes = list.map concat.simps seed_bytes.simps(1,2) length_append len u64 append_Nil2
  from eq have same: "length (?b ss) = length (?b ts)" by simp
  show "ss = ts"
    using ss
  proof cases
    case (6 a b)
    from ts same obtain c d where t: "ts = [Seed ''offer'', KeySeed c, KeySeed d]"
      by cases (simp_all add: 6 bytes del: seed_bytes.simps(3))
    from eq have "K a @ K b = K c @ K d" by (simp add: 6 t bytes del: seed_bytes.simps(3))
    then show ?thesis by (simp add: 6 t len inj_eq [OF inj])
  next
    case (7 a b)
    from ts same obtain c d where t: "ts = [Seed ''redemption_offer'', KeySeed c, KeySeed d]"
      by cases (simp_all add: 7 bytes del: seed_bytes.simps(3))
    from eq have "K a @ K b = K c @ K d" by (simp add: 7 t bytes del: seed_bytes.simps(3))
    then show ?thesis by (simp add: 7 t len inj_eq [OF inj])
  next
    case (8 n a)
    from ts same obtain m c where t: "ts = [Seed ''redemption_request'', KeySeed c, U64Seed m]" "m < 2 ^ 64"
      by cases (simp_all add: 8 bytes del: seed_bytes.simps(3))
    from eq have "K a @ seed_bytes K (U64Seed n) = K c @ seed_bytes K (U64Seed m)"
      by (simp add: 8 t bytes del: seed_bytes.simps(3))
    then have "K a = K c" "seed_bytes K (U64Seed n) = seed_bytes K (U64Seed m)"
      by (simp_all add: len del: seed_bytes.simps(3))
    with u64_bytes_inject [OF 8(2) t(2)] show ?thesis by (simp add: 8 t inj_eq [OF inj])
  qed (use ts same in \<open>cases; simp add: bytes del: seed_bytes.simps(3)\<close>)+
qed

section \<open>The exchange\<close>

text \<open>
  The taker pays net and fee. When the program controls the incoming mint the net amount is burned and the
  boss gets the fee, else the boss gets both; the outgoing amount is minted when the program controls that
  mint, else it comes from the vault.
\<close>

definition exchange ::
  "runtime \<Rightarrow> pubkey \<Rightarrow> pubkey \<Rightarrow> pubkey \<Rightarrow> pubkey \<Rightarrow> nat \<Rightarrow> nat \<Rightarrow> nat \<Rightarrow> Mint \<Rightarrow> Mint \<Rightarrow> tokens \<Rightarrow> tokens" where
  "exchange R taker boss_key tin tout net fee out mint_in mint_out t = (
     let paid = debit tin taker (net + fee) t;
         settled = (if program_controls_mint mint_in (mint_authority_pda R)
           then credit tin boss_key fee (set_supply tin (\<lambda>s. s - net) paid)
           else credit tin boss_key (net + fee) paid) in
     if program_controls_mint mint_out (mint_authority_pda R)
     then credit tout taker out (set_supply tout (\<lambda>s. s + out) settled)
     else credit tout taker out (debit tout (vault_authority R) out settled))"

definition exec_params ::
  "runtime \<Rightarrow> pubkey \<Rightarrow> pubkey \<Rightarrow> pubkey \<Rightarrow> pubkey \<Rightarrow> nat \<Rightarrow> nat \<Rightarrow> nat \<Rightarrow> nat \<Rightarrow> ExecTokenOpsParams" where
  "exec_params R taker boss_key tin tout net fee out cap =
    \<lparr>token_in_mint = tin, token_in_net_amount = net, token_in_fee_amount = fee,
         token_in_authority = taker, token_in_source_account = taker, token_in_destination_account = boss_key,
         token_in_burn_account = vault_authority R, token_in_burn_authority = vault_authority R,
         token_out_mint = tout, token_out_amount = out, token_out_authority = vault_authority R,
         token_out_source_account = vault_authority R, token_out_destination_account = taker,
         token_out_mint_authority = mint_authority_pda R, token_out_max_supply = cap\<rparr>"

lemma plain_mintI: "mints t m = Some x \<Longrightarrow> \<not> has_transfer_fee x \<Longrightarrow> plain_mint t m"
  by (auto simp: plain_mint_def has_transfer_fee_def split: option.splits)

lemma pay_token_in_ok:
  assumes ok: "token_program_ok R" and "pay_token_in R (exec_params R taker b tin tout net fee out cap) mint_in t = Inr t'"
    and plain: "plain_mint t tin"
  shows "net + fee \<le> balance t taker tin \<and>
    t' = (if program_controls_mint mint_in (mint_authority_pda R)
           then credit tin b fee (set_supply tin (\<lambda>s. s - net) (debit tin taker (net + fee) t))
           else credit tin b (net + fee) (debit tin taker (net + fee) t))"
proof (cases "program_controls_mint mint_in (mint_authority_pda R)")
  case False
  with assms(2) have "transfer_tokens R tin taker b taker (net + fee) t = Inr t'"
    by (simp add: pay_token_in_def exec_params_def)
  with transfer_ok [OF ok plain this] False show ?thesis by simp
next
  case True
  with assms(2) obtain t1 t2 where t1: "transfer_tokens R tin taker (vault_authority R) taker net t = Inr t1"
    and t2: "burn_tokens R tin (vault_authority R) (vault_authority R) net t1 = Inr t2"
    and t3: "if 0 < fee then transfer_tokens R tin taker b taker fee t2 = Inr t' else t' = t2"
    by (auto simp: pay_token_in_def exec_params_def split: if_splits)
  from transfer_ok [OF ok plain t1] have 1: "net \<le> balance t taker tin" "t1 = credit tin (vault_authority R) net (debit tin taker net t)"
    by auto
  from burn_ok [OF ok t2] have 2: "t2 = debit tin (vault_authority R) net (set_supply tin (\<lambda>s. s - net) t1)" by auto
  have plain2: "plain_mint t2 tin" using plain by (simp add: 1 2)
  have t2': "t2 = set_supply tin (\<lambda>s. s - net) (debit tin taker net t)"
    using 1(1) by (intro tokens_eqI ext) (auto simp: 1 2)
  have 3: "fee \<le> balance t2 taker tin \<and> t' = credit tin b fee (debit tin taker fee t2)"
  proof (cases "0 < fee")
    case True
    with t3 transfer_ok [OF ok plain2, of taker b taker fee t'] show ?thesis by auto
  next
    case False
    with t3 show ?thesis by (auto intro!: tokens_eqI ext)
  qed
  then have "t' = credit tin b fee (set_supply tin (\<lambda>s. s - net) (debit tin taker (net + fee) t))"
    by (intro tokens_eqI ext) (auto simp: t2')
  moreover have "net + fee \<le> balance t taker tin" using 1(1) 3 by (auto simp: t2')
  ultimately show ?thesis using True by simp
qed

lemma exchange_ok:
  assumes ok: "token_program_ok R"
    and run: "execute_token_operations R (exec_params R taker b tin tout net fee out cap) mint_in mint_out t = Inr t'"
    and mints: "mints t tin = Some mint_in" "mints t tout = Some mint_out"
    and distinct: "taker \<noteq> vault_authority R" "b \<noteq> vault_authority R"
  shows "net + fee \<le> balance t taker tin \<and> t' = exchange R taker b tin tout net fee out mint_in mint_out t \<and>
    (if program_controls_mint mint_out (mint_authority_pda R)
     then 0 < cap \<longrightarrow> mint_supply mint_out + out \<le> cap
     else out \<le> balance t (vault_authority R) tout)"
proof -
  from run have fees: "\<not> has_transfer_fee mint_in" "\<not> has_transfer_fee mint_out"
    by (auto simp: execute_token_operations_def)
  then have plain: "plain_mint t tin" "plain_mint t tout" using mints by (auto intro: plain_mintI)
  let ?p = "exec_params R taker b tin tout net fee out cap"
  from run obtain t1 where t1: "pay_token_in R ?p mint_in t = Inr t1" and t2: "pay_token_out R ?p mint_out t1 = Inr t'"
    by (auto simp: execute_token_operations_def)
  note 1 = pay_token_in_ok [OF ok t1 plain(1)]
  have plain': "plain_mint t1 tout" using 1 plain(2) by simp
  show ?thesis
  proof (cases "program_controls_mint mint_out (mint_authority_pda R)")
    case True
    with t2 have "mint_tokens R tout mint_out taker (mint_authority_pda R) out cap t1 = Inr t'"
      by (simp add: pay_token_out_def exec_params_def)
    from mint_ok [OF ok this] 1 True show ?thesis by (simp add: exchange_def Let_def)
  next
    case False
    with t2 have "transfer_tokens R tout (vault_authority R) taker (vault_authority R) out t1 = Inr t'"
      by (simp add: pay_token_out_def exec_params_def)
    from transfer_ok [OF ok plain' this] 1 False distinct show ?thesis by (auto simp: exchange_def Let_def split: if_splits)
  qed
qed

text \<open>An exchange by an intermediary that is paid before and pays out after is an exchange by the payer.\<close>

lemma exchange_via:
  assumes "user \<noteq> pa" "pa \<noteq> b" "pa \<noteq> vault_authority R" "user \<noteq> vault_authority R"
    and "net + fee \<le> balance t user tin"
  shows "credit tout user out (debit tout pa out
      (exchange R pa b tin tout net fee out mi mo (credit tin pa (net + fee) (debit tin user (net + fee) t)))) =
    exchange R user b tin tout net fee out mi mo t"
proof (intro tokens_eqI ext)
  fix a m
  let ?L = "credit tout user out (debit tout pa out
      (exchange R pa b tin tout net fee out mi mo (credit tin pa (net + fee) (debit tin user (net + fee) t))))"
  show "balance ?L a m = balance (exchange R user b tin tout net fee out mi mo t) a m"
    using assms
    by (cases "a = pa"; cases "a = user"; cases "a = b"; cases "a = vault_authority R")
      (simp_all add: exchange_def Let_def)
qed (simp add: exchange_def Let_def)

end
