(* ===== verification/Chain_Trade_Props.thy ===== *)
theory Chain_Trade_Props
  imports Chain_Settlement Chain_Offer_Props
begin

text \<open>
  Purchases: fees, the settlement of a purchase with and without the intermediary, the cap on the supply and
  the approval of an approver.
\<close>

section \<open>Fees\<close>

lemma calculate_fees_eq:
  assumes "n < 2 ^ 64" and "bps \<le> 10000"
  shows "calculate_fees n bps = Inr ((n * bps + 9999) div 10000, n - (n * bps + 9999) div 10000) \<and>
    (n * bps + 9999) div 10000 \<le> n"
proof -
  have "n * bps \<le> n * 10000" using assms(2) by simp
  then have le: "(n * bps + 9999) div 10000 \<le> n" by linarith
  have "n * bps \<le> (2 ^ 64 - 1) * 10000" using assms by (intro mult_le_mono) auto
  then have "n * bps < 2 ^ 128" "n * bps + 9999 < 2 ^ 128" by simp_all
  moreover have "(n * bps + 9999) div 10000 mod 2 ^ 64 = (n * bps + 9999) div 10000" using le assms(1) by simp
  ultimately show ?thesis
    using le by (simp add: calculate_fees_def checked_mul_def checked_add_def checked_div_def checked_sub_def
        MAX_BASIS_POINTS_def Let_def)
qed

lemma calculate_fees_Inr:
  assumes "calculate_fees n bps = Inr (fee, net)" and "n < 2 ^ 64" and "bps \<le> 10000"
  shows "net + fee = n" and "fee = (n * bps + 9999) div 10000"
  using calculate_fees_eq [OF assms(2,3)] assms(1) by auto

text \<open>
  C35: for every amount and every fee up to 100 percent the fee is the exact share rounded up, no more than
  the amount, and fee and net amount add up to the amount; so a fee above zero takes at least one unit of
  an amount above zero.
\<close>

theorem fees_round_up:
  assumes "n < 2 ^ 64" and "bps \<le> MAX_BASIS_POINTS"
  shows "\<exists>fee net. calculate_fees n bps = Inr (fee, net) \<and> int fee = \<lceil>real n * real bps / 10000\<rceil> \<and>
    fee + net = n \<and> (0 < n \<longrightarrow> 0 < bps \<longrightarrow> 0 < fee)"
proof -
  let ?fee = "(n * bps + 9999) div 10000"
  have eq: "calculate_fees n bps = Inr (?fee, n - ?fee)" "?fee \<le> n"
    using calculate_fees_eq [of n bps] assms by (simp_all add: MAX_BASIS_POINTS_def)
  have "\<lceil>real n * real bps / 10000\<rceil> = \<lceil>real_of_int (int (n * bps)) / real_of_int 10000\<rceil>" by simp
  also have "\<dots> = - (- int (n * bps) div 10000)" by (rule ceiling_divide_eq_div)
  also have "\<dots> = int ?fee" by (simp add: zdiv_int)
  finally have "int ?fee = \<lceil>real n * real bps / 10000\<rceil>" by simp
  moreover have "0 < ?fee" if "0 < n" "0 < bps"
  proof -
    have "0 < n * bps" using that by simp
    then show ?thesis by linarith
  qed
  ultimately show ?thesis using eq by (intro exI [of _ ?fee] exI [of _ "n - ?fee"]) simp
qed

theorem fees_round_up_witness: "calculate_fees 1000000001 25 = Inr (2500001, 997500000)"
proof -
  have "\<exists>fee net. calculate_fees 1000000001 25 = Inr (fee, net) \<and>
      int fee = \<lceil>real 1000000001 * real 25 / 10000\<rceil> \<and> fee + net = 1000000001 \<and> (0 < (1000000001 :: nat) \<longrightarrow> 0 < (25 :: nat) \<longrightarrow> 0 < fee)"
    by (rule fees_round_up) (simp_all add: MAX_BASIS_POINTS_def)
  then show ?thesis by auto
qed


section \<open>Settlement\<close>

text \<open>The terms of a purchase: price, fee, net amount and the amount bought, which is rounded down.\<close>

definition fair_terms ::
  "nat \<Rightarrow> nat \<Rightarrow> Offer \<Rightarrow> Mint \<Rightarrow> Mint \<Rightarrow> OfferProcessResult \<Rightarrow> bool" where
  "fair_terms t x off mi mo res = (
     (\<exists>v. find_active_vector_at off t = Inr v \<and>
        calculate_step_price_at (apr v) (base_price v) (base_time v) (price_fix_duration v) t = Inr (current_price res)) \<and>
     net_amount res + fee_amount res = x \<and>
     int (fee_amount res) = \<lceil>real x * real (fee_basis_points off) / 10000\<rceil> \<and>
     out_amount res * (current_price res * 10 ^ decimals mi) \<le> net_amount res * 10 ^ (decimals mo + 9) \<and>
     net_amount res * 10 ^ (decimals mo + 9) < (out_amount res + 1) * (current_price res * 10 ^ decimals mi))"

lemma process_offer_core_terms:
  assumes run: "process_offer_core R off x tin mi tout mo = Inr res" and x: "x < 2 ^ 64"
    and fee: "fee_basis_points off \<le> MAX_BASIS_POINTS"
  shows "fair_terms (now R) x off mi mo res"
proof -
  from run obtain v price fee net out where
    *: "find_active_vector_at off (now R) = Inr v"
      "calculate_step_price_at (apr v) (base_price v) (base_time v) (price_fix_duration v) (now R) = Inr price"
      "calculate_fees x (fee_basis_points off) = Inr (fee, net)"
      "calculate_token_out_amount net price (decimals mi) (decimals mo) = Inr out"
      "res = \<lparr>current_price = price, net_amount = net, fee_amount = fee, out_amount = out\<rparr>"
    by (auto simp: process_offer_core_def calculate_current_step_price_def split: prod.splits)
  obtain fee' net' where f: "calculate_fees x (fee_basis_points off) = Inr (fee', net')"
    "int fee' = \<lceil>real x * real (fee_basis_points off) / 10000\<rceil>" "fee' + net' = x"
    using fees_round_up [OF x fee] by blast
  have out: "0 < price" "out = net * 10 ^ (decimals mo + 9) div (price * 10 ^ decimals mi)"
    using *(4) by (auto simp: calculate_token_out_amount_def PRICE_DECIMALS_def Let_def)
  let ?d = "price * 10 ^ decimals mi"
  have d: "0 < ?d" using out(1) by simp
  have "out * ?d \<le> net * 10 ^ (decimals mo + 9)" unfolding out(2) by (rule div_times_less_eq_dividend)
  moreover have "net * 10 ^ (decimals mo + 9) < (out + 1) * ?d"
    using dividend_less_div_times [OF d, of "net * 10 ^ (decimals mo + 9)"] unfolding out(2) by simp
  ultimately show ?thesis using * f by (auto simp: fair_terms_def)
qed

lemma take_offer_Inr:
  assumes "take_offer R T user b tin tout x ap c = Inr c'"
  obtains s off mi mo res t where "state_acc c = Some s" "boss s = b" "\<not> is_killed s"
    "offers c (offer_pda R tin tout) = Some off" "mints (tok c) tin = Some mi" "mints (tok c) tout = Some mo"
    "verify_offer_approval R T off ap user (approver1 s) (approver2 s) = Inr ()"
    "process_offer_core R off x tin mi tout mo = Inr res"
    "execute_token_operations R (exec_params R user b tin tout (net_amount res) (fee_amount res) (out_amount res)
       (max_supply s)) mi mo (tok c) = Inr t"
    "c' = emit (OfferTakenEvent (offer_pda R tin tout) (net_amount res) (out_amount res) (fee_amount res) user) (put_tok t c)"
  using assms by (auto simp: take_offer_def exec_params_def)

lemma take_offer_permissionless_Inr:
  assumes "take_offer_permissionless R T user b va pa ma tin tout x ap c = Inr c'"
  obtains s off mi mo res t1 t2 t3 where "state_acc c = Some s" "boss s = b" "\<not> is_killed s"
    "offers c (offer_pda R tin tout) = Some off" "mints (tok c) tin = Some mi" "mints (tok c) tout = Some mo"
    "verify_offer_approval R T off ap user (approver1 s) (approver2 s) = Inr ()" "allow_permissionless off"
    "process_offer_core R off x tin mi tout mo = Inr res" "pa = permissionless_authority R"
    "transfer_tokens R tin user pa user x (tok c) = Inr t1"
    "execute_token_operations R (exec_params R pa b tin tout (net_amount res) (fee_amount res) (out_amount res)
       (max_supply s)) mi mo t1 = Inr t2"
    "transfer_tokens R tout pa user pa (out_amount res) t2 = Inr t3"
    "c' = emit (OfferTakenPermissionlessEvent (offer_pda R tin tout) (net_amount res) (out_amount res) (fee_amount res) user)
       (put_tok t3 c)"
  using assms by (auto simp: take_offer_permissionless_def exec_params_def)

lemma direct_settles:
  assumes ok: "token_program_ok R" and run: "take_offer R T user b tin tout x ap c = Inr c'"
    and distinct: "user \<noteq> vault_authority R" "b \<noteq> vault_authority R"
  obtains s off mi mo res where "state_acc c = Some s" "boss s = b" "offers c (offer_pda R tin tout) = Some off"
    "mints (tok c) tin = Some mi" "mints (tok c) tout = Some mo" "process_offer_core R off x tin mi tout mo = Inr res"
    "net_amount res + fee_amount res \<le> balance (tok c) user tin"
    "c' = emit (OfferTakenEvent (offer_pda R tin tout) (net_amount res) (out_amount res) (fee_amount res) user)
      (put_tok (exchange R user b tin tout (net_amount res) (fee_amount res) (out_amount res) mi mo (tok c)) c)"
    "if program_controls_mint mo (mint_authority_pda R)
     then 0 < max_supply s \<longrightarrow> mint_supply mo + out_amount res \<le> max_supply s
     else out_amount res \<le> balance (tok c) (vault_authority R) tout"
proof -
  from take_offer_Inr [OF run] obtain s off mi mo res t where
    *: "state_acc c = Some s" "boss s = b" "offers c (offer_pda R tin tout) = Some off" "mints (tok c) tin = Some mi"
      "mints (tok c) tout = Some mo" "process_offer_core R off x tin mi tout mo = Inr res"
      "execute_token_operations R (exec_params R user b tin tout (net_amount res) (fee_amount res) (out_amount res)
         (max_supply s)) mi mo (tok c) = Inr t"
      "c' = emit (OfferTakenEvent (offer_pda R tin tout) (net_amount res) (out_amount res) (fee_amount res) user) (put_tok t c)" .
  from exchange_ok [OF ok *(7,4,5) distinct] * show ?thesis by (intro that) auto
qed

lemma permissionless_settles:
  assumes ok: "token_program_ok R" and run: "take_offer_permissionless R T user b va pa ma tin tout x ap c = Inr c'"
    and distinct: "user \<noteq> vault_authority R" "b \<noteq> vault_authority R"
      "user \<noteq> permissionless_authority R" "b \<noteq> permissionless_authority R" "permissionless_authority R \<noteq> vault_authority R"
    and sum: "\<And>off mi mo res. offers c (offer_pda R tin tout) = Some off \<Longrightarrow>
      process_offer_core R off x tin mi tout mo = Inr res \<Longrightarrow> net_amount res + fee_amount res = x"
  obtains s off mi mo res where "state_acc c = Some s" "boss s = b" "offers c (offer_pda R tin tout) = Some off"
    "mints (tok c) tin = Some mi" "mints (tok c) tout = Some mo" "process_offer_core R off x tin mi tout mo = Inr res"
    "net_amount res + fee_amount res \<le> balance (tok c) user tin"
    "c' = emit (OfferTakenPermissionlessEvent (offer_pda R tin tout) (net_amount res) (out_amount res) (fee_amount res) user)
      (put_tok (exchange R user b tin tout (net_amount res) (fee_amount res) (out_amount res) mi mo (tok c)) c)"
    "if program_controls_mint mo (mint_authority_pda R)
     then 0 < max_supply s \<longrightarrow> mint_supply mo + out_amount res \<le> max_supply s
     else out_amount res \<le> balance (tok c) (vault_authority R) tout"
proof -
  from take_offer_permissionless_Inr [OF run] obtain s off mi mo res t1 t2 t3 where
    *: "state_acc c = Some s" "boss s = b" "offers c (offer_pda R tin tout) = Some off" "mints (tok c) tin = Some mi"
      "mints (tok c) tout = Some mo" "process_offer_core R off x tin mi tout mo = Inr res"
      "pa = permissionless_authority R" "transfer_tokens R tin user pa user x (tok c) = Inr t1"
      "execute_token_operations R (exec_params R pa b tin tout (net_amount res) (fee_amount res) (out_amount res)
         (max_supply s)) mi mo t1 = Inr t2"
      "transfer_tokens R tout pa user pa (out_amount res) t2 = Inr t3"
      "c' = emit (OfferTakenPermissionlessEvent (offer_pda R tin tout) (net_amount res) (out_amount res) (fee_amount res) user)
         (put_tok t3 c)" .
  note x = sum [OF *(3,6)]
  from *(9) have fees: "\<not> has_transfer_fee mi" "\<not> has_transfer_fee mo" by (auto simp: execute_token_operations_def)
  then have plain: "plain_mint (tok c) tin" "plain_mint (tok c) tout" using *(4,5) by (auto intro: plain_mintI)
  from transfer_ok [OF ok plain(1) *(8)] have
    t1: "t1 = credit tin pa x (debit tin user x (tok c))" and le: "x \<le> balance (tok c) user tin" by auto
  have pa: "pa \<noteq> b" "pa \<noteq> vault_authority R" "user \<noteq> pa" using *(7) distinct by auto
  have m1: "mints t1 tin = Some mi" "mints t1 tout = Some mo" using *(4,5) by (simp_all add: t1)
  note 2 = exchange_ok [OF ok *(9) m1 pa(2) distinct(2)]
  then have t2: "t2 = exchange R pa b tin tout (net_amount res) (fee_amount res) (out_amount res) mi mo t1" by simp
  have "plain_mint t2 tout" using plain(2) by (auto simp: t2 t1 exchange_def Let_def)
  from transfer_ok [OF ok this *(10)] have t3: "t3 = credit tout user (out_amount res) (debit tout pa (out_amount res) t2)"
    by simp
  have "t3 = exchange R user b tin tout (net_amount res) (fee_amount res) (out_amount res) mi mo (tok c)"
    unfolding t3 t2 t1 x [symmetric] by (rule exchange_via) (use pa distinct le x in auto)
  moreover have "balance t1 (vault_authority R) tout = balance (tok c) (vault_authority R) tout"
    using pa(2) distinct(1) by (simp add: t1)
  with 2 have "if program_controls_mint mo (mint_authority_pda R)
     then 0 < max_supply s \<longrightarrow> mint_supply mo + out_amount res \<le> max_supply s
     else out_amount res \<le> balance (tok c) (vault_authority R) tout" by (simp split: if_splits)
  ultimately show ?thesis using that [OF *(1-6)] le x *(11) by simp
qed

text \<open>
  C1: a purchase that succeeds, directly or through the intermediary, is one atomic exchange at the price of the active
  vector, whatever the token program does beyond its documented behaviour: the taker pays exactly the amount, of which
  the boss gets at least the fee and the net part is burned or goes to the boss; it receives the value of the net amount,
  rounded down to the unit, minted within the cap or taken from the vault; nobody else's balance, no
  other supply and no account of the program changes. Taker and boss are none of the addresses that the program
  derives, and the derived addresses are distinct.
\<close>

theorem purchases_settle_exactly:
  assumes "token_program_ok R" and "distinct_addresses (find_program_address R)" and "reachable F c" and "x < 2 ^ 64"
    and "\<And>ss. user \<noteq> find_program_address R ss" and "\<And>ss. b \<noteq> find_program_address R ss"
    and "take_offer R T user b tin tout x ap c = Inr c' \<and> event = OfferTakenEvent \<or>
      take_offer_permissionless R T user b va pa ma tin tout x ap c = Inr c' \<and> event = OfferTakenPermissionlessEvent"
  shows "\<exists>s off mi mo res. state_acc c = Some s \<and> boss s = b \<and> offers c (offer_pda R tin tout) = Some off \<and>
    mints (tok c) tin = Some mi \<and> mints (tok c) tout = Some mo \<and> fair_terms (now R) x off mi mo res \<and>
    x \<le> balance (tok c) user tin \<and>
    c' = emit (event (offer_pda R tin tout) (net_amount res) (out_amount res) (fee_amount res) user)
      (put_tok (exchange R user b tin tout (net_amount res) (fee_amount res) (out_amount res) mi mo (tok c)) c) \<and>
    (if program_controls_mint mo (mint_authority_pda R)
     then 0 < max_supply s \<longrightarrow> mint_supply mo + out_amount res \<le> max_supply s
     else out_amount res \<le> balance (tok c) (vault_authority R) tout)"
proof -
  have keys: "user \<noteq> vault_authority R" "b \<noteq> vault_authority R" "user \<noteq> permissionless_authority R" "b \<noteq> permissionless_authority R"
    "permissionless_authority R \<noteq> vault_authority R"
    using assms(5,6) by (simp_all add: vault_authority_def permissionless_authority_def distinct_addressesD [OF assms(2)])
  have terms: "fair_terms (now R) x off mi mo res" "net_amount res + fee_amount res = x"
    if "offers c (offer_pda R tin tout) = Some off" "process_offer_core R off x tin mi tout mo = Inr res" for off mi mo res
  proof -
    have "fee_basis_points off \<le> MAX_BASIS_POINTS"
      using offer_wf_reachable [OF assms(3) that(1)] by (simp add: offer_wf_def)
    with process_offer_core_terms [OF that(2) assms(4)] show "fair_terms (now R) x off mi mo res" .
    then show "net_amount res + fee_amount res = x" by (simp add: fair_terms_def)
  qed
  from assms(7) show ?thesis
  proof (elim disjE conjE)
    assume run: "take_offer R T user b tin tout x ap c = Inr c'" and e: "event = OfferTakenEvent"
    show ?thesis by (rule direct_settles [OF assms(1) run keys(1,2)]) (use terms e in metis)
  next
    assume run: "take_offer_permissionless R T user b va pa ma tin tout x ap c = Inr c'" and e: "event = OfferTakenPermissionlessEvent"
    show ?thesis by (rule permissionless_settles [OF assms(1) run keys terms(2)]) (assumption | use terms e in metis)+
  qed
qed



section \<open>A purchase on the example chain\<close>

definition demo_result :: OfferProcessResult where
  "demo_result = \<lparr>current_price = 1000100000, net_amount = 990000, fee_amount = 10000, out_amount = 989901009\<rparr>"

lemma demo_process:
  "process_offer_core (demo_rt 2000) (demo_offer (demo_vector # replicate 9 OfferVector_default)) 1000000
     m_usdc \<lparr>mint_authority = None, mint_supply = 5000000000, decimals = 6, transfer_fee = None\<rparr>
     m_onyc \<lparr>mint_authority = Some (demo_find [Seed ''mint_authority'']), mint_supply = 0, decimals = 9, transfer_fee = None\<rparr>
   = Inr demo_result"
proof -
  have v: "find_active_vector_at (demo_offer (demo_vector # replicate 9 OfferVector_default)) 2000 = Inr demo_vector"
    by (simp add: find_active_vector_at_def)
  have p: "calculate_step_price_at 36500 1000000000 1000 86400 2000 = Inr 1000100000"
    by (simp add: calculate_step_price_at_def calculate_vector_price_def checked_div_def checked_add_def
        checked_mul_def APR_SCALE_def SECONDS_IN_YEAR_def Let_def)
  have f: "calculate_fees 1000000 100 = Inr (10000, 990000)"
    by (simp add: calculate_fees_def checked_div_def checked_add_def checked_mul_def checked_sub_def
        MAX_BASIS_POINTS_def Let_def)
  have a: "calculate_token_out_amount 990000 1000100000 6 9 = Inr 989901009"
    by (simp add: calculate_token_out_amount_def checked_mul_def MAX_TOKEN_DECIMALS_def PRICE_DECIMALS_def Let_def)
  show ?thesis
    by (simp only: process_offer_core_def calculate_current_step_price_def demo_offer_sel demo_rt_sel v attempt.simps
        simp_thms require_True demo_vector_sel p f prod.case Mint.simps a demo_result_def)
qed

lemma demo_execute:
  assumes "k \<noteq> k_boss" and "k \<noteq> vault_authority (demo_rt 2000)" and "1000000 \<le> balance t k m_usdc" and "mints t = mints demo_tok"
  shows "execute_token_operations (demo_rt 2000)
     (exec_params (demo_rt 2000) k k_boss m_usdc m_onyc 990000 10000 989901009 0)
     \<lparr>mint_authority = None, mint_supply = 5000000000, decimals = 6, transfer_fee = None\<rparr>
     \<lparr>mint_authority = Some (demo_find [Seed ''mint_authority'']), mint_supply = 0, decimals = 9, transfer_fee = None\<rparr> t =
   Inr (credit m_onyc k 989901009 (set_supply m_onyc (\<lambda>s. s + 989901009) (credit m_usdc k_boss 1000000 (debit m_usdc k 1000000 t))))"
  using assms(3,4)
  by (simp add: execute_token_operations_def has_transfer_fee_def pay_token_in_def pay_token_out_def
      program_controls_mint_def mint_authority_pda_def exec_params_def checked_add_def transfer_tokens_def
      demo_transfer_def mint_tokens_def demo_mint_to_def)

definition demo_after :: tokens where
  "demo_after = credit m_onyc k_user 989901009 (set_supply m_onyc (\<lambda>s. s + 989901009)
     (credit m_usdc k_boss 1000000 (debit m_usdc k_user 1000000 demo_tok)))"

lemma demo_keys_no_pda [simp]: "k_user \<noteq> demo_find (Seed x # y)" "k_boss \<noteq> demo_find (Seed x # y)"
  "demo_find (Seed x # y) \<noteq> k_user" "demo_find (Seed x # y) \<noteq> k_boss"
  by (simp_all add: key_defs demo_find_def)

lemma demo_keys_derived: "k_user \<noteq> demo_find ss" "k_boss \<noteq> demo_find ss"
proof -
  have "k_user \<noteq> demo_find ss \<and> k_boss \<noteq> demo_find ss"
  proof (cases ss)
    case (Cons x xs)
    then show ?thesis by (cases x rule: seed_code.cases) (simp_all add: key_defs demo_find_def)
  qed (simp add: key_defs demo_find_def)
  then show "k_user \<noteq> demo_find ss" "k_boss \<noteq> demo_find ss" by blast+
qed

lemma demo_distinct_addresses: "distinct_addresses demo_find"
  unfolding distinct_addresses_def by (rule inj_on_subset [OF demo_find_inj]) simp

lemma demo_take_runs:
  "take_offer (demo_rt 2000) demo_txc k_user k_boss m_usdc m_onyc 1000000 None demo_chain3 =
     Inr (emit (OfferTakenEvent demo_pda 990000 989901009 10000 k_user) (put_tok demo_after demo_chain3))"
proof -
  have e: "execute_token_operations (demo_rt 2000)
     (exec_params (demo_rt 2000) k_user k_boss m_usdc m_onyc 990000 10000 989901009 0)
     \<lparr>mint_authority = None, mint_supply = 5000000000, decimals = 6, transfer_fee = None\<rparr>
     \<lparr>mint_authority = Some (demo_find [Seed ''mint_authority'']), mint_supply = 0, decimals = 9, transfer_fee = None\<rparr>
     demo_tok = Inr demo_after"
    unfolding demo_after_def by (rule demo_execute) (simp_all add: vault_authority_def)
  show ?thesis
    unfolding take_offer_def guard_defs demo_offer_pda demo_chain3_sel exec_params_def [symmetric]
    by (simp only: guard_simps demo_state_sel fun_upd_same demo_offer_sel demo_tok_sel verify_offer_approval_def
        if_False demo_process demo_result_def OfferProcessResult.simps e)
qed


lemma demo_take_permissionless_runs:
  "\<exists>c1. take_offer_permissionless (demo_rt 2000) demo_txc k_user k_boss (vault_authority (demo_rt 2000))
     (permissionless_authority (demo_rt 2000)) (mint_authority_pda (demo_rt 2000)) m_usdc m_onyc 1000000 None demo_chain3 = Inr c1"
proof -
  let ?pa = "permissionless_authority (demo_rt 2000)"
  let ?t1 = "credit m_usdc ?pa 1000000 (debit m_usdc k_user 1000000 demo_tok)"
  let ?t2 = "credit m_onyc ?pa 989901009 (set_supply m_onyc (\<lambda>s. s + 989901009) (credit m_usdc k_boss 1000000 (debit m_usdc ?pa 1000000 ?t1)))"
  have pa: "?pa \<noteq> k_boss" "?pa \<noteq> vault_authority (demo_rt 2000)" by (simp_all add: permissionless_authority_def vault_authority_def)
  have e: "execute_token_operations (demo_rt 2000)
     (exec_params (demo_rt 2000) ?pa k_boss m_usdc m_onyc 990000 10000 989901009 0)
     \<lparr>mint_authority = None, mint_supply = 5000000000, decimals = 6, transfer_fee = None\<rparr>
     \<lparr>mint_authority = Some (demo_find [Seed ''mint_authority'']), mint_supply = 0, decimals = 9, transfer_fee = None\<rparr> ?t1 = Inr ?t2"
    by (rule demo_execute [OF pa]) (simp_all add: permissionless_authority_def ext)
  have t1: "transfer_tokens (demo_rt 2000) m_usdc k_user ?pa k_user 1000000 demo_tok = Inr ?t1"
    by (simp add: transfer_tokens_def demo_transfer_def)
  have t3: "transfer_tokens (demo_rt 2000) m_onyc ?pa k_user ?pa 989901009 ?t2 = Inr (credit m_onyc k_user 989901009 (debit m_onyc ?pa 989901009 ?t2))"
    by (simp add: transfer_tokens_def demo_transfer_def)
  show ?thesis
    unfolding take_offer_permissionless_def guard_defs demo_offer_pda demo_chain3_sel exec_params_def [symmetric]
    by (simp only: guard_simps demo_state_sel fun_upd_same demo_offer_sel demo_tok_sel verify_offer_approval_def
        if_False demo_process demo_result_def OfferProcessResult.simps e t1 t3) blast
qed

theorem purchases_settle_exactly_witness:
  "(\<exists>res. fair_terms 2000 1000000 (demo_offer (demo_vector # replicate 9 OfferVector_default))
      \<lparr>mint_authority = None, mint_supply = 5000000000, decimals = 6, transfer_fee = None\<rparr>
      \<lparr>mint_authority = Some (demo_find [Seed ''mint_authority'']), mint_supply = 0, decimals = 9, transfer_fee = None\<rparr> res) \<and>
   (\<exists>c1 net out fee t. take_offer_permissionless (demo_rt 2000) demo_txc k_user k_boss (vault_authority (demo_rt 2000))
     (permissionless_authority (demo_rt 2000)) (mint_authority_pda (demo_rt 2000)) m_usdc m_onyc 1000000 None demo_chain3 = Inr c1 \<and>
     c1 = emit (OfferTakenPermissionlessEvent demo_pda net out fee k_user) (put_tok t demo_chain3))"
proof -
  have x: "1000000 < (2 :: nat) ^ 64" and d: "distinct_addresses (find_program_address (demo_rt 2000))"
    by (simp_all add: demo_distinct_addresses)
  have k: "k_user \<noteq> find_program_address (demo_rt 2000) ss" "k_boss \<noteq> find_program_address (demo_rt 2000) ss" for ss
    by (simp_all add: demo_keys_derived)
  note settles = purchases_settle_exactly [OF demo_token_program_ok d demo_reachable3 x k]
  have 1: "\<exists>s off mi mo res. state_acc demo_chain3 = Some s \<and> offers demo_chain3 (offer_pda (demo_rt 2000) m_usdc m_onyc) = Some off \<and>
    mints (tok demo_chain3) m_usdc = Some mi \<and> mints (tok demo_chain3) m_onyc = Some mo \<and>
    fair_terms (now (demo_rt 2000)) 1000000 off mi mo res"
    using settles [OF disjI1 [OF conjI [OF demo_take_runs refl]]] by blast
  obtain c1 where c1: "take_offer_permissionless (demo_rt 2000) demo_txc k_user k_boss (vault_authority (demo_rt 2000))
     (permissionless_authority (demo_rt 2000)) (mint_authority_pda (demo_rt 2000)) m_usdc m_onyc 1000000 None demo_chain3 = Inr c1"
    using demo_take_permissionless_runs by blast
  have 2: "\<exists>net out fee t. c1 = emit (OfferTakenPermissionlessEvent demo_pda net out fee k_user) (put_tok t demo_chain3)"
    using settles [OF disjI2 [OF conjI [OF c1 refl]]] unfolding demo_offer_pda by blast
  from 1 have "\<exists>res. fair_terms 2000 1000000 (demo_offer (demo_vector # replicate 9 OfferVector_default))
      \<lparr>mint_authority = None, mint_supply = 5000000000, decimals = 6, transfer_fee = None\<rparr>
      \<lparr>mint_authority = Some (demo_find [Seed ''mint_authority'']), mint_supply = 0, decimals = 9, transfer_fee = None\<rparr> res" by auto
  with c1 2 show ?thesis by blast
qed


end
