(* ===== verification/Chain_Approval_Props.thy ===== *)
theory Chain_Approval_Props
  imports Chain_Trade_Props
begin

text \<open>
  Approvals: the parser reads back what the layout of an Ed25519 instruction writes, and no purchase of
  an offer that needs approval succeeds without a message signed by an approver.
\<close>

section \<open>The layout of an Ed25519 instruction\<close>

definition u16_bytes :: "nat \<Rightarrow> 8 word list" where
  "u16_bytes n = [word_of_nat n, word_of_nat (n div 256)]"

text \<open>Count, padding, and offset and instruction index of signature, key and message; then key, signature, message.\<close>

definition ed25519_header :: "nat \<Rightarrow> 8 word list" where
  "ed25519_header len = [1, 0] @ u16_bytes 48 @ u16_bytes 65535 @ u16_bytes 16 @ u16_bytes 65535 @
     u16_bytes 112 @ u16_bytes len @ u16_bytes 65535"

definition ed25519_data :: "8 word list \<Rightarrow> 8 word list \<Rightarrow> 8 word list \<Rightarrow> 8 word list" where
  "ed25519_data key sig msg = ed25519_header (length msg) @ key @ sig @ msg"

lemma u16_round_trip: "n < 65536 \<Longrightarrow> unat (word_of_nat n :: 8 word) + 256 * unat (word_of_nat (n div 256) :: 8 word) = n"
  by (simp add: unat_of_nat)

lemma header_length [simp]: "length (ed25519_header n) = 16"
  by (simp add: ed25519_header_def u16_bytes_def)

lemma header_fields:
  assumes "n < 65536"
  shows "u16_at (ed25519_header n @ rest) 2 = 48" "u16_at (ed25519_header n @ rest) 4 = 65535"
    "u16_at (ed25519_header n @ rest) 6 = 16" "u16_at (ed25519_header n @ rest) 8 = 65535"
    "u16_at (ed25519_header n @ rest) 10 = 112" "u16_at (ed25519_header n @ rest) 12 = n"
    "u16_at (ed25519_header n @ rest) 14 = 65535" "(ed25519_header n @ rest) ! 0 = 1"
  using u16_round_trip [OF assms]
  by (simp_all add: u16_at_def ed25519_header_def u16_bytes_def)

text \<open>
  The parser of the program reads the key and the message back from an instruction in the layout of the
  Ed25519 program with one signature whose data is its own.
\<close>

lemma ed25519_round_trip:
  assumes "length key = 32" and "length sig = 64" and "length msg < 65536"
  shows "parse_ed25519_ix (ed25519_data key sig msg) = Some \<lparr>sig_count = 1, ed_pubkey = key, ed_message = msg\<rparr>"
proof -
  have key: "slice (ed25519_data key sig msg) 16 32 = key"
    using assms(1) by (simp add: slice_def ed25519_data_def)
  have msg: "slice (ed25519_data key sig msg) 112 (length msg) = msg"
    using assms(1,2) by (simp add: slice_def ed25519_data_def)
  have len: "length (ed25519_data key sig msg) = 112 + length msg"
    using assms(1,2) by (simp add: ed25519_data_def)
  note fields = header_fields [OF assms(3), of "key @ sig @ msg", folded ed25519_data_def]
  show ?thesis
    unfolding parse_ed25519_ix_def Let_def fields key msg len by simp
qed

lemma ed25519_round_trip_witness:
  "parse_ed25519_ix (ed25519_data (replicate 32 7) (replicate 64 9) [3, 1, 4]) =
     Some \<lparr>sig_count = 1, ed_pubkey = replicate 32 7, ed_message = [3, 1, 4]\<rparr>"
  by (rule ed25519_round_trip) simp_all

section \<open>Approvals are enforced\<close>

definition approved_by ::
  "runtime \<Rightarrow> tx_context \<Rightarrow> pubkey \<Rightarrow> pubkey \<Rightarrow> ApprovalMessage \<Rightarrow> bool" where
  "approved_by R T user a msg = (\<exists>cur ix parsed. msg_program_id msg = program_id R \<and> msg_user_pubkey msg = user \<and>
     now R \<le> expiry_unix msg \<and> current_index T = Some (Suc cur) \<and> instruction_at T cur = Some ix \<and>
     ix_program_id ix = ed25519_program_id T \<and> parse_ed25519_ix (ix_data ix) = Some parsed \<and>
     a \<noteq> PublicKey_default \<and> ed_pubkey parsed = to_bytes T a \<and> try_from_slice T (ed_message parsed) = Some msg)"

lemma verify_approval:
  assumes "verify_offer_approval R T off ap user a1 a2 = Inr u" and "needs_approval off"
  shows "\<exists>msg a. ap = Some msg \<and> a \<in> {a1, a2} \<and> approved_by R T user a msg"
proof -
  from assms obtain msg where msg: "ap = Some msg" "verify_approval_message_generic R T user a1 a2 msg = Inr u"
    by (auto simp: verify_offer_approval_def split: option.splits)
  from msg(2) obtain cur ix parsed where *: "msg_program_id msg = program_id R" "msg_user_pubkey msg = user"
    "now R \<le> expiry_unix msg" "current_index T = Some cur" "0 < cur" "instruction_at T (cur - 1) = Some ix"
    "ix_program_id ix = ed25519_program_id T" "parse_ed25519_ix (ix_data ix) = Some parsed"
    "(a1 \<noteq> PublicKey_default \<and> ed_pubkey parsed = to_bytes T a1) \<or> (a2 \<noteq> PublicKey_default \<and> ed_pubkey parsed = to_bytes T a2)"
    "try_from_slice T (ed_message parsed) = Some msg"
    by (auto simp: verify_approval_message_generic_def Let_def)
  from *(5) obtain n where "cur = Suc n" by (cases cur) auto
  with * have n: "current_index T = Some (Suc n)" "instruction_at T n = Some ix" by simp_all
  from *(9) have "approved_by R T user a1 msg \<or> approved_by R T user a2 msg"
    unfolding approved_by_def using *(1-3,7,8,10) n by blast
  with msg(1) show ?thesis by blast
qed

text \<open>
  C8: an offer that needs approval is only bought, directly or through the intermediary, with a message for
  this program and this taker that has not expired, whose bytes are the message of an Ed25519 instruction
  that runs right before, under the key of one of the two approvers on record.
\<close>

theorem approvals_are_enforced:
  assumes "offers c (offer_pda R tin tout) = Some off" and "needs_approval off" and "state_acc c = Some s"
    and "take_offer R T user b tin tout x ap c = Inr c' \<or>
      take_offer_permissionless R T user b va pa ma tin tout x ap c = Inr c'"
  shows "\<exists>msg a. ap = Some msg \<and> a \<in> {approver1 s, approver2 s} \<and> approved_by R T user a msg"
proof -
  have "verify_offer_approval R T off ap user (approver1 s) (approver2 s) = Inr ()"
    using assms(4)
  proof
    assume "take_offer R T user b tin tout x ap c = Inr c'"
    from take_offer_Inr [OF this] assms(1,3) show ?thesis by (metis option.inject)
  next
    assume "take_offer_permissionless R T user b va pa ma tin tout x ap c = Inr c'"
    from take_offer_permissionless_Inr [OF this] assms(1,3) show ?thesis by (metis option.inject)
  qed
  then show ?thesis using verify_approval assms(2) by blast
qed

text \<open>An approved purchase on the example chain.\<close>

definition demo_msg :: ApprovalMessage where
  "demo_msg = \<lparr>msg_program_id = PublicKey ''onre'', msg_user_pubkey = k_user, expiry_unix = 3000\<rparr>"

definition demo_signed :: tx_context where
  "demo_signed = \<lparr>current_index = Some 1,
     instruction_at = (\<lambda>_. Some \<lparr>ix_program_id = PublicKey ''ed25519'', ix_accounts = [],
        ix_data = ed25519_data (replicate 32 7) (replicate 64 9) [3, 1, 4]\<rparr>),
     ed25519_program_id = PublicKey ''ed25519'', to_bytes = (\<lambda>k. if k = k_admin then replicate 32 7 else []),
     try_from_slice = (\<lambda>m. if m = [3, 1, 4] then Some demo_msg else None)\<rparr>"

lemma demo_verify:
  "verify_approval_message_generic (demo_rt 2000) demo_signed k_user k_admin PublicKey_default demo_msg = Inr ()"
proof -
  have p: "parse_ed25519_ix (ed25519_data (replicate 32 7) (replicate 64 9) [3, 1, 4]) =
     Some \<lparr>sig_count = 1, ed_pubkey = replicate 32 7, ed_message = [3, 1, 4]\<rparr>"
    by (simp add: parse_ed25519_ix_def ed25519_data_def header_fields slice_def)
  show ?thesis by (simp add: verify_approval_message_generic_def demo_signed_def demo_msg_def p)
qed

definition demo_guarded :: chain where
  "demo_guarded = put_state (demo_state\<lparr>approver1 := k_admin\<rparr>)
     (put_offer demo_pda ((demo_offer (demo_vector # replicate 9 OfferVector_default))\<lparr>needs_approval_flag := 1\<rparr>) demo_chain3)"

lemma process_flags [simp]:
  "process_offer_core R (off\<lparr>needs_approval_flag := n\<rparr>) = process_offer_core R off"
  by (intro ext) (simp add: process_offer_core_def find_active_vector_at_def)

lemma demo_guarded_sel: "state_acc demo_guarded = Some (demo_state\<lparr>approver1 := k_admin\<rparr>)" "tok demo_guarded = demo_tok"
  "offers demo_guarded demo_pda = Some ((demo_offer (demo_vector # replicate 9 OfferVector_default))\<lparr>needs_approval_flag := 1\<rparr>)"
  by (simp_all add: demo_guarded_def)

lemma demo_approved_runs:
  "\<exists>c'. take_offer (demo_rt 2000) demo_signed k_user k_boss m_usdc m_onyc 1000000 (Some demo_msg) demo_guarded = Inr c'"
proof -
  let ?off = "(demo_offer (demo_vector # replicate 9 OfferVector_default))\<lparr>needs_approval_flag := 1\<rparr>"
  have e: "execute_token_operations (demo_rt 2000)
     (exec_params (demo_rt 2000) k_user k_boss m_usdc m_onyc 990000 10000 989901009 0)
     \<lparr>mint_authority = None, mint_supply = 5000000000, decimals = 6, transfer_fee = None\<rparr>
     \<lparr>mint_authority = Some (demo_find [Seed ''mint_authority'']), mint_supply = 0, decimals = 9, transfer_fee = None\<rparr>
     demo_tok = Inr demo_after"
    unfolding demo_after_def by (rule demo_execute) (simp_all add: vault_authority_def)
  have v: "verify_offer_approval (demo_rt 2000) demo_signed ?off (Some demo_msg) k_user k_admin PublicKey_default = Inr ()"
    by (simp add: verify_offer_approval_def needs_approval_def demo_verify)
  have s: "boss (demo_state\<lparr>approver1 := k_admin\<rparr>) = k_boss" "is_killed (demo_state\<lparr>approver1 := k_admin\<rparr>) = False"
    "approver1 (demo_state\<lparr>approver1 := k_admin\<rparr>) = k_admin" "approver2 (demo_state\<lparr>approver1 := k_admin\<rparr>) = PublicKey_default"
    "max_supply (demo_state\<lparr>approver1 := k_admin\<rparr>) = 0" "offer_token_in_mint ?off = m_usdc" "offer_token_out_mint ?off = m_onyc"
    by simp_all
  show ?thesis
    unfolding take_offer_def guard_defs demo_offer_pda demo_guarded_sel exec_params_def [symmetric]
    by (simp only: guard_simps s demo_tok_sel v process_flags demo_process demo_result_def OfferProcessResult.simps e) blast
qed

theorem approvals_are_enforced_witness:
  "\<exists>a. a \<in> {k_admin, PublicKey_default} \<and> approved_by (demo_rt 2000) demo_signed k_user a demo_msg"
proof -
  obtain c' where c': "take_offer (demo_rt 2000) demo_signed k_user k_boss m_usdc m_onyc 1000000 (Some demo_msg) demo_guarded = Inr c'"
    using demo_approved_runs by blast
  have o1: "offers demo_guarded (offer_pda (demo_rt 2000) m_usdc m_onyc) =
      Some ((demo_offer (demo_vector # replicate 9 OfferVector_default))\<lparr>needs_approval_flag := 1\<rparr>)"
    by (simp add: demo_guarded_sel)
  have o2: "needs_approval ((demo_offer (demo_vector # replicate 9 OfferVector_default))\<lparr>needs_approval_flag := 1\<rparr>)"
    by (simp add: needs_approval_def)
  show ?thesis
    using approvals_are_enforced [OF o1 o2 demo_guarded_sel(1) disjI1 [OF c']] by simp
qed

end
