(* ===== verification/Chain_Ledger.thy ===== *)
theory Chain_Ledger
  imports Chain_Trade_Props Chain_Redemption
begin

text \<open>
  The ledger of redemptions: what a redemption offer records as requested is the sum of its open requests,
  on every reachable chain, so that a fulfilment or a cancellation never underflows.
\<close>

section \<open>Open requests\<close>

definition request_at :: "(seed list \<Rightarrow> pubkey) \<Rightarrow> pubkey \<Rightarrow> nat \<Rightarrow> pubkey" where
  "request_at F ro n = F [Seed ''redemption_request'', KeySeed ro, U64Seed n]"

definition open_amount :: "RedemptionRequest option \<Rightarrow> nat" where
  "open_amount r = (case r of None \<Rightarrow> 0 | Some rr \<Rightarrow> amount rr)"

text \<open>The sum of the open requests with a number below the counter.\<close>

definition open_total :: "(seed list \<Rightarrow> pubkey) \<Rightarrow> (pubkey \<Rightarrow> RedemptionRequest option) \<Rightarrow> pubkey \<Rightarrow> nat \<Rightarrow> nat" where
  "open_total F reqs ro n = (\<Sum>i<n. open_amount (reqs (request_at F ro i)))"

definition ledger_ok :: "(seed list \<Rightarrow> pubkey) \<Rightarrow> chain \<Rightarrow> bool" where
  "ledger_ok F c = (
     (\<forall>a ro. redemption_offers c a = Some ro \<longrightarrow>
        requested_redemptions ro = open_total F (redemption_requests c) a (request_counter ro) \<and>
        ro_fee_basis_points ro \<le> MAX_ALLOWED_FEE_BPS \<and> request_counter ro < 2 ^ 64) \<and>
     (\<forall>k rr. redemption_requests c k = Some rr \<longrightarrow> k = request_at F (rr_offer rr) (request_id rr) \<and>
        (\<exists>ro. redemption_offers c (rr_offer rr) = Some ro \<and> request_id rr < request_counter ro)))"

lemma ledger_offer:
  "ledger_ok F c \<Longrightarrow> redemption_offers c a = Some ro \<Longrightarrow>
     requested_redemptions ro = open_total F (redemption_requests c) a (request_counter ro) \<and>
     ro_fee_basis_points ro \<le> MAX_ALLOWED_FEE_BPS \<and> request_counter ro < 2 ^ 64"
  unfolding ledger_ok_def by blast

lemma ledger_request:
  assumes "ledger_ok F c" and "redemption_requests c k = Some rr"
  obtains ro where "k = request_at F (rr_offer rr) (request_id rr)" and "redemption_offers c (rr_offer rr) = Some ro"
    and "request_id rr < request_counter ro"
  using assms unfolding ledger_ok_def by blast

lemma request_at_inj:
  "distinct_addresses F \<Longrightarrow> i < 2 ^ 64 \<Longrightarrow> j < 2 ^ 64 \<Longrightarrow> request_at F a i = request_at F b j \<longleftrightarrow> a = b \<and> i = j"
  unfolding request_at_def by (simp add: distinct_addressesD)

lemma request_pda_at: "find_program_address R = F \<Longrightarrow> redemption_request_pda R a i = request_at F a i"
  by (simp add: redemption_request_pda_def request_at_def)

lemma open_total_other:
  assumes "distinct_addresses F" and "a \<noteq> b" and "n < 2 ^ 64" and "j < 2 ^ 64"
  shows "open_total F (reqs(request_at F b j := r)) a n = open_total F reqs a n"
  unfolding open_total_def using assms by (intro sum.cong) (auto simp: request_at_inj)

lemma open_total_beyond:
  assumes "distinct_addresses F" and "n \<le> j" and "j < 2 ^ 64"
  shows "open_total F (reqs(request_at F a j := r)) a n = open_total F reqs a n"
  unfolding open_total_def using assms by (intro sum.cong) (auto simp: request_at_inj)

lemma open_total_create:
  assumes "distinct_addresses F" and "n < 2 ^ 64"
  shows "open_total F (reqs(request_at F a n \<mapsto> rr)) a (Suc n) = open_total F reqs a n + amount rr"
  using open_total_beyond [OF assms(1) order_refl assms(2), of reqs a "Some rr"]
  unfolding open_total_def by (simp add: open_amount_def)

lemma open_total_close:
  assumes "distinct_addresses F" and "j < n" and "n < 2 ^ 64" and "reqs (request_at F a j) = Some rr"
  shows "open_total F (reqs(request_at F a j := None)) a n = open_total F reqs a n - amount rr"
    and "amount rr \<le> open_total F reqs a n"
proof -
  have split: "open_total F r a n = open_amount (r (request_at F a j)) + (\<Sum>i\<in>{..<n} - {j}. open_amount (r (request_at F a i)))" for r
    unfolding open_total_def using assms(2) by (subst sum.remove [of _ j]) auto
  have "(\<Sum>i\<in>{..<n} - {j}. open_amount ((reqs(request_at F a j := None)) (request_at F a i))) =
      (\<Sum>i\<in>{..<n} - {j}. open_amount (reqs (request_at F a i)))"
    using assms(2,3) by (intro sum.cong) (auto simp: request_at_inj [OF assms(1)])
  then show "open_total F (reqs(request_at F a j := None)) a n = open_total F reqs a n - amount rr"
    using split [of "reqs(request_at F a j := None)"] split [of reqs] assms(4) by (simp add: open_amount_def)
  show "amount rr \<le> open_total F reqs a n"
    using split [of reqs] assms(4) by (simp add: open_amount_def)
qed

section \<open>The handlers on the ledger\<close>

text \<open>Closing a request and booking its amount keeps the ledger.\<close>

lemma ledger_close:
  assumes inj: "distinct_addresses F" and ok: "ledger_ok F c" and ro: "redemption_offers c a = Some ro"
    and rr: "redemption_requests c k = Some rr" "rr_offer rr = a"
    and ro': "requested_redemptions ro' = requested_redemptions ro - amount rr" "request_counter ro' = request_counter ro"
      "ro_fee_basis_points ro' = ro_fee_basis_points ro"
    and c': "redemption_offers c' = (redemption_offers c)(a \<mapsto> ro')"
      "redemption_requests c' = (redemption_requests c)(k := None)"
  shows "ledger_ok F c'" and "amount rr \<le> requested_redemptions ro"
proof -
  from ledger_request [OF ok rr(1)] obtain ro2 where k0: "k = request_at F (rr_offer rr) (request_id rr)"
    and ro2: "redemption_offers c (rr_offer rr) = Some ro2" "request_id rr < request_counter ro2" .
  from k0 rr(2) have k: "k = request_at F a (request_id rr)" by simp
  from ro2 rr(2) ro have id: "request_id rr < request_counter ro" by simp
  have req: "requested_redemptions ro = open_total F (redemption_requests c) a (request_counter ro)"
    and width: "request_counter ro < 2 ^ 64"
    using ledger_offer [OF ok ro] by simp_all
  note close = open_total_close [where reqs = "redemption_requests c", OF inj id width rr(1) [unfolded k]]
  have id64: "request_id rr < 2 ^ 64" using id width by simp
  show "amount rr \<le> requested_redemptions ro" using close(2) req by simp
  show "ledger_ok F c'"
    unfolding ledger_ok_def
  proof (intro conjI allI impI)
    fix b rb assume b: "redemption_offers c' b = Some rb"
    show "ro_fee_basis_points rb \<le> MAX_ALLOWED_FEE_BPS" "request_counter rb < 2 ^ 64"
      using b ok ro ro'(2,3) by (auto simp: c' ledger_ok_def split: if_splits)
    show "requested_redemptions rb = open_total F (redemption_requests c') b (request_counter rb)"
    proof (cases "b = a")
      case True
      with b close(1) req ro' show ?thesis by (simp add: c' k)
    next
      case False
      then have rb: "redemption_offers c b = Some rb" using b by (simp add: c')
      then show ?thesis using ledger_offer [OF ok rb] open_total_other [OF inj False _ id64] by (simp add: c' k)
    qed
  next
    fix j r assume "redemption_requests c' j = Some r"
    then have j: "redemption_requests c j = Some r" by (auto simp: c' split: if_splits)
    from ledger_request [OF ok j] obtain rb where at: "j = request_at F (rr_offer r) (request_id r)"
      and rb: "redemption_offers c (rr_offer r) = Some rb" "request_id r < request_counter rb" .
    from at show "j = request_at F (rr_offer r) (request_id r)" .
    from rb
    ro ro'(2) show "\<exists>ro. redemption_offers c' (rr_offer r) = Some ro \<and> request_id r < request_counter ro"
      by (cases "rr_offer r = a") (auto simp: c')
  qed
qed

lemma ledger_create:
  assumes inj: "distinct_addresses F" and ok: "ledger_ok F c" and ro: "redemption_offers c a = Some ro"
    and width: "Suc (request_counter ro) < 2 ^ 64"
    and c': "redemption_offers c' = (redemption_offers c)(a \<mapsto>
        ro\<lparr>requested_redemptions := requested_redemptions ro + n, request_counter := Suc (request_counter ro)\<rparr>)"
      "redemption_requests c' = (redemption_requests c)(request_at F a (request_counter ro) \<mapsto>
        \<lparr>rr_offer = a, request_id = request_counter ro, redeemer = u, amount = n\<rparr>)"
  shows "ledger_ok F c'"
  unfolding ledger_ok_def
proof (intro conjI allI impI)
  fix b rb assume b: "redemption_offers c' b = Some rb"
  show "ro_fee_basis_points rb \<le> MAX_ALLOWED_FEE_BPS" "request_counter rb < 2 ^ 64"
    using b ok ro width by (auto simp: c' ledger_ok_def split: if_splits)
  show "requested_redemptions rb = open_total F (redemption_requests c') b (request_counter rb)"
  proof (cases "b = a")
    case True
    have "requested_redemptions ro = open_total F (redemption_requests c) a (request_counter ro)"
      using ok ro by (simp add: ledger_ok_def)
    with True b show ?thesis using width by (auto simp: c' open_total_create [OF inj])
  next
    case False
    with b ok width show ?thesis by (simp add: c' open_total_other [OF inj] ledger_ok_def)
  qed
next
  fix j r assume j: "redemption_requests c' j = Some r"
  show "j = request_at F (rr_offer r) (request_id r)"
    using j ok by (cases "j = request_at F a (request_counter ro)") (auto simp: c' elim: ledger_request)
  show "\<exists>ro. redemption_offers c' (rr_offer r) = Some ro \<and> request_id r < request_counter ro"
  proof (cases "j = request_at F a (request_counter ro)")
    case True
    with j show ?thesis by (auto simp: c')
  next
    case False
    with j have "redemption_requests c j = Some r" by (simp add: c')
    from ledger_request [OF ok this] obtain rb where
      "redemption_offers c (rr_offer r) = Some rb" "request_id r < request_counter rb" .
    with ro show ?thesis by (cases "rr_offer r = a") (auto simp: c')
  qed
qed

lemma ledger_offer_write:
  assumes ok: "ledger_ok F c"
    and ro': "ro_fee_basis_points ro' \<le> MAX_ALLOWED_FEE_BPS"
      "case redemption_offers c a of
         Some ro \<Rightarrow> requested_redemptions ro' = requested_redemptions ro \<and> request_counter ro' = request_counter ro
       | None \<Rightarrow> requested_redemptions ro' = 0 \<and> request_counter ro' = 0"
    and c': "redemption_offers c' = (redemption_offers c)(a \<mapsto> ro')" "redemption_requests c' = redemption_requests c"
  shows "ledger_ok F c'"
proof -
  have "requested_redemptions ro' = open_total F (redemption_requests c) a (request_counter ro')"
    using ok ro'(2) by (auto simp: ledger_ok_def open_total_def split: option.splits)
  moreover have "\<exists>ro. redemption_offers c' (rr_offer r) = Some ro \<and> request_id r < request_counter ro"
    if "redemption_requests c k = Some r" for k r
  proof -
    from ledger_request [OF ok that] obtain rb where
      "redemption_offers c (rr_offer r) = Some rb" "request_id r < request_counter rb" .
    with ro'(2) show ?thesis by (cases "rr_offer r = a") (auto simp: c')
  qed
  moreover have "request_counter ro' < 2 ^ 64"
    using ok ro'(2) by (auto simp: ledger_ok_def split: option.splits)
  ultimately show ?thesis using ok ro'(1) unfolding ledger_ok_def c' by auto
qed


section \<open>The invariant\<close>

lemma ledger_cong:
  "redemption_offers c' = redemption_offers c \<Longrightarrow> redemption_requests c' = redemption_requests c \<Longrightarrow>
     ledger_ok F c \<Longrightarrow> ledger_ok F c'"
  by (simp add: ledger_ok_def)

lemma create_request_Inr:
  assumes "create_redemption_request R u a tin n c = Inr c'"
  obtains ro s where "redemption_offers c a = Some ro" "tin = ro_token_in_mint ro" "state_acc c = Some s" "\<not> is_killed s"
    "redemption_requests c (redemption_request_pda R a (request_counter ro)) = None"
    "transfer_tokens R tin u (redemption_vault_authority R) u n (tok c) = Inr (tok c')"
    "redemption_offers c' = (redemption_offers c)(a \<mapsto>
        ro\<lparr>requested_redemptions := requested_redemptions ro + n, request_counter := Suc (request_counter ro)\<rparr>)"
    "redemption_requests c' = (redemption_requests c)(redemption_request_pda R a (request_counter ro) \<mapsto>
        \<lparr>rr_offer = a, request_id = request_counter ro, redeemer = u, amount = n\<rparr>)"
    "state_acc c' = state_acc c" "offers c' = offers c" "Suc (request_counter ro) < 2 ^ 64"
  using assms by (auto simp: create_redemption_request_def Let_def)

lemma cancel_request_Inr:
  assumes "cancel_redemption_request R k a rk u ad tin c = Inr c'"
  obtains s ro rr where "state_acc c = Some s" "\<not> is_killed s" "redemption_offers c a = Some ro"
    "redemption_requests c rk = Some rr" "rr_offer rr = a" "k \<in> {boss s, redemption_admin s, redeemer rr}"
    "u = redeemer rr" "tin = ro_token_in_mint ro"
    "transfer_tokens R tin (redemption_vault_authority R) u (redemption_vault_authority R) (amount rr) (tok c) = Inr (tok c')"
    "redemption_offers c' = (redemption_offers c)(a \<mapsto> ro\<lparr>requested_redemptions := requested_redemptions ro - amount rr\<rparr>)"
    "redemption_requests c' = (redemption_requests c)(rk := None)"
    "state_acc c' = state_acc c" "offers c' = offers c"
  using assms by (auto simp: cancel_redemption_request_def Let_def)

lemma fulfill_request_Inr:
  assumes "fulfill_redemption_request R k b off_key a rk u tin tout c = Inr c'"
  obtains s off ro rr mi mo res where "state_acc c = Some s" "\<not> is_killed s" "k = redemption_admin s" "boss s = b"
    "offers c off_key = Some off" "redemption_offers c a = Some ro" "ro_offer ro = off_key"
    "redemption_requests c rk = Some rr" "rr_offer rr = a" "u = redeemer rr"
    "mints (tok c) tin = Some mi" "mints (tok c) tout = Some mo"
    "process_redemption_core R off (amount rr) mi mo (ro_fee_basis_points ro) = Inr res"
    "redemption_offers c' = (redemption_offers c)(a \<mapsto> ro\<lparr>executed_redemptions := executed_redemptions ro + amount rr,
        requested_redemptions := requested_redemptions ro - amount rr\<rparr>)"
    "redemption_requests c' = (redemption_requests c)(rk := None)"
  using assms by (auto simp: fulfill_redemption_request_def Let_def)

lemma ledger_step:
  assumes "distinct_addresses F" and "find_program_address (rt W) = F" and run: "execute W i c = Inr c'" and ok: "ledger_ok F c"
  shows "ledger_ok F c'"
proof (cases "writes_redemptions i")
  case False
  with redemptions_frame [OF run] ok show ?thesis by (blast intro: ledger_cong)
next
  case True
  then show ?thesis
  proof (cases rule: writes_redemptions.elims(2))
    case (1 k tin tout fee)
    let ?ro = "\<lparr>ro_offer = offer_pda (rt W) tout tin, ro_token_in_mint = tin, ro_token_out_mint = tout,
      executed_redemptions = 0, requested_redemptions = 0, ro_fee_basis_points = fee, request_counter = 0\<rparr>"
    from 1 run have "redemption_offers c (redemption_offer_pda (rt W) tin tout) = None" "fee \<le> MAX_ALLOWED_FEE_BPS"
      "redemption_offers c' = (redemption_offers c)(redemption_offer_pda (rt W) tin tout \<mapsto> ?ro)"
      "redemption_requests c' = redemption_requests c"
      by (auto simp: make_redemption_offer_def Let_def)
    then show ?thesis by (intro ledger_offer_write [OF ok, of ?ro "redemption_offer_pda (rt W) tin tout"]) simp_all
  next
    case (2 u a tin n)
    with run have "create_redemption_request (rt W) u a tin n c = Inr c'" by simp
    from create_request_Inr [OF this] show ?thesis
      using ledger_create [OF assms(1) ok] by (metis assms(2) request_pda_at)
  next
    case (3 k b off_key a rk u tin tout)
    with run have "fulfill_redemption_request (rt W) k b off_key a rk u tin tout c = Inr c'" by simp
    from fulfill_request_Inr [OF this] obtain ro rr where *: "redemption_offers c a = Some ro"
      "redemption_requests c rk = Some rr" "rr_offer rr = a"
      "redemption_offers c' = (redemption_offers c)(a \<mapsto> ro\<lparr>executed_redemptions := executed_redemptions ro + amount rr,
        requested_redemptions := requested_redemptions ro - amount rr\<rparr>)"
      "redemption_requests c' = (redemption_requests c)(rk := None)" .
    show ?thesis by (rule ledger_close(1) [OF assms(1) ok *(1-3) _ _ _ *(4,5)]) simp_all
  next
    case (4 k a rk u ad tin)
    with run have "cancel_redemption_request (rt W) k a rk u ad tin c = Inr c'" by simp
    from cancel_request_Inr [OF this] obtain ro rr where *: "redemption_offers c a = Some ro"
      "redemption_requests c rk = Some rr" "rr_offer rr = a"
      "redemption_offers c' = (redemption_offers c)(a \<mapsto> ro\<lparr>requested_redemptions := requested_redemptions ro - amount rr\<rparr>)"
      "redemption_requests c' = (redemption_requests c)(rk := None)" .
    show ?thesis by (rule ledger_close(1) [OF assms(1) ok *(1-3) _ _ _ *(4,5)]) simp_all
  next
    case (5 b a fee)
    with run obtain ro where "redemption_offers c a = Some ro" "fee \<le> MAX_ALLOWED_FEE_BPS"
      "redemption_offers c' = (redemption_offers c)(a \<mapsto> ro\<lparr>ro_fee_basis_points := fee\<rparr>)"
      "redemption_requests c' = redemption_requests c"
      by (auto simp: update_redemption_offer_fee_def has_one_boss_def)
    then show ?thesis by (intro ledger_offer_write [OF ok, of "ro\<lparr>ro_fee_basis_points := fee\<rparr>" a]) simp_all
  qed
qed

lemma ledger_reachable:
  assumes "reachable F c" and "distinct_addresses F" shows "ledger_ok F c"
  using assms
proof (induction rule: reachable.induct)
  case (Start t l)
  then show ?case by (simp add: empty_chain_def ledger_ok_def)
next
  case (Step c lbl c')
  from Step.hyps(2) show ?case
  proof (cases rule: chain_step.cases)
    case (Run W i)
    with Step ledger_step show ?thesis by blast
  next
    case (Outside t l)
    with Step show ?thesis by (auto intro: ledger_cong)
  qed
qed

end
