(* ===== verification/Chain_Ledger_Props.thy ===== *)
theory Chain_Ledger_Props
  imports Chain_Ledger
begin

text \<open>
  Redemptions: the booked requests, a cancellation as the inverse of a request, and a purchase followed
  by a redemption.
\<close>

section \<open>An example chain with a request\<close>

definition demo_ro_key :: pubkey where
  "demo_ro_key = demo_find [Seed ''redemption_offer'', KeySeed m_onyc, KeySeed m_usdc]"

definition demo_request_key :: pubkey where
  "demo_request_key = demo_find [Seed ''redemption_request'', KeySeed demo_ro_key, U64Seed 0]"

lemma demo_ro_pda [simp]: "redemption_offer_pda (demo_rt t) m_onyc m_usdc = demo_ro_key"
  "redemption_request_pda (demo_rt t) demo_ro_key 0 = demo_request_key"
  by (simp_all add: redemption_offer_pda_def demo_ro_key_def redemption_request_pda_def demo_request_key_def)

definition demo_ro :: RedemptionOffer where
  "demo_ro = \<lparr>ro_offer = demo_pda, ro_token_in_mint = m_onyc, ro_token_out_mint = m_usdc, executed_redemptions = 0,
     requested_redemptions = 0, ro_fee_basis_points = 50, request_counter = 0\<rparr>"

definition demo_chain4 :: chain where
  "demo_chain4 = emit (RedemptionOfferCreatedEvent demo_ro_key demo_pda m_onyc m_usdc 50)
     (put_redemption_offer demo_ro_key demo_ro (demo_chain3\<lparr>tok := demo_after, lamports := \<lambda>_. 0\<rparr>))"

lemma demo_after_mints: "mints demo_after m_usdc = mints demo_tok m_usdc"
  "mints demo_after m_onyc = Some \<lparr>mint_authority = Some (demo_find [Seed ''mint_authority'']), mint_supply = 989901009,
     decimals = 9, transfer_fee = None\<rparr>"
  by (simp_all add: demo_after_def)

lemma demo_make_redemption_runs:
  "make_redemption_offer (demo_rt t) k_boss m_onyc m_usdc 50 (demo_chain3\<lparr>tok := demo_after, lamports := \<lambda>_. 0\<rparr>) = Inr demo_chain4"
  unfolding make_redemption_offer_def guard_defs
  by (simp add: demo_after_mints MAX_ALLOWED_FEE_BPS_def demo_chain4_def demo_ro_def demo_tok_def)

lemma demo_reachable4: "reachable demo_find demo_chain4"
  by (rule reachable.Step [OF reachable.Step [OF demo_reachable3 chain_step.Outside [where t = demo_after and l = "\<lambda>_. 0"]] chain_step.Run
        [of "demo_world 0" _ "MakeRedemptionOffer k_boss m_onyc m_usdc 50"]]) (simp_all add: demo_make_redemption_runs)

lemma demo_chain4_sel: "state_acc demo_chain4 = Some demo_state" "tok demo_chain4 = demo_after"
  "redemption_offers demo_chain4 = [demo_ro_key \<mapsto> demo_ro]" "redemption_requests demo_chain4 = (\<lambda>_. None)"
  by (simp_all add: demo_chain4_def)

lemma demo_ro_sel: "ro_token_in_mint demo_ro = m_onyc" "ro_token_out_mint demo_ro = m_usdc" "request_counter demo_ro = 0"
  "ro_offer demo_ro = demo_pda" "requested_redemptions demo_ro = 0"
  by (simp_all add: demo_ro_def)

lemma demo_pda_not_default: "demo_pda \<noteq> PublicKey_default"
  by (simp add: demo_pda_def)

lemma demo_create_runs: "\<exists>c1. create_redemption_request (demo_rt t) k_user demo_ro_key m_onyc 500 demo_chain4 = Inr c1"
proof -
  have t: "transfer_tokens (demo_rt t) m_onyc k_user (redemption_vault_authority (demo_rt t)) k_user 500 demo_after =
      Inr (credit m_onyc (redemption_vault_authority (demo_rt t)) 500 (debit m_onyc k_user 500 demo_after))"
    by (simp add: transfer_tokens_def demo_transfer_def demo_after_def)
  show ?thesis
    unfolding create_redemption_request_def guard_defs with_redemption_offer_def demo_chain4_sel
    by (simp add: demo_ro_sel t demo_after_mints demo_pda_not_default checked_add_def)
qed

section \<open>The booked requests\<close>

text \<open>
  C6: on every reachable chain a redemption offer records as requested exactly the sum of the amounts of its
  open requests; every request lies at the address of its offer and number, its number has been given
  out by its offer, and its amount is covered by what the offer records, so fulfilling or cancelling it
  never underflows. The addresses that the program derives from different seeds are different.
\<close>

theorem requests_are_booked:
  assumes "reachable F c" and "distinct_addresses F"
  shows "(\<forall>a ro. redemption_offers c a = Some ro \<longrightarrow> ro_fee_basis_points ro \<le> MAX_ALLOWED_FEE_BPS \<and>
      requested_redemptions ro =
        (\<Sum>i<request_counter ro. case redemption_requests c (F [Seed ''redemption_request'', KeySeed a, U64Seed i]) of
            None \<Rightarrow> 0 | Some rr \<Rightarrow> amount rr)) \<and>
    (\<forall>k rr. redemption_requests c k = Some rr \<longrightarrow>
      k = F [Seed ''redemption_request'', KeySeed (rr_offer rr), U64Seed (request_id rr)] \<and>
      (\<exists>ro. redemption_offers c (rr_offer rr) = Some ro \<and> request_id rr < request_counter ro \<and>
        amount rr \<le> requested_redemptions ro))"
proof -
  note ok = ledger_reachable [OF assms]
  have "\<exists>ro. redemption_offers c (rr_offer rr) = Some ro \<and> request_id rr < request_counter ro \<and>
        amount rr \<le> requested_redemptions ro \<and> k = request_at F (rr_offer rr) (request_id rr)"
    if k: "redemption_requests c k = Some rr" for k rr
  proof -
    from ledger_request [OF ok k] obtain ro where ro: "k = request_at F (rr_offer rr) (request_id rr)"
      "redemption_offers c (rr_offer rr) = Some ro" "request_id rr < request_counter ro" .
    with open_total_close(2) [OF assms(2) ro(3), of "redemption_requests c" "rr_offer rr" rr] k ledger_offer [OF ok ro(2)]
    show ?thesis by auto
  qed
  then show ?thesis
    using ledger_offer [OF ok] unfolding open_total_def open_amount_def request_at_def by blast
qed

theorem requests_are_booked_witness:
  "\<exists>c1 ro. create_redemption_request (demo_rt 5) k_user demo_ro_key m_onyc 500 demo_chain4 = Inr c1 \<and>
     redemption_offers c1 demo_ro_key = Some ro \<and> requested_redemptions ro =
        (\<Sum>i<1. case redemption_requests c1 (demo_find [Seed ''redemption_request'', KeySeed demo_ro_key, U64Seed i]) of
            None \<Rightarrow> 0 | Some rr \<Rightarrow> amount rr)"
proof -
  obtain c1 where c1: "create_redemption_request (demo_rt 5) k_user demo_ro_key m_onyc 500 demo_chain4 = Inr c1"
    using demo_create_runs by blast
  have "reachable demo_find c1"
    by (rule reachable.Step [OF demo_reachable4 chain_step.Run
        [of "demo_world 5" _ "CreateRedemptionRequest k_user demo_ro_key m_onyc 500"]]) (simp_all add: c1)
  note booked = conjunct1 [OF requests_are_booked [OF this demo_distinct_addresses]]
  from create_request_Inr [OF c1] obtain ro where ro: "redemption_offers demo_chain4 demo_ro_key = Some ro"
    "redemption_offers c1 = (redemption_offers demo_chain4)(demo_ro_key \<mapsto>
        ro\<lparr>requested_redemptions := requested_redemptions ro + 500, request_counter := Suc (request_counter ro)\<rparr>)" .
  then have at: "redemption_offers c1 demo_ro_key = Some (demo_ro\<lparr>requested_redemptions := 500, request_counter := 1\<rparr>)"
    by (simp add: demo_chain4_sel demo_ro_sel)
  from booked [rule_format, OF this] have "requested_redemptions (demo_ro\<lparr>requested_redemptions := 500, request_counter := 1\<rparr>) =
        (\<Sum>i<1. case redemption_requests c1 (demo_find [Seed ''redemption_request'', KeySeed demo_ro_key, U64Seed i]) of
            None \<Rightarrow> 0 | Some rr \<Rightarrow> amount rr)" by simp
  with c1 at show ?thesis by blast
qed

section \<open>Cancelling a request\<close>

text \<open>A request stays as it was booked until it is closed, and its offer and number are never used again.\<close>

definition on_record :: "(seed list \<Rightarrow> pubkey) \<Rightarrow> pubkey \<Rightarrow> RedemptionRequest \<Rightarrow> chain \<Rightarrow> bool" where
  "on_record F tin rr c \<longleftrightarrow>
     redemption_requests c (request_at F (rr_offer rr) (request_id rr)) \<in> {None, Some rr} \<and>
     (\<exists>ro. redemption_offers c (rr_offer rr) = Some ro \<and> request_id rr < request_counter ro \<and> ro_token_in_mint ro = tin)"

lemma on_record_keep:
  assumes "on_record F tin rr c" and "redemption_requests c' = redemption_requests c \<or> redemption_requests c' = (redemption_requests c)(k := None)"
    and "redemption_offers c' = (redemption_offers c)(a \<mapsto> ro')"
    and "\<And>ro. redemption_offers c a = Some ro \<Longrightarrow> request_counter ro \<le> request_counter ro' \<and> ro_token_in_mint ro' = ro_token_in_mint ro"
  shows "on_record F tin rr c'"
proof -
  from assms(1) obtain ro where ro: "redemption_offers c (rr_offer rr) = Some ro" "request_id rr < request_counter ro"
    "ro_token_in_mint ro = tin" unfolding on_record_def by blast
  have "\<exists>ro. redemption_offers c' (rr_offer rr) = Some ro \<and> request_id rr < request_counter ro \<and> ro_token_in_mint ro = tin"
    using ro assms(3,4) by (cases "a = rr_offer rr") fastforce+
  moreover have "redemption_requests c' (request_at F (rr_offer rr) (request_id rr)) \<in> {None, Some rr}"
    using assms(1,2) by (auto simp: on_record_def split: if_splits)
  ultimately show ?thesis unfolding on_record_def by blast
qed

lemma on_record_step:
  assumes inj: "distinct_addresses F" and F: "find_program_address (rt W) = F" and run: "execute W i c = Inr c'"
    and rec: "on_record F tin rr c" and id: "request_id rr < 2 ^ 64"
  shows "on_record F tin rr c'"
proof (cases "writes_redemptions i")
  case False
  with redemptions_frame [OF run] rec show ?thesis by (simp add: on_record_def)
next
  case True
  then show ?thesis
  proof (cases rule: writes_redemptions.elims(2))
    case (1 k tin' tout fee)
    with run show ?thesis
      by (auto simp: make_redemption_offer_def Let_def intro!: on_record_keep [OF rec])
  next
    case (2 u a tin' n)
    with run have r: "create_redemption_request (rt W) u a tin' n c = Inr c'" by simp
    obtain ro where ro: "redemption_offers c a = Some ro" "Suc (request_counter ro) < 2 ^ 64"
      "redemption_offers c' = (redemption_offers c)(a \<mapsto>
        ro\<lparr>requested_redemptions := requested_redemptions ro + n, request_counter := Suc (request_counter ro)\<rparr>)"
      "redemption_requests c' = (redemption_requests c)(request_at F a (request_counter ro) \<mapsto>
        \<lparr>rr_offer = a, request_id = request_counter ro, redeemer = u, amount = n\<rparr>)"
      by (rule create_request_Inr [OF r]) (use request_pda_at [OF F] that in metis)
    from rec obtain ro0 where ro0: "redemption_offers c (rr_offer rr) = Some ro0" "request_id rr < request_counter ro0"
      "ro_token_in_mint ro0 = tin" unfolding on_record_def by blast
    have "request_at F a (request_counter ro) \<noteq> request_at F (rr_offer rr) (request_id rr)"
      using request_at_inj [OF inj _ id, of "request_counter ro" a "rr_offer rr"] ro(1,2) ro0 by auto
    moreover have "\<exists>ro. redemption_offers c' (rr_offer rr) = Some ro \<and> request_id rr < request_counter ro \<and> ro_token_in_mint ro = tin"
      using ro0 ro(1,3) by (cases "a = rr_offer rr") auto
    ultimately show ?thesis using rec by (simp add: on_record_def ro(4))
  next
    case (3 k b off_key a rk u tin' tout)
    with run have r: "fulfill_redemption_request (rt W) k b off_key a rk u tin' tout c = Inr c'" by simp
    show ?thesis by (rule fulfill_request_Inr [OF r]) (rule on_record_keep [OF rec], auto)
  next
    case (4 k a rk u ad tin')
    with run have r: "cancel_redemption_request (rt W) k a rk u ad tin' c = Inr c'" by simp
    show ?thesis by (rule cancel_request_Inr [OF r]) (rule on_record_keep [OF rec], auto)
  next
    case (5 b a fee)
    with run show ?thesis
      by (auto simp: update_redemption_offer_fee_def has_one_boss_def intro!: on_record_keep [OF rec])
  qed
qed

lemma on_record_run:
  "run F c ls c' \<Longrightarrow> distinct_addresses F \<Longrightarrow> request_id rr < 2 ^ 64 \<Longrightarrow> on_record F tin rr c \<Longrightarrow> on_record F tin rr c'"
proof (induction rule: run.induct)
  case (Continue c ls c' lbl c'')
  from Continue.hyps(2) show ?case
  proof (cases rule: chain_step.cases)
    case (Run W i)
    from on_record_step [OF Continue.prems(1) Run(2,3) Continue.IH [OF Continue.prems] Continue.prems(2)] show ?thesis .
  next
    case (Outside t l)
    with Continue.IH [OF Continue.prems] show ?thesis by (simp add: on_record_def)
  qed
qed

text \<open>
  C33: a cancellation is the inverse of its request, whatever runs in between. A request moves the amount from the
  redeemer to the vault and books it under a free number; its cancellation moves exactly this amount back to the same
  redeemer, takes exactly it off the requested redemptions and closes exactly this request, signed by the boss, the
  redemption admin or the redeemer. So a request that is cancelled right away leaves no trace but the next number. The mint has
  no transfer fee at the two times, and the redeemer is not the vault itself.
\<close>

theorem cancelling_undoes_a_request:
  assumes "token_program_ok R" and "token_program_ok R'" and "find_program_address R = F" and "find_program_address R' = F"
    and "distinct_addresses F" and "u \<noteq> redemption_vault_authority R"
    and create: "create_redemption_request R u a tin n c = Inr c1" and ro: "redemption_offers c a = Some ro"
    and between: "run F c1 ls c2"
    and cancel: "cancel_redemption_request R' k a (redemption_request_pda R a (request_counter ro)) u' ad tin' c2 = Inr c3"
    and plain: "plain_mint (tok c) tin" "plain_mint (tok c2) tin"
  shows "u' = u \<and> tin' = tin \<and> n \<le> balance (tok c) u tin \<and> n \<le> balance (tok c2) (redemption_vault_authority R) tin \<and>
    tok c1 = credit tin (redemption_vault_authority R) n (debit tin u n (tok c)) \<and>
    tok c3 = credit tin u n (debit tin (redemption_vault_authority R) n (tok c2)) \<and>
    redemption_requests c (redemption_request_pda R a (request_counter ro)) = None \<and>
    redemption_requests c3 = (redemption_requests c2)(redemption_request_pda R a (request_counter ro) := None) \<and>
    (\<exists>ro2. redemption_offers c2 a = Some ro2 \<and> n \<le> requested_redemptions ro2 \<and>
       redemption_offers c3 = (redemption_offers c2)(a \<mapsto> ro2\<lparr>requested_redemptions := requested_redemptions ro2 - n\<rparr>)) \<and>
    (\<exists>s. state_acc c2 = Some s \<and> k \<in> {boss s, redemption_admin s, u}) \<and>
    (c2 = c1 \<longrightarrow> tok c3 = tok c \<and> redemption_requests c3 = redemption_requests c \<and>
       redemption_offers c3 = (redemption_offers c)(a \<mapsto> ro\<lparr>request_counter := Suc (request_counter ro)\<rparr>))"
proof -
  let ?key = "redemption_request_pda R a (request_counter ro)"
  let ?va = "redemption_vault_authority R"
  let ?rr = "\<lparr>rr_offer = a, request_id = request_counter ro, redeemer = u, amount = n\<rparr>"
  have va: "redemption_vault_authority R' = ?va" by (simp add: redemption_vault_authority_def assms(3,4))
  have key: "?key = request_at F a (request_counter ro)" by (rule request_pda_at [OF assms(3)])
  have 1: "redemption_requests c ?key = None" "transfer_tokens R tin u ?va u n (tok c) = Inr (tok c1)"
    "redemption_offers c1 = (redemption_offers c)(a \<mapsto>
        ro\<lparr>requested_redemptions := requested_redemptions ro + n, request_counter := Suc (request_counter ro)\<rparr>)"
    "redemption_requests c1 = (redemption_requests c)(?key \<mapsto> ?rr)" "tin = ro_token_in_mint ro" "Suc (request_counter ro) < 2 ^ 64"
    by (rule create_request_Inr [OF create]; use ro in simp)+
  have "on_record F tin ?rr c1" by (simp add: on_record_def 1(3-5) key)
  from on_record_run [OF between assms(5) _ this] 1(6)
  have rec: "redemption_requests c2 ?key \<in> {None, Some ?rr}"
    "\<exists>ro2. redemption_offers c2 a = Some ro2 \<and> ro_token_in_mint ro2 = tin"
    by (auto simp: on_record_def key)
  from cancel_request_Inr [OF cancel] obtain s ro2 rr where 2: "state_acc c2 = Some s" "redemption_offers c2 a = Some ro2"
    "redemption_requests c2 ?key = Some rr" "k \<in> {boss s, redemption_admin s, redeemer rr}" "u' = redeemer rr"
    "tin' = ro_token_in_mint ro2" "transfer_tokens R' tin' ?va u' ?va (amount rr) (tok c2) = Inr (tok c3)"
    "redemption_offers c3 = (redemption_offers c2)(a \<mapsto> ro2\<lparr>requested_redemptions := requested_redemptions ro2 - amount rr\<rparr>)"
    "redemption_requests c3 = (redemption_requests c2)(?key := None)" unfolding va by metis
  have "amount rr \<le> requested_redemptions ro2" using cancel 2(2,3) by (auto simp: cancel_redemption_request_def Let_def)
  moreover from rec 2(2,3) have rr: "rr = ?rr" and tin: "tin' = tin" by (auto simp: 2(6))
  moreover from transfer_ok [OF assms(1) plain(1) 1(2)] have t1: "n \<le> balance (tok c) u tin"
    "tok c1 = credit tin ?va n (debit tin u n (tok c))" by auto
  moreover from transfer_ok [OF assms(2) plain(2)] 2(7) rr tin 2(5)
  have t3: "n \<le> balance (tok c2) ?va tin" "tok c3 = credit tin u n (debit tin ?va n (tok c2))" by force+
  moreover have "tok c3 = tok c" if "c2 = c1"
    unfolding t3(2) that t1(2) using t1(1) assms(6) by (intro tokens_eqI ext) auto
  moreover have "redemption_requests c3 = redemption_requests c" if "c2 = c1" using 1(1) by (auto simp: 2(9) that 1(4))
  moreover have "redemption_offers c3 = (redemption_offers c)(a \<mapsto> ro\<lparr>request_counter := Suc (request_counter ro)\<rparr>)"
    if "c2 = c1" using 2(2) rr by (auto simp: 2(8) that 1(3))
  ultimately show ?thesis using 1(1) 2 by auto
qed

theorem cancelling_undoes_a_request_witness:
  "\<exists>c1 c2. create_redemption_request (demo_rt 5) k_user demo_ro_key m_onyc 500 demo_chain4 = Inr c1 \<and>
     cancel_redemption_request (demo_rt 5) k_user demo_ro_key demo_request_key k_user PublicKey_default m_onyc c1 = Inr c2 \<and>
     tok c2 = demo_after"
proof -
  let ?va = "redemption_vault_authority (demo_rt 5)"
  have va_user: "k_user \<noteq> ?va" by (simp add: redemption_vault_authority_def)
  obtain c1 where c1: "create_redemption_request (demo_rt 5) k_user demo_ro_key m_onyc 500 demo_chain4 = Inr c1"
    using demo_create_runs by blast
  have ro: "redemption_offers demo_chain4 demo_ro_key = Some demo_ro" by (simp add: demo_chain4_sel)
  from create_request_Inr [OF c1] ro have 1:
    "transfer_tokens (demo_rt 5) m_onyc k_user ?va k_user 500 demo_after = Inr (tok c1)"
    "redemption_offers c1 = (redemption_offers demo_chain4)(demo_ro_key \<mapsto>
        demo_ro\<lparr>requested_redemptions := requested_redemptions demo_ro + 500, request_counter := Suc (request_counter demo_ro)\<rparr>)"
    "redemption_requests c1 = (redemption_requests demo_chain4)(redemption_request_pda (demo_rt 5) demo_ro_key (request_counter demo_ro) \<mapsto>
        \<lparr>rr_offer = demo_ro_key, request_id = request_counter demo_ro, redeemer = k_user, amount = 500\<rparr>)"
    "state_acc c1 = state_acc demo_chain4"
    by (metis option.inject demo_chain4_sel(2))+
  have t1: "tok c1 = credit m_onyc ?va 500 (debit m_onyc k_user 500 demo_after)"
    using 1(1) by (simp add: transfer_tokens_def demo_transfer_def demo_after_def)
  have t2: "transfer_tokens (demo_rt 5) m_onyc ?va k_user ?va 500 (tok c1) = Inr (credit m_onyc k_user 500 (debit m_onyc ?va 500 (tok c1)))"
    using va_user by (simp add: transfer_tokens_def demo_transfer_def t1)
  have m: "mints (tok c1) m_onyc \<noteq> None" by (simp add: t1 demo_after_mints)
  have plain: "plain_mint (tok demo_chain4) m_onyc" by (simp add: demo_chain4_sel plain_mint_def demo_after_mints)
  obtain c2 where c2: "cancel_redemption_request (demo_rt 5) k_user demo_ro_key demo_request_key k_user PublicKey_default m_onyc c1 = Inr c2"
    using m t2
    by (auto simp: cancel_redemption_request_def guard_defs with_redemption_offer_def with_request_def
        1(2-4) demo_ro_sel demo_chain4_sel checked_sub_def)
  then have c2': "cancel_redemption_request (demo_rt 5) k_user demo_ro_key
      (redemption_request_pda (demo_rt 5) demo_ro_key (request_counter demo_ro)) k_user PublicKey_default m_onyc c1 = Inr c2"
    by (simp only: demo_ro_sel demo_ro_pda)
  have plain1: "plain_mint (tok c1) m_onyc" using plain by (simp add: t1 demo_chain4_sel)
  from cancelling_undoes_a_request [OF demo_token_program_ok demo_token_program_ok _ _ demo_distinct_addresses va_user c1 ro
      run.Halt c2' plain plain1] c1 c2
  show ?thesis by (auto simp: demo_chain4_sel)
qed


section \<open>Buying and redeeming\<close>

lemma process_redemption_terms:
  assumes "process_redemption_core R off x mi mo fee = Inr res" and "x < 2 ^ 64" and "fee \<le> MAX_ALLOWED_FEE_BPS"
  obtains v where "find_active_vector_at off (now R) = Inr v"
    "calculate_step_price_at (apr v) (base_price v) (base_time v) (price_fix_duration v) (now R) = Inr (current_price res)"
    "net_amount res + fee_amount res = x"
    "out_amount res = net_amount res * current_price res * 10 ^ decimals mo div (10 ^ decimals mi * 10 ^ 9)"
proof -
  from assms(1) obtain v price f net where *: "find_active_vector_at off (now R) = Inr v"
    "calculate_step_price_at (apr v) (base_price v) (base_time v) (price_fix_duration v) (now R) = Inr price"
    "calculate_fees x fee = Inr (f, net)" "current_price res = price" "fee_amount res = f" "net_amount res = net"
    "out_amount res = net * price * 10 ^ decimals mo div (10 ^ decimals mi * 10 ^ 9)"
    by (auto simp: process_redemption_core_def calculate_current_step_price_def pow10_u128_def PRICE_DECIMALS_def
        Let_def split: prod.splits if_splits)
  moreover have "net + f = x"
    using calculate_fees_Inr(1) [OF *(3) assms(2)] assms(3) by (simp add: MAX_ALLOWED_FEE_BPS_def)
  ultimately show thesis using that by auto
qed

text \<open>
  C30: buying and redeeming what was bought at the same time never gains: at one price, whatever the decimals of
  the two mints and the fees, the redemption of the amount bought pays at most the net amount of the
  purchase, which is the amount paid less the fee.
\<close>

theorem redeeming_never_gains:
  assumes "process_offer_core R off x tin mi tout mo = Inr buy" and "x < 2 ^ 64" and "fee_basis_points off \<le> MAX_BASIS_POINTS"
    and "process_redemption_core R off (out_amount buy) mo mi fee = Inr back" and "fee \<le> MAX_ALLOWED_FEE_BPS"
  shows "current_price back = current_price buy \<and> out_amount back \<le> net_amount buy \<and>
    net_amount buy + fee_amount buy = x"
proof -
  have terms: "fair_terms (now R) x off mi mo buy" using assms(1-3) by (rule process_offer_core_terms)
  then obtain v where v: "find_active_vector_at off (now R) = Inr v"
    "calculate_step_price_at (apr v) (base_price v) (base_time v) (price_fix_duration v) (now R) = Inr (current_price buy)"
    and x: "net_amount buy + fee_amount buy = x"
    and worth: "out_amount buy * (current_price buy * 10 ^ decimals mi) \<le> net_amount buy * 10 ^ (decimals mo + 9)"
    by (auto simp: fair_terms_def)
  have "out_amount buy < 2 ^ 64"
    using assms(1) by (auto simp: process_offer_core_def calculate_token_out_amount_def Let_def split: prod.splits)
  from process_redemption_terms [OF assms(4) this assms(5)] v obtain
    price: "current_price back = current_price buy" and less: "net_amount back + fee_amount back = out_amount buy" and
    out: "out_amount back = net_amount back * current_price back * 10 ^ decimals mi div (10 ^ decimals mo * 10 ^ 9)"
    by (metis Inr_inject)
  have "net_amount back * current_price back * 10 ^ decimals mi \<le> out_amount buy * (current_price buy * 10 ^ decimals mi)"
    using less by (simp add: price mult.assoc)
  also have "\<dots> \<le> net_amount buy * (10 ^ decimals mo * 10 ^ 9)" using worth by (simp add: power_add)
  finally have "out_amount back \<le> net_amount buy * (10 ^ decimals mo * 10 ^ 9) div (10 ^ decimals mo * 10 ^ 9)"
    unfolding out by (rule div_le_mono)
  then show ?thesis using price x by simp
qed

lemma demo_redemption:
  "process_redemption_core (demo_rt 2000) (demo_offer (demo_vector # replicate 9 OfferVector_default)) 989901009
     \<lparr>mint_authority = Some (demo_find [Seed ''mint_authority'']), mint_supply = 0, decimals = 9, transfer_fee = None\<rparr>
     \<lparr>mint_authority = None, mint_supply = 5000000000, decimals = 6, transfer_fee = None\<rparr> 50 =
   Inr \<lparr>current_price = 1000100000, net_amount = 984951503, fee_amount = 4949506, out_amount = 985049\<rparr>"
proof -
  have v: "find_active_vector_at (demo_offer (demo_vector # replicate 9 OfferVector_default)) 2000 = Inr demo_vector"
    by (simp add: find_active_vector_at_def)
  have p: "calculate_step_price_at 36500 1000000000 1000 86400 2000 = Inr 1000100000"
    by (simp add: calculate_step_price_at_def calculate_vector_price_def checked_div_def checked_add_def
        checked_mul_def APR_SCALE_def SECONDS_IN_YEAR_def Let_def)
  have f: "calculate_fees 989901009 50 = Inr (4949506, 984951503)"
    by (simp add: calculate_fees_def checked_div_def checked_add_def checked_mul_def checked_sub_def
        MAX_BASIS_POINTS_def Let_def)
  show ?thesis
    by (simp only: process_redemption_core_def calculate_current_step_price_def demo_rt_sel v attempt.simps
        demo_vector_sel p f prod.case Mint.simps)
       (simp add: checked_mul_def pow10_u128_def PRICE_DECIMALS_def Let_def)
qed

theorem redeeming_never_gains_witness:
  "\<exists>back. process_redemption_core (demo_rt 2000) (demo_offer (demo_vector # replicate 9 OfferVector_default)) 989901009
     \<lparr>mint_authority = Some (demo_find [Seed ''mint_authority'']), mint_supply = 0, decimals = 9, transfer_fee = None\<rparr>
     \<lparr>mint_authority = None, mint_supply = 5000000000, decimals = 6, transfer_fee = None\<rparr> 50 = Inr back \<and>
     out_amount back \<le> 990000"
proof -
  have out: "out_amount demo_result = 989901009" "net_amount demo_result = 990000" by (simp_all add: demo_result_def)
  have x: "1000000 < (2 :: nat) ^ 64" by simp
  have fees: "fee_basis_points (demo_offer (demo_vector # replicate 9 OfferVector_default)) \<le> MAX_BASIS_POINTS"
    "50 \<le> MAX_ALLOWED_FEE_BPS"
    by (simp_all add: MAX_BASIS_POINTS_def MAX_ALLOWED_FEE_BPS_def)
  show ?thesis
    using demo_redemption redeeming_never_gains [OF demo_process x fees(1) demo_redemption [folded out(1)] fees(2)]
    by (auto simp: out(2))
qed

end
