(* ===== verification/Chain_Market_Props.thy ===== *)
theory Chain_Market_Props
  imports Chain_Ledger_Props
begin

text \<open>
  Market queries: the yield computed by the power loop against the compounded rate, the termination and the
  success of the loop, and the time until which a price stays.
\<close>

section \<open>Rounded products\<close>

lemma mul_div_round_Inr:
  assumes "mul_div_round a b s = Inr c" and "even s"
  shows "\<bar>real c - real a * real b / real s\<bar> \<le> 1 / 2" and "0 < s"
proof -
  from assms have s: "0 < s" and c: "c = (a * b + s div 2) div s" by (auto simp: mul_div_round_def)
  then show "0 < s" by simp
  have "c * s \<le> a * b + s div 2" "a * b + s div 2 < (c + 1) * s"
    unfolding c using s dividend_less_div_times [of s "a * b + s div 2"] by simp_all
  then have "real (c * s) \<le> real (a * b + s div 2)" "real (a * b + s div 2) \<le> real ((c + 1) * s)"
    by (simp_all only: of_nat_le_iff)
  moreover have "real (s div 2) = real s / 2" using assms(2) by (simp add: real_of_nat_div)
  ultimately have "real c * real s \<le> real a * real b + real s / 2" "real a * real b + real s / 2 \<le> (real c + 1) * real s"
    by (simp_all add: algebra_simps)
  with s have "real a * real b / real s - 1 / 2 \<le> real c" "real c \<le> real a * real b / real s + 1 / 2"
    by (simp_all add: field_simps)
  then show "\<bar>real c - real a * real b / real s\<bar> \<le> 1 / 2" by linarith
qed

lemma mul_div_round_ok:
  assumes "0 < s" and "a * b + s div 2 < 2 ^ 128"
  shows "\<exists>c. mul_div_round a b s = Inr c"
  using assms by (auto simp: mul_div_round_def checked_mul_def checked_add_def checked_div_def)

section \<open>Relative error of the power loop\<close>

text \<open>\<open>near s x n k a\<close>: the number \<open>a\<close> is the power \<open>x ^ n\<close> at scale \<open>s\<close> up to \<open>k\<close> relative roundings of half a unit.\<close>

definition near :: "nat \<Rightarrow> real \<Rightarrow> nat \<Rightarrow> nat \<Rightarrow> nat \<Rightarrow> bool" where
  "near s x n k a = (s \<le> a \<and> real s * x ^ n * (1 - 1 / (2 * real s)) ^ k \<le> real a \<and>
     real a \<le> real s * x ^ n * (1 + 1 / (2 * real s)) ^ k)"

lemma near_mul:
  assumes a: "near s x n k a" and b: "near s x m l b" and c: "mul_div_round a b s = Inr c" and s: "even s" and x: "0 \<le> x"
  shows "near s x (n + m) (k + l + 1) c"
proof -
  let ?d = "1 / (2 * real s)" and ?p = "real a * real b / real s"
  note r = mul_div_round_Inr [OF c s]
  have s1: "1 \<le> real s" using r(2) by simp
  have d: "0 \<le> 1 - ?d" using s1 by (simp add: field_simps)
  have ab: "real s \<le> real a" "real s \<le> real b" using a b by (simp_all add: near_def)
  have "real s * real s \<le> real a * real b" using ab by (intro mult_mono) auto
  then have p: "real s \<le> ?p" using r(2) by (simp add: field_simps)
  have half: "1 / 2 \<le> ?p * ?d" using p r(2) by (simp add: field_simps)
  have "real s - 1 / 2 \<le> real c" using r(1) p by linarith
  then have "s \<le> c" using r(2) by linarith
  moreover have "real s * x ^ (n + m) * (1 - ?d) ^ (k + l + 1) \<le> real c"
  proof -
    have "(real s * x ^ n * (1 - ?d) ^ k) * (real s * x ^ m * (1 - ?d) ^ l) \<le> real a * real b"
      using a b x d by (intro mult_mono) (auto simp: near_def)
    then have "real s * x ^ (n + m) * (1 - ?d) ^ (k + l) \<le> ?p"
      using r(2) by (simp add: field_simps power_add)
    then have "real s * x ^ (n + m) * (1 - ?d) ^ (k + l) * (1 - ?d) \<le> ?p * (1 - ?d)"
      using d by (rule mult_right_mono)
    also have "\<dots> \<le> real c" using half r(1) unfolding right_diff_distrib by linarith
    finally show ?thesis by (simp add: mult_ac)
  qed
  moreover have "real c \<le> real s * x ^ (n + m) * (1 + ?d) ^ (k + l + 1)"
  proof -
    have "real a * real b \<le> (real s * x ^ n * (1 + ?d) ^ k) * (real s * x ^ m * (1 + ?d) ^ l)"
      using a b x by (intro mult_mono) (auto simp: near_def)
    then have "?p \<le> real s * x ^ (n + m) * (1 + ?d) ^ (k + l)"
      using r(2) by (simp add: field_simps power_add)
    then have "?p * (1 + ?d) \<le> real s * x ^ (n + m) * (1 + ?d) ^ (k + l) * (1 + ?d)"
      using s1 by (intro mult_right_mono) auto
    moreover have "real c \<le> ?p * (1 + ?d)" using half r(1) unfolding distrib_left by linarith
    ultimately show ?thesis by (simp add: mult_ac)
  qed
  ultimately show ?thesis by (simp add: near_def)
qed

lemma near_product_bound:
  assumes a: "near s x n k a" and b: "near s x m l b" and x: "1 \<le> x" and N: "n + m \<le> N" "k + l \<le> K"
    and bound: "real s * real s * x ^ N * (1 + 1 / (2 * real s)) ^ K + real s < 2 ^ 128"
  shows "a * b + s div 2 < 2 ^ 128"
proof -
  let ?d = "1 / (2 * real s)"
  have "real a * real b \<le> (real s * x ^ n * (1 + ?d) ^ k) * (real s * x ^ m * (1 + ?d) ^ l)"
    using a b x by (intro mult_mono) (auto simp: near_def)
  also have "\<dots> = real s * real s * (x ^ (n + m) * (1 + ?d) ^ (k + l))" by (simp add: power_add)
  also have "\<dots> \<le> real s * real s * (x ^ N * (1 + ?d) ^ K)"
    using x N by (intro mult_left_mono mult_mono power_increasing) auto
  finally have *: "real a * real b \<le> real s * real s * (x ^ N * (1 + ?d) ^ K)" .
  have half: "real (s div 2) \<le> real s" by simp
  from * have "real (a * b + s div 2) < 2 ^ 128"
    using bound half by (simp add: mult.assoc)
  then have "real (a * b + s div 2) < real (2 ^ 128)" by simp
  then show ?thesis by (simp only: of_nat_less_iff)
qed

text \<open>The loop never fails while the final power stays below the width, and gives the power with its roundings.\<close>

lemma pow_loop_near:
  assumes "near s x i (2 * i) r0" and "near s x j (2 * j - 1) base" and "0 < j" and "even s" "0 < s" and "1 \<le> x"
    and "i + j * e = N" and "real s * real s * x ^ N * (1 + 1 / (2 * real s)) ^ (2 * N) + real s < 2 ^ 128"
  shows "\<exists>r. pow_loop s base e r0 = Inr r \<and> near s x N (2 * N) r"
  using assms
proof (induction s base e r0 arbitrary: i j rule: pow_loop.induct)
  case (1 s base e r0 i j)
  show ?case
  proof (cases "e = 0")
    case True
    with 1 show ?thesis by (subst pow_loop.simps) auto
  next
    case e: False
    note r0 = "1.prems"(1) and base = "1.prems"(2) and j = "1.prems"(3) and s = "1.prems"(4,5) and x = "1.prems"(6) and N = "1.prems"(7) and bound = "1.prems"(8)
    define i' where "i' = i + (if e mod 2 = 1 then j else 0)"
    have N': "i' + 2 * j * (e div 2) = N"
    proof (cases "e mod 2 = 1")
      case True
      then have "e = 2 * (e div 2) + 1" by presburger
      then have "j * e = j * (2 * (e div 2) + 1)" by simp
      with N True show ?thesis by (simp add: i'_def)
    next
      case False
      then have "e = 2 * (e div 2)" by presburger
      then have "j * e = j * (2 * (e div 2))" by simp
      with N False show ?thesis by (simp add: i'_def)
    qed
    obtain r1 where r1: "(if e mod 2 = 1 then mul_div_round r0 base s else Inr r0) = Inr r1"
      "near s x i' (2 * i') r1"
    proof (cases "e mod 2 = 1")
      case True
      then have "i + j \<le> N" using N' by (simp add: i'_def)
      then have "r0 * base + s div 2 < 2 ^ 128" by (intro near_product_bound [OF r0 base x _ _ bound]) auto
      from mul_div_round_ok [OF s(2) this] obtain r where r: "mul_div_round r0 base s = Inr r" by blast
      have "2 * i + (2 * j - 1) + 1 = 2 * (i + j)" using j by simp
      with near_mul [OF r0 base r s(1)] x have "near s x (i + j) (2 * (i + j)) r" by (metis order_trans zero_le_one)
      with r True that show thesis by (simp add: i'_def)
    next
      case False
      with r0 that show thesis by (simp add: i'_def)
    qed
    show ?thesis
    proof (cases "0 < e div 2")
      case True
      have "j + j \<le> N" using N' True by (cases "e div 2") auto
      then have "base * base + s div 2 < 2 ^ 128" by (intro near_product_bound [OF base base x _ _ bound]) auto
      from mul_div_round_ok [OF s(2) this] obtain base' where b: "mul_div_round base base s = Inr base'" by blast
      have "(2 * j - 1) + (2 * j - 1) + 1 = 2 * (2 * j) - 1" using j by simp
      with near_mul [OF base base b s(1)] x have "near s x (2 * j) (2 * (2 * j) - 1) base'"
        by (metis mult_2 order_trans zero_le_one)
      from "1.IH" [OF e r1(2) this _ s x N' bound] j
      have "\<exists>r. pow_loop s base' (e div 2) r1 = Inr r \<and> near s x N (2 * N) r" by simp
      with r1(1) b True e show ?thesis by (subst pow_loop.simps) simp
    next
      case False
      with N' have "i' = N" by simp
      with r1 False e show ?thesis by (subst pow_loop.simps) (simp add: pow_loop.simps [of s base 0])
    qed
  qed
qed


section \<open>The compounded yield\<close>

text \<open>The yield of a rate at six decimals, compounded daily, in exact arithmetic.\<close>

definition compounded :: "nat \<Rightarrow> real" where
  "compounded rate = (1 + real rate / 10 ^ 6 / 365) ^ 365 - 1"

lemma near_one: "0 < s \<Longrightarrow> near s x 0 0 s"
  by (simp add: near_def)

lemma near_base:
  assumes "0 < s" and "1 \<le> x" and "\<bar>real a - real s * x\<bar> \<le> 1 / 2"
  shows "near s x 1 1 a"
proof -
  have "real s * 1 \<le> real s * x" using assms by (intro mult_left_mono) auto
  then have "real s - 1 / 2 \<le> real a" using assms(3) by linarith
  then have "s \<le> a" by linarith
  moreover have "1 / 2 \<le> real s * x * (1 / (2 * real s))" using assms by simp
  ultimately show ?thesis using assms(3) by (simp only: near_def right_diff_distrib distrib_left power_one_right mult_1_right simp_thms) linarith
qed

lemma rounding_factor:
  fixes d :: real
  assumes "0 \<le> d" and "real k * d \<le> 1 / 2"
  shows "(1 + d) ^ k \<le> 1 + 2 * (real k * d)" and "1 - real k * d \<le> (1 - d) ^ k"
proof -
  show "1 - real k * d \<le> (1 - d) ^ k"
  proof (cases "k = 0")
    case False
    then have "d \<le> real k * d" using assms(1) by (simp add: mult_le_cancel_right1)
    then have "d \<le> 1" using assms(2) by linarith
    then show ?thesis using Bernoulli_inequality [of "- d" k] by simp
  qed simp
  have "(1 + d) ^ j \<le> 1 + 2 * (real j * d)" if "j \<le> k" for j
    using that
  proof (induction j)
    case (Suc j)
    have "real j * d \<le> real k * d" using Suc.prems assms(1) by (intro mult_right_mono) auto
    then have j: "2 * (real j * d) \<le> 1" using assms(2) by linarith
    have "(1 + d) ^ Suc j \<le> (1 + d) * (1 + 2 * (real j * d))"
      using Suc assms(1) by (simp add: mult_left_mono)
    also have "\<dots> = 1 + 2 * (real j * d) + d + d * (2 * (real j * d))" by (simp add: algebra_simps)
    also have "\<dots> \<le> 1 + 2 * (real j * d) + d + d * 1" using j assms(1) by (intro add_mono mult_left_mono) auto
    also have "\<dots> = 1 + 2 * (real (Suc j) * d)" by (simp add: algebra_simps)
    finally show ?case .
  qed simp
  then show "(1 + d) ^ k \<le> 1 + 2 * (real k * d)" by simp
qed

lemma daily_power_bound:
  assumes "rate \<le> 5000000"
  shows "(1 + real rate / 10 ^ 6 / 365) ^ 365 \<le> 150"
proof -
  have "(1 + real rate / 10 ^ 6 / 365) ^ 365 \<le> (74 / 73) ^ 365"
    using assms by (intro power_mono) auto
  also have "(74 / 73 :: real) ^ 365 = ((74 / 73) ^ 5) ^ 73" by (simp only: power_mult [symmetric]) simp
  also have "\<dots> \<le> (10704 / 10000) ^ 73" by (intro power_mono) (simp_all add: power_divide)
  also have "(10704 / 10000 :: real) ^ 73 = ((10704 / 10000) ^ 8) ^ 9 * (10704 / 10000)"
    by (simp only: power_mult [symmetric] power_Suc2 [symmetric]) simp
  also have "\<dots> \<le> (17236 / 10000) ^ 9 * (10704 / 10000)"
    by (intro mult_right_mono power_mono) (simp_all add: power_divide)
  also have "\<dots> \<le> 150" by (simp add: power_divide)
  finally show ?thesis .
qed

lemma close_by_factors:
  fixes x :: real
  assumes "x * l \<le> r" and "r \<le> x * u" and "x \<le> 150" and "0 \<le> x" and "1 - 1 / 10 ^ 15 \<le> l" and "u \<le> 1 + 2 / 10 ^ 15"
  shows "\<bar>r - x\<bar> \<le> 1 / 10 ^ 12"
proof -
  have "x * (1 - 1 / 10 ^ 15) \<le> x * l" using assms(4,5) by (rule mult_left_mono [rotated])
  moreover have "x * u \<le> x * (1 + 2 / 10 ^ 15)" using assms(4,6) by (rule mult_left_mono [rotated])
  ultimately have "x - x / 10 ^ 15 \<le> r" "r \<le> x + 2 * x / 10 ^ 15" using assms(1,2) by (simp_all add: algebra_simps)
  with assms(3) show ?thesis unfolding abs_le_iff by simp
qed

lemma apy_power:
  assumes "rate \<le> 5000000" and base: "\<bar>real base - real INT_SCALE * (1 + real rate / 10 ^ 6 / 365)\<bar> \<le> 1 / 2"
  shows "\<exists>p. pow_fixed base COMPOUNDING INT_SCALE = Inr p \<and> INT_SCALE \<le> p \<and>
    \<bar>real p / real INT_SCALE - (1 + real rate / 10 ^ 6 / 365) ^ 365\<bar> \<le> 1 / 10 ^ 12"
proof -
  let ?x = "1 + real rate / 10 ^ 6 / 365" and ?d = "1 / (2 * real INT_SCALE)"
  have x: "1 \<le> ?x" by simp
  have X: "?x ^ 365 \<le> 150" "0 \<le> ?x ^ 365" using daily_power_bound [OF assms(1)] by auto
  have s: "even INT_SCALE" "0 < INT_SCALE" by (simp_all add: INT_SCALE_def)
  have d: "0 \<le> ?d" "real 730 * ?d \<le> 1 / 2" "real 730 * ?d \<le> 1 / 10 ^ 15" by (simp_all add: INT_SCALE_def)
  have up: "(1 + ?d) ^ 730 \<le> 1 + 2 / 10 ^ 15" using rounding_factor(1) [OF d(1,2)] d(3) by simp
  have low: "1 - 1 / 10 ^ 15 \<le> (1 - ?d) ^ 730" using rounding_factor(2) [OF d(1,2)] d(3) by simp
  have "real INT_SCALE * real INT_SCALE * ?x ^ 365 * (1 + ?d) ^ 730 \<le> real INT_SCALE * real INT_SCALE * 150 * (1 + 2 / 10 ^ 15)"
    using X up by (intro mult_mono) auto
  then have bound: "real INT_SCALE * real INT_SCALE * ?x ^ 365 * (1 + ?d) ^ (2 * 365) + real INT_SCALE < 2 ^ 128"
    by (simp add: INT_SCALE_def)
  obtain p where p: "pow_loop INT_SCALE base 365 INT_SCALE = Inr p" and n: "near INT_SCALE ?x 365 (2 * 365) p"
    using pow_loop_near [where i = 0 and j = 1 and e = 365 and N = 365 and x = ?x and s = INT_SCALE and base = base and ?r0.0 = INT_SCALE]
      near_one [OF s(2)] near_base [OF s(2) x base] s x bound by auto
  have "real INT_SCALE * (?x ^ 365 * (1 - ?d) ^ 730) \<le> real p" "real p \<le> real INT_SCALE * (?x ^ 365 * (1 + ?d) ^ 730)"
    using n by (simp_all add: near_def mult.assoc)
  then have q: "?x ^ 365 * (1 - ?d) ^ 730 \<le> real p / real INT_SCALE" "real p / real INT_SCALE \<le> ?x ^ 365 * (1 + ?d) ^ 730"
    using s(2) by (simp_all add: pos_divide_le_eq pos_le_divide_eq mult.commute)
  note close_by_factors [OF q X low up]
  with p n show ?thesis by (auto simp: pow_fixed_def COMPOUNDING_def near_def simp del: power_one_right)
qed

text \<open>
  C36:
  The power loop of the yield always ends, and for every yearly rate of up to 500 percent its checked 128-bit
  products stay in range, so that the query returns, with the yield compounded over 365 days,
  exact to a little more than half a unit of the sixth decimal in spite of up to eighteen rounded products.
\<close>

theorem apy_is_compounded:
  assumes "rate \<le> 5000000"
  shows "\<exists>y. calculate_apy_from_apr rate = Inr y \<and> \<bar>real y / 10 ^ 6 - compounded rate\<bar> \<le> 0.51 / 10 ^ 6"
proof -
  let ?x = "1 + real rate / 10 ^ 6 / 365"
  define incr where "incr = (INT_SCALE * rate + 182500000) div 365000000"
  have "incr * 365000000 \<le> INT_SCALE * rate + 182500000" "INT_SCALE * rate + 182500000 < (incr + 1) * 365000000"
    unfolding incr_def using dividend_less_div_times [of 365000000 "INT_SCALE * rate + 182500000"] by simp_all
  then have "real (incr * 365000000) \<le> real (INT_SCALE * rate + 182500000)"
    "real (INT_SCALE * rate + 182500000) < real ((incr + 1) * 365000000)" by (simp_all only: of_nat_le_iff of_nat_less_iff)
  then have base: "\<bar>real (INT_SCALE + incr) - real INT_SCALE * ?x\<bar> \<le> 1 / 2"
    unfolding abs_le_iff INT_SCALE_def by simp
  obtain p where p: "pow_fixed (INT_SCALE + incr) COMPOUNDING INT_SCALE = Inr p" "INT_SCALE \<le> p"
    and close: "\<bar>real p / real INT_SCALE - ?x ^ 365\<bar> \<le> 1 / 10 ^ 12"
    using apy_power [OF assms base] by blast
  have "real p / real INT_SCALE \<le> ?x ^ 365 + 1 / 10 ^ 12" using close by (simp only: abs_diff_le_iff)
  also have "\<dots> \<le> 151" using daily_power_bound [OF assms] by simp
  finally have p151: "real p / real INT_SCALE \<le> 151" .
  from p151 have small: "p \<le> 151 * INT_SCALE" by (simp add: INT_SCALE_def)
  then have "(p - INT_SCALE) * EXT_SCALE + INT_SCALE div 2 < 2 ^ 128" by (simp add: INT_SCALE_def EXT_SCALE_def)
  then obtain y where y: "mul_div_round (p - INT_SCALE) EXT_SCALE INT_SCALE = Inr y"
    using mul_div_round_ok [of INT_SCALE "p - INT_SCALE" EXT_SCALE] by (auto simp: INT_SCALE_def)
  have "real (p - INT_SCALE) * real EXT_SCALE / real INT_SCALE = (real p / real INT_SCALE - 1) * 10 ^ 6"
    using p(2) by (simp add: INT_SCALE_def EXT_SCALE_def of_nat_diff)
  then have r: "\<bar>real y - (real p / real INT_SCALE - 1) * 10 ^ 6\<bar> \<le> 1 / 2"
    using mul_div_round_Inr(1) [OF y] by (simp only: INT_SCALE_def) simp
  have dist: "\<bar>real y / 10 ^ 6 - compounded rate\<bar> \<le> 0.51 / 10 ^ 6"
    using r close unfolding compounded_def abs_le_iff by simp
  have "real y \<le> 152 * 10 ^ 6" using r p151 unfolding abs_le_iff by simp
  then have "y \<le> 2 ^ 64 - 1" by simp
  with p y assms have "calculate_apy_from_apr rate = Inr y"
    by (simp add: calculate_apy_from_apr_def incr_def checked_mul_def checked_add_def checked_div_def checked_sub_def
        INT_SCALE_def EXT_SCALE_def COMPOUNDING_def)
  with dist show ?thesis by blast
qed

theorem apy_is_compounded_witness:
  "\<exists>y. calculate_apy_from_apr 36500 = Inr y \<and> \<bar>real y / 10 ^ 6 - compounded 36500\<bar> \<le> 0.51 / 10 ^ 6"
  using apy_is_compounded [of 36500] by simp

section \<open>The next change of a price\<close>

lemma foldl_min:
  fixes f :: "'a \<Rightarrow> nat"
  defines "g \<equiv> \<lambda>b y. if f y < f b then y else b"
  shows "foldl g x xs \<in> insert x (set xs) \<and> (\<forall>y\<in>insert x (set xs). f (foldl g x xs) \<le> f y)"
proof (induction xs arbitrary: x)
  case (Cons a xs)
  have "f (g x a) \<le> f x" "f (g x a) \<le> f a" "g x a \<in> {x, a}" by (auto simp: g_def)
  with Cons [of "g x a"] show ?case by (auto intro: order_trans)
qed simp

lemma min_by_key_Some:
  assumes "min_by_key f xs = Some m"
  shows "m \<in> set xs" and "\<forall>x\<in>set xs. f m \<le> f x"
  using assms foldl_min [of f] by (cases xs; force)+

lemma min_by_key_None [simp]: "min_by_key f xs = None \<longleftrightarrow> xs = []"
  by (cases xs) auto

lemma next_price_change_Inr:
  assumes "next_price_change off v t = Inr n"
  shows "0 < price_fix_duration v" and "t < n"
    and "n \<le> base_time v + ((t - base_time v) div price_fix_duration v + 1) * price_fix_duration v"
    and "w \<in> set (vectors off) \<Longrightarrow> t < start_time w \<Longrightarrow> n \<le> start_time w"
proof -
  let ?m = "base_time v + ((t - base_time v) div price_fix_duration v + 1) * price_fix_duration v"
  have pos: "0 < price_fix_duration v"
    and n: "n = (case find_next_vector_after off t of Some w \<Rightarrow> min ?m (start_time w) | None \<Rightarrow> ?m)"
    using assms by (auto simp: next_price_change_def checked_div_def checked_add_def checked_mul_def split: if_splits option.splits)
  then show "0 < price_fix_duration v" by simp
  have m: "t < ?m" using dividend_less_div_times [OF pos, of "t - base_time v"] by (simp add: algebra_simps)
  have w: "t < start_time w \<and> (\<forall>u\<in>set (vectors off). t < start_time u \<longrightarrow> start_time w \<le> start_time u)"
    if "find_next_vector_after off t = Some w" for w
    using min_by_key_Some [OF that [unfolded find_next_vector_after_def]] by simp
  have none: "\<not> t < start_time u" if "find_next_vector_after off t = None" "u \<in> set (vectors off)" for u
    using that by (simp add: find_next_vector_after_def filter_empty_conv)
  show "t < n" using n m w by (cases "find_next_vector_after off t") auto
  show "n \<le> ?m" using n by (cases "find_next_vector_after off t") auto
  show "n \<le> start_time w" if "w \<in> set (vectors off)" "t < start_time w"
    using n w none that by (cases "find_next_vector_after off t") (auto simp: min.coboundedI2)
qed

text \<open>Between now and the next change nothing that the query looks at changes.\<close>

lemma until_next_change:
  assumes n: "next_price_change off v t = Inr n" and t: "base_time v \<le> t" "t \<le> t'" "t' < n"
  shows "find_active_vector_at off t' = find_active_vector_at off t"
    and "(t' - base_time v) div price_fix_duration v = (t - base_time v) div price_fix_duration v"
    and "next_price_change off v t' = Inr n"
proof -
  note bounds = next_price_change_Inr [OF n]
  have w: "(start_time w \<le> t') = (start_time w \<le> t)" if "w \<in> set (vectors off)" for w
    using bounds(4) [OF that] t by (cases "t < start_time w") auto
  then have "List.filter (\<lambda>v. start_time v \<noteq> 0 \<and> start_time v \<le> t') (vectors off) =
      List.filter (\<lambda>v. start_time v \<noteq> 0 \<and> start_time v \<le> t) (vectors off)"
    by (intro filter_cong) auto
  then show "find_active_vector_at off t' = find_active_vector_at off t" by (simp add: find_active_vector_at_def)
  have "List.filter (\<lambda>v. t' < start_time v) (vectors off) = List.filter (\<lambda>v. t < start_time v) (vectors off)"
    using w by (intro filter_cong) (auto simp: not_le [symmetric])
  then have later: "find_next_vector_after off t' = find_next_vector_after off t" by (simp add: find_next_vector_after_def)
  let ?k = "(t - base_time v) div price_fix_duration v"
  have "?k * price_fix_duration v \<le> t' - base_time v" using t by (simp add: order_trans [OF div_times_less_eq_dividend])
  moreover have "t' - base_time v < (?k + 1) * price_fix_duration v" using bounds(3) t by linarith
  ultimately show step: "(t' - base_time v) div price_fix_duration v = ?k"
    by (intro div_nat_eqI) (simp_all add: mult.commute)
  show "next_price_change off v t' = Inr n" using n bounds(1) by (simp add: next_price_change_def later checked_div_def step)
qed

lemma emit_inj [simp]: "emit e c = emit e' c \<longleftrightarrow> e = e'"
proof
  assume "emit e c = emit e' c"
  then have "events (emit e c) = events (emit e' c)" by simp
  then show "e = e'" by (simp add: emit_def)
qed simp

lemma get_nav_Inr:
  "get_nav R tin tout c = Inr (price, c') \<longleftrightarrow> (\<exists>off v next. offers c (offer_pda R tin tout) = Some off \<and>
     tin = offer_token_in_mint off \<and> tout = offer_token_out_mint off \<and> find_active_vector_at off (now R) = Inr v \<and>
     calculate_step_price_at (apr v) (base_price v) (base_time v) (price_fix_duration v) (now R) = Inr price \<and>
     next_price_change off v (now R) = Inr next \<and> c' = emit (GetNAVEvent (offer_pda R tin tout) price (now R) next) c)"
  by (auto simp: get_nav_def with_offer_def calculate_current_step_price_def)

lemma step_price_cong:
  assumes "base \<le> t" "base \<le> t'" and "(t' - base) div dur = (t - base) div dur"
  shows "calculate_step_price_at rate p0 base dur t' = calculate_step_price_at rate p0 base dur t"
  using assms by (cases "dur = 0") (simp_all add: calculate_step_price_at_def checked_div_def require_def)

text \<open>
  A price that the query reports, with the time of its next change, is the price until that time: the time lies
  in the future, and at every moment before it the query gives the same price and
  the same time of the next change, whatever vectors are scheduled later.
\<close>

lemma nav_is_constant_until_the_next_change:
  assumes "get_nav R tin tout c = Inr (price, emit (GetNAVEvent a price (now R) next) c)"
  shows "now R < next \<and> (\<forall>t. now R \<le> t \<and> t < next \<longrightarrow>
    get_nav (R\<lparr>now := t\<rparr>) tin tout c = Inr (price, emit (GetNAVEvent a price t next) c))"
proof -
  obtain off v where off: "offers c (offer_pda R tin tout) = Some off" "tin = offer_token_in_mint off" "tout = offer_token_out_mint off"
    and v: "find_active_vector_at off (now R) = Inr v"
    and p: "calculate_step_price_at (apr v) (base_price v) (base_time v) (price_fix_duration v) (now R) = Inr price"
    and n: "next_price_change off v (now R) = Inr next" and a: "a = offer_pda R tin tout"
    using assms by (auto simp: get_nav_Inr)
  have base: "base_time v \<le> now R" using p by (simp add: calculate_step_price_at_def require_def split: if_splits)
  have "get_nav (R\<lparr>now := t\<rparr>) tin tout c = Inr (price, emit (GetNAVEvent a price t next) c)" if t: "now R \<le> t" "t < next" for t
  proof -
    note same = until_next_change [OF n base t]
    have "calculate_step_price_at (apr v) (base_price v) (base_time v) (price_fix_duration v) t = Inr price"
      using step_price_cong [OF base _ same(2)] base t p by simp
    with off v same a show ?thesis by (simp add: get_nav_Inr offer_pda_def)
  qed
  with next_price_change_Inr(2) [OF n] show ?thesis by blast
qed

lemma demo_nav: "get_nav (demo_rt 1000) m_usdc m_onyc demo_chain3 =
    Inr (1000100000, emit (GetNAVEvent demo_pda 1000100000 1000 87400) demo_chain3)"
proof -
  let ?off = "demo_offer (demo_vector # replicate 9 OfferVector_default)"
  have "find_active_vector_at ?off 1000 = Inr demo_vector"
    by (simp add: find_active_vector_at_def demo_offer_def demo_vector_def)
  moreover have "calculate_step_price_at 36500 1000000000 1000 86400 1000 = Inr 1000100000"
    by (simp add: calculate_step_price_at_def calculate_vector_price_def checked_div_def checked_mul_def checked_add_def
        require_def APR_SCALE_def SECONDS_IN_YEAR_def Let_def)
  moreover have "next_price_change ?off demo_vector 1000 = Inr 87400"
    by (simp add: next_price_change_def find_next_vector_after_def demo_offer_def demo_vector_def checked_div_def checked_mul_def checked_add_def)
  ultimately show ?thesis by (simp add: get_nav_Inr demo_offer_def demo_vector_def)
qed

lemma nav_is_constant_until_the_next_change_witness:
  "get_nav (demo_rt 50000) m_usdc m_onyc demo_chain3 =
    Inr (1000100000, emit (GetNAVEvent demo_pda 1000100000 50000 87400) demo_chain3)"
proof -
  have "get_nav (demo_rt 1000) m_usdc m_onyc demo_chain3 =
    Inr (1000100000, emit (GetNAVEvent demo_pda 1000100000 (now (demo_rt 1000)) 87400) demo_chain3)"
    using demo_nav by simp
  from nav_is_constant_until_the_next_change [OF this] have "get_nav (demo_rt 1000\<lparr>now := 50000\<rparr>) m_usdc m_onyc demo_chain3 =
    Inr (1000100000, emit (GetNAVEvent demo_pda 1000100000 50000 87400) demo_chain3)" by simp
  moreover have "demo_rt 1000\<lparr>now := 50000\<rparr> = demo_rt 50000" by (simp add: demo_rt_def)
  ultimately show ?thesis by simp
qed

end
