(* ===== verification/Chain_Custody.thy ===== *)
theory Chain_Custody
  imports Chain_Ledger Chain_Settlement
begin

text \<open>
  What instructions may take from token accounts. \<open>flows d g t t'\<close> bounds the change between two states of the token
  program: no account loses more than \<open>d\<close> beyond what \<open>g\<close> brings it. The bounds of consecutive operations add up. From
  them follow the outflow of every instruction, and the cover of the tokens that are locked in the redemption vault.
\<close>

section \<open>Bounded outflow\<close>

type_synonym flow = "pubkey \<Rightarrow> pubkey \<Rightarrow> nat"

definition same_fees :: "tokens \<Rightarrow> tokens \<Rightarrow> bool" where
  "same_fees t t' \<longleftrightarrow> (\<forall>m. map_option transfer_fee (mints t' m) = map_option transfer_fee (mints t m))"

definition flows :: "flow \<Rightarrow> flow \<Rightarrow> tokens \<Rightarrow> tokens \<Rightarrow> bool" where
  "flows d g t t' \<longleftrightarrow> same_fees t t' \<and> (\<forall>a m. balance t a m + g a m \<le> balance t' a m + d a m)"

definition nothing :: flow where
  "nothing a m = 0"

definition at_account :: "pubkey \<Rightarrow> pubkey \<Rightarrow> nat \<Rightarrow> flow" where
  "at_account b n k a m = (if a = b \<and> m = n then k else 0)"

definition plus_flow :: "flow \<Rightarrow> flow \<Rightarrow> flow" where
  "plus_flow d e a m = d a m + e a m"

lemmas flow_defs = nothing_def at_account_def plus_flow_def

lemma flows_refl [simp]: "flows nothing nothing t t"
  by (simp add: flows_def same_fees_def)

lemma flows_trans: "flows d g t t' \<Longrightarrow> flows e h t' t'' \<Longrightarrow> flows (plus_flow d e) (plus_flow g h) t t''"
proof -
  assume 1: "flows d g t t'" and 2: "flows e h t' t''"
  have "balance t a m + (g a m + h a m) \<le> balance t'' a m + (d a m + e a m)" for a m
  proof -
    have "balance t a m + g a m \<le> balance t' a m + d a m" "balance t' a m + h a m \<le> balance t'' a m + e a m"
      using 1 2 by (simp_all add: flows_def)
    then show ?thesis by linarith
  qed
  then show ?thesis using 1 2 by (simp add: flows_def same_fees_def plus_flow_def)
qed

text \<open>A bound may be weakened, and what is on both sides may be left out.\<close>

lemma flows_mono: "flows d g t t' \<Longrightarrow> (\<And>a m. d a m + h a m \<le> e a m + g a m) \<Longrightarrow> flows e h t t'"
proof -
  assume 1: "flows d g t t'" and 2: "\<And>a m. d a m + h a m \<le> e a m + g a m"
  have "balance t a m + h a m \<le> balance t' a m + e a m" for a m
  proof -
    have "balance t a m + g a m \<le> balance t' a m + d a m" using 1 by (simp add: flows_def)
    with 2 [of a m] show ?thesis by linarith
  qed
  with 1 show ?thesis by (simp add: flows_def)
qed

lemma flows_nothing: "flows nothing g t t' \<Longrightarrow> flows d g t t'"
  by (erule flows_mono) (simp add: nothing_def)

lemma flows_forget: "flows d g t t' \<Longrightarrow> flows d nothing t t'"
  by (erule flows_mono) (simp add: nothing_def)

lemma flows_balance: "flows d g t t' \<Longrightarrow> balance t a m + g a m \<le> balance t' a m + d a m"
  by (simp add: flows_def)

lemma same_fees_plain: "same_fees t t' \<Longrightarrow> plain_mint t' m = plain_mint t m"
  unfolding same_fees_def plain_mint_def by (drule spec [of _ m], cases "mints t m"; cases "mints t' m") auto

lemma flows_plain: "flows d g t t' \<Longrightarrow> plain_mint t' m = plain_mint t m"
  unfolding flows_def by (auto dest: same_fees_plain)

section \<open>The operations of the token program\<close>

lemma transfer_flows:
  assumes "token_program_ok R" and "plain_mint t m" and "transfer_tokens R m a b s n t = Inr t'"
  shows "flows (at_account a m n) (at_account b m n) t t'" and "s = a"
  using transfer_ok [OF assms] by (auto simp: flows_def same_fees_def flow_defs)

text \<open>Whatever fee is withheld from the destination, the source loses what was transferred.\<close>

lemma transfer_out:
  assumes "fees_withheld R" and "transfer_tokens R m a b s n t = Inr t'"
  shows "flows (at_account a m n) nothing t t'" and "s = a"
  by (rule transfer_withheld [OF assms]; auto simp: flows_def same_fees_def flow_defs)+

lemma burn_flows:
  assumes "token_program_ok R" and "burn_tokens R m a s n t = Inr t'"
  shows "flows (at_account a m n) nothing t t'" and "s = a"
  using burn_ok [OF assms] by (auto simp: flows_def same_fees_def flow_defs)

lemma mint_flows:
  assumes "token_program_ok R" and "mint_tokens R m mint b s n cap t = Inr t'"
  shows "flows nothing (at_account b m n) t t'"
  using mint_ok [OF assms] by (auto simp: flows_def same_fees_def flow_defs)

lemma set_authority_flows:
  assumes "token_program_ok R" and "set_authority R t m s a = Inr t'"
  shows "flows nothing nothing t t'"
proof -
  obtain x where "mints t m = Some x" "t' = t\<lparr>mints := (mints t)(m \<mapsto> x\<lparr>mint_authority := Some a\<rparr>)\<rparr>"
    using assms(1) [unfolded token_program_ok_def, THEN conjunct2, THEN conjunct2, THEN conjunct2, rule_format, OF assms(2)] by blast
  then show ?thesis by (simp add: flows_def same_fees_def nothing_def)
qed

text \<open>
  The payment of a purchase takes the amount from the payer only: what passes through the vault to be burned leaves it
  as it was.
\<close>

lemma pay_token_in_flows:
  assumes ok: "token_program_ok R" and plain: "plain_mint t tin"
    and run: "pay_token_in R (exec_params R taker b tin tout net fee out cap) mint_in t = Inr t'"
  shows "flows (at_account taker tin (net + fee)) nothing t t'"
proof (cases "program_controls_mint mint_in (mint_authority_pda R)")
  case False
  with run have "transfer_tokens R tin taker b taker (net + fee) t = Inr t'"
    by (simp add: pay_token_in_def exec_params_def)
  from transfer_flows(1) [OF ok plain this] show ?thesis by (rule flows_forget)
next
  case True
  let ?v = "vault_authority R"
  from True run obtain t1 t2 where t1: "transfer_tokens R tin taker ?v taker net t = Inr t1"
    and t2: "burn_tokens R tin ?v ?v net t1 = Inr t2"
    and t3: "if 0 < fee then transfer_tokens R tin taker b taker fee t2 = Inr t' else t' = t2"
    by (auto simp: pay_token_in_def exec_params_def split: if_splits)
  have net: "flows (at_account taker tin net) nothing t t2"
    using transfer_ok [OF ok plain t1] burn_ok [OF ok t2]
    by (auto simp: flows_def same_fees_def flow_defs)
  have fee: "flows (at_account taker tin fee) nothing t2 t'"
    using t3 transfer_flows(1) [OF ok, of t2 tin taker b taker fee t'] plain flows_plain [OF net]
    by (auto split: if_splits intro: flows_nothing flows_forget)
  show ?thesis by (rule flows_mono [OF flows_trans [OF net fee]]) (simp add: flow_defs)
qed

lemma pay_token_out_flows:
  assumes ok: "token_program_ok R" and plain: "plain_mint t tout"
    and run: "pay_token_out R (exec_params R taker b tin tout net fee out cap) mint_out t = Inr t'"
  shows "flows (at_account (vault_authority R) tout out) (at_account taker tout out) t t'"
  using run mint_flows [OF ok, of tout mint_out taker "mint_authority_pda R" out cap t t']
    transfer_flows(1) [OF ok plain, of "vault_authority R" taker "vault_authority R" out t']
  by (auto simp: pay_token_out_def exec_params_def split: if_splits intro: flows_nothing)

lemma exchange_flows:
  assumes ok: "token_program_ok R"
    and run: "execute_token_operations R (exec_params R taker b tin tout net fee out cap) mint_in mint_out t = Inr t'"
    and mints: "plain_mint t tin" "plain_mint t tout"
  shows "flows (plus_flow (at_account taker tin (net + fee)) (at_account (vault_authority R) tout out))
    (at_account taker tout out) t t'"
proof -
  let ?p = "exec_params R taker b tin tout net fee out cap"
  from run obtain t1 where t1: "pay_token_in R ?p mint_in t = Inr t1" and t2: "pay_token_out R ?p mint_out t1 = Inr t'"
    by (auto simp: execute_token_operations_def)
  note 1 = pay_token_in_flows [OF ok mints(1) t1]
  from 1 mints(2) have "plain_mint t1 tout" by (simp add: flows_plain)
  from flows_trans [OF 1 pay_token_out_flows [OF ok this t2]] show ?thesis
    by (rule flows_mono) (simp add: flow_defs)
qed

text \<open>The execution of a redemption: the amount from the vault, and the payment, if it is not minted.\<close>

lemma redemption_flows:
  assumes ok: "token_program_ok R" and fees: "fees_withheld R"
    and run: "execute_redemption_operations R p mint_in mint_out t = Inr t'"
  shows "flows (plus_flow (at_account (r_vault p) (r_token_in_mint p) (r_token_in_net_amount p + r_token_in_fee_amount p))
     (at_account (r_vault p) (r_token_out_mint p)
        (if program_controls_mint mint_out (r_mint_authority p) then 0 else r_token_out_amount p))) nothing t t'"
proof -
  let ?in = "\<lambda>n. at_account (r_vault p) (r_token_in_mint p) n"
  let ?pay_in = "if program_controls_mint mint_in (r_mint_authority p)
        then attempt (burn_tokens R (r_token_in_mint p) (r_vault p) (r_vault p) (r_token_in_net_amount p) t) (\<lambda>t.
             if 0 < r_token_in_fee_amount p
             then transfer_tokens R (r_token_in_mint p) (r_vault p) (r_boss p) (r_vault p) (r_token_in_fee_amount p) t
             else Inr t)
        else attempt (ok_or (checked_add 64 (r_token_in_net_amount p) (r_token_in_fee_amount p))
                        (redemption_err ''OverflowError'')) (\<lambda>total.
             transfer_tokens R (r_token_in_mint p) (r_vault p) (r_boss p) (r_vault p) total t)"
  from run obtain t1 where pay: "?pay_in = Inr t1"
    and out: "(if program_controls_mint mint_out (r_mint_authority p)
     then mint_tokens R (r_token_out_mint p) mint_out (r_user p) (r_mint_authority p) (r_token_out_amount p)
            (r_token_out_max_supply p) t1
     else transfer_tokens R (r_token_out_mint p) (r_vault p) (r_user p) (r_vault p) (r_token_out_amount p) t1) = Inr t'"
    unfolding execute_redemption_operations_def attempt_Inr by blast
  have 1: "flows (?in (r_token_in_net_amount p + r_token_in_fee_amount p)) nothing t t1"
  proof (cases "program_controls_mint mint_in (r_mint_authority p)")
    case True
    with pay obtain t0 where t0: "burn_tokens R (r_token_in_mint p) (r_vault p) (r_vault p) (r_token_in_net_amount p) t = Inr t0"
      and fee: "(if 0 < r_token_in_fee_amount p
        then transfer_tokens R (r_token_in_mint p) (r_vault p) (r_boss p) (r_vault p) (r_token_in_fee_amount p) t0 else Inr t0) = Inr t1"
      by (auto simp del: Inr_inject)
    note 1 = burn_flows(1) [OF ok t0]
    have 2: "flows (?in (r_token_in_fee_amount p)) nothing t0 t1"
      using fee transfer_out(1) [OF fees] by (auto split: if_splits intro: flows_nothing)
    show ?thesis by (rule flows_mono [OF flows_trans [OF 1 2]]) (simp add: flow_defs)
  next
    case False
    with pay show ?thesis using transfer_out(1) [OF fees] by auto
  qed
  have "flows (at_account (r_vault p) (r_token_out_mint p)
        (if program_controls_mint mint_out (r_mint_authority p) then 0 else r_token_out_amount p))
        nothing t1 t'"
    using out mint_flows [OF ok, of "r_token_out_mint p", THEN flows_forget] transfer_out(1) [OF fees]
    by (auto split: if_splits intro: flows_nothing)
  from flows_trans [OF 1 this] show ?thesis by (rule flows_mono) (simp add: flow_defs)
qed

section \<open>The outflow of an instruction\<close>

lemma calculate_fees_sum: "calculate_fees n bps = Inr (fee, net) \<Longrightarrow> net + fee = n"
  by (auto simp: calculate_fees_def Let_def)

lemma process_offer_core_sum: "process_offer_core R off x tin mi tout mo = Inr res \<Longrightarrow> net_amount res + fee_amount res = x"
  by (auto simp: process_offer_core_def split: prod.splits dest: calculate_fees_sum)

lemma process_redemption_core_sum:
  "process_redemption_core R off n mi mo bps = Inr res \<Longrightarrow> net_amount res + fee_amount res = n"
  by (auto simp: process_redemption_core_def Let_def split: prod.splits dest: calculate_fees_sum)

text \<open>A purchase refuses mints with a transfer fee.\<close>

lemma exchange_plain:
  assumes "execute_token_operations R p mi mo t = Inr t'" and "mints t0 tin = Some mi" and "mints t0 tout = Some mo"
  shows "plain_mint t0 tin" and "plain_mint t0 tout"
  using assms by (auto simp: execute_token_operations_def intro: plain_mintI)

lemma take_offer_flows:
  assumes ok: "token_program_ok R" and run: "take_offer R T u b tin tout x ap c = Inr c'"
  obtains s off mi mo res where "state_acc c = Some s" "\<not> is_killed s" "offers c (offer_pda R tin tout) = Some off"
    "mints (tok c) tin = Some mi" "mints (tok c) tout = Some mo" "process_offer_core R off x tin mi tout mo = Inr res"
    "flows (plus_flow (at_account u tin x) (at_account (vault_authority R) tout (out_amount res)))
       (at_account u tout (out_amount res)) (tok c) (tok c')"
proof -
  from take_offer_Inr [OF run] obtain s off mi mo res t where *: "state_acc c = Some s" "boss s = b" "\<not> is_killed s"
    "offers c (offer_pda R tin tout) = Some off" "mints (tok c) tin = Some mi" "mints (tok c) tout = Some mo"
    "verify_offer_approval R T off ap u (approver1 s) (approver2 s) = Inr ()" "process_offer_core R off x tin mi tout mo = Inr res"
    "execute_token_operations R (exec_params R u b tin tout (net_amount res) (fee_amount res) (out_amount res)
       (max_supply s)) mi mo (tok c) = Inr t"
    "c' = emit (OfferTakenEvent (offer_pda R tin tout) (net_amount res) (out_amount res) (fee_amount res) u) (put_tok t c)" .
  from exchange_flows [OF ok *(9)] exchange_plain [OF *(9,5,6)]
  have "flows (plus_flow (at_account u tin x) (at_account (vault_authority R) tout (out_amount res)))
       (at_account u tout (out_amount res)) (tok c) t"
    unfolding process_offer_core_sum [OF *(8)] by simp
  with * that show ?thesis by simp
qed

text \<open>Through the intermediary: what it is paid it pays on, so it has no part in the balance.\<close>

lemma take_offer_permissionless_flows:
  assumes ok: "token_program_ok R"
    and run: "take_offer_permissionless R T u b va pa ma tin tout x ap c = Inr c'"
  obtains s off mi mo res where "state_acc c = Some s" "\<not> is_killed s" "offers c (offer_pda R tin tout) = Some off"
    "mints (tok c) tin = Some mi" "mints (tok c) tout = Some mo" "process_offer_core R off x tin mi tout mo = Inr res"
    "flows (plus_flow (at_account u tin x) (at_account (vault_authority R) tout (out_amount res)))
       (at_account u tout (out_amount res)) (tok c) (tok c')"
proof -
  from take_offer_permissionless_Inr [OF run] obtain s off mi mo res t1 t2 t3 where *: "state_acc c = Some s" "boss s = b"
    "\<not> is_killed s" "offers c (offer_pda R tin tout) = Some off" "mints (tok c) tin = Some mi" "mints (tok c) tout = Some mo"
    "verify_offer_approval R T off ap u (approver1 s) (approver2 s) = Inr ()" "allow_permissionless off"
    "process_offer_core R off x tin mi tout mo = Inr res" "pa = permissionless_authority R"
    "transfer_tokens R tin u pa u x (tok c) = Inr t1"
    "execute_token_operations R (exec_params R pa b tin tout (net_amount res) (fee_amount res) (out_amount res)
       (max_supply s)) mi mo t1 = Inr t2"
    "transfer_tokens R tout pa u pa (out_amount res) t2 = Inr t3"
    "c' = emit (OfferTakenPermissionlessEvent (offer_pda R tin tout) (net_amount res) (out_amount res) (fee_amount res) u)
       (put_tok t3 c)" .
  note p = exchange_plain [OF *(12,5,6)]
  note 1 = transfer_flows(1) [OF ok p(1) *(11)]
  note 2 = exchange_flows [OF ok *(12), unfolded process_offer_core_sum [OF *(9)] flows_plain [OF 1], OF p]
  note 3 = transfer_flows(1) [OF ok _ *(13), unfolded flows_plain [OF 2] flows_plain [OF 1], OF p(2)]
  have "flows (plus_flow (at_account u tin x) (at_account (vault_authority R) tout (out_amount res)))
       (at_account u tout (out_amount res)) (tok c) t3"
    by (rule flows_mono [OF flows_trans [OF flows_trans [OF 1 2] 3]]) (simp add: plus_flow_def)
  with * that show ?thesis by simp
qed

lemma fulfill_flows:
  assumes ok: "token_program_ok R" and fees: "fees_withheld R"
    and run: "fulfill_redemption_request R k b off_key a rk u tin tout c = Inr c'"
  obtains s off ro rr mi mo res where "state_acc c = Some s" "\<not> is_killed s" "k = redemption_admin s"
    "offers c off_key = Some off" "redemption_offers c a = Some ro" "redemption_requests c rk = Some rr" "rr_offer rr = a"
    "u = redeemer rr" "tin = ro_token_in_mint ro" "tout = ro_token_out_mint ro"
    "mints (tok c) tin = Some mi" "mints (tok c) tout = Some mo"
    "process_redemption_core R off (amount rr) mi mo (ro_fee_basis_points ro) = Inr res"
    "redemption_offers c' = (redemption_offers c)(a \<mapsto> ro\<lparr>executed_redemptions := executed_redemptions ro + amount rr,
        requested_redemptions := requested_redemptions ro - amount rr\<rparr>)" "amount rr \<le> requested_redemptions ro"
    "flows (plus_flow (at_account (redemption_vault_authority R) tin (amount rr))
        (at_account (redemption_vault_authority R) tout
           (if program_controls_mint mo (mint_authority_pda R) then 0 else out_amount res)))
       nothing (tok c) (tok c')"
proof -
  from run obtain s off ro rr mi mo res where *: "state_acc c = Some s" "\<not> is_killed s" "k = redemption_admin s"
    "offers c off_key = Some off" "redemption_offers c a = Some ro" "redemption_requests c rk = Some rr" "rr_offer rr = a"
    "u = redeemer rr" "tin = ro_token_in_mint ro" "tout = ro_token_out_mint ro"
    "mints (tok c) tin = Some mi" "mints (tok c) tout = Some mo"
    "process_redemption_core R off (amount rr) mi mo (ro_fee_basis_points ro) = Inr res"
    "redemption_offers c' = (redemption_offers c)(a \<mapsto> ro\<lparr>executed_redemptions := executed_redemptions ro + amount rr,
        requested_redemptions := requested_redemptions ro - amount rr\<rparr>)" "amount rr \<le> requested_redemptions ro"
    "execute_redemption_operations R
        \<lparr>r_token_in_mint = tin, r_token_in_net_amount = net_amount res, r_token_in_fee_amount = fee_amount res,
         r_boss = b, r_vault = redemption_vault_authority R, r_token_out_mint = tout,
         r_token_out_amount = out_amount res, r_user = u,
         r_mint_authority = mint_authority_pda R, r_token_out_max_supply = 0\<rparr> mi mo (tok c) = Inr (tok c')"
    by (auto simp: fulfill_redemption_request_def Let_def)
  note 1 = redemption_flows [OF ok fees *(16)]
  from 1 have "flows (plus_flow (at_account (redemption_vault_authority R) tin (amount rr))
        (at_account (redemption_vault_authority R) tout
           (if program_controls_mint mo (mint_authority_pda R) then 0 else out_amount res)))
       nothing (tok c) (tok c')"
    by (cases "program_controls_mint mo (mint_authority_pda R)")
      (simp_all add: process_redemption_core_sum [OF *(13)])
  then show ?thesis by (rule that [OF *(1-15)])
qed

text \<open>Instructions that move no tokens.\<close>

fun moves_tokens :: "instruction \<Rightarrow> bool" where
  "moves_tokens (OfferVaultDeposit _ _ _) = True"
| "moves_tokens (OfferVaultWithdraw _ _ _) = True"
| "moves_tokens (RedemptionVaultDeposit _ _ _) = True"
| "moves_tokens (RedemptionVaultWithdraw _ _ _) = True"
| "moves_tokens (TakeOffer _ _ _ _ _ _) = True"
| "moves_tokens (TakeOfferPermissionless _ _ _ _ _ _ _ _ _) = True"
| "moves_tokens (TransferMintAuthorityToProgram _ _) = True"
| "moves_tokens (TransferMintAuthorityToBoss _ _) = True"
| "moves_tokens (MintTo _ _ _) = True"
| "moves_tokens (CreateRedemptionRequest _ _ _ _) = True"
| "moves_tokens (FulfillRedemptionRequest _ _ _ _ _ _ _ _) = True"
| "moves_tokens (CancelRedemptionRequest _ _ _ _ _ _) = True"
| "moves_tokens _ = False"

lemma tokens_frame:
  assumes "execute W i c = Inr c'" and "\<not> moves_tokens i"
  shows "tok c' = tok c"
  using assms
  by (cases i) (auto simp: state_op_defs offer_op_defs make_redemption_offer_def update_redemption_offer_fee_def query_defs
      drop_value_def Let_def has_one_boss_def split: prod.splits if_splits)

text \<open>
  What an instruction may take: \<open>stake\<close> from its signer, \<open>release\<close> from a vault, with the state and the signature that
  it needs.
\<close>

fun stake :: "instruction \<Rightarrow> flow" where
  "stake (OfferVaultDeposit b m n) = at_account b m n"
| "stake (RedemptionVaultDeposit b m n) = at_account b m n"
| "stake (TakeOffer u b tin tout x ap) = at_account u tin x"
| "stake (TakeOfferPermissionless u b va pa ma tin tout x ap) = at_account u tin x"
| "stake (CreateRedemptionRequest u ro tin n) = at_account u tin n"
| "stake _ = nothing"

definition sells :: "runtime \<Rightarrow> chain \<Rightarrow> pubkey \<Rightarrow> pubkey \<Rightarrow> nat \<Rightarrow> nat \<Rightarrow> bool" where
  "sells R c tin tout x k \<longleftrightarrow> (\<exists>off mi mo res. offers c (offer_pda R tin tout) = Some off \<and>
     mints (tok c) tin = Some mi \<and> mints (tok c) tout = Some mo \<and> process_offer_core R off x tin mi tout mo = Inr res \<and>
     k = out_amount res)"

definition redeems :: "runtime \<Rightarrow> chain \<Rightarrow> pubkey \<Rightarrow> RedemptionRequest \<Rightarrow> pubkey \<Rightarrow> pubkey \<Rightarrow> nat \<Rightarrow> bool" where
  "redeems R c off_key rr tin tout k \<longleftrightarrow> (\<exists>off ro mi mo res. offers c off_key = Some off \<and>
     redemption_offers c (rr_offer rr) = Some ro \<and> tin = ro_token_in_mint ro \<and> tout = ro_token_out_mint ro \<and>
     mints (tok c) tin = Some mi \<and> mints (tok c) tout = Some mo \<and>
     process_redemption_core R off (amount rr) mi mo (ro_fee_basis_points ro) = Inr res \<and> k = out_amount res)"

fun release :: "runtime \<Rightarrow> chain \<Rightarrow> State \<Rightarrow> instruction \<Rightarrow> pubkey \<Rightarrow> pubkey \<Rightarrow> nat \<Rightarrow> bool" where
  "release R c s (OfferVaultWithdraw b m' n) a m k \<longleftrightarrow> b = boss s \<and> a = vault_authority R \<and> m = m' \<and> k = n"
| "release R c s (RedemptionVaultWithdraw b m' n) a m k \<longleftrightarrow> b = boss s \<and> a = redemption_vault_authority R \<and> m = m' \<and> k = n"
| "release R c s (TakeOffer u b tin tout x ap) a m k \<longleftrightarrow>
     \<not> is_killed s \<and> a = vault_authority R \<and> m = tout \<and> sells R c tin tout x k"
| "release R c s (TakeOfferPermissionless u b va pa ma tin tout x ap) a m k \<longleftrightarrow>
     \<not> is_killed s \<and> a = vault_authority R \<and> m = tout \<and> sells R c tin tout x k"
| "release R c s (FulfillRedemptionRequest k' b off_key ro rk u tin tout) a m k \<longleftrightarrow>
     \<not> is_killed s \<and> k' = redemption_admin s \<and> a = redemption_vault_authority R \<and> m \<in> {tin, tout} \<and>
     (\<exists>rr out. redemption_requests c rk = Some rr \<and> u = redeemer rr \<and> redeems R c off_key rr tin tout out \<and>
        k \<le> (if m = tin then amount rr else 0) + (if m = tout then out else 0))"
| "release R c s (CancelRedemptionRequest k' ro rk u ad tin) a m k \<longleftrightarrow>
     \<not> is_killed s \<and> a = redemption_vault_authority R \<and> m = tin \<and>
     (\<exists>rr. redemption_requests c rk = Some rr \<and> u = redeemer rr \<and> k' \<in> {boss s, redemption_admin s, redeemer rr} \<and>
        k = amount rr)"
| "release R c s _ a m k \<longleftrightarrow> False"

definition authorised :: "world \<Rightarrow> chain \<Rightarrow> instruction \<Rightarrow> pubkey \<Rightarrow> pubkey \<Rightarrow> nat \<Rightarrow> bool" where
  "authorised W c i a m k \<longleftrightarrow> k = 0 \<or> (signer_of i = Some a \<and> k = stake i a m) \<or>
     (\<exists>s. state_acc c = Some s \<and> release (rt W) c s i a m k)"

text \<open>What changes token accounts in an authorised way.\<close>

definition authorised_change :: "world \<Rightarrow> chain \<Rightarrow> instruction \<Rightarrow> tokens \<Rightarrow> bool" where
  "authorised_change W c i t \<longleftrightarrow> (\<exists>d g. flows d g (tok c) t \<and> (\<forall>a m. authorised W c i a m (d a m)))"

lemma authorised_changeI: "flows d g (tok c) t \<Longrightarrow> (\<And>a m. authorised W c i a m (d a m)) \<Longrightarrow> authorised_change W c i t"
  unfolding authorised_change_def by blast

lemma authorised_nothing: "flows nothing g (tok c) t \<Longrightarrow> authorised_change W c i t"
  by (erule authorised_changeI) (simp add: nothing_def authorised_def)

lemma authorised_change_bound:
  "authorised_change W c i t \<Longrightarrow> \<exists>k. balance (tok c) a m \<le> balance t a m + k \<and> authorised W c i a m k"
  unfolding authorised_change_def using flows_balance by (metis le_add1 order_trans)

lemma authorised_change_plain: "authorised_change W c i t \<Longrightarrow> plain_mint t m = plain_mint (tok c) m"
  unfolding authorised_change_def using flows_plain by blast

section \<open>Locked tokens\<close>

text \<open>What redemption offers record as requested in a mint.\<close>

definition owed :: "pubkey \<Rightarrow> RedemptionOffer \<Rightarrow> nat" where
  "owed m ro = (if ro_token_in_mint ro = m then requested_redemptions ro else 0)"

definition locked :: "chain \<Rightarrow> pubkey \<Rightarrow> nat" where
  "locked c m = (\<Sum>a\<in>dom (redemption_offers c). owed m (the (redemption_offers c a)))"

lemma locked_cong: "redemption_offers c' = redemption_offers c \<Longrightarrow> locked c' m = locked c m"
  by (simp add: locked_def)

lemma locked_upd:
  assumes "finite (dom (redemption_offers c))" and "redemption_offers c a = Some ro"
    and "redemption_offers c' = (redemption_offers c)(a \<mapsto> ro')"
  shows "locked c' m + owed m ro = locked c m + owed m ro'"
proof -
  let ?D = "dom (redemption_offers c)"
  have a: "a \<in> ?D" and D: "dom (redemption_offers c') = ?D" using assms(2,3) by auto
  have "(\<Sum>b\<in>?D - {a}. owed m (the (redemption_offers c' b))) = (\<Sum>b\<in>?D - {a}. owed m (the (redemption_offers c b)))"
    by (rule sum.cong) (simp_all add: assms(3))
  then show ?thesis
    unfolding locked_def D using sum.remove [OF assms(1) a, of "\<lambda>b. owed m (the (redemption_offers c b))"]
      sum.remove [OF assms(1) a, of "\<lambda>b. owed m (the (redemption_offers c' b))"] by (simp add: assms(2,3))
qed

lemma locked_new:
  assumes "finite (dom (redemption_offers c))" and "redemption_offers c a = None"
    and "redemption_offers c' = (redemption_offers c)(a \<mapsto> ro')"
  shows "locked c' m = locked c m + owed m ro'"
proof -
  let ?D = "dom (redemption_offers c)"
  have a: "a \<notin> ?D" and D: "dom (redemption_offers c') = insert a ?D" using assms(2,3) by auto
  have "(\<Sum>b\<in>?D. owed m (the (redemption_offers c' b))) = (\<Sum>b\<in>?D. owed m (the (redemption_offers c b)))"
    by (rule sum.cong) (use a in \<open>auto simp: assms(3)\<close>)
  then show ?thesis
    unfolding locked_def D sum.insert [OF assms(1) a] by (simp add: assms(3))
qed

lemma owed_le_locked:
  assumes "finite (dom (redemption_offers c))" and "redemption_offers c a = Some ro"
  shows "owed m ro \<le> locked c m"
  using member_le_sum [of a "dom (redemption_offers c)" "\<lambda>a. owed m (the (redemption_offers c a))"] assms
  unfolding locked_def by auto

lemma finite_redemption_offers: "reachable F c \<Longrightarrow> finite (dom (redemption_offers c))"
proof (induction rule: reachable.induct)
  case (Step c lbl c')
  from Step.hyps(2) show ?case
  proof (cases rule: chain_step.cases)
    case (Run W i)
    show ?thesis
    proof (cases "writes_redemptions i")
      case False
      with redemptions_frame [OF Run(3)] Step.IH show ?thesis by simp
    next
      case True
      with Run(3) Step.IH show ?thesis
        by (cases i) (auto simp: redemption_op_defs Let_def has_one_boss_def)
    qed
  qed (use Step.IH in simp)
qed (simp add: empty_chain_def)

text \<open>
  A run in which every instruction meets a token program that behaves as documented and is signed by no derived
  address, and in which other programs take nothing from the vault \<open>v\<close> in the mint \<open>m\<close> and give \<open>m\<close> no transfer fee.
\<close>

inductive custody_run :: "(seed list \<Rightarrow> pubkey) \<Rightarrow> pubkey \<Rightarrow> pubkey \<Rightarrow> chain \<Rightarrow> instruction list \<Rightarrow> chain \<Rightarrow> bool" for F v m c where
  Rest: "custody_run F v m c [] c"
| Act: "custody_run F v m c ls c' \<Longrightarrow> find_program_address (rt W) = F \<Longrightarrow> token_program_ok (rt W) \<Longrightarrow>
     fees_withheld (rt W) \<Longrightarrow> (\<And>ss. signer_of i \<noteq> Some (F ss)) \<Longrightarrow> execute W i c' = Inr c'' \<Longrightarrow> custody_run F v m c (ls @ [i]) c''"
| Others: "custody_run F v m c ls c' \<Longrightarrow> plain_mint t m \<Longrightarrow> balance (tok c') v m \<le> balance t v m \<Longrightarrow>
     custody_run F v m c ls (c'\<lparr>tok := t, lamports := l\<rparr>)"

lemma custody_run_reachable: "custody_run F v m c ls c' \<Longrightarrow> reachable F c \<Longrightarrow> reachable F c'"
proof (induction rule: custody_run.induct)
  case (Act ls c' W i c'')
  show ?case by (rule reachable.Step [OF Act.IH [OF Act.prems] chain_step.Run [OF Act.hyps(2,6)]])
next
  case (Others ls c' t l)
  show ?case by (rule reachable.Step [OF Others.IH [OF Others.prems] chain_step.Outside])
qed

text \<open>Instructions that take no liquidity in the mint from the redemption vault.\<close>

fun spares :: "pubkey \<Rightarrow> instruction \<Rightarrow> bool" where
  "spares m (RedemptionVaultWithdraw b m' n) = (m' \<noteq> m)"
| "spares m (MakeRedemptionOffer k tin tout fee) = (tout \<noteq> m)"
| "spares m _ = True"

definition covered :: "(seed list \<Rightarrow> pubkey) \<Rightarrow> pubkey \<Rightarrow> chain \<Rightarrow> bool" where
  "covered F m c \<longleftrightarrow> plain_mint (tok c) m \<and> finite (dom (redemption_offers c)) \<and>
     (\<forall>a ro. redemption_offers c a = Some ro \<longrightarrow> ro_token_out_mint ro \<noteq> m) \<and>
     locked c m \<le> balance (tok c) (F [Seed ''redemption_offer_vault_authority'']) m"

lemma covered_same_offers:
  "covered F m c \<Longrightarrow> redemption_offers c' = redemption_offers c \<Longrightarrow> plain_mint (tok c') m \<Longrightarrow>
     balance (tok c) (F [Seed ''redemption_offer_vault_authority'']) m \<le>
       balance (tok c') (F [Seed ''redemption_offer_vault_authority'']) m \<Longrightarrow> covered F m c'"
  unfolding covered_def using locked_cong [of c' c m] by simp

lemma covered_upd:
  assumes "covered F m c" and "redemption_offers c a = Some ro" and "redemption_offers c' = (redemption_offers c)(a \<mapsto> ro')"
    and "ro_token_out_mint ro' = ro_token_out_mint ro" and "plain_mint (tok c') m"
    and "balance (tok c) (F [Seed ''redemption_offer_vault_authority'']) m + owed m ro' \<le>
       balance (tok c') (F [Seed ''redemption_offer_vault_authority'']) m + owed m ro"
  shows "covered F m c'"
proof -
  from assms(1) have 1: "finite (dom (redemption_offers c))" "ro_token_out_mint ro \<noteq> m"
    "locked c m \<le> balance (tok c) (F [Seed ''redemption_offer_vault_authority'']) m"
    and 2: "\<And>b r. redemption_offers c b = Some r \<Longrightarrow> ro_token_out_mint r \<noteq> m"
    using assms(2) unfolding covered_def by blast+
  have "ro_token_out_mint r \<noteq> m" if "redemption_offers c' b = Some r" for b r
    using that 1(2) 2 [of b r] assms(3,4) by (simp split: if_splits)
  moreover have "locked c' m \<le> balance (tok c') (F [Seed ''redemption_offer_vault_authority'']) m"
    using locked_upd [OF 1(1) assms(2,3), of m] 1(3) assms(6) by linarith
  ultimately show ?thesis using assms(3,5) 1(1) unfolding covered_def by simp
qed

end
