(* ===== verification/Chain_Custody_Props.thy ===== *)
theory Chain_Custody_Props
  imports Chain_Custody Chain_Ledger_Props
begin

text \<open>
  Custody: what can leave a token account, and that the tokens locked by redemption requests stay in the vault.
\<close>

section \<open>Who can be made to pay\<close>

lemma authorised_purchase:
  assumes flows: "flows (plus_flow (at_account u tin x) (at_account (vault_authority R) tout k)) g (tok c) t'"
    and signer: "signer_of i = Some u" "stake i = at_account u tin x" "u \<noteq> vault_authority R" and R: "R = rt W"
    and release: "state_acc c = Some s" "release R c s i (vault_authority R) tout k"
  shows "authorised_change W c i t'"
  by (rule authorised_changeI [OF flows]) (use assms(2-) in \<open>auto simp: authorised_def flow_defs\<close>)

lemma instruction_authorised:
  assumes ok: "token_program_ok (rt W)" and fees: "fees_withheld (rt W)"
    and pda: "\<And>ss. signer_of i \<noteq> Some (find_program_address (rt W) ss)" and run: "execute W i c = Inr c'"
  shows "authorised_change W c i (tok c')"
proof (cases "moves_tokens i")
  case False
  with tokens_frame [OF run] show ?thesis by (simp add: authorised_nothing [OF flows_refl])
next
  case True
  let ?R = "rt W"
  show ?thesis
  proof (cases i)
    case (OfferVaultDeposit b m' n)
    with run have t: "transfer_tokens ?R m' b (vault_authority ?R) b n (tok c) = Inr (tok c')"
      by (auto simp: offer_vault_deposit_def)
    from transfer_out(1) [OF fees t] show ?thesis
      by (rule authorised_changeI) (simp add: OfferVaultDeposit authorised_def flow_defs)
  next
    case (OfferVaultWithdraw b m' n)
    with run obtain s where s: "state_acc c = Some s" "boss s = b"
      and t: "transfer_tokens ?R m' (vault_authority ?R) b (vault_authority ?R) n (tok c) = Inr (tok c')"
      by (auto simp: offer_vault_withdraw_def)
    from transfer_out(1) [OF fees t] show ?thesis
      by (rule authorised_changeI) (use s in \<open>simp add: OfferVaultWithdraw authorised_def at_account_def\<close>)
  next
    case (RedemptionVaultDeposit b m' n)
    with run have t: "transfer_tokens ?R m' b (redemption_vault_authority ?R) b n (tok c) = Inr (tok c')"
      by (auto simp: redemption_vault_deposit_def)
    from transfer_out(1) [OF fees t] show ?thesis
      by (rule authorised_changeI) (simp add: RedemptionVaultDeposit authorised_def flow_defs)
  next
    case (RedemptionVaultWithdraw b m' n)
    with run obtain s where s: "state_acc c = Some s" "boss s = b"
      and t: "transfer_tokens ?R m' (redemption_vault_authority ?R) b (redemption_vault_authority ?R) n (tok c) = Inr (tok c')"
      by (auto simp: redemption_vault_withdraw_def)
    from transfer_out(1) [OF fees t] show ?thesis
      by (rule authorised_changeI) (use s in \<open>simp add: RedemptionVaultWithdraw authorised_def at_account_def\<close>)
  next
    case (TakeOffer u b tin tout x ap)
    with run have r: "take_offer ?R (txc W) u b tin tout x ap c = Inr c'" by simp
    from take_offer_flows [OF ok r] obtain s off mi mo res where *: "state_acc c = Some s" "\<not> is_killed s"
      "offers c (offer_pda ?R tin tout) = Some off" "mints (tok c) tin = Some mi" "mints (tok c) tout = Some mo"
      "process_offer_core ?R off x tin mi tout mo = Inr res"
      "flows (plus_flow (at_account u tin x) (at_account (vault_authority ?R) tout (out_amount res)))
       (at_account u tout (out_amount res)) (tok c) (tok c')" .
    show ?thesis
      by (rule authorised_purchase [OF *(7)])
        (use * pda [of "[Seed ''offer_vault_authority'']"] in \<open>auto simp: TakeOffer sells_def vault_authority_def\<close>)
  next
    case (TakeOfferPermissionless u b va pa ma tin tout x ap)
    with run have r: "take_offer_permissionless ?R (txc W) u b va pa ma tin tout x ap c = Inr c'" by simp
    from take_offer_permissionless_flows [OF ok r] obtain s off mi mo res where *: "state_acc c = Some s" "\<not> is_killed s"
      "offers c (offer_pda ?R tin tout) = Some off" "mints (tok c) tin = Some mi" "mints (tok c) tout = Some mo"
      "process_offer_core ?R off x tin mi tout mo = Inr res"
      "flows (plus_flow (at_account u tin x) (at_account (vault_authority ?R) tout (out_amount res)))
       (at_account u tout (out_amount res)) (tok c) (tok c')" .
    show ?thesis
      by (rule authorised_purchase [OF *(7)])
        (use * pda [of "[Seed ''offer_vault_authority'']"] in \<open>auto simp: TakeOfferPermissionless sells_def vault_authority_def\<close>)
  next
    case (CreateRedemptionRequest u ro tin n)
    with run have r: "create_redemption_request ?R u ro tin n c = Inr c'" by simp
    from create_request_Inr [OF r]
    have "transfer_tokens ?R tin u (redemption_vault_authority ?R) u n (tok c) = Inr (tok c')" by metis
    from transfer_out(1) [OF fees this] show ?thesis
      by (rule authorised_changeI) (simp add: CreateRedemptionRequest authorised_def flow_defs)
  next
    case (FulfillRedemptionRequest k b off_key ro_key rk u tin tout)
    with run have r: "fulfill_redemption_request ?R k b off_key ro_key rk u tin tout c = Inr c'" by simp
    from fulfill_flows [OF ok fees r] obtain s off ro rr mi mo res where *: "state_acc c = Some s" "\<not> is_killed s"
      "k = redemption_admin s" "offers c off_key = Some off" "redemption_offers c ro_key = Some ro"
      "redemption_requests c rk = Some rr" "rr_offer rr = ro_key" "u = redeemer rr" "tin = ro_token_in_mint ro"
      "tout = ro_token_out_mint ro" "mints (tok c) tin = Some mi" "mints (tok c) tout = Some mo"
      "process_redemption_core ?R off (amount rr) mi mo (ro_fee_basis_points ro) = Inr res"
      "flows (plus_flow (at_account (redemption_vault_authority ?R) tin (amount rr))
        (at_account (redemption_vault_authority ?R) tout (if program_controls_mint mo (mint_authority_pda ?R) then 0 else out_amount res)))
       nothing (tok c) (tok c')" .
    have "redeems ?R c off_key rr tin tout (out_amount res)"
      unfolding redeems_def using * by blast
    then show ?thesis
      by (intro authorised_changeI [OF *(14)])
        (use * in \<open>auto simp: FulfillRedemptionRequest authorised_def flow_defs intro!: exI [of _ "out_amount res"]\<close>)
  next
    case (CancelRedemptionRequest k ro_key rk u ad tin)
    with run have r: "cancel_redemption_request ?R k ro_key rk u ad tin c = Inr c'" by simp
    from cancel_request_Inr [OF r] obtain s ro rr where *: "state_acc c = Some s" "\<not> is_killed s"
      "redemption_requests c rk = Some rr" "k \<in> {boss s, redemption_admin s, redeemer rr}" "u = redeemer rr"
      "transfer_tokens ?R tin (redemption_vault_authority ?R) u (redemption_vault_authority ?R) (amount rr) (tok c) = Inr (tok c')" .
    from transfer_out(1) [OF fees *(6)] show ?thesis
      by (rule authorised_changeI) (use * in \<open>auto simp: CancelRedemptionRequest authorised_def at_account_def\<close>)
  next
    case (MintTo b m' n)
    with run obtain x cap where "mint_tokens ?R m' x b (mint_authority_pda ?R) n cap (tok c) = Inr (tok c')"
      by (auto simp: mint_to_def)
    from mint_flows [OF ok this] show ?thesis by (rule authorised_nothing)
  next
    case (TransferMintAuthorityToProgram b m')
    with run have "set_authority ?R (tok c) m' b (mint_authority_pda ?R) = Inr (tok c')"
      by (auto simp: transfer_mint_authority_to_program_def)
    from set_authority_flows [OF ok this] show ?thesis by (rule authorised_nothing)
  next
    case (TransferMintAuthorityToBoss b m')
    with run have "set_authority ?R (tok c) m' (mint_authority_pda ?R) b = Inr (tok c')"
      by (auto simp: transfer_mint_authority_to_boss_def)
    from set_authority_flows [OF ok this] show ?thesis by (rule authorised_nothing)
  qed (use True in simp_all)
qed

text \<open>
  C3: whoever runs an instruction, a token account only loses tokens in one of two ways: its owner signed, and it loses
  at most the amount that the instruction names, of the mint that it names; or it is a vault, which only pays a
  withdrawal of the boss, a purchase at the price of the offer, a redemption that the redemption admin fulfils at the
  price of the offer, or the return of a request to its redeemer, signed by one of the three who may cancel it.
  The token program behaves as documented, with or without transfer fees: a transfer takes the amount from its source and
  may withhold a fee from the destination. Addresses that are derived by the program have no key and sign no instruction.
\<close>

theorem tokens_leave_only_authorised:
  assumes "token_program_ok (rt W)" and "fees_withheld (rt W)"
    and "\<And>ss. signer_of i \<noteq> Some (find_program_address (rt W) ss)" and "execute W i c = Inr c'"
    and "balance (tok c') a m < balance (tok c) a m"
  shows "(signer_of i = Some a \<and> balance (tok c) a m \<le> balance (tok c') a m + stake i a m) \<or>
    (\<exists>s k. state_acc c = Some s \<and> release (rt W) c s i a m k \<and> balance (tok c) a m \<le> balance (tok c') a m + k)"
  using authorised_change_bound [OF instruction_authorised [OF assms(1-4)], of a m] assms(5) unfolding authorised_def by force

lemma demo_fees_withheld: "fees_withheld (demo_rt t)"
  unfolding fees_withheld_def by (auto simp: demo_transfer_def split: if_splits intro!: exI [of _ 0])

theorem tokens_leave_only_authorised_witness:
  "balance (tok (put_tok demo_after demo_chain3)) k_user m_usdc < balance (tok demo_chain3) k_user m_usdc \<and>
   balance (tok demo_chain3) k_user m_usdc \<le> balance (tok (put_tok demo_after demo_chain3)) k_user m_usdc
     + stake (TakeOffer k_user k_boss m_usdc m_onyc 1000000 None) k_user m_usdc"
proof -
  let ?i = "TakeOffer k_user k_boss m_usdc m_onyc 1000000 None"
  let ?c = "emit (OfferTakenEvent demo_pda 990000 989901009 10000 k_user) (put_tok demo_after demo_chain3)"
  have run: "execute (demo_world 2000) ?i demo_chain3 = Inr ?c" by (simp add: demo_take_runs)
  have less: "balance (tok ?c) k_user m_usdc < balance (tok demo_chain3) k_user m_usdc"
    by (simp add: demo_after_def demo_tok_def)
  have "(signer_of ?i = Some k_user \<and> balance (tok demo_chain3) k_user m_usdc \<le> balance (tok ?c) k_user m_usdc + stake ?i k_user m_usdc) \<or>
    (\<exists>s k. state_acc demo_chain3 = Some s \<and> release (rt (demo_world 2000)) demo_chain3 s ?i k_user m_usdc k \<and>
       balance (tok demo_chain3) k_user m_usdc \<le> balance (tok ?c) k_user m_usdc + k)"
    by (rule tokens_leave_only_authorised [OF _ _ _ run less])
      (simp_all add: demo_token_program_ok demo_fees_withheld demo_keys_derived)
  then show ?thesis using less by auto
qed

section \<open>Locked tokens stay covered\<close>

lemma no_release:
  assumes "release R c s i (redemption_vault_authority R) m k" and "spares m i" and "\<not> writes_redemptions i"
    and "distinct_addresses (find_program_address R)"
  shows False
proof -
  have "vault_authority R \<noteq> redemption_vault_authority R"
    using assms(4) by (simp add: vault_authority_def redemption_vault_authority_def distinct_addressesD)
  then show ?thesis using assms(1-3) by (cases i) auto
qed

lemma cover_step:
  assumes "distinct_addresses F" and F: "find_program_address (rt W) = F" and ok: "token_program_ok (rt W)"
    and fees: "fees_withheld (rt W)" and pda: "\<And>ss. signer_of i \<noteq> Some (F ss)" and run: "execute W i c = Inr c'" and spares: "spares m i"
    and cov: "covered F m c"
  shows "covered F m c'"
proof -
  let ?R = "rt W"
  have v: "redemption_vault_authority ?R = F [Seed ''redemption_offer_vault_authority'']"
    by (simp add: redemption_vault_authority_def F)
  let ?v = "F [Seed ''redemption_offer_vault_authority'']"
  from cov have plain: "plain_mint (tok c) m" by (simp add: covered_def)
  have change: "authorised_change W c i (tok c')"
    by (rule instruction_authorised [OF ok fees _ run]) (simp add: F pda)
  have plain': "plain_mint (tok c') m" using authorised_change_plain [OF change] plain by simp
  show ?thesis
  proof (cases "writes_redemptions i")
    case False
    from authorised_change_bound [OF change] obtain k where k: "balance (tok c) ?v m \<le> balance (tok c') ?v m + k"
      "authorised W c i ?v m k" by blast
    have "k = 0" using k(2) no_release [of ?R c _ i m k] False spares assms(1) pda
      by (auto simp: authorised_def v F)
    with k(1) covered_same_offers [OF cov _ plain'] redemptions_frame [OF run False] show ?thesis by simp
  next
    case True
    then show ?thesis
    proof (cases rule: writes_redemptions.elims(2))
      case (1 k tin tout fee)
      let ?a = "redemption_offer_pda ?R tin tout"
      from 1 run obtain ro where "redemption_offers c ?a = None" "redemption_offers c' = (redemption_offers c)(?a \<mapsto> ro)"
        "requested_redemptions ro = 0" "ro_token_out_mint ro = tout" "tok c' = tok c"
        by (auto simp: make_redemption_offer_def Let_def)
      then show ?thesis
        using cov locked_new [of c ?a c' ro m] spares 1 unfolding covered_def by (auto simp: owed_def)
    next
      case (2 u a tin n)
      with run have r: "create_redemption_request ?R u a tin n c = Inr c'" by simp
      from create_request_Inr [OF r] obtain ro where ro: "redemption_offers c a = Some ro" "tin = ro_token_in_mint ro"
        "transfer_tokens ?R tin u ?v u n (tok c) = Inr (tok c')"
        "redemption_offers c' = (redemption_offers c)(a \<mapsto>
          ro\<lparr>requested_redemptions := requested_redemptions ro + n, request_counter := Suc (request_counter ro)\<rparr>)"
        unfolding v by metis
      have "u \<noteq> ?v" using pda 2 by auto
      then have "balance (tok c) ?v m + (if tin = m then n else 0) \<le> balance (tok c') ?v m"
        using flows_balance [OF transfer_flows(1) [OF ok _ ro(3)], of ?v m] plain
          flows_balance [OF transfer_out(1) [OF fees ro(3)], of ?v m]
        by (cases "tin = m") (auto simp: flow_defs split: if_splits)
      then show ?thesis by (intro covered_upd [OF cov ro(1,4) _ plain']) (auto simp: owed_def ro(2))
    next
      case (3 k b off_key a rk u tin tout)
      with run have r: "fulfill_redemption_request ?R k b off_key a rk u tin tout c = Inr c'" by simp
      obtain ro and rr :: RedemptionRequest and mo :: Mint and res :: OfferProcessResult where ro: "redemption_offers c a = Some ro"
        "tin = ro_token_in_mint ro" "tout = ro_token_out_mint ro"
        "redemption_offers c' = (redemption_offers c)(a \<mapsto> ro\<lparr>executed_redemptions := executed_redemptions ro + amount rr,
          requested_redemptions := requested_redemptions ro - amount rr\<rparr>)" "amount rr \<le> requested_redemptions ro"
        "flows (plus_flow (at_account (redemption_vault_authority ?R) tin (amount rr))
          (at_account (redemption_vault_authority ?R) tout
            (if program_controls_mint mo (mint_authority_pda ?R) then 0 else out_amount res)))
          nothing (tok c) (tok c')"
        by (rule fulfill_flows [OF ok fees r]) (rule that; assumption)
      have "tout \<noteq> m" using cov ro(1,3) unfolding covered_def by blast
      then have "balance (tok c) ?v m \<le> balance (tok c') ?v m + (if tin = m then amount rr else 0)"
        using flows_balance [OF ro(6) [unfolded v], of ?v m] by (auto simp: flow_defs split: if_splits)
      then show ?thesis using ro(5) by (intro covered_upd [OF cov ro(1,4) _ plain']) (auto simp: owed_def ro(2))
    next
      case (4 k a rk u ad tin)
      with run have r: "cancel_redemption_request ?R k a rk u ad tin c = Inr c'" by simp
      from this obtain ro and rr :: RedemptionRequest where ro: "redemption_offers c a = Some ro" "tin = ro_token_in_mint ro"
        "transfer_tokens ?R tin ?v u ?v (amount rr) (tok c) = Inr (tok c')" "amount rr \<le> requested_redemptions ro"
        "redemption_offers c' = (redemption_offers c)(a \<mapsto> ro\<lparr>requested_redemptions := requested_redemptions ro - amount rr\<rparr>)"
        unfolding v [symmetric] by (auto simp: cancel_redemption_request_def Let_def)
      have "balance (tok c) ?v m \<le> balance (tok c') ?v m + (if tin = m then amount rr else 0)"
        using flows_balance [OF transfer_out(1) [OF fees ro(3)], of ?v m] by (auto simp: flow_defs split: if_splits)
      then show ?thesis using ro(4) by (intro covered_upd [OF cov ro(1,5) _ plain']) (auto simp: owed_def ro(2))
    next
      case (5 b a fee)
      with run obtain ro where ro: "redemption_offers c a = Some ro"
        "redemption_offers c' = (redemption_offers c)(a \<mapsto> ro\<lparr>ro_fee_basis_points := fee\<rparr>)" "tok c' = tok c"
        by (auto simp: update_redemption_offer_fee_def has_one_boss_def)
      then show ?thesis by (intro covered_upd [OF cov ro(1,2) _ plain']) (auto simp: owed_def)
    qed
  qed
qed

lemma cover_run:
  assumes "custody_run F v m c ls c'" and "distinct_addresses F" and "v = F [Seed ''redemption_offer_vault_authority'']" and "covered F m c"
    and "\<forall>i\<in>set ls. spares m i"
  shows "covered F m c'"
  using assms
proof (induction rule: custody_run.induct)
  case (Act ls c' W i c'')
  then have "covered F m c'" by simp
  with Act.hyps Act.prems show ?case by (intro cover_step [of F W i c' c'' m]) auto
next
  case (Others ls c' t l)
  then have "covered F m c'" by simp
  with Others show ?case by (intro covered_same_offers [of F m c' "c'\<lparr>tok := t, lamports := l\<rparr>"]) auto
qed

text \<open>
  C7: the redemption vault stays solvent. Once it covers what the redemption offers record as requested in a mint, it does
  so after any instructions in any order, mixed with other programs, as long as the boss withdraws none of that mint
  from it and no redemption pays in that mint; so every open request in the mint can be paid back from the vault. That
  mint has no transfer fee, other programs take nothing of it from the vault, the token program behaves as documented,
  and the addresses that the program derives are distinct and sign nothing.
\<close>

theorem locked_tokens_stay_covered:
  assumes "reachable F c" and "distinct_addresses F" and "custody_run F (F [Seed ''redemption_offer_vault_authority'']) m c ls c'"
    and "plain_mint (tok c) m" and "\<forall>a ro. redemption_offers c a = Some ro \<longrightarrow> ro_token_out_mint ro \<noteq> m"
    and "\<forall>i\<in>set ls. spares m i" and "locked c m \<le> balance (tok c) (F [Seed ''redemption_offer_vault_authority'']) m"
  shows "locked c' m \<le> balance (tok c') (F [Seed ''redemption_offer_vault_authority'']) m \<and>
    (\<forall>k rr. redemption_requests c' k = Some rr \<longrightarrow> (\<exists>ro. redemption_offers c' (rr_offer rr) = Some ro \<and>
       (ro_token_in_mint ro = m \<longrightarrow> amount rr \<le> balance (tok c') (F [Seed ''redemption_offer_vault_authority'']) m)))"
proof -
  have "covered F m c" using assms(4,5,7) finite_redemption_offers [OF assms(1)] by (simp add: covered_def)
  from cover_run [OF assms(3,2) refl this assms(6)]
  have cov: "finite (dom (redemption_offers c'))" "locked c' m \<le> balance (tok c') (F [Seed ''redemption_offer_vault_authority'']) m"
    by (simp_all add: covered_def)
  note ok = ledger_reachable [OF custody_run_reachable [OF assms(3,1)] assms(2)]
  have "\<exists>ro. redemption_offers c' (rr_offer rr) = Some ro \<and>
       (ro_token_in_mint ro = m \<longrightarrow> amount rr \<le> balance (tok c') (F [Seed ''redemption_offer_vault_authority'']) m)"
    if k: "redemption_requests c' k = Some rr" for k rr
  proof -
    from ledger_request [OF ok k] obtain ro where ro: "k = request_at F (rr_offer rr) (request_id rr)"
      "redemption_offers c' (rr_offer rr) = Some ro" "request_id rr < request_counter ro" .
    from open_total_close(2) [OF assms(2) ro(3), of "redemption_requests c'" "rr_offer rr" rr] k ledger_offer [OF ok ro(2)] ro(1)
    have "amount rr \<le> requested_redemptions ro" by auto
    with owed_le_locked [OF cov(1) ro(2), of m] cov(2) ro(2) show ?thesis by (auto simp: owed_def)
  qed
  with cov(2) show ?thesis by blast
qed

theorem locked_tokens_stay_covered_witness:
  "\<exists>c1. create_redemption_request (demo_rt 5) k_user demo_ro_key m_onyc 500 demo_chain4 = Inr c1 \<and>
     locked c1 m_onyc \<le> balance (tok c1) (demo_find [Seed ''redemption_offer_vault_authority'']) m_onyc"
proof -
  let ?v = "demo_find [Seed ''redemption_offer_vault_authority'']"
  let ?i = "CreateRedemptionRequest k_user demo_ro_key m_onyc 500"
  obtain c1 where c1: "create_redemption_request (demo_rt 5) k_user demo_ro_key m_onyc 500 demo_chain4 = Inr c1"
    using demo_create_runs by blast
  have run: "custody_run demo_find ?v m_onyc demo_chain4 ([] @ [?i]) c1"
    by (rule custody_run.Act [OF custody_run.Rest, where W = "demo_world 5"])
      (simp_all add: c1 demo_token_program_ok demo_fees_withheld demo_keys_derived)
  have "locked c1 m_onyc \<le> balance (tok c1) ?v m_onyc \<and>
    (\<forall>k rr. redemption_requests c1 k = Some rr \<longrightarrow> (\<exists>ro. redemption_offers c1 (rr_offer rr) = Some ro \<and>
       (ro_token_in_mint ro = m_onyc \<longrightarrow> amount rr \<le> balance (tok c1) ?v m_onyc)))"
    by (rule locked_tokens_stay_covered [OF demo_reachable4 demo_distinct_addresses run])
      (auto simp: demo_chain4_sel plain_mint_def demo_after_mints demo_ro_sel locked_def owed_def)
  with c1 show ?thesis by blast
qed

text \<open>The withdrawal of the boss has to be left out: it does not look at what is locked.\<close>

lemma locked_tokens_can_be_withdrawn:
  "\<exists>c1 c2. create_redemption_request (demo_rt 5) k_user demo_ro_key m_onyc 500 demo_chain4 = Inr c1 \<and>
     redemption_vault_withdraw (demo_rt 5) k_boss m_onyc 500 c1 = Inr c2 \<and>
     balance (tok c2) (demo_find [Seed ''redemption_offer_vault_authority'']) m_onyc < locked c2 m_onyc"
proof -
  let ?v = "redemption_vault_authority (demo_rt 5)"
  have v: "?v \<noteq> k_user" "k_boss \<noteq> ?v" by (simp_all add: redemption_vault_authority_def)
  obtain c1 where c1: "create_redemption_request (demo_rt 5) k_user demo_ro_key m_onyc 500 demo_chain4 = Inr c1"
    using demo_create_runs by blast
  have ro: "redemption_offers demo_chain4 demo_ro_key = Some demo_ro" by (simp add: demo_chain4_sel)
  from create_request_Inr [OF c1] ro have t: "transfer_tokens (demo_rt 5) m_onyc k_user ?v k_user 500 demo_after = Inr (tok c1)"
    and "redemption_offers c1 = (redemption_offers demo_chain4)(demo_ro_key \<mapsto>
        demo_ro\<lparr>requested_redemptions := requested_redemptions demo_ro + 500, request_counter := Suc (request_counter demo_ro)\<rparr>)"
    by (metis option.inject demo_chain4_sel(2))+
  then have r: "redemption_offers c1 = [demo_ro_key \<mapsto> demo_ro\<lparr>requested_redemptions := 500, request_counter := 1\<rparr>]"
    by (simp add: demo_chain4_sel demo_ro_sel)
  have t1: "tok c1 = credit m_onyc ?v 500 (debit m_onyc k_user 500 demo_after)"
    using t by (simp add: transfer_tokens_def demo_transfer_def demo_after_def)
  have s1: "state_acc c1 = Some demo_state"
    using c1 by (auto simp: create_redemption_request_def Let_def demo_chain4_sel)
  let ?t = "credit m_onyc k_boss 500 (debit m_onyc ?v 500 (tok c1))"
  let ?c2 = "emit (RedemptionVaultWithdrawEvent m_onyc 500 k_boss) (put_tok ?t c1)"
  have "transfer_tokens (demo_rt 5) m_onyc ?v k_boss ?v 500 (tok c1) = Inr ?t"
    using v by (simp add: transfer_tokens_def demo_transfer_def t1)
  then have "redemption_vault_withdraw (demo_rt 5) k_boss m_onyc 500 c1 = Inr ?c2"
    by (simp add: redemption_vault_withdraw_def guard_defs s1 t1 demo_after_mints)
  moreover have "locked ?c2 m_onyc = 500"
    by (simp add: locked_def owed_def r demo_chain4_sel demo_ro_sel)
  moreover have "balance (tok ?c2) ?v m_onyc = 0"
    using v by (simp add: t1 demo_after_def demo_tok_def redemption_vault_authority_def)
  ultimately show ?thesis using c1 unfolding redemption_vault_authority_def by fastforce
qed

end
