(* ===== verification/Chain_Supply_Props.thy ===== *)
theory Chain_Supply_Props
  imports Chain_Custody Chain_Demo
begin

text \<open>
  Supply: which instructions can raise the supply of a mint, and how far.
\<close>

section \<open>Steps that mint nothing\<close>

definition mints_nothing :: "tokens \<Rightarrow> tokens \<Rightarrow> bool" where
  "mints_nothing t t' \<longleftrightarrow> (\<forall>m x'. mints t' m = Some x' \<longrightarrow> (\<exists>x. mints t m = Some x \<and> mint_supply x' \<le> mint_supply x))"

lemma mints_nothing_same: "mints t' = mints t \<Longrightarrow> mints_nothing t t'"
  by (simp add: mints_nothing_def)

lemma mints_nothing_trans: "mints_nothing t t' \<Longrightarrow> mints_nothing t' t'' \<Longrightarrow> mints_nothing t t''"
  unfolding mints_nothing_def by (meson order_trans)

lemma mints_nothingD: "mints_nothing t t' \<Longrightarrow> mints t m = Some x \<Longrightarrow> mints t' m = Some x' \<Longrightarrow> mint_supply x' \<le> mint_supply x"
  unfolding mints_nothing_def by fastforce

lemma transfer_mints_nothing:
  assumes "token_program_ok R" and "plain_mint t m" and "transfer_tokens R m a b s n t = Inr t'"
  shows "mints_nothing t t'"
  using transfer_ok [OF assms] by (simp add: mints_nothing_same)

lemma burn_mints_nothing:
  assumes "token_program_ok R" and "burn_tokens R m a s n t = Inr t'"
  shows "mints_nothing t t'"
  using burn_ok [OF assms] by (auto simp: mints_nothing_def)

lemma set_authority_mints_nothing:
  assumes "token_program_ok R" and "set_authority R t m s a = Inr t'"
  shows "mints_nothing t t'"
proof -
  obtain x where "mints t m = Some x" "t' = t\<lparr>mints := (mints t)(m \<mapsto> x\<lparr>mint_authority := Some a\<rparr>)\<rparr>"
    using assms(1) [unfolded token_program_ok_def, THEN conjunct2, THEN conjunct2, THEN conjunct2, rule_format, OF assms(2)] by blast
  then show ?thesis by (simp add: mints_nothing_def)
qed

section \<open>Minting\<close>

text \<open>At most the mint \<open>m\<close> grows, which \<open>p\<close> controls, and not beyond \<open>cap\<close> if that is set.\<close>

definition mints_only :: "pubkey \<Rightarrow> pubkey \<Rightarrow> nat \<Rightarrow> tokens \<Rightarrow> tokens \<Rightarrow> bool" where
  "mints_only m p cap t t' \<longleftrightarrow> (\<forall>m' x x'. mints t m' = Some x \<longrightarrow> mints t' m' = Some x' \<longrightarrow> mint_supply x < mint_supply x' \<longrightarrow>
     m' = m \<and> mint_authority x = Some p \<and> (cap = 0 \<or> mint_supply x' \<le> cap))"

lemma mints_onlyI: "mints_nothing t t' \<Longrightarrow> mints_only m p cap t t'"
  unfolding mints_only_def by (meson mints_nothingD not_le)

text \<open>Minting after steps that mint nothing, with the copy of the mint from before.\<close>

lemma mint_after:
  assumes ok: "token_program_ok R" and before: "mints_nothing t t1" and copy: "mints t m = Some mint"
    and controls: "program_controls_mint mint s" and run: "mint_tokens R m mint b s n cap t1 = Inr t'"
  shows "mints_only m s cap t t'"
  unfolding mints_only_def
proof (intro allI impI)
  fix m' x x' assume x: "mints t m' = Some x" "mints t' m' = Some x'" "mint_supply x < mint_supply x'"
  from mint_ok [OF ok run] have t': "t' = credit m b n (set_supply m (\<lambda>s. s + n) t1)" and cap: "0 < cap \<longrightarrow> mint_supply mint + n \<le> cap"
    by blast+
  have m: "m' = m"
  proof (rule ccontr)
    assume "m' \<noteq> m"
    then have "mints t1 m' = Some x'" using x(2) by (simp add: t')
    with mints_nothingD [OF before x(1)] x(3) show False by fastforce
  qed
  obtain y where y: "mints t1 m = Some y" "x' = y\<lparr>mint_supply := mint_supply y + n\<rparr>" using x(2) by (auto simp: t' m)
  with mints_nothingD [OF before copy] cap x(1) copy controls
  show "m' = m \<and> mint_authority x = Some s \<and> (cap = 0 \<or> mint_supply x' \<le> cap)"
    by (fastforce simp: m program_controls_mint_def)
qed

lemma exchange_mints:
  assumes ok: "token_program_ok R"
    and run: "execute_token_operations R (exec_params R taker b tin tout net fee out cap) mint_in mint_out t = Inr t'"
    and mints: "plain_mint t tin" "plain_mint t tout" "mints t tout = Some mint_out"
  shows "mints_only tout (mint_authority_pda R) cap t t'"
proof -
  let ?p = "exec_params R taker b tin tout net fee out cap"
  let ?v = "vault_authority R"
  from run obtain t1 where t1: "pay_token_in R ?p mint_in t = Inr t1" and t2: "pay_token_out R ?p mint_out t1 = Inr t'"
    by (auto simp: execute_token_operations_def)
  have 1: "mints_nothing t t1"
  proof (cases "program_controls_mint mint_in (mint_authority_pda R)")
    case False
    with t1 transfer_mints_nothing [OF ok mints(1)] show ?thesis by (auto simp: pay_token_in_def exec_params_def)
  next
    case True
    with t1 obtain u v where u: "transfer_tokens R tin taker ?v taker net t = Inr u" and v: "burn_tokens R tin ?v ?v net u = Inr v"
      and w: "if 0 < fee then transfer_tokens R tin taker b taker fee v = Inr t1 else t1 = v"
      by (auto simp: pay_token_in_def exec_params_def split: if_splits)
    have p: "plain_mint v tin"
      using flows_plain [OF burn_flows(1) [OF ok v]] flows_plain [OF transfer_flows(1) [OF ok mints(1) u]] mints(1) by simp
    have "mints_nothing v t1" using w transfer_mints_nothing [OF ok p] by (auto simp: mints_nothing_same split: if_splits)
    with transfer_mints_nothing [OF ok mints(1) u] burn_mints_nothing [OF ok v] show ?thesis by (blast intro: mints_nothing_trans)
  qed
  have p: "plain_mint t1 tout" using flows_plain [OF pay_token_in_flows [OF ok mints(1) t1]] mints(2) by simp
  show ?thesis
  proof (cases "program_controls_mint mint_out (mint_authority_pda R)")
    case True
    with t2 mint_after [OF ok 1 mints(3) True] show ?thesis by (simp add: pay_token_out_def exec_params_def)
  next
    case False
    with t2 have "mints_nothing t1 t'" using transfer_mints_nothing [OF ok p] by (simp add: pay_token_out_def exec_params_def)
    with 1 show ?thesis by (blast intro: mints_nothing_trans mints_onlyI)
  qed
qed

text \<open>A redemption mints its payment without a cap.\<close>

lemma redemption_mints:
  assumes ok: "token_program_ok R" and plain: "plain_mint t (r_token_in_mint p)" "plain_mint t (r_token_out_mint p)"
    and copy: "mints t (r_token_out_mint p) = Some mint_out"
    and run: "execute_redemption_operations R p mint_in mint_out t = Inr t'" and cap: "r_token_out_max_supply p = 0"
  shows "mints_only (r_token_out_mint p) (r_mint_authority p) 0 t t'"
proof -
  from run obtain t1 where 1: "mints_nothing t t1" and p: "plain_mint t1 (r_token_out_mint p)"
    and out: "(if program_controls_mint mint_out (r_mint_authority p)
     then mint_tokens R (r_token_out_mint p) mint_out (r_user p) (r_mint_authority p) (r_token_out_amount p)
            (r_token_out_max_supply p) t1
     else transfer_tokens R (r_token_out_mint p) (r_vault p) (r_user p) (r_vault p) (r_token_out_amount p) t1) = Inr t'"
  proof (cases "program_controls_mint mint_in (r_mint_authority p)")
    case False
    with run obtain t1 where t1: "transfer_tokens R (r_token_in_mint p) (r_vault p) (r_boss p) (r_vault p)
        (r_token_in_net_amount p + r_token_in_fee_amount p) t = Inr t1" and rest: "(if program_controls_mint mint_out (r_mint_authority p)
     then mint_tokens R (r_token_out_mint p) mint_out (r_user p) (r_mint_authority p) (r_token_out_amount p)
            (r_token_out_max_supply p) t1
     else transfer_tokens R (r_token_out_mint p) (r_vault p) (r_user p) (r_vault p) (r_token_out_amount p) t1) = Inr t'"
      by (auto simp: execute_redemption_operations_def)
    show ?thesis
      by (rule that [OF transfer_mints_nothing [OF ok plain(1) t1] _ rest])
        (simp add: flows_plain [OF transfer_flows(1) [OF ok plain(1) t1]] plain(2))
  next
    case True
    with run obtain u t1 where u: "burn_tokens R (r_token_in_mint p) (r_vault p) (r_vault p) (r_token_in_net_amount p) t = Inr u"
      and fee: "(if 0 < r_token_in_fee_amount p
        then transfer_tokens R (r_token_in_mint p) (r_vault p) (r_boss p) (r_vault p) (r_token_in_fee_amount p) u else Inr u) = Inr t1"
      and rest: "(if program_controls_mint mint_out (r_mint_authority p)
     then mint_tokens R (r_token_out_mint p) mint_out (r_user p) (r_mint_authority p) (r_token_out_amount p)
            (r_token_out_max_supply p) t1
     else transfer_tokens R (r_token_out_mint p) (r_vault p) (r_user p) (r_vault p) (r_token_out_amount p) t1) = Inr t'"
      unfolding execute_redemption_operations_def if_P [OF True] attempt_Inr by blast
    note pu = flows_plain [OF burn_flows(1) [OF ok u]]
    have "mints_nothing u t1 \<and> plain_mint t1 (r_token_out_mint p)"
      using fee transfer_mints_nothing [OF ok, of u] transfer_flows(1) [OF ok, of u "r_token_in_mint p", THEN flows_plain] plain pu
      by (auto simp: mints_nothing_same split: if_splits)
    with burn_mints_nothing [OF ok u] show ?thesis by (intro that [OF _ _ rest]) (auto intro: mints_nothing_trans)
  qed
  show ?thesis
  proof (cases "program_controls_mint mint_out (r_mint_authority p)")
    case True
    with out mint_after [OF ok 1 copy True] cap show ?thesis by simp
  next
    case False
    with out have "mints_nothing t1 t'" using transfer_mints_nothing [OF ok p] by simp
    with 1 show ?thesis by (blast intro: mints_nothing_trans mints_onlyI)
  qed
qed

section \<open>The instructions\<close>

text \<open>The instructions that may mint, with the mint and the cap, where 0 stands for none.\<close>

fun grants :: "State \<Rightarrow> instruction \<Rightarrow> pubkey \<Rightarrow> nat \<Rightarrow> bool" where
  "grants s (TakeOffer u b tin tout x ap) m cap \<longleftrightarrow> \<not> is_killed s \<and> m = tout \<and> cap = max_supply s"
| "grants s (TakeOfferPermissionless u b va pa ma tin tout x ap) m cap \<longleftrightarrow> \<not> is_killed s \<and> m = tout \<and> cap = max_supply s"
| "grants s (MintTo b m' n) m cap \<longleftrightarrow> b = boss s \<and> m' = onyc_mint s \<and> m = m' \<and> cap = max_supply s"
| "grants s (FulfillRedemptionRequest k b off ro rk u tin tout) m cap \<longleftrightarrow>
     \<not> is_killed s \<and> k = redemption_admin s \<and> m = tout \<and> cap = 0"
| "grants s _ m cap \<longleftrightarrow> False"

definition mints_as_granted :: "world \<Rightarrow> instruction \<Rightarrow> chain \<Rightarrow> tokens \<Rightarrow> bool" where
  "mints_as_granted W i c t \<longleftrightarrow> mints_nothing (tok c) t \<or>
     (\<exists>s m cap. state_acc c = Some s \<and> grants s i m cap \<and> mints_only m (mint_authority_pda (rt W)) cap (tok c) t)"

lemma granted_nothing: "mints_nothing (tok c) t \<Longrightarrow> mints_as_granted W i c t"
  by (simp add: mints_as_granted_def)

lemma granted_mint:
  "mints_only m (mint_authority_pda (rt W)) cap (tok c) t \<Longrightarrow> state_acc c = Some s \<Longrightarrow> grants s i m cap \<Longrightarrow> mints_as_granted W i c t"
  unfolding mints_as_granted_def by blast

definition no_transfer_fees :: "tokens \<Rightarrow> bool" where
  "no_transfer_fees t \<longleftrightarrow> (\<forall>m x. mints t m = Some x \<longrightarrow> plain_mint t m)"

lemma no_transfer_fees_plain: "no_transfer_fees t \<Longrightarrow> mints t m = Some x \<Longrightarrow> plain_mint t m"
  unfolding no_transfer_fees_def by blast

lemma vault_moves_mint_nothing:
  assumes "token_program_ok R" and "no_transfer_fees (tok c)"
    and "i \<in> {offer_vault_deposit R b m n, offer_vault_withdraw R b m n, redemption_vault_deposit R b m n, redemption_vault_withdraw R b m n}"
    and "i c = Inr c'"
  shows "mints_nothing (tok c) (tok c')"
proof -
  have "\<exists>x a a' s. mints (tok c) m = Some x \<and> transfer_tokens R m a a' s n (tok c) = Inr (tok c')"
    using assms(3,4) by (auto simp: offer_vault_deposit_def offer_vault_withdraw_def redemption_vault_deposit_def redemption_vault_withdraw_def) blast+
  with assms(1,2) show ?thesis using transfer_mints_nothing no_transfer_fees_plain by blast
qed

lemma execute_mints_as_granted:
  assumes ok: "token_program_ok (rt W)" and plain: "no_transfer_fees (tok c)" and run: "execute W i c = Inr c'"
  shows "mints_as_granted W i c (tok c')"
proof (cases "moves_tokens i")
  case False
  with tokens_frame [OF run] show ?thesis by (simp add: granted_nothing mints_nothing_same)
next
  case True
  let ?R = "rt W"
  note vaults = vault_moves_mint_nothing [OF ok plain, THEN granted_nothing]
  show ?thesis
  proof (cases i)
    case (OfferVaultDeposit b m n)
    with run show ?thesis by (intro vaults [of "offer_vault_deposit ?R b m n" b m n]) simp_all
  next
    case (OfferVaultWithdraw b m n)
    with run show ?thesis by (intro vaults [of "offer_vault_withdraw ?R b m n" b m n]) simp_all
  next
    case (RedemptionVaultDeposit b m n)
    with run show ?thesis by (intro vaults [of "redemption_vault_deposit ?R b m n" b m n]) simp_all
  next
    case (RedemptionVaultWithdraw b m n)
    with run show ?thesis by (intro vaults [of "redemption_vault_withdraw ?R b m n" b m n]) simp_all
  next
    case (TakeOffer u b tin tout x ap)
    with run have r: "take_offer ?R (txc W) u b tin tout x ap c = Inr c'" by simp
    from take_offer_Inr [OF r] obtain s mi mo and res :: OfferProcessResult where *: "state_acc c = Some s" "\<not> is_killed s"
      "mints (tok c) tin = Some mi" "mints (tok c) tout = Some mo"
      "execute_token_operations ?R (exec_params ?R u b tin tout (net_amount res) (fee_amount res) (out_amount res)
        (max_supply s)) mi mo (tok c) = Inr (tok c')"
      by (metis put_tok_sel(3) emit_sel(3))
    show ?thesis
      by (rule granted_mint [OF exchange_mints [OF ok *(5) _ _ *(4)] *(1)])
        (use * in \<open>simp_all add: TakeOffer no_transfer_fees_plain [OF plain]\<close>)
  next
    case (TakeOfferPermissionless u b va pa ma tin tout x ap)
    with run have r: "take_offer_permissionless ?R (txc W) u b va pa ma tin tout x ap c = Inr c'" by simp
    from take_offer_permissionless_Inr [OF r] obtain s off mi mo res t1 t2 t3 where *: "state_acc c = Some s" "boss s = b"
      "\<not> is_killed s" "offers c (offer_pda ?R tin tout) = Some off" "mints (tok c) tin = Some mi" "mints (tok c) tout = Some mo"
      "verify_offer_approval ?R (txc W) off ap u (approver1 s) (approver2 s) = Inr ()" "allow_permissionless off"
      "process_offer_core ?R off x tin mi tout mo = Inr res" "pa = permissionless_authority ?R"
      "transfer_tokens ?R tin u pa u x (tok c) = Inr t1"
      "execute_token_operations ?R (exec_params ?R pa b tin tout (net_amount res) (fee_amount res) (out_amount res)
         (max_supply s)) mi mo t1 = Inr t2"
      "transfer_tokens ?R tout pa u pa (out_amount res) t2 = Inr t3"
      "c' = emit (OfferTakenPermissionlessEvent (offer_pda ?R tin tout) (net_amount res) (out_amount res) (fee_amount res) u)
         (put_tok t3 c)" .
    have p: "plain_mint (tok c) tin" "plain_mint (tok c) tout" using plain *(5,6) by (auto dest: no_transfer_fees_plain)
    note f1 = flows_plain [OF transfer_flows(1) [OF ok p(1) *(11)]]
    have same: "mints t1 = mints (tok c)" using transfer_ok [OF ok p(1) *(11)] by simp
    have only: "mints_only tout (mint_authority_pda ?R) (max_supply s) (tok c) t2"
      using exchange_mints [OF ok *(12)] p f1 *(6) unfolding mints_only_def same by simp
    have p2: "plain_mint t2 tout"
      using flows_plain [OF exchange_flows [OF ok *(12)]] p f1 by simp
    have "mints t3 = mints t2" using transfer_ok [OF ok p2 *(13)] by simp
    with only have "mints_only tout (mint_authority_pda ?R) (max_supply s) (tok c) (tok c')"
      unfolding mints_only_def *(14) by simp
    then show ?thesis by (rule granted_mint [OF _ *(1)]) (simp add: TakeOfferPermissionless *(3))
  next
    case (MintTo b m n)
    with run obtain s x where s: "state_acc c = Some s" "b = boss s" "m = onyc_mint s" "mints (tok c) m = Some x"
      "mint_authority x = Some (mint_authority_pda ?R)"
      "mint_tokens ?R m x b (mint_authority_pda ?R) n (max_supply s) (tok c) = Inr (tok c')"
      by (auto simp: mint_to_def)
    show ?thesis
      by (rule granted_mint [OF mint_after [OF ok mints_nothing_same [OF refl] s(4) _ s(6)] s(1)])
        (simp_all add: MintTo s program_controls_mint_def)
  next
    case (TransferMintAuthorityToProgram b m)
    with run have "set_authority ?R (tok c) m b (mint_authority_pda ?R) = Inr (tok c')"
      by (auto simp: transfer_mint_authority_to_program_def)
    from set_authority_mints_nothing [OF ok this] show ?thesis by (rule granted_nothing)
  next
    case (TransferMintAuthorityToBoss b m)
    with run have "set_authority ?R (tok c) m (mint_authority_pda ?R) b = Inr (tok c')"
      by (auto simp: transfer_mint_authority_to_boss_def)
    from set_authority_mints_nothing [OF ok this] show ?thesis by (rule granted_nothing)
  next
    case (CreateRedemptionRequest u ro tin n)
    with run have r: "create_redemption_request ?R u ro tin n c = Inr c'" by simp
    from this obtain x where "mints (tok c) tin = Some x" by (auto simp: create_redemption_request_def Let_def)
    with create_request_Inr [OF r] show ?thesis
      using transfer_mints_nothing [OF ok no_transfer_fees_plain [OF plain]] granted_nothing by metis
  next
    case (CancelRedemptionRequest k ro rk u ad tin)
    with run have r: "cancel_redemption_request ?R k ro rk u ad tin c = Inr c'" by simp
    from this obtain x where "mints (tok c) tin = Some x" by (auto simp: cancel_redemption_request_def Let_def)
    with cancel_request_Inr [OF r] show ?thesis
      using transfer_mints_nothing [OF ok no_transfer_fees_plain [OF plain]] granted_nothing by metis
  next
    case (FulfillRedemptionRequest k b off_key a rk u tin tout)
    with run obtain s mi mo and res :: OfferProcessResult where *: "state_acc c = Some s" "\<not> is_killed s" "k = redemption_admin s"
      "mints (tok c) tin = Some mi" "mints (tok c) tout = Some mo"
      "execute_redemption_operations ?R
        \<lparr>r_token_in_mint = tin, r_token_in_net_amount = net_amount res, r_token_in_fee_amount = fee_amount res,
         r_boss = b, r_vault = redemption_vault_authority ?R, r_token_out_mint = tout,
         r_token_out_amount = out_amount res, r_user = u,
         r_mint_authority = mint_authority_pda ?R, r_token_out_max_supply = 0\<rparr> mi mo (tok c) = Inr (tok c')"
      by (auto simp: fulfill_redemption_request_def Let_def)
    from redemption_mints [OF ok _ _ _ *(6)] *(4,5)
    have "mints_only tout (mint_authority_pda ?R) 0 (tok c) (tok c')" by (simp add: no_transfer_fees_plain [OF plain])
    then show ?thesis by (rule granted_mint [OF _ *(1)]) (simp add: FulfillRedemptionRequest *(2,3))
  qed (use True in simp_all)
qed

text \<open>
  C13: the supply of a mint only grows when the program is its mint authority, by a purchase or by the boss minting the
  mint on record, and then never beyond the cap on supply if one is configured; or by a redemption that the redemption
  admin fulfils, which is not capped. No mint has a transfer fee.
\<close>

theorem minting_is_capped:
  assumes "token_program_ok (rt W)" and "no_transfer_fees (tok c)" and "execute W i c = Inr c'"
    and "mints (tok c) m = Some x" and "mints (tok c') m = Some x'" and "mint_supply x < mint_supply x'"
  shows "mint_authority x = Some (mint_authority_pda (rt W)) \<and>
    (\<exists>s cap. state_acc c = Some s \<and> grants s i m cap \<and> (cap = 0 \<or> mint_supply x' \<le> cap))"
proof -
  from execute_mints_as_granted [OF assms(1-3)] have "\<not> mints_nothing (tok c) (tok c') \<Longrightarrow> \<exists>s m' cap. state_acc c = Some s \<and>
      grants s i m' cap \<and> mints_only m' (mint_authority_pda (rt W)) cap (tok c) (tok c')"
    unfolding mints_as_granted_def by blast
  moreover have "\<not> mints_nothing (tok c) (tok c')" using mints_nothingD [OF _ assms(4,5)] assms(6) by fastforce
  ultimately show ?thesis using assms(4-6) unfolding mints_only_def by blast
qed

text \<open>The boss mints 700 of at most 1000.\<close>

definition capped_chain :: chain where
  "capped_chain = demo_chain\<lparr>state_acc := Some (demo_state\<lparr>max_supply := 1000\<rparr>)\<rparr>"

lemma capped_chain_sel: "state_acc capped_chain = Some (demo_state\<lparr>max_supply := 1000\<rparr>)" "tok capped_chain = demo_tok"
  by (simp_all add: capped_chain_def)

lemma capped_mint_runs:
  "mint_to (demo_rt 0) k_boss m_onyc 700 capped_chain = Inr (emit (OnycTokensMintedEvent m_onyc k_boss 700)
     (put_tok (credit m_onyc k_boss 700 (set_supply m_onyc (\<lambda>s. s + 700) demo_tok)) capped_chain))"
  by (simp add: mint_to_def guard_defs capped_chain_sel mint_authority_pda_def mint_tokens_def demo_mint_to_def checked_add_def)

theorem minting_is_capped_witness:
  "\<exists>c' x x' s cap. mint_to (demo_rt 0) k_boss m_onyc 700 capped_chain = Inr c' \<and> mints (tok capped_chain) m_onyc = Some x \<and>
     mints (tok c') m_onyc = Some x' \<and> mint_supply x < mint_supply x' \<and> state_acc capped_chain = Some s \<and>
     grants s (MintTo k_boss m_onyc 700) m_onyc cap \<and> (cap = 0 \<or> mint_supply x' \<le> cap)"
proof -
  let ?c = "emit (OnycTokensMintedEvent m_onyc k_boss 700)
     (put_tok (credit m_onyc k_boss 700 (set_supply m_onyc (\<lambda>s. s + 700) demo_tok)) capped_chain)"
  let ?x = "\<lparr>mint_authority = Some (demo_find [Seed ''mint_authority'']), mint_supply = 0, decimals = 9, transfer_fee = None\<rparr>"
  have run: "execute (demo_world 0) (MintTo k_boss m_onyc 700) capped_chain = Inr ?c" by (simp add: capped_mint_runs)
  have plain: "no_transfer_fees demo_tok"
    unfolding no_transfer_fees_def by (auto simp: demo_tok_def has_transfer_fee_def split: if_splits intro!: plain_mintI)
  have x: "mints (tok capped_chain) m_onyc = Some ?x" "mints (tok ?c) m_onyc = Some (?x\<lparr>mint_supply := 700\<rparr>)"
    by (simp_all add: capped_chain_sel)
  have "mint_authority ?x = Some (mint_authority_pda (rt (demo_world 0))) \<and> (\<exists>s cap. state_acc capped_chain = Some s \<and>
      grants s (MintTo k_boss m_onyc 700) m_onyc cap \<and> (cap = 0 \<or> mint_supply (?x\<lparr>mint_supply := 700\<rparr>) \<le> cap))"
    by (rule minting_is_capped [OF _ _ run x]) (simp_all add: demo_token_program_ok capped_chain_sel plain)
  moreover have "mint_supply ?x < mint_supply (?x\<lparr>mint_supply := 700\<rparr>)" by simp
  ultimately show ?thesis using capped_mint_runs x by blast
qed

end
