(* ===== verification/Idl_Core.thy ===== *)
theory Idl_Core
  imports Cli_Io
begin

text \<open>
  The format of Anchor's interface descriptions (\<^verbatim>\<open>target/types/*.ts\<close>) without their documentation texts, and
  the documented way in which the Anchor client completes the accounts of a call from such a description.
\<close>

section \<open>Descriptions\<close>

datatype idl_type =
    IBool | IU8 | IU16 | IU32 | IU64 | IU128 | II64 | IString | IBytes | IPubkey
  | IOption idl_type
  | IVec idl_type
  | IArray idl_type nat
  | IDefined string

text \<open>Byte arrays are strings of characters below 256; a seed is a constant, the address of an
  account, a field of the data of an account of the named type, or an argument; the program of a derived address
  is given in the same way.\<close>

definition idl_bytes :: "nat list \<Rightarrow> string" where
  "idl_bytes ns = List.map char_of ns"

datatype idl_seed = ConstSeed string | AccountSeed string | FieldSeed string string | ArgSeed string

datatype idl_attr =
    IsWritable
  | IsSigner
  | IsOptional
  | Pda "idl_seed list" "idl_seed option"
  | Relations "string list"
  | Address string

type_synonym idl_account = "string \<times> idl_attr list"

record idl_instruction =
  ii_name :: string
  ii_discriminator :: "nat list"
  ii_accounts :: "idl_account list"
  ii_args :: "(string \<times> idl_type) list"
  ii_returns :: "idl_type option"

record idl_typedef =
  td_name :: string
  td_serialization :: "string option"
  td_repr :: "string option"
  td_fields :: "(string \<times> idl_type) list"
  td_variants :: "string list"

record idl =
  idl_address :: string
  idl_metadata :: "(string \<times> string) list"
  idl_instructions :: "idl_instruction list"
  idl_accounts :: "(string \<times> nat list) list"
  idl_events :: "(string \<times> nat list) list"
  idl_errors :: "(nat \<times> string \<times> string) list"
  idl_types :: "idl_typedef list"

definition find_ix :: "idl \<Rightarrow> string \<Rightarrow> idl_instruction option" where
  "find_ix I m = find (\<lambda>d. ii_name d = m) (idl_instructions I)"

definition find_type :: "idl \<Rightarrow> string \<Rightarrow> idl_typedef option" where
  "find_type I n = find (\<lambda>d. td_name d = n) (idl_types I)"

lemma find_ix_name: "find_ix I m = Some d \<Longrightarrow> d \<in> set (idl_instructions I) \<and> ii_name d = m"
  by (auto simp: find_ix_def find_Some_iff)

lemma find_ix_distinct:
  assumes "distinct (List.map ii_name (idl_instructions I))" and "d \<in> set (idl_instructions I)"
  shows "find_ix I (ii_name d) = Some d"
  using assms unfolding find_ix_def
proof (induction "idl_instructions I" arbitrary: I)
  case (Cons x xs)
  show ?case
  proof (cases "x = d")
    case False
    with Cons have "d \<in> set xs" "ii_name x \<noteq> ii_name d" by (auto simp: Cons(2) [symmetric] image_iff)
    with Cons(1) [of "I\<lparr>idl_instructions := xs\<rparr>"] Cons(2,3) False show ?thesis by (simp add: Cons(2) [symmetric])
  qed (simp add: Cons(2) [symmetric])
qed simp

section \<open>Completing the accounts of a call\<close>

text \<open>
  Anchor's account resolver: fixed addresses, signers (the wallet of the provider) and optional accounts need
  nothing; a derived address needs the accounts of its seeds; a related account is read from the data of the
  account that relates it. The names in paths are compared in camel case. The resolver gives up after 16 rounds.
\<close>

fun camel :: "string \<Rightarrow> string" where
  "camel (x # y # s) = (if x = CHR ''_'' then upper_char y # camel s
     else x # camel (y # s))"
| "camel s = s"

definition path_account :: "string \<Rightarrow> string" where
  "path_account p = camel (takeWhile (\<lambda>x. x \<noteq> CHR ''.'') p)"

fun seed_known :: "string list \<Rightarrow> idl_seed \<Rightarrow> bool" where
  "seed_known known (ConstSeed s) = True"
| "seed_known known (AccountSeed p) = (path_account p \<in> set known)"
| "seed_known known (FieldSeed p t) = (path_account p \<in> set known)"
| "seed_known known (ArgSeed p) = True"

fun attr_resolves :: "string list \<Rightarrow> idl_attr \<Rightarrow> bool" where
  "attr_resolves known (Address a) = True"
| "attr_resolves known IsSigner = True"
| "attr_resolves known IsOptional = True"
| "attr_resolves known IsWritable = False"
| "attr_resolves known (Pda seeds program) =
     (list_all (seed_known known) seeds \<and> (case program of None \<Rightarrow> True | Some p \<Rightarrow> seed_known known p))"
| "attr_resolves known (Relations rs) = list_ex (\<lambda>r. r \<in> set known) rs"

definition resolve_round :: "idl_account list \<Rightarrow> string list \<Rightarrow> string list" where
  "resolve_round accounts known = known @ List.map fst (List.filter
     (\<lambda>(n, attrs). n \<notin> set known \<and> list_ex (attr_resolves known) attrs) accounts)"

fun resolve :: "nat \<Rightarrow> idl_account list \<Rightarrow> string list \<Rightarrow> string list" where
  "resolve 0 accounts known = known"
| "resolve (Suc n) accounts known = (let known' = resolve_round accounts known in
     if length known' = length known then known else resolve n accounts known')"

definition unresolved :: "idl_instruction \<Rightarrow> string list \<Rightarrow> string list" where
  "unresolved d given = (let known = resolve 16 (ii_accounts d) given in
     List.filter (\<lambda>n. n \<notin> set known) (List.map fst (ii_accounts d)))"

section \<open>Consistency of a description\<close>

fun type_declared :: "string list \<Rightarrow> idl_type \<Rightarrow> bool" where
  "type_declared ns (IOption t) = type_declared ns t"
| "type_declared ns (IVec t) = type_declared ns t"
| "type_declared ns (IArray t n) = type_declared ns t"
| "type_declared ns (IDefined n) = (n \<in> set ns)"
| "type_declared ns _ = True"

text \<open>The bytes of a value of a type without options, strings and nested types, as the accounts are laid out.\<close>

fun type_size :: "idl_type \<Rightarrow> nat option" where
  "type_size IBool = Some 1"
| "type_size IU8 = Some 1"
| "type_size IU16 = Some 2"
| "type_size IU32 = Some 4"
| "type_size IU64 = Some 8"
| "type_size II64 = Some 8"
| "type_size IU128 = Some 16"
| "type_size IPubkey = Some 32"
| "type_size (IArray t n) = map_option (\<lambda>k. n * k) (type_size t)"
| "type_size _ = None"

text \<open>The offset of a field after the discriminator of eight bytes.\<close>

fun offset_from :: "nat \<Rightarrow> (string \<times> idl_type) list \<Rightarrow> string \<Rightarrow> nat option" where
  "offset_from k [] f = None"
| "offset_from k ((n, t) # fs) f = (if n = f then Some k else Option.bind (type_size t) (\<lambda>s. offset_from (k + s) fs f))"

definition field_offset :: "idl \<Rightarrow> string \<Rightarrow> string \<Rightarrow> nat option" where
  "field_offset I n f = Option.bind (find_type I n) (\<lambda>d. offset_from 8 (td_fields d) f)"

end
