(* ===== verification/Idl_Instructions.thy ===== *)
theory Idl_Instructions
  imports Idl_Core
begin

text \<open>
  \<^verbatim>\<open>target/types/onreapp.ts\<close>, the instructions of the program as the client sees them: one definition per
  instruction, and its accounts in parts where they are many. The texts of the documentation are left out.
\<close>

definition associated_token_program_bytes :: string where
  "associated_token_program_bytes =
    idl_bytes [140, 151, 37, 143, 78, 36, 137, 241, 187, 61, 16, 41, 20, 142, 13, 131, 11, 90, 19, 153, 218, 255,
               16, 132, 4, 142, 123, 216, 219, 233, 248, 89]"

definition idl_acceptBoss :: idl_instruction where
  "idl_acceptBoss = \<lparr>ii_name = ''acceptBoss'', ii_discriminator = [152, 63, 117, 209, 67, 11, 250, 242],
    ii_accounts =
      [(''state'', [IsWritable, Pda [ConstSeed ''state''] None]),
       (''newBoss'', [IsSigner])],
    ii_args = [],
    ii_returns = None\<rparr>"

definition idl_addAdmin :: idl_instruction where
  "idl_addAdmin = \<lparr>ii_name = ''addAdmin'', ii_discriminator = [177, 236, 33, 205, 124, 152, 55, 186],
    ii_accounts =
      [(''state'', [IsWritable, Pda [ConstSeed ''state''] None]),
       (''boss'', [IsSigner, Relations [''state'']])],
    ii_args = [(''newAdmin'', IPubkey)],
    ii_returns = None\<rparr>"

definition idl_addApprover :: idl_instruction where
  "idl_addApprover = \<lparr>ii_name = ''addApprover'', ii_discriminator = [213, 245, 135, 79, 129, 129, 22, 80],
    ii_accounts =
      [(''state'', [IsWritable, Pda [ConstSeed ''state''] None]),
       (''boss'', [IsSigner, Relations [''state'']])],
    ii_args = [(''approver'', IPubkey)],
    ii_returns = None\<rparr>"

definition idl_addOfferVector :: idl_instruction where
  "idl_addOfferVector = \<lparr>ii_name = ''addOfferVector'', ii_discriminator = [198, 139, 180, 6, 156, 171, 188, 61],
    ii_accounts =
      [(''offer'', [IsWritable, Pda [ConstSeed ''offer'',
          AccountSeed ''tokenInMint'',
          AccountSeed ''tokenOutMint''] None]),
       (''tokenInMint'', []),
       (''tokenOutMint'', []),
       (''state'', [Pda [ConstSeed ''state''] None]),
       (''boss'', [IsSigner, Relations [''state'']])],
    ii_args = [(''startTime'', IOption IU64), (''baseTime'', IU64), (''basePrice'', IU64), (''apr'', IU64), (''priceFixDuration'', IU64)],
    ii_returns = None\<rparr>"

definition cancelRedemptionRequest_accounts1 :: "idl_account list" where
  "cancelRedemptionRequest_accounts1 =
    [(''state'', [Pda [ConstSeed ''state''] None]),
     (''redemptionOffer'', [IsWritable, Pda [ConstSeed ''redemption_offer'',
          FieldSeed ''redemption_offer.token_in_mint'' ''redemptionOffer'',
          FieldSeed ''redemption_offer.token_out_mint'' ''redemptionOffer''] None]),
     (''redemptionRequest'', [IsWritable, Pda [ConstSeed ''redemption_request'',
          FieldSeed ''redemption_request.offer'' ''redemptionRequest'',
          FieldSeed ''redemption_request.request_id'' ''redemptionRequest''] None]),
     (''signer'', [IsWritable, IsSigner]),
     (''redeemer'', []),
     (''redemptionAdmin'', [IsWritable])]"

definition cancelRedemptionRequest_accounts2 :: "idl_account list" where
  "cancelRedemptionRequest_accounts2 =
    [(''redemptionVaultAuthority'', [Pda [ConstSeed ''redemption_offer_vault_authority''] None]),
     (''tokenInMint'', []),
     (''vaultTokenAccount'', [IsWritable, Pda [AccountSeed ''redemptionVaultAuthority'',
          AccountSeed ''tokenProgram'',
          AccountSeed ''tokenInMint''] (Some (ConstSeed associated_token_program_bytes))])]"

definition cancelRedemptionRequest_accounts3 :: "idl_account list" where
  "cancelRedemptionRequest_accounts3 =
    [(''redeemerTokenAccount'', [IsWritable, Pda [AccountSeed ''redeemer'',
          AccountSeed ''tokenProgram'',
          AccountSeed ''tokenInMint''] (Some (ConstSeed associated_token_program_bytes))]),
     (''tokenProgram'', []),
     (''systemProgram'', [Address ''11111111111111111111111111111111'']),
     (''associatedTokenProgram'', [Address ''ATokenGPvbdGVxr1b2hvZbsiqW5xWH25efTNsLJA8knL''])]"

definition idl_cancelRedemptionRequest :: idl_instruction where
  "idl_cancelRedemptionRequest = \<lparr>ii_name = ''cancelRedemptionRequest'', ii_discriminator = [77, 155, 4, 179, 114, 233, 162, 45],
    ii_accounts =
      cancelRedemptionRequest_accounts1 @
      cancelRedemptionRequest_accounts2 @
      cancelRedemptionRequest_accounts3,
    ii_args = [],
    ii_returns = None\<rparr>"

definition idl_clearAdmins :: idl_instruction where
  "idl_clearAdmins = \<lparr>ii_name = ''clearAdmins'', ii_discriminator = [39, 200, 132, 30, 196, 160, 73, 55],
    ii_accounts =
      [(''state'', [IsWritable, Pda [ConstSeed ''state''] None]),
       (''boss'', [IsSigner, Relations [''state'']])],
    ii_args = [],
    ii_returns = None\<rparr>"

definition idl_closeState :: idl_instruction where
  "idl_closeState = \<lparr>ii_name = ''closeState'', ii_discriminator = [25, 1, 184, 101, 200, 245, 210, 246],
    ii_accounts =
      [(''state'', [IsWritable]),
       (''boss'', [IsWritable, IsSigner]),
       (''systemProgram'', [Address ''11111111111111111111111111111111''])],
    ii_args = [],
    ii_returns = None\<rparr>"

definition idl_configureMaxSupply :: idl_instruction where
  "idl_configureMaxSupply = \<lparr>ii_name = ''configureMaxSupply'', ii_discriminator = [145, 100, 133, 229, 142, 59, 96, 62],
    ii_accounts =
      [(''state'', [IsWritable, Pda [ConstSeed ''state''] None]),
       (''boss'', [IsSigner, Relations [''state'']])],
    ii_args = [(''maxSupply'', IU64)],
    ii_returns = None\<rparr>"

definition createRedemptionRequest_accounts1 :: "idl_account list" where
  "createRedemptionRequest_accounts1 =
    [(''state'', [Pda [ConstSeed ''state''] None]),
     (''redemptionOffer'', [IsWritable, Pda [ConstSeed ''redemption_offer'',
          FieldSeed ''redemption_offer.token_in_mint'' ''redemptionOffer'',
          FieldSeed ''redemption_offer.token_out_mint'' ''redemptionOffer''] None]),
     (''redemptionRequest'', [IsWritable, Pda [ConstSeed ''redemption_request'',
          AccountSeed ''redemptionOffer'',
          FieldSeed ''redemption_offer.request_counter'' ''redemptionOffer''] None]),
     (''redeemer'', [IsWritable, IsSigner])]"

definition createRedemptionRequest_accounts2 :: "idl_account list" where
  "createRedemptionRequest_accounts2 =
    [(''redemptionVaultAuthority'', [Pda [ConstSeed ''redemption_offer_vault_authority''] None]),
     (''tokenInMint'', []),
     (''redeemerTokenAccount'', [IsWritable, Pda [AccountSeed ''redeemer'',
          AccountSeed ''tokenProgram'',
          AccountSeed ''tokenInMint''] (Some (ConstSeed associated_token_program_bytes))])]"

definition createRedemptionRequest_accounts3 :: "idl_account list" where
  "createRedemptionRequest_accounts3 =
    [(''vaultTokenAccount'', [IsWritable, Pda [AccountSeed ''redemptionVaultAuthority'',
          AccountSeed ''tokenProgram'',
          AccountSeed ''tokenInMint''] (Some (ConstSeed associated_token_program_bytes))]),
     (''tokenProgram'', []),
     (''associatedTokenProgram'', [Address ''ATokenGPvbdGVxr1b2hvZbsiqW5xWH25efTNsLJA8knL'']),
     (''systemProgram'', [Address ''11111111111111111111111111111111''])]"

definition idl_createRedemptionRequest :: idl_instruction where
  "idl_createRedemptionRequest = \<lparr>ii_name = ''createRedemptionRequest'', ii_discriminator = [201, 53, 181, 254, 115, 137, 70, 151],
    ii_accounts =
      createRedemptionRequest_accounts1 @
      createRedemptionRequest_accounts2 @
      createRedemptionRequest_accounts3,
    ii_args = [(''amount'', IU64)],
    ii_returns = None\<rparr>"

definition idl_deleteAllOfferVectors :: idl_instruction where
  "idl_deleteAllOfferVectors = \<lparr>ii_name = ''deleteAllOfferVectors'', ii_discriminator = [26, 201, 38, 207, 76, 51, 79, 15],
    ii_accounts =
      [(''offer'', [IsWritable, Pda [ConstSeed ''offer'',
          AccountSeed ''tokenInMint'',
          AccountSeed ''tokenOutMint''] None]),
       (''tokenInMint'', []),
       (''tokenOutMint'', []),
       (''state'', [Pda [ConstSeed ''state''] None]),
       (''boss'', [IsSigner, Relations [''state'']])],
    ii_args = [],
    ii_returns = None\<rparr>"

definition idl_deleteOfferVector :: idl_instruction where
  "idl_deleteOfferVector = \<lparr>ii_name = ''deleteOfferVector'', ii_discriminator = [87, 40, 79, 151, 78, 121, 46, 159],
    ii_accounts =
      [(''offer'', [IsWritable, Pda [ConstSeed ''offer'',
          AccountSeed ''tokenInMint'',
          AccountSeed ''tokenOutMint''] None]),
       (''tokenInMint'', []),
       (''tokenOutMint'', []),
       (''state'', [Pda [ConstSeed ''state''] None]),
       (''boss'', [IsSigner, Relations [''state'']])],
    ii_args = [(''vectorStartTime'', IU64)],
    ii_returns = None\<rparr>"

definition fulfillRedemptionRequest_accounts1 :: "idl_account list" where
  "fulfillRedemptionRequest_accounts1 =
    [(''state'', [Pda [ConstSeed ''state''] None]),
     (''boss'', [Relations [''state'']]),
     (''offer'', []),
     (''redemptionOffer'', [IsWritable, Pda [ConstSeed ''redemption_offer'',
          FieldSeed ''redemption_offer.token_in_mint'' ''redemptionOffer'',
          FieldSeed ''redemption_offer.token_out_mint'' ''redemptionOffer''] None]),
     (''redemptionRequest'', [IsWritable, Pda [ConstSeed ''redemption_request'',
          FieldSeed ''redemption_request.offer'' ''redemptionRequest'',
          FieldSeed ''redemption_request.request_id'' ''redemptionRequest''] None])]"

definition fulfillRedemptionRequest_accounts2 :: "idl_account list" where
  "fulfillRedemptionRequest_accounts2 =
    [(''redemptionVaultAuthority'', [Pda [ConstSeed ''redemption_offer_vault_authority''] None]),
     (''vaultTokenInAccount'', [IsWritable, Pda [AccountSeed ''redemptionVaultAuthority'',
          AccountSeed ''tokenInProgram'',
          AccountSeed ''tokenInMint''] (Some (ConstSeed associated_token_program_bytes))])]"

definition fulfillRedemptionRequest_accounts3 :: "idl_account list" where
  "fulfillRedemptionRequest_accounts3 =
    [(''vaultTokenOutAccount'', [IsWritable, Pda [AccountSeed ''redemptionVaultAuthority'',
          AccountSeed ''tokenOutProgram'',
          AccountSeed ''tokenOutMint''] (Some (ConstSeed associated_token_program_bytes))]),
     (''tokenInMint'', [IsWritable]),
     (''tokenInProgram'', []),
     (''tokenOutMint'', [IsWritable]),
     (''tokenOutProgram'', [])]"

definition fulfillRedemptionRequest_accounts4 :: "idl_account list" where
  "fulfillRedemptionRequest_accounts4 =
    [(''userTokenOutAccount'', [IsWritable, Pda [AccountSeed ''redeemer'',
          AccountSeed ''tokenOutProgram'',
          AccountSeed ''tokenOutMint''] (Some (ConstSeed associated_token_program_bytes))]),
     (''bossTokenInAccount'', [IsWritable, Pda [AccountSeed ''boss'',
          AccountSeed ''tokenInProgram'',
          AccountSeed ''tokenInMint''] (Some (ConstSeed associated_token_program_bytes))])]"

definition fulfillRedemptionRequest_accounts5 :: "idl_account list" where
  "fulfillRedemptionRequest_accounts5 =
    [(''mintAuthority'', [Pda [ConstSeed ''mint_authority''] None]),
     (''redeemer'', []),
     (''redemptionAdmin'', [IsWritable, IsSigner]),
     (''associatedTokenProgram'', [Address ''ATokenGPvbdGVxr1b2hvZbsiqW5xWH25efTNsLJA8knL'']),
     (''systemProgram'', [Address ''11111111111111111111111111111111''])]"

definition idl_fulfillRedemptionRequest :: idl_instruction where
  "idl_fulfillRedemptionRequest = \<lparr>ii_name = ''fulfillRedemptionRequest'', ii_discriminator = [140, 124, 139, 242, 179, 153, 208, 66],
    ii_accounts =
      fulfillRedemptionRequest_accounts1 @
      fulfillRedemptionRequest_accounts2 @
      fulfillRedemptionRequest_accounts3 @
      fulfillRedemptionRequest_accounts4 @
      fulfillRedemptionRequest_accounts5,
    ii_args = [],
    ii_returns = None\<rparr>"

definition idl_getApy :: idl_instruction where
  "idl_getApy = \<lparr>ii_name = ''getApy'', ii_discriminator = [194, 123, 183, 54, 181, 74, 194, 97],
    ii_accounts =
      [(''offer'', [Pda [ConstSeed ''offer'',
          AccountSeed ''tokenInMint'',
          AccountSeed ''tokenOutMint''] None]),
       (''tokenInMint'', []),
       (''tokenOutMint'', [])],
    ii_args = [],
    ii_returns = Some IU64\<rparr>"

definition idl_getCirculatingSupply :: idl_instruction where
  "idl_getCirculatingSupply = \<lparr>ii_name = ''getCirculatingSupply'', ii_discriminator = [132, 168, 96, 104, 217, 255, 111, 152],
    ii_accounts =
      [(''onycMint'', [Relations [''state'']]),
       (''state'', [Pda [ConstSeed ''state''] None]),
       (''vaultAuthority'', [Pda [ConstSeed ''offer_vault_authority''] None]),
       (''onycVaultAccount'', []),
       (''tokenProgram'', [])],
    ii_args = [],
    ii_returns = Some IU64\<rparr>"

definition idl_getNav :: idl_instruction where
  "idl_getNav = \<lparr>ii_name = ''getNav'', ii_discriminator = [200, 89, 76, 53, 215, 218, 63, 21],
    ii_accounts =
      [(''offer'', [Pda [ConstSeed ''offer'',
          AccountSeed ''tokenInMint'',
          AccountSeed ''tokenOutMint''] None]),
       (''tokenInMint'', []),
       (''tokenOutMint'', [])],
    ii_args = [],
    ii_returns = Some IU64\<rparr>"

definition idl_getNavAdjustment :: idl_instruction where
  "idl_getNavAdjustment = \<lparr>ii_name = ''getNavAdjustment'', ii_discriminator = [70, 198, 229, 129, 238, 233, 143, 94],
    ii_accounts =
      [(''offer'', [Pda [ConstSeed ''offer'',
          AccountSeed ''tokenInMint'',
          AccountSeed ''tokenOutMint''] None]),
       (''tokenInMint'', []),
       (''tokenOutMint'', [])],
    ii_args = [],
    ii_returns = Some II64\<rparr>"

definition idl_getTvl :: idl_instruction where
  "idl_getTvl = \<lparr>ii_name = ''getTvl'', ii_discriminator = [88, 225, 219, 204, 86, 91, 184, 51],
    ii_accounts =
      [(''offer'', [Pda [ConstSeed ''offer'',
          AccountSeed ''tokenInMint'',
          AccountSeed ''tokenOutMint''] None]),
       (''tokenInMint'', []),
       (''tokenOutMint'', []),
       (''vaultAuthority'', [Pda [ConstSeed ''offer_vault_authority''] None]),
       (''vaultTokenOutAccount'', []),
       (''tokenOutProgram'', [])],
    ii_args = [],
    ii_returns = Some IU64\<rparr>"

definition initialize_accounts1 :: "idl_account list" where
  "initialize_accounts1 =
    [(''state'', [IsWritable, Pda [ConstSeed ''state''] None]),
     (''mintAuthority'', [IsWritable, Pda [ConstSeed ''mint_authority''] None]),
     (''offerVaultAuthority'', [IsWritable, Pda [ConstSeed ''offer_vault_authority''] None]),
     (''boss'', [IsWritable, IsSigner]),
     (''program'', [Address ''onreuGhHHgVzMWSkj2oQDLDtvvGvoepBPkqyaubFcwe'']),
     (''programData'', [IsOptional]),
     (''onycMint'', []),
     (''systemProgram'', [Address ''11111111111111111111111111111111''])]"

definition idl_initialize :: idl_instruction where
  "idl_initialize = \<lparr>ii_name = ''initialize'', ii_discriminator = [175, 175, 109, 31, 13, 152, 155, 237],
    ii_accounts =
      initialize_accounts1,
    ii_args = [],
    ii_returns = None\<rparr>"

definition idl_initializePermissionlessAuthority :: idl_instruction where
  "idl_initializePermissionlessAuthority = \<lparr>ii_name = ''initializePermissionlessAuthority'', ii_discriminator = [89, 93, 43, 180, 148, 16, 238, 24],
    ii_accounts =
      [(''permissionlessAuthority'', [IsWritable, Pda [ConstSeed ''permissionless-1''] None]),
       (''state'', [Pda [ConstSeed ''state''] None]),
       (''boss'', [IsWritable, IsSigner, Relations [''state'']]),
       (''systemProgram'', [Address ''11111111111111111111111111111111''])],
    ii_args = [(''name'', IString)],
    ii_returns = None\<rparr>"

definition makeOffer_accounts1 :: "idl_account list" where
  "makeOffer_accounts1 =
    [(''vaultAuthority'', [Pda [ConstSeed ''offer_vault_authority''] None]),
     (''tokenInMint'', []),
     (''tokenInProgram'', []),
     (''vaultTokenInAccount'', [IsWritable, Pda [AccountSeed ''vaultAuthority'',
          AccountSeed ''tokenInProgram'',
          AccountSeed ''tokenInMint''] (Some (ConstSeed associated_token_program_bytes))]),
     (''tokenOutMint'', [])]"

definition makeOffer_accounts2 :: "idl_account list" where
  "makeOffer_accounts2 =
    [(''offer'', [IsWritable, Pda [ConstSeed ''offer'',
          AccountSeed ''tokenInMint'',
          AccountSeed ''tokenOutMint''] None]),
     (''state'', [Pda [ConstSeed ''state''] None]),
     (''boss'', [IsWritable, IsSigner, Relations [''state'']]),
     (''associatedTokenProgram'', [Address ''ATokenGPvbdGVxr1b2hvZbsiqW5xWH25efTNsLJA8knL'']),
     (''systemProgram'', [Address ''11111111111111111111111111111111''])]"

definition idl_makeOffer :: idl_instruction where
  "idl_makeOffer = \<lparr>ii_name = ''makeOffer'', ii_discriminator = [214, 98, 97, 35, 59, 12, 44, 178],
    ii_accounts =
      makeOffer_accounts1 @
      makeOffer_accounts2,
    ii_args = [(''feeBasisPoints'', IU16), (''needsApproval'', IBool), (''allowPermissionless'', IBool)],
    ii_returns = None\<rparr>"

definition makeRedemptionOffer_accounts1 :: "idl_account list" where
  "makeRedemptionOffer_accounts1 =
    [(''state'', [Pda [ConstSeed ''state''] None]),
     (''offer'', [Pda [ConstSeed ''offer'',
          AccountSeed ''tokenOutMint'',
          AccountSeed ''tokenInMint''] None]),
     (''redemptionVaultAuthority'', [Pda [ConstSeed ''redemption_offer_vault_authority''] None]),
     (''tokenInMint'', []),
     (''tokenInProgram'', [])]"

definition makeRedemptionOffer_accounts2 :: "idl_account list" where
  "makeRedemptionOffer_accounts2 =
    [(''vaultTokenInAccount'', [IsWritable, Pda [AccountSeed ''redemptionVaultAuthority'',
          AccountSeed ''tokenInProgram'',
          AccountSeed ''tokenInMint''] (Some (ConstSeed associated_token_program_bytes))]),
     (''tokenOutMint'', []),
     (''tokenOutProgram'', []),
     (''vaultTokenOutAccount'', [IsWritable, Pda [AccountSeed ''redemptionVaultAuthority'',
          AccountSeed ''tokenOutProgram'',
          AccountSeed ''tokenOutMint''] (Some (ConstSeed associated_token_program_bytes))])]"

definition makeRedemptionOffer_accounts3 :: "idl_account list" where
  "makeRedemptionOffer_accounts3 =
    [(''redemptionOffer'', [IsWritable, Pda [ConstSeed ''redemption_offer'',
          AccountSeed ''tokenInMint'',
          AccountSeed ''tokenOutMint''] None]),
     (''signer'', [IsWritable, IsSigner]),
     (''associatedTokenProgram'', [Address ''ATokenGPvbdGVxr1b2hvZbsiqW5xWH25efTNsLJA8knL'']),
     (''systemProgram'', [Address ''11111111111111111111111111111111''])]"

definition idl_makeRedemptionOffer :: idl_instruction where
  "idl_makeRedemptionOffer = \<lparr>ii_name = ''makeRedemptionOffer'', ii_discriminator = [6, 130, 180, 160, 163, 166, 51, 41],
    ii_accounts =
      makeRedemptionOffer_accounts1 @
      makeRedemptionOffer_accounts2 @
      makeRedemptionOffer_accounts3,
    ii_args = [(''feeBasisPoints'', IU16)],
    ii_returns = None\<rparr>"

definition mintTo_accounts1 :: "idl_account list" where
  "mintTo_accounts1 =
    [(''state'', [Pda [ConstSeed ''state''] None]),
     (''boss'', [IsWritable, IsSigner, Relations [''state'']]),
     (''onycMint'', [IsWritable, Relations [''state'']]),
     (''bossOnycAccount'', [IsWritable, Pda [AccountSeed ''boss'',
          AccountSeed ''tokenProgram'',
          AccountSeed ''onycMint''] (Some (ConstSeed associated_token_program_bytes))]),
     (''mintAuthority'', [Pda [ConstSeed ''mint_authority''] None]),
     (''tokenProgram'', [])]"

definition mintTo_accounts2 :: "idl_account list" where
  "mintTo_accounts2 =
    [(''associatedTokenProgram'', [Address ''ATokenGPvbdGVxr1b2hvZbsiqW5xWH25efTNsLJA8knL'']),
     (''systemProgram'', [Address ''11111111111111111111111111111111''])]"

definition idl_mintTo :: idl_instruction where
  "idl_mintTo = \<lparr>ii_name = ''mintTo'', ii_discriminator = [241, 34, 48, 186, 37, 179, 123, 192],
    ii_accounts =
      mintTo_accounts1 @
      mintTo_accounts2,
    ii_args = [(''amount'', IU64)],
    ii_returns = None\<rparr>"

definition offerVaultDeposit_accounts1 :: "idl_account list" where
  "offerVaultDeposit_accounts1 =
    [(''vaultAuthority'', [Pda [ConstSeed ''offer_vault_authority''] None]),
     (''tokenMint'', []),
     (''bossTokenAccount'', [IsWritable, Pda [AccountSeed ''boss'',
          AccountSeed ''tokenProgram'',
          AccountSeed ''tokenMint''] (Some (ConstSeed associated_token_program_bytes))])]"

definition offerVaultDeposit_accounts2 :: "idl_account list" where
  "offerVaultDeposit_accounts2 =
    [(''vaultTokenAccount'', [IsWritable, Pda [AccountSeed ''vaultAuthority'',
          AccountSeed ''tokenProgram'',
          AccountSeed ''tokenMint''] (Some (ConstSeed associated_token_program_bytes))]),
     (''boss'', [IsWritable, IsSigner, Relations [''state'']]),
     (''state'', [Pda [ConstSeed ''state''] None]),
     (''tokenProgram'', []),
     (''associatedTokenProgram'', [Address ''ATokenGPvbdGVxr1b2hvZbsiqW5xWH25efTNsLJA8knL'']),
     (''systemProgram'', [Address ''11111111111111111111111111111111''])]"

definition idl_offerVaultDeposit :: idl_instruction where
  "idl_offerVaultDeposit = \<lparr>ii_name = ''offerVaultDeposit'', ii_discriminator = [69, 131, 100, 85, 82, 151, 72, 74],
    ii_accounts =
      offerVaultDeposit_accounts1 @
      offerVaultDeposit_accounts2,
    ii_args = [(''amount'', IU64)],
    ii_returns = None\<rparr>"

definition offerVaultWithdraw_accounts1 :: "idl_account list" where
  "offerVaultWithdraw_accounts1 =
    [(''vaultAuthority'', [Pda [ConstSeed ''offer_vault_authority''] None]),
     (''tokenMint'', []),
     (''bossTokenAccount'', [IsWritable, Pda [AccountSeed ''boss'',
          AccountSeed ''tokenProgram'',
          AccountSeed ''tokenMint''] (Some (ConstSeed associated_token_program_bytes))])]"

definition offerVaultWithdraw_accounts2 :: "idl_account list" where
  "offerVaultWithdraw_accounts2 =
    [(''vaultTokenAccount'', [IsWritable, Pda [AccountSeed ''vaultAuthority'',
          AccountSeed ''tokenProgram'',
          AccountSeed ''tokenMint''] (Some (ConstSeed associated_token_program_bytes))]),
     (''boss'', [IsWritable, IsSigner, Relations [''state'']]),
     (''state'', [Pda [ConstSeed ''state''] None]),
     (''tokenProgram'', []),
     (''associatedTokenProgram'', [Address ''ATokenGPvbdGVxr1b2hvZbsiqW5xWH25efTNsLJA8knL'']),
     (''systemProgram'', [Address ''11111111111111111111111111111111''])]"

definition idl_offerVaultWithdraw :: idl_instruction where
  "idl_offerVaultWithdraw = \<lparr>ii_name = ''offerVaultWithdraw'', ii_discriminator = [230, 135, 129, 48, 138, 202, 20, 72],
    ii_accounts =
      offerVaultWithdraw_accounts1 @
      offerVaultWithdraw_accounts2,
    ii_args = [(''amount'', IU64)],
    ii_returns = None\<rparr>"

definition idl_proposeBoss :: idl_instruction where
  "idl_proposeBoss = \<lparr>ii_name = ''proposeBoss'', ii_discriminator = [163, 199, 158, 47, 155, 78, 174, 173],
    ii_accounts =
      [(''state'', [IsWritable, Pda [ConstSeed ''state''] None]),
       (''boss'', [IsSigner, Relations [''state'']])],
    ii_args = [(''newBoss'', IPubkey)],
    ii_returns = None\<rparr>"

definition redemptionVaultDeposit_accounts1 :: "idl_account list" where
  "redemptionVaultDeposit_accounts1 =
    [(''redemptionVaultAuthority'', [Pda [ConstSeed ''redemption_offer_vault_authority''] None]),
     (''tokenMint'', []),
     (''bossTokenAccount'', [IsWritable, Pda [AccountSeed ''boss'',
          AccountSeed ''tokenProgram'',
          AccountSeed ''tokenMint''] (Some (ConstSeed associated_token_program_bytes))])]"

definition redemptionVaultDeposit_accounts2 :: "idl_account list" where
  "redemptionVaultDeposit_accounts2 =
    [(''vaultTokenAccount'', [IsWritable, Pda [AccountSeed ''redemptionVaultAuthority'',
          AccountSeed ''tokenProgram'',
          AccountSeed ''tokenMint''] (Some (ConstSeed associated_token_program_bytes))]),
     (''boss'', [IsWritable, IsSigner, Relations [''state'']]),
     (''state'', [Pda [ConstSeed ''state''] None]),
     (''tokenProgram'', []),
     (''associatedTokenProgram'', [Address ''ATokenGPvbdGVxr1b2hvZbsiqW5xWH25efTNsLJA8knL'']),
     (''systemProgram'', [Address ''11111111111111111111111111111111''])]"

definition idl_redemptionVaultDeposit :: idl_instruction where
  "idl_redemptionVaultDeposit = \<lparr>ii_name = ''redemptionVaultDeposit'', ii_discriminator = [67, 104, 107, 131, 141, 2, 140, 122],
    ii_accounts =
      redemptionVaultDeposit_accounts1 @
      redemptionVaultDeposit_accounts2,
    ii_args = [(''amount'', IU64)],
    ii_returns = None\<rparr>"

definition redemptionVaultWithdraw_accounts1 :: "idl_account list" where
  "redemptionVaultWithdraw_accounts1 =
    [(''redemptionVaultAuthority'', [Pda [ConstSeed ''redemption_offer_vault_authority''] None]),
     (''tokenMint'', []),
     (''bossTokenAccount'', [IsWritable, Pda [AccountSeed ''boss'',
          AccountSeed ''tokenProgram'',
          AccountSeed ''tokenMint''] (Some (ConstSeed associated_token_program_bytes))])]"

definition redemptionVaultWithdraw_accounts2 :: "idl_account list" where
  "redemptionVaultWithdraw_accounts2 =
    [(''vaultTokenAccount'', [IsWritable, Pda [AccountSeed ''redemptionVaultAuthority'',
          AccountSeed ''tokenProgram'',
          AccountSeed ''tokenMint''] (Some (ConstSeed associated_token_program_bytes))]),
     (''boss'', [IsWritable, IsSigner, Relations [''state'']]),
     (''state'', [Pda [ConstSeed ''state''] None]),
     (''tokenProgram'', []),
     (''associatedTokenProgram'', [Address ''ATokenGPvbdGVxr1b2hvZbsiqW5xWH25efTNsLJA8knL'']),
     (''systemProgram'', [Address ''11111111111111111111111111111111''])]"

definition idl_redemptionVaultWithdraw :: idl_instruction where
  "idl_redemptionVaultWithdraw = \<lparr>ii_name = ''redemptionVaultWithdraw'', ii_discriminator = [48, 214, 145, 15, 168, 122, 39, 48],
    ii_accounts =
      redemptionVaultWithdraw_accounts1 @
      redemptionVaultWithdraw_accounts2,
    ii_args = [(''amount'', IU64)],
    ii_returns = None\<rparr>"

definition idl_removeAdmin :: idl_instruction where
  "idl_removeAdmin = \<lparr>ii_name = ''removeAdmin'', ii_discriminator = [74, 202, 71, 106, 252, 31, 72, 183],
    ii_accounts =
      [(''state'', [IsWritable, Pda [ConstSeed ''state''] None]),
       (''boss'', [IsSigner, Relations [''state'']])],
    ii_args = [(''adminToRemove'', IPubkey)],
    ii_returns = None\<rparr>"

definition idl_removeApprover :: idl_instruction where
  "idl_removeApprover = \<lparr>ii_name = ''removeApprover'', ii_discriminator = [214, 72, 133, 48, 50, 58, 227, 224],
    ii_accounts =
      [(''state'', [IsWritable, Pda [ConstSeed ''state''] None]),
       (''boss'', [IsSigner, Relations [''state'']])],
    ii_args = [(''approver'', IPubkey)],
    ii_returns = None\<rparr>"

definition idl_setKillSwitch :: idl_instruction where
  "idl_setKillSwitch = \<lparr>ii_name = ''setKillSwitch'', ii_discriminator = [228, 119, 172, 135, 209, 250, 172, 216],
    ii_accounts =
      [(''state'', [IsWritable, Pda [ConstSeed ''state''] None]),
       (''signer'', [IsSigner])],
    ii_args = [(''enable'', IBool)],
    ii_returns = None\<rparr>"

definition idl_setOnycMint :: idl_instruction where
  "idl_setOnycMint = \<lparr>ii_name = ''setOnycMint'', ii_discriminator = [177, 83, 119, 179, 44, 141, 201, 24],
    ii_accounts =
      [(''state'', [IsWritable, Pda [ConstSeed ''state''] None]),
       (''boss'', [IsSigner, Relations [''state'']]),
       (''onycMint'', [])],
    ii_args = [],
    ii_returns = None\<rparr>"

definition idl_setRedemptionAdmin :: idl_instruction where
  "idl_setRedemptionAdmin = \<lparr>ii_name = ''setRedemptionAdmin'', ii_discriminator = [122, 95, 205, 126, 218, 93, 18, 173],
    ii_accounts =
      [(''state'', [IsWritable, Pda [ConstSeed ''state''] None]),
       (''boss'', [IsSigner, Relations [''state'']])],
    ii_args = [(''newRedemptionAdmin'', IPubkey)],
    ii_returns = None\<rparr>"

definition takeOffer_accounts1 :: "idl_account list" where
  "takeOffer_accounts1 =
    [(''offer'', [IsWritable, Pda [ConstSeed ''offer'',
          AccountSeed ''tokenInMint'',
          AccountSeed ''tokenOutMint''] None]),
     (''state'', [Pda [ConstSeed ''state''] None]),
     (''boss'', [Relations [''state'']]),
     (''vaultAuthority'', [Pda [ConstSeed ''offer_vault_authority''] None])]"

definition takeOffer_accounts2 :: "idl_account list" where
  "takeOffer_accounts2 =
    [(''vaultTokenInAccount'', [IsWritable, Pda [AccountSeed ''vaultAuthority'',
          AccountSeed ''tokenInProgram'',
          AccountSeed ''tokenInMint''] (Some (ConstSeed associated_token_program_bytes))]),
     (''vaultTokenOutAccount'', [IsWritable, Pda [AccountSeed ''vaultAuthority'',
          AccountSeed ''tokenOutProgram'',
          AccountSeed ''tokenOutMint''] (Some (ConstSeed associated_token_program_bytes))]),
     (''tokenInMint'', [IsWritable]),
     (''tokenInProgram'', [])]"

definition takeOffer_accounts3 :: "idl_account list" where
  "takeOffer_accounts3 =
    [(''tokenOutMint'', [IsWritable]),
     (''tokenOutProgram'', []),
     (''userTokenInAccount'', [IsWritable, Pda [AccountSeed ''user'',
          AccountSeed ''tokenInProgram'',
          AccountSeed ''tokenInMint''] (Some (ConstSeed associated_token_program_bytes))]),
     (''userTokenOutAccount'', [IsWritable, Pda [AccountSeed ''user'',
          AccountSeed ''tokenOutProgram'',
          AccountSeed ''tokenOutMint''] (Some (ConstSeed associated_token_program_bytes))])]"

definition takeOffer_accounts4 :: "idl_account list" where
  "takeOffer_accounts4 =
    [(''bossTokenInAccount'', [IsWritable, Pda [AccountSeed ''boss'',
          AccountSeed ''tokenInProgram'',
          AccountSeed ''tokenInMint''] (Some (ConstSeed associated_token_program_bytes))]),
     (''mintAuthority'', [Pda [ConstSeed ''mint_authority''] None]),
     (''instructionsSysvar'', [Address ''Sysvar1nstructions1111111111111111111111111'']),
     (''user'', [IsWritable, IsSigner]),
     (''associatedTokenProgram'', [Address ''ATokenGPvbdGVxr1b2hvZbsiqW5xWH25efTNsLJA8knL'']),
     (''systemProgram'', [Address ''11111111111111111111111111111111''])]"

definition idl_takeOffer :: idl_instruction where
  "idl_takeOffer = \<lparr>ii_name = ''takeOffer'', ii_discriminator = [128, 156, 242, 207, 237, 192, 103, 240],
    ii_accounts =
      takeOffer_accounts1 @
      takeOffer_accounts2 @
      takeOffer_accounts3 @
      takeOffer_accounts4,
    ii_args = [(''tokenInAmount'', IU64), (''approvalMessage'', IOption (IDefined ''approvalMessage''))],
    ii_returns = None\<rparr>"

definition takeOfferPermissionless_accounts1 :: "idl_account list" where
  "takeOfferPermissionless_accounts1 =
    [(''offer'', [IsWritable, Pda [ConstSeed ''offer'',
          AccountSeed ''tokenInMint'',
          AccountSeed ''tokenOutMint''] None]),
     (''state'', [Pda [ConstSeed ''state''] None]),
     (''boss'', [Relations [''state'']]),
     (''vaultAuthority'', []),
     (''vaultTokenInAccount'', [IsWritable, Pda [AccountSeed ''vaultAuthority'',
          AccountSeed ''tokenInProgram'',
          AccountSeed ''tokenInMint''] (Some (ConstSeed associated_token_program_bytes))])]"

definition takeOfferPermissionless_accounts2 :: "idl_account list" where
  "takeOfferPermissionless_accounts2 =
    [(''vaultTokenOutAccount'', [IsWritable, Pda [AccountSeed ''vaultAuthority'',
          AccountSeed ''tokenOutProgram'',
          AccountSeed ''tokenOutMint''] (Some (ConstSeed associated_token_program_bytes))]),
     (''permissionlessAuthority'', []),
     (''permissionlessTokenInAccount'', [IsWritable, Pda [AccountSeed ''permissionlessAuthority'',
          AccountSeed ''tokenInProgram'',
          AccountSeed ''tokenInMint''] (Some (ConstSeed associated_token_program_bytes))])]"

definition takeOfferPermissionless_accounts3 :: "idl_account list" where
  "takeOfferPermissionless_accounts3 =
    [(''permissionlessTokenOutAccount'', [IsWritable, Pda [AccountSeed ''permissionlessAuthority'',
          AccountSeed ''tokenOutProgram'',
          AccountSeed ''tokenOutMint''] (Some (ConstSeed associated_token_program_bytes))]),
     (''tokenInMint'', [IsWritable]),
     (''tokenInProgram'', []),
     (''tokenOutMint'', [IsWritable]),
     (''tokenOutProgram'', [])]"

definition takeOfferPermissionless_accounts4 :: "idl_account list" where
  "takeOfferPermissionless_accounts4 =
    [(''userTokenInAccount'', [IsWritable, Pda [AccountSeed ''user'',
          AccountSeed ''tokenInProgram'',
          AccountSeed ''tokenInMint''] (Some (ConstSeed associated_token_program_bytes))]),
     (''userTokenOutAccount'', [IsWritable, Pda [AccountSeed ''user'',
          AccountSeed ''tokenOutProgram'',
          AccountSeed ''tokenOutMint''] (Some (ConstSeed associated_token_program_bytes))])]"

definition takeOfferPermissionless_accounts5 :: "idl_account list" where
  "takeOfferPermissionless_accounts5 =
    [(''bossTokenInAccount'', [IsWritable, Pda [AccountSeed ''boss'',
          AccountSeed ''tokenInProgram'',
          AccountSeed ''tokenInMint''] (Some (ConstSeed associated_token_program_bytes))]),
     (''mintAuthority'', []),
     (''instructionsSysvar'', [Address ''Sysvar1nstructions1111111111111111111111111'']),
     (''user'', [IsWritable, IsSigner]),
     (''associatedTokenProgram'', [Address ''ATokenGPvbdGVxr1b2hvZbsiqW5xWH25efTNsLJA8knL'']),
     (''systemProgram'', [Address ''11111111111111111111111111111111''])]"

definition idl_takeOfferPermissionless :: idl_instruction where
  "idl_takeOfferPermissionless = \<lparr>ii_name = ''takeOfferPermissionless'', ii_discriminator = [37, 190, 224, 77, 197, 39, 203, 230],
    ii_accounts =
      takeOfferPermissionless_accounts1 @
      takeOfferPermissionless_accounts2 @
      takeOfferPermissionless_accounts3 @
      takeOfferPermissionless_accounts4 @
      takeOfferPermissionless_accounts5,
    ii_args = [(''tokenInAmount'', IU64), (''approvalMessage'', IOption (IDefined ''approvalMessage''))],
    ii_returns = None\<rparr>"

definition idl_transferMintAuthorityToBoss :: idl_instruction where
  "idl_transferMintAuthorityToBoss = \<lparr>ii_name = ''transferMintAuthorityToBoss'', ii_discriminator = [197, 61, 42, 52, 70, 93, 30, 125],
    ii_accounts =
      [(''boss'', [IsSigner, Relations [''state'']]),
       (''state'', [Pda [ConstSeed ''state''] None]),
       (''mint'', [IsWritable]),
       (''mintAuthority'', [Pda [ConstSeed ''mint_authority''] None]),
       (''tokenProgram'', [])],
    ii_args = [],
    ii_returns = None\<rparr>"

definition idl_transferMintAuthorityToProgram :: idl_instruction where
  "idl_transferMintAuthorityToProgram = \<lparr>ii_name = ''transferMintAuthorityToProgram'', ii_discriminator = [98, 112, 50, 135, 53, 6, 149, 232],
    ii_accounts =
      [(''boss'', [IsSigner, Relations [''state'']]),
       (''state'', [Pda [ConstSeed ''state''] None]),
       (''mint'', [IsWritable]),
       (''mintAuthority'', [Pda [ConstSeed ''mint_authority''] None]),
       (''tokenProgram'', [])],
    ii_args = [],
    ii_returns = None\<rparr>"

definition idl_updateOfferFee :: idl_instruction where
  "idl_updateOfferFee = \<lparr>ii_name = ''updateOfferFee'', ii_discriminator = [254, 162, 70, 248, 117, 70, 197, 118],
    ii_accounts =
      [(''offer'', [IsWritable, Pda [ConstSeed ''offer'',
          AccountSeed ''tokenInMint'',
          AccountSeed ''tokenOutMint''] None]),
       (''tokenInMint'', []),
       (''tokenOutMint'', []),
       (''state'', [Pda [ConstSeed ''state''] None]),
       (''boss'', [IsSigner, Relations [''state'']])],
    ii_args = [(''newFeeBasisPoints'', IU16)],
    ii_returns = None\<rparr>"

definition idl_updateRedemptionOfferFee :: idl_instruction where
  "idl_updateRedemptionOfferFee = \<lparr>ii_name = ''updateRedemptionOfferFee'', ii_discriminator = [73, 11, 35, 194, 219, 147, 159, 3],
    ii_accounts =
      [(''redemptionOffer'', [IsWritable, Pda [ConstSeed ''redemption_offer'',
          FieldSeed ''redemption_offer.token_in_mint'' ''redemptionOffer'',
          FieldSeed ''redemption_offer.token_out_mint'' ''redemptionOffer''] None]),
       (''state'', [Pda [ConstSeed ''state''] None]),
       (''boss'', [IsSigner, Relations [''state'']])],
    ii_args = [(''newFeeBasisPoints'', IU16)],
    ii_returns = None\<rparr>"

section \<open>All instructions\<close>

definition onreapp_instructions :: "idl_instruction list" where
  "onreapp_instructions =
    [idl_acceptBoss, idl_addAdmin, idl_addApprover, idl_addOfferVector, idl_cancelRedemptionRequest,
   idl_clearAdmins, idl_closeState, idl_configureMaxSupply, idl_createRedemptionRequest,
   idl_deleteAllOfferVectors, idl_deleteOfferVector, idl_fulfillRedemptionRequest, idl_getApy,
   idl_getCirculatingSupply, idl_getNav, idl_getNavAdjustment, idl_getTvl, idl_initialize,
   idl_initializePermissionlessAuthority, idl_makeOffer, idl_makeRedemptionOffer, idl_mintTo,
   idl_offerVaultDeposit, idl_offerVaultWithdraw, idl_proposeBoss, idl_redemptionVaultDeposit,
   idl_redemptionVaultWithdraw, idl_removeAdmin, idl_removeApprover, idl_setKillSwitch, idl_setOnycMint,
   idl_setRedemptionAdmin, idl_takeOffer, idl_takeOfferPermissionless, idl_transferMintAuthorityToBoss,
   idl_transferMintAuthorityToProgram, idl_updateOfferFee, idl_updateRedemptionOfferFee]"

lemmas idl_instruction_defs = idl_acceptBoss_def idl_addAdmin_def idl_addApprover_def idl_addOfferVector_def
  idl_cancelRedemptionRequest_def idl_clearAdmins_def idl_closeState_def idl_configureMaxSupply_def
  idl_createRedemptionRequest_def idl_deleteAllOfferVectors_def idl_deleteOfferVector_def
  idl_fulfillRedemptionRequest_def idl_getApy_def idl_getCirculatingSupply_def idl_getNav_def
  idl_getNavAdjustment_def idl_getTvl_def idl_initialize_def idl_initializePermissionlessAuthority_def
  idl_makeOffer_def idl_makeRedemptionOffer_def idl_mintTo_def idl_offerVaultDeposit_def
  idl_offerVaultWithdraw_def idl_proposeBoss_def idl_redemptionVaultDeposit_def
  idl_redemptionVaultWithdraw_def idl_removeAdmin_def idl_removeApprover_def idl_setKillSwitch_def
  idl_setOnycMint_def idl_setRedemptionAdmin_def idl_takeOffer_def idl_takeOfferPermissionless_def
  idl_transferMintAuthorityToBoss_def idl_transferMintAuthorityToProgram_def idl_updateOfferFee_def
  idl_updateRedemptionOfferFee_def

lemmas idl_account_defs = associated_token_program_bytes_def
  cancelRedemptionRequest_accounts1_def cancelRedemptionRequest_accounts2_def
  cancelRedemptionRequest_accounts3_def createRedemptionRequest_accounts1_def
  createRedemptionRequest_accounts2_def createRedemptionRequest_accounts3_def
  fulfillRedemptionRequest_accounts1_def fulfillRedemptionRequest_accounts2_def
  fulfillRedemptionRequest_accounts3_def fulfillRedemptionRequest_accounts4_def
  fulfillRedemptionRequest_accounts5_def initialize_accounts1_def makeOffer_accounts1_def
  makeOffer_accounts2_def makeRedemptionOffer_accounts1_def makeRedemptionOffer_accounts2_def
  makeRedemptionOffer_accounts3_def mintTo_accounts1_def mintTo_accounts2_def offerVaultDeposit_accounts1_def
  offerVaultDeposit_accounts2_def offerVaultWithdraw_accounts1_def offerVaultWithdraw_accounts2_def
  redemptionVaultDeposit_accounts1_def redemptionVaultDeposit_accounts2_def
  redemptionVaultWithdraw_accounts1_def redemptionVaultWithdraw_accounts2_def takeOffer_accounts1_def
  takeOffer_accounts2_def takeOffer_accounts3_def takeOffer_accounts4_def
  takeOfferPermissionless_accounts1_def takeOfferPermissionless_accounts2_def
  takeOfferPermissionless_accounts3_def takeOfferPermissionless_accounts4_def
  takeOfferPermissionless_accounts5_def

end
