(* ===== verification/Idl_Types.thy ===== *)
theory Idl_Types
  imports Idl_Instructions
begin

text \<open>
  \<^verbatim>\<open>target/types/onreapp.ts\<close>, the rest: account and event discriminators, error codes, type definitions, and the
  description as a whole.
\<close>

section \<open>Accounts, events and errors\<close>

definition onreapp_accounts :: "(string \<times> nat list) list" where
  "onreapp_accounts =
    [(''offer'', [215, 88, 60, 71, 170, 162, 73, 229]),
     (''permissionlessAuthority'', [241, 34, 5, 97, 43, 102, 149, 52]),
     (''redemptionOffer'', [170, 229, 178, 15, 184, 107, 140, 41]),
     (''redemptionRequest'', [117, 157, 214, 214, 64, 160, 31, 58]),
     (''state'', [216, 146, 107, 94, 104, 75, 182, 177])]"

definition onreapp_events :: "(string \<times> nat list) list" where
  "onreapp_events =
    [(''adminAddedEvent'', [68, 183, 187, 200, 190, 214, 20, 77]),
     (''adminRemovedEvent'', [226, 5, 12, 53, 69, 56, 172, 132]),
     (''adminsClearedEvent'', [202, 81, 156, 32, 66, 208, 159, 153]),
     (''allOfferVectorsDeletedEvent'', [13, 237, 37, 22, 175, 128, 178, 200]),
     (''approverAddedEvent'', [130, 197, 173, 181, 53, 38, 162, 134]),
     (''approverRemovedEvent'', [234, 1, 25, 206, 97, 119, 7, 23]),
     (''bossAcceptedEvent'', [11, 133, 76, 152, 219, 5, 220, 103]),
     (''bossProposedEvent'', [22, 117, 195, 6, 169, 57, 141, 17]),
     (''getApyEvent'', [235, 74, 195, 163, 16, 198, 159, 61]),
     (''getCirculatingSupplyEvent'', [2, 255, 109, 150, 90, 242, 104, 206]),
     (''getNavEvent'', [112, 70, 141, 221, 181, 134, 99, 92]),
     (''getNavAdjustmentEvent'', [22, 137, 159, 134, 238, 37, 111, 158]),
     (''getTvlEvent'', [12, 82, 39, 27, 40, 162, 216, 88]),
     (''killSwitchToggledEvent'', [104, 2, 90, 20, 64, 132, 228, 122]),
     (''maxSupplyConfiguredEvent'', [180, 54, 16, 115, 92, 70, 168, 123]),
     (''mintAuthorityTransferredToBossEvent'', [86, 223, 255, 189, 210, 62, 212, 151]),
     (''mintAuthorityTransferredToProgramEvent'', [237, 15, 101, 27, 85, 70, 173, 232]),
     (''oNycMintUpdatedEvent'', [221, 248, 176, 184, 134, 249, 29, 1]),
     (''offerFeeUpdatedEvent'', [65, 77, 241, 6, 23, 133, 45, 180]),
     (''offerMadeEvent'', [206, 97, 61, 193, 90, 177, 83, 200]),
     (''offerTakenEvent'', [64, 121, 49, 21, 184, 132, 139, 54]),
     (''offerTakenPermissionlessEvent'', [201, 45, 242, 200, 95, 48, 126, 143]),
     (''offerVaultDepositEvent'', [145, 212, 252, 95, 149, 4, 227, 27]),
     (''offerVaultWithdrawEvent'', [29, 35, 115, 218, 32, 155, 211, 94]),
     (''offerVectorAddedEvent'', [104, 34, 244, 250, 33, 201, 53, 103]),
     (''offerVectorDeletedEvent'', [11, 85, 222, 27, 101, 98, 160, 167]),
     (''offerVectorEvictedEvent'', [52, 231, 183, 68, 181, 24, 100, 243]),
     (''onycTokensMintedEvent'', [241, 171, 63, 134, 122, 8, 178, 120]),
     (''redemptionAdminUpdatedEvent'', [110, 117, 47, 219, 133, 230, 199, 178]),
     (''redemptionOfferCreatedEvent'', [171, 25, 200, 106, 108, 123, 70, 65]),
     (''redemptionOfferFeeUpdatedEvent'', [221, 254, 77, 118, 205, 154, 166, 156]),
     (''redemptionRequestCancelledEvent'', [51, 146, 195, 92, 134, 230, 73, 134]),
     (''redemptionRequestCreatedEvent'', [30, 61, 76, 2, 36, 82, 84, 201]),
     (''redemptionRequestFulfilledEvent'', [154, 40, 115, 4, 42, 232, 47, 230]),
     (''redemptionVaultDepositEvent'', [229, 187, 130, 152, 236, 139, 239, 108]),
     (''redemptionVaultWithdrawEvent'', [255, 92, 199, 233, 33, 6, 21, 78]),
     (''stateClosedEvent'', [205, 52, 85, 250, 177, 119, 155, 198])]"

definition onreapp_errors :: "(nat \<times> string \<times> string) list" where
  "onreapp_errors =
    [(6000, ''expired'', ''The approval message has expired.''),
     (6001, ''wrongProgram'', ''The approval message is for the wrong program.''),
     (6002, ''wrongUser'', ''The approval message is for the wrong user.''),
     (6003, ''missingEd25519Ix'', ''Missing Ed25519 instruction.''),
     (6004, ''wrongIxProgram'', ''The instruction is for the wrong program.''),
     (6005, ''badEd25519Accounts'', ''Ed25519 instruction has accounts.''),
     (6006, ''malformedEd25519Ix'', ''Malformed Ed25519 instruction.''),
     (6007, ''multipleSigs'', ''Multiple signatures found in Ed25519 instruction.''),
     (6008, ''wrongAuthority'', ''The authority public key does not match.''),
     (6009, ''msgMismatch'', ''The message in the Ed25519 instruction does not match the approval message.''),
     (6010, ''msgDeserialize'', ''Failed to deserialize the approval message.'')]"

section \<open>Types\<close>

definition type_adminAddedEvent :: idl_typedef where
  "type_adminAddedEvent = \<lparr>td_name = ''adminAddedEvent'', td_serialization = None, td_repr = None,
    td_fields = [(''admin'', IPubkey), (''boss'', IPubkey)], td_variants = []\<rparr>"

definition type_adminRemovedEvent :: idl_typedef where
  "type_adminRemovedEvent = \<lparr>td_name = ''adminRemovedEvent'', td_serialization = None, td_repr = None,
    td_fields = [(''admin'', IPubkey), (''boss'', IPubkey)], td_variants = []\<rparr>"

definition type_adminsClearedEvent :: idl_typedef where
  "type_adminsClearedEvent = \<lparr>td_name = ''adminsClearedEvent'', td_serialization = None, td_repr = None,
    td_fields = [(''boss'', IPubkey)], td_variants = []\<rparr>"

definition type_allOfferVectorsDeletedEvent :: idl_typedef where
  "type_allOfferVectorsDeletedEvent = \<lparr>td_name = ''allOfferVectorsDeletedEvent'', td_serialization = None, td_repr = None,
    td_fields = [(''offerPda'', IPubkey), (''vectorsDeletedCount'', IU8)], td_variants = []\<rparr>"

definition type_approvalMessage :: idl_typedef where
  "type_approvalMessage = \<lparr>td_name = ''approvalMessage'', td_serialization = None, td_repr = None,
    td_fields = [(''programId'', IPubkey), (''userPubkey'', IPubkey), (''expiryUnix'', IU64)], td_variants = []\<rparr>"

definition type_approverAddedEvent :: idl_typedef where
  "type_approverAddedEvent = \<lparr>td_name = ''approverAddedEvent'', td_serialization = None, td_repr = None,
    td_fields = [(''approver'', IPubkey), (''boss'', IPubkey)], td_variants = []\<rparr>"

definition type_approverRemovedEvent :: idl_typedef where
  "type_approverRemovedEvent = \<lparr>td_name = ''approverRemovedEvent'', td_serialization = None, td_repr = None,
    td_fields = [(''approver'', IPubkey), (''boss'', IPubkey)], td_variants = []\<rparr>"

definition type_bossAcceptedEvent :: idl_typedef where
  "type_bossAcceptedEvent = \<lparr>td_name = ''bossAcceptedEvent'', td_serialization = None, td_repr = None,
    td_fields = [(''oldBoss'', IPubkey), (''newBoss'', IPubkey)], td_variants = []\<rparr>"

definition type_bossProposedEvent :: idl_typedef where
  "type_bossProposedEvent = \<lparr>td_name = ''bossProposedEvent'', td_serialization = None, td_repr = None,
    td_fields = [(''currentBoss'', IPubkey), (''proposedBoss'', IPubkey)], td_variants = []\<rparr>"

definition type_getApyEvent :: idl_typedef where
  "type_getApyEvent = \<lparr>td_name = ''getApyEvent'', td_serialization = None, td_repr = None,
    td_fields = [(''offerPda'', IPubkey), (''apy'', IU64), (''apr'', IU64), (''timestamp'', IU64)], td_variants = []\<rparr>"

definition type_getCirculatingSupplyEvent :: idl_typedef where
  "type_getCirculatingSupplyEvent = \<lparr>td_name = ''getCirculatingSupplyEvent'', td_serialization = None, td_repr = None,
    td_fields = [(''circulatingSupply'', IU64), (''totalSupply'', IU64), (''vaultAmount'', IU64),
                 (''timestamp'', IU64)], td_variants = []\<rparr>"

definition type_getNavEvent :: idl_typedef where
  "type_getNavEvent = \<lparr>td_name = ''getNavEvent'', td_serialization = None, td_repr = None,
    td_fields = [(''offerPda'', IPubkey), (''currentPrice'', IU64), (''timestamp'', IU64),
                 (''nextPriceChangeTimestamp'', IU64)], td_variants = []\<rparr>"

definition type_getNavAdjustmentEvent :: idl_typedef where
  "type_getNavAdjustmentEvent = \<lparr>td_name = ''getNavAdjustmentEvent'', td_serialization = None, td_repr = None,
    td_fields = [(''offerPda'', IPubkey), (''currentPrice'', IU64), (''previousPrice'', IOption IU64),
                 (''adjustment'', II64), (''timestamp'', IU64)], td_variants = []\<rparr>"

definition type_getTvlEvent :: idl_typedef where
  "type_getTvlEvent = \<lparr>td_name = ''getTvlEvent'', td_serialization = None, td_repr = None,
    td_fields = [(''offerPda'', IPubkey), (''tvl'', IU64), (''currentPrice'', IU64), (''tokenSupply'', IU64),
                 (''timestamp'', IU64)], td_variants = []\<rparr>"

definition type_killSwitchToggledEvent :: idl_typedef where
  "type_killSwitchToggledEvent = \<lparr>td_name = ''killSwitchToggledEvent'', td_serialization = None, td_repr = None,
    td_fields = [(''enabled'', IBool), (''signer'', IPubkey)], td_variants = []\<rparr>"

definition type_maxSupplyConfiguredEvent :: idl_typedef where
  "type_maxSupplyConfiguredEvent = \<lparr>td_name = ''maxSupplyConfiguredEvent'', td_serialization = None, td_repr = None,
    td_fields = [(''oldMaxSupply'', IU64), (''newMaxSupply'', IU64)], td_variants = []\<rparr>"

definition type_mintAuthorityTransferredToBossEvent :: idl_typedef where
  "type_mintAuthorityTransferredToBossEvent = \<lparr>td_name = ''mintAuthorityTransferredToBossEvent'', td_serialization = None, td_repr = None,
    td_fields = [(''mint'', IPubkey), (''oldAuthority'', IPubkey), (''newAuthority'', IPubkey)], td_variants = []\<rparr>"

definition type_mintAuthorityTransferredToProgramEvent :: idl_typedef where
  "type_mintAuthorityTransferredToProgramEvent = \<lparr>td_name = ''mintAuthorityTransferredToProgramEvent'', td_serialization = None, td_repr = None,
    td_fields = [(''mint'', IPubkey), (''oldAuthority'', IPubkey), (''newAuthority'', IPubkey)], td_variants = []\<rparr>"

definition type_oNycMintUpdatedEvent :: idl_typedef where
  "type_oNycMintUpdatedEvent = \<lparr>td_name = ''oNycMintUpdatedEvent'', td_serialization = None, td_repr = None,
    td_fields = [(''oldOnycMint'', IPubkey), (''newOnycMint'', IPubkey)], td_variants = []\<rparr>"

definition type_offer :: idl_typedef where
  "type_offer = \<lparr>td_name = ''offer'', td_serialization = Some ''bytemuck'', td_repr = Some ''c'',
    td_fields = [(''tokenInMint'', IPubkey), (''tokenOutMint'', IPubkey),
                 (''vectors'', IArray (IDefined ''offerVector'') 10), (''feeBasisPoints'', IU16),
                 (''bump'', IU8), (''needsApproval'', IU8), (''allowPermissionless'', IU8),
                 (''reserved'', IArray IU8 131)], td_variants = []\<rparr>"

definition type_offerFeeUpdatedEvent :: idl_typedef where
  "type_offerFeeUpdatedEvent = \<lparr>td_name = ''offerFeeUpdatedEvent'', td_serialization = None, td_repr = None,
    td_fields = [(''offerPda'', IPubkey), (''oldFeeBasisPoints'', IU16), (''newFeeBasisPoints'', IU16),
                 (''boss'', IPubkey)], td_variants = []\<rparr>"

definition type_offerMadeEvent :: idl_typedef where
  "type_offerMadeEvent = \<lparr>td_name = ''offerMadeEvent'', td_serialization = None, td_repr = None,
    td_fields = [(''offerPda'', IPubkey), (''tokenInMint'', IPubkey), (''tokenOutMint'', IPubkey),
                 (''feeBasisPoints'', IU16), (''boss'', IPubkey), (''needsApproval'', IBool),
                 (''allowPermissionless'', IBool)], td_variants = []\<rparr>"

definition type_offerTakenEvent :: idl_typedef where
  "type_offerTakenEvent = \<lparr>td_name = ''offerTakenEvent'', td_serialization = None, td_repr = None,
    td_fields = [(''offerPda'', IPubkey), (''tokenInAmount'', IU64), (''tokenOutAmount'', IU64),
                 (''feeAmount'', IU64), (''user'', IPubkey)], td_variants = []\<rparr>"

definition type_offerTakenPermissionlessEvent :: idl_typedef where
  "type_offerTakenPermissionlessEvent = \<lparr>td_name = ''offerTakenPermissionlessEvent'', td_serialization = None, td_repr = None,
    td_fields = [(''offerPda'', IPubkey), (''tokenInAmount'', IU64), (''tokenOutAmount'', IU64),
                 (''feeAmount'', IU64), (''user'', IPubkey)], td_variants = []\<rparr>"

definition type_offerVaultDepositEvent :: idl_typedef where
  "type_offerVaultDepositEvent = \<lparr>td_name = ''offerVaultDepositEvent'', td_serialization = None, td_repr = None,
    td_fields = [(''mint'', IPubkey), (''amount'', IU64), (''boss'', IPubkey)], td_variants = []\<rparr>"

definition type_offerVaultWithdrawEvent :: idl_typedef where
  "type_offerVaultWithdrawEvent = \<lparr>td_name = ''offerVaultWithdrawEvent'', td_serialization = None, td_repr = None,
    td_fields = [(''mint'', IPubkey), (''amount'', IU64), (''boss'', IPubkey)], td_variants = []\<rparr>"

definition type_offerVector :: idl_typedef where
  "type_offerVector = \<lparr>td_name = ''offerVector'', td_serialization = Some ''bytemuck'', td_repr = Some ''c'',
    td_fields = [(''startTime'', IU64), (''baseTime'', IU64), (''basePrice'', IU64), (''apr'', IU64),
                 (''priceFixDuration'', IU64)], td_variants = []\<rparr>"

definition type_offerVectorAddedEvent :: idl_typedef where
  "type_offerVectorAddedEvent = \<lparr>td_name = ''offerVectorAddedEvent'', td_serialization = None, td_repr = None,
    td_fields = [(''offerPda'', IPubkey), (''startTime'', IU64), (''baseTime'', IU64), (''basePrice'', IU64),
                 (''apr'', IU64), (''priceFixDuration'', IU64)], td_variants = []\<rparr>"

definition type_offerVectorDeletedEvent :: idl_typedef where
  "type_offerVectorDeletedEvent = \<lparr>td_name = ''offerVectorDeletedEvent'', td_serialization = None, td_repr = None,
    td_fields = [(''offerPda'', IPubkey), (''vectorStartTime'', IU64)], td_variants = []\<rparr>"

definition type_offerVectorEvictedEvent :: idl_typedef where
  "type_offerVectorEvictedEvent = \<lparr>td_name = ''offerVectorEvictedEvent'', td_serialization = None, td_repr = None,
    td_fields = [(''offerTokenInMint'', IPubkey), (''offerTokenOutMint'', IPubkey), (''vectorStartTime'', IU64)], td_variants = []\<rparr>"

definition type_onycTokensMintedEvent :: idl_typedef where
  "type_onycTokensMintedEvent = \<lparr>td_name = ''onycTokensMintedEvent'', td_serialization = None, td_repr = None,
    td_fields = [(''onycMint'', IPubkey), (''boss'', IPubkey), (''amount'', IU64)], td_variants = []\<rparr>"

definition type_permissionlessAuthority :: idl_typedef where
  "type_permissionlessAuthority = \<lparr>td_name = ''permissionlessAuthority'', td_serialization = None, td_repr = None,
    td_fields = [(''name'', IString)], td_variants = []\<rparr>"

definition type_redemptionAdminUpdatedEvent :: idl_typedef where
  "type_redemptionAdminUpdatedEvent = \<lparr>td_name = ''redemptionAdminUpdatedEvent'', td_serialization = None, td_repr = None,
    td_fields = [(''oldRedemptionAdmin'', IPubkey), (''newRedemptionAdmin'', IPubkey)], td_variants = []\<rparr>"

definition type_redemptionOffer :: idl_typedef where
  "type_redemptionOffer = \<lparr>td_name = ''redemptionOffer'', td_serialization = None, td_repr = None,
    td_fields = [(''offer'', IPubkey), (''tokenInMint'', IPubkey), (''tokenOutMint'', IPubkey),
                 (''executedRedemptions'', IU128), (''requestedRedemptions'', IU128), (''feeBasisPoints'', IU16),
                 (''requestCounter'', IU64), (''bump'', IU8), (''reserved'', IArray IU8 109)], td_variants = []\<rparr>"

definition type_redemptionOfferCreatedEvent :: idl_typedef where
  "type_redemptionOfferCreatedEvent = \<lparr>td_name = ''redemptionOfferCreatedEvent'', td_serialization = None, td_repr = None,
    td_fields = [(''redemptionOfferPda'', IPubkey), (''offer'', IPubkey), (''tokenInMint'', IPubkey),
                 (''tokenOutMint'', IPubkey), (''feeBasisPoints'', IU16)], td_variants = []\<rparr>"

definition type_redemptionOfferFeeUpdatedEvent :: idl_typedef where
  "type_redemptionOfferFeeUpdatedEvent = \<lparr>td_name = ''redemptionOfferFeeUpdatedEvent'', td_serialization = None, td_repr = None,
    td_fields = [(''redemptionOfferPda'', IPubkey), (''oldFeeBasisPoints'', IU16), (''newFeeBasisPoints'', IU16),
                 (''boss'', IPubkey)], td_variants = []\<rparr>"

definition type_redemptionRequest :: idl_typedef where
  "type_redemptionRequest = \<lparr>td_name = ''redemptionRequest'', td_serialization = None, td_repr = None,
    td_fields = [(''offer'', IPubkey), (''requestId'', IU64), (''redeemer'', IPubkey), (''amount'', IU64),
                 (''bump'', IU8), (''reserved'', IArray IU8 127)], td_variants = []\<rparr>"

definition type_redemptionRequestCancelledEvent :: idl_typedef where
  "type_redemptionRequestCancelledEvent = \<lparr>td_name = ''redemptionRequestCancelledEvent'', td_serialization = None, td_repr = None,
    td_fields = [(''redemptionRequestPda'', IPubkey), (''redemptionOffer'', IPubkey), (''redeemer'', IPubkey),
                 (''amount'', IU64), (''cancelledBy'', IPubkey)], td_variants = []\<rparr>"

definition type_redemptionRequestCreatedEvent :: idl_typedef where
  "type_redemptionRequestCreatedEvent = \<lparr>td_name = ''redemptionRequestCreatedEvent'', td_serialization = None, td_repr = None,
    td_fields = [(''redemptionRequestPda'', IPubkey), (''redemptionOfferPda'', IPubkey), (''redeemer'', IPubkey),
                 (''amount'', IU64), (''id'', IU64)], td_variants = []\<rparr>"

definition type_redemptionRequestFulfilledEvent :: idl_typedef where
  "type_redemptionRequestFulfilledEvent = \<lparr>td_name = ''redemptionRequestFulfilledEvent'', td_serialization = None, td_repr = None,
    td_fields = [(''redemptionRequestPda'', IPubkey), (''redemptionOfferPda'', IPubkey), (''redeemer'', IPubkey),
                 (''tokenInNetAmount'', IU64), (''tokenInFeeAmount'', IU64), (''tokenOutAmount'', IU64),
                 (''currentPrice'', IU64)], td_variants = []\<rparr>"

definition type_redemptionVaultDepositEvent :: idl_typedef where
  "type_redemptionVaultDepositEvent = \<lparr>td_name = ''redemptionVaultDepositEvent'', td_serialization = None, td_repr = None,
    td_fields = [(''mint'', IPubkey), (''amount'', IU64), (''boss'', IPubkey)], td_variants = []\<rparr>"

definition type_redemptionVaultWithdrawEvent :: idl_typedef where
  "type_redemptionVaultWithdrawEvent = \<lparr>td_name = ''redemptionVaultWithdrawEvent'', td_serialization = None, td_repr = None,
    td_fields = [(''mint'', IPubkey), (''amount'', IU64), (''boss'', IPubkey)], td_variants = []\<rparr>"

definition type_state :: idl_typedef where
  "type_state = \<lparr>td_name = ''state'', td_serialization = None, td_repr = None,
    td_fields = [(''boss'', IPubkey), (''proposedBoss'', IPubkey), (''isKilled'', IBool),
                 (''onycMint'', IPubkey), (''admins'', IArray IPubkey 20), (''approver1'', IPubkey),
                 (''approver2'', IPubkey), (''bump'', IU8), (''maxSupply'', IU64),
                 (''redemptionAdmin'', IPubkey), (''reserved'', IArray IU8 96)], td_variants = []\<rparr>"

definition type_stateClosedEvent :: idl_typedef where
  "type_stateClosedEvent = \<lparr>td_name = ''stateClosedEvent'', td_serialization = None, td_repr = None,
    td_fields = [(''statePda'', IPubkey), (''boss'', IPubkey)], td_variants = []\<rparr>"

definition onreapp_types :: "idl_typedef list" where
  "onreapp_types =
    [type_adminAddedEvent, type_adminRemovedEvent, type_adminsClearedEvent, type_allOfferVectorsDeletedEvent,
     type_approvalMessage, type_approverAddedEvent, type_approverRemovedEvent, type_bossAcceptedEvent,
     type_bossProposedEvent, type_getApyEvent, type_getCirculatingSupplyEvent, type_getNavEvent,
     type_getNavAdjustmentEvent, type_getTvlEvent, type_killSwitchToggledEvent, type_maxSupplyConfiguredEvent,
     type_mintAuthorityTransferredToBossEvent, type_mintAuthorityTransferredToProgramEvent,
     type_oNycMintUpdatedEvent, type_offer, type_offerFeeUpdatedEvent, type_offerMadeEvent, type_offerTakenEvent,
     type_offerTakenPermissionlessEvent, type_offerVaultDepositEvent, type_offerVaultWithdrawEvent,
     type_offerVector, type_offerVectorAddedEvent, type_offerVectorDeletedEvent, type_offerVectorEvictedEvent,
     type_onycTokensMintedEvent, type_permissionlessAuthority, type_redemptionAdminUpdatedEvent,
     type_redemptionOffer, type_redemptionOfferCreatedEvent, type_redemptionOfferFeeUpdatedEvent,
     type_redemptionRequest, type_redemptionRequestCancelledEvent, type_redemptionRequestCreatedEvent,
     type_redemptionRequestFulfilledEvent, type_redemptionVaultDepositEvent, type_redemptionVaultWithdrawEvent,
     type_state, type_stateClosedEvent]"

lemmas idl_type_defs = type_adminAddedEvent_def type_adminRemovedEvent_def type_adminsClearedEvent_def
    type_allOfferVectorsDeletedEvent_def type_approvalMessage_def type_approverAddedEvent_def
    type_approverRemovedEvent_def type_bossAcceptedEvent_def type_bossProposedEvent_def type_getApyEvent_def
    type_getCirculatingSupplyEvent_def type_getNavEvent_def type_getNavAdjustmentEvent_def type_getTvlEvent_def
    type_killSwitchToggledEvent_def type_maxSupplyConfiguredEvent_def
    type_mintAuthorityTransferredToBossEvent_def type_mintAuthorityTransferredToProgramEvent_def
    type_oNycMintUpdatedEvent_def type_offer_def type_offerFeeUpdatedEvent_def type_offerMadeEvent_def
    type_offerTakenEvent_def type_offerTakenPermissionlessEvent_def type_offerVaultDepositEvent_def
    type_offerVaultWithdrawEvent_def type_offerVector_def type_offerVectorAddedEvent_def
    type_offerVectorDeletedEvent_def type_offerVectorEvictedEvent_def type_onycTokensMintedEvent_def
    type_permissionlessAuthority_def type_redemptionAdminUpdatedEvent_def type_redemptionOffer_def
    type_redemptionOfferCreatedEvent_def type_redemptionOfferFeeUpdatedEvent_def type_redemptionRequest_def
    type_redemptionRequestCancelledEvent_def type_redemptionRequestCreatedEvent_def
    type_redemptionRequestFulfilledEvent_def type_redemptionVaultDepositEvent_def
    type_redemptionVaultWithdrawEvent_def type_state_def type_stateClosedEvent_def

section \<open>The description\<close>

definition Onreapp :: idl where
  "Onreapp = \<lparr>idl_address = ''onreuGhHHgVzMWSkj2oQDLDtvvGvoepBPkqyaubFcwe'',
    idl_metadata = [(''name'', ''onreapp''), (''version'', ''0.1.0''), (''spec'', ''0.1.0''),
                    (''description'', ''Created with Anchor'')],
    idl_instructions = onreapp_instructions, idl_accounts = onreapp_accounts, idl_events = onreapp_events,
    idl_errors = onreapp_errors, idl_types = onreapp_types\<rparr>"

end
