(* ===== verification/Idl_Props.thy ===== *)
theory Idl_Props
  imports Idl_Types Chain_Program
begin

text \<open>
  The interface description is consistent, and describes the instructions and derived addresses of the contract:
  \<open>entry\<close> is the signature of an entry point of \<^verbatim>\<open>lib.rs\<close>.
\<close>

section \<open>The entry points\<close>

fun entry :: "instruction \<Rightarrow> string \<times> idl_type list \<times> idl_type option" where
  "entry (Initialize _ _ _ _) = (''initialize'', [], None)"
| "entry (InitializePermissionlessAuthority _ _) = (''initialize_permissionless_authority'', [IString], None)"
| "entry (OfferVaultDeposit _ _ _) = (''offer_vault_deposit'', [IU64], None)"
| "entry (OfferVaultWithdraw _ _ _) = (''offer_vault_withdraw'', [IU64], None)"
| "entry (RedemptionVaultDeposit _ _ _) = (''redemption_vault_deposit'', [IU64], None)"
| "entry (RedemptionVaultWithdraw _ _ _) = (''redemption_vault_withdraw'', [IU64], None)"
| "entry (MakeOffer _ _ _ _ _ _) = (''make_offer'', [IU16, IBool, IBool], None)"
| "entry (AddOfferVector _ _ _ _ _ _ _ _) = (''add_offer_vector'', [IOption IU64, IU64, IU64, IU64, IU64], None)"
| "entry (DeleteOfferVector _ _ _ _) = (''delete_offer_vector'', [IU64], None)"
| "entry (DeleteAllOfferVectors _ _ _) = (''delete_all_offer_vectors'', [], None)"
| "entry (UpdateOfferFee _ _ _ _) = (''update_offer_fee'', [IU16], None)"
| "entry (TakeOffer _ _ _ _ _ _) = (''take_offer'', [IU64, IOption (IDefined ''approvalMessage'')], None)"
| "entry (TakeOfferPermissionless _ _ _ _ _ _ _ _ _) = (''take_offer_permissionless'', [IU64, IOption (IDefined ''approvalMessage'')], None)"
| "entry (ProposeBoss _ _) = (''propose_boss'', [IPubkey], None)"
| "entry (AcceptBoss _) = (''accept_boss'', [], None)"
| "entry (AddAdmin _ _) = (''add_admin'', [IPubkey], None)"
| "entry (RemoveAdmin _ _) = (''remove_admin'', [IPubkey], None)"
| "entry (ClearAdmins _) = (''clear_admins'', [], None)"
| "entry (TransferMintAuthorityToProgram _ _) = (''transfer_mint_authority_to_program'', [], None)"
| "entry (TransferMintAuthorityToBoss _ _) = (''transfer_mint_authority_to_boss'', [], None)"
| "entry (SetKillSwitch _ _) = (''set_kill_switch'', [IBool], None)"
| "entry (SetOnycMint _ _) = (''set_onyc_mint'', [], None)"
| "entry (SetRedemptionAdmin _ _) = (''set_redemption_admin'', [IPubkey], None)"
| "entry (MintTo _ _ _) = (''mint_to'', [IU64], None)"
| "entry (GetNav _ _) = (''get_nav'', [], Some IU64)"
| "entry (GetApy _ _) = (''get_apy'', [], Some IU64)"
| "entry (GetNavAdjustment _ _) = (''get_nav_adjustment'', [], Some II64)"
| "entry (GetTvl _ _ _ _) = (''get_tvl'', [], Some IU64)"
| "entry (GetCirculatingSupply _ _ _) = (''get_circulating_supply'', [], Some IU64)"
| "entry (AddApprover _ _) = (''add_approver'', [IPubkey], None)"
| "entry (RemoveApprover _ _) = (''remove_approver'', [IPubkey], None)"
| "entry (ConfigureMaxSupply _ _) = (''configure_max_supply'', [IU64], None)"
| "entry (CloseState _ _) = (''close_state'', [], None)"
| "entry (MakeRedemptionOffer _ _ _ _) = (''make_redemption_offer'', [IU16], None)"
| "entry (CreateRedemptionRequest _ _ _ _) = (''create_redemption_request'', [IU64], None)"
| "entry (FulfillRedemptionRequest _ _ _ _ _ _ _ _) = (''fulfill_redemption_request'', [], None)"
| "entry (CancelRedemptionRequest _ _ _ _ _ _) = (''cancel_redemption_request'', [], None)"
| "entry (UpdateRedemptionOfferFee _ _ _) = (''update_redemption_offer_fee'', [IU16], None)"

text \<open>The bytes of a seed, from the addresses of the accounts and the contents of their fields.\<close>

definition field_number :: "string \<Rightarrow> string \<Rightarrow> bool" where
  "field_number p t = (Option.bind (find_type Onreapp t)
     (\<lambda>d. map_of (td_fields d) (camel (tl (dropWhile (\<lambda>x. x \<noteq> CHR ''.'') p)))) = Some IU64)"

fun seed_value :: "(string \<Rightarrow> pubkey) \<Rightarrow> (string \<Rightarrow> pubkey) \<Rightarrow> (string \<Rightarrow> nat) \<Rightarrow> idl_seed \<Rightarrow> seed" where
  "seed_value pub key num (ConstSeed s) = Seed s"
| "seed_value pub key num (AccountSeed p) = KeySeed (pub p)"
| "seed_value pub key num (FieldSeed p t) = (if field_number p t then U64Seed (num p) else KeySeed (key p))"

text \<open>The addresses at which the contract expects the accounts of an instruction.\<close>

definition chain_addresses ::
  "runtime \<Rightarrow> (string \<Rightarrow> pubkey) \<Rightarrow> (string \<Rightarrow> pubkey) \<Rightarrow> (string \<Rightarrow> nat) \<Rightarrow> string \<Rightarrow> (string \<times> pubkey) list" where
  "chain_addresses R pub key num m =
    [(''state'', state_pda R),
     (''offer'', if m = ''makeRedemptionOffer'' then offer_pda R (pub ''tokenOutMint'') (pub ''tokenInMint'')
        else offer_pda R (pub ''tokenInMint'') (pub ''tokenOutMint'')),
     (''vaultAuthority'', vault_authority R),
     (''offerVaultAuthority'', vault_authority R),
     (''permissionlessAuthority'', permissionless_authority R),
     (''mintAuthority'', mint_authority_pda R),
     (''redemptionVaultAuthority'', redemption_vault_authority R),
     (''redemptionOffer'', if m = ''makeRedemptionOffer'' then redemption_offer_pda R (pub ''tokenInMint'') (pub ''tokenOutMint'')
        else redemption_offer_pda R (key ''redemption_offer.token_in_mint'') (key ''redemption_offer.token_out_mint'')),
     (''redemptionRequest'', if m = ''createRedemptionRequest''
        then redemption_request_pda R (pub ''redemptionOffer'') (num ''redemption_offer.request_counter'')
        else redemption_request_pda R (key ''redemption_request.offer'') (num ''redemption_request.request_id''))]"

section \<open>Evaluation\<close>

lemma Onreapp_sel [simp]:
  "idl_instructions Onreapp = onreapp_instructions" "idl_accounts Onreapp = onreapp_accounts"
  "idl_events Onreapp = onreapp_events" "idl_errors Onreapp = onreapp_errors" "idl_types Onreapp = onreapp_types"
  by (simp_all add: Onreapp_def)

declare camel.simps [simp del]

lemma camel_entries [simp]:
  "camel ''initialize'' = ''initialize''"
  "camel ''initialize_permissionless_authority'' = ''initializePermissionlessAuthority''"
  "camel ''offer_vault_deposit'' = ''offerVaultDeposit''"
  "camel ''offer_vault_withdraw'' = ''offerVaultWithdraw''"
  "camel ''redemption_vault_deposit'' = ''redemptionVaultDeposit''"
  "camel ''redemption_vault_withdraw'' = ''redemptionVaultWithdraw''"
  "camel ''make_offer'' = ''makeOffer''"
  "camel ''add_offer_vector'' = ''addOfferVector''"
  "camel ''delete_offer_vector'' = ''deleteOfferVector''"
  "camel ''delete_all_offer_vectors'' = ''deleteAllOfferVectors''"
  "camel ''update_offer_fee'' = ''updateOfferFee''"
  "camel ''take_offer'' = ''takeOffer''"
  "camel ''take_offer_permissionless'' = ''takeOfferPermissionless''"
  "camel ''propose_boss'' = ''proposeBoss''"
  "camel ''accept_boss'' = ''acceptBoss''"
  "camel ''add_admin'' = ''addAdmin''"
  "camel ''remove_admin'' = ''removeAdmin''"
  "camel ''clear_admins'' = ''clearAdmins''"
  "camel ''transfer_mint_authority_to_program'' = ''transferMintAuthorityToProgram''"
  "camel ''transfer_mint_authority_to_boss'' = ''transferMintAuthorityToBoss''"
  "camel ''set_kill_switch'' = ''setKillSwitch''"
  "camel ''set_onyc_mint'' = ''setOnycMint''"
  "camel ''set_redemption_admin'' = ''setRedemptionAdmin''"
  "camel ''mint_to'' = ''mintTo''"
  "camel ''get_nav'' = ''getNav''"
  "camel ''get_apy'' = ''getApy''"
  "camel ''get_nav_adjustment'' = ''getNavAdjustment''"
  "camel ''get_tvl'' = ''getTvl''"
  "camel ''get_circulating_supply'' = ''getCirculatingSupply''"
  "camel ''add_approver'' = ''addApprover''"
  "camel ''remove_approver'' = ''removeApprover''"
  "camel ''configure_max_supply'' = ''configureMaxSupply''"
  "camel ''close_state'' = ''closeState''"
  "camel ''make_redemption_offer'' = ''makeRedemptionOffer''"
  "camel ''create_redemption_request'' = ''createRedemptionRequest''"
  "camel ''fulfill_redemption_request'' = ''fulfillRedemptionRequest''"
  "camel ''cancel_redemption_request'' = ''cancelRedemptionRequest''"
  "camel ''update_redemption_offer_fee'' = ''updateRedemptionOfferFee''"
  by code_simp+

lemma named_instructions:
  "idl_acceptBoss \<in> set onreapp_instructions"
  "idl_addAdmin \<in> set onreapp_instructions"
  "idl_addApprover \<in> set onreapp_instructions"
  "idl_addOfferVector \<in> set onreapp_instructions"
  "idl_cancelRedemptionRequest \<in> set onreapp_instructions"
  "idl_clearAdmins \<in> set onreapp_instructions"
  "idl_closeState \<in> set onreapp_instructions"
  "idl_configureMaxSupply \<in> set onreapp_instructions"
  "idl_createRedemptionRequest \<in> set onreapp_instructions"
  "idl_deleteAllOfferVectors \<in> set onreapp_instructions"
  "idl_deleteOfferVector \<in> set onreapp_instructions"
  "idl_fulfillRedemptionRequest \<in> set onreapp_instructions"
  "idl_getApy \<in> set onreapp_instructions"
  "idl_getCirculatingSupply \<in> set onreapp_instructions"
  "idl_getNav \<in> set onreapp_instructions"
  "idl_getNavAdjustment \<in> set onreapp_instructions"
  "idl_getTvl \<in> set onreapp_instructions"
  "idl_initialize \<in> set onreapp_instructions"
  "idl_initializePermissionlessAuthority \<in> set onreapp_instructions"
  "idl_makeOffer \<in> set onreapp_instructions"
  "idl_makeRedemptionOffer \<in> set onreapp_instructions"
  "idl_mintTo \<in> set onreapp_instructions"
  "idl_offerVaultDeposit \<in> set onreapp_instructions"
  "idl_offerVaultWithdraw \<in> set onreapp_instructions"
  "idl_proposeBoss \<in> set onreapp_instructions"
  "idl_redemptionVaultDeposit \<in> set onreapp_instructions"
  "idl_redemptionVaultWithdraw \<in> set onreapp_instructions"
  "idl_removeAdmin \<in> set onreapp_instructions"
  "idl_removeApprover \<in> set onreapp_instructions"
  "idl_setKillSwitch \<in> set onreapp_instructions"
  "idl_setOnycMint \<in> set onreapp_instructions"
  "idl_setRedemptionAdmin \<in> set onreapp_instructions"
  "idl_takeOffer \<in> set onreapp_instructions"
  "idl_takeOfferPermissionless \<in> set onreapp_instructions"
  "idl_transferMintAuthorityToBoss \<in> set onreapp_instructions"
  "idl_transferMintAuthorityToProgram \<in> set onreapp_instructions"
  "idl_updateOfferFee \<in> set onreapp_instructions"
  "idl_updateRedemptionOfferFee \<in> set onreapp_instructions"
  by (simp_all add: onreapp_instructions_def)

lemma instruction_names [simp]:
  "ii_name idl_acceptBoss = ''acceptBoss''"
  "ii_name idl_addAdmin = ''addAdmin''"
  "ii_name idl_addApprover = ''addApprover''"
  "ii_name idl_addOfferVector = ''addOfferVector''"
  "ii_name idl_cancelRedemptionRequest = ''cancelRedemptionRequest''"
  "ii_name idl_clearAdmins = ''clearAdmins''"
  "ii_name idl_closeState = ''closeState''"
  "ii_name idl_configureMaxSupply = ''configureMaxSupply''"
  "ii_name idl_createRedemptionRequest = ''createRedemptionRequest''"
  "ii_name idl_deleteAllOfferVectors = ''deleteAllOfferVectors''"
  "ii_name idl_deleteOfferVector = ''deleteOfferVector''"
  "ii_name idl_fulfillRedemptionRequest = ''fulfillRedemptionRequest''"
  "ii_name idl_getApy = ''getApy''"
  "ii_name idl_getCirculatingSupply = ''getCirculatingSupply''"
  "ii_name idl_getNav = ''getNav''"
  "ii_name idl_getNavAdjustment = ''getNavAdjustment''"
  "ii_name idl_getTvl = ''getTvl''"
  "ii_name idl_initialize = ''initialize''"
  "ii_name idl_initializePermissionlessAuthority = ''initializePermissionlessAuthority''"
  "ii_name idl_makeOffer = ''makeOffer''"
  "ii_name idl_makeRedemptionOffer = ''makeRedemptionOffer''"
  "ii_name idl_mintTo = ''mintTo''"
  "ii_name idl_offerVaultDeposit = ''offerVaultDeposit''"
  "ii_name idl_offerVaultWithdraw = ''offerVaultWithdraw''"
  "ii_name idl_proposeBoss = ''proposeBoss''"
  "ii_name idl_redemptionVaultDeposit = ''redemptionVaultDeposit''"
  "ii_name idl_redemptionVaultWithdraw = ''redemptionVaultWithdraw''"
  "ii_name idl_removeAdmin = ''removeAdmin''"
  "ii_name idl_removeApprover = ''removeApprover''"
  "ii_name idl_setKillSwitch = ''setKillSwitch''"
  "ii_name idl_setOnycMint = ''setOnycMint''"
  "ii_name idl_setRedemptionAdmin = ''setRedemptionAdmin''"
  "ii_name idl_takeOffer = ''takeOffer''"
  "ii_name idl_takeOfferPermissionless = ''takeOfferPermissionless''"
  "ii_name idl_transferMintAuthorityToBoss = ''transferMintAuthorityToBoss''"
  "ii_name idl_transferMintAuthorityToProgram = ''transferMintAuthorityToProgram''"
  "ii_name idl_updateOfferFee = ''updateOfferFee''"
  "ii_name idl_updateRedemptionOfferFee = ''updateRedemptionOfferFee''"
  by (simp_all add: idl_instruction_defs)

lemma instruction_names_distinct: "distinct (List.map ii_name onreapp_instructions)"
  by (simp add: onreapp_instructions_def)

lemma find_named: "d \<in> set onreapp_instructions \<Longrightarrow> ii_name d = m \<Longrightarrow> find_ix Onreapp m = Some d"
  using find_ix_distinct [of Onreapp d] instruction_names_distinct by simp

lemma find_instructions [simp]:
  "find_ix Onreapp ''acceptBoss'' = Some idl_acceptBoss"
  "find_ix Onreapp ''addAdmin'' = Some idl_addAdmin"
  "find_ix Onreapp ''addApprover'' = Some idl_addApprover"
  "find_ix Onreapp ''addOfferVector'' = Some idl_addOfferVector"
  "find_ix Onreapp ''cancelRedemptionRequest'' = Some idl_cancelRedemptionRequest"
  "find_ix Onreapp ''clearAdmins'' = Some idl_clearAdmins"
  "find_ix Onreapp ''closeState'' = Some idl_closeState"
  "find_ix Onreapp ''configureMaxSupply'' = Some idl_configureMaxSupply"
  "find_ix Onreapp ''createRedemptionRequest'' = Some idl_createRedemptionRequest"
  "find_ix Onreapp ''deleteAllOfferVectors'' = Some idl_deleteAllOfferVectors"
  "find_ix Onreapp ''deleteOfferVector'' = Some idl_deleteOfferVector"
  "find_ix Onreapp ''fulfillRedemptionRequest'' = Some idl_fulfillRedemptionRequest"
  "find_ix Onreapp ''getApy'' = Some idl_getApy"
  "find_ix Onreapp ''getCirculatingSupply'' = Some idl_getCirculatingSupply"
  "find_ix Onreapp ''getNav'' = Some idl_getNav"
  "find_ix Onreapp ''getNavAdjustment'' = Some idl_getNavAdjustment"
  "find_ix Onreapp ''getTvl'' = Some idl_getTvl"
  "find_ix Onreapp ''initialize'' = Some idl_initialize"
  "find_ix Onreapp ''initializePermissionlessAuthority'' = Some idl_initializePermissionlessAuthority"
  "find_ix Onreapp ''makeOffer'' = Some idl_makeOffer"
  "find_ix Onreapp ''makeRedemptionOffer'' = Some idl_makeRedemptionOffer"
  "find_ix Onreapp ''mintTo'' = Some idl_mintTo"
  "find_ix Onreapp ''offerVaultDeposit'' = Some idl_offerVaultDeposit"
  "find_ix Onreapp ''offerVaultWithdraw'' = Some idl_offerVaultWithdraw"
  "find_ix Onreapp ''proposeBoss'' = Some idl_proposeBoss"
  "find_ix Onreapp ''redemptionVaultDeposit'' = Some idl_redemptionVaultDeposit"
  "find_ix Onreapp ''redemptionVaultWithdraw'' = Some idl_redemptionVaultWithdraw"
  "find_ix Onreapp ''removeAdmin'' = Some idl_removeAdmin"
  "find_ix Onreapp ''removeApprover'' = Some idl_removeApprover"
  "find_ix Onreapp ''setKillSwitch'' = Some idl_setKillSwitch"
  "find_ix Onreapp ''setOnycMint'' = Some idl_setOnycMint"
  "find_ix Onreapp ''setRedemptionAdmin'' = Some idl_setRedemptionAdmin"
  "find_ix Onreapp ''takeOffer'' = Some idl_takeOffer"
  "find_ix Onreapp ''takeOfferPermissionless'' = Some idl_takeOfferPermissionless"
  "find_ix Onreapp ''transferMintAuthorityToBoss'' = Some idl_transferMintAuthorityToBoss"
  "find_ix Onreapp ''transferMintAuthorityToProgram'' = Some idl_transferMintAuthorityToProgram"
  "find_ix Onreapp ''updateOfferFee'' = Some idl_updateOfferFee"
  "find_ix Onreapp ''updateRedemptionOfferFee'' = Some idl_updateRedemptionOfferFee"
  by (rule find_named, rule named_instructions, simp)+


lemma camel_fields [simp]:
  "camel ''token_in_mint'' = ''tokenInMint''" "camel ''token_out_mint'' = ''tokenOutMint''"
  "camel ''request_counter'' = ''requestCounter''" "camel ''offer'' = ''offer''" "camel ''request_id'' = ''requestId''"
  by code_simp+

lemma field_numbers [simp]:
  "\<not> field_number ''redemption_offer.token_in_mint'' ''redemptionOffer''"
  "\<not> field_number ''redemption_offer.token_out_mint'' ''redemptionOffer''"
  "field_number ''redemption_offer.request_counter'' ''redemptionOffer''"
  "\<not> field_number ''redemption_request.offer'' ''redemptionRequest''"
  "field_number ''redemption_request.request_id'' ''redemptionRequest''"
  by (simp_all add: field_number_def find_type_def onreapp_types_def idl_type_defs)

lemmas pda_defs = state_pda_def offer_pda_def vault_authority_def permissionless_authority_def mint_authority_pda_def
  redemption_vault_authority_def redemption_offer_pda_def redemption_request_pda_def

section \<open>Properties\<close>

lemma instruction_discriminators: "distinct (List.map ii_discriminator onreapp_instructions)"
  "list_all (\<lambda>d. length (ii_discriminator d) = 8) onreapp_instructions"
  by (simp_all add: onreapp_instructions_def idl_instruction_defs)

lemma discriminators_distinct: "distinct (List.map snd onreapp_events)" "distinct (List.map snd onreapp_accounts)"
  by (simp_all add: onreapp_events_def onreapp_accounts_def)

lemma type_names: "List.map td_name onreapp_types =
    [''adminAddedEvent'', ''adminRemovedEvent'', ''adminsClearedEvent'',
     ''allOfferVectorsDeletedEvent'', ''approvalMessage'', ''approverAddedEvent'',
     ''approverRemovedEvent'', ''bossAcceptedEvent'', ''bossProposedEvent'', ''getApyEvent'',
     ''getCirculatingSupplyEvent'', ''getNavEvent'', ''getNavAdjustmentEvent'', ''getTvlEvent'',
     ''killSwitchToggledEvent'', ''maxSupplyConfiguredEvent'',
     ''mintAuthorityTransferredToBossEvent'', ''mintAuthorityTransferredToProgramEvent'',
     ''oNycMintUpdatedEvent'', ''offer'', ''offerFeeUpdatedEvent'', ''offerMadeEvent'',
     ''offerTakenEvent'', ''offerTakenPermissionlessEvent'', ''offerVaultDepositEvent'',
     ''offerVaultWithdrawEvent'', ''offerVector'', ''offerVectorAddedEvent'',
     ''offerVectorDeletedEvent'', ''offerVectorEvictedEvent'', ''onycTokensMintedEvent'',
     ''permissionlessAuthority'', ''redemptionAdminUpdatedEvent'', ''redemptionOffer'',
     ''redemptionOfferCreatedEvent'', ''redemptionOfferFeeUpdatedEvent'', ''redemptionRequest'',
     ''redemptionRequestCancelledEvent'', ''redemptionRequestCreatedEvent'',
     ''redemptionRequestFulfilledEvent'', ''redemptionVaultDepositEvent'',
     ''redemptionVaultWithdrawEvent'', ''state'', ''stateClosedEvent'']"
  by (simp add: onreapp_types_def idl_type_defs)

lemma find_type_None: "find_type I n \<noteq> None \<longleftrightarrow> n \<in> set (List.map td_name (idl_types I))"
  by (auto simp: find_type_def find_None_iff)

lemma event_types: "\<forall>e\<in>set (onreapp_events @ onreapp_accounts). find_type Onreapp (fst e) \<noteq> None"
  unfolding find_type_None Onreapp_sel type_names by (simp add: onreapp_events_def onreapp_accounts_def)

lemma declared_types:
  "list_all (\<lambda>d. list_all (\<lambda>f. type_declared (List.map td_name onreapp_types) (snd f)) (td_fields d)) onreapp_types"
  unfolding type_names by (simp add: onreapp_types_def idl_type_defs)

lemma declared_arguments:
  "list_all (\<lambda>d. list_all (\<lambda>f. type_declared (List.map td_name onreapp_types) (snd f)) (ii_args d)) onreapp_instructions"
  unfolding type_names by (simp add: onreapp_instructions_def idl_instruction_defs)

lemma derived_keys:
  "map_of (chain_addresses R pub key num m) ''state'' = Some (state_pda R)"
  "map_of (chain_addresses R pub key num m) ''offer'' = Some (if m = ''makeRedemptionOffer''
     then offer_pda R (pub ''tokenOutMint'') (pub ''tokenInMint'') else offer_pda R (pub ''tokenInMint'') (pub ''tokenOutMint''))"
  "map_of (chain_addresses R pub key num m) ''vaultAuthority'' = Some (vault_authority R)"
  "map_of (chain_addresses R pub key num m) ''offerVaultAuthority'' = Some (vault_authority R)"
  "map_of (chain_addresses R pub key num m) ''permissionlessAuthority'' = Some (permissionless_authority R)"
  "map_of (chain_addresses R pub key num m) ''mintAuthority'' = Some (mint_authority_pda R)"
  "map_of (chain_addresses R pub key num m) ''redemptionVaultAuthority'' = Some (redemption_vault_authority R)"
  "map_of (chain_addresses R pub key num m) ''redemptionOffer'' = Some (if m = ''makeRedemptionOffer''
     then redemption_offer_pda R (pub ''tokenInMint'') (pub ''tokenOutMint'')
     else redemption_offer_pda R (key ''redemption_offer.token_in_mint'') (key ''redemption_offer.token_out_mint''))"
  "map_of (chain_addresses R pub key num m) ''redemptionRequest'' = Some (if m = ''createRedemptionRequest''
     then redemption_request_pda R (pub ''redemptionOffer'') (num ''redemption_offer.request_counter'')
     else redemption_request_pda R (key ''redemption_request.offer'') (num ''redemption_request.request_id''))"
  by (simp_all add: chain_addresses_def)

lemma derived_address:
  "list_all (\<lambda>d. list_all (\<lambda>(n, attrs). list_all (\<lambda>a. case a of
       Pda seeds None \<Rightarrow> map_of (chain_addresses R pub key num (ii_name d)) n =
         Some (find_program_address R (List.map (seed_value pub key num) seeds)) | _ \<Rightarrow> True) attrs) (ii_accounts d))
     onreapp_instructions"
  unfolding onreapp_instructions_def idl_instruction_defs
  by (simp add: idl_account_defs derived_keys pda_defs)

text \<open>
  The description is consistent: instructions, events and accounts are told apart by their names and their eight
  bytes, every event and account has a type, and every type that an argument or a field names is declared.
\<close>

lemma interface_is_consistent:
  "distinct (List.map ii_name (idl_instructions Onreapp)) \<and>
   distinct (List.map ii_discriminator (idl_instructions Onreapp)) \<and>
   distinct (List.map snd (idl_events Onreapp)) \<and> distinct (List.map snd (idl_accounts Onreapp)) \<and>
   list_all (\<lambda>d. length (ii_discriminator d) = 8) (idl_instructions Onreapp) \<and>
   list_all (\<lambda>e. find_type Onreapp (fst e) \<noteq> None) (idl_events Onreapp @ idl_accounts Onreapp) \<and>
   list_all (\<lambda>t. type_declared (List.map td_name (idl_types Onreapp)) t)
     (List.map snd (concat (List.map ii_args (idl_instructions Onreapp) @ List.map td_fields (idl_types Onreapp))))"
proof (intro conjI)
  show "list_all (\<lambda>t. type_declared (List.map td_name (idl_types Onreapp)) t)
     (List.map snd (concat (List.map ii_args (idl_instructions Onreapp) @ List.map td_fields (idl_types Onreapp))))"
    using declared_types declared_arguments by (auto simp: list_all_iff)
  show "list_all (\<lambda>e. find_type Onreapp (fst e) \<noteq> None) (idl_events Onreapp @ idl_accounts Onreapp)"
    using event_types by (simp only: list_all_iff Onreapp_sel)
qed (use instruction_names_distinct instruction_discriminators discriminators_distinct in simp_all)

text \<open>Whether an instruction needs a signature.\<close>

definition needs_signer :: "idl_instruction \<Rightarrow> bool" where
  "needs_signer d = list_ex (\<lambda>(n, attrs). IsSigner \<in> set attrs) (ii_accounts d)"

lemma described_entry:
  "\<exists>d. find_ix Onreapp (camel (fst (entry i))) = Some d \<and> List.map snd (ii_args d) = fst (snd (entry i)) \<and>
     ii_returns d = snd (snd (entry i)) \<and> (needs_signer d \<longleftrightarrow> signer_of i \<noteq> None)"
  by (cases i) (simp_all add: needs_signer_def idl_instruction_defs idl_account_defs)

lemma entry_name: "entry i = (n, ts, r) \<Longrightarrow> camel n = m \<Longrightarrow> m \<in> range (\<lambda>i. camel (fst (entry i)))"
  by (metis fst_conv rangeI)

lemma described_names: "set (List.map ii_name onreapp_instructions) \<subseteq> range (\<lambda>i. camel (fst (entry i)))"
  unfolding onreapp_instructions_def list.map instruction_names list.set
  by (intro insert_subsetI empty_subsetI; rule entry_name, rule entry.simps, (simp; fail))

text \<open>
  C21:
  The description is the one of this contract: its instructions are the entry points, with the types of their
  arguments and results and a signer wherever the contract asks for one, no more and no fewer; and the address that
  it tells a client to derive for an account of the contract is the address at which the contract expects it.
\<close>

theorem interface_describes_the_contract:
  "(\<forall>i. \<exists>d. find_ix Onreapp (camel (fst (entry i))) = Some d \<and> List.map snd (ii_args d) = fst (snd (entry i)) \<and>
      ii_returns d = snd (snd (entry i)) \<and> (needs_signer d \<longleftrightarrow> signer_of i \<noteq> None)) \<and>
   set (List.map ii_name (idl_instructions Onreapp)) = range (\<lambda>i. camel (fst (entry i))) \<and>
   list_all (\<lambda>d. list_all (\<lambda>(n, attrs). list_all (\<lambda>a. case a of
       Pda seeds None \<Rightarrow> map_of (chain_addresses R pub key num (ii_name d)) n =
         Some (find_program_address R (List.map (seed_value pub key num) seeds)) | _ \<Rightarrow> True) attrs) (ii_accounts d))
     (idl_instructions Onreapp)"
proof -
  have "camel (fst (entry i)) \<in> set (List.map ii_name onreapp_instructions)" for i
    using described_entry [of i] find_ix_name [of Onreapp] by force
  with described_names have "set (List.map ii_name onreapp_instructions) = range (\<lambda>i. camel (fst (entry i)))" by blast
  then show ?thesis using described_entry derived_address by simp
qed

end
