(* ===== verification/Idl_Calls.thy ===== *)
theory Idl_Calls
  imports Idl_Props Cmd_Redemption Demo_Env
begin

text \<open>
  The calls that the builders of \<^verbatim>\<open>script-helper.ts\<close> hand to Anchor, against the description of the program:
  method, arguments and accounts fit, and the accounts that are not named can be completed, but for two builders.
\<close>

section \<open>Calls that fit\<close>

text \<open>A number of 64 bits must be a \<open>BN\<close>, which the client encodes; an optional argument may be null.\<close>

fun arg_fits :: "idl_type \<Rightarrow> jsval \<Rightarrow> bool" where
  "arg_fits (IOption t) v = (v = JNull \<or> arg_fits t v)"
| "arg_fits IU64 v = (case v of JBN n \<Rightarrow> True | _ \<Rightarrow> False)"
| "arg_fits t v = True"

text \<open>The accounts that two builders leave open.\<close>

definition left_open :: "string \<Rightarrow> string list" where
  "left_open m =
     (if m = ''cancelRedemptionRequest''
      then [''redeemer'', ''redemptionAdmin'', ''tokenInMint'', ''vaultTokenAccount'', ''redeemerTokenAccount'', ''tokenProgram'']
      else if m = ''fulfillRedemptionRequest''
      then [''offer'', ''vaultTokenInAccount'', ''vaultTokenOutAccount'', ''tokenInMint'', ''tokenInProgram'', ''tokenOutMint'',
            ''tokenOutProgram'', ''userTokenOutAccount'', ''bossTokenInAccount'', ''redeemer'']
      else [])"

definition accounts_fit :: "string \<Rightarrow> string list \<Rightarrow> bool" where
  "accounts_fit m given = (\<exists>d. find_ix Onreapp m = Some d \<and> distinct given \<and>
     set given \<subseteq> set (List.map fst (ii_accounts d)) \<and> unresolved d given = left_open m)"

definition fits :: "tx_ix \<Rightarrow> bool" where
  "fits ix = (\<exists>c d. ix = AnchorIx c \<and> find_ix Onreapp (mc_method c) = Some d \<and>
     list_all2 arg_fits (List.map snd (ii_args d)) (mc_args c) \<and>
     accounts_fit (mc_method c) (List.map fst (mc_accounts c)))"

text \<open>All builders of the file, in its order.\<close>

definition builders :: "(env \<Rightarrow> ScriptHelper \<Rightarrow> jsobj \<Rightarrow> tx_ix io) list" where
  "builders =
    [\<lambda>E h ps. buildMakeOfferIx E ps,
     \<lambda>E h ps. buildAddOfferVectorIx E ps,
     \<lambda>E h ps. buildUpdateOfferFeeIx E ps,
     \<lambda>E h ps. buildDeleteOfferVectorIx E ps,
     \<lambda>E h ps. buildTakeOfferIx E ps,
     \<lambda>E h ps. buildTakeOfferPermissionlessIx E h ps,
     \<lambda>E h ps. buildOfferVaultDepositIx E ps,
     \<lambda>E h ps. buildOfferVaultWithdrawIx E ps,
     \<lambda>E h ps. buildRedemptionVaultDepositIx E ps,
     \<lambda>E h ps. buildRedemptionVaultWithdrawIx E ps,
     \<lambda>E h ps. buildSetRedemptionAdminIx E ps,
     \<lambda>E h ps. buildDeleteAllOfferVectorsIx E ps,
     \<lambda>E h ps. buildClearAdminsIx E ps,
     \<lambda>E h ps. buildAddAdminIx E ps,
     \<lambda>E h ps. buildRemoveAdminIx E ps,
     \<lambda>E h ps. buildProposeBossIx E ps,
     \<lambda>E h ps. buildAcceptBossIx E ps,
     \<lambda>E h ps. buildSetKillSwitchIx E ps,
     \<lambda>E h ps. buildCloseStateIx E h ps,
     \<lambda>E h ps. buildConfigureMaxSupplyIx E ps,
     \<lambda>E h ps. buildAddApproverIx E ps,
     \<lambda>E h ps. buildRemoveApproverIx E ps,
     \<lambda>E h ps. buildSetOnycMintIx E ps,
     \<lambda>E h ps. buildInitializeIx E ps,
     \<lambda>E h ps. buildInitializePermissionlessAuthorityIx E ps,
     \<lambda>E h ps. buildTransferMintAuthorityToProgramIx E ps,
     \<lambda>E h ps. buildTransferMintAuthorityToBossIx E ps,
     \<lambda>E h ps. buildMintToIx E ps,
     \<lambda>E h ps. buildMakeRedemptionOfferIx E ps,
     \<lambda>E h ps. buildCreateRedemptionRequestIx E h ps,
     \<lambda>E h ps. buildFulfillRedemptionRequestIx E ps,
     \<lambda>E h ps. buildCancelRedemptionRequestIx E ps,
     \<lambda>E h ps. buildUpdateRedemptionOfferFeeIx E ps]"

section \<open>Evaluation\<close>

lemma path_accounts [simp]:
  "path_account ''redemption_offer.token_in_mint'' = ''redemptionOffer''"
  "path_account ''redemption_offer.token_out_mint'' = ''redemptionOffer''"
  "path_account ''redemption_offer.request_counter'' = ''redemptionOffer''"
  "path_account ''redemption_request.offer'' = ''redemptionRequest''"
  "path_account ''redemption_request.request_id'' = ''redemptionRequest''"
  by code_simp+

lemma path_account_plain [simp]:
  "path_account ''boss'' = ''boss''"
  "path_account ''onycMint'' = ''onycMint''"
  "path_account ''permissionlessAuthority'' = ''permissionlessAuthority''"
  "path_account ''redeemer'' = ''redeemer''"
  "path_account ''redemptionOffer'' = ''redemptionOffer''"
  "path_account ''redemptionVaultAuthority'' = ''redemptionVaultAuthority''"
  "path_account ''tokenInMint'' = ''tokenInMint''"
  "path_account ''tokenInProgram'' = ''tokenInProgram''"
  "path_account ''tokenMint'' = ''tokenMint''"
  "path_account ''tokenOutMint'' = ''tokenOutMint''"
  "path_account ''tokenOutProgram'' = ''tokenOutProgram''"
  "path_account ''tokenProgram'' = ''tokenProgram''"
  "path_account ''user'' = ''user''"
  "path_account ''vaultAuthority'' = ''vaultAuthority''"
  by code_simp+

lemma resolve_numeral [simp]:
  "resolve (numeral k) accounts known = (let known' = resolve_round accounts known in
     if length known' = length known then known else resolve (pred_numeral k) accounts known')"
  by (simp add: numeral_eq_Suc)

lemmas account_eval = unresolved_def resolve_round_def left_open_def

lemma accounts_fitI:
  "find_ix Onreapp m = Some d \<Longrightarrow> distinct given \<Longrightarrow> set given \<subseteq> set (List.map fst (ii_accounts d)) \<Longrightarrow>
   unresolved d given = left_open m \<Longrightarrow> accounts_fit m given"
  by (simp add: accounts_fit_def)

lemma makeOffer_accounts [simp]: "accounts_fit ''makeOffer'' [''tokenInMint'', ''tokenInProgram'', ''tokenOutMint'', ''boss'']"
  by (rule accounts_fitI, rule find_instructions) (simp_all add: account_eval idl_makeOffer_def makeOffer_accounts1_def makeOffer_accounts2_def)

lemma addOfferVector_accounts [simp]: "accounts_fit ''addOfferVector'' [''tokenInMint'', ''tokenOutMint'', ''boss'']"
  by (rule accounts_fitI, rule find_instructions) (simp_all add: account_eval idl_addOfferVector_def)

lemma updateOfferFee_accounts [simp]: "accounts_fit ''updateOfferFee'' [''tokenInMint'', ''tokenOutMint'', ''boss'']"
  by (rule accounts_fitI, rule find_instructions) (simp_all add: account_eval idl_updateOfferFee_def)

lemma deleteOfferVector_accounts [simp]: "accounts_fit ''deleteOfferVector'' [''tokenInMint'', ''tokenOutMint'', ''boss'']"
  by (rule accounts_fitI, rule find_instructions) (simp_all add: account_eval idl_deleteOfferVector_def)

lemma takeOffer_accounts [simp]: "accounts_fit ''takeOffer'' [''tokenInMint'', ''tokenOutMint'', ''user'', ''tokenInProgram'', ''tokenOutProgram'']"
  by (rule accounts_fitI, rule find_instructions) (simp_all add: account_eval idl_takeOffer_def takeOffer_accounts1_def takeOffer_accounts2_def takeOffer_accounts3_def takeOffer_accounts4_def)

lemma takeOfferPermissionless_accounts [simp]: "accounts_fit ''takeOfferPermissionless'' [''tokenInMint'', ''tokenOutMint'', ''user'', ''vaultAuthority'', ''permissionlessAuthority'', ''mintAuthority'', ''tokenInProgram'', ''tokenOutProgram'']"
  by (rule accounts_fitI, rule find_instructions) (simp_all add: account_eval idl_takeOfferPermissionless_def takeOfferPermissionless_accounts1_def takeOfferPermissionless_accounts2_def takeOfferPermissionless_accounts3_def takeOfferPermissionless_accounts4_def takeOfferPermissionless_accounts5_def)

lemma offerVaultDeposit_accounts [simp]: "accounts_fit ''offerVaultDeposit'' [''tokenMint'', ''tokenProgram'', ''boss'']"
  by (rule accounts_fitI, rule find_instructions) (simp_all add: account_eval idl_offerVaultDeposit_def offerVaultDeposit_accounts1_def offerVaultDeposit_accounts2_def)

lemma offerVaultWithdraw_accounts [simp]: "accounts_fit ''offerVaultWithdraw'' [''tokenMint'', ''tokenProgram'', ''boss'']"
  by (rule accounts_fitI, rule find_instructions) (simp_all add: account_eval idl_offerVaultWithdraw_def offerVaultWithdraw_accounts1_def offerVaultWithdraw_accounts2_def)

lemma redemptionVaultDeposit_accounts [simp]: "accounts_fit ''redemptionVaultDeposit'' [''tokenMint'', ''tokenProgram'', ''boss'']"
  by (rule accounts_fitI, rule find_instructions) (simp_all add: account_eval idl_redemptionVaultDeposit_def redemptionVaultDeposit_accounts1_def redemptionVaultDeposit_accounts2_def)

lemma redemptionVaultWithdraw_accounts [simp]: "accounts_fit ''redemptionVaultWithdraw'' [''tokenMint'', ''tokenProgram'', ''boss'']"
  by (rule accounts_fitI, rule find_instructions) (simp_all add: account_eval idl_redemptionVaultWithdraw_def redemptionVaultWithdraw_accounts1_def redemptionVaultWithdraw_accounts2_def)

lemma setRedemptionAdmin_accounts [simp]: "accounts_fit ''setRedemptionAdmin'' [''boss'']"
  by (rule accounts_fitI, rule find_instructions) (simp_all add: account_eval idl_setRedemptionAdmin_def)

lemma deleteAllOfferVectors_accounts [simp]: "accounts_fit ''deleteAllOfferVectors'' [''tokenInMint'', ''tokenOutMint'', ''boss'']"
  by (rule accounts_fitI, rule find_instructions) (simp_all add: account_eval idl_deleteAllOfferVectors_def)

lemma clearAdmins_accounts [simp]: "accounts_fit ''clearAdmins'' [''boss'']"
  by (rule accounts_fitI, rule find_instructions) (simp_all add: account_eval idl_clearAdmins_def)

lemma addAdmin_accounts [simp]: "accounts_fit ''addAdmin'' [''boss'']"
  by (rule accounts_fitI, rule find_instructions) (simp_all add: account_eval idl_addAdmin_def)

lemma removeAdmin_accounts [simp]: "accounts_fit ''removeAdmin'' [''boss'']"
  by (rule accounts_fitI, rule find_instructions) (simp_all add: account_eval idl_removeAdmin_def)

lemma proposeBoss_accounts [simp]: "accounts_fit ''proposeBoss'' [''boss'']"
  by (rule accounts_fitI, rule find_instructions) (simp_all add: account_eval idl_proposeBoss_def)

lemma acceptBoss_accounts [simp]: "accounts_fit ''acceptBoss'' [''newBoss'']"
  by (rule accounts_fitI, rule find_instructions) (simp_all add: account_eval idl_acceptBoss_def)

lemma setKillSwitch_accounts [simp]: "accounts_fit ''setKillSwitch'' [''signer'']"
  by (rule accounts_fitI, rule find_instructions) (simp_all add: account_eval idl_setKillSwitch_def)

lemma closeState_accounts [simp]: "accounts_fit ''closeState'' [''boss'', ''state'']"
  by (rule accounts_fitI, rule find_instructions) (simp_all add: account_eval idl_closeState_def)

lemma configureMaxSupply_accounts [simp]: "accounts_fit ''configureMaxSupply'' [''boss'']"
  by (rule accounts_fitI, rule find_instructions) (simp_all add: account_eval idl_configureMaxSupply_def)

lemma addApprover_accounts [simp]: "accounts_fit ''addApprover'' [''boss'']"
  by (rule accounts_fitI, rule find_instructions) (simp_all add: account_eval idl_addApprover_def)

lemma removeApprover_accounts [simp]: "accounts_fit ''removeApprover'' [''boss'']"
  by (rule accounts_fitI, rule find_instructions) (simp_all add: account_eval idl_removeApprover_def)

lemma setOnycMint_accounts [simp]: "accounts_fit ''setOnycMint'' [''boss'', ''onycMint'']"
  by (rule accounts_fitI, rule find_instructions) (simp_all add: account_eval idl_setOnycMint_def)

lemma initialize_accounts [simp]: "accounts_fit ''initialize'' [''boss'', ''program'', ''programData'', ''onycMint'']"
  by (rule accounts_fitI, rule find_instructions) (simp_all add: account_eval idl_initialize_def initialize_accounts1_def)

lemma initializePermissionlessAuthority_accounts [simp]: "accounts_fit ''initializePermissionlessAuthority'' [''boss'']"
  by (rule accounts_fitI, rule find_instructions) (simp_all add: account_eval idl_initializePermissionlessAuthority_def)

lemma transferMintAuthorityToProgram_accounts [simp]: "accounts_fit ''transferMintAuthorityToProgram'' [''boss'', ''mint'', ''tokenProgram'']"
  by (rule accounts_fitI, rule find_instructions) (simp_all add: account_eval idl_transferMintAuthorityToProgram_def)

lemma transferMintAuthorityToBoss_accounts [simp]: "accounts_fit ''transferMintAuthorityToBoss'' [''boss'', ''mint'', ''tokenProgram'']"
  by (rule accounts_fitI, rule find_instructions) (simp_all add: account_eval idl_transferMintAuthorityToBoss_def)

lemma mintTo_accounts [simp]: "accounts_fit ''mintTo'' [''tokenProgram'']"
  by (rule accounts_fitI, rule find_instructions) (simp_all add: account_eval idl_mintTo_def mintTo_accounts1_def mintTo_accounts2_def)

lemma makeRedemptionOffer_accounts [simp]: "accounts_fit ''makeRedemptionOffer'' [''tokenInMint'', ''tokenInProgram'', ''tokenOutMint'', ''tokenOutProgram'', ''signer'']"
  by (rule accounts_fitI, rule find_instructions) (simp_all add: account_eval idl_makeRedemptionOffer_def makeRedemptionOffer_accounts1_def makeRedemptionOffer_accounts2_def makeRedemptionOffer_accounts3_def)

lemma createRedemptionRequest_accounts [simp]: "accounts_fit ''createRedemptionRequest'' [''redemptionOffer'', ''tokenInMint'', ''redeemer'', ''tokenProgram'']"
  by (rule accounts_fitI, rule find_instructions) (simp_all add: account_eval idl_createRedemptionRequest_def createRedemptionRequest_accounts1_def createRedemptionRequest_accounts2_def createRedemptionRequest_accounts3_def)

lemma fulfillRedemptionRequest_accounts [simp]: "accounts_fit ''fulfillRedemptionRequest'' [''redemptionOffer'', ''redemptionRequest'', ''redemptionAdmin'']"
  by (rule accounts_fitI, rule find_instructions) (simp_all add: account_eval idl_fulfillRedemptionRequest_def fulfillRedemptionRequest_accounts1_def fulfillRedemptionRequest_accounts2_def fulfillRedemptionRequest_accounts3_def fulfillRedemptionRequest_accounts4_def fulfillRedemptionRequest_accounts5_def)

lemma cancelRedemptionRequest_accounts [simp]: "accounts_fit ''cancelRedemptionRequest'' [''redemptionOffer'', ''redemptionRequest'', ''signer'']"
  by (rule accounts_fitI, rule find_instructions) (simp_all add: account_eval idl_cancelRedemptionRequest_def cancelRedemptionRequest_accounts1_def cancelRedemptionRequest_accounts2_def cancelRedemptionRequest_accounts3_def)

lemma updateRedemptionOfferFee_accounts [simp]: "accounts_fit ''updateRedemptionOfferFee'' [''redemptionOffer'', ''boss'']"
  by (rule accounts_fitI, rule find_instructions) (simp_all add: account_eval idl_updateRedemptionOfferFee_def)

section \<open>The builders\<close>

lemma accounts_fit_find: "accounts_fit m given \<Longrightarrow> \<exists>d. find_ix Onreapp m = Some d"
  by (auto simp: accounts_fit_def)

definition args_fit :: "string \<Rightarrow> jsval list \<Rightarrow> bool" where
  "args_fit m vs = (\<exists>d. find_ix Onreapp m = Some d \<and> list_all2 arg_fits (List.map snd (ii_args d)) vs)"

lemma fits_instruction:
  assumes "args_fit m args" and "accounts_fit m (List.map fst acs)"
  shows "io_res fits (instruction E p m args acs)"
  by (rule io_res_mono [OF instruction_result]) (use assms in \<open>auto simp: fits_def args_fit_def\<close>)

lemma fits_new_BN: "(\<And>n. io_res R (f (JBN n))) \<Longrightarrow> io_res R (bind (new_BN E x) f)"
  by (rule io_res_bind2 [OF new_BN_result]) auto

lemma take_fields_names [simp]: "List.map fst (take_fields ks ps) = ks"
  by (induction ks) (simp_all add: take_fields_def)

lemma argument_types [simp]:
  "List.map snd (ii_args idl_makeOffer) = [IU16, IBool, IBool]"
  "List.map snd (ii_args idl_addOfferVector) = [IOption IU64, IU64, IU64, IU64, IU64]"
  "List.map snd (ii_args idl_takeOffer) = [IU64, IOption (IDefined ''approvalMessage'')]"
  "List.map snd (ii_args idl_takeOfferPermissionless) = [IU64, IOption (IDefined ''approvalMessage'')]"
  by (simp_all add: idl_instruction_defs)

lemma argument_type [simp]:
  "List.map snd (ii_args idl_updateOfferFee) = [IU16]"
  "List.map snd (ii_args idl_deleteOfferVector) = [IU64]"
  "List.map snd (ii_args idl_offerVaultDeposit) = [IU64]"
  "List.map snd (ii_args idl_offerVaultWithdraw) = [IU64]"
  "List.map snd (ii_args idl_redemptionVaultDeposit) = [IU64]"
  "List.map snd (ii_args idl_redemptionVaultWithdraw) = [IU64]"
  "List.map snd (ii_args idl_setRedemptionAdmin) = [IPubkey]"
  "List.map snd (ii_args idl_addAdmin) = [IPubkey]"
  "List.map snd (ii_args idl_removeAdmin) = [IPubkey]"
  "List.map snd (ii_args idl_proposeBoss) = [IPubkey]"
  "List.map snd (ii_args idl_setKillSwitch) = [IBool]"
  "List.map snd (ii_args idl_configureMaxSupply) = [IU64]"
  "List.map snd (ii_args idl_addApprover) = [IPubkey]"
  "List.map snd (ii_args idl_removeApprover) = [IPubkey]"
  "List.map snd (ii_args idl_initializePermissionlessAuthority) = [IString]"
  "List.map snd (ii_args idl_mintTo) = [IU64]"
  "List.map snd (ii_args idl_makeRedemptionOffer) = [IU16]"
  "List.map snd (ii_args idl_createRedemptionRequest) = [IU64]"
  "List.map snd (ii_args idl_updateRedemptionOfferFee) = [IU16]"
  by (simp_all add: idl_instruction_defs)

lemma no_arguments [simp]:
  "ii_args idl_deleteAllOfferVectors = []" "ii_args idl_clearAdmins = []" "ii_args idl_acceptBoss = []"
  "ii_args idl_closeState = []" "ii_args idl_setOnycMint = []" "ii_args idl_initialize = []"
  "ii_args idl_transferMintAuthorityToProgram = []" "ii_args idl_transferMintAuthorityToBoss = []"
  "ii_args idl_fulfillRedemptionRequest = []" "ii_args idl_cancelRedemptionRequest = []"
  by (simp_all add: idl_instruction_defs)

text \<open>
  C22:
  Every builder of \<^verbatim>\<open>script-helper.ts\<close> that returns an instruction returns a call that the description knows, with as many
  arguments as it has and numbers of 64 bits where it wants them, accounts under names that it lists, and accounts left
  out only where the client completes them, except in the builders of a fulfilment and a cancellation, which leave
  open the accounts of \<open>left_open\<close>.
\<close>

theorem builders_fit_the_interface: "list_all (\<lambda>b. \<forall>E h ps. io_res fits (b E h ps)) builders"
  unfolding builders_def builder_defs Let_def list.pred_inject(2)
  by (intro conjI allI list.pred_inject(1); (rule fits_new_BN | rule io_res_bind | rule fits_instruction)+; simp add: args_fit_def)

section \<open>Fulfilments and cancellations\<close>

text \<open>
  The documented check of the client: a method throws when an account is neither given nor completed from the
  description.
\<close>

definition checks_accounts :: "env \<Rightarrow> bool" where
  "checks_accounts E = (\<forall>c d. find_ix Onreapp (mc_method c) = Some d \<longrightarrow>
     unresolved d (List.map fst (mc_accounts c)) \<noteq> [] \<longrightarrow> instructionError E c \<noteq> None)"

lemma incomplete_call:
  assumes "checks_accounts E" and "accounts_fit m (List.map fst acs)" and "left_open m \<noteq> []"
  shows "io_res (\<lambda>_. False) (instruction E p m args acs)"
proof -
  let ?c = "\<lparr>mc_method = m, mc_args = args, mc_accounts = acs, mc_partial = p\<rparr>"
  obtain d where d: "find_ix Onreapp m = Some d" "unresolved d (List.map fst acs) \<noteq> []"
    using assms(2,3) unfolding accounts_fit_def by (elim exE conjE) simp
  have "instructionError E ?c \<noteq> None"
    using assms(1) [unfolded checks_accounts_def, rule_format, of ?c d] d by simp
  then obtain e where "instructionError E ?c = Some e" by blast
  then show ?thesis by (simp add: instruction_def io_res_throw)
qed

lemma redemption_builders_throw:
  assumes "checks_accounts E"
  shows "io_res (\<lambda>_. False) (buildFulfillRedemptionRequestIx E ps)" "io_res (\<lambda>_. False) (buildCancelRedemptionRequestIx E ps)"
  unfolding buildFulfillRedemptionRequestIx_def buildCancelRedemptionRequestIx_def
  by (intro incomplete_call assms; simp add: left_open_def)+

text \<open>A command whose builder never returns hands nothing off.\<close>

lemma hands_off_without_result:
  assumes "io_all hands_off (bo_buildIx os helper params)" and "io_res (\<lambda>_. False) (bo_buildIx os helper params)"
  shows "io_all hands_off (buildAndHandleTransaction E helper params opts os)"
proof -
  have A: "io_all hands_off (bind (bo_buildIx os helper params) f)" for f :: "tx_ix list \<Rightarrow> unit io"
    by (rule io_all_bind_res [OF assms]) simp
  have B: "io_all hands_off (case bo_summary os of Some (t, ps) \<Rightarrow> printParamSummary E t ps | None \<Rightarrow> ret ())"
    by (auto intro!: io_intros split: option.split)
  show ?thesis
    unfolding buildAndHandleTransaction_def
    by (rule io_all_andThen [OF B]) (rule io_all_bind [OF _ A], intro io_all_if io_all_ret hands_off_getBoss)
qed

lemma execute_hands_off:
  assumes "\<And>helper params. io_all hands_off (handler helper params)"
  shows "io_all hands_off (executeCommand E opts ps handler)"
  unfolding executeCommand_def by (intro io_intros assms) simp

lemma one_ix_throws: "io_res (\<lambda>_. False) b \<Longrightarrow> io_res (\<lambda>_. False) (one_ix b)"
  unfolding one_ix_def by (rule io_res_bind2 [where S = "\<lambda>_. False"]) simp_all

lemma Fulfill_hands_off:
  assumes "checks_accounts E"
  shows "io_all hands_off (executeRedemptionFulfill E opts)"
proof -
  have "io_res (\<lambda>_. False) (fulfill_ix E ps h)" for ps h
    unfolding fulfill_ix_def case_prod_beta by (intro io_res_bind io_res_if io_res_throw redemption_builders_throw assms)
  then show ?thesis
    unfolding executeRedemptionFulfill_def
    by (intro execute_hands_off hands_off_without_result) (simp_all add: hands_off_one_ix fulfill_hands_off one_ix_throws)
qed

lemma Cancel_hands_off:
  assumes "checks_accounts E"
  shows "io_all hands_off (executeRedemptionCancel E opts)"
  unfolding executeRedemptionCancel_def case_prod_beta
  by (intro execute_hands_off hands_off_without_result)
    (simp_all add: io_intros cancelRequest.one_events io_res_bind one_ix_throws redemption_builders_throw assms)

text \<open>
  C23:
  With a client that checks the accounts of a call, the commands that fulfil and cancel a redemption never hand over a
  transaction, neither to the chain nor to the clipboard: their instructions lack accounts that nothing supplies.
\<close>

theorem redemptions_are_never_sent:
  assumes "checks_accounts E"
    and "executeRedemptionFulfill E opts tr = (r, tr') \<or> executeRedemptionCancel E opts tr = (r, tr')"
  shows "\<exists>new. tr' = tr @ new \<and> list_all hands_off new"
  using assms(2) io_allD [OF Fulfill_hands_off [OF assms(1)]] io_allD [OF Cancel_hands_off [OF assms(1)]] by blast

definition checking_demo :: env where
  "checking_demo = (demo [] [] True)\<lparr>instructionError := \<lambda>c. case find_ix Onreapp (mc_method c) of None \<Rightarrow> None
     | Some d \<Rightarrow> if unresolved d (List.map fst (mc_accounts c)) = [] then None else Some (Library ''Account not provided'')\<rparr>"

theorem redemptions_are_never_sent_witness:
  "checks_accounts checking_demo \<and>
   (\<exists>new. snd (executeRedemptionFulfill checking_demo [] []) = [] @ new \<and> list_all hands_off new)"
proof -
  have c: "checks_accounts checking_demo" by (simp add: checks_accounts_def checking_demo_def)
  obtain r tr' where "executeRedemptionFulfill checking_demo [] [] = (r, tr')" by fastforce
  then show ?thesis using c redemptions_are_never_sent [OF c, of "[]" "[]" r tr'] by simp
qed

end
