(* ===== verification/Script_Base.thy ===== *)
theory Script_Base
  imports Command_Contract
begin

text \<open>
  What the stand-alone scripts under \<^verbatim>\<open>scripts/\<close> have in common: printing keys, their ways of handling errors, and the
  proof rules for them.
\<close>

section \<open>Shared parts of the scripts\<close>

text \<open>\<open>console.log(label, key.toBase58())\<close>\<close>

definition log_key :: "string \<Rightarrow> jsval \<Rightarrow> unit io" where
  "log_key label k = bind (lift (js_toBase58 k)) (\<lambda>t. log_line (label @ '' '' @ t))"

text \<open>\<open>catch (error) { console.error(message, error); throw error; }\<close>, the \<open>main\<close> that only prints the error, and
  the \<open>main\<close> that ends the process with status 1.\<close>

definition rethrow :: "string \<Rightarrow> 'a io \<Rightarrow> 'a io" where
  "rethrow message m = try_catch m (\<lambda>e. andThen (tell (LogThrown message e)) (throw e))"

definition report_failure :: "string \<Rightarrow> 'a io \<Rightarrow> unit io" where
  "report_failure message m = try_catch (andThen m (ret ())) (\<lambda>e. tell (LogThrown message e))"

definition exit_on_failure :: "string \<Rightarrow> 'a io \<Rightarrow> unit io" where
  "exit_on_failure message m =
     try_catch (andThen m (ret ())) (\<lambda>e. andThen (tell (LogThrown message e)) (throw (ExitProcess 1)))"

text \<open>Characters outside ASCII, as UTF-8.\<close>

definition warning_mark :: string where
  "warning_mark = [CHR 0xE2, CHR 0x9A, CHR 0xA0, CHR 0xEF, CHR 0xB8, CHR 0x8F]"

definition check_mark :: string where
  "check_mark = [CHR 0xE2, CHR 0x9C, CHR 0x93]"

definition cross_mark :: string where
  "cross_mark = [CHR 0xE2, CHR 0x9D, CHR 0x8C]"

section \<open>Proof rules\<close>

lemma io_ok_rethrow [ok_intros]: "io_ok R m \<Longrightarrow> io_ok R (rethrow s m)"
  by (simp add: rethrow_def ok_intros)

lemma io_ok_log_key [ok_intros]: "io_ok (\<lambda>_. True) (log_key s (JPk k))"
  unfolding log_key_def by (rule io_ok_bind, rule ok_intros, simp, rule TrueI, rule ok_intros)

lemma io_res_rethrow: "io_res R m \<Longrightarrow> io_res R (rethrow s m)"
  by (auto simp: rethrow_def try_catch_def io_res_def andThen_def bind_def tell_def throw_def
      split: prod.splits sum.splits exn.splits)

lemma hands_off_log_key [io_intros]: "io_all hands_off (log_key s k)"
  unfolding log_key_def by (intro io_intros) simp

lemma hands_off_rethrow [io_intros]: "io_all hands_off m \<Longrightarrow> io_all hands_off (rethrow s m)"
  unfolding rethrow_def by (intro io_intros) simp_all

lemma hands_off_exit_on_failure: "io_all hands_off m \<Longrightarrow> io_all hands_off (exit_on_failure s m)"
  unfolding exit_on_failure_def by (intro io_intros) simp_all

lemma hands_off_print [io_intros]: "io_all hands_off (printTransaction E tx t)"
  unfolding printTransaction_def by (intro io_intros) simp_all

lemma hands_off_serialize_tx: "io_all hands_off (serializeTransaction E tx)"
  unfolding serializeTransaction_def by (intro io_intros)

lemma hands_off_builders [io_intros]:
  "io_all hands_off (buildCloseStateIx E h ps)" "io_all hands_off (buildInitializeIx E ps)"
  "io_all hands_off (buildProposeBossIx E ps)" "io_all hands_off (buildAcceptBossIx E ps)"
  "io_all hands_off (buildMakeOfferIx E ps)" "io_all hands_off (buildAddOfferVectorIx E ps)"
  "io_all hands_off (buildTransferMintAuthorityToProgramIx E ps)"
  "io_all hands_off (buildOfferVaultDepositIx E ps)" "io_all hands_off (buildTakeOfferIx E ps)"
  "io_all hands_off (buildTakeOfferPermissionlessIx E h ps)"
  unfolding builder_defs Let_def by (intro io_intros)+

lemma hands_off_create_accounts [io_intros]: "io_all hands_off (buildCreatePermissionlessTokenAccountsIxs E h ps)"
  unfolding buildCreatePermissionlessTokenAccountsIxs_def create_if_missing_def Let_def by (intro io_intros) simp_all

lemma report_failure_result: "fst (report_failure s m tr) = Inr () \<or> (\<exists>n. fst (report_failure s m tr) = Inl (ExitProcess n))"
  by (auto simp: report_failure_def try_catch_def tell_def andThen_def bind_def ret_def split: prod.splits sum.splits exn.splits)

lemma report_failure_hands_off: "io_all hands_off m \<Longrightarrow> io_all hands_off (report_failure s m)"
  unfolding report_failure_def by (intro io_intros) simp_all

end
