(* ===== verification/Script_Upgrade.thy ===== *)
theory Script_Upgrade
  imports Script_Base
begin

text \<open>
  \<^verbatim>\<open>scripts/programV3upgrade\<close>: the scripts of the upgrade to version 3, in the order in which they are run. Each
  builds one transaction with the script helper and prints it in base 58 for the multisignature wallet.
\<close>

section \<open>001: closing the old offer\<close>

definition RPC_URL :: string where
  "RPC_URL = ''https://api.mainnet-beta.solana.com''"


definition PROGRAM_ID :: pubkey where
  "PROGRAM_ID = PublicKey ''onreuGhHHgVzMWSkj2oQDLDtvvGvoepBPkqyaubFcwe''"


text \<open>The program handle is at the address of the old description; its wallet is a fresh key.\<close>

definition initProgram :: "env \<Rightarrow> pubkey io" where
  "initProgram E = (case connectionError E RPC_URL of Some e \<Rightarrow> throw e
     | None \<Rightarrow> bind (observe (keypairGenerate E)) (\<lambda>_. ret PROGRAM_ID))"


definition getBossAccount :: "env \<Rightarrow> pubkey io" where
  "getBossAccount E = (let a = findProgramAddress E [''state''] PROGRAM_ID in
     outside (Called (FetchOldState a)) (\<lambda>tr. rpcOldState E tr a))"


definition getOldOffer :: "env \<Rightarrow> int \<Rightarrow> old_offer_account io" where
  "getOldOffer E offerId =
     bind (lift (bnToBuffer8 E offerId)) (\<lambda>b. let offerPda = findProgramAddress E [''offer'', b] PROGRAM_ID in
       outside (Called (FetchOldOffer offerPda)) (\<lambda>tr. rpcOldOffer E tr offerPda))"


definition old_instruction :: "env \<Rightarrow> string \<Rightarrow> (string \<times> jsval) list \<Rightarrow> tx_ix io" where
  "old_instruction E m accounts =
     (let c = \<lparr>mc_method = m, mc_args = [], mc_accounts = accounts, mc_partial = True\<rparr> in
      case oldInstructionError E c of Some e \<Rightarrow> throw e | None \<Rightarrow> ret (OldIx c))"


definition old_ata :: "env \<Rightarrow> pubkey \<Rightarrow> pubkey \<Rightarrow> exn + pubkey" where
  "old_ata E mint owner = ata E (JPk mint) (JPk owner) True (JPk (TOKEN_PROGRAM_ID E))"


definition closeOfferIx :: "env \<Rightarrow> old_offer_account \<Rightarrow> pubkey \<Rightarrow> pubkey \<Rightarrow> pubkey \<Rightarrow> pubkey \<Rightarrow> tx_ix io" where
  "closeOfferIx E offer offerAuthority BOSS offerPda stateAddress =
     bind (lift (old_ata E (oo_sellTokenMint offer) offerAuthority)) (\<lambda>offerSell.
     bind (lift (old_ata E (oo_buyToken1Mint offer) offerAuthority)) (\<lambda>offerBuy.
     bind (lift (old_ata E (oo_buyToken1Mint offer) BOSS)) (\<lambda>bossBuy.
     bind (lift (old_ata E (oo_sellTokenMint offer) BOSS)) (\<lambda>bossSell.
       old_instruction E ''closeOfferOne''
         [(''offer'', JPk offerPda),
          (''offerSellTokenAccount'', JPk offerSell),
          (''offerBuy1TokenAccount'', JPk offerBuy),
          (''bossBuy1TokenAccount'', JPk bossBuy),
          (''bossSellTokenAccount'', JPk bossSell),
          (''state'', JPk stateAddress),
          (''offerTokenAuthority'', JPk offerAuthority),
          (''boss'', JPk BOSS)]))))"


definition closeOffer :: "env \<Rightarrow> string io" where
  "closeOffer E =
     (case connectionError E RPC_URL of Some e \<Rightarrow> throw e | None \<Rightarrow>
      bind (initProgram E) (\<lambda>program.
      bind (getBossAccount E) (\<lambda>BOSS.
      bind (getOldOffer E 1) (\<lambda>offer.
      bind (lift (bnToBuffer8 E 1)) (\<lambda>b.
        let offerAuthority = findProgramAddress E [''offer_authority'', b] program;
            stateAddress = findProgramAddress E [''state''] PROGRAM_ID;
            offerPda = findProgramAddress E [''offer'', b] PROGRAM_ID
        in rethrow ''Error closing offer:''
          (bind (closeOfferIx E offer offerAuthority BOSS offerPda stateAddress) (\<lambda>ix.
           bind (outside (Called GetLatestBlockhash) (rpcBlockhash E)) (\<lambda>blockhash.
           bind (serializeTransaction E \<lparr>tx_ixs = [ix], feePayer = JPk BOSS, recentBlockhash = blockhash\<rparr>) (\<lambda>base58Tx.
           andThen (log_line ''Close Offer Transaction (Base58):'')
           (andThen (log_line base58Tx) (ret base58Tx)))))))))))"

definition upgrade001 :: "env \<Rightarrow> unit io" where
  "upgrade001 E = report_failure ''Failed to close offer:'' (closeOffer E)"


section \<open>002 and 003: closing and initialising the state\<close>

definition CLOSING_BOSS :: pubkey where
  "CLOSING_BOSS = PublicKey ''45YnzauhsBM8CpUz96Djf8UG5vqq2Dua62wuW9H3jaJ5''"


definition createCloseStateTransaction :: "env \<Rightarrow> string io" where
  "createCloseStateTransaction E =
     bind (create E None) (\<lambda>helper.
     andThen (log_line ''Creating close state transaction...'')
     (andThen (log_key ''Boss:'' (JPk CLOSING_BOSS))
     (rethrow ''Error creating transaction:''
       (bind (buildCloseStateIx E helper [(''boss'', JPk CLOSING_BOSS)]) (\<lambda>ix.
        bind (prepareTransaction E ix (JPk CLOSING_BOSS)) (\<lambda>tx.
        andThen (tell_all
          [Log (newline @ warning_mark @ ''  CRITICAL WARNING: This will CLOSE the program state account!''),
           Log ''This is a DESTRUCTIVE operation that will:'',
           Log ''  - Permanently delete the program's main state account'',
           Log ''  - Make the program effectively non-functional'',
           Log ''  - Return the rent to the boss'',
           Log (newline @ warning_mark @ ''  THIS CANNOT BE UNDONE!'')])
         (printTransaction E tx ''Close State Transaction'')))))))"


definition upgrade002 :: "env \<Rightarrow> unit io" where
  "upgrade002 E = report_failure ''Failed to create close state transaction:'' (createCloseStateTransaction E)"


definition INITIALIZER :: pubkey where
  "INITIALIZER = PublicKey ''onREP1E8Yk7p83fRFeApZSTN1vCzdfZKzS46dWErsre''"


definition createInitializeTransaction :: "env \<Rightarrow> string io" where
  "createInitializeTransaction E =
     bind (create E None) (\<lambda>helper.
     andThen (log_line ''Creating initialize transaction...'')
     (andThen (log_key ''Boss:'' (JPk INITIALIZER))
     (rethrow ''Error creating transaction:''
       (bind (buildInitializeIx E [(''boss'', JPk INITIALIZER)]) (\<lambda>ix.
        bind (prepareTransaction E ix (JPk INITIALIZER)) (\<lambda>tx.
          printTransaction E tx ''Initialize Transaction''))))))"


definition upgrade003 :: "env \<Rightarrow> unit io" where
  "upgrade003 E = report_failure ''Failed to create initialize transaction:'' (createInitializeTransaction E)"


section \<open>004 and 005: the new boss\<close>

definition NEW_BOSS :: pubkey where
  "NEW_BOSS = PublicKey ''45YnzauhsBM8CpUz96Djf8UG5vqq2Dua62wuW9H3jaJ5''"


definition createProposeBossTransaction :: "env \<Rightarrow> string io" where
  "createProposeBossTransaction E =
     bind (create E None) (\<lambda>helper.
     andThen (log_line ''Creating propose boss transaction...'')
     (andThen (log_key ''New boss:'' (JPk NEW_BOSS))
     (bind (getBoss E helper) (\<lambda>currentBoss.
      andThen (log_key ''Current boss:'' currentBoss)
      (rethrow ''Error creating transaction:''
       (bind (buildProposeBossIx E [(''boss'', currentBoss), (''newBoss'', JPk NEW_BOSS)]) (\<lambda>ix.
        bind (prepareTransaction E ix currentBoss) (\<lambda>tx.
        andThen (tell_all
          [Log (newline @ ''This is STEP 1 of the two-step ownership transfer:''),
           Log ''  1. Current boss proposes a new boss (this transaction)'',
           Log ''  2. Proposed boss accepts the transfer'',
           Log (newline @ ''After this transaction, the new boss must call accept-boss to complete the transfer.'')])
         (printTransaction E tx ''Propose Boss Transaction'')))))))))"


definition upgrade004 :: "env \<Rightarrow> unit io" where
  "upgrade004 E = report_failure ''Failed to create propose boss transaction:'' (createProposeBossTransaction E)"


text \<open>A fetched key is an object and therefore true: the other branch is never taken.\<close>

definition check_proposal :: "jsval \<Rightarrow> unit io" where
  "check_proposal proposedBoss =
     (if js_truthy proposedBoss then
        andThen (log_key ''Proposed boss:'' proposedBoss)
          (do_when (proposedBoss \<noteq> JPk NEW_BOSS)
            (andThen (tell_all
               [LogErr (newline @ warning_mark @ ''  ERROR: The NEW_BOSS in the script does not match the proposed boss in state!''),
                LogErr (''Script NEW_BOSS: '' @ toBase58 NEW_BOSS)])
             (bind (lift (js_toBase58 proposedBoss)) (\<lambda>t.
              andThen (tell (LogErr (''State proposed_boss: '' @ t)))
                (throw (Error ''NEW_BOSS mismatch''))))))
      else
        andThen (tell_all
          [LogErr (newline @ warning_mark @ ''  ERROR: No boss proposal found in state!''),
           LogErr ''The current boss must first propose a new boss using propose-boss.ts''])
          (throw (Error ''No proposed boss found'')))"


definition createAcceptBossTransaction :: "env \<Rightarrow> string io" where
  "createAcceptBossTransaction E =
     bind (create E None) (\<lambda>helper.
     andThen (log_line ''Creating accept boss transaction...'')
     (andThen (log_key ''New boss (accepting):'' (JPk NEW_BOSS))
     (rethrow ''Error creating transaction:''
       (bind (getState E helper) (\<lambda>state.
        andThen (log_key ''Current boss:'' (JPk (st_boss state)))
        (andThen (check_proposal (JPk (st_proposedBoss state)))
        (bind (buildAcceptBossIx E [(''newBoss'', JPk NEW_BOSS)]) (\<lambda>ix.
        bind (prepareTransaction E ix (JPk NEW_BOSS)) (\<lambda>tx.
        andThen (tell_all
          [Log (newline @ ''This is STEP 2 of the two-step ownership transfer:''),
           Log ''  1. Current boss proposed a new boss (already completed)'',
           Log ''  2. Proposed boss accepts the transfer (this transaction)'',
           Log (newline @ ''After this transaction, the new boss will become the owner of the program.'')])
         (printTransaction E tx ''Accept Boss Transaction'')))))))))) "


definition upgrade005 :: "env \<Rightarrow> unit io" where
  "upgrade005 E = report_failure ''Failed to create accept boss transaction:'' (createAcceptBossTransaction E)"


section \<open>006 and 007: offers with their first vector\<close>

text \<open>\<open>Date.UTC(y, m, d, 0, 0, 0)\<close> with the month counted from zero, for a month of the year.\<close>

definition date_utc :: "int \<Rightarrow> nat \<Rightarrow> int \<Rightarrow> int" where
  "date_utc y m d = (day_from_year y + sum_list (take m (month_lengths y)) + d - 1) * 86400000"


record offer_script =
  os_name :: string
  os_tokenIn :: pubkey
  os_tokenOut :: pubkey
  os_tokenInProgram :: pubkey
  os_tokenOutProgram :: pubkey

definition FEE_BASIS_POINTS :: jsnum where "FEE_BASIS_POINTS = Fin 0"


definition BASE_TIME :: jsnum where "BASE_TIME = js_floor (js_div (Fin (of_int (date_utc 2025 10 29))) (Fin 1000))"


definition BASE_PRICE :: jsnum where "BASE_PRICE = Fin 1052345126"


definition APR :: jsnum where "APR = Fin 125332"


definition PRICE_FIX_DURATION :: jsnum where "PRICE_FIX_DURATION = Fin (60 * 60 * 24)"


definition print_offer_configuration :: "offer_script \<Rightarrow> unit io" where
  "print_offer_configuration s =
     andThen (tell_all
       [Log ''Creating make offer with vector transaction...'',
        Log (newline @ ''Offer Configuration:''),
        Log (''  Token In ('' @ os_name s @ ''): '' @ toBase58 (os_tokenIn s)),
        Log (''  Token Out (ONe): '' @ toBase58 (os_tokenOut s)),
        Log (''  Token In Program: '' @ toBase58 (os_tokenInProgram s)),
        Log (''  Fee Basis Points: '' @ num_str FEE_BASIS_POINTS),
        Log ''  Needs Approval: false'',
        Log ''  Allow Permissionless: true'',
        Log (newline @ ''Vector Configuration:'')])
     (bind (lift (toISOString (js_mul BASE_TIME (Fin 1000)))) (\<lambda>t.
      tell_all
       [Log (''  Base Time: '' @ t),
        Log (''  Base Price: '' @ num_str BASE_PRICE),
        Log (''  APR: '' @ num_str (js_div APR (Fin 10000)) @ '' %''),
        Log (''  Price Fix Duration: '' @ num_str PRICE_FIX_DURATION @ '' seconds'')]))"


definition offer_with_vector_ixs :: "env \<Rightarrow> offer_script \<Rightarrow> ScriptHelper \<Rightarrow> jsval \<Rightarrow> tx_ix list io" where
  "offer_with_vector_ixs E s helper boss =
     bind (buildCreatePermissionlessTokenAccountsIxs E helper
       [(''tokenInMint'', JPk (os_tokenIn s)), (''tokenOutMint'', JPk (os_tokenOut s)),
        (''tokenInProgram'', JPk (os_tokenInProgram s)), (''tokenOutProgram'', JPk (os_tokenOutProgram s)),
        (''payer'', boss)]) (\<lambda>permissionlessIxs.
     andThen (log_line (if permissionlessIxs \<noteq> []
        then newline @ ''Added '' @ nat_str (length permissionlessIxs) @ '' instruction(s) to create permissionless token accounts''
        else newline @ ''Permissionless token accounts already exist''))
     (bind (buildMakeOfferIx E
       [(''tokenInMint'', JPk (os_tokenIn s)), (''tokenOutMint'', JPk (os_tokenOut s)),
        (''feeBasisPoints'', JNum FEE_BASIS_POINTS), (''needsApproval'', JBool False),
        (''allowPermissionless'', JBool True), (''tokenInProgram'', JPk (os_tokenInProgram s)),
        (''boss'', boss)]) (\<lambda>makeOfferIx.
     andThen (log_line (newline @ ''1. Added make offer instruction''))
     (bind (buildAddOfferVectorIx E
       [(''tokenInMint'', JPk (os_tokenIn s)), (''tokenOutMint'', JPk (os_tokenOut s)),
        (''baseTime'', JNum BASE_TIME), (''basePrice'', JNum BASE_PRICE), (''apr'', JNum APR),
        (''priceFixDuration'', JNum PRICE_FIX_DURATION), (''boss'', boss)]) (\<lambda>addVectorIx.
     andThen (log_line ''2. Added offer vector instruction'')
       (ret (permissionlessIxs @ [makeOfferIx, addVectorIx])))))))"


definition createMakeOfferWithVectorTransaction :: "env \<Rightarrow> offer_script \<Rightarrow> string io" where
  "createMakeOfferWithVectorTransaction E s =
     bind (create E None) (\<lambda>helper.
     andThen (print_offer_configuration s)
     (bind (getBoss E helper) (\<lambda>boss.
      andThen (log_key (newline @ ''Boss:'') boss)
      (rethrow ''Error creating transaction:''
       (bind (offer_with_vector_ixs E s helper boss) (\<lambda>instructions.
        bind (prepareTransactionMultipleIxs E instructions boss) (\<lambda>tx.
        andThen (tell_all
          [Log (newline @ ''This transaction will:''),
           Log ''  1. Create the offer (if permissionless: also create intermediary token accounts)'',
           Log ''  2. Add the first vector to the offer'',
           Log (newline @ ''Both operations will be executed atomically in a single transaction.'')])
         (printTransaction E tx ''Make Offer with Vector Transaction'')))))))) "


definition usdc_offer :: "env \<Rightarrow> offer_script" where
  "usdc_offer E = \<lparr>os_name = ''USDC'', os_tokenIn = usdc (mints (cfg E)), os_tokenOut = onyc (mints (cfg E)),
     os_tokenInProgram = TOKEN_PROGRAM_ID E, os_tokenOutProgram = TOKEN_PROGRAM_ID E\<rparr>"


definition usdg_offer :: "env \<Rightarrow> offer_script" where
  "usdg_offer E = \<lparr>os_name = ''USDG'', os_tokenIn = usdg (mints (cfg E)), os_tokenOut = onyc (mints (cfg E)),
     os_tokenInProgram = TOKEN_2022_PROGRAM_ID E, os_tokenOutProgram = TOKEN_PROGRAM_ID E\<rparr>"


definition upgrade006 :: "env \<Rightarrow> unit io" where
  "upgrade006 E = report_failure ''Failed to create make offer with vector transaction:''
     (createMakeOfferWithVectorTransaction E (usdc_offer E))"


definition upgrade007 :: "env \<Rightarrow> unit io" where
  "upgrade007 E = report_failure ''Failed to create make offer with vector transaction:''
     (createMakeOfferWithVectorTransaction E (usdg_offer E))"


section \<open>008: the mint authority\<close>

definition check_mint_authority :: "jsval \<Rightarrow> mint_info \<Rightarrow> unit io" where
  "check_mint_authority boss mintInfo =
     (case mt_mintAuthority mintInfo of
        None \<Rightarrow> throw (Error ''Mint has no authority - cannot transfer'')
      | Some authority \<Rightarrow>
          bind (lift (js_toBase58 boss)) (\<lambda>b.
            if toBase58 authority \<noteq> b then
              andThen (tell_all
                [LogErr (newline @ warning_mark @ ''  WARNING: Boss is not the current mint authority!''),
                 LogErr (''   Current authority: '' @ toBase58 authority),
                 LogErr (''   Boss: '' @ b)])
                (throw (Error ''Boss must be the current mint authority to transfer it to the program''))
            else tell_all
              [Log (newline @ check_mark @ '' Boss is the current mint authority''),
               Log (newline @ ''Building transaction to transfer authority to program PDA...'')]))"


definition createTransferMintAuthorityToProgramTransaction :: "env \<Rightarrow> string io" where
  "createTransferMintAuthorityToProgramTransaction E =
     (let MINT = onyc (mints (cfg E)); TOKEN_PROGRAM = TOKEN_PROGRAM_ID E in
      bind (create E None) (\<lambda>helper.
      andThen (tell_all
        [Log ''Creating transfer mint authority to program transaction...'',
         Log (''Mint: '' @ toBase58 MINT),
         Log (''Token Program: '' @ toBase58 TOKEN_PROGRAM)])
      (bind (getBoss E helper) (\<lambda>boss.
       andThen (log_key ''Boss:'' boss)
       (andThen (log_line (''Program Mint Authority PDA: '' @ toBase58 (mintAuthorityPda helper)))
       (rethrow ''Error creating transaction:''
        (bind (outside (Called (GetMint MINT TOKEN_PROGRAM)) (\<lambda>tr. rpcMint E tr MINT TOKEN_PROGRAM)) (\<lambda>mintInfo.
         andThen (tell_all
           [Log (newline @ ''Current Mint Info:''),
            Log (''  Decimals: '' @ nat_str (mt_decimals mintInfo)),
            Log (''  Supply: '' @ nat_str (mt_supply mintInfo)),
            Log (''  Current Mint Authority: '' @
              (case mt_mintAuthority mintInfo of None \<Rightarrow> ''None'' | Some k \<Rightarrow> if toBase58 k = [] then ''None'' else toBase58 k))])
         (andThen (check_mint_authority boss mintInfo)
         (bind (buildTransferMintAuthorityToProgramIx E
            [(''mint'', JPk MINT), (''tokenProgram'', JPk TOKEN_PROGRAM), (''boss'', boss)]) (\<lambda>ix.
         bind (prepareTransaction E ix boss) (\<lambda>tx.
         andThen (tell_all
           [Log (newline @ ''This transaction will:''),
            Log ''  1. Transfer mint authority from boss to program PDA'',
            Log ''  2. Enable programmatic minting via the program'',
            Log ''  3. Emit MintAuthorityTransferredToProgramEvent'',
            Log (newline @ ''After this transaction:''),
            Log (''  - Mint authority: '' @ toBase58 (mintAuthorityPda helper)),
            Log ''  - Program can mint tokens programmatically'',
            Log ''  - Boss can recover authority using transfer-mint-authority-to-boss script''])
          (printTransaction E tx ''Transfer Mint Authority to Program Transaction'')))))))))))))"

definition upgrade008 :: "env \<Rightarrow> unit io" where
  "upgrade008 E = report_failure ''Failed to create transfer mint authority to program transaction:''
     (createTransferMintAuthorityToProgramTransaction E)"


text \<open>The scripts in their order.\<close>

definition upgrade_scripts :: "(env \<Rightarrow> unit io) list" where
  "upgrade_scripts = [upgrade001, upgrade002, upgrade003, upgrade004, upgrade005, upgrade006, upgrade007, upgrade008]"


end
