(* ===== verification/Script_Upgrade_Props.thy ===== *)
theory Script_Upgrade_Props
  imports Script_Upgrade Idl_Calls Chain_Offer_Props
begin

text \<open>
  The upgrade as a whole: what the scripts print, as instructions of the contract, and what these instructions do
  when they reach a chain one after the other.
\<close>

section \<open>Calls that the client encodes\<close>

text \<open>
  The documented behaviour of the libraries on good input. Anchor encodes a call whose arguments have the described
  types and are in range, and whose accounts are keys under described names, if it can complete the other accounts
  without reading the chain.
\<close>

fun arg_encodes :: "idl_type \<Rightarrow> jsval \<Rightarrow> bool" where
  "arg_encodes (IOption t) v = (v = JNull \<or> arg_encodes t v)"
| "arg_encodes IPubkey (JPk k) = True"
| "arg_encodes IBool (JBool b) = True"
| "arg_encodes IString (JStr s) = True"
| "arg_encodes IU64 (JBN n) = (0 \<le> n \<and> n < 2 ^ 64)"
| "arg_encodes IU16 (JNum (Fin x)) = (0 \<le> x \<and> x < 2 ^ 16 \<and> of_int \<lfloor>x\<rfloor> = x)"
| "arg_encodes t v = False"

fun local_seed :: "idl_seed \<Rightarrow> bool" where
  "local_seed (FieldSeed p t) = False"
| "local_seed s = True"

fun local_attr :: "idl_attr \<Rightarrow> bool" where
  "local_attr (Relations rs) = False"
| "local_attr (Pda seeds program) = (list_all local_seed seeds \<and> (case program of None \<Rightarrow> True | Some s \<Rightarrow> local_seed s))"
| "local_attr a = True"

definition encodable :: "mcall \<Rightarrow> bool" where
  "encodable c \<longleftrightarrow> (\<exists>d. find_ix Onreapp (mc_method c) = Some d \<and>
     list_all2 arg_encodes (List.map snd (ii_args d)) (mc_args c) \<and>
     accounts_fit (mc_method c) (List.map fst (mc_accounts c)) \<and> unresolved d (List.map fst (mc_accounts c)) = [] \<and>
     list_all (\<lambda>(n, attrs). n \<in> set (List.map fst (mc_accounts c)) \<or> list_all local_attr attrs) (ii_accounts d) \<and>
     list_all (\<lambda>(n, v). \<exists>k. v = JPk k) (mc_accounts c))"

text \<open>
  web3.js serialises a transaction that fits into a packet of 1232 bytes. Counted for one signature, the key of the
  payer, the two programs and the block hash are 198 bytes; a call takes 11 bytes and its arguments, and 33 for the key
  and the index of each account; the creation of a token account takes 10 bytes and five keys.
\<close>

fun arg_bytes :: "idl_type \<Rightarrow> nat" where
  "arg_bytes (IOption t) = Suc (arg_bytes t)"
| "arg_bytes t = (case type_size t of Some n \<Rightarrow> n | None \<Rightarrow> 1232)"

definition call_bytes :: "mcall \<Rightarrow> nat" where
  "call_bytes c = (case find_ix Onreapp (mc_method c) of None \<Rightarrow> 1232
     | Some d \<Rightarrow> 11 + 33 * length (ii_accounts d) + sum_list (List.map (\<lambda>a. arg_bytes (snd a)) (ii_args d)))"

definition signed_by :: "pubkey \<Rightarrow> mcall \<Rightarrow> bool" where
  "signed_by k c \<longleftrightarrow> (\<exists>d. find_ix Onreapp (mc_method c) = Some d \<and>
     list_all (\<lambda>(n, attrs). IsSigner \<in> set attrs \<longrightarrow> map_of (mc_accounts c) n = Some (JPk k)) (ii_accounts d))"

definition fits_packet :: "transaction \<Rightarrow> bool" where
  "fits_packet tx \<longleftrightarrow> (\<exists>k pre calls. feePayer tx = JPk k \<and> tx_ixs tx = pre @ List.map AnchorIx calls \<and>
     (\<forall>i\<in>set pre. \<exists>a w m p. i = CreateAtaIx (JPk k) a w (JPk m) p) \<and> (\<forall>c\<in>set calls. encodable c \<and> signed_by k c) \<and>
     198 + 170 * length pre + sum_list (List.map call_bytes calls) \<le> 1232)"

text \<open>A call that the payer \<open>k\<close> can send alone.\<close>

definition sendable :: "pubkey \<Rightarrow> mcall \<Rightarrow> bool" where
  "sendable k c \<longleftrightarrow> encodable c \<and> signed_by k c \<and> call_bytes c \<le> 1034"

lemma sendable_fits: "sendable k c \<Longrightarrow> tx_ixs tx = [AnchorIx c] \<Longrightarrow> feePayer tx = JPk k \<Longrightarrow> fits_packet tx"
  unfolding fits_packet_def sendable_def by (intro exI [of _ k] exI [of _ "[]"] exI [of _ "[c]"]) simp

lemma encoding_fits:
  assumes "find_ix Onreapp m = Some d" and "accounts_fit m (List.map fst acs)" and "left_open m = []"
    and "list_all2 arg_encodes (List.map snd (ii_args d)) args"
    and "list_all (\<lambda>(n, attrs). n \<in> set (List.map fst acs) \<or> list_all local_attr attrs) (ii_accounts d)"
    and "list_all (\<lambda>(n, v). \<exists>k. v = JPk k) acs"
    and "list_all (\<lambda>(n, attrs). IsSigner \<in> set attrs \<longrightarrow> map_of acs n = Some (JPk k)) (ii_accounts d)"
    and "11 + 33 * length (ii_accounts d) + sum_list (List.map (\<lambda>a. arg_bytes (snd a)) (ii_args d)) = z"
    and "c = \<lparr>mc_method = m, mc_args = args, mc_accounts = acs, mc_partial = q\<rparr>"
  shows "encodable c \<and> signed_by k c \<and> call_bytes c = z"
  using assms by (simp add: encodable_def signed_by_def call_bytes_def accounts_fit_def)

lemma sendableI: "encodable c \<and> signed_by k c \<and> call_bytes c = z \<Longrightarrow> z \<le> 1034 \<Longrightarrow> sendable k c"
  by (simp add: sendable_def)

lemmas upgrade_ixs = idl_closeState_def idl_initialize_def initialize_accounts1_def idl_proposeBoss_def idl_acceptBoss_def
  idl_makeOffer_def makeOffer_accounts1_def makeOffer_accounts2_def idl_addOfferVector_def associated_token_program_bytes_def

lemma closeState_sendable [simp]: "sendable b \<lparr>mc_method = ''closeState'', mc_args = [],
    mc_accounts = [(''boss'', JPk b), (''state'', JPk s)], mc_partial = q\<rparr>"
  by (rule sendableI, rule encoding_fits [OF _ _ _ _ _ _ _ refl refl], rule find_instructions) (simp_all add: left_open_def upgrade_ixs)

lemma initialize_sendable [simp]: "sendable b \<lparr>mc_method = ''initialize'', mc_args = [],
    mc_accounts = [(''boss'', JPk b), (''program'', JPk p), (''programData'', JPk d), (''onycMint'', JPk m)], mc_partial = q\<rparr>"
  by (rule sendableI, rule encoding_fits [OF _ _ _ _ _ _ _ refl refl], rule find_instructions) (simp_all add: left_open_def upgrade_ixs)

lemma proposeBoss_sendable [simp]: "sendable b \<lparr>mc_method = ''proposeBoss'', mc_args = [JPk k],
    mc_accounts = [(''boss'', JPk b)], mc_partial = q\<rparr>"
  by (rule sendableI, rule encoding_fits [OF _ _ _ _ _ _ _ refl refl], rule find_instructions) (simp_all add: left_open_def upgrade_ixs)

lemma acceptBoss_sendable [simp]: "sendable b \<lparr>mc_method = ''acceptBoss'', mc_args = [],
    mc_accounts = [(''newBoss'', JPk b)], mc_partial = q\<rparr>"
  by (rule sendableI, rule encoding_fits [OF _ _ _ _ _ _ _ refl refl], rule find_instructions) (simp_all add: left_open_def upgrade_ixs)

lemma makeOffer_sendable:
  assumes "arg_encodes IU16 fee" and "c = \<lparr>mc_method = ''makeOffer'', mc_args = [fee, JBool n, JBool p],
    mc_accounts = [(''tokenInMint'', JPk i), (''tokenInProgram'', JPk ip), (''tokenOutMint'', JPk ot), (''boss'', JPk b)], mc_partial = q\<rparr>"
  shows "encodable c \<and> signed_by b c \<and> call_bytes c = 345"
  by (rule encoding_fits [OF _ _ _ _ _ _ _ _ assms(2)], rule find_instructions) (use assms(1) in \<open>simp_all add: left_open_def upgrade_ixs\<close>)

lemma addOfferVector_sendable:
  assumes "list_all (arg_encodes IU64) [t, p, r, d]" and "c = \<lparr>mc_method = ''addOfferVector'', mc_args = [JNull, t, p, r, d],
    mc_accounts = [(''tokenInMint'', JPk i), (''tokenOutMint'', JPk ot), (''boss'', JPk b)], mc_partial = q\<rparr>"
  shows "encodable c \<and> signed_by b c \<and> call_bytes c = 217"
  by (rule encoding_fits [OF _ _ _ _ _ _ _ _ assms(2)], rule find_instructions) (use assms(1) in \<open>simp_all add: left_open_def upgrade_ixs\<close>)

section \<open>A working environment\<close>

text \<open>
  The machine of the scripts: the libraries behave as documented on good input, a wallet can be resolved, and the node
  answers.
\<close>

definition working :: "env \<Rightarrow> bool" where
  "working E \<longleftrightarrow> connectionError E (rpcUrl (cfg E)) = None \<and> io_ok (\<lambda>_. True) (resolve_wallet E None) \<and>
     (\<forall>c. encodable c \<longrightarrow> instructionError E c = None) \<and> (\<forall>tx. fits_packet tx \<longrightarrow> (\<exists>b. serializeTx E tx = Inr b)) \<and>
     (\<forall>m w p. \<exists>k. associatedTokenAddress E m w True p = Inr k) \<and>
     (\<forall>n. \<bar>n\<bar> < 2 ^ 53 \<longrightarrow> newBN E (JNum (Fin (of_int n))) = Inr n) \<and>
     (\<forall>tr. \<exists>h. rpcBlockhash E tr = Inr h) \<and> (\<forall>tr k. \<exists>b. rpcAccountInfo E tr k = Inr b)"

text \<open>The node has the state account of the chain.\<close>

definition reads :: "env \<Rightarrow> State \<Rightarrow> bool" where
  "reads E s \<longleftrightarrow> (\<forall>tr. \<exists>a. rpcState E tr (findProgramAddress E [''state''] (programId (cfg E))) = Inr a \<and>
     st_boss a = boss s \<and> st_proposedBoss a = proposed_boss s)"

definition helper_of :: "env \<Rightarrow> ScriptHelper \<Rightarrow> bool" where
  "helper_of E h \<longleftrightarrow> (\<exists>w src. h = new_ScriptHelper E (programId (cfg E)) w src)"

lemma wallet_ok:
  assumes "\<And>tr p. \<exists>t. readFile E tr p = Inr t" and "\<And>t. \<exists>k. keypairOfJson E t = Inr k"
  shows "io_ok (\<lambda>_. True) (resolve_wallet E None)"
proof -
  have load: "io_ok (\<lambda>_. True) (load_keypair E p)" for p
    unfolding load_keypair_def by (rule io_ok_bind [where S = "\<lambda>_. True"]) (use assms in \<open>auto simp: io_ok_def lift_def outside_def\<close>)
  have path: "io_ok (\<lambda>_. True) (getSolanaCliKeypairPath E)"
    unfolding getSolanaCliKeypairPath_def Let_def
    by (intro ok_intros io_ok_bind [where S = "\<lambda>_. True"]) (use assms in auto)
  show ?thesis
    unfolding resolve_wallet_def
    by simp (intro io_ok_bind [OF path] io_ok_bind [where S = "\<lambda>_. True"] ok_intros load TrueI)
qed

lemma create_ok: "working E \<Longrightarrow> io_ok (helper_of E) (create E None)"
proof -
  assume w: "working E"
  then have wallet: "io_ok (\<lambda>_. True) (resolve_wallet E None)" by (simp add: working_def)
  have prog: "PublicKey (getIdlWithProgramId E) = programId (cfg E)"
    by (cases "programId (cfg E)") (simp add: getIdlWithProgramId_def)
  show ?thesis
    unfolding create_def using w
    by (simp add: working_def prog)
      (rule io_ok_bind [OF wallet], intro io_ok_andThen ok_intros, auto simp: helper_of_def)
qed

lemma helper_statePda: "helper_of E h \<Longrightarrow> statePda h = findProgramAddress E [''state''] (programId (cfg E))"
  by (auto simp: helper_of_def new_ScriptHelper_def)

lemma getState_ok:
  "reads E s \<Longrightarrow> helper_of E h \<Longrightarrow> io_ok (\<lambda>a. st_boss a = boss s \<and> st_proposedBoss a = proposed_boss s) (getState E h)"
  unfolding getState_def reads_def helper_statePda by (intro ok_intros) metis

lemma getBoss_ok: "reads E s \<Longrightarrow> helper_of E h \<Longrightarrow> io_ok (\<lambda>v. v = JPk (boss s)) (getBoss E h)"
proof -
  assume r: "reads E s" and h: "helper_of E h"
  have "io_ok (\<lambda>a. st_boss a = boss s) (outside (Called (FetchState (statePda h))) (\<lambda>tr. rpcState E tr (statePda h)))"
    using r by (intro ok_intros) (metis reads_def helper_statePda [OF h])
  then show ?thesis unfolding getBoss_def by (rule io_ok_bind) (simp add: ok_intros)
qed

lemma instruction_ok:
  assumes "working E" and "encodable \<lparr>mc_method = m, mc_args = args, mc_accounts = acs, mc_partial = p\<rparr>"
    and "R (AnchorIx \<lparr>mc_method = m, mc_args = args, mc_accounts = acs, mc_partial = p\<rparr>)"
  shows "io_ok R (instruction E p m args acs)"
proof -
  have "instructionError E \<lparr>mc_method = m, mc_args = args, mc_accounts = acs, mc_partial = p\<rparr> = None"
    using assms(1,2) unfolding working_def by blast
  then show ?thesis by (simp add: instruction_def Let_def ok_intros assms(3))
qed

lemma new_BN_ok: "working E \<Longrightarrow> \<bar>n\<bar> < 2 ^ 53 \<Longrightarrow> io_ok (\<lambda>v. v = JBN n) (new_BN E (JNum (Fin (of_int n))))"
  by (simp add: working_def new_BN_def io_ok_def bind_def lift_def ret_def)

lemma prepare_ok: "working E \<Longrightarrow> io_ok (\<lambda>tx. tx_ixs tx = ixs \<and> feePayer tx = p) (prepareTransactionMultipleIxs E ixs p)"
  unfolding prepareTransactionMultipleIxs_def Let_def
  by (rule io_ok_bind [where S = "\<lambda>_. True"]) (auto simp: working_def add_ixs_spec intro!: ok_intros)

section \<open>Printed transactions\<close>

text \<open>
  \<open>writes E Q t m\<close>: after every trace \<open>m\<close> returns, and the last that it has printed is the title \<open>t\<close> and the serialised text
  of a transaction that satisfies \<open>Q\<close>.
\<close>

definition writes :: "env \<Rightarrow> (transaction \<Rightarrow> bool) \<Rightarrow> string \<Rightarrow> 'a io \<Rightarrow> bool" where
  "writes E Q t m \<longleftrightarrow> (\<forall>tr. \<exists>x tr' tx b. m tr = (Inr x, tr' @ [Log (t @ '' (Base58):''), Log (bs58Encode E b)]) \<and>
     serializeTx E tx = Inr b \<and> Q tx)"

lemma writes_bind: "io_ok S m \<Longrightarrow> (\<And>x. S x \<Longrightarrow> writes E Q t (f x)) \<Longrightarrow> writes E Q t (bind m f)"
  unfolding writes_def
proof
  fix tr
  assume m: "io_ok S m" and f: "\<And>x. S x \<Longrightarrow> \<forall>tr. \<exists>y tr' tx b.
    f x tr = (Inr y, tr' @ [Log (t @ '' (Base58):''), Log (bs58Encode E b)]) \<and> serializeTx E tx = Inr b \<and> Q tx"
  from m obtain x tr1 where "m tr = (Inr x, tr1)" "S x" unfolding io_ok_def by blast
  with f [of x, THEN spec, of tr1] show "\<exists>y tr' tx b. bind m f tr = (Inr y, tr' @ [Log (t @ '' (Base58):''), Log (bs58Encode E b)]) \<and>
    serializeTx E tx = Inr b \<and> Q tx" by (simp add: bind_def)
qed

lemma writes_andThen: "io_ok (\<lambda>_. True) m \<Longrightarrow> writes E Q t k \<Longrightarrow> writes E Q t (andThen m k)"
  unfolding andThen_def by (rule writes_bind)

lemma writes_try: "writes E Q t m \<Longrightarrow> writes E Q t (try_catch m h)"
  unfolding writes_def
proof
  fix tr
  assume "\<forall>tr. \<exists>x tr' tx b. m tr = (Inr x, tr' @ [Log (t @ '' (Base58):''), Log (bs58Encode E b)]) \<and> serializeTx E tx = Inr b \<and> Q tx"
  from this [THEN spec, of tr] obtain x tr' tx b
    where 1: "m tr = (Inr x, tr' @ [Log (t @ '' (Base58):''), Log (bs58Encode E b)])" "serializeTx E tx = Inr b" "Q tx" by blast
  then have "try_catch m h tr = (Inr x, tr' @ [Log (t @ '' (Base58):''), Log (bs58Encode E b)])" by (simp add: try_catch_def)
  with 1 show "\<exists>x tr' tx b. try_catch m h tr = (Inr x, tr' @ [Log (t @ '' (Base58):''), Log (bs58Encode E b)]) \<and>
    serializeTx E tx = Inr b \<and> Q tx" by blast
qed

lemma writes_rethrow: "writes E Q t m \<Longrightarrow> writes E Q t (rethrow s m)"
  unfolding rethrow_def by (rule writes_try)

lemma writes_returns: "writes E Q t m \<Longrightarrow> writes E Q t (andThen m (ret ()))"
  unfolding writes_def
proof
  fix tr
  assume "\<forall>tr. \<exists>x tr' tx b. m tr = (Inr x, tr' @ [Log (t @ '' (Base58):''), Log (bs58Encode E b)]) \<and> serializeTx E tx = Inr b \<and> Q tx"
  from this [THEN spec, of tr] obtain x tr' tx b
    where 1: "m tr = (Inr x, tr' @ [Log (t @ '' (Base58):''), Log (bs58Encode E b)])" "serializeTx E tx = Inr b" "Q tx" by blast
  then have "andThen m (ret ()) tr = (Inr (), tr' @ [Log (t @ '' (Base58):''), Log (bs58Encode E b)])"
    by (simp add: andThen_def bind_def ret_def)
  with 1 show "\<exists>x tr' tx b. andThen m (ret ()) tr = (Inr x, tr' @ [Log (t @ '' (Base58):''), Log (bs58Encode E b)]) \<and>
    serializeTx E tx = Inr b \<and> Q tx" by blast
qed

lemma writes_report: "writes E Q t m \<Longrightarrow> writes E Q t (report_failure s m)"
  unfolding report_failure_def by (intro writes_try writes_returns)

lemma print_writes:
  assumes "working E" and "fits_packet tx" and "Q tx"
  shows "writes E Q t (printTransaction E tx t)"
proof -
  obtain b where b: "serializeTx E tx = Inr b" using assms(1,2) unfolding working_def by blast
  have "printTransaction E tx t tr = (Inr (bs58Encode E b), tr @ [Log (t @ '' (Base58):''), Log (bs58Encode E b)])" for tr
    by (simp add: printTransaction_def serializeTransaction_def b bind_def lift_def ret_def andThen_def log_line_def tell_def)
  then show ?thesis unfolding writes_def using b assms(3) by blast
qed

text \<open>What every script ends with: prepare the instructions, say something, print.\<close>

lemma prepare_writes:
  assumes "working E" and "\<And>tx. tx_ixs tx = ixs \<Longrightarrow> feePayer tx = p \<Longrightarrow> fits_packet tx \<and> Q tx"
  shows "writes E Q t (bind (prepareTransactionMultipleIxs E ixs p) (\<lambda>tx. andThen (tell_all es) (printTransaction E tx t)))"
    and "writes E Q t (bind (prepareTransactionMultipleIxs E ixs p) (\<lambda>tx. printTransaction E tx t))"
  by (rule writes_bind [OF prepare_ok [OF assms(1)]], (rule writes_andThen [OF io_ok_tell_all])?,
      rule print_writes [OF assms(1)], use assms(2) in blast, use assms(2) in blast)+

section \<open>The instructions that a call stands for\<close>

text \<open>
  Anchor's documented encoding of the calls of the upgrade: the accounts by their names, the arguments in their
  widths. \<open>info\<close> is the content of accounts that the program looks at.
\<close>

definition account :: "mcall \<Rightarrow> string \<Rightarrow> (pubkey \<Rightarrow> instruction option) \<Rightarrow> instruction option" where
  "account c n k = (case map_of (mc_accounts c) n of Some (JPk p) \<Rightarrow> k p | _ \<Rightarrow> None)"

fun unsigned :: "nat \<Rightarrow> jsval \<Rightarrow> nat option" where
  "unsigned w (JBN n) = (if 0 \<le> n \<and> n < 2 ^ w then Some (nat n) else None)"
| "unsigned w (JNum (Fin x)) = (if 0 \<le> x \<and> x < 2 ^ w \<and> of_int \<lfloor>x\<rfloor> = x then Some (nat \<lfloor>x\<rfloor>) else None)"
| "unsigned w v = None"

fun decode :: "(pubkey \<Rightarrow> account_info option) \<Rightarrow> tx_ix \<Rightarrow> instruction option" where
  "decode info (AnchorIx c) =
     (if mc_method c = ''closeState'' then account c ''state'' (\<lambda>k. account c ''boss'' (\<lambda>b. Some (CloseState k b)))
      else if mc_method c = ''initialize'' then
        account c ''boss'' (\<lambda>b. account c ''program'' (\<lambda>p. account c ''programData'' (\<lambda>d. account c ''onycMint'' (\<lambda>m.
          map_option (\<lambda>i. Initialize b i (info d) m) (info p)))))
      else if mc_method c = ''proposeBoss'' then
        account c ''boss'' (\<lambda>b. case mc_args c of [JPk k] \<Rightarrow> Some (ProposeBoss b k) | _ \<Rightarrow> None)
      else if mc_method c = ''acceptBoss'' then account c ''newBoss'' (\<lambda>b. Some (AcceptBoss b))
      else if mc_method c = ''makeOffer'' then
        account c ''boss'' (\<lambda>b. account c ''tokenInMint'' (\<lambda>i. account c ''tokenOutMint'' (\<lambda>ot.
          case mc_args c of [fee, JBool needs, JBool allow] \<Rightarrow>
            map_option (\<lambda>f. MakeOffer b i ot f needs allow) (unsigned 16 fee) | _ \<Rightarrow> None)))
      else if mc_method c = ''addOfferVector'' then
        account c ''boss'' (\<lambda>b. account c ''tokenInMint'' (\<lambda>i. account c ''tokenOutMint'' (\<lambda>ot.
          case mc_args c of [JNull, t, p, r, d] \<Rightarrow>
            Option.bind (unsigned 64 t) (\<lambda>t. Option.bind (unsigned 64 p) (\<lambda>p. Option.bind (unsigned 64 r) (\<lambda>r.
              map_option (\<lambda>d. AddOfferVector b i ot None t p r d) (unsigned 64 d)))) | _ \<Rightarrow> None)))
      else if mc_method c = ''transferMintAuthorityToProgram'' then
        account c ''boss'' (\<lambda>b. account c ''mint'' (\<lambda>m. Some (TransferMintAuthorityToProgram b m)))
      else None)"
| "decode info _ = None"

text \<open>
  The contract's instructions of a transaction, after any created token accounts, paid by the one signer.
\<close>

definition submits :: "(pubkey \<Rightarrow> account_info option) \<Rightarrow> instruction list \<Rightarrow> transaction \<Rightarrow> bool" where
  "submits info is tx \<longleftrightarrow> (\<exists>pre post. tx_ixs tx = pre @ post \<and>
     (\<forall>i\<in>set pre. \<exists>p a w m t. i = CreateAtaIx p a w m t) \<and> List.map (decode info) post = List.map Some is) \<and>
     (\<exists>payer. feePayer tx = JPk payer \<and> (\<forall>i\<in>set is. signer_of i = Some payer))"

lemma submits_one:
  "tx_ixs tx = [ix] \<Longrightarrow> decode info ix = Some i \<Longrightarrow> feePayer tx = JPk p \<Longrightarrow> signer_of i = Some p \<Longrightarrow> submits info [i] tx"
  unfolding submits_def by (rule conjI, rule exI [of _ "[]"], auto)

section \<open>What the scripts print\<close>

lemma one_call_writes:
  assumes "working E" and "sendable b \<lparr>mc_method = m, mc_args = args, mc_accounts = acs, mc_partial = q\<rparr>"
    and "decode info (AnchorIx \<lparr>mc_method = m, mc_args = args, mc_accounts = acs, mc_partial = q\<rparr>) = Some i"
    and "signer_of i = Some b"
  shows "writes E (submits info [i]) t (bind (instruction E q m args acs) (\<lambda>ix.
      bind (prepareTransactionMultipleIxs E [ix] (JPk b)) (\<lambda>tx. andThen (tell_all es) (printTransaction E tx t))))"
    and "writes E (submits info [i]) t (bind (instruction E q m args acs) (\<lambda>ix.
      bind (prepareTransactionMultipleIxs E [ix] (JPk b)) (\<lambda>tx. printTransaction E tx t)))"
proof -
  let ?c = "\<lparr>mc_method = m, mc_args = args, mc_accounts = acs, mc_partial = q\<rparr>"
  have ix: "io_ok (\<lambda>ix. ix = AnchorIx ?c) (instruction E q m args acs)"
    using assms(2) by (intro instruction_ok [OF assms(1)]) (simp_all add: sendable_def)
  have tx: "fits_packet tx \<and> submits info [i] tx" if "tx_ixs tx = [AnchorIx ?c]" "feePayer tx = JPk b" for tx
    using sendable_fits [OF assms(2) that] submits_one [OF that(1) assms(3) that(2) assms(4)] by simp
  show "writes E (submits info [i]) t (bind (instruction E q m args acs) (\<lambda>ix.
      bind (prepareTransactionMultipleIxs E [ix] (JPk b)) (\<lambda>tx. andThen (tell_all es) (printTransaction E tx t))))"
    by (rule writes_bind [OF ix], hypsubst, rule prepare_writes [OF assms(1) tx])
  show "writes E (submits info [i]) t (bind (instruction E q m args acs) (\<lambda>ix.
      bind (prepareTransactionMultipleIxs E [ix] (JPk b)) (\<lambda>tx. printTransaction E tx t)))"
    by (rule writes_bind [OF ix], hypsubst, rule prepare_writes [OF assms(1) tx])
qed

lemmas script_rules = writes_report writes_rethrow writes_andThen io_ok_andThen ok_intros one_call_writes

lemma closing_script:
  assumes "working E"
  shows "writes E (submits info [CloseState (findProgramAddress E [''state''] (programId (cfg E))) CLOSING_BOSS])
    ''Close State Transaction'' (upgrade002 E)"
  unfolding upgrade002_def createCloseStateTransaction_def prepareTransaction_def buildCloseStateIx_def
  by (rule writes_report, rule writes_bind [OF create_ok [OF assms]], intro script_rules assms)
    (auto simp: helper_of_def account_def fld_def new_ScriptHelper_def)

lemma initializing_script:
  assumes "working E" and "info (programId (cfg E)) = Some i"
  shows "writes E (submits info [Initialize INITIALIZER i
      (info (findProgramAddress E [toBuffer E (programId (cfg E))] BPF_LOADER_UPGRADEABLE)) (onyc (NetworkConfig.mints (cfg E)))])
    ''Initialize Transaction'' (upgrade003 E)"
  unfolding upgrade003_def createInitializeTransaction_def prepareTransaction_def buildInitializeIx_def
  by (rule writes_report, rule writes_bind [OF create_ok [OF assms(1)]], intro script_rules assms)
    (auto simp: account_def fld_def assms(2))

lemma proposing_script:
  assumes "working E" and "reads E s"
  shows "writes E (submits info [ProposeBoss (boss s) NEW_BOSS]) ''Propose Boss Transaction'' (upgrade004 E)"
proof -
  have body: "writes E (submits info [ProposeBoss (boss s) NEW_BOSS]) t
    (bind (buildProposeBossIx E [(''boss'', JPk (boss s)), (''newBoss'', JPk NEW_BOSS)]) (\<lambda>ix.
        bind (prepareTransaction E ix (JPk (boss s))) (\<lambda>tx. andThen (tell_all es) (printTransaction E tx t))))" for es t
    unfolding prepareTransaction_def buildProposeBossIx_def
    by (intro script_rules assms) (auto simp: account_def fld_def take_fields_def)
  show ?thesis
    unfolding upgrade004_def createProposeBossTransaction_def
    by (rule writes_report, rule writes_bind [OF create_ok [OF assms(1)]], intro writes_andThen ok_intros,
        rule writes_bind [OF getBoss_ok [OF assms(2)]], assumption, hypsubst, rule writes_andThen [OF io_ok_log_key],
        rule writes_rethrow, rule body)
qed

lemma accepting_script:
  assumes "working E" and "reads E s" and "proposed_boss s = NEW_BOSS"
  shows "writes E (submits info [AcceptBoss NEW_BOSS]) ''Accept Boss Transaction'' (upgrade005 E)"
proof -
  have c: "io_ok (\<lambda>_. True) (check_proposal (JPk NEW_BOSS))"
    by (simp add: check_proposal_def do_when_def) (intro io_ok_andThen ok_intros TrueI)
  have body: "writes E (submits info [AcceptBoss NEW_BOSS]) t
    (bind (buildAcceptBossIx E [(''newBoss'', JPk NEW_BOSS)]) (\<lambda>ix.
        bind (prepareTransaction E ix (JPk NEW_BOSS)) (\<lambda>tx. andThen (tell_all es) (printTransaction E tx t))))" for es t
    unfolding prepareTransaction_def buildAcceptBossIx_def
    by (intro script_rules assms) (auto simp: account_def fld_def take_fields_def)
  show ?thesis
    unfolding upgrade005_def createAcceptBossTransaction_def
    by (rule writes_report, rule writes_bind [OF create_ok [OF assms(1)]], intro writes_andThen ok_intros,
        rule writes_rethrow, rule writes_bind [OF getState_ok [OF assms(2)]], assumption,
        intro writes_andThen [OF io_ok_log_key] writes_andThen)
      (use c assms(3) in simp, rule body)
qed

text \<open>The script refuses another proposal: it says so, twice, and prints no transaction.\<close>

definition mismatch_report :: "ScriptHelper \<Rightarrow> State \<Rightarrow> trace" where
  "mismatch_report h s =
     [Log ''Creating accept boss transaction...'', Log (''New boss (accepting): '' @ toBase58 NEW_BOSS),
      Called (FetchState (statePda h)),
      Log (''Current boss: '' @ toBase58 (boss s)), Log (''Proposed boss: '' @ toBase58 (proposed_boss s)),
      LogErr (newline @ warning_mark @ ''  ERROR: The NEW_BOSS in the script does not match the proposed boss in state!''),
      LogErr (''Script NEW_BOSS: '' @ toBase58 NEW_BOSS), LogErr (''State proposed_boss: '' @ toBase58 (proposed_boss s)),
      LogThrown ''Error creating transaction:'' (Error ''NEW_BOSS mismatch''),
      LogThrown ''Failed to create accept boss transaction:'' (Error ''NEW_BOSS mismatch'')]"

lemma refused_proposal:
  assumes "working E" and "reads E s" and "proposed_boss s \<noteq> NEW_BOSS"
  shows "\<exists>h tr1. create E None tr = (Inr h, tr1) \<and> upgrade005 E tr = (Inr (), tr1 @ mismatch_report h s)"
proof -
  obtain h tr1 where h: "create E None tr = (Inr h, tr1)" "helper_of E h"
    using create_ok [OF assms(1)] unfolding io_ok_def by blast
  let ?tr2 = "tr1 @ [Log ''Creating accept boss transaction...'', Log (''New boss (accepting): '' @ toBase58 NEW_BOSS)]"
  obtain a where a: "rpcState E ?tr2 (statePda h) = Inr a" "st_boss a = boss s" "st_proposedBoss a = proposed_boss s"
    using assms(2) unfolding reads_def helper_statePda [OF h(2)] by blast
  show ?thesis
    unfolding mismatch_report_def
    by (rule exI [of _ h], rule exI [of _ tr1])
      (use h(1) a assms(3) in \<open>simp add: upgrade005_def createAcceptBossTransaction_def report_failure_def rethrow_def
        try_catch_def andThen_def bind_def log_line_def log_key_def tell_def lift_def getState_def outside_def
        check_proposal_def do_when_def throw_def tell_all_run del: tell_all.simps\<close>)
qed

lemma NEW_BOSS_given [simp]: "NEW_BOSS \<noteq> PublicKey_default" "PublicKey_default \<noteq> NEW_BOSS"
  by (simp_all add: NEW_BOSS_def PublicKey_default_def numeral_eq_Suc)

text \<open>
  C38:
  The script of the acceptance prints its transaction exactly when the contract would accept it. On a working machine
  (the libraries behave as documented, a wallet can be resolved, the node answers) whose node has the state account of the
  chain, if the acceptance by the new boss succeeds on that chain, the script ends with printing exactly this
  instruction, as a transaction of the new boss; and if it fails, the script prints the two keys, the mismatch and
  the error, and no transaction.
\<close>

theorem acceptance_is_printed_when_possible:
  assumes "working E" and "reads E s" and "state_acc c = Some s"
  shows "if \<exists>c'. execute W (AcceptBoss NEW_BOSS) c = Inr c'
    then writes E (submits info [AcceptBoss NEW_BOSS]) ''Accept Boss Transaction'' (upgrade005 E)
    else \<exists>h tr1. create E None tr = (Inr h, tr1) \<and> upgrade005 E tr = (Inr (), tr1 @ mismatch_report h s)"
proof -
  have "(\<exists>c'. execute W (AcceptBoss NEW_BOSS) c = Inr c') \<longleftrightarrow> proposed_boss s = NEW_BOSS"
    using assms(3) by (auto simp: accept_boss_def)
  then show ?thesis using accepting_script [OF assms(1,2)] refused_proposal [OF assms(1,2)] by simp
qed

text \<open>The offers: 29 November 2025, and the price and rate of the scripts.\<close>

lemma BASE_TIME_date: "date_utc 2025 10 29 = 1764374400000"
  by (simp add: date_utc_def day_from_year_def month_lengths_def leap_year_def)

lemma BASE_TIME_value: "BASE_TIME = Fin 1764374400"
  using to_double_int [of 1764374400] by (simp add: BASE_TIME_def BASE_TIME_date)

lemma BASE_TIME_text: "toISOString (js_mul BASE_TIME (Fin 1000)) = Inr (iso_of_ms 1764374400000)"
proof -
  have "js_mul BASE_TIME (Fin 1000) = Fin 1764374400000"
    using to_double_int [of 1764374400000] by (simp add: BASE_TIME_value)
  then show ?thesis by (simp add: toISOString_def)
qed

lemma create_if_missing_ok:
  assumes "working E"
  shows "io_ok (\<lambda>is. length is \<le> 1 \<and> (\<forall>i\<in>set is. \<exists>a w n q. i = CreateAtaIx payer a w (JPk n) q))
    (create_if_missing E h (JPk m) (JPk p) payer)"
proof -
  obtain k where k: "associatedTokenAddress E m (permissionlessVaultAuthorityPda h) True p = Inr k"
    using assms unfolding working_def by blast
  have info: "io_ok (\<lambda>_. True) (outside (Called (GetAccountInfo k)) (\<lambda>tr. rpcAccountInfo E tr k))"
    using assms by (intro ok_intros) (auto simp: working_def)
  show ?thesis
    unfolding create_if_missing_def Let_def
    by (simp add: ata_def k io_simps) (rule io_ok_bind [OF info], rule ok_intros, auto)
qed

definition offer_instructions :: "pubkey \<Rightarrow> offer_script \<Rightarrow> instruction list" where
  "offer_instructions b s = [MakeOffer b (os_tokenIn s) (os_tokenOut s) 0 False True,
     AddOfferVector b (os_tokenIn s) (os_tokenOut s) None 1764374400 1052345126 125332 86400]"

text \<open>A call counted with \<open>z\<close> bytes, sent by \<open>b\<close>, that stands for the instruction \<open>i\<close>.\<close>

definition sends :: "(pubkey \<Rightarrow> account_info option) \<Rightarrow> pubkey \<Rightarrow> nat \<Rightarrow> instruction \<Rightarrow> tx_ix \<Rightarrow> bool" where
  "sends info b z i ix \<longleftrightarrow> (\<exists>c. ix = AnchorIx c \<and> (encodable c \<and> signed_by b c \<and> call_bytes c = z) \<and> decode info ix = Some i)"

lemma sendsI: "encodable c \<and> signed_by b c \<and> call_bytes c = z \<Longrightarrow> decode info (AnchorIx c) = Some i \<Longrightarrow> sends info b z i (AnchorIx c)"
  unfolding sends_def by blast

text \<open>The token accounts that are created, and the two calls.\<close>

definition offer_ixs :: "(pubkey \<Rightarrow> account_info option) \<Rightarrow> pubkey \<Rightarrow> offer_script \<Rightarrow> tx_ix list \<Rightarrow> bool" where
  "offer_ixs info b s ixs \<longleftrightarrow> (\<exists>pre make add. ixs = pre @ [make, add] \<and> length pre \<le> 2 \<and>
     (\<forall>i\<in>set pre. \<exists>a w n q. i = CreateAtaIx (JPk b) a w (JPk n) q) \<and>
     sends info b 345 (MakeOffer b (os_tokenIn s) (os_tokenOut s) 0 False True) make \<and>
     sends info b 217 (AddOfferVector b (os_tokenIn s) (os_tokenOut s) None 1764374400 1052345126 125332 86400) add)"

lemma offer_ixs_send:
  assumes "offer_ixs info b s (tx_ixs tx)" and "feePayer tx = JPk b"
  shows "fits_packet tx \<and> submits info (offer_instructions b s) tx"
proof -
  from assms(1) obtain pre make add where 1: "tx_ixs tx = pre @ [AnchorIx make, AnchorIx add]" "length pre \<le> 2"
    "\<forall>i\<in>set pre. \<exists>a w n q. i = CreateAtaIx (JPk b) a w (JPk n) q"
    "encodable make \<and> signed_by b make \<and> call_bytes make = 345" "encodable add \<and> signed_by b add \<and> call_bytes add = 217"
    "List.map (decode info) [AnchorIx make, AnchorIx add] = List.map Some (offer_instructions b s)"
    unfolding offer_ixs_def sends_def offer_instructions_def by auto
  have "fits_packet tx" unfolding fits_packet_def
    by (rule exI [of _ b], rule exI [of _ pre], rule exI [of _ "[make, add]"]) (use 1(1-5) assms(2) in simp)
  moreover have "submits info (offer_instructions b s) tx" unfolding submits_def
    by (rule conjI, rule exI [of _ pre], rule exI [of _ "[AnchorIx make, AnchorIx add]"])
      (use 1(1,3,6) assms(2) in \<open>auto simp: offer_instructions_def\<close>)
  ultimately show ?thesis ..
qed

lemma offer_ixs_ok:
  assumes "working E"
  shows "io_ok (offer_ixs info b s) (offer_with_vector_ixs E s h (JPk b))"
proof -
  have atas: "io_ok (\<lambda>is. length is \<le> 2 \<and> (\<forall>i\<in>set is. \<exists>a w n q. i = CreateAtaIx (JPk b) a w (JPk n) q))
     (buildCreatePermissionlessTokenAccountsIxs E h
       [(''tokenInMint'', JPk (os_tokenIn s)), (''tokenOutMint'', JPk (os_tokenOut s)),
        (''tokenInProgram'', JPk (os_tokenInProgram s)), (''tokenOutProgram'', JPk (os_tokenOutProgram s)), (''payer'', JPk b)])"
    unfolding buildCreatePermissionlessTokenAccountsIxs_def
    by (simp add: fld_def) (rule io_ok_bind [OF create_if_missing_ok [OF assms]], rule io_ok_bind [OF create_if_missing_ok [OF assms]],
        rule ok_intros, auto)
  have offer: "io_ok (sends info b 345 (MakeOffer b (os_tokenIn s) (os_tokenOut s) 0 False True)) (buildMakeOfferIx E
       [(''tokenInMint'', JPk (os_tokenIn s)), (''tokenOutMint'', JPk (os_tokenOut s)),
        (''feeBasisPoints'', JNum FEE_BASIS_POINTS), (''needsApproval'', JBool False),
        (''allowPermissionless'', JBool True), (''tokenInProgram'', JPk (os_tokenInProgram s)), (''boss'', JPk b)])"
  proof -
    have c: "c = \<lparr>mc_method = ''makeOffer'', mc_args = [JNum FEE_BASIS_POINTS, JBool False, JBool True],
        mc_accounts = [(''tokenInMint'', JPk (os_tokenIn s)), (''tokenInProgram'', JPk (os_tokenInProgram s)),
          (''tokenOutMint'', JPk (os_tokenOut s)), (''boss'', JPk b)], mc_partial = q\<rparr> \<Longrightarrow>
        encodable c \<and> signed_by b c \<and> call_bytes c = 345" for c q
      by (rule makeOffer_sendable [of "JNum FEE_BASIS_POINTS"], simp add: FEE_BASIS_POINTS_def, assumption)
    show ?thesis
      unfolding buildMakeOfferIx_def Let_def token_program_of_def
      by (simp add: fld_def)
        (rule instruction_ok [OF assms], use c [OF refl] in simp, rule sendsI [OF c [OF refl]], simp add: account_def FEE_BASIS_POINTS_def)
  qed
  have numbers: "io_ok (\<lambda>v. v = JBN 1764374400) (new_BN E (JNum BASE_TIME))"
    "io_ok (\<lambda>v. v = JBN 1052345126) (new_BN E (JNum BASE_PRICE))" "io_ok (\<lambda>v. v = JBN 125332) (new_BN E (JNum APR))"
    "io_ok (\<lambda>v. v = JBN 86400) (new_BN E (JNum PRICE_FIX_DURATION))"
    using new_BN_ok [OF assms, of 1764374400] new_BN_ok [OF assms, of 1052345126] new_BN_ok [OF assms, of 125332]
      new_BN_ok [OF assms, of 86400]
    by (simp_all add: BASE_TIME_value BASE_PRICE_def APR_def PRICE_FIX_DURATION_def)
  have vector: "io_ok (sends info b 217 (AddOfferVector b (os_tokenIn s) (os_tokenOut s) None 1764374400 1052345126 125332 86400))
     (buildAddOfferVectorIx E [(''tokenInMint'', JPk (os_tokenIn s)), (''tokenOutMint'', JPk (os_tokenOut s)),
        (''baseTime'', JNum BASE_TIME), (''basePrice'', JNum BASE_PRICE), (''apr'', JNum APR),
        (''priceFixDuration'', JNum PRICE_FIX_DURATION), (''boss'', JPk b)])"
  proof -
    have c: "c = \<lparr>mc_method = ''addOfferVector'', mc_args = [JNull, JBN 1764374400, JBN 1052345126, JBN 125332, JBN 86400],
        mc_accounts = [(''tokenInMint'', JPk (os_tokenIn s)), (''tokenOutMint'', JPk (os_tokenOut s)), (''boss'', JPk b)],
        mc_partial = q\<rparr> \<Longrightarrow> encodable c \<and> signed_by b c \<and> call_bytes c = 217" for c q
      by (rule addOfferVector_sendable [of "JBN 1764374400" "JBN 1052345126" "JBN 125332" "JBN 86400"], simp, assumption)
    show ?thesis
      unfolding buildAddOfferVectorIx_def
      by (simp add: fld_def take_fields_def) (rule io_ok_bind [OF numbers(1)], rule io_ok_bind [OF numbers(2)],
          rule io_ok_bind [OF numbers(3)], rule io_ok_bind [OF numbers(4)], hypsubst, rule instruction_ok [OF assms], use c [OF refl] in simp,
          rule sendsI [OF c [OF refl]], simp add: account_def)
  qed
  show ?thesis
    unfolding offer_with_vector_ixs_def
    by (rule io_ok_bind [OF atas], rule io_ok_andThen [OF io_ok_log_line], rule io_ok_bind [OF offer],
        rule io_ok_andThen [OF io_ok_log_line], rule io_ok_bind [OF vector], rule io_ok_andThen [OF io_ok_log_line],
        rule io_ok_ret, unfold offer_ixs_def, intro exI conjI, rule refl) simp_all
qed

lemma offer_script_ok:
  assumes "working E" and "reads E st"
  shows "writes E (submits info (offer_instructions (boss st) s)) ''Make Offer with Vector Transaction'' (createMakeOfferWithVectorTransaction E s)"
proof -
  have conf: "io_ok (\<lambda>_. True) (print_offer_configuration s)"
    unfolding print_offer_configuration_def BASE_TIME_text lift_Inr
    by (intro io_ok_andThen ok_intros io_ok_bind [where S = "\<lambda>_. True"] TrueI)
  have body: "writes E (submits info (offer_instructions (boss st) s)) t
     (bind (prepareTransactionMultipleIxs E ixs (JPk (boss st))) (\<lambda>tx. andThen (tell_all es) (printTransaction E tx t)))"
    if "offer_ixs info (boss st) s ixs" for ixs es t
    by (rule prepare_writes [OF assms(1)], rule offer_ixs_send) (use that in simp_all)
  show ?thesis
    unfolding createMakeOfferWithVectorTransaction_def
    by (rule writes_bind [OF create_ok [OF assms(1)]], rule writes_andThen [OF conf], rule writes_bind [OF getBoss_ok [OF assms(2)]],
        assumption, hypsubst, rule writes_andThen [OF io_ok_log_key], rule writes_rethrow, rule writes_bind [OF offer_ixs_ok [OF assms(1)]],
        erule body)
qed

section \<open>The instructions on the chain\<close>

text \<open>The state account belongs to the closing boss, and the initialiser may upgrade the program.\<close>

definition closable :: "world \<Rightarrow> chain \<Rightarrow> bool" where
  "closable W c \<longleftrightarrow> (\<exists>s. state_acc c = Some s \<and> boss s = CLOSING_BOSS) \<and>
     lamports c CLOSING_BOSS + lamports c (state_pda (rt W)) < 2 ^ 64"

definition upgradable :: "world \<Rightarrow> account_info \<Rightarrow> account_info option \<Rightarrow> bool" where
  "upgradable W i d \<longleftrightarrow> info_key i = program_id (rt W) \<and> info_owner i = loader_id W \<and>
     (\<exists>j. d = Some j \<and> info_owner j = loader_id W \<and> info_key j = program_data_address W (info_key i) \<and>
        info_data j = ProgramData (Some INITIALIZER))"

lemma close_runs:
  assumes "closable W c"
  shows "\<exists>c'. execute W (CloseState (state_pda (rt W)) CLOSING_BOSS) c = Inr c' \<and> state_acc c' = None \<and>
    Chain_Core.mints (tok c') = Chain_Core.mints (tok c) \<and> offers c' = offers c"
  using assms by (auto simp: closable_def close_state_def checked_add_def)

lemma initialize_runs:
  assumes "upgradable W i d" and "state_acc c = None" and "Chain_Core.mints (tok c) m \<noteq> None"
  shows "\<exists>c'. execute W (Initialize INITIALIZER i d m) c = Inr c' \<and> state_acc c' = Some (new_State INITIALIZER m) \<and>
    tok c' = tok c \<and> offers c' = offers c"
  using assms by (auto simp: upgradable_def initialize_def get_upgrade_authority_def put_state_def)

lemma propose_runs:
  assumes "state_acc c = Some s"
  shows "\<exists>c'. execute W (ProposeBoss (boss s) NEW_BOSS) c = Inr c' \<and> state_acc c' = Some (s\<lparr>proposed_boss := NEW_BOSS\<rparr>) \<and>
    tok c' = tok c \<and> offers c' = offers c"
  using assms by (auto simp: propose_boss_def put_state_def)

lemma accept_runs:
  assumes "state_acc c = Some s" and "proposed_boss s = NEW_BOSS"
  shows "\<exists>c'. execute W (AcceptBoss NEW_BOSS) c = Inr c' \<and>
    state_acc c' = Some (s\<lparr>boss := NEW_BOSS, proposed_boss := PublicKey_default\<rparr>) \<and> tok c' = tok c \<and> offers c' = offers c"
  using assms by (auto simp: accept_boss_def put_state_def)

lemma new_State_handed_over:
  "(new_State INITIALIZER m)\<lparr>proposed_boss := NEW_BOSS, boss := NEW_BOSS, proposed_boss := PublicKey_default\<rparr> = new_State NEW_BOSS m"
  by (simp add: new_State_def)

text \<open>
  C24:
  The upgrade hands the program over. If each script runs on a working machine (the libraries behave as documented, a
  wallet can be resolved, the node answers) whose node has the state account of its time, the scripts 002 to 005 end with
  printing transactions of one instruction each, paid and signed by the same key; and these instructions, executed one
  after the other on a chain whose state belongs to the closing boss, where the initialiser may upgrade the program and
  the mint exists, succeed and leave a fresh state of the new boss, with the offers as they were.
\<close>

theorem upgrade_hands_over:
  assumes "list_all working [E2, E3, E4, E5]"
    and "findProgramAddress E2 [''state''] (programId (cfg E2)) = state_pda (rt W2)"
    and "info (programId (cfg E3)) = Some i"
    and "upgradable W3 i (info (findProgramAddress E3 [toBuffer E3 (programId (cfg E3))] BPF_LOADER_UPGRADEABLE))"
    and "m = onyc (NetworkConfig.mints (cfg E3))"
    and "reads E4 (new_State INITIALIZER m)" and "reads E5 ((new_State INITIALIZER m)\<lparr>proposed_boss := NEW_BOSS\<rparr>)"
    and "closable W2 c1" and "Chain_Core.mints (tok c1) m \<noteq> None"
  shows "\<exists>i2 i3 i4 i5 c2 c3 c4 c5.
    writes E2 (submits info [i2]) ''Close State Transaction'' (upgrade002 E2) \<and> execute W2 i2 c1 = Inr c2 \<and>
    writes E3 (submits info [i3]) ''Initialize Transaction'' (upgrade003 E3) \<and> execute W3 i3 c2 = Inr c3 \<and>
    writes E4 (submits info [i4]) ''Propose Boss Transaction'' (upgrade004 E4) \<and> execute W4 i4 c3 = Inr c4 \<and>
    writes E5 (submits info [i5]) ''Accept Boss Transaction'' (upgrade005 E5) \<and> execute W5 i5 c4 = Inr c5 \<and>
    state_acc c5 = Some (new_State NEW_BOSS m) \<and> offers c5 = offers c1"
proof -
  obtain c2 where c2: "execute W2 (CloseState (state_pda (rt W2)) CLOSING_BOSS) c1 = Inr c2" "state_acc c2 = None"
    "Chain_Core.mints (tok c2) = Chain_Core.mints (tok c1)" "offers c2 = offers c1" using close_runs [OF assms(8)] by blast
  obtain c3 where c3: "execute W3 (Initialize INITIALIZER i (info (findProgramAddress E3 [toBuffer E3 (programId (cfg E3))]
      BPF_LOADER_UPGRADEABLE)) m) c2 = Inr c3" "state_acc c3 = Some (new_State INITIALIZER m)" "offers c3 = offers c2"
    using initialize_runs [OF assms(4) c2(2), of m] assms(9) c2(3) by auto
  have b: "boss (new_State INITIALIZER m) = INITIALIZER" by (simp add: new_State_def)
  obtain c4 where c4: "execute W4 (ProposeBoss INITIALIZER NEW_BOSS) c3 = Inr c4"
    "state_acc c4 = Some ((new_State INITIALIZER m)\<lparr>proposed_boss := NEW_BOSS\<rparr>)" "offers c4 = offers c3"
    using propose_runs [OF c3(2), of W4] b by auto
  obtain c5 where c5: "execute W5 (AcceptBoss NEW_BOSS) c4 = Inr c5" "state_acc c5 = Some (new_State NEW_BOSS m)" "offers c5 = offers c4"
    using accept_runs [OF c4(2), of W5] new_State_handed_over by auto
  have w: "working E2" "working E3" "working E4" "working E5" using assms(1) by simp_all
  show ?thesis
  proof (intro exI conjI)
    show "writes E2 (submits info [CloseState (state_pda (rt W2)) CLOSING_BOSS]) ''Close State Transaction'' (upgrade002 E2)"
      using closing_script [OF w(1), of info] assms(2) by simp
    show "writes E4 (submits info [ProposeBoss INITIALIZER NEW_BOSS]) ''Propose Boss Transaction'' (upgrade004 E4)"
      using proposing_script [OF w(3) assms(6), of info] b by simp
    show "writes E5 (submits info [AcceptBoss NEW_BOSS]) ''Accept Boss Transaction'' (upgrade005 E5)"
      by (rule accepting_script [OF w(4) assms(7)]) simp
    show "writes E3 (submits info [Initialize INITIALIZER i
        (info (findProgramAddress E3 [toBuffer E3 (programId (cfg E3))] BPF_LOADER_UPGRADEABLE)) m]) ''Initialize Transaction'' (upgrade003 E3)"
      using initializing_script [OF w(2), of info i] assms(3,5) by simp
    show "execute W2 (CloseState (state_pda (rt W2)) CLOSING_BOSS) c1 = Inr c2" by (rule c2(1))
    show "execute W4 (ProposeBoss INITIALIZER NEW_BOSS) c3 = Inr c4" by (rule c4(1))
    show "execute W5 (AcceptBoss NEW_BOSS) c4 = Inr c5" by (rule c5(1))
  qed (use c2 c3 c4 c5 in simp_all)
qed

section \<open>The offers on the chain\<close>

definition first_vector :: "nat \<Rightarrow> OfferVector" where
  "first_vector t = \<lparr>start_time = max t 1764374400, base_time = 1764374400, base_price = 1052345126, apr = 125332,
     price_fix_duration = 86400\<rparr>"

definition new_offer :: "offer_script \<Rightarrow> Offer" where
  "new_offer s = set_permissionless True (set_approval False
     \<lparr>offer_token_in_mint = os_tokenIn s, offer_token_out_mint = os_tokenOut s,
      vectors = replicate MAX_VECTORS OfferVector_default, fee_basis_points = 0,
      needs_approval_flag = 0, allow_permissionless_flag = 0\<rparr>)"

lemma new_offer_sel [simp]:
  "vectors (new_offer s) = replicate MAX_VECTORS OfferVector_default" "fee_basis_points (new_offer s) = 0"
  "offer_token_in_mint (new_offer s) = os_tokenIn s" "offer_token_out_mint (new_offer s) = os_tokenOut s"
  by (simp_all add: new_offer_def set_permissionless_def set_approval_def)

lemma make_offer_runs:
  assumes "state_acc c = Some st" and "boss st = b" and "offers c (offer_pda R (os_tokenIn s) (os_tokenOut s)) = None"
    and "Chain_Core.mints (tok c) (os_tokenIn s) \<noteq> None" "Chain_Core.mints (tok c) (os_tokenOut s) \<noteq> None"
  shows "\<exists>c'. make_offer R b (os_tokenIn s) (os_tokenOut s) 0 False True c = Inr c' \<and> state_acc c' = state_acc c \<and> tok c' = tok c \<and>
    offers c' = (offers c)(offer_pda R (os_tokenIn s) (os_tokenOut s) \<mapsto> new_offer s)"
  using assms by (auto simp: make_offer_def put_offer_def new_offer_def Let_def)

lemma first_validate: "validate_inputs (max t 1764374400) 1764374400 1052345126 86400 t (new_offer s) = Inr ()"
  by (simp add: validate_inputs_def Let_def)

lemma first_clean: "clean_old_vectors (new_offer s) (first_vector t) t = Inr (new_offer s, [])"
proof -
  have "find_active_vector_at (new_offer s) t' = Inl (Custom ''OfferCoreError'' ''NoActiveVector'')" for t'
    by (simp add: find_active_vector_at_def)
  then show ?thesis
    by (auto simp: clean_old_vectors_def first_vector_def evicted_def checked_sub_def Let_def)
qed

lemma first_slot: "find_vector_index_by_start_time (new_offer s) 0 = Some 0"
  by (simp add: find_vector_index_by_start_time_def ten_slots)

lemma add_vector_runs:
  assumes "state_acc c = Some st" and "boss st = b" and "offers c (offer_pda R (os_tokenIn s) (os_tokenOut s)) = Some (new_offer s)"
  shows "\<exists>c'. add_offer_vector R b (os_tokenIn s) (os_tokenOut s) None 1764374400 1052345126 125332 86400 c = Inr c' \<and>
    state_acc c' = state_acc c \<and> tok c' = tok c \<and>
    offers c' = (offers c)(offer_pda R (os_tokenIn s) (os_tokenOut s) \<mapsto>
      new_offer s\<lparr>vectors := first_vector (now R) # replicate 9 OfferVector_default\<rparr>)"
  using assms first_validate [of "now R" s] first_clean [of s "now R"] first_slot [of s]
  by (auto simp: add_offer_vector_def put_offer_def first_vector_def ten_slots Let_def)

lemma only_active:
  assumes "start_time v \<noteq> 0" and "start_time v \<le> t"
  shows "find_active_vector_at (off\<lparr>vectors := v # replicate n OfferVector_default\<rparr>) t = Inr v"
  using assms by (simp add: find_active_vector_at_def)

lemma first_price:
  assumes "1764374400 \<le> t" and "t \<le> 4000000000"
  defines "e \<equiv> vector_time 1764374400 86400 t"
  shows "\<exists>p. calculate_step_price_at 125332 1052345126 1764374400 86400 t = Inr p \<and>
    int p = \<lfloor>1052345126 * (1 + 0.125332 * (real e / 31536000))\<rfloor> \<and> t - 1764374400 < e \<and> e \<le> t - 1764374400 + 86400"
proof -
  have e: "t - 1764374400 < e" "e \<le> t - 1764374400 + 86400"
    using vector_time_bounds [of 86400 1764374400 t] vector_time_bounds [of 86400 t 1764374400] by (simp_all add: e_def)
  with assms(2) have small: "e \<le> 2235712000" by simp
  then have "1052345126 * (1000000 * 31536000 + 125332 * e) \<le> 1052345126 * (1000000 * 31536000 + 125332 * 2235712000)"
    by (intro mult_le_mono add_le_mono) simp_all
  then have "1052345126 * (1000000 * 31536000 + 125332 * e) < 2 ^ 128" by simp
  moreover have "vector_price 125332 1052345126 e \<le> vector_price 125332 1052345126 2235712000"
    by (rule vector_price_mono [OF small])
  then have "vector_price 125332 1052345126 e < 2 ^ 64" by (simp add: vector_price_def)
  moreover have "e < 2 ^ 64" using small by simp
  ultimately have "calculate_step_price_at 125332 1052345126 1764374400 86400 t = Inr (vector_price 125332 1052345126 e)"
    using step_price_eq [of 86400 1764374400 t 125332 1052345126] assms(1,2) by (simp add: e_def)
  then show ?thesis using e vector_price_real [of 125332 1052345126 e] by simp
qed

text \<open>
  C25:
  The offers of the upgrade trade. On a working machine (the libraries behave as documented, a wallet can be resolved, the
  node answers) whose node has the state account of the chain, the scripts 006 and 007 end with printing one transaction
  of the boss that makes the offer and adds its vector; on a chain with that boss, both mints and no such offer it
  succeeds. The offer then has exactly one vector, which is active from the time of the transaction or from 29 November
  2025, whichever is later, and it is open to everybody without fee at 1.052345126 grown by 12.5332 percent of simple
  interest a year to the end of the day, up to the time 4000000000 (about seventy years).
\<close>

theorem upgrade_offers_trade:
  assumes "working E" and "reads E st" and "state_acc c = Some st"
    and "(s, script) \<in> {(usdc_offer E, upgrade006 E), (usdg_offer E, upgrade007 E)}"
    and "Chain_Core.mints (tok c) (os_tokenIn s) \<noteq> None" and "Chain_Core.mints (tok c) (os_tokenOut s) \<noteq> None"
    and "offers c (offer_pda (rt W) (os_tokenIn s) (os_tokenOut s)) = None"
  shows "\<exists>i j c' c'' off v.
    writes E (submits info [i, j]) ''Make Offer with Vector Transaction'' script \<and>
    execute W i c = Inr c' \<and> execute W j c' = Inr c'' \<and>
    offers c'' = (offers c)(offer_pda (rt W) (os_tokenIn s) (os_tokenOut s) \<mapsto> off) \<and>
    fee_basis_points off = 0 \<and> allow_permissionless off \<and> \<not> needs_approval off \<and>
    vectors off = v # replicate 9 OfferVector_default \<and> start_time v = max (now (rt W)) 1764374400 \<and>
    (\<forall>t. t < start_time v \<longrightarrow> (\<exists>x. find_active_vector_at off t = Inl x)) \<and>
    (\<forall>t. start_time v \<le> t \<and> t \<le> 4000000000 \<longrightarrow> (\<exists>p e. find_active_vector_at off t = Inr v \<and>
       calculate_step_price_at (apr v) (base_price v) (base_time v) (price_fix_duration v) t = Inr p \<and>
       int p = \<lfloor>1052345126 * (1 + 0.125332 * (real e / 31536000))\<rfloor> \<and>
       t - 1764374400 < e \<and> e \<le> t - 1764374400 + 86400))"
proof -
  let ?v = "first_vector (now (rt W))"
  let ?off = "new_offer s\<lparr>vectors := ?v # replicate 9 OfferVector_default\<rparr>"
  obtain c' where c': "execute W (MakeOffer (boss st) (os_tokenIn s) (os_tokenOut s) 0 False True) c = Inr c'"
    "state_acc c' = Some st" "offers c' = (offers c)(offer_pda (rt W) (os_tokenIn s) (os_tokenOut s) \<mapsto> new_offer s)"
    using make_offer_runs [OF assms(3) refl assms(7,5,6)] assms(3) by auto
  obtain c'' where c'': "execute W (AddOfferVector (boss st) (os_tokenIn s) (os_tokenOut s) None 1764374400 1052345126 125332 86400) c' = Inr c''"
    "offers c'' = (offers c)(offer_pda (rt W) (os_tokenIn s) (os_tokenOut s) \<mapsto> ?off)"
    using add_vector_runs [OF c'(2) refl, of "rt W" s] c'(3) by auto
  have price: "\<exists>p e. find_active_vector_at ?off t = Inr ?v \<and>
       calculate_step_price_at (apr ?v) (base_price ?v) (base_time ?v) (price_fix_duration ?v) t = Inr p \<and>
       int p = \<lfloor>1052345126 * (1 + 0.125332 * (real e / 31536000))\<rfloor> \<and>
       t - 1764374400 < e \<and> e \<le> t - 1764374400 + 86400" if "start_time ?v \<le> t" "t \<le> 4000000000" for t
  proof -
    have v: "find_active_vector_at ?off t = Inr ?v"
      by (rule only_active [OF _ that(1)]) (simp add: first_vector_def)
    have "1764374400 \<le> t" using that(1) by (simp add: first_vector_def)
    from first_price [OF this that(2)] v show ?thesis by (auto simp: first_vector_def)
  qed
  have before: "\<exists>x. find_active_vector_at ?off t = Inl x" if "t < start_time ?v" for t
    using that by (simp add: find_active_vector_at_def)
  have printed: "writes E (submits info [MakeOffer (boss st) (os_tokenIn s) (os_tokenOut s) 0 False True,
        AddOfferVector (boss st) (os_tokenIn s) (os_tokenOut s) None 1764374400 1052345126 125332 86400])
        ''Make Offer with Vector Transaction'' script"
    using offer_script_ok [OF assms(1,2), of info s, THEN writes_report] assms(4)
    by (auto simp: offer_instructions_def upgrade006_def upgrade007_def)
  show ?thesis
    by (rule exI, rule exI, rule exI [of _ c'], rule exI [of _ c''], rule exI [of _ ?off], rule exI [of _ ?v],
        intro conjI, rule printed, rule c'(1), rule c''(1), rule c''(2))
      (use price before in \<open>auto simp: new_offer_def set_permissionless_def set_approval_def allow_permissionless_def
        needs_approval_def first_vector_def\<close>)
qed

section \<open>A concrete upgrade\<close>

text \<open>The client of \<open>checking_demo\<close> checks the accounts of its calls, and works.\<close>

lemma checking_works:
  assumes "E = checking_demo\<lparr>rpcState := f, findProgramAddress := g\<rparr>"
  shows "working E"
proof -
  have "io_ok (\<lambda>_. True) (resolve_wallet E None)"
    by (rule wallet_ok) (simp_all add: assms checking_demo_def demo_def)
  moreover have "instructionError E c = None" if "encodable c" for c
    using that by (auto simp: assms encodable_def checking_demo_def)
  moreover have "rpcAccountInfo E tr k = Inr True" for tr k
    by (simp add: assms checking_demo_def demo_def)
  then have "\<exists>b. rpcAccountInfo E tr k = Inr b" for tr k by blast
  ultimately show ?thesis
    unfolding working_def by (simp add: assms checking_demo_def demo_def demo_cfg_def demo_newBN_def)
qed

lemma checking_works_plain: "working checking_demo"
  by (rule checking_works [where f = "rpcState checking_demo" and g = "findProgramAddress checking_demo"]) simp

lemma extended_key: "PublicKey (toBase58 k @ t) = k \<longleftrightarrow> t = []"
  by (cases k) simp

definition fresh_chain :: "State \<Rightarrow> chain" where
  "fresh_chain s = put_state s (empty_chain \<lparr>mints = (\<lambda>m. Some \<lparr>mint_authority = None, mint_supply = 0, decimals = 9, transfer_fee = None\<rparr>),
     balance = (\<lambda>a m. 0)\<rparr> (\<lambda>_. 0))"

lemma fresh_chain_sel [simp]:
  "state_acc (fresh_chain s) = Some s" "offers (fresh_chain s) = (\<lambda>_. None)" "lamports (fresh_chain s) = (\<lambda>_. 0)"
  "Chain_Core.mints (tok (fresh_chain s)) m \<noteq> None"
  by (simp_all add: fresh_chain_def put_state_def empty_chain_def)

lemma checking_reads:
  "st_boss a = boss s \<Longrightarrow> st_proposedBoss a = proposed_boss s \<Longrightarrow> reads (checking_demo\<lparr>rpcState := \<lambda>tr k. Inr a\<rparr>) s"
  by (simp add: reads_def)

theorem acceptance_is_printed_when_possible_witness:
  "\<exists>h tr1. create checking_demo None [] = (Inr h, tr1) \<and>
     upgrade005 checking_demo [] = (Inr (), tr1 @ mismatch_report h (new_State demo_boss MOCK_ONYC_DEVNET))"
proof -
  let ?s = "new_State demo_boss MOCK_ONYC_DEVNET"
  have r: "reads checking_demo ?s" by (simp add: reads_def new_State_def Demo_Env.demo_state_def checking_demo_def)
  have "execute (demo_world 0) (AcceptBoss NEW_BOSS) (fresh_chain ?s) = Inl (Custom ''AcceptBossErrorCode'' ''NoBossProposal'')"
    by (simp add: accept_boss_def with_state_def new_State_def)
  then show ?thesis
    using acceptance_is_printed_when_possible [OF checking_works_plain r fresh_chain_sel(1), of "demo_world 0" "\<lambda>_. None" "[]"] by simp
qed

theorem upgrade_offers_trade_witness:
  "checks_accounts checking_demo \<and> (\<exists>i j c' c''.
    writes checking_demo (submits (\<lambda>_. None) [i, j]) ''Make Offer with Vector Transaction'' (upgrade007 checking_demo) \<and>
    execute (demo_world 0) i (fresh_chain (new_State demo_boss MOCK_ONYC_DEVNET)) = Inr c' \<and>
    execute (demo_world 0) j c' = Inr c'')"
proof
  show "checks_accounts checking_demo" by (simp add: checks_accounts_def checking_demo_def)
  have r: "reads checking_demo (new_State demo_boss MOCK_ONYC_DEVNET)"
    by (simp add: reads_def new_State_def Demo_Env.demo_state_def checking_demo_def)
  show "\<exists>i j c' c''.
    writes checking_demo (submits (\<lambda>_. None) [i, j]) ''Make Offer with Vector Transaction'' (upgrade007 checking_demo) \<and>
    execute (demo_world 0) i (fresh_chain (new_State demo_boss MOCK_ONYC_DEVNET)) = Inr c' \<and>
    execute (demo_world 0) j c' = Inr c''"
    using upgrade_offers_trade [OF checking_works_plain r, of "fresh_chain (new_State demo_boss MOCK_ONYC_DEVNET)"
        "usdg_offer checking_demo" "upgrade007 checking_demo" "demo_world 0" "\<lambda>_. None"] by auto
qed

definition demo_info :: "pubkey \<Rightarrow> account_info option" where
  "demo_info k = Some (if k = TEST_PROGRAM_ID
     then \<lparr>info_key = PublicKey ''onre'', info_owner = PublicKey ''loader'', info_data = Undecodable\<rparr>
     else \<lparr>info_key = PublicKey ''data'', info_owner = PublicKey ''loader'', info_data = ProgramData (Some INITIALIZER)\<rparr>)"

text \<open>What the node answers before the acceptance.\<close>

definition proposed_demo :: env where
  "proposed_demo = checking_demo\<lparr>rpcState := \<lambda>tr k. Inr (Demo_Env.demo_state\<lparr>st_boss := INITIALIZER, st_proposedBoss := NEW_BOSS\<rparr>)\<rparr>"

theorem upgrade_hands_over_witness:
  "\<exists>i5 c4 c5. writes proposed_demo (submits demo_info [i5]) ''Accept Boss Transaction'' (upgrade005 proposed_demo) \<and>
    execute (demo_world 0) i5 c4 = Inr c5 \<and> state_acc c5 = Some (new_State NEW_BOSS MOCK_ONYC_DEVNET)"
proof -
  let ?E = "checking_demo"
  let ?E2 = "?E\<lparr>findProgramAddress := \<lambda>s p. state_pda (demo_rt 0)\<rparr>"
  let ?E4 = "?E\<lparr>rpcState := \<lambda>tr k. Inr (Demo_Env.demo_state\<lparr>st_boss := INITIALIZER\<rparr>)\<rparr>"
  have "working ?E2" by (rule checking_works [where f = "rpcState ?E" and g = "\<lambda>s p. state_pda (demo_rt 0)"]) simp
  moreover have "working ?E4"
    by (rule checking_works [where f = "\<lambda>tr k. Inr (Demo_Env.demo_state\<lparr>st_boss := INITIALIZER\<rparr>)" and g = "findProgramAddress ?E"]) simp
  moreover have "working proposed_demo"
    by (rule checking_works [where f = "rpcState proposed_demo" and g = "findProgramAddress ?E"]) (simp add: proposed_demo_def)
  ultimately have w: "list_all working [?E2, ?E, ?E4, proposed_demo]" by (simp add: checking_works_plain)
  have cfg: "cfg ?E = demo_cfg" by (simp add: checking_demo_def)
  have p: "programId (cfg ?E) = TEST_PROGRAM_ID" "MOCK_ONYC_DEVNET = onyc (NetworkConfig.mints (cfg ?E))"
    by (simp_all add: cfg demo_cfg_def)
  have u: "upgradable (demo_world 0) \<lparr>info_key = PublicKey ''onre'', info_owner = PublicKey ''loader'', info_data = Undecodable\<rparr>
      (demo_info (findProgramAddress ?E [toBuffer ?E (programId (cfg ?E))] BPF_LOADER_UPGRADEABLE))"
  proof -
    have "findProgramAddress ?E [toBuffer ?E (programId (cfg ?E))] BPF_LOADER_UPGRADEABLE =
        PublicKey (toBase58 TEST_PROGRAM_ID @ toBase58 BPF_LOADER_UPGRADEABLE)"
      unfolding p(1) by (simp add: checking_demo_def demo_def)
    then show ?thesis by (simp add: upgradable_def demo_info_def extended_key BPF_LOADER_UPGRADEABLE_def)
  qed
  have r: "reads ?E4 (new_State INITIALIZER MOCK_ONYC_DEVNET)"
    "reads proposed_demo ((new_State INITIALIZER MOCK_ONYC_DEVNET)\<lparr>proposed_boss := NEW_BOSS\<rparr>)"
    unfolding proposed_demo_def by (rule checking_reads; simp add: new_State_def Demo_Env.demo_state_def)+
  have c: "closable (demo_world 0) (fresh_chain (new_State CLOSING_BOSS MOCK_ONYC_DEVNET))"
    by (simp add: closable_def new_State_def)
  have a: "findProgramAddress ?E2 [''state''] (programId (cfg ?E2)) = state_pda (rt (demo_world 0))"
    "demo_info (programId (cfg ?E)) = Some \<lparr>info_key = PublicKey ''onre'', info_owner = PublicKey ''loader'', info_data = Undecodable\<rparr>"
    by (simp_all add: demo_info_def p(1))
  show ?thesis
    using upgrade_hands_over [OF w a(1) a(2) u p(2) r c fresh_chain_sel(4), where ?W4.0 = "demo_world 0" and ?W5.0 = "demo_world 0"]
    by (elim exE conjE) (intro exI conjI; assumption)
qed

end
