(* ===== verification/Meaning_Props.thy ===== *)
theory Meaning_Props
  imports Command_Props Script_Upgrade_Props
begin

text \<open>
  From the command line to the chain: what the transactions of the commands stand for as instructions of the program.
  \<open>decode_call\<close> reads the call that Anchor encodes; the meaning of a command gives the instruction from its parameters
  and the boss on record; the two agree for every transaction that a command of the boss sends.
\<close>

section \<open>Calls as instructions\<close>

definition key_arg :: "mcall \<Rightarrow> (pubkey \<Rightarrow> instruction) \<Rightarrow> instruction option" where
  "key_arg c k = (case mc_args c of [JPk p] \<Rightarrow> Some (k p) | _ \<Rightarrow> None)"

definition num_arg :: "nat \<Rightarrow> mcall \<Rightarrow> (nat \<Rightarrow> instruction) \<Rightarrow> instruction option" where
  "num_arg w c k = (case mc_args c of [v] \<Rightarrow> map_option k (unsigned w v) | _ \<Rightarrow> None)"

definition pair_accounts :: "mcall \<Rightarrow> (pubkey \<Rightarrow> pubkey \<Rightarrow> pubkey \<Rightarrow> instruction option) \<Rightarrow> instruction option" where
  "pair_accounts c k = account c ''boss'' (\<lambda>b. account c ''tokenInMint'' (\<lambda>i. account c ''tokenOutMint'' (\<lambda>ot. k b i ot)))"

definition vault_call :: "mcall \<Rightarrow> (pubkey \<Rightarrow> pubkey \<Rightarrow> nat \<Rightarrow> instruction) \<Rightarrow> instruction option" where
  "vault_call c k = account c ''boss'' (\<lambda>b. account c ''tokenMint'' (\<lambda>m. num_arg 64 c (k b m)))"

definition call_table :: "(string \<times> (mcall \<Rightarrow> instruction option)) list" where
  "call_table =
    [(''addAdmin'', \<lambda>c. account c ''boss'' (\<lambda>b. key_arg c (AddAdmin b))),
     (''removeAdmin'', \<lambda>c. account c ''boss'' (\<lambda>b. key_arg c (RemoveAdmin b))),
     (''clearAdmins'', \<lambda>c. account c ''boss'' (\<lambda>b. Some (ClearAdmins b))),
     (''addApprover'', \<lambda>c. account c ''boss'' (\<lambda>b. key_arg c (AddApprover b))),
     (''removeApprover'', \<lambda>c. account c ''boss'' (\<lambda>b. key_arg c (RemoveApprover b))),
     (''setOnycMint'', \<lambda>c. account c ''boss'' (\<lambda>b. account c ''onycMint'' (\<lambda>m. Some (SetOnycMint b m)))),
     (''configureMaxSupply'', \<lambda>c. account c ''boss'' (\<lambda>b. num_arg 64 c (ConfigureMaxSupply b))),
     (''setRedemptionAdmin'', \<lambda>c. account c ''boss'' (\<lambda>b. key_arg c (SetRedemptionAdmin b))),
     (''setKillSwitch'', \<lambda>c. account c ''signer'' (\<lambda>b. case mc_args c of [JBool e] \<Rightarrow> Some (SetKillSwitch b e) | _ \<Rightarrow> None)),
     (''deleteOfferVector'', \<lambda>c. pair_accounts c (\<lambda>b i ot. num_arg 64 c (DeleteOfferVector b i ot))),
     (''deleteAllOfferVectors'', \<lambda>c. pair_accounts c (\<lambda>b i ot. Some (DeleteAllOfferVectors b i ot))),
     (''updateOfferFee'', \<lambda>c. pair_accounts c (\<lambda>b i ot. num_arg 16 c (UpdateOfferFee b i ot))),
     (''offerVaultDeposit'', \<lambda>c. vault_call c OfferVaultDeposit),
     (''offerVaultWithdraw'', \<lambda>c. vault_call c OfferVaultWithdraw),
     (''redemptionVaultDeposit'', \<lambda>c. vault_call c RedemptionVaultDeposit),
     (''redemptionVaultWithdraw'', \<lambda>c. vault_call c RedemptionVaultWithdraw),
     (''makeRedemptionOffer'', \<lambda>c. account c ''signer'' (\<lambda>b. account c ''tokenInMint'' (\<lambda>i. account c ''tokenOutMint'' (\<lambda>ot.
        num_arg 16 c (MakeRedemptionOffer b i ot))))),
     (''updateRedemptionOfferFee'', \<lambda>c. account c ''boss'' (\<lambda>b. account c ''redemptionOffer'' (\<lambda>a.
        num_arg 16 c (UpdateRedemptionOfferFee b a)))),
     (''initializePermissionlessAuthority'', \<lambda>c. account c ''boss'' (\<lambda>b.
        case mc_args c of [JStr s] \<Rightarrow> Some (InitializePermissionlessAuthority b s) | _ \<Rightarrow> None)),
     (''transferMintAuthorityToBoss'', \<lambda>c. account c ''boss'' (\<lambda>b. account c ''mint'' (\<lambda>m. Some (TransferMintAuthorityToBoss b m))))]"

text \<open>The other methods are those of the upgrade.\<close>

definition decode_call :: "mcall \<Rightarrow> instruction option" where
  "decode_call c = (case map_of call_table (mc_method c) of Some d \<Rightarrow> d c | None \<Rightarrow> decode (\<lambda>_. None) (AnchorIx c))"

section \<open>Commands as instructions\<close>

type_synonym meaning = "env \<Rightarrow> jsobj \<Rightarrow> pubkey \<Rightarrow> instruction option"

definition key_of :: "jsobj \<Rightarrow> string \<Rightarrow> (pubkey \<Rightarrow> instruction option) \<Rightarrow> instruction option" where
  "key_of r n k = (case fld r n of JPk p \<Rightarrow> k p | _ \<Rightarrow> None)"

text \<open>A parameter that the builder makes a \<open>BN\<close>, as \<open>u64\<close>.\<close>

definition u64_of :: "env \<Rightarrow> jsobj \<Rightarrow> string \<Rightarrow> (nat \<Rightarrow> instruction option) \<Rightarrow> instruction option" where
  "u64_of E r n k = (case newBN E (fld r n) of Inr i \<Rightarrow> Option.bind (unsigned 64 (JBN i)) k | Inl _ \<Rightarrow> None)"

definition u16_of :: "jsval \<Rightarrow> (nat \<Rightarrow> instruction) \<Rightarrow> instruction option" where
  "u16_of v k = map_option k (unsigned 16 v)"

definition pair_of :: "jsobj \<Rightarrow> (pubkey \<Rightarrow> pubkey \<Rightarrow> instruction option) \<Rightarrow> instruction option" where
  "pair_of r k = key_of r ''tokenIn'' (\<lambda>i. key_of r ''tokenOut'' (k i))"

definition vault_of :: "(pubkey \<Rightarrow> pubkey \<Rightarrow> nat \<Rightarrow> instruction) \<Rightarrow> meaning" where
  "vault_of k E r b = key_of r ''tokenMint'' (\<lambda>m. u64_of E r ''amount'' (\<lambda>n. Some (k b m n)))"

definition redemption_offer_of :: "env \<Rightarrow> jsobj \<Rightarrow> pubkey option" where
  "redemption_offer_of E r = (case (fld r ''tokenIn'', fld r ''tokenOut'') of
     (JPk i, JPk ot) \<Rightarrow> Some (findProgramAddress E [''redemption_offer'', toBuffer E i, toBuffer E ot] (programId (cfg E)))
   | _ \<Rightarrow> None)"

definition offer_of :: "env \<Rightarrow> jsobj \<Rightarrow> pubkey \<Rightarrow> pubkey \<Rightarrow> pubkey \<Rightarrow> instruction option" where
  "offer_of E r b i ot = (case nullish (fld r ''needsApproval'') (JBool False) of
     JBool needs \<Rightarrow> (case nullish (fld r ''permissionless'') (JBool False) of
       JBool allow \<Rightarrow> u16_of (nullish (fld r ''fee'') (jnum 0)) (\<lambda>f. MakeOffer b i ot f needs allow)
     | _ \<Rightarrow> None)
   | _ \<Rightarrow> None)"

lemmas meaning_defs = offer_of_def key_of_def u64_of_def u16_of_def pair_of_def vault_of_def redemption_offer_of_def

text \<open>The commands of the boss with their parameters and meanings.\<close>

definition boss_meanings :: "((env \<Rightarrow> jsobj \<Rightarrow> unit io) \<times> ParamDefinition list \<times> meaning) list" where
  "boss_meanings =
    [(executeStateProposeBoss, proposeBossParams, \<lambda>E r b. key_of r ''newBoss'' (\<lambda>k. Some (ProposeBoss b k))),
     (executeStateAddAdmin, adminParams, \<lambda>E r b. key_of r ''admin'' (\<lambda>k. Some (AddAdmin b k))),
     (executeStateRemoveAdmin, adminParams, \<lambda>E r b. key_of r ''admin'' (\<lambda>k. Some (RemoveAdmin b k))),
     (executeStateClearAdmins, [], \<lambda>E r b. Some (ClearAdmins b)),
     (executeStateAddApprover, approverParams, \<lambda>E r b. key_of r ''approver'' (\<lambda>k. Some (AddApprover b k))),
     (executeStateRemoveApprover, approverParams, \<lambda>E r b. key_of r ''approver'' (\<lambda>k. Some (RemoveApprover b k))),
     (executeStateSetOnycMint, setOnycMintParams, \<lambda>E r b. key_of r ''mint'' (\<lambda>m. Some (SetOnycMint b m))),
     (executeStateMaxSupply, maxSupplyParams, \<lambda>E r b. u64_of E r ''amount'' (\<lambda>n. Some (ConfigureMaxSupply b n))),
     (executeStateSetRedemptionAdmin, redemptionAdminParams,
        \<lambda>E r b. key_of r ''redemptionAdmin'' (\<lambda>k. Some (SetRedemptionAdmin b k))),
     (executeStateKillSwitch, [], \<lambda>E r b. Some (SetKillSwitch b True)),
     (executeStateClose, [], \<lambda>E r b. Some (CloseState (findProgramAddress E [''state''] (programId (cfg E))) b)),
     (executeOfferMake, makeOfferParams, \<lambda>E r b. pair_of r (\<lambda>i ot.
        offer_of E r b i ot)),
     (executeOfferAddVector, addVectorParams, \<lambda>E r b. pair_of r (\<lambda>i ot. u64_of E r ''baseTime'' (\<lambda>t. u64_of E r ''basePrice'' (\<lambda>p.
        u64_of E r ''apr'' (\<lambda>a. u64_of E r ''duration'' (\<lambda>d. Some (AddOfferVector b i ot None t p a d))))))),
     (executeOfferDeleteVector, deleteVectorParams,
        \<lambda>E r b. pair_of r (\<lambda>i ot. u64_of E r ''startTime'' (\<lambda>t. Some (DeleteOfferVector b i ot t)))),
     (executeOfferDeleteAllVectors, tokenPairParams, \<lambda>E r b. pair_of r (\<lambda>i ot. Some (DeleteAllOfferVectors b i ot))),
     (executeOfferUpdateFee, updateFeeParams, \<lambda>E r b. pair_of r (\<lambda>i ot. u16_of (fld r ''fee'') (UpdateOfferFee b i ot))),
     (executeVaultDeposit, vaultParams, vault_of OfferVaultDeposit),
     (executeVaultWithdraw, vaultParams, vault_of OfferVaultWithdraw),
     (executeVaultRedemptionDeposit, vaultParams, vault_of RedemptionVaultDeposit),
     (executeVaultRedemptionWithdraw, vaultParams, vault_of RedemptionVaultWithdraw),
     (executeRedemptionMakeOffer, redemptionOfferParams,
        \<lambda>E r b. pair_of r (\<lambda>i ot. u16_of (fld r ''fee'') (MakeRedemptionOffer b i ot))),
     (executeRedemptionUpdateFee, updateRedemptionFeeParams,
        \<lambda>E r b. Option.bind (redemption_offer_of E r) (\<lambda>a. u16_of (fld r ''fee'') (UpdateRedemptionOfferFee b a))),
     (executeInitPermissionless, initPermissionlessParams,
        \<lambda>E r b. case fld r ''name'' of JStr s \<Rightarrow> Some (InitializePermissionlessAuthority b s) | _ \<Rightarrow> None),
     (executeMintAuthorityToBoss, mintParams, \<lambda>E r b. key_of r ''mint'' (\<lambda>m. Some (TransferMintAuthorityToBoss b m))),
     (executeMintAuthorityToProgram, transferMintAuthorityParams,
        \<lambda>E r b. key_of r ''mint'' (\<lambda>m. Some (TransferMintAuthorityToProgram b m)))]"

text \<open>The parameters that a command may be given, by its options or by the answers of the user.\<close>

definition given :: "env \<Rightarrow> ParamDefinition list \<Rightarrow> jsobj \<Rightarrow> jsobj \<Rightarrow> bool" where
  "given E ps opts r \<longleftrightarrow> (\<exists>tr tr'. promptForParams E ps opts (fld opts ''noInteractive'') tr = (Inr r, tr'))"

text \<open>A transaction, paid by the boss, with the one call that means what the parameters say, after created accounts.\<close>

definition carries :: "env \<Rightarrow> state_account \<Rightarrow> ParamDefinition list \<Rightarrow> jsobj \<Rightarrow> meaning \<Rightarrow> transaction \<Rightarrow> bool" where
  "carries E st ps opts mean tx \<longleftrightarrow> feePayer tx = JPk (st_boss st) \<and> (\<exists>accounts c r. tx_ixs tx = accounts @ [AnchorIx c] \<and>
     (\<forall>ix\<in>set accounts. \<exists>ow. creates_account_of ow ix) \<and> given E ps opts r \<and> decode_call c = mean E r (st_boss st))"

section \<open>Rules\<close>

lemma helper_result: "io_res (helper_of E) (create E None)"
proof -
  have prog: "PublicKey (getIdlWithProgramId E) = programId (cfg E)"
    by (cases "programId (cfg E)") (simp add: getIdlWithProgramId_def)
  have new: "helper_of E (new_ScriptHelper E (programId (cfg E)) w src)" for w src
    unfolding helper_of_def by blast
  show ?thesis
    unfolding create_def prog
    by (cases "connectionError E (rpcUrl (cfg E))") (auto intro!: io_res_bind io_res_andThen io_res_ret io_res_throw new)
qed

lemma given_result: "io_res (given E ps opts) (promptForParams E ps opts (fld opts ''noInteractive''))"
  unfolding given_def io_res_def by blast

lemma execute_given:
  assumes "\<And>helper params. helper_of E helper \<Longrightarrow> given E ps opts params \<Longrightarrow> contract (shows_only opts) Q (handler helper params)"
  shows "contract (shows_only opts) Q (executeCommand E opts ps handler)"
proof -
  have hands: "io_all hands_off (create E w)" "io_all hands_off (promptForParams E ps vs b)"
    "io_all hands_off (do_when d (printNetworkBanner c))" for w vs b d c
    by (intro io_intros)+
  have run: "contract (shows_only opts) Q (bind (promptForParams E ps opts (fld opts ''noInteractive'')) (handler helper))"
    if "helper_of E helper" for helper
    by (rule command.contract_bind_res [OF contract_hands_off [OF hands(2)] given_result]) (rule assms [OF that])
  have main: "contract (shows_only opts) Q (bind (create E None) (\<lambda>helper.
          bind (promptForParams E ps opts (fld opts ''noInteractive'')) (\<lambda>params. handler helper params)))"
    by (rule command.contract_bind_res [OF contract_hands_off [OF hands(1)] helper_result]) (rule run)
  show ?thesis
    unfolding executeCommand_def
    by (intro command.contract_try_catch command.contract_andThen main
        contract_hands_off hands command.contract_throw io_all_tell) simp
qed

lemma boss_known: "stable_state E st \<Longrightarrow> io_res (\<lambda>v. v = JPk (st_boss st)) (getBoss E h)"
  using getBoss_is_boss [of E h] by (rule io_res_mono) (auto simp: is_boss_def)

text \<open>What a builder must return.\<close>

definition calls :: "env \<Rightarrow> state_account \<Rightarrow> meaning \<Rightarrow> jsobj \<Rightarrow> tx_ix list \<Rightarrow> bool" where
  "calls E st mean r ixs \<longleftrightarrow> (\<exists>accounts c. ixs = accounts @ [AnchorIx c] \<and>
     (\<forall>ix\<in>set accounts. \<exists>ow. creates_account_of ow ix) \<and> decode_call c = mean E r (st_boss st))"

lemma carriesI: "feePayer tx = JPk (st_boss st) \<Longrightarrow> calls E st mean r (tx_ixs tx) \<Longrightarrow> given E ps opts r \<Longrightarrow> carries E st ps opts mean tx"
  unfolding carries_def calls_def by blast

lemma meaning_contract:
  assumes "stable_state E st" and "given E ps opts r"
    and "\<And>h ps. io_all hands_off (bo_buildIx os h ps)" and "bo_payer os = JUndefined"
    and "io_res (calls E st mean r) (bo_buildIx os helper params)"
  shows "contract (shows_only opts) (carries E st ps opts mean) (buildAndHandleTransaction E helper params opts os)"
  by (rule build_contract [where R = "calls E st mean r" and PP = "\<lambda>v. v = JPk (st_boss st)", OF assms(3,5)])
    (use assms in \<open>simp_all add: boss_known carriesI\<close>)

text \<open>The result of a builder, step by step.\<close>

lemma calls_instruction:
  "decode_call \<lparr>mc_method = m, mc_args = args, mc_accounts = acs, mc_partial = p\<rparr> = mean E r (st_boss st) \<Longrightarrow>
     io_res (calls E st mean r) (one_ix (instruction E p m args acs))"
  unfolding one_ix_def calls_def
  by (rule io_res_bind2 [OF instruction_result]) (auto intro!: io_res_ret exI [of _ "[]"])

lemma calls_BN:
  "(\<And>n. newBN E x = Inr n \<Longrightarrow> io_res R (one_ix (f (JBN n)))) \<Longrightarrow> io_res R (one_ix (bind (new_BN E x) f))"
  unfolding one_ix_def new_BN_def
  by (cases "newBN E x") (auto simp: io_res_def bind_def lift_def ret_def)

lemma result_lift: "(\<And>x. v = Inr x \<Longrightarrow> io_res R (f x)) \<Longrightarrow> io_res R (bind (lift v) f)"
  by (cases v) (auto simp: io_res_def bind_def lift_def)

lemma result_boss: "stable_state E st \<Longrightarrow> io_res R (f (JPk (st_boss st))) \<Longrightarrow> io_res R (bind (getBoss E h) f)"
  by (erule io_res_bind2 [OF boss_known]) hypsubst

lemma call_table_find [simp]:
  "map_of call_table ''addAdmin'' = Some (\<lambda>c. account c ''boss'' (\<lambda>b. key_arg c (AddAdmin b)))"
  "map_of call_table ''removeAdmin'' = Some (\<lambda>c. account c ''boss'' (\<lambda>b. key_arg c (RemoveAdmin b)))"
  "map_of call_table ''clearAdmins'' = Some (\<lambda>c. account c ''boss'' (\<lambda>b. Some (ClearAdmins b)))"
  "map_of call_table ''addApprover'' = Some (\<lambda>c. account c ''boss'' (\<lambda>b. key_arg c (AddApprover b)))"
  "map_of call_table ''removeApprover'' = Some (\<lambda>c. account c ''boss'' (\<lambda>b. key_arg c (RemoveApprover b)))"
  "map_of call_table ''setOnycMint'' = Some (\<lambda>c. account c ''boss'' (\<lambda>b. account c ''onycMint'' (\<lambda>m. Some (SetOnycMint b m))))"
  "map_of call_table ''configureMaxSupply'' = Some (\<lambda>c. account c ''boss'' (\<lambda>b. num_arg 64 c (ConfigureMaxSupply b)))"
  "map_of call_table ''setRedemptionAdmin'' = Some (\<lambda>c. account c ''boss'' (\<lambda>b. key_arg c (SetRedemptionAdmin b)))"
  "map_of call_table ''setKillSwitch'' = Some (\<lambda>c. account c ''signer'' (\<lambda>b. case mc_args c of [JBool e] \<Rightarrow> Some (SetKillSwitch b e) | _ \<Rightarrow> None))"
  "map_of call_table ''deleteOfferVector'' = Some (\<lambda>c. pair_accounts c (\<lambda>b i ot. num_arg 64 c (DeleteOfferVector b i ot)))"
  "map_of call_table ''deleteAllOfferVectors'' = Some (\<lambda>c. pair_accounts c (\<lambda>b i ot. Some (DeleteAllOfferVectors b i ot)))"
  "map_of call_table ''updateOfferFee'' = Some (\<lambda>c. pair_accounts c (\<lambda>b i ot. num_arg 16 c (UpdateOfferFee b i ot)))"
  "map_of call_table ''offerVaultDeposit'' = Some (\<lambda>c. vault_call c OfferVaultDeposit)"
  "map_of call_table ''offerVaultWithdraw'' = Some (\<lambda>c. vault_call c OfferVaultWithdraw)"
  "map_of call_table ''redemptionVaultDeposit'' = Some (\<lambda>c. vault_call c RedemptionVaultDeposit)"
  "map_of call_table ''redemptionVaultWithdraw'' = Some (\<lambda>c. vault_call c RedemptionVaultWithdraw)"
  "map_of call_table ''makeRedemptionOffer'' = Some (\<lambda>c. account c ''signer'' (\<lambda>b. account c ''tokenInMint'' (\<lambda>i. account c ''tokenOutMint'' (\<lambda>ot. num_arg 16 c (MakeRedemptionOffer b i ot)))))"
  "map_of call_table ''updateRedemptionOfferFee'' = Some (\<lambda>c. account c ''boss'' (\<lambda>b. account c ''redemptionOffer'' (\<lambda>a. num_arg 16 c (UpdateRedemptionOfferFee b a))))"
  "map_of call_table ''initializePermissionlessAuthority'' = Some (\<lambda>c. account c ''boss'' (\<lambda>b. case mc_args c of [JStr s] \<Rightarrow> Some (InitializePermissionlessAuthority b s) | _ \<Rightarrow> None))"
  "map_of call_table ''transferMintAuthorityToBoss'' = Some (\<lambda>c. account c ''boss'' (\<lambda>b. account c ''mint'' (\<lambda>m. Some (TransferMintAuthorityToBoss b m))))"
  "map_of call_table ''proposeBoss'' = None"
  "map_of call_table ''acceptBoss'' = None"
  "map_of call_table ''closeState'' = None"
  "map_of call_table ''initialize'' = None"
  "map_of call_table ''makeOffer'' = None"
  "map_of call_table ''addOfferVector'' = None"
  "map_of call_table ''transferMintAuthorityToProgram'' = None"
  by (simp_all add: call_table_def)

lemmas meaning_rules = command.contract_bind contract_hands_off [OF hands_off_key_text] contract_hands_off [OF hands_off_iso_seconds]
  contract_hands_off [OF io_all_lift] meaning_contract

lemmas meaning_steps = io_intros result_boss result_lift calls_instruction calls_BN

lemmas meaning_simps = builder_defs take_fields_def fld_def decode_call_def account_def key_arg_def num_arg_def pair_accounts_def
  vault_call_def meaning_defs

section \<open>The state\<close>

lemma ProposeBoss_meaning:
  "stable_state E st \<Longrightarrow> contract (shows_only opts) (carries E st proposeBossParams opts
    (\<lambda>E r b. key_of r ''newBoss'' (\<lambda>k. Some (ProposeBoss b k)))) (executeStateProposeBoss E opts)"
  unfolding executeStateProposeBoss_def
  by (intro execute_given meaning_rules; (assumption | simp add: meaning_simps; (intro meaning_steps | assumption)+)?)
    (auto simp: meaning_simps split: jsval.split)

lemma AddAdmin_meaning:
  "stable_state E st \<Longrightarrow> contract (shows_only opts) (carries E st adminParams opts
    (\<lambda>E r b. key_of r ''admin'' (\<lambda>k. Some (AddAdmin b k)))) (executeStateAddAdmin E opts)"
  unfolding executeStateAddAdmin_def
  by (intro execute_given meaning_rules; (assumption | simp add: meaning_simps; (intro meaning_steps | assumption)+)?)
    (auto simp: meaning_simps split: jsval.split)

lemma RemoveAdmin_meaning:
  "stable_state E st \<Longrightarrow> contract (shows_only opts) (carries E st adminParams opts
    (\<lambda>E r b. key_of r ''admin'' (\<lambda>k. Some (RemoveAdmin b k)))) (executeStateRemoveAdmin E opts)"
  unfolding executeStateRemoveAdmin_def
  by (intro execute_given meaning_rules; (assumption | simp add: meaning_simps; (intro meaning_steps | assumption)+)?)
    (auto simp: meaning_simps split: jsval.split)

lemma AddApprover_meaning:
  "stable_state E st \<Longrightarrow> contract (shows_only opts) (carries E st approverParams opts
    (\<lambda>E r b. key_of r ''approver'' (\<lambda>k. Some (AddApprover b k)))) (executeStateAddApprover E opts)"
  unfolding executeStateAddApprover_def
  by (intro execute_given meaning_rules; (assumption | simp add: meaning_simps; (intro meaning_steps | assumption)+)?)
    (auto simp: meaning_simps split: jsval.split)

lemma RemoveApprover_meaning:
  "stable_state E st \<Longrightarrow> contract (shows_only opts) (carries E st approverParams opts
    (\<lambda>E r b. key_of r ''approver'' (\<lambda>k. Some (RemoveApprover b k)))) (executeStateRemoveApprover E opts)"
  unfolding executeStateRemoveApprover_def
  by (intro execute_given meaning_rules; (assumption | simp add: meaning_simps; (intro meaning_steps | assumption)+)?)
    (auto simp: meaning_simps split: jsval.split)

lemma SetOnycMint_meaning:
  "stable_state E st \<Longrightarrow> contract (shows_only opts) (carries E st setOnycMintParams opts
    (\<lambda>E r b. key_of r ''mint'' (\<lambda>m. Some (SetOnycMint b m)))) (executeStateSetOnycMint E opts)"
  unfolding executeStateSetOnycMint_def
  by (intro execute_given meaning_rules; (assumption | simp add: meaning_simps; (intro meaning_steps | assumption)+)?)
    (auto simp: meaning_simps split: jsval.split)

lemma MaxSupply_meaning:
  "stable_state E st \<Longrightarrow> contract (shows_only opts) (carries E st maxSupplyParams opts
    (\<lambda>E r b. u64_of E r ''amount'' (\<lambda>n. Some (ConfigureMaxSupply b n)))) (executeStateMaxSupply E opts)"
  unfolding executeStateMaxSupply_def
  by (intro execute_given meaning_rules; (assumption | simp add: meaning_simps; (intro meaning_steps | assumption)+)?)
    (auto simp: meaning_simps split: jsval.split)

lemma SetRedemptionAdmin_meaning:
  "stable_state E st \<Longrightarrow> contract (shows_only opts) (carries E st redemptionAdminParams opts
    (\<lambda>E r b. key_of r ''redemptionAdmin'' (\<lambda>k. Some (SetRedemptionAdmin b k)))) (executeStateSetRedemptionAdmin E opts)"
  unfolding executeStateSetRedemptionAdmin_def
  by (intro execute_given meaning_rules; (assumption | simp add: meaning_simps; (intro meaning_steps | assumption)+)?)
    (auto simp: meaning_simps split: jsval.split)

lemma ClearAdmins_meaning:
  assumes "stable_state E st"
  shows "contract (shows_only opts) (carries E st [] opts (\<lambda>E r b. Some (ClearAdmins b))) (executeStateClearAdmins E opts)"
proof -
  have build: "contract (shows_only opts) (carries E st [] opts (\<lambda>E r b. Some (ClearAdmins b)))
     (buildAndHandleTransaction E helper params opts (clearAdmins_options E n))" if "given E [] opts params" for helper params n
    by (rule meaning_contract [OF assms that]; simp add: clearAdmins_options_def meaning_simps; (intro meaning_steps assms)?)
      (use assms in \<open>auto simp: meaning_simps\<close>)
  show ?thesis
    unfolding executeStateClearAdmins_def Let_def
    by (intro execute_given command.contract_bind command.contract_if command.contract_andThen build; assumption?)
      (rule contract_hands_off, (intro io_intros, simp?)[1])+
qed

lemma KillSwitch_meaning:
  assumes "stable_state E st"
  shows "contract (shows_only opts) (carries E st [] opts (\<lambda>E r b. Some (SetKillSwitch b True))) (executeStateKillSwitch E opts)"
proof -
  have build: "contract (shows_only opts) (carries E st [] opts (\<lambda>E r b. Some (SetKillSwitch b True)))
     (buildAndHandleTransaction E helper params opts (killSwitch_options E))" if "given E [] opts params" for helper params
    by (rule meaning_contract [OF assms that]; simp add: killSwitch_options_def meaning_simps; (intro meaning_steps assms)?)
      (use assms in \<open>auto simp: meaning_simps\<close>)
  show ?thesis
    unfolding executeStateKillSwitch_def Let_def
    by (intro execute_given command.contract_bind command.contract_if command.contract_andThen build; assumption?)
      (rule contract_hands_off, (intro io_intros, simp?)[1])+
qed

lemma Close_meaning:
  assumes "stable_state E st"
  shows "contract (shows_only opts) (carries E st [] opts
    (\<lambda>E r b. Some (CloseState (findProgramAddress E [''state''] (programId (cfg E))) b))) (executeStateClose E opts)"
proof -
  have build: "contract (shows_only opts) (carries E st [] opts (\<lambda>E r b. Some (CloseState (findProgramAddress E [''state''] (programId (cfg E))) b)))
     (buildAndHandleTransaction E helper params opts (closeState_options E))" if h: "helper_of E helper" and g: "given E [] opts params" for helper params
    by (rule meaning_contract [OF assms g]; simp add: closeState_options_def meaning_simps; (intro meaning_steps assms)?)
      (use h assms in \<open>auto simp: meaning_simps helper_of_def new_ScriptHelper_def\<close>)
  show ?thesis
    unfolding executeStateClose_def Let_def
    by (intro execute_given command.contract_bind command.contract_if command.contract_andThen build; assumption?)
      (rule contract_hands_off, (intro io_intros, simp?)[1])+
qed

section \<open>Offers and vaults\<close>

lemma AddVector_meaning:
  "stable_state E st \<Longrightarrow> contract (shows_only opts) (carries E st addVectorParams opts
    (\<lambda>E r b. pair_of r (\<lambda>i ot. u64_of E r ''baseTime'' (\<lambda>t. u64_of E r ''basePrice'' (\<lambda>p.
        u64_of E r ''apr'' (\<lambda>a. u64_of E r ''duration'' (\<lambda>d. Some (AddOfferVector b i ot None t p a d)))))))) (executeOfferAddVector E opts)"
  unfolding executeOfferAddVector_def
  by (intro execute_given meaning_rules; (assumption | simp add: meaning_simps; (intro meaning_steps | assumption)+)?)
    (auto simp: meaning_simps split: jsval.split sum.split)

lemma DeleteVector_meaning:
  "stable_state E st \<Longrightarrow> contract (shows_only opts) (carries E st deleteVectorParams opts
    (\<lambda>E r b. pair_of r (\<lambda>i ot. u64_of E r ''startTime'' (\<lambda>t. Some (DeleteOfferVector b i ot t))))) (executeOfferDeleteVector E opts)"
  unfolding executeOfferDeleteVector_def
  by (intro execute_given meaning_rules; (assumption | simp add: meaning_simps; (intro meaning_steps | assumption)+)?)
    (auto simp: meaning_simps split: jsval.split sum.split)

lemma DeleteAllVectors_meaning:
  "stable_state E st \<Longrightarrow> contract (shows_only opts) (carries E st tokenPairParams opts
    (\<lambda>E r b. pair_of r (\<lambda>i ot. Some (DeleteAllOfferVectors b i ot)))) (executeOfferDeleteAllVectors E opts)"
  unfolding executeOfferDeleteAllVectors_def
  by (intro execute_given meaning_rules; (assumption | simp add: meaning_simps; (intro meaning_steps | assumption)+)?)
    (auto simp: meaning_simps split: jsval.split sum.split)

lemma UpdateFee_meaning:
  "stable_state E st \<Longrightarrow> contract (shows_only opts) (carries E st updateFeeParams opts
    (\<lambda>E r b. pair_of r (\<lambda>i ot. u16_of (fld r ''fee'') (UpdateOfferFee b i ot)))) (executeOfferUpdateFee E opts)"
  unfolding executeOfferUpdateFee_def
  by (intro execute_given meaning_rules; (assumption | simp add: meaning_simps; (intro meaning_steps | assumption)+)?)
    (auto simp: meaning_simps split: jsval.split sum.split)

lemma Deposit_meaning:
  "stable_state E st \<Longrightarrow> contract (shows_only opts) (carries E st vaultParams opts
    (vault_of OfferVaultDeposit)) (executeVaultDeposit E opts)"
  unfolding executeVaultDeposit_def
  by (intro execute_given meaning_rules; (assumption | simp add: meaning_simps; (intro meaning_steps | assumption)+)?)
    (auto simp: meaning_simps split: jsval.split sum.split)

lemma Withdraw_meaning:
  "stable_state E st \<Longrightarrow> contract (shows_only opts) (carries E st vaultParams opts
    (vault_of OfferVaultWithdraw)) (executeVaultWithdraw E opts)"
  unfolding executeVaultWithdraw_def
  by (intro execute_given meaning_rules; (assumption | simp add: meaning_simps; (intro meaning_steps | assumption)+)?)
    (auto simp: meaning_simps split: jsval.split sum.split)

lemma RedemptionDeposit_meaning:
  "stable_state E st \<Longrightarrow> contract (shows_only opts) (carries E st vaultParams opts
    (vault_of RedemptionVaultDeposit)) (executeVaultRedemptionDeposit E opts)"
  unfolding executeVaultRedemptionDeposit_def
  by (intro execute_given meaning_rules; (assumption | simp add: meaning_simps; (intro meaning_steps | assumption)+)?)
    (auto simp: meaning_simps split: jsval.split sum.split)

lemma RedemptionWithdraw_meaning:
  "stable_state E st \<Longrightarrow> contract (shows_only opts) (carries E st vaultParams opts
    (vault_of RedemptionVaultWithdraw)) (executeVaultRedemptionWithdraw E opts)"
  unfolding executeVaultRedemptionWithdraw_def
  by (intro execute_given meaning_rules; (assumption | simp add: meaning_simps; (intro meaning_steps | assumption)+)?)
    (auto simp: meaning_simps split: jsval.split sum.split)

section \<open>Redemption offers and authorities\<close>

lemma MakeOffer_meaning:
  "stable_state E st \<Longrightarrow> contract (shows_only opts) (carries E st redemptionOfferParams opts
    (\<lambda>E r b. pair_of r (\<lambda>i ot. u16_of (fld r ''fee'') (MakeRedemptionOffer b i ot)))) (executeRedemptionMakeOffer E opts)"
  unfolding executeRedemptionMakeOffer_def
  by (intro execute_given meaning_rules; (assumption | simp add: meaning_simps; (intro meaning_steps | assumption)+)?)
    (auto simp: meaning_simps split: jsval.split sum.split)

lemma InitPermissionless_meaning:
  "stable_state E st \<Longrightarrow> contract (shows_only opts) (carries E st initPermissionlessParams opts
    (\<lambda>E r b. case fld r ''name'' of JStr s \<Rightarrow> Some (InitializePermissionlessAuthority b s) | _ \<Rightarrow> None)) (executeInitPermissionless E opts)"
  unfolding executeInitPermissionless_def
  by (intro execute_given meaning_rules; (assumption | simp add: meaning_simps; (intro meaning_steps | assumption)+)?)
    (auto simp: meaning_simps split: jsval.split sum.split)

lemma MintAuthorityToBoss_meaning:
  "stable_state E st \<Longrightarrow> contract (shows_only opts) (carries E st mintParams opts
    (\<lambda>E r b. key_of r ''mint'' (\<lambda>m. Some (TransferMintAuthorityToBoss b m)))) (executeMintAuthorityToBoss E opts)"
  unfolding executeMintAuthorityToBoss_def
  by (intro execute_given meaning_rules; (assumption | simp add: meaning_simps transfer_args_def; (intro meaning_steps | assumption)+)?)
    (auto simp: meaning_simps transfer_args_def split: jsval.split sum.split)

lemma MintAuthorityToProgram_meaning:
  assumes "stable_state E st"
  shows "contract (shows_only opts) (carries E st transferMintAuthorityParams opts
    (\<lambda>E r b. key_of r ''mint'' (\<lambda>m. Some (TransferMintAuthorityToProgram b m)))) (executeMintAuthorityToProgram E opts)"
proof -
  have build: "contract (shows_only opts) (carries E st transferMintAuthorityParams opts
      (\<lambda>E r b. key_of r ''mint'' (\<lambda>m. Some (TransferMintAuthorityToProgram b m))))
      (bind (key_text params ''mint'') (\<lambda>mint. buildAndHandleTransaction E helper params opts
        \<lparr>bo_buildIx = (\<lambda>helper _. bind (getBoss E helper) (\<lambda>boss.
           bind (lift (getTokenProgramId E (fld params ''mint''))) (\<lambda>tokenProgram.
             one_ix (buildTransferMintAuthorityToProgramIx E (transfer_args params tokenProgram boss))))),
         bo_title = t, bo_description = d mint, bo_payer = JUndefined, bo_summary = None\<rparr>))"
    if g: "given E transferMintAuthorityParams opts params" for params helper t d
    by (intro meaning_rules assms g; (simp add: meaning_simps transfer_args_def; (intro meaning_steps assms)+)?)
      (use assms g in \<open>auto simp: meaning_simps transfer_args_def split: jsval.split\<close>)
  show ?thesis
    unfolding executeMintAuthorityToProgram_def Let_def
    by (intro execute_given command.contract_andThen command.contract_if build command.contract_bind; assumption?)
      (rule contract_hands_off, (intro io_intros, simp?)[1])+
qed

lemma redemption_offer_of:
  "helper_of E h \<Longrightarrow> getRedemptionOfferPda E h (fld r ''tokenIn'') (fld r ''tokenOut'') = Inr a \<Longrightarrow> redemption_offer_of E r = Some a"
  by (auto simp: getRedemptionOfferPda_def key_buffer_def redemption_offer_of_def helper_of_def new_ScriptHelper_def
      split: jsval.splits)

lemma RedemptionUpdateFee_meaning:
  "stable_state E st \<Longrightarrow> contract (shows_only opts) (carries E st updateRedemptionFeeParams opts
    (\<lambda>E r b. Option.bind (redemption_offer_of E r) (\<lambda>a. u16_of (fld r ''fee'') (UpdateRedemptionOfferFee b a))))
    (executeRedemptionUpdateFee E opts)"
  unfolding executeRedemptionUpdateFee_def
  by (intro execute_given meaning_rules; (assumption | simp add: builder_defs; (intro meaning_steps | assumption)+)?)
    (auto simp: fld_def decode_call_def account_def num_arg_def u16_of_def dest: redemption_offer_of [unfolded fld_def])

text \<open>A new offer follows the token accounts of the intermediary.\<close>

lemma buildMakeOffer_call:
  assumes "decode_call \<lparr>mc_method = ''makeOffer'', mc_args = [nullish (fld ps ''feeBasisPoints'') (jnum 0),
        nullish (fld ps ''needsApproval'') (JBool False), nullish (fld ps ''allowPermissionless'') (JBool False)],
      mc_accounts = [(''tokenInMint'', fld ps ''tokenInMint''), (''tokenInProgram'', token_program_of E ps ''tokenInProgram''),
        (''tokenOutMint'', fld ps ''tokenOutMint''), (''boss'', fld ps ''boss'')], mc_partial = True\<rparr> = mean E r (st_boss st)"
    and "\<forall>ix\<in>set pre. \<exists>ow. creates_account_of ow ix"
  shows "io_res (calls E st mean r) (bind (buildMakeOfferIx E ps) (\<lambda>ix. ret (pre @ [ix])))"
  unfolding buildMakeOfferIx_def Let_def calls_def
  by (rule io_res_bind2 [OF instruction_result], rule io_res_ret) (use assms in blast)

lemma list_all_created: "list_all (creates_account_of p) ixs \<Longrightarrow> ix \<in> set ixs \<Longrightarrow> \<exists>ow. creates_account_of ow ix"
  unfolding list_all_iff by blast

lemma makeOffer_calls:
  assumes "stable_state E st"
  shows "io_res (calls E st (\<lambda>E r b. pair_of r (\<lambda>i ot.
        offer_of E r b i ot)) r) (makeOffer_ixs E opts r h)"
proof -
  have accounts: "io_res (\<lambda>ixs. \<forall>ix\<in>set ixs. \<exists>ow. creates_account_of ow ix)
      (if js_truthy v then buildCreatePermissionlessTokenAccountsIxs E h ps else ret [])" for v ps
    by (cases "js_truthy v") (auto simp: io_res_ret intro!: io_res_mono [OF permissionless_accounts_result] list_all_created)
  show ?thesis
    unfolding makeOffer_ixs_def
    by (intro result_boss [OF assms] result_lift io_res_andThen, rule io_res_bind2 [OF accounts], rule buildMakeOffer_call)
      (auto simp: decode_call_def account_def fld_def offer_of_def pair_of_def key_of_def u16_of_def split: jsval.split)
qed

lemma Make_meaning:
  "stable_state E st \<Longrightarrow> contract (shows_only opts) (carries E st makeOfferParams opts (\<lambda>E r b. pair_of r (\<lambda>i ot.
        offer_of E r b i ot))) (executeOfferMake E opts)"
  unfolding executeOfferMake_def
  by (intro execute_given meaning_rules) (assumption | simp add: makeOffer_ixs_hands_off makeOffer_calls)+

section \<open>All commands of the boss\<close>

lemmas all_meanings = ProposeBoss_meaning AddAdmin_meaning RemoveAdmin_meaning ClearAdmins_meaning AddApprover_meaning
  RemoveApprover_meaning SetOnycMint_meaning MaxSupply_meaning SetRedemptionAdmin_meaning KillSwitch_meaning Close_meaning
  Make_meaning AddVector_meaning DeleteVector_meaning DeleteAllVectors_meaning UpdateFee_meaning Deposit_meaning
  Withdraw_meaning RedemptionDeposit_meaning RedemptionWithdraw_meaning MakeOffer_meaning RedemptionUpdateFee_meaning
  InitPermissionless_meaning MintAuthorityToBoss_meaning MintAuthorityToProgram_meaning

lemma sent_mono: "io_all (sent_ok P) m \<Longrightarrow> (\<And>tx. P tx \<Longrightarrow> Q tx) \<Longrightarrow> io_all (sent_ok Q) m"
proof -
  assume m: "io_all (sent_ok P) m" and PQ: "\<And>tx. P tx \<Longrightarrow> Q tx"
  have weaker: "sent_ok P e \<Longrightarrow> sent_ok Q e" for e by (cases e) (simp_all add: PQ)
  have "list_all (sent_ok P) es \<Longrightarrow> list_all (sent_ok Q) es" for es by (erule list.pred_mono_strong) (rule weaker)
  with m show ?thesis unfolding io_all_def io_trace_def by meson
qed

lemma sent_of_contract: "contract q Q m \<Longrightarrow> io_all (sent_ok Q) m"
  by (rule io_all_of_trace [of "command_trace q Q"]) (auto simp: command_trace_def)

text \<open>
  C5: from the command line to the chain. When the node gives the state account \<open>st\<close>, every transaction that one of these
  25 commands sends is paid by the boss on record and ends with the one call that Anchor encodes as the instruction of
  the program that the parameters of the command mean: the same keys, the same numbers in their width, signed by that
  boss. The parameters are those that the options and the answers of the user give. A number that does not fit its width
  has no meaning, and then its encoding is no instruction either.
\<close>

theorem boss_commands_mean_their_instructions:
  assumes "stable_state E st"
  shows "list_all (\<lambda>(cmd, ps, mean). io_all (sent_ok (carries E st ps opts mean)) (cmd E opts) \<and>
    (\<forall>r i. mean E r (st_boss st) = Some i \<longrightarrow> signer_of i = Some (st_boss st))) boss_meanings"
proof -
  have "list_all (\<lambda>(cmd, ps, mean). io_all (sent_ok (carries E st ps opts mean)) (cmd E opts)) boss_meanings"
    unfolding boss_meanings_def list.pred_inject prod.case
    by (intro conjI list.pred_inject(1)) (rule sent_of_contract, rule all_meanings [OF assms])+
  moreover have "list_all (\<lambda>(cmd, ps, mean). \<forall>r i. mean E r (st_boss st) = Some i \<longrightarrow> signer_of i = Some (st_boss st)) boss_meanings"
    unfolding boss_meanings_def list.pred_inject prod.case
    by (intro conjI list.pred_inject(1); auto simp: meaning_defs split: jsval.splits sum.splits option.splits bind_splits)
  ultimately show ?thesis by (auto simp: list_all_iff)
qed

theorem boss_commands_mean_their_instructions_witness:
  "list_ex is_sent (snd (executeStateKillSwitch (demo ''sign'' ''ENABLE KILL SWITCH'' True) [] [])) \<and>
   io_all (sent_ok (\<lambda>tx. \<exists>accounts c. tx_ixs tx = accounts @ [AnchorIx c] \<and> decode_call c = Some (SetKillSwitch demo_boss True)))
     (executeStateKillSwitch (demo ''sign'' ''ENABLE KILL SWITCH'' True) [])"
proof
  show "list_ex is_sent (snd (executeStateKillSwitch (demo ''sign'' ''ENABLE KILL SWITCH'' True) [] []))" by code_simp
  have st: "st_boss Demo_Env.demo_state = demo_boss" by (simp add: Demo_Env.demo_state_def)
  have "io_all (sent_ok (carries (demo ''sign'' ''ENABLE KILL SWITCH'' True) Demo_Env.demo_state [] [] (\<lambda>E r b. Some (SetKillSwitch b True))))
     (executeStateKillSwitch (demo ''sign'' ''ENABLE KILL SWITCH'' True) [])"
    using boss_commands_mean_their_instructions [OF demo_stable, of "''sign''" "''ENABLE KILL SWITCH''" True "[]"]
    unfolding boss_meanings_def by simp
  then show "io_all (sent_ok (\<lambda>tx. \<exists>accounts c. tx_ixs tx = accounts @ [AnchorIx c] \<and> decode_call c = Some (SetKillSwitch demo_boss True)))
     (executeStateKillSwitch (demo ''sign'' ''ENABLE KILL SWITCH'' True) [])"
    by (rule sent_mono) (auto simp: carries_def st)
qed

end
