(* ===== verification/Script_Vaults.thy ===== *)
theory Script_Vaults
  imports Script_Base
begin

text \<open>
  \<^verbatim>\<open>scripts/vault_operations\<close>: the balances of the vaults of one token, and the report of all vaults.
\<close>

section \<open>One token account\<close>

definition repeat_char :: "char \<Rightarrow> nat \<Rightarrow> string" where
  "repeat_char x n = replicate n x"


definition pad_end :: "nat \<Rightarrow> string \<Rightarrow> string" where
  "pad_end n s = s @ replicate (n - length s) CHR '' ''"


definition TOKEN_MINT :: pubkey where
  "TOKEN_MINT = PublicKey ''5Y8NV33Vv7WbnLfq3zBcKSdYPrk7g2KoiQoe7M2tcxp5''"


definition print_account_details :: "parsed_token_account option \<Rightarrow> unit io" where
  "print_account_details info = (case info of None \<Rightarrow> ret () | Some data \<Rightarrow>
     tell_all (
       [Log (newline @ repeat_char CHR ''='' 80), Log ''ACCOUNT DETAILS'', Log (repeat_char CHR ''='' 80),
        Log (''Owner: '' @ pt_owner data), Log (''Mint: '' @ pt_mint data), Log (''State: '' @ pt_state data)]
       @ (case pt_closeAuthority data of Some a \<Rightarrow> if a \<noteq> [] then [Log (''Close Authority: '' @ a)] else [] | None \<Rightarrow> [])
       @ (case pt_delegate data of
            Some d \<Rightarrow> if d \<noteq> [] then
              [Log (''Delegate: '' @ d),
               Log (''Delegated Amount: '' @
                 (case pt_delegatedAmount data of Some a \<Rightarrow> if a \<noteq> [] then a else ''0'' | None \<Rightarrow> ''0''))]
              else []
          | None \<Rightarrow> [])))"


definition print_balance :: "env \<Rightarrow> pubkey \<Rightarrow> unit io" where
  "print_balance E vaultTokenAccount =
     bind (outside (Called (GetTokenAccountBalance vaultTokenAccount)) (\<lambda>tr. rpcTokenBalance E tr vaultTokenAccount)) (\<lambda>b.
     andThen (tell_all
       [Log (newline @ repeat_char CHR ''='' 80), Log ''BALANCE INFORMATION'', Log (repeat_char CHR ''='' 80),
        Log (''Raw Balance (lamports): '' @ tb_amount b),
        Log (''UI Balance: '' @ (case tb_uiAmountString b of Some s \<Rightarrow> s | None \<Rightarrow> ''undefined'')),
        Log (''Decimals: '' @ nat_str (tb_decimals b))])
     (bind (outside (Called (GetParsedAccountInfo vaultTokenAccount)) (\<lambda>tr. rpcParsedAccount E tr vaultTokenAccount)) (\<lambda>info.
      andThen (print_account_details info) (log_line (newline @ repeat_char CHR ''='' 80)))))"


text \<open>The common body of the two scripts; they differ in the authority and in two texts.\<close>

definition check_vault :: "env \<Rightarrow> string \<Rightarrow> string \<Rightarrow> string \<Rightarrow> (ScriptHelper \<Rightarrow> pubkey) \<Rightarrow> unit io" where
  "check_vault E title authority_label vault_name authority =
     bind (create E None) (\<lambda>helper.
     andThen (tell_all
       [Log (repeat_char CHR ''='' 80), Log title, Log (repeat_char CHR ''='' 80),
        Log (''Token mint: '' @ toBase58 TOKEN_MINT), Log (''Token program: '' @ toBase58 (TOKEN_PROGRAM_ID E))])
     (rethrow (newline @ cross_mark @ '' Error checking vault balance:'')
       (andThen (log_line (newline @ authority_label @ '' '' @ toBase58 (authority helper)))
        (bind (lift (ata E (JPk TOKEN_MINT) (JPk (authority helper)) True (JPk (TOKEN_PROGRAM_ID E)))) (\<lambda>vaultTokenAccount.
         andThen (log_line (''Vault Token Account: '' @ toBase58 vaultTokenAccount))
         (bind (outside (Called (GetAccountInfo vaultTokenAccount)) (\<lambda>tr. rpcAccountInfo E tr vaultTokenAccount)) (\<lambda>exists.
           if \<not> exists then tell_all
             [Log (newline @ cross_mark @ '' Vault token account does not exist''),
              Log (''The '' @ vault_name @ '' has not been initialized for this token.'')]
           else print_balance E vaultTokenAccount)))))))"


definition redemptionVaultAuthority :: "env \<Rightarrow> ScriptHelper \<Rightarrow> pubkey" where
  "redemptionVaultAuthority E helper = findProgramAddress E [''redemption_offer_vault_authority''] (h_programId helper)"


definition checkOfferVaultBalance :: "env \<Rightarrow> unit io" where
  "checkOfferVaultBalance E = exit_on_failure ''Failed to check offer vault balance:''
     (check_vault E ''Checking Offer Vault Token Balance'' ''Vault Authority PDA:'' ''vault'' offerVaultAuthorityPda)"


definition checkRedemptionVaultBalance :: "env \<Rightarrow> unit io" where
  "checkRedemptionVaultBalance E = exit_on_failure ''Failed to check redemption vault balance:''
     (check_vault E ''Checking Redemption Vault Token Balance'' ''Redemption Vault Authority PDA:'' ''redemption vault''
       (redemptionVaultAuthority E))"


section \<open>The report of all vaults\<close>

record VaultBalance =
  vaultType :: string
  tokenName :: string
  vb_mint :: string
  vaultAccount :: string
  exists :: bool
  vb_balance :: "string option"
  rawBalance :: "string option"
  vb_decimals :: "nat option"

text \<open>The text of the key of the mint is computed before the \<open>try\<close>; a failure keeps what is known so far.\<close>

definition checkVaultBalance :: "env \<Rightarrow> jsval \<Rightarrow> pubkey \<Rightarrow> pubkey \<Rightarrow> string \<Rightarrow> string \<Rightarrow> VaultBalance io" where
  "checkVaultBalance E tokenMint tokenProgram authority name kind =
     bind (lift (js_toBase58 tokenMint)) (\<lambda>m.
     let result = \<lparr>vaultType = kind, tokenName = name, vb_mint = m, vaultAccount = [], exists = False,
           vb_balance = None, rawBalance = None, vb_decimals = None\<rparr>;
         failed = (\<lambda>r e. andThen (tell (LogThrown (''Error checking '' @ kind @ '' vault for '' @ name @ '':'') e)) (ret r)) in
     case ata E tokenMint (JPk authority) True (JPk tokenProgram) of
       Inl e \<Rightarrow> failed result e
     | Inr account \<Rightarrow>
         let located = result\<lparr>vaultAccount := toBase58 account\<rparr> in
         try_catch
           (bind (outside (Called (GetAccountInfo account)) (\<lambda>tr. rpcAccountInfo E tr account)) (\<lambda>found.
              if \<not> found then ret located
              else try_catch
                (bind (outside (Called (GetTokenAccountBalance account)) (\<lambda>tr. rpcTokenBalance E tr account)) (\<lambda>b.
                   ret (located\<lparr>exists := True, rawBalance := Some (tb_amount b),
                     vb_balance := Some (case tb_uiAmountString b of Some s \<Rightarrow> if s = [] then ''0'' else s | None \<Rightarrow> ''0''),
                     vb_decimals := Some (tb_decimals b)\<rparr>)))
                (failed (located\<lparr>exists := True\<rparr>))))
           (failed located))"


definition check_token :: "env \<Rightarrow> ScriptHelper \<Rightarrow> string \<times> jsval \<Rightarrow> VaultBalance list io" where
  "check_token E helper token = (let (name, tokenMint) = token; p = TOKEN_PROGRAM_ID E in
     bind (lift (js_toBase58 tokenMint)) (\<lambda>m.
     andThen (log_line (newline @ ''Checking '' @ name @ '' ('' @ m @ '')...''))
     (bind (checkVaultBalance E tokenMint p (offerVaultAuthorityPda helper) name ''Offer Vault'') (\<lambda>offerVault.
      bind (checkVaultBalance E tokenMint p (permissionlessVaultAuthorityPda helper) name ''Permissionless Vault'') (\<lambda>permissionlessVault.
      bind (checkVaultBalance E tokenMint p (redemptionVaultAuthority E helper) name ''Redemption Vault'') (\<lambda>redemptionVault.
        ret [offerVault, permissionlessVault, redemptionVault]))))))"


fun check_tokens :: "env \<Rightarrow> ScriptHelper \<Rightarrow> (string \<times> jsval) list \<Rightarrow> VaultBalance list io" where
  "check_tokens E helper [] = ret []"
| "check_tokens E helper (t # ts) =
     bind (check_token E helper t) (\<lambda>rs. bind (check_tokens E helper ts) (\<lambda>rest. ret (rs @ rest)))"

text \<open>The marks are one character wide, so nine blanks fill their column.\<close>

definition summary_row :: "VaultBalance \<Rightarrow> string" where
  "summary_row r = pad_end 25 (vaultType r) @ pad_end 10 (tokenName r)
     @ (if exists r then check_mark else [CHR 0xE2, CHR 0x9C, CHR 0x97]) @ replicate 9 CHR '' ''
     @ pad_end 20 (if exists r then (case vb_balance r of Some b \<Rightarrow> if b = [] then ''0'' else b | None \<Rightarrow> ''0'') else ''N/A'')
     @ (if exists r then (case vb_decimals r of Some d \<Rightarrow> nat_str d | None \<Rightarrow> ''?'') else ''N/A'')"


definition or_undefined :: "string option \<Rightarrow> string" where
  "or_undefined v = (case v of Some s \<Rightarrow> s | None \<Rightarrow> ''undefined'')"


definition accountsWithBalance :: "VaultBalance list \<Rightarrow> VaultBalance list" where
  "accountsWithBalance results = List.filter (\<lambda>r. exists r \<and> rawBalance r \<noteq> Some ''0'') results"


definition missingAccounts :: "VaultBalance list \<Rightarrow> VaultBalance list" where
  "missingAccounts results = List.filter (\<lambda>r. \<not> exists r) results"


definition report_lines :: "VaultBalance list \<Rightarrow> event list" where
  "report_lines results = (let rule = repeat_char CHR ''='' 100; title = (\<lambda>n t. Log (repeat_char CHR '' '' n @ t)) in
     [Log (newline @ rule), title 40 ''SUMMARY TABLE'', Log rule,
      Log (pad_end 25 ''Vault Type'' @ pad_end 10 ''Token'' @ pad_end 10 ''Exists'' @ pad_end 20 ''Balance'' @ ''Decimals''),
      Log (repeat_char CHR ''-'' 100)]
     @ List.map (\<lambda>r. Log (summary_row r)) results @ [Log rule]
     @ (if accountsWithBalance results \<noteq> [] then
          [Log (newline @ rule), title 30 ''ACCOUNTS WITH NON-ZERO BALANCE'', Log rule]
          @ concat (List.map (\<lambda>r.
              [Log (newline @ vaultType r @ '' - '' @ tokenName r @ '':''),
               Log (''  Account: '' @ vaultAccount r),
               Log (''  Balance: '' @ or_undefined (vb_balance r) @ '' ('' @ or_undefined (rawBalance r) @ '' raw)''),
               Log (''  Decimals: '' @ or_undefined (map_option nat_str (vb_decimals r)))]) (accountsWithBalance results))
          @ [Log (newline @ rule)]
        else [])
     @ (if missingAccounts results \<noteq> [] then
          [Log (newline @ rule), title 35 ''MISSING ACCOUNTS'', Log rule,
           Log (''The following vault token accounts have not been initialized:'' @ newline)]
          @ concat (List.map (\<lambda>r.
              [Log (''  '' @ warning_mark @ ''  '' @ vaultType r @ '' - '' @ tokenName r),
               Log (''     Expected at: '' @ vaultAccount r)]) (missingAccounts results))
          @ [Log (newline @ rule)]
        else []))"


text \<open>The mints are the two imported constants.\<close>

definition TOKENS_TO_CHECK :: "jsval \<Rightarrow> jsval \<Rightarrow> (string \<times> jsval) list" where
  "TOKENS_TO_CHECK USDC ONYC = [(''USDC'', USDC), (''ONyc'', ONYC)]"


definition checkAllVaultBalances :: "env \<Rightarrow> jsval \<Rightarrow> jsval \<Rightarrow> VaultBalance list io" where
  "checkAllVaultBalances E USDC ONYC =
     bind (create E None) (\<lambda>helper. let rule = repeat_char CHR ''='' 100 in
     andThen (tell_all
       [Log rule, Log (repeat_char CHR '' '' 35 @ ''VAULT BALANCE REPORT''), Log rule,
        Log (''Program ID: '' @ toBase58 (h_programId helper)), Log (''Network: '' @ rpcUrl (cfg E)), Log rule,
        Log (newline @ ''Vault Authorities:''),
        Log (''  Offer Vault Authority: '' @ toBase58 (offerVaultAuthorityPda helper)),
        Log (''  Permissionless Vault Authority: '' @ toBase58 (permissionlessVaultAuthorityPda helper)),
        Log (''  Redemption Vault Authority: '' @ toBase58 (redemptionVaultAuthority E helper)), Log []])
     (bind (check_tokens E helper (TOKENS_TO_CHECK USDC ONYC)) (\<lambda>results.
      andThen (tell_all (report_lines results)) (ret results))))"


text \<open>A module whose imports are not all exported does not start.\<close>

definition script_helper_exports :: "string list" where
  "script_helper_exports = [''config'', ''NETWORK_CONFIGS'', ''printConfigSummary'', ''ScriptHelper'']"


definition link_imports :: "string list \<Rightarrow> unit io \<Rightarrow> unit io" where
  "link_imports names m = (case List.filter (\<lambda>n. n \<notin> set script_helper_exports) names of
       [] \<Rightarrow> m
     | n # _ \<Rightarrow> throw (Library (''The requested module does not provide an export named '' @ n)))"


definition check_all_vault_balances :: "env \<Rightarrow> jsval \<Rightarrow> jsval \<Rightarrow> unit io" where
  "check_all_vault_balances E USDC ONYC = link_imports [''ScriptHelper'', ''USDC_MINT'', ''ONYC_MINT'']
     (exit_on_failure (newline @ cross_mark @ '' Failed to check vault balances:'') (checkAllVaultBalances E USDC ONYC))"


end
