(* ===== verification/Script_Smoke.thy ===== *)
theory Script_Smoke
  imports Script_Base
begin

text \<open>
  \<^verbatim>\<open>scripts/smoke/smoke_tests.ts\<close>: two transactions, an offer with its first vector and a deposit, and the two ways of
  taking it, built with the script helper and printed.
\<close>

definition smoke_BASE_TIME :: "int \<Rightarrow> jsnum" where
  "smoke_BASE_TIME ms = js_floor (js_div (Fin (of_int ms)) (Fin 1000))"


definition smoke_BASE_PRICE :: jsnum where "smoke_BASE_PRICE = Fin 1100000000"


definition smoke_APR :: jsnum where "smoke_APR = Fin 36500"


definition smoke_PRICE_FIX_DURATION :: jsnum where "smoke_PRICE_FIX_DURATION = Fin (60 * 60 * 24)"


definition OFFER_FEE_BASIS_POINTS :: jsnum where "OFFER_FEE_BASIS_POINTS = Fin 0"


definition TOKEN_IN_AMOUNT :: jsnum where "TOKEN_IN_AMOUNT = Fin 1000000"


definition TOKEN_OUT_AMOUNT :: jsnum where "TOKEN_OUT_AMOUNT = Fin 1000000000"


definition built :: "string \<Rightarrow> event" where
  "built s = Log (''     '' @ check_mark @ '' '' @ s @ '' built'')"


text \<open>\<open>forEach(ix => tx.add(ix))\<close> and \<open>tx.add\<close>, the fee payer and the blockhash; then the printed text.\<close>

definition smoke_transaction :: "env \<Rightarrow> tx_ix list \<Rightarrow> jsval \<Rightarrow> string io" where
  "smoke_transaction E ixs payer =
     (let tx = (add_ixs \<lparr>tx_ixs = [], feePayer = JUndefined, recentBlockhash = []\<rparr> ixs)\<lparr>feePayer := payer\<rparr> in
      bind (outside (Called GetLatestBlockhash) (rpcBlockhash E)) (\<lambda>blockhash.
      bind (serializeTransaction E (tx\<lparr>recentBlockhash := blockhash\<rparr>)) (\<lambda>serializedTx.
      andThen (tell_all
        [Log (''  Size: '' @ nat_str (length serializedTx) @ '' bytes''), Log (''  Base58: '' @ serializedTx), Log []])
       (ret serializedTx))))"


definition setup_ixs :: "env \<Rightarrow> jsnum \<Rightarrow> ScriptHelper \<Rightarrow> jsval \<Rightarrow> tx_ix list io" where
  "setup_ixs E baseTime helper boss =
     (let tin = JPk (usdc (NetworkConfig.mints (cfg E))); tout = JPk (onyc (NetworkConfig.mints (cfg E))) in
      bind (buildCreatePermissionlessTokenAccountsIxs E helper
        [(''tokenInMint'', tin), (''tokenOutMint'', tout), (''tokenInProgram'', JPk (TOKEN_PROGRAM_ID E)),
         (''tokenOutProgram'', JPk (TOKEN_PROGRAM_ID E)), (''payer'', boss)]) (\<lambda>permissionlessIxs.
      andThen (do_when (permissionlessIxs \<noteq> []) (tell_all
        [Log (''  0. Building '' @ nat_str (length permissionlessIxs) @ '' permissionless token account creation instruction(s)...''),
         built ''Permissionless token account instructions'']))
      (andThen (log_line ''  1. Building Make Offer instruction...'')
      (bind (buildMakeOfferIx E
        [(''tokenInMint'', tin), (''tokenOutMint'', tout), (''feeBasisPoints'', JNum OFFER_FEE_BASIS_POINTS),
         (''needsApproval'', JBool False), (''allowPermissionless'', JBool True), (''boss'', boss)]) (\<lambda>makeOfferIx.
      andThen (tell_all [built ''Make Offer instruction'', Log ''  2. Building Add Offer Vector instruction...''])
      (bind (buildAddOfferVectorIx E
        [(''tokenInMint'', tin), (''tokenOutMint'', tout), (''baseTime'', JNum baseTime),
         (''basePrice'', JNum smoke_BASE_PRICE), (''apr'', JNum smoke_APR),
         (''priceFixDuration'', JNum smoke_PRICE_FIX_DURATION), (''boss'', boss)]) (\<lambda>addVectorIx.
      andThen (tell_all [built ''Add Offer Vector instruction'', Log ''  3. Building Offer Vault Deposit instruction...''])
      (bind (buildOfferVaultDepositIx E
        [(''amount'', JNum (js_mul TOKEN_OUT_AMOUNT (Fin 2))), (''tokenMint'', tout), (''boss'', boss)]) (\<lambda>depositIx.
      andThen (tell (built ''Offer Vault Deposit instruction''))
        (ret (permissionlessIxs @ [makeOfferIx, addVectorIx, depositIx])))))))))))"

definition take_ixs :: "env \<Rightarrow> ScriptHelper \<Rightarrow> tx_ix list io" where
  "take_ixs E helper =
     (let ps = [(''tokenInAmount'', JNum TOKEN_IN_AMOUNT), (''tokenInMint'', JPk (usdc (NetworkConfig.mints (cfg E)))),
                (''tokenOutMint'', JPk (onyc (NetworkConfig.mints (cfg E)))), (''user'', JPk (nc_boss (cfg E)))] in
      andThen (log_line ''  1. Building Take Offer (Standard) instruction...'')
      (bind (buildTakeOfferIx E ps) (\<lambda>takeOfferIx.
      andThen (tell_all [built ''Take Offer (Standard) instruction'', Log ''  2. Building Take Offer (Permissionless) instruction...''])
      (bind (buildTakeOfferPermissionlessIx E helper ps) (\<lambda>takeOfferPermissionlessIx.
      andThen (tell (built ''Take Offer (Permissionless) instruction''))
        (ret [takeOfferIx, takeOfferPermissionlessIx]))))))"


definition buildSmokeTestTransactions :: "env \<Rightarrow> jsnum \<Rightarrow> (string \<times> string) io" where
  "buildSmokeTestTransactions E baseTime =
     andThen (log_line (''=== Onre Program Smoke Tests ==='' @ newline))
     (bind (create E None) (\<lambda>helper.
      bind (getBoss E helper) (\<lambda>boss.
      andThen (log_line (''Program ID: '' @ toBase58 (h_programId helper)))
      (andThen (log_key ''Boss:'' boss)
      (andThen (tell_all
        [Log (''RPC: '' @ rpcUrl (cfg E)), Log [], Log ''Generated test keypairs:'',
         Log (''Token In Mint: '' @ toBase58 (usdc (NetworkConfig.mints (cfg E)))),
         Log (''Token Out Mint: '' @ toBase58 (onyc (NetworkConfig.mints (cfg E)))), Log [],
         Log (''--- Building Transactions ---'' @ newline), Log ''Transaction 1: Setup Offer''])
      (bind (setup_ixs E baseTime helper boss) (\<lambda>setup.
       bind (smoke_transaction E setup boss) (\<lambda>serializedTx1.
       andThen (log_line ''Transaction 2: Execute Offers (2 instructions)'')
       (bind (take_ixs E helper) (\<lambda>takes.
        bind (smoke_transaction E takes boss) (\<lambda>serializedTx2.
        andThen (tell_all
          [Log ''=== Smoke Test Complete ==='', Log ''Transaction 1 (Setup):'', Log serializedTx1, Log [],
           Log ''Transaction 2 (Execute & Close):'', Log serializedTx2])
         (ret (serializedTx1, serializedTx2)))))))))))))"


text \<open>The base time is read from the clock when the module is loaded.\<close>

definition smoke_tests :: "env \<Rightarrow> unit io" where
  "smoke_tests E = bind (observe (dateNow E)) (\<lambda>ms.
     exit_on_failure ''Smoke test failed:'' (buildSmokeTestTransactions E (smoke_BASE_TIME ms)))"


end
