(* ===== verification/Script_Props.thy ===== *)
theory Script_Props
  imports Script_Vaults Script_Smoke Script_Upgrade_Props
begin

text \<open>
  The stand-alone scripts: they only print, and the report of the vaults shows what the node has.
\<close>

section \<open>The scripts only print\<close>


lemma hands_off_lookup: "io_all hands_off (initProgram E)" "io_all hands_off (getBossAccount E)" "io_all hands_off (getOldOffer E n)"
  "io_all hands_off (closeOfferIx E off a b c d)"
  unfolding initProgram_def getBossAccount_def getOldOffer_def closeOfferIx_def old_instruction_def Let_def
  by (intro io_intros; simp)+

lemma scripts_hands_off:
  "io_all hands_off (closeOffer E)" "io_all hands_off (createCloseStateTransaction E)"
  "io_all hands_off (createInitializeTransaction E)" "io_all hands_off (createProposeBossTransaction E)"
  "io_all hands_off (createAcceptBossTransaction E)" "io_all hands_off (createMakeOfferWithVectorTransaction E s)"
  "io_all hands_off (createTransferMintAuthorityToProgramTransaction E)"
  unfolding closeOffer_def createCloseStateTransaction_def createInitializeTransaction_def createProposeBossTransaction_def
    createAcceptBossTransaction_def createMakeOfferWithVectorTransaction_def check_proposal_def check_mint_authority_def
    createTransferMintAuthorityToProgramTransaction_def offer_with_vector_ixs_def print_offer_configuration_def Let_def
  by (intro io_intros hands_off_lookup hands_off_serialize_tx; simp)+

lemma hands_off_do_when_all [io_intros]: "io_all hands_off (smoke_transaction E ixs p)"
  unfolding smoke_transaction_def Let_def by (intro io_intros hands_off_serialize_tx) (simp_all add: built_def)

lemma smoke_hands_off: "io_all hands_off (buildSmokeTestTransactions E t)"
  unfolding buildSmokeTestTransactions_def setup_ixs_def take_ixs_def built_def Let_def
  by (intro io_intros) simp_all

lemma vault_hands_off [io_intros]: "io_all hands_off (check_vault E a b c f)"
  unfolding check_vault_def print_balance_def print_account_details_def Let_def
  by (intro io_intros) (auto split: option.splits)

lemma checkVaultBalance_hands_off [io_intros]: "io_all hands_off (checkVaultBalance E m p a n k)"
  unfolding checkVaultBalance_def Let_def by (intro io_intros) simp_all

lemma check_tokens_hands_off [io_intros]: "io_all hands_off (check_tokens E h ts)"
  by (induction ts) (auto simp: check_token_def Let_def split_beta intro!: io_intros)

lemma all_vaults_hands_off: "io_all hands_off (checkAllVaultBalances E a b)"
  unfolding checkAllVaultBalances_def report_lines_def Let_def
  by (intro io_intros) (auto simp: list_all_iff)

text \<open>Every script of the repository that is not part of the command line tool, and neither moves tokens across chains.\<close>

definition standalone_scripts :: "jsval \<Rightarrow> jsval \<Rightarrow> (env \<Rightarrow> unit io) list" where
  "standalone_scripts USDC ONYC = upgrade_scripts @
     [checkOfferVaultBalance, checkRedemptionVaultBalance, \<lambda>E. check_all_vault_balances E USDC ONYC, smoke_tests]"

lemma only_prints: "io_all hands_off m \<Longrightarrow> \<exists>new. snd (m tr) = tr @ new \<and> list_all hands_off new"
  unfolding io_all_def io_trace_def by blast

text \<open>
  The stand-alone scripts only print: whatever libraries and node answer, none of them sends a transaction or touches
  the clipboard; and a script of the upgrade never ends with an error, so that one that failed exits with status 0 as well.
\<close>

lemma scripts_only_print:
  "list_all (\<lambda>m. \<exists>new. snd (m E tr) = tr @ new \<and> list_all hands_off new) (standalone_scripts USDC ONYC) \<and>
   list_all (\<lambda>m. fst (m E tr) = Inr () \<or> (\<exists>n. fst (m E tr) = Inl (ExitProcess n))) upgrade_scripts"
proof -
  have "io_all hands_off (check_all_vault_balances E USDC ONYC)"
    unfolding check_all_vault_balances_def link_imports_def
    by (auto split: list.splits intro!: io_intros hands_off_exit_on_failure all_vaults_hands_off)
  moreover have "io_all hands_off (smoke_tests E)"
    unfolding smoke_tests_def by (intro io_intros hands_off_exit_on_failure smoke_hands_off)
  moreover have "io_all hands_off (checkOfferVaultBalance E)" "io_all hands_off (checkRedemptionVaultBalance E)"
    unfolding checkOfferVaultBalance_def checkRedemptionVaultBalance_def
    by (intro io_intros hands_off_exit_on_failure)+
  ultimately show ?thesis
    by (simp add: standalone_scripts_def upgrade_scripts_def upgrade001_def upgrade002_def upgrade003_def upgrade004_def
        upgrade005_def upgrade006_def upgrade007_def upgrade008_def report_failure_result report_failure_hands_off
        scripts_hands_off only_prints)
qed

section \<open>The report of the vaults\<close>

text \<open>A node that knows which accounts exist, and the address of a vault account.\<close>

definition knows :: "env \<Rightarrow> (pubkey \<Rightarrow> bool) \<Rightarrow> bool" where
  "knows E present = (\<forall>tr k. rpcAccountInfo E tr k = Inr (present k))"

text \<open>What a row says of the account of an authority for a mint.\<close>

definition row_right :: "env \<Rightarrow> (pubkey \<Rightarrow> bool) \<Rightarrow> pubkey \<Rightarrow> pubkey \<Rightarrow> VaultBalance \<Rightarrow> bool" where
  "row_right E present m a r = (case associatedTokenAddress E m a True (TOKEN_PROGRAM_ID E) of
     Inl e \<Rightarrow> \<not> exists r \<and> vaultAccount r = []
   | Inr k \<Rightarrow> vaultAccount r = toBase58 k \<and> (exists r \<longleftrightarrow> present k) \<and>
      (rawBalance r \<noteq> None \<longrightarrow> (\<exists>tr b. rpcTokenBalance E tr k = Inr b \<and> rawBalance r = Some (tb_amount b))))"

lemma checkVaultBalance_row:
  assumes "knows E present"
  shows "io_res (\<lambda>r. vaultType r = kind \<and> tokenName r = name \<and> row_right E present m a r)
    (checkVaultBalance E (JPk m) (TOKEN_PROGRAM_ID E) a name kind)"
  using assms
  by (auto simp: io_res_def checkVaultBalance_def Let_def ata_def row_right_def knows_def io_defs
      split: sum.splits if_splits exn.splits)

lemma create_result: "io_res (helper_of E) (create E w)"
proof -
  have prog: "PublicKey (getIdlWithProgramId E) = programId (cfg E)"
    by (cases "programId (cfg E)") (simp add: getIdlWithProgramId_def)
  show ?thesis
    unfolding create_def prog
    by (cases "connectionError E (rpcUrl (cfg E))")
      (auto simp: helper_of_def intro!: io_res_bind io_res_andThen io_res_ret io_res_throw exI)
qed

definition vault_authorities :: "env \<Rightarrow> (string \<times> pubkey) list" where
  "vault_authorities E = (let F = (\<lambda>s. findProgramAddress E [s] (programId (cfg E))) in
     [(''Offer Vault'', F ''offer_vault_authority''), (''Permissionless Vault'', F ''permissionless-1''),
      (''Redemption Vault'', F ''redemption_offer_vault_authority'')])"

definition row_of :: "env \<Rightarrow> (pubkey \<Rightarrow> bool) \<Rightarrow> string \<Rightarrow> pubkey \<Rightarrow> string \<times> pubkey \<Rightarrow> VaultBalance \<Rightarrow> bool" where
  "row_of E present name m ka r \<longleftrightarrow> vaultType r = fst ka \<and> tokenName r = name \<and> row_right E present m (snd ka) r"

lemma check_token_rows:
  assumes "knows E present" and "helper_of E h"
  shows "io_res (list_all2 (row_of E present name m) (vault_authorities E)) (check_token E h (name, JPk m))"
proof -
  have a: "vault_authorities E = [(''Offer Vault'', offerVaultAuthorityPda h),
      (''Permissionless Vault'', permissionlessVaultAuthorityPda h), (''Redemption Vault'', redemptionVaultAuthority E h)]"
    using assms(2) by (auto simp: helper_of_def new_ScriptHelper_def vault_authorities_def redemptionVaultAuthority_def Let_def)
  show ?thesis
    unfolding check_token_def Let_def prod.case a
    by (rule io_res_bind, rule io_res_andThen, (rule io_res_bind2 [OF checkVaultBalance_row [OF assms(1)]])+, rule io_res_ret)
      (simp add: row_of_def)
qed

text \<open>
  The report of the vaults is right: against a node that knows which accounts exist, it has a row for each of the
  three vaults of each token, in order; a row exists exactly if the node has the associated account of that vault, which
  it names; and the balance it shows is one that the node gave for this account.
\<close>

lemma vault_report_is_right:
  assumes "knows E present"
  shows "io_res (\<lambda>rs. \<exists>us os. rs = us @ os \<and> list_all2 (row_of E present ''USDC'' u) (vault_authorities E) us \<and>
      list_all2 (row_of E present ''ONyc'' m) (vault_authorities E) os)
    (checkAllVaultBalances E (JPk u) (JPk m))"
  unfolding checkAllVaultBalances_def TOKENS_TO_CHECK_def check_tokens.simps Let_def
  by (rule io_res_bind2 [OF create_result], rule io_res_andThen, rule io_res_bind2 [where S = "\<lambda>rs. \<exists>us os. rs = us @ os \<and>
        list_all2 (row_of E present ''USDC'' u) (vault_authorities E) us \<and> list_all2 (row_of E present ''ONyc'' m) (vault_authorities E) os"],
      rule io_res_bind2 [OF check_token_rows [OF assms]], assumption, rule io_res_bind2 [where S = "list_all2 (row_of E present ''ONyc'' m) (vault_authorities E)"],
      rule io_res_bind2 [OF check_token_rows [OF assms]], assumption)
    (auto simp: io_simps intro!: io_res_ret io_res_andThen)

lemma vault_report_is_right_witness:
  "io_res (\<lambda>rs. length rs = 6) (checkAllVaultBalances (demo [] [] True) (JPk MOCK_USDC_DEVNET) (JPk MOCK_ONYC_DEVNET))"
proof -
  have k: "knows (demo [] [] True) (\<lambda>_. True)" by (simp add: knows_def demo_def)
  show ?thesis
    by (rule io_res_mono [OF vault_report_is_right [OF k]]) (auto simp: vault_authorities_def Let_def dest!: list_all2_lengthD)
qed

text \<open>An account whose query fails is reported as missing; the module itself does not link.\<close>

lemma failed_query_is_missing:
  assumes "ata E (JPk m) (JPk a) True (JPk p) = Inr k" and "rpcAccountInfo E tr k = Inl (Library e)"
  shows "\<exists>r tr'. checkVaultBalance E (JPk m) p a name kind tr = (Inr r, tr') \<and> r \<in> set (missingAccounts [r])"
  using assms by (simp add: checkVaultBalance_def Let_def io_defs missingAccounts_def)

lemma report_does_not_start:
  "check_all_vault_balances E u m tr =
     (Inl (Library ''The requested module does not provide an export named USDC_MINT''), tr)"
  by (simp add: check_all_vault_balances_def link_imports_def script_helper_exports_def throw_def)

end
