(* ===== verification/Idl_Onre_Old.thy ===== *)
theory Idl_Onre_Old
  imports Idl_Core
begin

text \<open>
  \<^verbatim>\<open>scripts/programV3upgrade/old-idl/onre_app.ts\<close>: the description of a program, one definition per instruction
  (its accounts in parts where they are many) and per type. The texts of the documentation are left out.
\<close>

section \<open>Instructions\<close>

definition old_program1 :: string where
  "old_program1 =
    idl_bytes [140, 151, 37, 143, 78, 36, 137, 241, 187, 61, 16, 41, 20, 142, 13, 131, 11, 90, 19, 153, 218, 255,
               16, 132, 4, 142, 123, 216, 219, 233, 248, 89]"

definition old_program2 :: string where
  "old_program2 =
    idl_bytes [6, 221, 246, 225, 215, 101, 161, 147, 217, 203, 225, 70, 206, 235, 121, 172, 28, 180, 133, 237,
               95, 91, 55, 145, 58, 140, 245, 133, 126, 255, 0, 169]"

definition old_closeOfferOne_accounts1 :: "idl_account list" where
  "old_closeOfferOne_accounts1 =
    [(''offer'', [IsWritable]),
     (''offerSellTokenAccount'', [IsWritable, Pda [AccountSeed ''offerTokenAuthority'',
          ConstSeed old_program2,
          FieldSeed ''offer.sell_token_mint'' ''offer''] (Some (ConstSeed old_program1))])]"

definition old_closeOfferOne_accounts2 :: "idl_account list" where
  "old_closeOfferOne_accounts2 =
    [(''offerBuy1TokenAccount'', [IsWritable, Pda [AccountSeed ''offerTokenAuthority'',
          ConstSeed old_program2,
          FieldSeed ''offer.buy_token_1.mint'' ''offer''] (Some (ConstSeed old_program1))])]"

definition old_closeOfferOne_accounts3 :: "idl_account list" where
  "old_closeOfferOne_accounts3 =
    [(''bossBuy1TokenAccount'', [IsWritable, Pda [AccountSeed ''boss'',
          ConstSeed old_program2,
          FieldSeed ''offer.buy_token_1.mint'' ''offer''] (Some (ConstSeed old_program1))])]"

definition old_closeOfferOne_accounts4 :: "idl_account list" where
  "old_closeOfferOne_accounts4 =
    [(''bossSellTokenAccount'', [IsWritable, Pda [AccountSeed ''boss'',
          ConstSeed old_program2,
          FieldSeed ''offer.sell_token_mint'' ''offer''] (Some (ConstSeed old_program1))]),
     (''state'', []),
     (''offerTokenAuthority'', [Pda [ConstSeed ''offer_authority'', FieldSeed ''offer.offer_id'' ''offer''] None]),
     (''boss'', [IsWritable, IsSigner, Relations [''state'']])]"

definition old_closeOfferOne_accounts5 :: "idl_account list" where
  "old_closeOfferOne_accounts5 =
    [(''tokenProgram'', [Address ''TokenkegQfeZyiNwAJbNbGKPFXCWuBvf9Ss623VQ5DA'']),
     (''systemProgram'', [Address ''11111111111111111111111111111111''])]"

definition old_closeOfferOne :: idl_instruction where
  "old_closeOfferOne = \<lparr>ii_name = ''closeOfferOne'', ii_discriminator = [247, 43, 30, 202, 34, 58, 184, 52],
    ii_accounts =
      old_closeOfferOne_accounts1 @
      old_closeOfferOne_accounts2 @
      old_closeOfferOne_accounts3 @
      old_closeOfferOne_accounts4 @
      old_closeOfferOne_accounts5,
    ii_args = [],
    ii_returns = None\<rparr>"

definition old_closeOfferTwo_accounts1 :: "idl_account list" where
  "old_closeOfferTwo_accounts1 =
    [(''offer'', [IsWritable]),
     (''offerSellTokenAccount'', [IsWritable, Pda [AccountSeed ''offerTokenAuthority'',
          ConstSeed old_program2,
          FieldSeed ''offer.sell_token_mint'' ''offer''] (Some (ConstSeed old_program1))])]"

definition old_closeOfferTwo_accounts2 :: "idl_account list" where
  "old_closeOfferTwo_accounts2 =
    [(''offerBuy1TokenAccount'', [IsWritable, Pda [AccountSeed ''offerTokenAuthority'',
          ConstSeed old_program2,
          FieldSeed ''offer.buy_token_1.mint'' ''offer''] (Some (ConstSeed old_program1))])]"

definition old_closeOfferTwo_accounts3 :: "idl_account list" where
  "old_closeOfferTwo_accounts3 =
    [(''offerBuy2TokenAccount'', [IsWritable, Pda [AccountSeed ''offerTokenAuthority'',
          ConstSeed old_program2,
          FieldSeed ''offer.buy_token_2.mint'' ''offer''] (Some (ConstSeed old_program1))])]"

definition old_closeOfferTwo_accounts4 :: "idl_account list" where
  "old_closeOfferTwo_accounts4 =
    [(''bossBuy1TokenAccount'', [IsWritable, Pda [AccountSeed ''boss'',
          ConstSeed old_program2,
          FieldSeed ''offer.buy_token_1.mint'' ''offer''] (Some (ConstSeed old_program1))])]"

definition old_closeOfferTwo_accounts5 :: "idl_account list" where
  "old_closeOfferTwo_accounts5 =
    [(''bossBuy2TokenAccount'', [IsWritable, Pda [AccountSeed ''boss'',
          ConstSeed old_program2,
          FieldSeed ''offer.buy_token_2.mint'' ''offer''] (Some (ConstSeed old_program1))])]"

definition old_closeOfferTwo_accounts6 :: "idl_account list" where
  "old_closeOfferTwo_accounts6 =
    [(''bossSellTokenAccount'', [IsWritable, Pda [AccountSeed ''boss'',
          ConstSeed old_program2,
          FieldSeed ''offer.sell_token_mint'' ''offer''] (Some (ConstSeed old_program1))]),
     (''state'', []),
     (''offerTokenAuthority'', [Pda [ConstSeed ''offer_authority'', FieldSeed ''offer.offer_id'' ''offer''] None]),
     (''boss'', [IsWritable, IsSigner, Relations [''state'']])]"

definition old_closeOfferTwo_accounts7 :: "idl_account list" where
  "old_closeOfferTwo_accounts7 =
    [(''tokenProgram'', [Address ''TokenkegQfeZyiNwAJbNbGKPFXCWuBvf9Ss623VQ5DA'']),
     (''systemProgram'', [Address ''11111111111111111111111111111111''])]"

definition old_closeOfferTwo :: idl_instruction where
  "old_closeOfferTwo = \<lparr>ii_name = ''closeOfferTwo'', ii_discriminator = [167, 161, 190, 239, 98, 202, 193, 211],
    ii_accounts =
      old_closeOfferTwo_accounts1 @
      old_closeOfferTwo_accounts2 @
      old_closeOfferTwo_accounts3 @
      old_closeOfferTwo_accounts4 @
      old_closeOfferTwo_accounts5 @
      old_closeOfferTwo_accounts6 @
      old_closeOfferTwo_accounts7,
    ii_args = [],
    ii_returns = None\<rparr>"

definition old_initialize :: idl_instruction where
  "old_initialize = \<lparr>ii_name = ''initialize'', ii_discriminator = [175, 175, 109, 31, 13, 152, 155, 237],
    ii_accounts =
      [(''state'', [IsWritable, Pda [ConstSeed ''state''] None]),
       (''boss'', [IsWritable, IsSigner]),
       (''systemProgram'', [Address ''11111111111111111111111111111111''])],
    ii_args = [],
    ii_returns = None\<rparr>"

definition old_initializePermissionlessAccount :: idl_instruction where
  "old_initializePermissionlessAccount = \<lparr>ii_name = ''initializePermissionlessAccount'', ii_discriminator = [144, 160, 10, 56, 91, 17, 77, 115],
    ii_accounts =
      [(''permissionlessAccount'', [IsWritable, Pda [ConstSeed ''permissionless-1''] None]),
       (''state'', []),
       (''boss'', [IsWritable, IsSigner, Relations [''state'']]),
       (''systemProgram'', [Address ''11111111111111111111111111111111''])],
    ii_args = [(''name'', IString)],
    ii_returns = None\<rparr>"

definition old_makeOfferOne_accounts1 :: "idl_account list" where
  "old_makeOfferOne_accounts1 =
    [(''offer'', [IsWritable, Pda [ConstSeed ''offer'', ArgSeed ''offerId''] None]),
     (''offerSellTokenAccount'', [Pda [AccountSeed ''offerTokenAuthority'',
          ConstSeed old_program2,
          AccountSeed ''sellTokenMint''] (Some (ConstSeed old_program1))])]"

definition old_makeOfferOne_accounts2 :: "idl_account list" where
  "old_makeOfferOne_accounts2 =
    [(''offerBuyToken1Account'', [IsWritable, Pda [AccountSeed ''offerTokenAuthority'',
          ConstSeed old_program2,
          AccountSeed ''buyToken1Mint''] (Some (ConstSeed old_program1))]),
     (''offerTokenAuthority'', [Pda [ConstSeed ''offer_authority'', ArgSeed ''offerId''] None])]"

definition old_makeOfferOne_accounts3 :: "idl_account list" where
  "old_makeOfferOne_accounts3 =
    [(''bossBuyToken1Account'', [IsWritable, Pda [AccountSeed ''boss'',
          ConstSeed old_program2,
          AccountSeed ''buyToken1Mint''] (Some (ConstSeed old_program1))]),
     (''sellTokenMint'', []),
     (''buyToken1Mint'', []),
     (''state'', []),
     (''boss'', [IsWritable, IsSigner, Relations [''state'']]),
     (''tokenProgram'', [Address ''TokenkegQfeZyiNwAJbNbGKPFXCWuBvf9Ss623VQ5DA'']),
     (''systemProgram'', [Address ''11111111111111111111111111111111''])]"

definition old_makeOfferOne :: idl_instruction where
  "old_makeOfferOne = \<lparr>ii_name = ''makeOfferOne'', ii_discriminator = [252, 57, 117, 106, 175, 66, 183, 53],
    ii_accounts =
      old_makeOfferOne_accounts1 @
      old_makeOfferOne_accounts2 @
      old_makeOfferOne_accounts3,
    ii_args = [(''offerId'', IU64), (''buyTokenTotalAmount'', IU64), (''sellTokenStartAmount'', IU64), (''sellTokenEndAmount'', IU64), (''offerStartTime'', IU64), (''offerEndTime'', IU64), (''priceFixDuration'', IU64)],
    ii_returns = None\<rparr>"

definition old_makeOfferTwo_accounts1 :: "idl_account list" where
  "old_makeOfferTwo_accounts1 =
    [(''offer'', [IsWritable, Pda [ConstSeed ''offer'', ArgSeed ''offerId''] None]),
     (''offerSellTokenAccount'', [Pda [AccountSeed ''offerTokenAuthority'',
          ConstSeed old_program2,
          AccountSeed ''sellTokenMint''] (Some (ConstSeed old_program1))])]"

definition old_makeOfferTwo_accounts2 :: "idl_account list" where
  "old_makeOfferTwo_accounts2 =
    [(''offerBuyToken1Account'', [IsWritable, Pda [AccountSeed ''offerTokenAuthority'',
          ConstSeed old_program2,
          AccountSeed ''buyToken1Mint''] (Some (ConstSeed old_program1))])]"

definition old_makeOfferTwo_accounts3 :: "idl_account list" where
  "old_makeOfferTwo_accounts3 =
    [(''offerBuyToken2Account'', [IsWritable, Pda [AccountSeed ''offerTokenAuthority'',
          ConstSeed old_program2,
          AccountSeed ''buyToken2Mint''] (Some (ConstSeed old_program1))]),
     (''offerTokenAuthority'', [Pda [ConstSeed ''offer_authority'', ArgSeed ''offerId''] None])]"

definition old_makeOfferTwo_accounts4 :: "idl_account list" where
  "old_makeOfferTwo_accounts4 =
    [(''bossBuyToken1Account'', [IsWritable, Pda [AccountSeed ''boss'',
          ConstSeed old_program2,
          AccountSeed ''buyToken1Mint''] (Some (ConstSeed old_program1))])]"

definition old_makeOfferTwo_accounts5 :: "idl_account list" where
  "old_makeOfferTwo_accounts5 =
    [(''bossBuyToken2Account'', [IsWritable, Pda [AccountSeed ''boss'',
          ConstSeed old_program2,
          AccountSeed ''buyToken2Mint''] (Some (ConstSeed old_program1))]),
     (''sellTokenMint'', []),
     (''buyToken1Mint'', []),
     (''buyToken2Mint'', []),
     (''state'', []),
     (''boss'', [IsWritable, IsSigner, Relations [''state'']]),
     (''tokenProgram'', [Address ''TokenkegQfeZyiNwAJbNbGKPFXCWuBvf9Ss623VQ5DA'']),
     (''systemProgram'', [Address ''11111111111111111111111111111111''])]"

definition old_makeOfferTwo :: idl_instruction where
  "old_makeOfferTwo = \<lparr>ii_name = ''makeOfferTwo'', ii_discriminator = [213, 55, 86, 231, 52, 147, 202, 4],
    ii_accounts =
      old_makeOfferTwo_accounts1 @
      old_makeOfferTwo_accounts2 @
      old_makeOfferTwo_accounts3 @
      old_makeOfferTwo_accounts4 @
      old_makeOfferTwo_accounts5,
    ii_args = [(''offerId'', IU64), (''buyToken1TotalAmount'', IU64), (''buyToken2TotalAmount'', IU64), (''sellTokenStartAmount'', IU64), (''sellTokenEndAmount'', IU64), (''offerStartTime'', IU64), (''offerEndTime'', IU64), (''priceFixDuration'', IU64)],
    ii_returns = None\<rparr>"

definition old_setBoss :: idl_instruction where
  "old_setBoss = \<lparr>ii_name = ''setBoss'', ii_discriminator = [144, 141, 235, 104, 167, 250, 41, 54],
    ii_accounts =
      [(''state'', [IsWritable]),
       (''boss'', [IsSigner, Relations [''state'']]),
       (''systemProgram'', [Address ''11111111111111111111111111111111''])],
    ii_args = [(''newBoss'', IPubkey)],
    ii_returns = None\<rparr>"

definition old_takeOfferOne_accounts1 :: "idl_account list" where
  "old_takeOfferOne_accounts1 =
    [(''offer'', []),
     (''offerSellTokenAccount'', [IsWritable, Pda [AccountSeed ''offerTokenAuthority'',
          ConstSeed old_program2,
          FieldSeed ''offer.sell_token_mint'' ''offer''] (Some (ConstSeed old_program1))])]"

definition old_takeOfferOne_accounts2 :: "idl_account list" where
  "old_takeOfferOne_accounts2 =
    [(''offerBuyToken1Account'', [IsWritable, Pda [AccountSeed ''offerTokenAuthority'',
          ConstSeed old_program2,
          FieldSeed ''offer.buy_token_1.mint'' ''offer''] (Some (ConstSeed old_program1))])]"

definition old_takeOfferOne_accounts3 :: "idl_account list" where
  "old_takeOfferOne_accounts3 =
    [(''userSellTokenAccount'', [IsWritable, Pda [AccountSeed ''user'',
          ConstSeed old_program2,
          FieldSeed ''offer.sell_token_mint'' ''offer''] (Some (ConstSeed old_program1))])]"

definition old_takeOfferOne_accounts4 :: "idl_account list" where
  "old_takeOfferOne_accounts4 =
    [(''userBuyToken1Account'', [IsWritable, Pda [AccountSeed ''user'',
          ConstSeed old_program2,
          FieldSeed ''offer.buy_token_1.mint'' ''offer''] (Some (ConstSeed old_program1))]),
     (''offerTokenAuthority'', [Pda [ConstSeed ''offer_authority'', FieldSeed ''offer.offer_id'' ''offer''] None]),
     (''user'', [IsSigner]),
     (''tokenProgram'', [Address ''TokenkegQfeZyiNwAJbNbGKPFXCWuBvf9Ss623VQ5DA''])]"

definition old_takeOfferOne_accounts5 :: "idl_account list" where
  "old_takeOfferOne_accounts5 =
    [(''systemProgram'', [Address ''11111111111111111111111111111111''])]"

definition old_takeOfferOne :: idl_instruction where
  "old_takeOfferOne = \<lparr>ii_name = ''takeOfferOne'', ii_discriminator = [158, 12, 77, 84, 208, 241, 38, 105],
    ii_accounts =
      old_takeOfferOne_accounts1 @
      old_takeOfferOne_accounts2 @
      old_takeOfferOne_accounts3 @
      old_takeOfferOne_accounts4 @
      old_takeOfferOne_accounts5,
    ii_args = [(''sellTokenAmount'', IU64)],
    ii_returns = None\<rparr>"

definition old_takeOfferOnePermissionless_accounts1 :: "idl_account list" where
  "old_takeOfferOnePermissionless_accounts1 =
    [(''offer'', []),
     (''offerSellTokenAccount'', [IsWritable, Pda [AccountSeed ''offerTokenAuthority'',
          ConstSeed old_program2,
          FieldSeed ''offer.sell_token_mint'' ''offer''] (Some (ConstSeed old_program1))])]"

definition old_takeOfferOnePermissionless_accounts2 :: "idl_account list" where
  "old_takeOfferOnePermissionless_accounts2 =
    [(''offerBuyToken1Account'', [IsWritable, Pda [AccountSeed ''offerTokenAuthority'',
          ConstSeed old_program2,
          FieldSeed ''offer.buy_token_1.mint'' ''offer''] (Some (ConstSeed old_program1))])]"

definition old_takeOfferOnePermissionless_accounts3 :: "idl_account list" where
  "old_takeOfferOnePermissionless_accounts3 =
    [(''userSellTokenAccount'', [IsWritable, Pda [AccountSeed ''user'',
          ConstSeed old_program2,
          FieldSeed ''offer.sell_token_mint'' ''offer''] (Some (ConstSeed old_program1))])]"

definition old_takeOfferOnePermissionless_accounts4 :: "idl_account list" where
  "old_takeOfferOnePermissionless_accounts4 =
    [(''userBuyToken1Account'', [IsWritable, Pda [AccountSeed ''user'',
          ConstSeed old_program2,
          AccountSeed ''buyToken1Mint''] (Some (ConstSeed old_program1))])]"

definition old_takeOfferOnePermissionless_accounts5 :: "idl_account list" where
  "old_takeOfferOnePermissionless_accounts5 =
    [(''intermediaryBuyTokenAccount'', [IsWritable, Pda [AccountSeed ''intermediaryAuthority'',
          ConstSeed old_program2,
          AccountSeed ''buyToken1Mint''] (Some (ConstSeed old_program1))])]"

definition old_takeOfferOnePermissionless_accounts6 :: "idl_account list" where
  "old_takeOfferOnePermissionless_accounts6 =
    [(''intermediarySellTokenAccount'', [IsWritable, Pda [AccountSeed ''intermediaryAuthority'',
          ConstSeed old_program2,
          AccountSeed ''sellTokenMint''] (Some (ConstSeed old_program1))]),
     (''buyToken1Mint'', []),
     (''sellTokenMint'', []),
     (''offerTokenAuthority'', [Pda [ConstSeed ''offer_authority'', FieldSeed ''offer.offer_id'' ''offer''] None])]"

definition old_takeOfferOnePermissionless_accounts7 :: "idl_account list" where
  "old_takeOfferOnePermissionless_accounts7 =
    [(''intermediaryAuthority'', [Pda [ConstSeed ''permissionless-1''] None]),
     (''user'', [IsWritable, IsSigner]),
     (''tokenProgram'', [Address ''TokenkegQfeZyiNwAJbNbGKPFXCWuBvf9Ss623VQ5DA'']),
     (''associatedTokenProgram'', [Address ''ATokenGPvbdGVxr1b2hvZbsiqW5xWH25efTNsLJA8knL'']),
     (''systemProgram'', [Address ''11111111111111111111111111111111''])]"

definition old_takeOfferOnePermissionless :: idl_instruction where
  "old_takeOfferOnePermissionless = \<lparr>ii_name = ''takeOfferOnePermissionless'', ii_discriminator = [127, 154, 11, 211, 28, 202, 108, 174],
    ii_accounts =
      old_takeOfferOnePermissionless_accounts1 @
      old_takeOfferOnePermissionless_accounts2 @
      old_takeOfferOnePermissionless_accounts3 @
      old_takeOfferOnePermissionless_accounts4 @
      old_takeOfferOnePermissionless_accounts5 @
      old_takeOfferOnePermissionless_accounts6 @
      old_takeOfferOnePermissionless_accounts7,
    ii_args = [(''sellTokenAmount'', IU64)],
    ii_returns = None\<rparr>"

definition old_takeOfferTwo_accounts1 :: "idl_account list" where
  "old_takeOfferTwo_accounts1 =
    [(''offer'', []),
     (''offerSellTokenAccount'', [IsWritable, Pda [AccountSeed ''offerTokenAuthority'',
          ConstSeed old_program2,
          FieldSeed ''offer.sell_token_mint'' ''offer''] (Some (ConstSeed old_program1))])]"

definition old_takeOfferTwo_accounts2 :: "idl_account list" where
  "old_takeOfferTwo_accounts2 =
    [(''offerBuyToken1Account'', [IsWritable, Pda [AccountSeed ''offerTokenAuthority'',
          ConstSeed old_program2,
          FieldSeed ''offer.buy_token_1.mint'' ''offer''] (Some (ConstSeed old_program1))])]"

definition old_takeOfferTwo_accounts3 :: "idl_account list" where
  "old_takeOfferTwo_accounts3 =
    [(''offerBuyToken2Account'', [IsWritable, Pda [AccountSeed ''offerTokenAuthority'',
          ConstSeed old_program2,
          FieldSeed ''offer.buy_token_2.mint'' ''offer''] (Some (ConstSeed old_program1))])]"

definition old_takeOfferTwo_accounts4 :: "idl_account list" where
  "old_takeOfferTwo_accounts4 =
    [(''userSellTokenAccount'', [IsWritable, Pda [AccountSeed ''user'',
          ConstSeed old_program2,
          FieldSeed ''offer.sell_token_mint'' ''offer''] (Some (ConstSeed old_program1))])]"

definition old_takeOfferTwo_accounts5 :: "idl_account list" where
  "old_takeOfferTwo_accounts5 =
    [(''userBuyToken1Account'', [IsWritable, Pda [AccountSeed ''user'',
          ConstSeed old_program2,
          FieldSeed ''offer.buy_token_1.mint'' ''offer''] (Some (ConstSeed old_program1))])]"

definition old_takeOfferTwo_accounts6 :: "idl_account list" where
  "old_takeOfferTwo_accounts6 =
    [(''userBuyToken2Account'', [IsWritable, Pda [AccountSeed ''user'',
          ConstSeed old_program2,
          FieldSeed ''offer.buy_token_2.mint'' ''offer''] (Some (ConstSeed old_program1))]),
     (''offerTokenAuthority'', [Pda [ConstSeed ''offer_authority'', FieldSeed ''offer.offer_id'' ''offer''] None]),
     (''user'', [IsSigner]),
     (''tokenProgram'', [Address ''TokenkegQfeZyiNwAJbNbGKPFXCWuBvf9Ss623VQ5DA''])]"

definition old_takeOfferTwo_accounts7 :: "idl_account list" where
  "old_takeOfferTwo_accounts7 =
    [(''systemProgram'', [Address ''11111111111111111111111111111111''])]"

definition old_takeOfferTwo :: idl_instruction where
  "old_takeOfferTwo = \<lparr>ii_name = ''takeOfferTwo'', ii_discriminator = [108, 4, 105, 245, 192, 17, 51, 114],
    ii_accounts =
      old_takeOfferTwo_accounts1 @
      old_takeOfferTwo_accounts2 @
      old_takeOfferTwo_accounts3 @
      old_takeOfferTwo_accounts4 @
      old_takeOfferTwo_accounts5 @
      old_takeOfferTwo_accounts6 @
      old_takeOfferTwo_accounts7,
    ii_args = [(''sellTokenAmount'', IU64)],
    ii_returns = None\<rparr>"

definition old_instructions :: "idl_instruction list" where
  "old_instructions =
    [old_closeOfferOne, old_closeOfferTwo, old_initialize, old_initializePermissionlessAccount, old_makeOfferOne,
     old_makeOfferTwo, old_setBoss, old_takeOfferOne, old_takeOfferOnePermissionless, old_takeOfferTwo]"

lemmas old_instruction_defs = old_closeOfferOne_def old_closeOfferTwo_def old_initialize_def old_initializePermissionlessAccount_def
  old_makeOfferOne_def old_makeOfferTwo_def old_setBoss_def old_takeOfferOne_def
  old_takeOfferOnePermissionless_def old_takeOfferTwo_def

lemmas old_account_defs = old_closeOfferOne_accounts1_def old_closeOfferOne_accounts2_def old_closeOfferOne_accounts3_def
  old_closeOfferOne_accounts4_def old_closeOfferOne_accounts5_def old_closeOfferTwo_accounts1_def
  old_closeOfferTwo_accounts2_def old_closeOfferTwo_accounts3_def old_closeOfferTwo_accounts4_def
  old_closeOfferTwo_accounts5_def old_closeOfferTwo_accounts6_def old_closeOfferTwo_accounts7_def
  old_makeOfferOne_accounts1_def old_makeOfferOne_accounts2_def old_makeOfferOne_accounts3_def
  old_makeOfferTwo_accounts1_def old_makeOfferTwo_accounts2_def old_makeOfferTwo_accounts3_def
  old_makeOfferTwo_accounts4_def old_makeOfferTwo_accounts5_def old_takeOfferOne_accounts1_def
  old_takeOfferOne_accounts2_def old_takeOfferOne_accounts3_def old_takeOfferOne_accounts4_def
  old_takeOfferOne_accounts5_def old_takeOfferOnePermissionless_accounts1_def
  old_takeOfferOnePermissionless_accounts2_def old_takeOfferOnePermissionless_accounts3_def
  old_takeOfferOnePermissionless_accounts4_def old_takeOfferOnePermissionless_accounts5_def
  old_takeOfferOnePermissionless_accounts6_def old_takeOfferOnePermissionless_accounts7_def
  old_takeOfferTwo_accounts1_def old_takeOfferTwo_accounts2_def old_takeOfferTwo_accounts3_def
  old_takeOfferTwo_accounts4_def old_takeOfferTwo_accounts5_def old_takeOfferTwo_accounts6_def
  old_takeOfferTwo_accounts7_def old_program1_def old_program2_def

section \<open>Accounts, events and errors\<close>

definition old_accounts :: "(string \<times> nat list) list" where
  "old_accounts =
    [(''offer'', [215, 88, 60, 71, 170, 162, 73, 229]),
     (''permissionlessAccount'', [9, 107, 135, 228, 163, 199, 67, 169]),
     (''state'', [216, 146, 107, 94, 104, 75, 182, 177])]"

definition old_events :: "(string \<times> nat list) list" where
  "old_events =
    [(''bossUpdated'', [240, 140, 218, 236, 20, 65, 191, 69]),
     (''offerClosed'', [237, 38, 102, 204, 165, 180, 177, 164]),
     (''offerMadeOne'', [81, 5, 201, 107, 138, 87, 65, 107]),
     (''offerMadeTwo'', [205, 102, 99, 79, 132, 214, 101, 36]),
     (''offerTakenOne'', [236, 152, 189, 93, 219, 176, 60, 184]),
     (''offerTakenOnePermissionless'', [254, 0, 6, 196, 21, 185, 214, 157]),
     (''offerTakenTwo'', [141, 240, 230, 3, 59, 131, 90, 98]),
     (''tokensTransferred'', [140, 86, 106, 38, 85, 157, 202, 250])]"

definition old_errors :: "(nat \<times> string \<times> string) list" where
  "old_errors =
    [(6000, ''insufficientOfferTokenOneBalance'', ''Insufficient tokens remaining in the offer for token 1.''),
     (6001, ''invalidSellTokenMint'', ''The sell token mint does not match the offer.''),
     (6002, ''invalidBuyTokenMint'', ''The buy token mint does not match the offer.''),
     (6003, ''invalidTakeOffer'', ''The offer is of 2 buy token type.''),
     (6004, ''calculationOverflow'', ''Calculation overflowed or invalid.''),
     (6005, ''zeroBuyTokenAmount'', ''Zero buy token amount.''),
     (6006, ''invalidCurrentTime'', ''Current time must be within the offer's start and end time range.'')]"

section \<open>Types\<close>

definition old_type_bossUpdated :: idl_typedef where
  "old_type_bossUpdated = \<lparr>td_name = ''bossUpdated'', td_serialization = None, td_repr = None,
    td_fields = [(''oldBoss'', IPubkey), (''newBoss'', IPubkey)],
    td_variants = []\<rparr>"

definition old_type_offer :: idl_typedef where
  "old_type_offer = \<lparr>td_name = ''offer'', td_serialization = None, td_repr = None,
    td_fields = [(''offerId'', IU64), (''sellTokenStartAmount'', IU64), (''sellTokenEndAmount'', IU64),
                 (''sellTokenMint'', IPubkey), (''buyToken1'', IDefined ''offerToken''),
                 (''buyToken2'', IDefined ''offerToken''), (''authorityBump'', IU8),
                 (''priceFixDuration'', IU64), (''offerStartTime'', IU64), (''offerEndTime'', IU64)],
    td_variants = []\<rparr>"

definition old_type_offerClosed :: idl_typedef where
  "old_type_offerClosed = \<lparr>td_name = ''offerClosed'', td_serialization = None, td_repr = None,
    td_fields = [(''offerId'', IU64), (''boss'', IPubkey), (''numBuyTokens'', IU8)],
    td_variants = []\<rparr>"

definition old_type_offerMadeOne :: idl_typedef where
  "old_type_offerMadeOne = \<lparr>td_name = ''offerMadeOne'', td_serialization = None, td_repr = None,
    td_fields = [(''offerId'', IU64), (''boss'', IPubkey), (''buyTokenTotalAmount'', IU64),
                 (''sellTokenStartAmount'', IU64), (''sellTokenEndAmount'', IU64), (''offerStartTime'', IU64),
                 (''offerEndTime'', IU64), (''priceFixDuration'', IU64)],
    td_variants = []\<rparr>"

definition old_type_offerMadeTwo :: idl_typedef where
  "old_type_offerMadeTwo = \<lparr>td_name = ''offerMadeTwo'', td_serialization = None, td_repr = None,
    td_fields = [(''offerId'', IU64), (''boss'', IPubkey), (''buyToken1TotalAmount'', IU64),
                 (''buyToken2TotalAmount'', IU64), (''sellTokenStartAmount'', IU64),
                 (''sellTokenEndAmount'', IU64), (''offerStartTime'', IU64), (''offerEndTime'', IU64),
                 (''priceFixDuration'', IU64)],
    td_variants = []\<rparr>"

definition old_type_offerTakenOne :: idl_typedef where
  "old_type_offerTakenOne = \<lparr>td_name = ''offerTakenOne'', td_serialization = None, td_repr = None,
    td_fields = [(''offerId'', IU64), (''user'', IPubkey), (''sellTokenAmount'', IU64),
                 (''buyToken1Amount'', IU64), (''remainingBuyTokenAmount'', IU64)],
    td_variants = []\<rparr>"

definition old_type_offerTakenOnePermissionless :: idl_typedef where
  "old_type_offerTakenOnePermissionless = \<lparr>td_name = ''offerTakenOnePermissionless'', td_serialization = None, td_repr = None,
    td_fields = [(''offerId'', IU64), (''user'', IPubkey), (''sellTokenAmount'', IU64),
                 (''buyToken1Amount'', IU64), (''remainingBuyTokenAmount'', IU64),
                 (''intermediaryAccount'', IPubkey)],
    td_variants = []\<rparr>"

definition old_type_offerTakenTwo :: idl_typedef where
  "old_type_offerTakenTwo = \<lparr>td_name = ''offerTakenTwo'', td_serialization = None, td_repr = None,
    td_fields = [(''offerId'', IU64), (''user'', IPubkey), (''sellTokenAmount'', IU64),
                 (''buyToken1Amount'', IU64), (''buyToken2Amount'', IU64), (''remainingBuyToken1Amount'', IU64),
                 (''remainingBuyToken2Amount'', IU64)],
    td_variants = []\<rparr>"

definition old_type_offerToken :: idl_typedef where
  "old_type_offerToken = \<lparr>td_name = ''offerToken'', td_serialization = None, td_repr = None,
    td_fields = [(''mint'', IPubkey), (''amount'', IU64)],
    td_variants = []\<rparr>"

definition old_type_permissionlessAccount :: idl_typedef where
  "old_type_permissionlessAccount = \<lparr>td_name = ''permissionlessAccount'', td_serialization = None, td_repr = None,
    td_fields = [(''name'', IString)],
    td_variants = []\<rparr>"

definition old_type_state :: idl_typedef where
  "old_type_state = \<lparr>td_name = ''state'', td_serialization = None, td_repr = None,
    td_fields = [(''boss'', IPubkey)],
    td_variants = []\<rparr>"

definition old_type_tokensTransferred :: idl_typedef where
  "old_type_tokensTransferred = \<lparr>td_name = ''tokensTransferred'', td_serialization = None, td_repr = None,
    td_fields = [(''offerId'', IU64), (''fromAccount'', IPubkey), (''toAccount'', IPubkey), (''amount'', IU64)],
    td_variants = []\<rparr>"

definition old_types :: "idl_typedef list" where
  "old_types =
    [old_type_bossUpdated, old_type_offer, old_type_offerClosed, old_type_offerMadeOne, old_type_offerMadeTwo,
     old_type_offerTakenOne, old_type_offerTakenOnePermissionless, old_type_offerTakenTwo, old_type_offerToken,
     old_type_permissionlessAccount, old_type_state, old_type_tokensTransferred]"

lemmas old_type_defs = old_type_bossUpdated_def old_type_offer_def old_type_offerClosed_def old_type_offerMadeOne_def
  old_type_offerMadeTwo_def old_type_offerTakenOne_def old_type_offerTakenOnePermissionless_def
  old_type_offerTakenTwo_def old_type_offerToken_def old_type_permissionlessAccount_def old_type_state_def
  old_type_tokensTransferred_def

section \<open>The description\<close>

definition OnreApp :: idl where
  "OnreApp = \<lparr>idl_address = ''onreuGhHHgVzMWSkj2oQDLDtvvGvoepBPkqyaubFcwe'',
    idl_metadata = [(''name'', ''onreApp''), (''version'', ''0.1.0''), (''spec'', ''0.1.0''),
                    (''description'', ''Created with Anchor'')],
    idl_instructions = old_instructions, idl_accounts = old_accounts, idl_events = old_events,
    idl_errors = old_errors, idl_types = old_types\<rparr>"

end
