(* ===== verification/Idl_Old_Calls.thy ===== *)
theory Idl_Old_Calls
  imports Script_Upgrade Idl_Onre_Old Idl_Calls
begin

text \<open>
  The one call of the program before version 3, which closes its offer, against the description of that program: it has
  no arguments, its named accounts are described, and the client can complete the others.
\<close>

definition old_call_fits :: "tx_ix \<Rightarrow> bool" where
  "old_call_fits ix = (\<exists>c d. ix = OldIx c \<and> find_ix OnreApp (mc_method c) = Some d \<and> length (mc_args c) = length (ii_args d) \<and>
     distinct (List.map fst (mc_accounts c)) \<and>
     set (List.map fst (mc_accounts c)) \<subseteq> set (List.map fst (ii_accounts d)) \<and>
     unresolved d (List.map fst (mc_accounts c)) = [])"

lemma find_closeOfferOne: "find_ix OnreApp ''closeOfferOne'' = Some old_closeOfferOne"
  by (simp add: find_ix_def OnreApp_def old_instructions_def old_instruction_defs)

text \<open>The upgrade reads the address of the offer's program where the description has it.\<close>

lemma old_program: "PublicKey (idl_address OnreApp) = PROGRAM_ID"
  by (simp add: OnreApp_def PROGRAM_ID_def)

lemma old_paths [simp]:
  "path_account ''offer.sell_token_mint'' = ''offer''" "path_account ''offer.buy_token_1.mint'' = ''offer''"
  "path_account ''offer_token_authority'' = ''offerTokenAuthority''" "path_account ''offerTokenAuthority'' = ''offerTokenAuthority''"
  "path_account ''offer.offer_id'' = ''offer''"
  by code_simp+

lemmas close_accounts = old_closeOfferOne_def old_closeOfferOne_accounts1_def old_closeOfferOne_accounts2_def
  old_closeOfferOne_accounts3_def old_closeOfferOne_accounts4_def old_closeOfferOne_accounts5_def

definition close_names :: "string list" where
  "close_names = [''offer'', ''offerSellTokenAccount'', ''offerBuy1TokenAccount'', ''bossBuy1TokenAccount'', ''bossSellTokenAccount'',
     ''state'', ''offerTokenAuthority'', ''boss'']"

lemma close_names_fit:
  "distinct close_names" "set close_names \<subseteq> set (List.map fst (ii_accounts old_closeOfferOne))"
  by (simp_all add: close_names_def close_accounts)

lemma close_names_resolve: "unresolved old_closeOfferOne close_names = []"
  by (simp add: close_names_def close_accounts account_eval)

lemma closeOfferIx_fits: "io_res old_call_fits (closeOfferIx E offer authority BOSS pda st)"
proof -
  have "old_call_fits (OldIx c)" if "mc_method c = ''closeOfferOne''" "mc_args c = []" "List.map fst (mc_accounts c) = close_names" for c
    unfolding old_call_fits_def
    by (rule exI [of _ c], rule exI [of _ old_closeOfferOne])
      (use that close_names_fit close_names_resolve in \<open>simp add: find_closeOfferOne, simp add: old_closeOfferOne_def\<close>)
  then show ?thesis
    unfolding closeOfferIx_def old_instruction_def Let_def
    by (intro io_res_bind) (auto simp: close_names_def intro: io_res_ret io_res_throw split: option.split)
qed

end
