(* ===== verification/Cctp_Core.thy ===== *)
theory Cctp_Core
  imports Io_Logic
begin

text \<open>
  What the scripts of \<^verbatim>\<open>scripts/cross_chain_transfer\<close> work with: hexadecimal text and numbers of the standard
  library, the calls to the two chains as they are handed to the libraries, their events, and the record of everything
  outside: web3.js, Anchor, ethers, the two chains, the attestation service and the process environment.
\<close>

section \<open>Hexadecimal text\<close>

definition hex_val :: "char \<Rightarrow> nat option" where
  "hex_val x = (let n = (of_char x :: nat) in
     if 48 \<le> n \<and> n \<le> 57 then Some (n - 48) else if 97 \<le> n \<and> n \<le> 102 then Some (n - 87)
     else if 65 \<le> n \<and> n \<le> 70 then Some (n - 55) else None)"

text \<open>\<open>Buffer.from(s, "hex")\<close> ends at the first pair that is none, and drops a last single digit.\<close>

fun hex_decode :: "string \<Rightarrow> string" where
  "hex_decode (x # y # s) = (case (hex_val x, hex_val y) of
     (Some a, Some b) \<Rightarrow> char_of (16 * a + b) # hex_decode s | _ \<Rightarrow> [])"
| "hex_decode s = []"

definition hex_char :: "nat \<Rightarrow> char" where
  "hex_char n = ''0123456789abcdef'' ! n"

definition hex_encode :: "string \<Rightarrow> string" where
  "hex_encode b = concat (List.map (\<lambda>x. [hex_char (of_char x div 16), hex_char (of_char x mod 16)]) b)"

definition hexToBytes :: "string \<Rightarrow> string" where
  "hexToBytes hex = hex_decode (replace_first ''0x'' [] hex)"

definition evmAddressToBytes32 :: "string \<Rightarrow> string" where
  "evmAddressToBytes32 address = ''0x000000000000000000000000'' @ replace_first ''0x'' [] address"

section \<open>Numbers from text\<close>

fun radix_val :: "nat \<Rightarrow> string \<Rightarrow> nat option" where
  "radix_val r s = (if s = [] then None else foldl (\<lambda>a x. Option.bind a (\<lambda>n. Option.bind (hex_val x) (\<lambda>d.
     if d < r then Some (r * n + d) else None))) (Some 0) s)"

text \<open>The number that a text with one of the prefixes of an integer in another radix stands for.\<close>

definition prefixed :: "string \<Rightarrow> nat option option" where
  "prefixed t = (if length t < 2 \<or> hd t \<noteq> CHR ''0'' then None
     else let p = toLowerCase [t ! 1]; u = drop 2 t in
       if p = ''x'' then Some (radix_val 16 u) else if p = ''o'' then Some (radix_val 8 u)
       else if p = ''b'' then Some (radix_val 2 u) else None)"

definition unsign :: "string \<Rightarrow> bool \<times> string" where
  "unsign t = (if t \<noteq> [] \<and> hd t \<in> {CHR ''-'', CHR ''+''} then (hd t = CHR ''-'', tl t) else (False, t))"

text \<open>\<open>BigInt(s)\<close> of a text\<close>

definition js_BigInt :: "string \<Rightarrow> exn + int" where
  "js_BigInt s = (let t = js_trim s; bad = Inl (Error (''Cannot convert '' @ s @ '' to a BigInt'')) in
     if t = [] then Inr 0
     else case prefixed t of
       Some (Some n) \<Rightarrow> Inr (int n)
     | Some None \<Rightarrow> bad
     | None \<Rightarrow> (let (neg, u) = unsign t in
         case radix_val 10 u of Some n \<Rightarrow> Inr (if neg then - int n else int n) | None \<Rightarrow> bad))"

text \<open>\<open>Number(s)\<close> of a text: a decimal literal as a whole.\<close>

definition decimal_literal :: "string \<Rightarrow> bool" where
  "decimal_literal u = (u = ''Infinity'' \<or>
     (let r = dropWhile is_digit u;
          (fp, q) = (if r \<noteq> [] \<and> hd r = CHR ''.'' then (takeWhile is_digit (tl r), dropWhile is_digit (tl r)) else ([], r));
          (neg, e) = (if q = [] then (False, []) else unsign (tl q))
      in takeWhile is_digit u @ fp \<noteq> [] \<and>
         (q = [] \<or> hd q \<in> {CHR ''e'', CHR ''E''} \<and> e \<noteq> [] \<and> list_all is_digit e)))"

definition js_Number :: "string \<Rightarrow> jsnum" where
  "js_Number s = (let t = js_trim s in
     if t = [] then Fin 0
     else case prefixed t of
       Some (Some n) \<Rightarrow> to_double (of_nat n)
     | Some None \<Rightarrow> NaN
     | None \<Rightarrow> if decimal_literal (snd (unsign t)) then parseFloat t else NaN)"

section \<open>Calls and events\<close>

datatype cval = CUndef | CNum jsnum | CInt int | CText string | CBytes string | CKey pubkey

definition ctext :: "string option \<Rightarrow> cval" where
  "ctext s = (case s of None \<Rightarrow> CUndef | Some t \<Rightarrow> CText t)"

record account_meta =
  am_pubkey :: pubkey
  am_signer :: bool
  am_writable :: bool

text \<open>A call of a Solana program through Anchor: its one argument is a struct.\<close>

record sol_call =
  sc_program :: pubkey
  sc_method :: string
  sc_params :: "(string \<times> cval) list"
  sc_accounts :: "(string \<times> pubkey) list"
  sc_partial :: bool
  sc_remaining :: "account_meta list"
  sc_signers :: "pubkey list"

text \<open>A call of an Ethereum contract; the nonce is an option of the transaction.\<close>

record evm_call =
  ec_contract :: "string option"
  ec_method :: string
  ec_params :: "cval list"
  ec_nonce :: "int option"

text \<open>An answer of the attestation service: whether it has an error, and the messages, if there are any.\<close>

record att_message =
  at_message :: "string option"
  at_attestation :: "string option"

record att_response =
  ar_error :: bool
  ar_messages :: "att_message list option"

record receipt =
  rc_status :: int
  rc_hash :: string

datatype cctp_event =
    Out string
  | OutArgs "(string \<times> cval) list"
  | OutResponse string att_response
  | Err string
  | ErrReceipt string receipt
  | HttpGet string
  | Slept nat
  | SolQuery string pubkey
  | SolBlockhash
  | SolView sol_call
  | SolSend sol_call
  | SolCreateAta pubkey pubkey pubkey pubkey
  | EvmCount string
  | EvmRead evm_call
  | EvmSend evm_call
  | EvmWait string

type_synonym ctrace = "cctp_event list"

type_synonym 'a crun = "(cctp_event, 'a) run"

section \<open>The outside\<close>

record outside_world =
  penv :: "string \<Rightarrow> string option"
  \<comment> \<open>\<open>new PublicKey(text)\<close> and \<open>new PublicKey(bytes)\<close>\<close>
  key_of_text :: "string option \<Rightarrow> exn + pubkey"
  key_of_bytes :: "string \<Rightarrow> exn + pubkey"
  key_bytes :: "pubkey \<Rightarrow> string"
  bs58_decode :: "string option \<Rightarrow> exn + string"
  bs58_encode :: "string \<Rightarrow> string"
  hexlify :: "string \<Rightarrow> string"
  getBytes :: "string \<Rightarrow> exn + string"
  \<comment> \<open>\<open>PublicKey.findProgramAddressSync\<close>, which finds an address for the seeds used here (at most 32 bytes each)\<close>
  find_address :: "string list \<Rightarrow> pubkey \<Rightarrow> pubkey \<times> nat"
  token_address :: "pubkey \<Rightarrow> pubkey \<Rightarrow> exn + pubkey"
  connection_error :: "string option \<Rightarrow> exn option"
  keypair_of_secret :: "string \<Rightarrow> exn + pubkey"
  fresh_keypair :: "ctrace \<Rightarrow> pubkey"
  token_program :: pubkey
  system_program :: pubkey
  \<comment> \<open>\<open>new anchor.BN(value)\<close>\<close>
  anchor_BN :: "cval \<Rightarrow> exn + int"
  \<comment> \<open>ethers: the address of a wallet, and what constructing a contract throws\<close>
  evm_wallet :: "string option \<Rightarrow> exn + string"
  contract_error :: "string option \<Rightarrow> exn option"
  evm_count :: "ctrace \<Rightarrow> string \<Rightarrow> exn + int"
  evm_read :: "ctrace \<Rightarrow> evm_call \<Rightarrow> exn + int"
  evm_send :: "ctrace \<Rightarrow> evm_call \<Rightarrow> exn + string"
  evm_wait :: "ctrace \<Rightarrow> string \<Rightarrow> exn + receipt"
  sol_account_exists :: "ctrace \<Rightarrow> pubkey \<Rightarrow> exn + bool"
  sol_blockhash :: "ctrace \<Rightarrow> exn + string"
  sol_create_ata :: "ctrace \<Rightarrow> pubkey \<Rightarrow> exn + string"
  sol_view :: "ctrace \<Rightarrow> sol_call \<Rightarrow> exn + pubkey"
  sol_rpc :: "ctrace \<Rightarrow> sol_call \<Rightarrow> exn + string"
  \<comment> \<open>the account \<open>tokenMessenger\<close>, as far as it is read\<close>
  fee_recipient :: "ctrace \<Rightarrow> pubkey \<Rightarrow> exn + pubkey"
  http :: "ctrace \<Rightarrow> string \<Rightarrow> exn + att_response"
  \<comment> \<open>what the console shows for a property of an error, if it has it\<close>
  error_property :: "exn \<Rightarrow> string \<Rightarrow> string option"
  \<comment> \<open>what minimist makes of the arguments after the command, none of them given twice\<close>
  rawArgs :: "string \<Rightarrow> string option"
  commandName :: "string option"

text \<open>Calling the method \<open>replace\<close> of a value that may be missing.\<close>

definition replaceable :: "string option \<Rightarrow> exn + string" where
  "replaceable v = (case v of Some s \<Rightarrow> Inr s
     | None \<Rightarrow> Inl (TypeError ''Cannot read properties of undefined (reading 'replace')''))"

definition out :: "string \<Rightarrow> unit crun" where
  "out s = tell (Out s)"

definition send_evm :: "outside_world \<Rightarrow> evm_call \<Rightarrow> string crun" where
  "send_evm C call = outside (EvmSend call) (\<lambda>tr. evm_send C tr call)"

definition wait_evm :: "outside_world \<Rightarrow> string \<Rightarrow> receipt crun" where
  "wait_evm C hash = outside (EvmWait hash) (\<lambda>tr. evm_wait C tr hash)"

definition read_evm :: "outside_world \<Rightarrow> evm_call \<Rightarrow> int crun" where
  "read_evm C call = outside (EvmRead call) (\<lambda>tr. evm_read C tr call)"

definition send_sol :: "outside_world \<Rightarrow> sol_call \<Rightarrow> string crun" where
  "send_sol C call = outside (SolSend call) (\<lambda>tr. sol_rpc C tr call)"

definition new_Contract :: "outside_world \<Rightarrow> string option \<Rightarrow> unit crun" where
  "new_Contract C address = (case contract_error C address of Some e \<Rightarrow> throw e | None \<Rightarrow> ret ())"

section \<open>Round trips\<close>

text \<open>The sixteen digits, one by one.\<close>

lemma below_16: "n < 16 \<longleftrightarrow> n \<in> {0, 1, 2, 3, 4, 5, 6, 7, 8, 9, 10, 11, 12, 13, 14, 15}" for n :: nat
  by (simp, presburger)

lemma hex_val_char: "n < 16 \<Longrightarrow> hex_val (hex_char n) = Some n"
  unfolding below_16 by (auto simp: hex_char_def hex_val_def Let_def)

lemma hex_char_digit: "n < 16 \<Longrightarrow> hex_char n \<noteq> CHR ''x''"
  unfolding below_16 by (auto simp: hex_char_def)

lemma byte_halves: "(of_char x :: nat) div 16 < 16" "(of_char x :: nat) mod 16 < 16"
proof -
  have "(of_char x :: nat) < 256" by simp
  then show "(of_char x :: nat) div 16 < 16" by linarith
qed simp

lemma hex_decode_encode: "hex_decode (hex_encode b) = b"
proof (induction b)
  case (Cons x b)
  have "hex_decode (hex_encode (x # b)) = char_of (16 * (of_char x div 16) + of_char x mod 16 :: nat) # hex_decode (hex_encode b)"
    by (simp add: hex_encode_def hex_val_char byte_halves)
  then show ?case using Cons by simp
qed (simp add: hex_encode_def)

lemma replace_absent: "CHR ''x'' \<notin> set s \<Longrightarrow> replace_first ''0x'' [] s = s"
proof (induction s)
  case (Cons a s)
  then have "\<not> js_starts_with ''0x'' (a # s)" by (cases s) auto
  with Cons show ?case by (subst replace_first.simps) (simp del: js_starts_with.simps)
qed (simp add: replace_first.simps)

lemma hex_encode_plain: "CHR ''x'' \<notin> set (hex_encode b)"
proof -
  have "CHR ''x'' \<noteq> hex_char (of_char a div 16)" "CHR ''x'' \<noteq> hex_char (of_char a mod 16)" for a :: char
    using hex_char_digit [OF byte_halves(1)] hex_char_digit [OF byte_halves(2)] by metis+
  then show ?thesis by (auto simp: hex_encode_def)
qed

lemma hexToBytes_hex: "hexToBytes (''0x'' @ hex_encode b) = b" "hexToBytes (hex_encode b) = b"
  by (simp_all add: hexToBytes_def replace_first.simps [of _ _ "_ # _"] replace_absent [OF hex_encode_plain] hex_decode_encode)

end
