(* ===== verification/Cctp_V1.thy ===== *)
theory Cctp_V1
  imports Cctp_Core
begin

text \<open>
  Version 1 of the cross-chain transfers, \<^verbatim>\<open>scripts/cross_chain_transfer/cctp_v1\<close>: the helpers of \<open>utils.ts\<close>
  (addresses, decoding of messages, the attestation loop) and the two scripts, \<open>transfer_eth2sol.ts\<close> and
  \<open>transfer_sol2eth.ts\<close>.
\<close>

section \<open>Helpers\<close>

definition IRIS_API_URL :: string where
  "IRIS_API_URL = ''https://iris-api.circle.com''"

definition SOLANA_DOMAIN_ID :: nat where
  "SOLANA_DOMAIN_ID = 5"

definition ETH_DOMAIN_ID :: nat where
  "ETH_DOMAIN_ID = 0"

text \<open>The provider is the public key of its wallet.\<close>

definition getAnchorConnection :: "outside_world \<Rightarrow> pubkey crun" where
  "getAnchorConnection W = (case connection_error W (penv W ''SOL_DEVNET_RPC_URL'') of
       Some e \<Rightarrow> throw e
     | None \<Rightarrow> bind (lift (bs58_decode W (penv W ''SOL_SENDER_PRIVATE_KEY''))) (\<lambda>secret.
         lift (keypair_of_secret W secret)))"

text \<open>The programs are the addresses of their interface descriptions.\<close>

record programs =
  messageTransmitterProgram :: pubkey
  tokenMessengerMinterProgram :: pubkey

definition getPrograms :: programs where
  "getPrograms = \<lparr>messageTransmitterProgram = PublicKey ''CCTPmbSD7gX1bxKPAmg77w8oFzNFpaQiQUWD43TKaecd'',
     tokenMessengerMinterProgram = PublicKey ''CCTPiPYPc6AsJuwueEnWgSgucamXDZwBd53dQ11YiKX3''\<rparr>"

datatype seed = SeedText string | SeedBytes string | SeedKey pubkey

fun seed_bytes :: "outside_world \<Rightarrow> seed \<Rightarrow> string" where
  "seed_bytes W (SeedText s) = s"
| "seed_bytes W (SeedBytes b) = b"
| "seed_bytes W (SeedKey k) = key_bytes W k"

record FindProgramAddressResponse =
  publicKey :: pubkey
  bump :: nat

definition find_program_address :: "outside_world \<Rightarrow> string \<Rightarrow> pubkey \<Rightarrow> seed list \<Rightarrow> FindProgramAddressResponse" where
  "find_program_address W label p extraSeeds = (let res = find_address W (label # List.map (seed_bytes W) extraSeeds) p in
     \<lparr>publicKey = fst res, bump = snd res\<rparr>)"

record deposit_pdas =
  dp_messageTransmitterAccount :: FindProgramAddressResponse
  dp_tokenMessengerAccount :: FindProgramAddressResponse
  dp_tokenMinterAccount :: FindProgramAddressResponse
  dp_localToken :: FindProgramAddressResponse
  dp_remoteTokenMessengerKey :: FindProgramAddressResponse
  dp_authorityPda :: FindProgramAddressResponse

definition getDepositForBurnPdas :: "outside_world \<Rightarrow> programs \<Rightarrow> pubkey \<Rightarrow> nat \<Rightarrow> deposit_pdas" where
  "getDepositForBurnPdas W P usdcAddress destinationDomain = \<lparr>
     dp_messageTransmitterAccount = find_program_address W ''message_transmitter'' (messageTransmitterProgram P) [],
     dp_tokenMessengerAccount = find_program_address W ''token_messenger'' (tokenMessengerMinterProgram P) [],
     dp_tokenMinterAccount = find_program_address W ''token_minter'' (tokenMessengerMinterProgram P) [],
     dp_localToken = find_program_address W ''local_token'' (tokenMessengerMinterProgram P) [SeedKey usdcAddress],
     dp_remoteTokenMessengerKey = find_program_address W ''remote_token_messenger'' (tokenMessengerMinterProgram P)
       [SeedText (nat_str destinationDomain)],
     dp_authorityPda = find_program_address W ''sender_authority'' (tokenMessengerMinterProgram P) []\<rparr>"

record receive_pdas =
  rp_messageTransmitterAccount :: FindProgramAddressResponse
  rp_tokenMessengerAccount :: FindProgramAddressResponse
  rp_tokenMinterAccount :: FindProgramAddressResponse
  rp_localToken :: FindProgramAddressResponse
  rp_remoteTokenMessengerKey :: FindProgramAddressResponse
  rp_remoteTokenKey :: pubkey
  rp_tokenPair :: FindProgramAddressResponse
  rp_custodyTokenAccount :: FindProgramAddressResponse
  rp_authorityPda :: pubkey
  rp_tokenMessengerEventAuthority :: FindProgramAddressResponse

text \<open>The addresses that both versions of \<open>getReceiveMessagePdas\<close> compute in the same way.\<close>

definition receive_addresses :: "outside_world \<Rightarrow> programs \<Rightarrow> pubkey \<Rightarrow> string option \<Rightarrow> string \<Rightarrow> exn + receive_pdas" where
  "receive_addresses W P solUsdcAddress remoteUsdcAddressHex remoteDomain =
     (case replaceable remoteUsdcAddressHex of Inl e \<Rightarrow> Inl e | Inr hex \<Rightarrow>
      (case key_of_bytes W (hexToBytes hex) of Inl e \<Rightarrow> Inl e | Inr remoteTokenKey \<Rightarrow> Inr \<lparr>
     rp_messageTransmitterAccount = find_program_address W ''message_transmitter'' (messageTransmitterProgram P) [],
     rp_tokenMessengerAccount = find_program_address W ''token_messenger'' (tokenMessengerMinterProgram P) [],
     rp_tokenMinterAccount = find_program_address W ''token_minter'' (tokenMessengerMinterProgram P) [],
     rp_localToken = find_program_address W ''local_token'' (tokenMessengerMinterProgram P) [SeedKey solUsdcAddress],
     rp_remoteTokenMessengerKey = find_program_address W ''remote_token_messenger'' (tokenMessengerMinterProgram P)
       [SeedText remoteDomain],
     rp_remoteTokenKey = remoteTokenKey,
     rp_tokenPair = find_program_address W ''token_pair'' (tokenMessengerMinterProgram P)
       [SeedText remoteDomain, SeedKey remoteTokenKey],
     rp_custodyTokenAccount = find_program_address W ''custody'' (tokenMessengerMinterProgram P) [SeedKey solUsdcAddress],
     rp_authorityPda = publicKey (find_program_address W ''message_transmitter_authority'' (messageTransmitterProgram P)
       [SeedKey (tokenMessengerMinterProgram P)]),
     rp_tokenMessengerEventAuthority = find_program_address W ''__event_authority'' (tokenMessengerMinterProgram P) []\<rparr>))"

definition getReceiveMessagePdas ::
  "outside_world \<Rightarrow> programs \<Rightarrow> pubkey \<Rightarrow> string option \<Rightarrow> string \<Rightarrow> string \<Rightarrow> (receive_pdas \<times> pubkey) crun" where
  "getReceiveMessagePdas W P solUsdcAddress remoteUsdcAddressHex remoteDomain nonce =
     bind (lift (receive_addresses W P solUsdcAddress remoteUsdcAddressHex remoteDomain)) (\<lambda>pdas.
     bind (lift (anchor_BN W (CText nonce))) (\<lambda>n.
     let call = \<lparr>sc_program = messageTransmitterProgram P, sc_method = ''getNoncePda'',
           sc_params = [(''nonce'', CInt n), (''sourceDomain'', CNum (js_Number remoteDomain))],
           sc_accounts = [(''messageTransmitter'', publicKey (rp_messageTransmitterAccount pdas))],
           sc_partial = False, sc_remaining = [], sc_signers = []\<rparr>
     in bind (outside (SolView call) (\<lambda>tr. sol_view W tr call)) (\<lambda>usedNonces. ret (pdas, usedNonces))))"

definition solanaAddressToHex :: "outside_world \<Rightarrow> string \<Rightarrow> exn + string" where
  "solanaAddressToHex W solanaAddress = map_sum id (hexlify W) (bs58_decode W (Some solanaAddress))"

definition evmAddressToSolana :: "outside_world \<Rightarrow> string \<Rightarrow> string" where
  "evmAddressToSolana W evmAddress = bs58_encode W (hexToBytes evmAddress)"

text \<open>\<open>message.subarray(12, 20)\<close>, read as a number\<close>

definition decodeEventNonceFromMessage :: "outside_world \<Rightarrow> string option \<Rightarrow> exn + string" where
  "decodeEventNonceFromMessage W messageHex = (case replaceable messageHex of Inl e \<Rightarrow> Inl e
     | Inr s \<Rightarrow> map_sum id int_str (js_BigInt (hexlify W (take 8 (drop 12 (hexToBytes s))))))"

section \<open>The attestation\<close>

text \<open>The answer \<open>{}\<close> before the first call is pending as well.\<close>

definition pending :: "att_response \<Rightarrow> bool" where
  "pending r \<longleftrightarrow> ar_error r \<or> (case ar_messages r of None \<Rightarrow> True
     | Some ms \<Rightarrow> (case ms of [] \<Rightarrow> False | m # _ \<Rightarrow> at_attestation m = Some ''PENDING''))"

text \<open>\<open>const { message, attestation } = attestationResponse.messages[0]\<close>\<close>

definition first_message :: "att_response \<Rightarrow> exn + string option \<times> string option" where
  "first_message r = (case ar_messages r of
       Some (m # _) \<Rightarrow> Inr (at_message m, at_attestation m)
     | _ \<Rightarrow> Inl (TypeError ''Cannot destructure property 'message' of 'attestationResponse.messages[0]' as it is undefined.''))"

definition attestation_url :: "nat \<Rightarrow> string \<Rightarrow> string" where
  "attestation_url domainId txHash = IRIS_API_URL @ ''/messages/'' @ nat_str domainId @ ''/'' @ txHash"

definition attempt_line :: "nat \<Rightarrow> string \<Rightarrow> string" where
  "attempt_line attempts txHash = ''[Attempt: '' @ nat_str attempts @ ''] Fetching attestation for '' @ txHash @ '' ...''"

text \<open>The loop after \<open>attempts\<close> pending answers, with \<open>left\<close> more attempts before \<open>maxRetries\<close> is reached.\<close>

fun attestation_loop :: "outside_world \<Rightarrow> string \<Rightarrow> nat \<Rightarrow> nat \<Rightarrow> nat \<Rightarrow> nat \<Rightarrow> (string option \<times> string option) crun" where
  "attestation_loop W txHash domainId retryDelay attempts 0 =
     throw (Error ''Max retries reached while fetching attestation messages.'')"
| "attestation_loop W txHash domainId retryDelay attempts (Suc left) =
     andThen (out (attempt_line attempts txHash))
     (bind (outside (HttpGet (attestation_url domainId txHash)) (\<lambda>tr. http W tr (attestation_url domainId txHash))) (\<lambda>r.
        if pending r then andThen (tell (Slept retryDelay)) (attestation_loop W txHash domainId retryDelay (Suc attempts) left)
        else lift (first_message r)))"

definition getAttestation :: "outside_world \<Rightarrow> string \<Rightarrow> nat \<Rightarrow> nat \<Rightarrow> nat \<Rightarrow> (string option \<times> string option) crun" where
  "getAttestation W txHash domainId maxRetries retryDelay = attestation_loop W txHash domainId retryDelay 0 maxRetries"

section \<open>From Ethereum to Solana\<close>

text \<open>What \<open>transfer_eth2sol.ts\<close> computes when it is loaded.\<close>

record eth2sol_setup =
  es_amount :: int
  es_wallet :: pubkey
  es_signer :: string
  es_recipient_account :: pubkey

definition big_amount :: "string option \<Rightarrow> exn + int" where
  "big_amount v = (case v of None \<Rightarrow> Inl (TypeError ''Cannot convert undefined to a BigInt'') | Some s \<Rightarrow> js_BigInt s)"

definition load_eth2sol :: "outside_world \<Rightarrow> eth2sol_setup crun" where
  "load_eth2sol W =
     bind (lift (big_amount (penv W ''USDC_AMOUNT''))) (\<lambda>amount.
     bind (getAnchorConnection W) (\<lambda>wallet.
     bind (lift (evm_wallet W (penv W ''ETH_SENDER_PRIVATE_KEY''))) (\<lambda>signer.
     bind (lift (key_of_text W (penv W ''SOL_USDC_ADDRESS''))) (\<lambda>mint.
     bind (lift (key_of_text W (penv W ''SOL_RECIPIENT_ADDRESS''))) (\<lambda>recipient.
     bind (lift (token_address W mint recipient)) (\<lambda>ata.
     ret \<lparr>es_amount = amount, es_wallet = wallet, es_signer = signer, es_recipient_account = ata\<rparr>))))))"

text \<open>The printed details of an error, as far as it has them.\<close>

fun error_details :: "outside_world \<Rightarrow> (string \<times> string) list \<Rightarrow> exn \<Rightarrow> unit crun" where
  "error_details W [] e = ret ()"
| "error_details W ((name, label) # ps) e = andThen
     (case error_property W e name of None \<Rightarrow> ret () | Some t \<Rightarrow> tell (Err (label @ '' '' @ t))) (error_details W ps e)"

definition report_error :: "outside_world \<Rightarrow> string \<Rightarrow> (string \<times> string) list \<Rightarrow> exn \<Rightarrow> unit crun" where
  "report_error W place ps e = andThen (tell (Err (''Error in '' @ place @ '':'')))
     (andThen (tell (Err (''Error message: '' @ exn_message e))) (error_details W ps e))"

text \<open>The parts of \<open>burnUSDC\<close>: the approval, the checks, the token account and the deposit.\<close>

definition approve_usdc :: "outside_world \<Rightarrow> eth2sol_setup \<Rightarrow> unit crun" where
  "approve_usdc W S =
     andThen (new_Contract W (penv W ''ETH_USDC_ADDRESS''))
     (bind (outside (EvmCount (es_signer S)) (\<lambda>tr. evm_count W tr (es_signer S))) (\<lambda>nonce.
      bind (send_evm W \<lparr>ec_contract = penv W ''ETH_USDC_ADDRESS'', ec_method = ''approve'',
              ec_params = [ctext (penv W ''ETH_TOKEN_MESSENGER_ADDRESS''), CInt (es_amount S)], ec_nonce = Some nonce\<rparr>) (\<lambda>hash.
      bind (wait_evm W hash) (\<lambda>_.
      out (''USDC transfer approved for TokenMessenger, txHash: '' @ hash)))))"

definition check_funds :: "outside_world \<Rightarrow> eth2sol_setup \<Rightarrow> unit crun" where
  "check_funds W S =
     bind (read_evm W \<lparr>ec_contract = penv W ''ETH_USDC_ADDRESS'', ec_method = ''balanceOf'',
             ec_params = [CText (es_signer S)], ec_nonce = None\<rparr>) (\<lambda>balance.
     bind (read_evm W \<lparr>ec_contract = penv W ''ETH_USDC_ADDRESS'', ec_method = ''allowance'',
             ec_params = [CText (es_signer S), ctext (penv W ''ETH_TOKEN_MESSENGER_ADDRESS'')], ec_nonce = None\<rparr>) (\<lambda>allowance.
     if allowance < es_amount S
     then throw (Error (''Insufficient allowance. Current: '' @ int_str allowance @ '', Required: '' @ int_str (es_amount S)))
     else if balance < es_amount S
     then throw (Error (''Insufficient balance. Current: '' @ int_str balance @ '', Required: '' @ int_str (es_amount S)))
     else ret ()))"

definition ensure_recipient_account :: "outside_world \<Rightarrow> eth2sol_setup \<Rightarrow> unit crun" where
  "ensure_recipient_account W S =
     bind (outside (SolQuery ''getAccountInfo'' (es_recipient_account S)) (\<lambda>tr. sol_account_exists W tr (es_recipient_account S))) (\<lambda>found.
     if found then ret ()
     else andThen (out ''Creating associated token account for recipient...'')
      (bind (lift (key_of_text W (penv W ''SOL_RECIPIENT_ADDRESS''))) (\<lambda>owner.
       bind (lift (key_of_text W (penv W ''SOL_USDC_ADDRESS''))) (\<lambda>mint.
       bind (outside SolBlockhash (sol_blockhash W)) (\<lambda>_.
       bind (outside (SolCreateAta (es_wallet S) (es_recipient_account S) owner mint)
              (\<lambda>tr. sol_create_ata W tr (es_recipient_account S))) (\<lambda>t.
       out (''Created ATA transaction: '' @ t)))))))"

definition deposit_eth :: "outside_world \<Rightarrow> eth2sol_setup \<Rightarrow> string \<Rightarrow> string crun" where
  "deposit_eth W S recipientHex =
     try_catch
       (bind (outside (EvmCount (es_signer S)) (\<lambda>tr. evm_count W tr (es_signer S))) (\<lambda>nonce.
        bind (send_evm W \<lparr>ec_contract = penv W ''ETH_TOKEN_MESSENGER_ADDRESS'', ec_method = ''depositForBurn'',
                ec_params = [CInt (es_amount S), CInt (int SOLANA_DOMAIN_ID), CText recipientHex, ctext (penv W ''ETH_USDC_ADDRESS'')],
                ec_nonce = Some nonce\<rparr>) (\<lambda>hash.
        andThen (out (''DepositForBurn transaction sent: '' @ hash))
        (bind (wait_evm W hash) (\<lambda>_. ret hash)))))
       (\<lambda>e. andThen (report_error W ''burnUSDC'' [(''data'', ''Error data:''), (''transaction'', ''Transaction:'')] e) (throw e))"

definition burn_on_ethereum :: "outside_world \<Rightarrow> eth2sol_setup \<Rightarrow> string crun" where
  "burn_on_ethereum W S =
     andThen (approve_usdc W S)
     (andThen (new_Contract W (penv W ''ETH_TOKEN_MESSENGER_ADDRESS''))
     (andThen (check_funds W S)
     (bind (lift (solanaAddressToHex W (toBase58 (es_recipient_account S)))) (\<lambda>recipientHex.
      andThen (ensure_recipient_account W S) (deposit_eth W S recipientHex)))))"

definition meta :: "bool \<Rightarrow> pubkey \<Rightarrow> account_meta" where
  "meta w k = \<lparr>am_pubkey = k, am_signer = False, am_writable = w\<rparr>"

definition receive_metas :: "outside_world \<Rightarrow> receive_pdas \<Rightarrow> pubkey \<Rightarrow> pubkey \<Rightarrow> account_meta list" where
  "receive_metas W pdas recipientAccount minter =
     [meta False (publicKey (rp_tokenMessengerAccount pdas)), meta False (publicKey (rp_remoteTokenMessengerKey pdas)),
      meta True (publicKey (rp_tokenMinterAccount pdas)), meta True (publicKey (rp_localToken pdas)),
      meta False (publicKey (rp_tokenPair pdas)), meta True recipientAccount,
      meta True (publicKey (rp_custodyTokenAccount pdas)), meta False (token_program W),
      meta False (publicKey (rp_tokenMessengerEventAuthority pdas)), meta False minter]"

definition mint_on_solana :: "outside_world \<Rightarrow> eth2sol_setup \<Rightarrow> string option \<Rightarrow> string option \<Rightarrow> unit crun" where
  "mint_on_solana W S messageHex attestationHex =
     bind (lift (key_of_text W (penv W ''SOL_USDC_ADDRESS''))) (\<lambda>mint.
     bind (lift (decodeEventNonceFromMessage W messageHex)) (\<lambda>nonce.
     bind (getReceiveMessagePdas W getPrograms mint (penv W ''ETH_USDC_ADDRESS'') (nat_str ETH_DOMAIN_ID) nonce) (\<lambda>(pdas, usedNonces).
     try_catch
       (bind (lift (replaceable messageHex)) (\<lambda>m.
        bind (lift (replaceable attestationHex)) (\<lambda>a.
        bind (send_sol W \<lparr>sc_program = messageTransmitterProgram getPrograms, sc_method = ''receiveMessage'',
            sc_params = [(''message'', CBytes (hexToBytes m)), (''attestation'', CBytes (hexToBytes a))],
            sc_accounts = [(''payer'', es_wallet S), (''caller'', es_wallet S), (''authorityPda'', rp_authorityPda pdas),
              (''messageTransmitter'', publicKey (rp_messageTransmitterAccount pdas)), (''usedNonces'', usedNonces),
              (''receiver'', tokenMessengerMinterProgram getPrograms), (''systemProgram'', system_program W)],
            sc_partial = True,
            sc_remaining = receive_metas W pdas (es_recipient_account S) (tokenMessengerMinterProgram getPrograms),
            sc_signers = []\<rparr>) (\<lambda>t.
        out (''ReceiveMessage transaction sent: '' @ t)))))
       (\<lambda>e. andThen (report_error W ''mintUSDC'' [(''logs'', ''Transaction logs:'')] e) (throw e)))))"

definition transfer_eth2sol :: "outside_world \<Rightarrow> unit crun" where
  "transfer_eth2sol W =
     bind (load_eth2sol W) (\<lambda>S.
     bind (burn_on_ethereum W S) (\<lambda>txHash.
     bind (getAttestation W txHash ETH_DOMAIN_ID 40 40000) (\<lambda>(message, attestation).
     mint_on_solana W S message attestation)))"

section \<open>From Solana to Ethereum\<close>

record sol2eth_setup =
  se_amount :: jsnum
  se_wallet :: pubkey
  se_sender_account :: pubkey

definition load_sol2eth :: "outside_world \<Rightarrow> sol2eth_setup crun" where
  "load_sol2eth W =
     bind (getAnchorConnection W) (\<lambda>wallet.
     bind (lift (key_of_text W (penv W ''SOL_USDC_ADDRESS''))) (\<lambda>mint.
     bind (lift (token_address W mint wallet)) (\<lambda>ata.
     ret \<lparr>se_amount = (case penv W ''USDC_AMOUNT'' of None \<Rightarrow> NaN | Some s \<Rightarrow> js_Number s),
       se_wallet = wallet, se_sender_account = ata\<rparr>)))"

text \<open>\<open>new PublicKey(getBytes(evmAddressToBytes32(address)))\<close>\<close>

definition evm_recipient :: "outside_world \<Rightarrow> string option \<Rightarrow> exn + pubkey" where
  "evm_recipient W address = (case replaceable address of Inl e \<Rightarrow> Inl e
     | Inr s \<Rightarrow> (case getBytes W (evmAddressToBytes32 s) of Inl e \<Rightarrow> Inl e | Inr b \<Rightarrow> key_of_bytes W b))"

definition burn_on_solana :: "outside_world \<Rightarrow> sol2eth_setup \<Rightarrow> string crun" where
  "burn_on_solana W S =
     bind (lift (evm_recipient W (penv W ''ETH_RECIPIENT_ADDRESS''))) (\<lambda>mintRecipient.
     bind (lift (key_of_text W (penv W ''SOL_USDC_ADDRESS''))) (\<lambda>usdc.
     let pdas = getDepositForBurnPdas W getPrograms usdc ETH_DOMAIN_ID in
     bind (observe (fresh_keypair W)) (\<lambda>eventAccount.
     bind (lift (anchor_BN W (CNum (se_amount S)))) (\<lambda>amount.
     bind (lift (key_of_text W (penv W ''SOL_USDC_ADDRESS''))) (\<lambda>burnMint.
     bind (send_sol W \<lparr>sc_program = tokenMessengerMinterProgram getPrograms, sc_method = ''depositForBurn'',
         sc_params = [(''amount'', CInt amount), (''destinationDomain'', CInt (int ETH_DOMAIN_ID)), (''mintRecipient'', CKey mintRecipient)],
         sc_accounts = [(''owner'', se_wallet S), (''eventRentPayer'', se_wallet S),
           (''senderAuthorityPda'', publicKey (dp_authorityPda pdas)), (''localToken'', publicKey (dp_localToken pdas)),
           (''messageTransmitter'', publicKey (dp_messageTransmitterAccount pdas)),
           (''tokenMessenger'', publicKey (dp_tokenMessengerAccount pdas)),
           (''remoteTokenMessenger'', publicKey (dp_remoteTokenMessengerKey pdas)),
           (''tokenMinter'', publicKey (dp_tokenMinterAccount pdas)), (''burnTokenMint'', burnMint),
           (''burnTokenAccount'', se_sender_account S),
           (''messageTransmitterProgram'', messageTransmitterProgram getPrograms),
           (''tokenMessengerMinterProgram'', tokenMessengerMinterProgram getPrograms),
           (''messageSentEventData'', eventAccount), (''tokenProgram'', token_program W), (''systemProgram'', system_program W)],
         sc_partial = True, sc_remaining = [], sc_signers = [eventAccount]\<rparr>) (\<lambda>t.
     andThen (out (''DepositForBurn transaction sent: '' @ t)) (ret t)))))))"

text \<open>The failure of the call on Ethereum is printed and swallowed; the constructors are outside the \<open>try\<close>.\<close>

definition mint_on_ethereum :: "outside_world \<Rightarrow> string option \<Rightarrow> string option \<Rightarrow> string option crun" where
  "mint_on_ethereum W message attestation =
     bind (lift (evm_wallet W (penv W ''ETH_PAYER_PRIVATE_KEY''))) (\<lambda>_.
     andThen (new_Contract W (penv W ''ETH_MESSAGE_TRANSMITTER_ADDRESS''))
     (try_catch
       (bind (send_evm W \<lparr>ec_contract = penv W ''ETH_MESSAGE_TRANSMITTER_ADDRESS'', ec_method = ''receiveMessage'',
                ec_params = [ctext message, ctext attestation], ec_nonce = None\<rparr>) (\<lambda>hash.
        andThen (out (''Received message on Ethereum. Tx: '' @ hash)) (ret (Some hash))))
       (\<lambda>e. andThen (report_error W ''mintUSDC'' [] e) (ret None))))"

definition transfer_sol2eth :: "outside_world \<Rightarrow> unit crun" where
  "transfer_sol2eth W =
     bind (load_sol2eth W) (\<lambda>S.
     bind (burn_on_solana W S) (\<lambda>txHash.
     bind (getAttestation W txHash SOLANA_DOMAIN_ID 40 2000) (\<lambda>(message, attestation).
     bind (mint_on_ethereum W message attestation) (\<lambda>_. ret ()))))"

end
