(* ===== verification/Cctp_V2.thy ===== *)
theory Cctp_V2
  imports Cctp_V1
begin

text \<open>
  Version 2 of the cross-chain transfers, \<^verbatim>\<open>scripts/cross_chain_transfer/cctp_v2\<close>: \<open>utils-v2.ts\<close>, the Ethereum side
  \<open>evm.ts\<close>, the Solana side \<open>solana.ts\<close> and the command \<open>transfer-v2.ts\<close>. The command polls the attestation service
  without a bound, so it is a partial function: None is a run that never ends.
\<close>

section \<open>Helpers\<close>

definition getProgramsV2 :: programs where
  "getProgramsV2 = \<lparr>messageTransmitterProgram = PublicKey ''CCTPV2Sm4AdWt5296sk4P66VBZ7bEhcARwFaaS9YPbeC'',
     tokenMessengerMinterProgram = PublicKey ''CCTPV2vPZJS2u2BBsUoscuikbYjnpFmbFsvVuJdgUMQe''\<rparr>"

definition getDepositForBurnPdasV2 :: "outside_world \<Rightarrow> programs \<Rightarrow> pubkey \<Rightarrow> nat \<Rightarrow> deposit_pdas" where
  "getDepositForBurnPdasV2 W P usdcAddress destinationDomain = getDepositForBurnPdas W P usdcAddress destinationDomain"

record receive_pdas_v2 =
  r2_addresses :: receive_pdas
  r2_usedNonce :: pubkey
  r2_feeRecipientTokenAccount :: pubkey

definition getReceiveMessagePdasV2 ::
  "outside_world \<Rightarrow> programs \<Rightarrow> pubkey \<Rightarrow> string option \<Rightarrow> string \<Rightarrow> string \<Rightarrow> receive_pdas_v2 crun" where
  "getReceiveMessagePdasV2 W P solUsdcAddress remoteUsdcAddressHex remoteDomain nonce =
     bind (lift (receive_addresses W P solUsdcAddress remoteUsdcAddressHex remoteDomain)) (\<lambda>pdas.
     let usedNonce = publicKey (find_program_address W ''used_nonce'' (messageTransmitterProgram P) [SeedBytes nonce]);
         messenger = publicKey (rp_tokenMessengerAccount pdas)
     in bind (outside (SolQuery ''tokenMessenger'' messenger) (\<lambda>tr. fee_recipient W tr messenger)) (\<lambda>feeRecipient.
     bind (lift (token_address W solUsdcAddress feeRecipient)) (\<lambda>feeRecipientTokenAccount.
     ret \<lparr>r2_addresses = pdas, r2_usedNonce = usedNonce, r2_feeRecipientTokenAccount = feeRecipientTokenAccount\<rparr>)))"

definition getMessageTransmitterAccount :: "outside_world \<Rightarrow> pubkey \<Rightarrow> FindProgramAddressResponse" where
  "getMessageTransmitterAccount W p = find_program_address W ''message_transmitter'' p []"

text \<open>\<open>message.subarray(12, 44)\<close>\<close>

definition decodeEventNonceFromMessageV2 :: "outside_world \<Rightarrow> string option \<Rightarrow> exn + string" where
  "decodeEventNonceFromMessageV2 W messageHex =
     map_sum id (\<lambda>s. take 32 (drop 12 (hexToBytes s))) (replaceable messageHex)"

section \<open>The Ethereum side\<close>

definition evm_destination_caller :: "outside_world \<Rightarrow> string" where
  "evm_destination_caller W = (case penv W ''DESTINATION_CALLER'' of Some s \<Rightarrow> s
     | None \<Rightarrow> ''0x0000000000000000000000000000000000000000000000000000000000000000'')"

definition getContracts :: "outside_world \<Rightarrow> unit crun" where
  "getContracts W = bind (lift (evm_wallet W (penv W ''ETH_SENDER_PRIVATE_KEY''))) (\<lambda>_.
     andThen (new_Contract W (penv W ''ETH_USDC_ADDRESS''))
     (andThen (new_Contract W (penv W ''ETH_TOKEN_MESSENGER_ADDRESS_V2''))
     (new_Contract W (penv W ''ETH_MESSAGE_TRANSMITTER_ADDRESS_V2''))))"

text \<open>Sending a transaction, waiting for it, and throwing when its status is not 1.\<close>

definition confirmed_evm :: "outside_world \<Rightarrow> string \<Rightarrow> evm_call \<Rightarrow> string crun" where
  "confirmed_evm W what call =
     bind (send_evm W call) (\<lambda>tx. bind (wait_evm W tx) (\<lambda>r.
     if rc_status r \<noteq> 1 then andThen (tell (ErrReceipt (''Failed to '' @ what) r)) (throw (Error (''Failed to '' @ what)))
     else ret (rc_hash r)))"

definition approve :: "outside_world \<Rightarrow> jsnum \<Rightarrow> unit crun" where
  "approve W amount =
     andThen (out ''Approving USDC spend on EVM...'')
     (bind (confirmed_evm W ''approve USDC spend'' \<lparr>ec_contract = penv W ''ETH_USDC_ADDRESS'', ec_method = ''approve'',
        ec_params = [ctext (penv W ''ETH_TOKEN_MESSENGER_ADDRESS_V2''), CNum amount], ec_nonce = None\<rparr>) (\<lambda>hash.
      out (''USDC spend approved '' @ hash)))"

definition evm_deposit_params :: "outside_world \<Rightarrow> string \<Rightarrow> jsnum \<Rightarrow> jsnum \<Rightarrow> jsnum \<Rightarrow> cval list" where
  "evm_deposit_params W account amount maxFee minFinalityThreshold =
     [CNum amount, CInt 5, CText (hexlify W account), ctext (penv W ''ETH_USDC_ADDRESS''),
      CText (evm_destination_caller W), CNum maxFee, CNum minFinalityThreshold]"

definition depositForBurnEvm :: "outside_world \<Rightarrow> jsnum \<Rightarrow> jsnum \<Rightarrow> jsnum \<Rightarrow> string crun" where
  "depositForBurnEvm W amount maxFee minFinalityThreshold =
     andThen (getContracts W)
     (andThen (approve W amount)
     (andThen (out ''Depositing for burn on EVM...'')
     (bind (lift (bs58_decode W (penv W ''USER_TOKEN_ACCOUNT''))) (\<lambda>account.
      confirmed_evm W ''deposit for burn'' \<lparr>ec_contract = penv W ''ETH_TOKEN_MESSENGER_ADDRESS_V2'',
        ec_method = ''depositForBurn'',
        ec_params = evm_deposit_params W account amount maxFee minFinalityThreshold, ec_nonce = None\<rparr>))))"

definition depositForBurnEvmWithHook :: "outside_world \<Rightarrow> jsnum \<Rightarrow> jsnum \<Rightarrow> jsnum \<Rightarrow> string \<Rightarrow> string crun" where
  "depositForBurnEvmWithHook W amount maxFee minFinalityThreshold hookData =
     andThen (getContracts W)
     (andThen (approve W amount)
     (andThen (out ''Depositing for burn on EVM with hook...'')
     (bind (lift (bs58_decode W (penv W ''USER_TOKEN_ACCOUNT''))) (\<lambda>account.
      confirmed_evm W ''deposit for burn'' \<lparr>ec_contract = penv W ''ETH_TOKEN_MESSENGER_ADDRESS_V2'',
        ec_method = ''depositForBurnWithHook'',
        ec_params = evm_deposit_params W account amount maxFee minFinalityThreshold @ [CText hookData], ec_nonce = None\<rparr>))))"

definition receiveMessageEvm :: "outside_world \<Rightarrow> string option \<Rightarrow> string option \<Rightarrow> string crun" where
  "receiveMessageEvm W message attestation =
     andThen (out ''Receiving message on EVM...'')
     (andThen (getContracts W)
     (confirmed_evm W ''receive message'' \<lparr>ec_contract = penv W ''ETH_MESSAGE_TRANSMITTER_ADDRESS_V2'',
        ec_method = ''receiveMessage'', ec_params = [ctext message, ctext attestation], ec_nonce = None\<rparr>))"

section \<open>The Solana side\<close>

text \<open>What \<open>solana.ts\<close> computes when it is loaded.\<close>

record solana_side =
  ss_destinationCaller :: pubkey
  ss_wallet :: pubkey
  ss_usdcAddress :: pubkey
  ss_userTokenAccount :: pubkey

definition load_solana :: "outside_world \<Rightarrow> solana_side crun" where
  "load_solana W =
     bind (lift (key_of_text W (case penv W ''DESTINATION_CALLER'' of Some s \<Rightarrow> Some s
             | None \<Rightarrow> Some (toBase58 PublicKey_default)))) (\<lambda>caller.
     bind (getAnchorConnection W) (\<lambda>wallet.
     bind (lift (key_of_text W (penv W ''SOL_USDC_ADDRESS''))) (\<lambda>usdc.
     bind (lift (key_of_text W (penv W ''USER_TOKEN_ACCOUNT''))) (\<lambda>account.
     ret \<lparr>ss_destinationCaller = caller, ss_wallet = wallet, ss_usdcAddress = usdc, ss_userTokenAccount = account\<rparr>))))"

definition sol_deposit_params :: "solana_side \<Rightarrow> pubkey \<Rightarrow> int \<Rightarrow> int \<Rightarrow> jsnum \<Rightarrow> (string \<times> cval) list" where
  "sol_deposit_params S mintRecipient amount maxFee minFinalityThreshold =
     [(''amount'', CInt amount), (''destinationDomain'', CInt 0), (''mintRecipient'', CKey mintRecipient),
      (''maxFee'', CInt maxFee), (''minFinalityThreshold'', CNum minFinalityThreshold),
      (''destinationCaller'', CKey (ss_destinationCaller S))]"

definition sol_deposit_accounts :: "outside_world \<Rightarrow> solana_side \<Rightarrow> pubkey \<Rightarrow> (string \<times> pubkey) list" where
  "sol_deposit_accounts W S eventAccount = (let pdas = getDepositForBurnPdasV2 W getProgramsV2 (ss_usdcAddress S) 0 in
     [(''owner'', ss_wallet S), (''eventRentPayer'', ss_wallet S), (''senderAuthorityPda'', publicKey (dp_authorityPda pdas)),
      (''burnTokenAccount'', ss_userTokenAccount S),
      (''messageTransmitter'', publicKey (dp_messageTransmitterAccount pdas)),
      (''tokenMessenger'', publicKey (dp_tokenMessengerAccount pdas)),
      (''remoteTokenMessenger'', publicKey (dp_remoteTokenMessengerKey pdas)),
      (''tokenMinter'', publicKey (dp_tokenMinterAccount pdas)), (''localToken'', publicKey (dp_localToken pdas)),
      (''burnTokenMint'', ss_usdcAddress S), (''messageSentEventData'', eventAccount),
      (''messageTransmitterProgram'', messageTransmitterProgram getProgramsV2),
      (''tokenMessengerMinterProgram'', tokenMessengerMinterProgram getProgramsV2),
      (''tokenProgram'', token_program W), (''systemProgram'', system_program W)])"

definition depositForBurnSol :: "outside_world \<Rightarrow> solana_side \<Rightarrow> int \<Rightarrow> int \<Rightarrow> jsnum \<Rightarrow> string crun" where
  "depositForBurnSol W S amount maxFee minFinalityThreshold =
     andThen (out ''Depositing for burn on Solana...'')
     (bind (lift (evm_recipient W (penv W ''ETH_RECIPIENT_ADDRESS''))) (\<lambda>mintRecipient.
      bind (observe (fresh_keypair W)) (\<lambda>eventAccount.
      send_sol W \<lparr>sc_program = tokenMessengerMinterProgram getProgramsV2, sc_method = ''depositForBurn'',
        sc_params = sol_deposit_params S mintRecipient amount maxFee minFinalityThreshold,
        sc_accounts = sol_deposit_accounts W S eventAccount,
        sc_partial = False, sc_remaining = [], sc_signers = [eventAccount]\<rparr>)))"

definition depositForBurnSolWithHook :: "outside_world \<Rightarrow> solana_side \<Rightarrow> int \<Rightarrow> int \<Rightarrow> jsnum \<Rightarrow> string \<Rightarrow> string crun" where
  "depositForBurnSolWithHook W S amount maxFee minFinalityThreshold hookData =
     andThen (out ''Depositing for burn on Solana with hook...'')
     (bind (lift (evm_recipient W (penv W ''ETH_RECIPIENT_ADDRESS''))) (\<lambda>mintRecipient.
      bind (observe (fresh_keypair W)) (\<lambda>eventAccount.
      send_sol W \<lparr>sc_program = tokenMessengerMinterProgram getProgramsV2, sc_method = ''depositForBurnWithHook'',
        sc_params = sol_deposit_params S mintRecipient amount maxFee minFinalityThreshold @ [(''hookData'', CBytes hookData)],
        sc_accounts = sol_deposit_accounts W S eventAccount,
        sc_partial = False, sc_remaining = [], sc_signers = [eventAccount]\<rparr>)))"

definition receive_metas_v2 :: "outside_world \<Rightarrow> receive_pdas_v2 \<Rightarrow> pubkey \<Rightarrow> pubkey \<Rightarrow> account_meta list" where
  "receive_metas_v2 W r userTokenAccount minter = (let pdas = r2_addresses r in
     [meta False (publicKey (rp_tokenMessengerAccount pdas)), meta False (publicKey (rp_remoteTokenMessengerKey pdas)),
      meta True (publicKey (rp_tokenMinterAccount pdas)), meta True (publicKey (rp_localToken pdas)),
      meta False (publicKey (rp_tokenPair pdas)), meta True (r2_feeRecipientTokenAccount r), meta True userTokenAccount,
      meta True (publicKey (rp_custodyTokenAccount pdas)), meta False (token_program W),
      meta False (publicKey (rp_tokenMessengerEventAuthority pdas)), meta False minter])"

definition receiveMessageSol :: "outside_world \<Rightarrow> string option \<Rightarrow> string option \<Rightarrow> string crun" where
  "receiveMessageSol W message attestation =
     andThen (out ''Receiving message on Solana...'')
     (bind (getAnchorConnection W) (\<lambda>wallet.
      bind (lift (key_of_text W (penv W ''SOL_USDC_ADDRESS''))) (\<lambda>usdc.
      bind (lift (key_of_text W (penv W ''USER_TOKEN_ACCOUNT''))) (\<lambda>account.
      bind (lift (decodeEventNonceFromMessageV2 W message)) (\<lambda>nonce.
      bind (getReceiveMessagePdasV2 W getProgramsV2 usdc (penv W ''ETH_USDC_ADDRESS'') ''0'' nonce) (\<lambda>r.
      bind (lift (replaceable message)) (\<lambda>m.
      bind (lift (replaceable attestation)) (\<lambda>a.
      send_sol W \<lparr>sc_program = messageTransmitterProgram getProgramsV2, sc_method = ''receiveMessage'',
        sc_params = [(''message'', CBytes (hexToBytes m)), (''attestation'', CBytes (hexToBytes a))],
        sc_accounts = [(''payer'', wallet), (''caller'', wallet), (''authorityPda'', rp_authorityPda (r2_addresses r)),
          (''messageTransmitter'', publicKey (rp_messageTransmitterAccount (r2_addresses r))),
          (''usedNonce'', r2_usedNonce r), (''receiver'', tokenMessengerMinterProgram getProgramsV2),
          (''systemProgram'', system_program W)],
        sc_partial = False,
        sc_remaining = receive_metas_v2 W r account (tokenMessengerMinterProgram getProgramsV2),
        sc_signers = []\<rparr>))))))))"

definition reclaimEventAccount :: "outside_world \<Rightarrow> string \<Rightarrow> string \<Rightarrow> pubkey \<Rightarrow> string crun" where
  "reclaimEventAccount W attestation destinationMessage messageSentEventData =
     andThen (out ''Reclaiming event account on Solana...'')
     (bind (getAnchorConnection W) (\<lambda>wallet.
      send_sol W \<lparr>sc_program = messageTransmitterProgram getProgramsV2, sc_method = ''reclaimEventAccount'',
        sc_params = [(''attestation'', CBytes attestation), (''destinationMessage'', CBytes destinationMessage)],
        sc_accounts = [(''payee'', wallet),
          (''messageTransmitter'', publicKey (getMessageTransmitterAccount W (messageTransmitterProgram getProgramsV2))),
          (''messageSentEventData'', messageSentEventData)],
        sc_partial = False, sc_remaining = [], sc_signers = []\<rparr>))"

section \<open>Computations that may not end\<close>

type_synonym 'a prun = "ctrace \<Rightarrow> ((exn + 'a) \<times> ctrace) option"

definition ends :: "'a crun \<Rightarrow> 'a prun" where
  "ends m = (\<lambda>tr. Some (m tr))"

definition pbind :: "'a prun \<Rightarrow> ('a \<Rightarrow> 'b prun) \<Rightarrow> 'b prun" where
  "pbind m f = (\<lambda>tr. Option.bind (m tr) (\<lambda>(r, tr'). case r of Inl e \<Rightarrow> Some (Inl e, tr') | Inr x \<Rightarrow> f x tr'))"

definition iris_url_v2 :: "outside_world \<Rightarrow> nat \<Rightarrow> string \<Rightarrow> string" where
  "iris_url_v2 W domainId txHash =
     (case penv W ''IRIS_API_URL'' of Some s \<Rightarrow> s | None \<Rightarrow> ''https://iris-api-sandbox.circle.com'')
       @ ''/v2/messages/'' @ nat_str domainId @ ''?transactionHash='' @ txHash"

text \<open>One pass of \<open>while (true)\<close>: the answer, after the pause when it is pending.\<close>

definition poll_once :: "outside_world \<Rightarrow> string \<Rightarrow> att_response crun" where
  "poll_once W url = bind (outside (HttpGet url) (\<lambda>tr. http W tr url)) (\<lambda>r.
     andThen (do_when (pending r) (tell (Slept 2000))) (ret r))"

partial_function (option) poll :: "outside_world \<Rightarrow> string \<Rightarrow> ctrace \<Rightarrow> ((exn + att_response) \<times> ctrace) option" where
  "poll W url tr = (case poll_once W url tr of
       (Inl e, tr') \<Rightarrow> Some (Inl e, tr')
     | (Inr r, tr') \<Rightarrow> if pending r then poll W url tr' else Some (Inr r, tr'))"

text \<open>\<open>attestationResponse.messages[0]\<close>, whose fields are read by the caller.\<close>

definition message_fields :: "att_response \<Rightarrow> exn + string option \<times> string option" where
  "message_fields r = (case ar_messages r of
       Some (m # _) \<Rightarrow> Inr (at_message m, at_attestation m)
     | _ \<Rightarrow> Inl (TypeError ''Cannot read properties of undefined (reading 'message')''))"

definition fetchAttestation :: "outside_world \<Rightarrow> string \<Rightarrow> nat \<Rightarrow> (string option \<times> string option) prun" where
  "fetchAttestation W txHash domainId =
     pbind (ends (out ''Fetching attestation...'')) (\<lambda>_.
     pbind (poll W (iris_url_v2 W domainId txHash)) (\<lambda>r.
     ends (andThen (tell (OutResponse ''Attestation response:'' r)) (lift (message_fields r)))))"

section \<open>The command\<close>

record ParsedArgs =
  pa_amount :: jsnum
  pa_maxFee :: jsnum
  pa_minFinalityThreshold :: jsnum
  pa_hookData :: "string option"
  pa_attestation :: "string option"
  pa_destinationMessage :: "string option"
  pa_messageSentEventAccount :: "string option"

definition number_option :: "string option \<Rightarrow> jsnum" where
  "number_option v = (case v of None \<Rightarrow> NaN | Some s \<Rightarrow> js_Number s)"

definition parse_args :: "outside_world \<Rightarrow> ParsedArgs" where
  "parse_args W = \<lparr>pa_amount = number_option (rawArgs W ''amount''), pa_maxFee = number_option (rawArgs W ''maxFee''),
     pa_minFinalityThreshold = number_option (rawArgs W ''minFinalityThreshold''), pa_hookData = rawArgs W ''hookData'',
     pa_attestation = rawArgs W ''attestation'', pa_destinationMessage = rawArgs W ''destinationMessage'',
     pa_messageSentEventAccount = rawArgs W ''messageSentEventAccount''\<rparr>"

definition shown_args :: "ParsedArgs \<Rightarrow> (string \<times> cval) list" where
  "shown_args a = [(''amount'', CNum (pa_amount a)), (''maxFee'', CNum (pa_maxFee a)),
     (''minFinalityThreshold'', CNum (pa_minFinalityThreshold a)), (''hookData'', ctext (pa_hookData a)),
     (''attestation'', ctext (pa_attestation a)), (''destinationMessage'', ctext (pa_destinationMessage a)),
     (''messageSentEventAccount'', ctext (pa_messageSentEventAccount a))]"

text \<open>Hook data that is missing or empty is none.\<close>

definition hook :: "ParsedArgs \<Rightarrow> string option" where
  "hook a = (case pa_hookData a of Some h \<Rightarrow> if h = [] then None else Some h | None \<Rightarrow> None)"

definition deposit_sol2evm :: "outside_world \<Rightarrow> solana_side \<Rightarrow> ParsedArgs \<Rightarrow> string crun" where
  "deposit_sol2evm W S a =
     bind (lift (anchor_BN W (CNum (pa_amount a)))) (\<lambda>amount.
     bind (lift (anchor_BN W (CNum (pa_maxFee a)))) (\<lambda>maxFee.
     case hook a of
       Some h \<Rightarrow> depositForBurnSolWithHook W S amount maxFee (pa_minFinalityThreshold a) (hexToBytes h)
     | None \<Rightarrow> depositForBurnSol W S amount maxFee (pa_minFinalityThreshold a)))"

definition deposit_evm2sol :: "outside_world \<Rightarrow> ParsedArgs \<Rightarrow> string crun" where
  "deposit_evm2sol W a = (case hook a of
       Some h \<Rightarrow> depositForBurnEvmWithHook W (pa_amount a) (pa_maxFee a) (pa_minFinalityThreshold a) h
     | None \<Rightarrow> depositForBurnEvm W (pa_amount a) (pa_maxFee a) (pa_minFinalityThreshold a))"

definition announce :: "string \<Rightarrow> string crun \<Rightarrow> string crun" where
  "announce label m = bind m (\<lambda>hash. andThen (out (label @ '' txHash: '' @ hash)) (ret hash))"

definition transfer_and_receive ::
  "outside_world \<Rightarrow> string crun \<Rightarrow> nat \<Rightarrow> (string option \<Rightarrow> string option \<Rightarrow> string crun) \<Rightarrow> unit prun" where
  "transfer_and_receive W deposit domainId receive =
     pbind (ends (announce ''DepositForBurn'' deposit)) (\<lambda>depositTxHash.
     pbind (fetchAttestation W depositTxHash domainId) (\<lambda>(message, attestation).
     ends (andThen (announce ''ReceiveMessage'' (receive message attestation)) (ret ()))))"

definition reclaim :: "outside_world \<Rightarrow> ParsedArgs \<Rightarrow> unit crun" where
  "reclaim W a =
     bind (lift (replaceable (pa_attestation a))) (\<lambda>attestation.
     bind (lift (replaceable (pa_destinationMessage a))) (\<lambda>message.
     bind (lift (key_of_text W (pa_messageSentEventAccount a))) (\<lambda>account.
     andThen (announce ''ReclaimEventAccount'' (reclaimEventAccount W (hexToBytes attestation) (hexToBytes message) account))
       (ret ()))))"

definition transfer_v2_main :: "outside_world \<Rightarrow> solana_side \<Rightarrow> unit prun" where
  "transfer_v2_main W S = (let a = parse_args W in
     pbind (ends (tell (OutArgs (shown_args a)))) (\<lambda>_.
       if commandName W = Some ''sol2evm''
       then transfer_and_receive W (deposit_sol2evm W S a) 5 (receiveMessageEvm W)
       else if commandName W = Some ''evm2sol''
       then transfer_and_receive W (deposit_evm2sol W a) 0 (receiveMessageSol W)
       else if commandName W = Some ''reclaim'' then ends (reclaim W a)
       else ends (andThen (tell (Err ''Command must be one of:  sol2evm, evm2sol, reclaim'')) (throw (ExitProcess 1)))))"

definition transfer_v2 :: "outside_world \<Rightarrow> unit prun" where
  "transfer_v2 W = pbind (ends (load_solana W)) (transfer_v2_main W)"

end
