(* ===== verification/Cctp_Logic.thy ===== *)
theory Cctp_Logic
  imports Cctp_V2
begin

text \<open>
  The proof rules for the cross-chain transfers: what a computation's result says of the trace (\<open>yields\<close>), computations
  that may not end (\<open>p_all\<close>, \<open>p_yields\<close>, \<open>p_inv\<close>), counted events (\<open>io_upto\<close>, \<open>p_upto\<close>), the vocabulary of the
  properties (burns, mints and attested messages), and the locale \<open>bridge\<close>, the contract between the phases of a transfer.
\<close>

section \<open>Burns, attestations and mints\<close>

datatype chain = Ethereum | Solana

definition burns :: "string set" where
  "burns = {''depositForBurn'', ''depositForBurnWithHook''}"

text \<open>The events that may burn, and those that may mint, on a chain.\<close>

fun is_burn :: "chain \<Rightarrow> cctp_event \<Rightarrow> bool" where
  "is_burn Ethereum (EvmSend c) = (ec_method c \<in> burns)"
| "is_burn Solana (SolSend c) = (sc_method c \<in> burns)"
| "is_burn ch e = False"

fun mints_on :: "chain \<Rightarrow> cctp_event \<Rightarrow> bool" where
  "mints_on Ethereum (EvmSend c) = (ec_method c = ''receiveMessage'')"
| "mints_on Solana (SolSend c) = (sc_method c = ''receiveMessage'')"
| "mints_on ch e = False"

definition is_mint :: "cctp_event \<Rightarrow> bool" where
  "is_mint e \<longleftrightarrow> mints_on Ethereum e \<or> mints_on Solana e"

text \<open>The trace shows a burn that the chain answered with the transaction \<open>h\<close>, and on Ethereum also confirmed.\<close>

inductive burned :: "outside_world \<Rightarrow> chain \<Rightarrow> ctrace \<Rightarrow> string \<Rightarrow> bool" for W where
  on_solana: "is_burn Solana (SolSend c) \<Longrightarrow> sol_rpc W a c = Inr h \<Longrightarrow> burned W Solana (a @ SolSend c # b) h"
| on_ethereum: "is_burn Ethereum (EvmSend c) \<Longrightarrow> evm_send W a c = Inr t \<Longrightarrow>
    evm_wait W (a @ EvmSend c # b) t = Inr r \<Longrightarrow> h = t \<or> rc_status r = 1 \<and> h = rc_hash r \<Longrightarrow>
    burned W Ethereum (a @ EvmSend c # b @ EvmWait t # d) h"

text \<open>The attestation service answered, finally, with the message and the attestation.\<close>

definition attested :: "outside_world \<Rightarrow> ctrace \<Rightarrow> string \<Rightarrow> string option \<Rightarrow> string option \<Rightarrow> bool" where
  "attested W tr url m a \<longleftrightarrow> (\<exists>p q r x xs. tr = p @ HttpGet url # q \<and> http W p url = Inr r \<and> \<not> pending r \<and>
     ar_messages r = Some (x # xs) \<and> m = at_message x \<and> a = at_attestation x)"

text \<open>The call takes exactly this message and this attestation.\<close>

fun carries :: "string option \<Rightarrow> string option \<Rightarrow> cctp_event \<Rightarrow> bool" where
  "carries m a (EvmSend c) = (ec_params c = [ctext m, ctext a])"
| "carries m a (SolSend c) = (m \<noteq> None \<and> a \<noteq> None \<and>
     sc_params c = [(''message'', CBytes (hexToBytes (the m))), (''attestation'', CBytes (hexToBytes (the a)))])"
| "carries m a e = False"

definition other :: "chain \<Rightarrow> chain" where
  "other ch = (case ch of Ethereum \<Rightarrow> Solana | Solana \<Rightarrow> Ethereum)"

definition justified :: "outside_world \<Rightarrow> chain \<Rightarrow> (string \<Rightarrow> string) \<Rightarrow> ctrace \<Rightarrow> cctp_event \<Rightarrow> bool" where
  "justified W ch url p e \<longleftrightarrow> mints_on (other ch) e \<and>
     (\<exists>h m a. burned W ch p h \<and> attested W p (url h) m a \<and> carries m a e)"

lemma justifiedI:
  "mints_on (other ch) e \<Longrightarrow> burned W ch p h \<Longrightarrow> attested W p (url h) m a \<Longrightarrow> carries m a e \<Longrightarrow> justified W ch url p e"
  by (auto simp: justified_def)

definition mints_ok :: "outside_world \<Rightarrow> chain \<Rightarrow> (string \<Rightarrow> string) \<Rightarrow> ctrace \<Rightarrow> bool" where
  "mints_ok W ch url tr \<longleftrightarrow> (\<forall>p e q. tr = p @ e # q \<longrightarrow> is_mint e \<longrightarrow> justified W ch url p e)"

lemma burned_append: "burned W ch tr h \<Longrightarrow> burned W ch (tr @ new) h"
  by (induction rule: burned.induct) (simp_all add: burned.intros)

lemma attested_append: "attested W tr url m a \<Longrightarrow> attested W (tr @ new) url m a"
  unfolding attested_def by fastforce

lemma mints_ok_nil: "mints_ok W ch url []"
  by (simp add: mints_ok_def)

lemma mints_ok_snoc: "mints_ok W ch url tr \<Longrightarrow> (is_mint e \<Longrightarrow> justified W ch url tr e) \<Longrightarrow> mints_ok W ch url (tr @ [e])"
  unfolding mints_ok_def by (metis append_eq_append_conv_if append_take_drop_id butlast_append butlast_snoc last_snoc
      append_butlast_last_id append_is_Nil_conv butlast.simps(2) last_appendR last_ConsL last_ConsR list.discI)

section \<open>What a result says of the trace\<close>

definition yields :: "('a \<Rightarrow> ctrace \<Rightarrow> bool) \<Rightarrow> 'a crun \<Rightarrow> bool" where
  "yields Q m \<longleftrightarrow> (\<forall>tr x tr'. m tr = (Inr x, tr') \<longrightarrow> Q x tr')"

lemma yields_bind: "(\<And>x. yields Q (f x)) \<Longrightarrow> yields Q (bind m f)"
  unfolding yields_def by (metis bind_Inr_elim)

lemma yields_andThen: "yields Q k \<Longrightarrow> yields Q (andThen m k)"
  by (simp add: andThen_def yields_bind)

lemma io_all_bind_lift: "(\<And>x. r = Inr x \<Longrightarrow> io_all P (f x)) \<Longrightarrow> io_all P (bind (lift r) f)"
  by (cases r) (simp_all add: io_simps io_all_throw)

section \<open>Computations that may not end\<close>

definition p_all :: "(cctp_event \<Rightarrow> bool) \<Rightarrow> 'a prun \<Rightarrow> bool" where
  "p_all P m \<longleftrightarrow> (\<forall>tr r tr'. m tr = Some (r, tr') \<longrightarrow> (\<exists>new. tr' = tr @ new \<and> list_all P new))"

definition p_yields :: "('a \<Rightarrow> ctrace \<Rightarrow> bool) \<Rightarrow> 'a prun \<Rightarrow> bool" where
  "p_yields Q m \<longleftrightarrow> (\<forall>tr x tr'. m tr = Some (Inr x, tr') \<longrightarrow> Q x tr')"

definition p_inv :: "(ctrace \<Rightarrow> bool) \<Rightarrow> 'a prun \<Rightarrow> bool" where
  "p_inv Q m \<longleftrightarrow> (\<forall>tr r tr'. Q tr \<longrightarrow> m tr = Some (r, tr') \<longrightarrow> Q tr')"

lemma p_all_ends: "io_all P m \<Longrightarrow> p_all P (ends m)"
  by (auto simp: p_all_def ends_def dest!: io_allD)

lemma p_yields_ends: "yields Q m \<Longrightarrow> p_yields Q (ends m)"
  by (simp add: p_yields_def yields_def ends_def)

lemma p_inv_ends: "io_inv Q m \<Longrightarrow> p_inv Q (ends m)"
  by (auto simp: p_inv_def io_inv_def ends_def)

lemma pbind_cases:
  assumes "pbind m f tr = Some (r, tr'')"
  obtains e where "m tr = Some (Inl e, tr'')" "r = Inl e"
  | x tr' where "m tr = Some (Inr x, tr')" "f x tr' = Some (r, tr'')"
proof -
  from assms obtain a b where m: "m tr = Some (a, b)" by (auto simp: pbind_def bind_eq_Some_conv)
  then show ?thesis using assms that by (cases a) (simp_all add: pbind_def)
qed

lemma p_all_pbind:
  assumes "p_all P m" and "\<And>x. p_all P (f x)"
  shows "p_all P (pbind m f)"
  unfolding p_all_def
proof (intro allI impI)
  fix tr r tr'' assume "pbind m f tr = Some (r, tr'')"
  then show "\<exists>new. tr'' = tr @ new \<and> list_all P new"
  proof (cases rule: pbind_cases)
    case 1
    then show ?thesis using assms(1) by (simp add: p_all_def)
  next
    case (2 x tr')
    then obtain a b where "tr' = tr @ a" "list_all P a" "tr'' = tr' @ b" "list_all P b"
      using assms unfolding p_all_def by metis
    then show ?thesis by (intro exI [of _ "a @ b"]) simp
  qed
qed

lemma p_yields_pbind: "(\<And>x. p_yields Q (f x)) \<Longrightarrow> p_yields Q (pbind m f)"
  unfolding p_yields_def by (auto elim!: pbind_cases)

text \<open>A bind whose continuation relies on what the first result says of the trace.\<close>

lemma p_inv_pbind_yields:
  assumes "p_inv Q m" and "p_yields R m" and "\<And>x. p_inv (\<lambda>tr. Q tr \<and> R x tr) (f x)"
  shows "p_inv Q (pbind m f)"
  unfolding p_inv_def
proof (intro allI impI)
  fix tr r tr'' assume Q: "Q tr" and "pbind m f tr = Some (r, tr'')"
  from this(2) show "Q tr''"
  proof (cases rule: pbind_cases)
    case 1
    then show ?thesis using Q assms(1) by (auto simp: p_inv_def)
  next
    case (2 x tr')
    then have "Q tr'" "R x tr'" using Q assms(1,2) by (auto simp: p_inv_def p_yields_def)
    then show ?thesis using 2(2) assms(3) unfolding p_inv_def by blast
  qed
qed

lemma p_inv_pbind: "p_inv Q m \<Longrightarrow> (\<And>x. p_inv Q (f x)) \<Longrightarrow> p_inv Q (pbind m f)"
  by (rule p_inv_pbind_yields [where R = "\<lambda>_ _. True"]) (simp_all add: p_yields_def)

lemma ends_bind: "ends (bind m f) = pbind (ends m) (\<lambda>x. ends (f x))"
  by (rule ext) (auto simp: ends_def pbind_def bind_def split: prod.splits sum.splits)

text \<open>A property that no event with \<open>P\<close> can break.\<close>

lemma p_inv_of_all:
  assumes "p_all P m" and step: "\<And>tr e. Q tr \<Longrightarrow> P e \<Longrightarrow> Q (tr @ [e])"
  shows "p_inv Q m"
proof -
  have "Q tr \<Longrightarrow> list_all P new \<Longrightarrow> Q (tr @ new)" for tr new
  proof (induction new arbitrary: tr)
    case (Cons e new)
    then have "Q ((tr @ [e]) @ new)" using step [of tr e] by (intro Cons.IH) auto
    then show ?case by simp
  qed simp
  then show ?thesis using assms(1) unfolding p_inv_def p_all_def by metis
qed

section \<open>Kinds of events\<close>

lemma is_mint_simps [simp]:
  "is_mint (EvmSend c) = (ec_method c = ''receiveMessage'')" "is_mint (SolSend sc) = (sc_method sc = ''receiveMessage'')"
  "\<not> is_mint (Out s)" "\<not> is_mint (Err s)" "\<not> is_mint (OutArgs as)" "\<not> is_mint (OutResponse s r)" "\<not> is_mint (ErrReceipt s rc)"
  "\<not> is_mint (HttpGet s)" "\<not> is_mint (Slept n)" "\<not> is_mint (SolQuery s k)" "\<not> is_mint SolBlockhash" "\<not> is_mint (SolView sc)"
  "\<not> is_mint (SolCreateAta k k' k'' k3)" "\<not> is_mint (EvmCount s)" "\<not> is_mint (EvmRead c)" "\<not> is_mint (EvmWait s)"
  by (simp_all add: is_mint_def)

definition burning :: "cctp_event \<Rightarrow> bool" where
  "burning e \<longleftrightarrow> is_burn Ethereum e \<or> is_burn Solana e"

lemma burning_simps [simp]:
  "burning (EvmSend c) = (ec_method c \<in> burns)" "burning (SolSend sc) = (sc_method sc \<in> burns)"
  "\<not> burning (Out s)" "\<not> burning (Err s)" "\<not> burning (OutArgs as)" "\<not> burning (OutResponse s r)" "\<not> burning (ErrReceipt s rc)"
  "\<not> burning (HttpGet s)" "\<not> burning (Slept n)" "\<not> burning (SolQuery s k)" "\<not> burning SolBlockhash" "\<not> burning (SolView sc)"
  "\<not> burning (SolCreateAta k k' k'' k3)" "\<not> burning (EvmCount s)" "\<not> burning (EvmRead c)" "\<not> burning (EvmWait s)"
  by (simp_all add: burning_def)

lemma burns_simps [simp]: "''approve'' \<notin> burns" "''receiveMessage'' \<notin> burns" "''reclaimEventAccount'' \<notin> burns"
  by (simp_all add: burns_def)

fun asking :: "cctp_event \<Rightarrow> bool" where
  "asking (Out s) = True"
| "asking (HttpGet s) = True"
| "asking (Slept n) = True"
| "asking (OutResponse s r) = True"
| "asking e = False"

lemma asking_quiet: "asking e \<Longrightarrow> \<not> burning e \<and> \<not> is_mint e"
  by (cases e) simp_all

lemma p_all_mono: "p_all P m \<Longrightarrow> (\<And>e. P e \<Longrightarrow> Q e) \<Longrightarrow> p_all Q m"
  unfolding p_all_def by (metis (mono_tags, lifting) list.pred_mono_strong)

abbreviation minting :: "chain \<Rightarrow> string option \<Rightarrow> string option \<Rightarrow> cctp_event \<Rightarrow> bool" where
  "minting ch m a e \<equiv> is_mint e \<longrightarrow> mints_on ch e \<and> carries m a e"

section \<open>Events of the effects\<close>

lemma io_all_effects [io_intros]:
  "P (Out s) \<Longrightarrow> io_all P (out s)" "P (EvmSend c) \<Longrightarrow> io_all P (send_evm W c)" "P (EvmWait h) \<Longrightarrow> io_all P (wait_evm W h)"
  "P (EvmRead c) \<Longrightarrow> io_all P (read_evm W c)" "P (SolSend sc) \<Longrightarrow> io_all P (send_sol W sc)"
  by (simp_all add: out_def send_evm_def wait_evm_def read_evm_def send_sol_def io_intros)

lemma io_all_new_Contract [io_intros]: "io_all P (new_Contract W a)"
  by (simp add: new_Contract_def io_intros split: option.split)

lemma io_all_getAnchorConnection [io_intros]: "io_all P (getAnchorConnection W)"
  unfolding getAnchorConnection_def by (intro io_intros)

lemma confirmed_evm_all [io_intros]:
  "P (EvmSend c) \<Longrightarrow> (\<And>h. P (EvmWait h)) \<Longrightarrow> (\<And>s r. P (ErrReceipt s r)) \<Longrightarrow> io_all P (confirmed_evm W what c)"
  unfolding confirmed_evm_def by (intro io_intros) simp_all

section \<open>Counting events\<close>

definition io_upto :: "(cctp_event \<Rightarrow> bool) \<Rightarrow> nat \<Rightarrow> 'a crun \<Rightarrow> bool" where
  "io_upto P n m \<longleftrightarrow> io_trace (\<lambda>new. length (List.filter P new) \<le> n) m"

definition p_upto :: "(cctp_event \<Rightarrow> bool) \<Rightarrow> nat \<Rightarrow> 'a prun \<Rightarrow> bool" where
  "p_upto P n m \<longleftrightarrow> (\<forall>tr r tr'. m tr = Some (r, tr') \<longrightarrow> (\<exists>new. tr' = tr @ new \<and> length (List.filter P new) \<le> n))"

lemma none_counted: "list_all (\<lambda>e. \<not> P e) new \<Longrightarrow> List.filter P new = []"
  by (induction new) auto

lemma io_upto_quiet: "io_all (\<lambda>e. \<not> P e) m \<Longrightarrow> io_upto P n m"
  unfolding io_upto_def by (erule io_trace_of_all) (simp add: none_counted)

lemma io_upto_outside: "io_upto P (Suc 0) (outside e f)"
  by (auto simp: io_upto_def io_trace_def outside_def)

lemma p_upto_pbind:
  assumes "p_upto P i m" and "\<And>x. p_upto P j (f x)"
  shows "p_upto P (i + j) (pbind m f)"
  unfolding p_upto_def
proof (intro allI impI)
  fix tr r tr'' assume "pbind m f tr = Some (r, tr'')"
  then show "\<exists>new. tr'' = tr @ new \<and> length (List.filter P new) \<le> i + j"
  proof (cases rule: pbind_cases)
    case 1
    then show ?thesis using assms(1) unfolding p_upto_def by (meson trans_le_add1)
  next
    case (2 x tr')
    then obtain a b where "tr' = tr @ a" "length (List.filter P a) \<le> i" "tr'' = tr' @ b" "length (List.filter P b) \<le> j"
      using assms unfolding p_upto_def by metis
    then show ?thesis by (intro exI [of _ "a @ b"]) simp
  qed
qed

lemma p_upto_ends: "p_upto P n (ends m) \<longleftrightarrow> io_upto P n m"
  unfolding p_upto_def io_upto_def io_trace_def ends_def by (metis option.inject prod.collapse snd_conv)

lemma p_upto_quiet: "p_all (\<lambda>e. \<not> P e) m \<Longrightarrow> p_upto P n m"
  unfolding p_all_def p_upto_def by (metis le0 list.size(3) none_counted)

lemma io_upto_bind: "io_upto P i m \<Longrightarrow> (\<And>x. io_upto P j (f x)) \<Longrightarrow> io_upto P (i + j) (bind m f)"
  using p_upto_pbind [of P i "ends m" j "\<lambda>x. ends (f x)"] by (simp add: p_upto_ends flip: ends_bind)

lemma io_upto_after: "io_all (\<lambda>e. \<not> P e) m \<Longrightarrow> (\<And>x. io_upto P n (f x)) \<Longrightarrow> io_upto P n (bind m f)"
  using io_upto_bind [of P 0 m n f] by (simp add: io_upto_quiet)

lemma io_upto_before: "io_upto P n m \<Longrightarrow> (\<And>x. io_all (\<lambda>e. \<not> P e) (f x)) \<Longrightarrow> io_upto P n (bind m f)"
  using io_upto_bind [of P n m 0 f] by (simp add: io_upto_quiet)

lemma io_upto_andThen: "io_all (\<lambda>e. \<not> P e) m \<Longrightarrow> io_upto P n k \<Longrightarrow> io_upto P n (andThen m k)"
  by (simp add: andThen_def io_upto_after)

lemma io_upto_try_catch:
  assumes m: "io_upto P n m" and h: "\<And>e. io_all (\<lambda>e. \<not> P e) (h e)"
  shows "io_upto P n (try_catch m h)"
  unfolding io_upto_def io_trace_def
proof
  fix tr
  obtain r tr' where r: "m tr = (r, tr')" by fastforce
  then obtain new where new: "tr' = tr @ new" "length (List.filter P new) \<le> n"
    using m unfolding io_upto_def by (metis io_traceD)
  have "\<exists>more. snd (h e tr') = tr @ more \<and> length (List.filter P more) \<le> n" for e
  proof -
    obtain b where "snd (h e tr') = tr' @ b" "list_all (\<lambda>e. \<not> P e) b"
      using io_allD [OF h [of e]] by (metis prod.collapse)
    then show ?thesis using new by (intro exI [of _ "new @ b"]) (simp add: none_counted)
  qed
  then show "\<exists>new. snd (try_catch m h tr) = tr @ new \<and> length (List.filter P new) \<le> n"
    using r new by (auto simp: try_catch_def split: sum.splits exn.splits)
qed

lemma io_upto_send: "io_upto P (Suc 0) (send_evm W c)" "io_upto P (Suc 0) (send_sol W sc)"
  by (simp_all add: send_evm_def send_sol_def io_upto_outside)

lemma io_upto_confirmed:
  "(\<And>h. \<not> P (EvmWait h)) \<Longrightarrow> (\<And>s r. \<not> P (ErrReceipt s r)) \<Longrightarrow> io_upto P (Suc 0) (confirmed_evm W what c)"
  unfolding confirmed_evm_def by (intro io_upto_before io_upto_send io_intros) simp_all

section \<open>The contract of a transfer\<close>

text \<open>
  What a transfer needs of its three phases: the deposit burns at most once, and its result is the transaction of that
  burn; asking changes nothing and gives the final answer for the transaction; the receiver mints at most once, with
  the message and the attestation it is given.
\<close>

locale bridge =
  fixes W :: outside_world and source :: chain and url :: "string \<Rightarrow> string"
    and dep :: "string crun" and att :: "string \<Rightarrow> (string option \<times> string option) prun"
    and rcv :: "string option \<Rightarrow> string option \<Rightarrow> unit crun"
  assumes deposit_quiet: "io_all (\<lambda>e. \<not> is_mint e) dep"
    and deposit_once: "io_upto burning (Suc 0) dep"
    and deposit_burns: "yields (\<lambda>h tr. burned W source tr h) dep"
    and asks: "p_all asking (att h)"
    and attests: "p_yields (\<lambda>(m, a) tr. attested W tr (url h) m a) (att h)"
    and receiver_mints: "io_all (minting (other source) m a) (rcv m a)"
    and receiver_once: "io_upto is_mint (Suc 0) (rcv m a)"
    and receiver_quiet: "io_all (\<lambda>e. \<not> burning e) (rcv m a)"
begin

lemma asks_quiet: "p_all (\<lambda>e. \<not> is_mint e) (att h)" "p_upto burning 0 (att h)" "p_upto is_mint 0 (att h)"
  by (rule p_all_mono [OF asks], simp add: asking_quiet) (rule p_upto_quiet, rule p_all_mono [OF asks], simp add: asking_quiet)+

lemma transfer_mints:
  "p_inv (mints_ok W source url) (pbind (ends dep) (\<lambda>h. pbind (att h) (\<lambda>(m, a). ends (rcv m a))))"
proof (rule p_inv_pbind_yields [OF _ p_yields_ends [OF deposit_burns]])
  show "p_inv (mints_ok W source url) (ends dep)"
    by (rule p_inv_of_all [OF p_all_ends [OF deposit_quiet]]) (rule mints_ok_snoc, assumption, simp)
  fix h
  show "p_inv (\<lambda>tr. mints_ok W source url tr \<and> burned W source tr h) (pbind (att h) (\<lambda>(m, a). ends (rcv m a)))"
  proof (rule p_inv_pbind_yields [OF _ attests])
    show "p_inv (\<lambda>tr. mints_ok W source url tr \<and> burned W source tr h) (att h)"
      by (rule p_inv_of_all [OF asks_quiet(1)]) (auto simp: burned_append intro: mints_ok_snoc)
    fix x :: "string option \<times> string option"
    obtain m a where x: "x = (m, a)" by (cases x)
    have "p_inv (\<lambda>tr. (mints_ok W source url tr \<and> burned W source tr h) \<and> attested W tr (url h) m a) (ends (rcv m a))"
      by (rule p_inv_of_all [OF p_all_ends [OF receiver_mints [of m a]]])
        (auto simp: burned_append attested_append intro: mints_ok_snoc justifiedI)
    then show "p_inv (\<lambda>tr. (mints_ok W source url tr \<and> burned W source tr h) \<and> (case x of (m, a) \<Rightarrow> \<lambda>tr. attested W tr (url h) m a) tr)
        (case x of (m, a) \<Rightarrow> ends (rcv m a))"
      by (simp only: x prod.case)
  qed
qed

lemma transfer_burns_once:
  "p_upto burning (Suc 0) (pbind (ends dep) (\<lambda>h. pbind (att h) (\<lambda>(m, a). ends (rcv m a))))"
proof -
  have "p_upto burning (0 + 0) (pbind (att h) (\<lambda>(m, a). ends (rcv m a)))" for h
    unfolding case_prod_unfold by (rule p_upto_pbind) (simp_all add: asks_quiet p_upto_ends io_upto_quiet receiver_quiet)
  then show ?thesis
    using p_upto_pbind [of burning "Suc 0" "ends dep" 0 "\<lambda>h. pbind (att h) (\<lambda>(m, a). ends (rcv m a))"] deposit_once
    by (simp add: p_upto_ends)
qed

lemma transfer_mints_once:
  "p_upto is_mint (Suc 0) (pbind (ends dep) (\<lambda>h. pbind (att h) (\<lambda>(m, a). ends (rcv m a))))"
proof -
  have "p_upto is_mint (0 + Suc 0) (pbind (att h) (\<lambda>(m, a). ends (rcv m a)))" for h
    unfolding case_prod_unfold by (rule p_upto_pbind) (simp_all add: asks_quiet p_upto_ends receiver_once)
  then show ?thesis
    using p_upto_pbind [of is_mint 0 "ends dep" "Suc 0" "\<lambda>h. pbind (att h) (\<lambda>(m, a). ends (rcv m a))"] deposit_quiet
    by (simp add: p_upto_ends io_upto_quiet)
qed

end

end
