(* ===== verification/Cctp_Parts.thy ===== *)
theory Cctp_Parts
  imports Cctp_Logic
begin

text \<open>
  The parts of the transfers keep the contract of \<open>bridge\<close>, which is interpreted for the two scripts of version 1 and
  the two directions of version 2; the trace of the attestation loop and of the polling, round by round.
\<close>

section \<open>The parts of a transfer\<close>

lemma io_all_error_details: "(\<And>t. P (Err t)) \<Longrightarrow> io_all P (error_details W ps e)"
  by (induction ps) (auto intro!: io_intros)

lemma io_all_report_error [io_intros]: "(\<And>t. P (Err t)) \<Longrightarrow> io_all P (report_error W place ps e)"
  unfolding report_error_def by (intro io_intros io_all_error_details)

lemma io_all_attestation_loop:
  "(\<And>e. \<not> is_mint e \<Longrightarrow> P e) \<Longrightarrow> io_all P (attestation_loop W txHash d delay attempts left)"
  by (induction left arbitrary: attempts) (auto intro!: io_intros)

text \<open>One round of the loop.\<close>

lemma attestation_loop_run:
  "attestation_loop W txHash d delay attempts (Suc left) tr =
     (let url = attestation_url d txHash; tr1 = tr @ [Out (attempt_line attempts txHash)] in
      case http W tr1 url of Inl e \<Rightarrow> (Inl e, tr1 @ [HttpGet url])
      | Inr r \<Rightarrow> if pending r then attestation_loop W txHash d delay (Suc attempts) left (tr1 @ [HttpGet url, Slept delay])
          else (first_message r, tr1 @ [HttpGet url]))"
  by (simp add: io_defs out_def Let_def split: sum.split)

lemma attested_first:
  "http W p url = Inr r \<Longrightarrow> \<not> pending r \<Longrightarrow> first_message r = Inr (m, a) \<Longrightarrow> attested W (p @ [HttpGet url]) url m a"
  by (fastforce simp: attested_def first_message_def split: option.splits list.splits)

lemma attested_fields:
  "http W p url = Inr r \<Longrightarrow> \<not> pending r \<Longrightarrow> message_fields r = Inr (m, a) \<Longrightarrow> attested W (p @ [HttpGet url]) url m a"
  by (fastforce simp: attested_def message_fields_def split: option.splits list.splits)

lemma attestation_loop_attested:
  "attestation_loop W txHash d delay attempts left tr = (Inr (m, a), tr') \<Longrightarrow> attested W tr' (attestation_url d txHash) m a"
proof (induction left arbitrary: attempts tr)
  case (Suc left)
  then show ?case
    by (auto simp: attestation_loop_run Let_def simp del: attestation_loop.simps append_assoc
        split: sum.splits if_splits intro: attested_first)
qed (simp add: throw_def)

section \<open>The scripts of version 1\<close>

lemma burn_on_ethereum_quiet: "io_all (\<lambda>e. \<not> is_mint e) (burn_on_ethereum W S)"
  unfolding burn_on_ethereum_def approve_usdc_def check_funds_def ensure_recipient_account_def deposit_eth_def
  by (intro io_intros) (simp_all add: io_intros)

lemma yields_try_catch: "yields Q m \<Longrightarrow> (\<And>e. yields Q (h e)) \<Longrightarrow> yields Q (try_catch m h)"
  unfolding yields_def by (auto simp: try_catch_def split: prod.splits sum.splits exn.splits)

lemma yields_throw: "yields Q (throw e)"
  by (simp add: yields_def throw_def)

lemma evm_burn_yields:
  assumes "is_burn Ethereum (EvmSend c)"
  shows "yields (\<lambda>h tr. burned W Ethereum tr h)
    (bind (send_evm W c) (\<lambda>hash. andThen (out (f hash)) (bind (wait_evm W hash) (\<lambda>_. ret hash))))"
  using assms burned.on_ethereum [of c W _ _ "[Out _]" _ _ "[]"]
  by (auto simp: yields_def io_defs out_def send_evm_def wait_evm_def split: sum.splits prod.splits)

lemma confirmed_evm_yields:
  assumes "is_burn Ethereum (EvmSend c)"
  shows "yields (\<lambda>h tr. burned W Ethereum tr h) (confirmed_evm W what c)"
  using assms burned.on_ethereum [of c W _ _ "[]" _ _ "[]"]
  by (auto simp: yields_def confirmed_evm_def io_defs send_evm_def wait_evm_def split: sum.splits prod.splits if_splits)

lemma sol_burn_yields:
  assumes "is_burn Solana (SolSend c)"
  shows "yields (\<lambda>h tr. burned W Solana tr h) (send_sol W c)"
  using assms burned.on_solana [of c W _ _ "[]"]
  by (auto simp: yields_def send_sol_def outside_def)

lemma burn_on_ethereum_yields: "yields (\<lambda>h tr. burned W Ethereum tr h) (burn_on_ethereum W S)"
  unfolding burn_on_ethereum_def deposit_eth_def
  by (intro yields_andThen yields_bind yields_try_catch yields_throw evm_burn_yields) (simp add: burns_def)

lemma io_all_split [io_intros]: "(\<And>x y. p = (x, y) \<Longrightarrow> io_all P (f x y)) \<Longrightarrow> io_all P (case p of (x, y) \<Rightarrow> f x y)"
  by (cases p) simp

lemma receive_pdas_quiet [io_intros]:
  "(\<And>e. \<not> is_mint e \<Longrightarrow> P e) \<Longrightarrow> io_all P (getReceiveMessagePdas W Q k hx d n)"
  unfolding getReceiveMessagePdas_def Let_def by (intro io_intros) simp

lemma replaceable_Inr: "replaceable v = Inr s \<longleftrightarrow> v = Some s"
  by (simp add: replaceable_def split: option.split)

lemma mint_on_solana_carries: "io_all (minting Solana m a) (mint_on_solana W S m a)"
  unfolding mint_on_solana_def
  by (intro io_all_bind_lift io_intros) (simp_all add: replaceable_Inr)

lemma burn_on_solana_quiet: "io_all (\<lambda>e. \<not> is_mint e) (burn_on_solana W S)"
  unfolding burn_on_solana_def Let_def by (intro io_intros) simp_all

lemma sol_burn_logged:
  assumes "is_burn Solana (SolSend c)"
  shows "yields (\<lambda>h tr. burned W Solana tr h) (bind (send_sol W c) (\<lambda>t. andThen (out (f t)) (ret t)))"
  using sol_burn_yields [OF assms, of W] burned_append
  by (fastforce simp: yields_def io_defs out_def split: prod.splits sum.splits)

lemma burn_on_solana_yields: "yields (\<lambda>h tr. burned W Solana tr h) (burn_on_solana W S)"
  unfolding burn_on_solana_def Let_def
  by (rule yields_bind, rule yields_bind, rule yields_bind, rule yields_bind, rule yields_bind, rule sol_burn_logged)
    (simp add: burns_def)

lemma mint_on_ethereum_carries: "io_all (minting Ethereum m a) (mint_on_ethereum W m a)"
  unfolding mint_on_ethereum_def by (intro io_intros) simp_all

lemma getAttestation_phase:
  "p_all (\<lambda>e. \<not> is_mint e) (ends (getAttestation W h d n delay))"
  "p_yields (\<lambda>(m, a) tr. attested W tr (attestation_url d h) m a) (ends (getAttestation W h d n delay))"
proof -
  show "p_all (\<lambda>e. \<not> is_mint e) (ends (getAttestation W h d n delay))"
    unfolding getAttestation_def by (rule p_all_ends, rule io_all_attestation_loop)
  show "p_yields (\<lambda>(m, a) tr. attested W tr (attestation_url d h) m a) (ends (getAttestation W h d n delay))"
    by (auto simp: getAttestation_def p_yields_def ends_def dest: attestation_loop_attested)
qed

section \<open>Version 2\<close>

lemma getContracts_quiet [io_intros]: "io_all P (getContracts W)"
  unfolding getContracts_def by (intro io_intros)

lemma load_solana_quiet [io_intros]: "io_all P (load_solana W)"
  unfolding load_solana_def by (intro io_intros)

lemma announce_all [io_intros]: "io_all P m \<Longrightarrow> (\<And>s. P (Out s)) \<Longrightarrow> io_all P (announce s m)"
  unfolding announce_def by (intro io_intros) simp_all

lemma announce_yields:
  assumes "yields (\<lambda>h tr. burned W ch tr h) m"
  shows "yields (\<lambda>h tr. burned W ch tr h) (announce s m)"
  using assms burned_append by (fastforce simp: announce_def yields_def io_defs out_def split: prod.splits sum.splits)

lemma deposit_evm2sol_phase:
  "io_all (\<lambda>e. \<not> is_mint e) (deposit_evm2sol W a)" "yields (\<lambda>h tr. burned W Ethereum tr h) (deposit_evm2sol W a)"
proof -
  show "io_all (\<lambda>e. \<not> is_mint e) (deposit_evm2sol W a)"
    unfolding deposit_evm2sol_def depositForBurnEvm_def depositForBurnEvmWithHook_def approve_def
    by (intro io_intros) simp_all
  show "yields (\<lambda>h tr. burned W Ethereum tr h) (deposit_evm2sol W a)"
    unfolding deposit_evm2sol_def depositForBurnEvm_def depositForBurnEvmWithHook_def
    by (auto split: option.split intro!: yields_andThen yields_bind confirmed_evm_yields simp: burns_def)
qed

lemma deposit_sol2evm_phase:
  "io_all (\<lambda>e. \<not> is_mint e) (deposit_sol2evm W S a)" "yields (\<lambda>h tr. burned W Solana tr h) (deposit_sol2evm W S a)"
proof -
  show "io_all (\<lambda>e. \<not> is_mint e) (deposit_sol2evm W S a)"
    unfolding deposit_sol2evm_def depositForBurnSol_def depositForBurnSolWithHook_def
    by (intro io_intros) simp_all
  show "yields (\<lambda>h tr. burned W Solana tr h) (deposit_sol2evm W S a)"
    unfolding deposit_sol2evm_def depositForBurnSol_def depositForBurnSolWithHook_def
    by (auto split: option.split intro!: yields_andThen yields_bind sol_burn_yields simp: burns_def)
qed

lemma receive_evm_carries: "io_all (minting Ethereum m a) (receiveMessageEvm W m a)"
  unfolding receiveMessageEvm_def by (intro io_intros) simp_all

lemma receive_pdas_v2_quiet [io_intros]:
  "(\<And>e. \<not> is_mint e \<Longrightarrow> P e) \<Longrightarrow> io_all P (getReceiveMessagePdasV2 W Q k hx d n)"
  unfolding getReceiveMessagePdasV2_def Let_def by (intro io_intros) simp

lemma receive_sol_carries: "io_all (minting Solana m a) (receiveMessageSol W m a)"
  unfolding receiveMessageSol_def
  by (intro io_all_bind_lift io_intros) (simp_all add: replaceable_Inr)

text \<open>One round of the polling.\<close>

lemma poll_run:
  "poll W url tr = (case http W tr url of Inl e \<Rightarrow> Some (Inl e, tr @ [HttpGet url])
     | Inr r \<Rightarrow> if pending r then poll W url (tr @ [HttpGet url, Slept 2000]) else Some (Inr r, tr @ [HttpGet url]))"
  by (subst poll.simps) (simp add: poll_once_def io_defs split: sum.split)

text \<open>The trace of \<open>n\<close> pending rounds, and the answer to the round after them.\<close>

definition polled :: "string \<Rightarrow> nat \<Rightarrow> ctrace" where
  "polled url n = concat (replicate n [HttpGet url, Slept 2000])"

definition answer :: "outside_world \<Rightarrow> string \<Rightarrow> ctrace \<Rightarrow> nat \<Rightarrow> exn + att_response" where
  "answer W url tr n = http W (tr @ polled url n) url"

fun is_pending :: "exn + att_response \<Rightarrow> bool" where
  "is_pending (Inl e) = False"
| "is_pending (Inr r) = pending r"

definition polls :: "outside_world \<Rightarrow> string \<Rightarrow> ctrace \<Rightarrow> nat \<Rightarrow> bool" where
  "polls W url tr n \<longleftrightarrow> (\<forall>i < n. is_pending (answer W url tr i)) \<and> \<not> is_pending (answer W url tr n)"

lemma polled_Suc: "polled url (Suc n) = HttpGet url # Slept 2000 # polled url n"
  by (simp add: polled_def)

lemma answer_0: "answer W url tr 0 = http W tr url"
  by (simp add: answer_def polled_def)

lemma answer_Suc: "answer W url (tr @ [HttpGet url, Slept 2000]) n = answer W url tr (Suc n)"
  by (simp add: answer_def polled_Suc)

lemma polls_Suc:
  "polls W url tr (Suc n) \<longleftrightarrow> is_pending (answer W url tr 0) \<and> polls W url (tr @ [HttpGet url, Slept 2000]) n"
  by (auto simp: polls_def answer_Suc less_Suc_eq_0_disj)

lemma poll_after: "polls W url tr n \<Longrightarrow> poll W url tr = Some (answer W url tr n, tr @ polled url n @ [HttpGet url])"
proof (induction n arbitrary: tr)
  case 0
  then show ?case
    by (subst poll_run) (auto simp: polls_def answer_0 polled_def split: sum.split)
next
  case (Suc n)
  then have "is_pending (http W tr url)" "polls W url (tr @ [HttpGet url, Slept 2000]) n"
    by (simp_all add: polls_Suc answer_0)
  then show ?case using Suc.IH [of "tr @ [HttpGet url, Slept 2000]"]
    by (subst poll_run) (auto simp: answer_Suc polled_Suc split: sum.splits)
qed

lemma poll_step:
  assumes "(case poll_once W url tr of (Inl e, tr') \<Rightarrow> Some (Inl e, tr')
      | (Inr r, tr') \<Rightarrow> if pending r then f W url tr' else Some (Inr r, tr')) = Some y"
    and IH: "\<And>tr y. f W url tr = Some y \<Longrightarrow> \<exists>n. polls W url tr n"
  shows "\<exists>n. polls W url tr n"
proof (cases "is_pending (answer W url tr 0)")
  case True
  then have "f W url (tr @ [HttpGet url, Slept 2000]) = Some y"
    using assms(1) by (auto simp: poll_once_def io_defs answer_0 split: sum.splits)
  then show ?thesis using IH polls_Suc True by blast
qed (auto simp: polls_def intro: exI [of _ 0])

lemma poll_polls:
  assumes ret: "poll W url tr = Some y"
  shows "\<exists>n. polls W url tr n"
proof (rule poll.raw_induct [where P = "\<lambda>W url tr y. \<exists>n. polls W url tr n", OF _ ret])
  fix f W url tr y
  assume "\<And>W url tr y. f W url tr = Some y \<Longrightarrow> \<exists>n. polls W url tr n"
    and "(case poll_once W url tr of (Inl e, tr') \<Rightarrow> Some (Inl e, tr')
      | (Inr r, tr') \<Rightarrow> if pending r then f W url tr' else Some (Inr r, tr')) = Some y"
  then show "\<exists>n. polls W url tr n" by (blast intro: poll_step)
qed

lemma poll_Some_iff:
  "poll W url tr = Some y \<longleftrightarrow> (\<exists>n. polls W url tr n \<and> y = (answer W url tr n, tr @ polled url n @ [HttpGet url]))"
  using poll_polls poll_after by (metis option.inject)

lemma polls_exists: "(\<exists>n. polls W url tr n) \<longleftrightarrow> (\<exists>n. \<not> is_pending (answer W url tr n))"
  using exists_least_iff [of "\<lambda>n. \<not> is_pending (answer W url tr n)"] by (auto simp: polls_def)

lemma poll_Inr:
  assumes "poll W url tr = Some (Inr r, tr')"
  shows "\<exists>n. answer W url tr n = Inr r \<and> \<not> pending r \<and> tr' = (tr @ polled url n) @ [HttpGet url]"
proof -
  from assms obtain n where n: "polls W url tr n" "answer W url tr n = Inr r" "tr' = tr @ polled url n @ [HttpGet url]"
    unfolding poll_Some_iff by auto
  then have "\<not> pending r" by (simp add: polls_def)
  then show ?thesis using n by auto
qed

lemma fetchAttestation_phase:
  "p_all (\<lambda>e. \<not> is_mint e) (fetchAttestation W h d)"
  "p_yields (\<lambda>(m, a) tr. attested W tr (iris_url_v2 W d h) m a) (fetchAttestation W h d)"
proof -
  have "list_all (\<lambda>e. \<not> is_mint e) (polled url n)" for url n
    by (auto simp: polled_def list_all_iff)
  then have "p_all (\<lambda>e. \<not> is_mint e) (poll W url)" for url
    by (auto simp: p_all_def poll_Some_iff)
  then show "p_all (\<lambda>e. \<not> is_mint e) (fetchAttestation W h d)"
    unfolding fetchAttestation_def
    by (intro p_all_pbind p_all_ends io_intros) simp_all
  have "attested W tr' (iris_url_v2 W d h) m a" if "fetchAttestation W h d tr = Some (Inr (m, a), tr')" for tr m a tr'
  proof -
    let ?u = "iris_url_v2 W d h"
    let ?s = "tr @ [Out ''Fetching attestation...'']"
    from that obtain r tr2 where p: "poll W ?u ?s = Some (Inr r, tr2)"
        and r: "message_fields r = Inr (m, a)" "tr' = tr2 @ [OutResponse ''Attestation response:'' r]"
      unfolding fetchAttestation_def by (elim pbind_cases) (auto simp: ends_def out_def io_defs)
    from p obtain n where "answer W ?u ?s n = Inr r" "\<not> pending r" "tr2 = (?s @ polled ?u n) @ [HttpGet ?u]"
      using poll_Inr by blast
    then show ?thesis
      using r attested_append [OF attested_fields [of W "?s @ polled ?u n" ?u r m a]] unfolding answer_def by simp
  qed
  then show "p_yields (\<lambda>(m, a) tr. attested W tr (iris_url_v2 W d h) m a) (fetchAttestation W h d)"
    by (auto simp: p_yields_def)
qed

lemma burn_on_ethereum_once: "io_upto burning (Suc 0) (burn_on_ethereum W S)"
  unfolding burn_on_ethereum_def deposit_eth_def approve_usdc_def check_funds_def ensure_recipient_account_def
  by (rule io_upto_andThen, (intro io_intros; simp), rule io_upto_andThen, (intro io_intros; simp),
      rule io_upto_andThen, (intro io_intros; simp), rule io_upto_after, (intro io_intros; simp),
      rule io_upto_andThen, (intro io_intros; simp), rule io_upto_try_catch, rule io_upto_after, (intro io_intros; simp),
      rule io_upto_before, rule io_upto_send, (intro io_intros; simp), (intro io_intros; simp))

lemma burn_on_solana_once: "io_upto burning (Suc 0) (burn_on_solana W S)"
  unfolding burn_on_solana_def Let_def
  by (rule io_upto_after, (intro io_intros; simp), rule io_upto_after, (intro io_intros; simp),
      rule io_upto_after, (intro io_intros; simp), rule io_upto_after, (intro io_intros; simp),
      rule io_upto_after, (intro io_intros; simp), rule io_upto_before, rule io_upto_send, (intro io_intros; simp))

lemma mint_on_solana_once: "io_upto is_mint (Suc 0) (mint_on_solana W S m a)" "io_all (\<lambda>e. \<not> burning e) (mint_on_solana W S m a)"
proof -
  have "io_all (\<lambda>e. \<not> is_mint e) (getReceiveMessagePdas W Q k hx d n)" "io_all (\<lambda>e. \<not> burning e) (getReceiveMessagePdas W Q k hx d n)"
    for Q k hx d n
    unfolding getReceiveMessagePdas_def Let_def by (intro io_intros; simp)+
  note pdas = this
  show "io_upto is_mint (Suc 0) (mint_on_solana W S m a)"
    unfolding mint_on_solana_def case_prod_unfold
    by (rule io_upto_after, (intro io_intros; simp), rule io_upto_after, (intro io_intros; simp),
        rule io_upto_after, rule pdas, rule io_upto_try_catch, rule io_upto_after, (intro io_intros; simp),
        rule io_upto_after, (intro io_intros; simp), rule io_upto_before, rule io_upto_send, (intro io_intros; simp)+)
  show "io_all (\<lambda>e. \<not> burning e) (mint_on_solana W S m a)"
    unfolding mint_on_solana_def by (intro pdas io_intros) simp_all
qed

lemma mint_on_ethereum_once: "io_upto is_mint (Suc 0) (mint_on_ethereum W m a)" "io_all (\<lambda>e. \<not> burning e) (mint_on_ethereum W m a)"
proof -
  show "io_upto is_mint (Suc 0) (mint_on_ethereum W m a)"
    unfolding mint_on_ethereum_def
    by (rule io_upto_after, (intro io_intros; simp), rule io_upto_andThen, (intro io_intros; simp),
        rule io_upto_try_catch, rule io_upto_before, rule io_upto_send, (intro io_intros; simp)+)
  show "io_all (\<lambda>e. \<not> burning e) (mint_on_ethereum W m a)"
    unfolding mint_on_ethereum_def by (intro io_intros) simp_all
qed

lemma announce_once: "io_upto P n m \<Longrightarrow> (\<And>s. \<not> P (Out s)) \<Longrightarrow> io_upto P n (announce label m)"
  unfolding announce_def by (rule io_upto_before, assumption) (intro io_intros; simp)

lemma deposit_evm2sol_once: "io_upto burning (Suc 0) (deposit_evm2sol W a)"
  unfolding deposit_evm2sol_def depositForBurnEvm_def depositForBurnEvmWithHook_def approve_def
  by (split option.split, intro conjI allI impI;
      (rule io_upto_andThen, (intro io_intros; simp), rule io_upto_andThen, (intro io_intros; simp),
       rule io_upto_andThen, (intro io_intros; simp), rule io_upto_after, (intro io_intros; simp),
       rule io_upto_confirmed, simp, simp))

lemma deposit_sol2evm_once: "io_upto burning (Suc 0) (deposit_sol2evm W S a)"
  unfolding deposit_sol2evm_def depositForBurnSol_def depositForBurnSolWithHook_def
  by (rule io_upto_after, (intro io_intros; simp), rule io_upto_after, (intro io_intros; simp), split option.split,
      intro conjI allI impI;
      (rule io_upto_andThen, (intro io_intros; simp), rule io_upto_after, (intro io_intros; simp),
       rule io_upto_after, (intro io_intros; simp), rule io_upto_send))

lemma receive_evm_once: "io_upto is_mint (Suc 0) (receiveMessageEvm W m a)" "io_all (\<lambda>e. \<not> burning e) (receiveMessageEvm W m a)"
proof -
  show "io_upto is_mint (Suc 0) (receiveMessageEvm W m a)"
    unfolding receiveMessageEvm_def
    by (rule io_upto_andThen, (intro io_intros; simp), rule io_upto_andThen, (intro io_intros; simp), rule io_upto_confirmed) simp_all
  show "io_all (\<lambda>e. \<not> burning e) (receiveMessageEvm W m a)"
    unfolding receiveMessageEvm_def by (intro io_intros) simp_all
qed

lemma receive_sol_once: "io_upto is_mint (Suc 0) (receiveMessageSol W m a)" "io_all (\<lambda>e. \<not> burning e) (receiveMessageSol W m a)"
proof -
  have "io_all (\<lambda>e. \<not> is_mint e) (getReceiveMessagePdasV2 W Q k hx d n)" "io_all (\<lambda>e. \<not> burning e) (getReceiveMessagePdasV2 W Q k hx d n)"
    for Q k hx d n
    unfolding getReceiveMessagePdasV2_def Let_def by (intro io_intros; simp)+
  note pdas = this
  show "io_upto is_mint (Suc 0) (receiveMessageSol W m a)"
    unfolding receiveMessageSol_def
    by (rule io_upto_andThen, (intro io_intros; simp), rule io_upto_after, (intro io_intros; simp),
        rule io_upto_after, (intro io_intros; simp), rule io_upto_after, (intro io_intros; simp),
        rule io_upto_after, (intro io_intros; simp), rule io_upto_after, rule pdas,
        rule io_upto_after, (intro io_intros; simp), rule io_upto_after, (intro io_intros; simp), rule io_upto_send)
  show "io_all (\<lambda>e. \<not> burning e) (receiveMessageSol W m a)"
    unfolding receiveMessageSol_def by (intro pdas io_intros) simp_all
qed

lemma getAttestation_asks: "p_all asking (ends (getAttestation W h d n delay))"
proof -
  have "io_all asking (attestation_loop W h d delay attempts left)" for attempts left
    by (induction left arbitrary: attempts) (auto intro!: io_intros)
  then show ?thesis unfolding getAttestation_def by (rule p_all_ends)
qed

lemma fetchAttestation_asks: "p_all asking (fetchAttestation W h d)"
proof -
  have "list_all asking (polled url n)" for url n
    by (auto simp: polled_def list_all_iff)
  then have "p_all asking (poll W url)" for url
    by (auto simp: p_all_def poll_Some_iff)
  then show ?thesis
    unfolding fetchAttestation_def by (intro p_all_pbind p_all_ends io_intros) simp_all
qed

section \<open>The four transfers\<close>

interpretation eth2sol: bridge W Ethereum "attestation_url 0" "burn_on_ethereum W S"
    "\<lambda>h. ends (getAttestation W h 0 40 40000)" "mint_on_solana W S" for W S
  by unfold_locales (simp_all add: burn_on_ethereum_quiet burn_on_ethereum_once burn_on_ethereum_yields getAttestation_asks
      getAttestation_phase other_def mint_on_solana_carries mint_on_solana_once)

interpretation sol2eth: bridge W Solana "attestation_url 5" "burn_on_solana W S"
    "\<lambda>h. ends (getAttestation W h 5 40 2000)" "\<lambda>m a. bind (mint_on_ethereum W m a) (\<lambda>_. ret ())" for W S
  by unfold_locales (simp_all add: burn_on_solana_quiet burn_on_solana_once burn_on_solana_yields getAttestation_asks
      getAttestation_phase other_def mint_on_ethereum_carries mint_on_ethereum_once io_all_bind io_all_ret io_upto_before)

lemma announce_unit:
  assumes "\<And>s. P (Out s)" and "io_all P m"
  shows "io_all P (andThen (announce l m) (ret ()))"
  using assms by (intro io_intros)

lemma announce_unit_once:
  assumes "\<And>s. \<not> P (Out s)" and "io_upto P n m"
  shows "io_upto P n (andThen (announce l m) (ret ()))"
  unfolding andThen_def by (rule io_upto_before, rule announce_once, rule assms(2), rule assms(1)) (intro io_intros)

interpretation sol2evm: bridge W Solana "iris_url_v2 W 5" "announce ''DepositForBurn'' (deposit_sol2evm W S a)"
    "\<lambda>h. fetchAttestation W h 5" "\<lambda>m a. andThen (announce ''ReceiveMessage'' (receiveMessageEvm W m a)) (ret ())" for W S a
  by unfold_locales (simp_all add: deposit_sol2evm_phase deposit_sol2evm_once announce_all announce_once announce_yields
      fetchAttestation_asks fetchAttestation_phase other_def receive_evm_carries receive_evm_once announce_unit announce_unit_once)

interpretation evm2sol: bridge W Ethereum "iris_url_v2 W 0" "announce ''DepositForBurn'' (deposit_evm2sol W a)"
    "\<lambda>h. fetchAttestation W h 0" "\<lambda>m a. andThen (announce ''ReceiveMessage'' (receiveMessageSol W m a)) (ret ())" for W a
  by unfold_locales (simp_all add: deposit_evm2sol_phase deposit_evm2sol_once announce_all announce_once announce_yields
      fetchAttestation_asks fetchAttestation_phase other_def receive_sol_carries receive_sol_once announce_unit announce_unit_once)

end
