(* ===== verification/Cctp_Props.thy ===== *)
theory Cctp_Props
  imports Cctp_Parts
begin

text \<open>
  The properties of the cross-chain transfers: a mint follows an attested burn on the other chain, the attestation
  loop of version 1 is bounded and takes the first final answer, the polling of version 2 ends exactly when an answer
  is final, and no run burns or mints twice.
\<close>

section \<open>Mints follow attested burns\<close>

text \<open>The scripts, with the chain the tokens come from and where the attestation of a transaction is asked for.\<close>

definition transfers :: "outside_world \<Rightarrow> (unit prun \<times> chain \<times> (string \<Rightarrow> string)) list" where
  "transfers W = [(ends (transfer_eth2sol W), Ethereum, attestation_url ETH_DOMAIN_ID),
     (ends (transfer_sol2eth W), Solana, attestation_url SOLANA_DOMAIN_ID),
     (transfer_v2 W, if commandName W = Some ''sol2evm'' then (Solana, iris_url_v2 W 5) else (Ethereum, iris_url_v2 W 0))]"

lemma quiet_inv: "p_all (\<lambda>e. \<not> is_mint e) m \<Longrightarrow> p_inv (mints_ok W ch url) m"
  by (rule p_inv_of_all, assumption, rule mints_ok_snoc, assumption, simp)

lemma eth2sol_mints_ok: "p_inv (mints_ok W Ethereum (attestation_url 0)) (ends (transfer_eth2sol W))"
proof -
  have "p_all (\<lambda>e. \<not> is_mint e) (ends (load_eth2sol W))"
    unfolding load_eth2sol_def by (intro p_all_ends io_intros)
  then show ?thesis
    using eth2sol.transfer_mints
    by (simp add: transfer_eth2sol_def ends_bind ETH_DOMAIN_ID_def case_prod_unfold p_inv_pbind quiet_inv)
qed

lemma sol2eth_mints_ok: "p_inv (mints_ok W Solana (attestation_url 5)) (ends (transfer_sol2eth W))"
proof -
  have "p_all (\<lambda>e. \<not> is_mint e) (ends (load_sol2eth W))"
    unfolding load_sol2eth_def by (intro p_all_ends io_intros)
  then show ?thesis
    using sol2eth.transfer_mints
    by (simp add: transfer_sol2eth_def ends_bind SOLANA_DOMAIN_ID_def case_prod_unfold p_inv_pbind quiet_inv)
qed

lemma reclaim_quiet: "io_all (\<lambda>e. \<not> burning e \<and> \<not> is_mint e) (reclaim W a)"
  unfolding reclaim_def reclaimEventAccount_def by (intro io_intros) simp_all

lemma transfer_v2_mints_ok:
  "p_inv (mints_ok W (if commandName W = Some ''sol2evm'' then Solana else Ethereum)
     (iris_url_v2 W (if commandName W = Some ''sol2evm'' then 5 else 0))) (transfer_v2 W)"
proof -
  have "io_all (\<lambda>e. \<not> is_mint e) (reclaim W a)" for a
    by (rule io_all_mono [OF reclaim_quiet]) simp
  then show ?thesis
    using sol2evm.transfer_mints evm2sol.transfer_mints
    unfolding transfer_v2_def transfer_v2_main_def transfer_and_receive_def Let_def
    by (intro p_inv_pbind) (auto intro!: quiet_inv p_all_ends io_intros)
qed

text \<open>C14: A script mints only for tokens that were burned on the other chain.\<close>

theorem mints_follow_attested_burns:
  assumes "(script, source, url) \<in> set (transfers W)" and "script [] = Some (r, p @ e # q)" and "is_mint e"
  shows "mints_on (other source) e \<and> (\<exists>h m a. burned W source p h \<and> attested W p (url h) m a \<and> carries m a e)"
proof -
  have "p_inv (mints_ok W source url) script"
    using assms(1) eth2sol_mints_ok [of W] sol2eth_mints_ok [of W] transfer_v2_mints_ok [of W]
    by (auto simp: transfers_def ETH_DOMAIN_ID_def SOLANA_DOMAIN_ID_def split: if_splits)
  then have "mints_ok W source url (p @ e # q)"
    using assms(2) mints_ok_nil unfolding p_inv_def by blast
  then show ?thesis using assms(3) by (auto simp: mints_ok_def justified_def)
qed

section \<open>The attestation loop of version 1\<close>

text \<open>The trace of the first \<open>n\<close> rounds when their answers are pending, and the answer to the next one.\<close>

definition rounds :: "string \<Rightarrow> string \<Rightarrow> nat \<Rightarrow> nat \<Rightarrow> nat \<Rightarrow> ctrace" where
  "rounds url txHash delay k n =
     concat (List.map (\<lambda>i. [Out (attempt_line i txHash), HttpGet url, Slept delay]) [k ..< n])"

definition round_answer :: "outside_world \<Rightarrow> string \<Rightarrow> string \<Rightarrow> nat \<Rightarrow> ctrace \<Rightarrow> nat \<Rightarrow> nat \<Rightarrow> exn + att_response" where
  "round_answer W url txHash delay tr k n = http W (tr @ rounds url txHash delay k n @ [Out (attempt_line n txHash)]) url"

definition loop_result ::
  "outside_world \<Rightarrow> string \<Rightarrow> string \<Rightarrow> nat \<Rightarrow> ctrace \<Rightarrow> nat \<Rightarrow> nat \<Rightarrow> (exn + string option \<times> string option) \<times> ctrace" where
  "loop_result W url txHash delay tr k maxRetries =
     (case List.find (\<lambda>n. \<not> is_pending (round_answer W url txHash delay tr k n)) [k ..< maxRetries] of
        None \<Rightarrow> (Inl (Error ''Max retries reached while fetching attestation messages.''), tr @ rounds url txHash delay k maxRetries)
      | Some n \<Rightarrow> (case round_answer W url txHash delay tr k n of Inl e \<Rightarrow> Inl e | Inr r \<Rightarrow> first_message r,
          tr @ rounds url txHash delay k n @ [Out (attempt_line n txHash), HttpGet url]))"

lemma rounds_Cons: "k < n \<Longrightarrow> rounds url txHash delay k n =
    Out (attempt_line k txHash) # HttpGet url # Slept delay # rounds url txHash delay (Suc k) n"
  by (simp add: rounds_def upt_conv_Cons)

lemma rounds_self: "rounds url txHash delay k k = []"
  by (simp add: rounds_def)

lemma find_shift:
  assumes "k < n" and "\<And>i. Suc k \<le> i \<Longrightarrow> P i = Q i"
  shows "List.find P [k ..< n] = (if P k then Some k else List.find Q [Suc k ..< n])"
proof -
  have "List.find P [Suc k ..< n] = List.find Q [Suc k ..< n]"
    using assms(2) by (intro find_cong) auto
  then show ?thesis using assms(1) by (simp add: upt_conv_Cons)
qed

lemma find_upt: "List.find P [k ..< n] = Some i \<Longrightarrow> k \<le> i"
  by (auto simp: find_Some_iff)

lemma attestation_loop_result:
  "attestation_loop W txHash d delay k left tr = loop_result W (attestation_url d txHash) txHash delay tr k (k + left)"
proof (induction left arbitrary: k tr)
  case 0
  show ?case by (simp add: loop_result_def rounds_self throw_def)
next
  case (Suc left)
  let ?u = "attestation_url d txHash"
  let ?tr = "tr @ [Out (attempt_line k txHash), HttpGet ?u, Slept delay]"
  have step: "round_answer W ?u txHash delay tr k n = round_answer W ?u txHash delay ?tr (Suc k) n" if "Suc k \<le> n" for n
    using that by (simp add: round_answer_def rounds_Cons)
  have first: "round_answer W ?u txHash delay tr k k = http W (tr @ [Out (attempt_line k txHash)]) ?u"
    by (simp add: round_answer_def rounds_self)
  have find: "List.find (\<lambda>n. \<not> is_pending (round_answer W ?u txHash delay tr k n)) [k ..< Suc (k + left)] =
      (if \<not> is_pending (round_answer W ?u txHash delay tr k k) then Some k
       else List.find (\<lambda>n. \<not> is_pending (round_answer W ?u txHash delay ?tr (Suc k) n)) [Suc k ..< Suc (k + left)])"
    by (rule find_shift) (simp_all add: step)
  show ?case
  proof (cases "is_pending (round_answer W ?u txHash delay tr k k)")
    case True
    then have "attestation_loop W txHash d delay k (Suc left) tr = attestation_loop W txHash d delay (Suc k) left ?tr"
      unfolding first by (auto simp: attestation_loop_run Let_def simp del: attestation_loop.simps split: sum.splits)
    also have "\<dots> = loop_result W ?u txHash delay ?tr (Suc k) (Suc (k + left))"
      by (simp add: Suc)
    also have "\<dots> = loop_result W ?u txHash delay tr k (Suc (k + left))"
      using True unfolding loop_result_def find
      by (auto simp: rounds_Cons step simp del: upt_Suc dest!: find_upt split: option.split)
    finally show ?thesis by simp
  next
    case False
    then show ?thesis
      unfolding first by (auto simp: attestation_loop_run Let_def loop_result_def find first rounds_self
          simp del: attestation_loop.simps upt_Suc split: sum.splits)
  qed
qed

text \<open>C28: The attestation loop asks at most maxRetries times and takes the first answer that is not pending.\<close>

theorem attestation_is_the_first_final_answer:
  "getAttestation W txHash d maxRetries delay tr = loop_result W (attestation_url d txHash) txHash delay tr 0 maxRetries"
  by (simp add: getAttestation_def attestation_loop_result)

section \<open>The polling of version 2\<close>

lemma pbind_None: "pbind m f tr = None \<longleftrightarrow> m tr = None \<or> (\<exists>x tr'. m tr = Some (Inr x, tr') \<and> f x tr' = None)"
  by (cases "m tr") (auto simp: pbind_def split: sum.splits)

lemma ends_not_None [simp]: "ends m tr \<noteq> None"
  by (simp add: ends_def)

lemma poll_None: "poll W url tr = None \<longleftrightarrow> (\<forall>n. is_pending (answer W url tr n))"
  using polls_exists [of W url tr] poll_polls poll_after by (metis not_None_eq)

lemma fetchAttestation_None:
  "fetchAttestation W h d tr = None \<longleftrightarrow>
     (\<forall>n. is_pending (answer W (iris_url_v2 W d h) (tr @ [Out ''Fetching attestation...'']) n))"
  unfolding fetchAttestation_def pbind_None poll_None
  by (auto simp: ends_def out_def tell_def)

text \<open>The deposit of the command: the steps up to the first call of the attestation service.\<close>

definition deposit_v2 :: "outside_world \<Rightarrow> string crun" where
  "deposit_v2 W = bind (load_solana W) (\<lambda>S. andThen (tell (OutArgs (shown_args (parse_args W))))
     (announce ''DepositForBurn'' (if commandName W = Some ''sol2evm'' then deposit_sol2evm W S (parse_args W)
        else deposit_evm2sol W (parse_args W))))"

text \<open>C27: The command of version 2 runs on forever exactly when it has burned and every answer is pending.\<close>

theorem waits_forever_only_after_a_burn:
  "transfer_v2 W [] = None \<longleftrightarrow>
     (\<exists>d. (commandName W, d) \<in> {(Some ''sol2evm'', 5), (Some ''evm2sol'', 0)} \<and>
       (\<exists>h tr. deposit_v2 W [] = (Inr h, tr) \<and> burned W (if d = 5 then Solana else Ethereum) tr h \<and>
          (\<forall>n. is_pending (answer W (iris_url_v2 W d h) (tr @ [Out ''Fetching attestation...'']) n))))"
proof -
  have tar: "transfer_and_receive W D d R tr = None \<longleftrightarrow>
      (\<exists>h tr'. announce ''DepositForBurn'' D tr = (Inr h, tr') \<and>
        (\<forall>n. is_pending (answer W (iris_url_v2 W d h) (tr' @ [Out ''Fetching attestation...'']) n)))" for D d R tr
    unfolding transfer_and_receive_def pbind_None fetchAttestation_None by (auto simp: ends_def)
  have "transfer_v2 W [] = None \<longleftrightarrow> (\<exists>S tr. load_solana W [] = (Inr S, tr) \<and> transfer_v2_main W S tr = None)"
    unfolding transfer_v2_def pbind_None by (auto simp: ends_def)
  moreover have "deposit_v2 W [] = (Inr h, tr') \<Longrightarrow> burned W (if commandName W = Some ''sol2evm'' then Solana else Ethereum) tr' h" for h tr'
    using announce_yields [OF deposit_sol2evm_phase(2)] announce_yields [OF deposit_evm2sol_phase(2)]
    by (auto simp: deposit_v2_def yields_def andThen_def elim!: bind_Inr_elim)
  ultimately show ?thesis
    by (auto simp: transfer_v2_main_def Let_def pbind_None tar ends_def deposit_v2_def bind_def andThen_def tell_def
        split: prod.splits sum.splits)
qed

section \<open>Nothing is done twice\<close>

lemma p_upto_after: "io_all (\<lambda>e. \<not> P e) m \<Longrightarrow> (\<And>x. p_upto P n (f x)) \<Longrightarrow> p_upto P n (pbind (ends m) f)"
  using p_upto_pbind [of P 0 "ends m" n f] by (simp add: p_upto_ends io_upto_quiet)

lemma eth2sol_once: "p_upto burning (Suc 0) (ends (transfer_eth2sol W))" "p_upto is_mint (Suc 0) (ends (transfer_eth2sol W))"
  unfolding transfer_eth2sol_def ends_bind case_prod_unfold ETH_DOMAIN_ID_def
  by (rule p_upto_after, simp add: load_eth2sol_def io_intros,
      rule eth2sol.transfer_burns_once [unfolded case_prod_unfold] eth2sol.transfer_mints_once [unfolded case_prod_unfold])+

lemma sol2eth_once: "p_upto burning (Suc 0) (ends (transfer_sol2eth W))" "p_upto is_mint (Suc 0) (ends (transfer_sol2eth W))"
  unfolding transfer_sol2eth_def ends_bind case_prod_unfold SOLANA_DOMAIN_ID_def
  by (rule p_upto_after, simp add: load_sol2eth_def io_intros,
      rule sol2eth.transfer_burns_once [unfolded case_prod_unfold ends_bind] sol2eth.transfer_mints_once [unfolded case_prod_unfold ends_bind])+

lemma transfer_v2_once: "p_upto burning (Suc 0) (transfer_v2 W)" "p_upto is_mint (Suc 0) (transfer_v2 W)"
proof -
  have reclaim: "io_all (\<lambda>e. \<not> burning e) (reclaim W a)" "io_all (\<lambda>e. \<not> is_mint e) (reclaim W a)" for a
    by (rule io_all_mono [OF reclaim_quiet], simp)+
  note transfers = sol2evm.transfer_burns_once sol2evm.transfer_mints_once evm2sol.transfer_burns_once evm2sol.transfer_mints_once
  show "p_upto burning (Suc 0) (transfer_v2 W)" "p_upto is_mint (Suc 0) (transfer_v2 W)"
    unfolding transfer_v2_def transfer_v2_main_def transfer_and_receive_def Let_def
    by (rule p_upto_after, rule load_solana_quiet, rule p_upto_after, (intro io_intros; simp),
        auto simp: transfers p_upto_ends intro!: io_upto_quiet reclaim io_intros)+
qed

text \<open>C26: No run of a transfer burns or mints twice.\<close>

theorem never_twice:
  assumes "(script, source, url) \<in> set (transfers W)" and "script [] = Some (r, tr)"
  shows "length (List.filter burning tr) \<le> 1 \<and> length (List.filter is_mint tr) \<le> 1"
proof -
  have "p_upto burning (Suc 0) script \<and> p_upto is_mint (Suc 0) script"
    using assms(1) by (auto simp: transfers_def eth2sol_once sol2eth_once transfer_v2_once)
  then show ?thesis using assms(2) unfolding p_upto_def by force
qed

end
