(* ===== verification/Cctp_Messages.thy ===== *)
theory Cctp_Messages
  imports Cctp_V2
begin

text \<open>
  Decoding the messages of the bridge: the nonce at its place in the header is read back, from hexadecimal text with or
  without its prefix.
\<close>

section \<open>Numbers in bytes\<close>

text \<open>The last \<open>k\<close> bytes of a number, most significant first.\<close>

fun be_bytes :: "nat \<Rightarrow> nat \<Rightarrow> string" where
  "be_bytes 0 n = []"
| "be_bytes (Suc k) n = be_bytes k (n div 256) @ [char_of (n mod 256)]"

lemma length_be_bytes [simp]: "length (be_bytes k n) = k"
  by (induction k arbitrary: n) simp_all

definition bytes_val :: "nat \<Rightarrow> string \<Rightarrow> nat" where
  "bytes_val a b = foldl (\<lambda>a x. 256 * a + of_char x) a b"

lemma be_bytes_value: "bytes_val a (be_bytes k n) = a * 256 ^ k + n mod 256 ^ k"
proof (induction k arbitrary: n)
  case (Suc k)
  have "bytes_val a (be_bytes (Suc k) n) = 256 * bytes_val a (be_bytes k (n div 256)) + n mod 256"
    by (simp add: bytes_val_def)
  also have "\<dots> = 256 * a * 256 ^ k + (256 * (n div 256 mod 256 ^ k) + n mod 256)"
    by (simp add: Suc algebra_simps)
  also have "256 * (n div 256 mod 256 ^ k) + n mod 256 = n mod (256 * 256 ^ k)"
    by (rule mod_mult2_eq [symmetric])
  finally show ?case by simp
qed (simp add: bytes_val_def)

lemma hex_digits_value:
  "foldl (\<lambda>a x. Option.bind a (\<lambda>n. Option.bind (hex_val x) (\<lambda>d. if d < 16 then Some (16 * n + d) else None))) (Some a) (hex_encode b)
     = Some (bytes_val a b)"
proof (induction b arbitrary: a)
  case (Cons x b)
  have "16 * (16 * a + of_char x div 16) + of_char x mod 16 = 256 * a + (of_char x :: nat)"
    by simp
  then show ?case
    using Cons [of "256 * a + of_char x"] by (simp add: hex_encode_def hex_val_char byte_halves bytes_val_def add.commute)
qed (simp add: hex_encode_def bytes_val_def)

lemma radix_val_hex: "b \<noteq> [] \<Longrightarrow> radix_val 16 (hex_encode b) = Some (bytes_val 0 b)"
  by (subst radix_val.simps, subst hex_digits_value) (cases b, simp_all add: hex_encode_def)

section \<open>The text of bytes as a BigInt\<close>

lemma hex_char_no_space: "n < 16 \<Longrightarrow> \<not> is_ws (hex_char n)"
  unfolding below_16 by (auto simp: hex_char_def is_ws_def)

lemma trim_hex: "js_trim (''0x'' @ hex_encode b) = ''0x'' @ hex_encode b"
proof -
  have "\<not> is_ws x" if "x \<in> set (''0x'' @ hex_encode b)" for x
    using that hex_char_no_space byte_halves by (auto simp: hex_encode_def is_ws_def)
  then have "dropWhile is_ws s = s" if "set s \<subseteq> set (''0x'' @ hex_encode b)" for s
    using that by (cases s) auto
  then show ?thesis by (simp add: js_trim_def del: append_Cons)
qed

lemma BigInt_hex:
  assumes "b \<noteq> []"
  shows "js_BigInt (''0x'' @ hex_encode b) = Inr (int (bytes_val 0 b))"
proof -
  have "prefixed (''0x'' @ hex_encode b) = Some (Some (bytes_val 0 b))"
    using radix_val_hex [OF assms] by (simp add: prefixed_def toLowerCase_def lower_char_def del: radix_val.simps)
  then show ?thesis by (simp add: js_BigInt_def trim_hex Let_def del: append_Cons)
qed

lemma nonce_of_hex:
  assumes hexlify: "\<And>b. hexlify W b = ''0x'' @ hex_encode b"
    and head12: "length head12 = 12" and nonce: "n < 2 ^ 64" and pfx: "pfx \<in> {''0x'', []}"
  shows "decodeEventNonceFromMessage W (Some (pfx @ hex_encode (head12 @ be_bytes 8 n @ body))) = Inr (nat_str n)"
proof -
  have "hexToBytes (pfx @ hex_encode b) = b" for b
    using pfx by (auto simp: hexToBytes_hex simp del: append_Cons)
  moreover have "bytes_val 0 (be_bytes 8 n) = n"
    using nonce by (simp add: be_bytes_value)
  moreover have "be_bytes 8 n \<noteq> []"
    using length_be_bytes [of 8 n] by (metis list.size(3) zero_neq_numeral)
  ultimately show ?thesis
    using head12 BigInt_hex [of "be_bytes 8 n"]
    by (simp add: decodeEventNonceFromMessage_def replaceable_def hexlify int_str_def del: append_Cons)
qed

lemma nonce_v2_of_hex:
  assumes "length head12 = 12" "length nonce32 = 32" "pfx \<in> {''0x'', []}"
  shows "decodeEventNonceFromMessageV2 W (Some (pfx @ hex_encode (head12 @ nonce32 @ body))) = Inr nonce32"
proof -
  have "hexToBytes (pfx @ hex_encode b) = b" for b
    using assms(3) by (auto simp: hexToBytes_hex simp del: append_Cons)
  then show ?thesis
    using assms by (simp add: decodeEventNonceFromMessageV2_def replaceable_def del: append_Cons)
qed

text \<open>C37: The nonce at its place in the header of a message is read back, in both versions.\<close>

theorem nonce_is_read_back:
  assumes hexlify: "\<And>b. hexlify W b = ''0x'' @ hex_encode b"
    and head12: "length head12 = 12" and nonce: "n < 2 ^ 64" and nonce2: "length nonce32 = 32"
    and pfx: "pfx \<in> {''0x'', []}"
  shows "decodeEventNonceFromMessage W (Some (pfx @ hex_encode (head12 @ be_bytes 8 n @ body))) = Inr (nat_str n)
     \<and> decodeEventNonceFromMessageV2 W (Some (pfx @ hex_encode (head12 @ nonce32 @ body))) = Inr nonce32"
  using nonce_of_hex [OF hexlify head12 nonce pfx] nonce_v2_of_hex [OF head12 nonce2 pfx] by blast

end
