(* ===== verification/Cctp_Demo.thy ===== *)
theory Cctp_Demo
  imports Cctp_Props Cctp_Messages
begin

text \<open>A world in which every call succeeds and the second answer of the attestation service is final.\<close>

definition demo_message :: string where
  "demo_message = ''0x'' @ hex_encode (replicate 12 CHR 0x01 @ be_bytes 8 7 @ ''burn'')"

definition slept :: "ctrace \<Rightarrow> bool" where
  "slept tr = list_ex (\<lambda>e. case e of Slept n \<Rightarrow> True | _ \<Rightarrow> False) tr"

definition demo_key :: "string option \<Rightarrow> exn + pubkey" where
  "demo_key v = (case v of None \<Rightarrow> Inl (Library ''Invalid public key input'') | Some s \<Rightarrow> Inr (PublicKey s))"

definition demo_answer :: "ctrace \<Rightarrow> string \<Rightarrow> exn + att_response" where
  "demo_answer tr url = Inr \<lparr>ar_error = False,
     ar_messages = Some [\<lparr>at_message = Some demo_message, at_attestation = Some (if slept tr then ''0xab'' else ''PENDING'')\<rparr>]\<rparr>"

definition demo_world :: outside_world where
  "demo_world = \<lparr>penv = (\<lambda>s. if s = ''USDC_AMOUNT'' then Some ''25'' else if s = ''DESTINATION_CALLER'' \<or> s = ''IRIS_API_URL'' then None else Some s),
     key_of_text = demo_key, key_of_bytes = (\<lambda>b. Inr (PublicKey b)), key_bytes = toBase58,
     bs58_decode = (\<lambda>v. case v of None \<Rightarrow> Inl (Library ''Non-base58 character'') | Some s \<Rightarrow> Inr s),
     bs58_encode = id, hexlify = (\<lambda>b. ''0x'' @ hex_encode b), getBytes = Inr,
     find_address = (\<lambda>seeds p. (PublicKey (concat seeds), 255)), token_address = (\<lambda>m k. Inr (PublicKey (toBase58 k @ ''-ata''))),
     connection_error = (\<lambda>u. None), keypair_of_secret = (\<lambda>s. Inr (PublicKey s)), fresh_keypair = (\<lambda>tr. PublicKey ''fresh''),
     token_program = PublicKey ''token'', system_program = PublicKey ''system'', anchor_BN = (\<lambda>v. Inr 25),
     evm_wallet = (\<lambda>v. Inr ''0xsigner''), contract_error = (\<lambda>a. None),
     evm_count = (\<lambda>tr a. Inr 3), evm_read = (\<lambda>tr c. Inr 25), evm_send = (\<lambda>tr c. Inr ''0xhash''),
     evm_wait = (\<lambda>tr h. Inr \<lparr>rc_status = 1, rc_hash = h\<rparr>), sol_account_exists = (\<lambda>tr k. Inr False),
     sol_blockhash = (\<lambda>tr. Inr ''blockhash''), sol_create_ata = (\<lambda>tr k. Inr ''ata''),
     sol_view = (\<lambda>tr c. Inr (PublicKey ''nonces'')), sol_rpc = (\<lambda>tr c. Inr ''signature''),
     fee_recipient = (\<lambda>tr k. Inr (PublicKey ''fees'')), http = demo_answer, error_property = (\<lambda>e s. None),
     rawArgs = (\<lambda>s. Some ''25''), commandName = Some ''sol2evm''\<rparr>"

lemmas demo_simps = demo_world_def demo_key_def demo_answer_def

lemma nonce_value: "decodeEventNonceFromMessage demo_world (Some demo_message) = Inr (nat_str 7)"
proof -
  have W: "hexlify demo_world b = ''0x'' @ hex_encode b" for b
    by (simp add: demo_world_def)
  show ?thesis
    using nonce_of_hex [OF W, of "replicate 12 CHR 0x01" 7 "''0x''" "''burn''"]
    unfolding demo_message_def by simp
qed

lemma nonce_is_read_back_witness:
  "decodeEventNonceFromMessage demo_world (Some demo_message) = Inr (nat_str 7)
     \<and> decodeEventNonceFromMessageV2 demo_world (Some ([] @ hex_encode (replicate 12 CHR 0x01 @ replicate 32 CHR ''n'' @ ''burn'')))
       = Inr (replicate 32 CHR ''n'')"
proof
  have W: "hexlify demo_world b = ''0x'' @ hex_encode b" for b
    by (simp add: demo_world_def)
  show "decodeEventNonceFromMessage demo_world (Some demo_message) = Inr (nat_str 7)"
    using nonce_is_read_back [OF W, of "replicate 12 CHR 0x01" 7 "replicate 32 CHR ''n''" "''0x''" "''burn''"]
    unfolding demo_message_def by simp
  show "decodeEventNonceFromMessageV2 demo_world (Some ([] @ hex_encode (replicate 12 CHR 0x01 @ replicate 32 CHR ''n'' @ ''burn'')))
       = Inr (replicate 32 CHR ''n'')"
    using nonce_is_read_back [OF W, of "replicate 12 CHR 0x01" 7 "replicate 32 CHR ''n''" "[]" "''burn''"]
    by simp
qed

lemma load_run: "load_eth2sol demo_world tr = (Inr \<lparr>es_amount = 25, es_wallet = PublicKey ''SOL_SENDER_PRIVATE_KEY'',
    es_signer = ''0xsigner'', es_recipient_account = PublicKey ''SOL_RECIPIENT_ADDRESS-ata''\<rparr>, tr)"
proof -
  have "js_BigInt ''25'' = Inr 25" by code_simp
  then show ?thesis
    by (simp add: load_eth2sol_def getAnchorConnection_def big_amount_def io_defs demo_simps)
qed

definition demo_setup :: eth2sol_setup where
  "demo_setup = \<lparr>es_amount = 25, es_wallet = PublicKey ''SOL_SENDER_PRIVATE_KEY'',
    es_signer = ''0xsigner'', es_recipient_account = PublicKey ''SOL_RECIPIENT_ADDRESS-ata''\<rparr>"

lemma burn_run: "\<exists>new. burn_on_ethereum demo_world demo_setup tr = (Inr ''0xhash'', tr @ new) \<and> \<not> slept new"
  unfolding burn_on_ethereum_def approve_usdc_def check_funds_def ensure_recipient_account_def deposit_eth_def
  by (simp add: io_defs demo_simps demo_setup_def new_Contract_def out_def send_evm_def wait_evm_def read_evm_def
      solanaAddressToHex_def slept_def)

lemma attestation_run:
  assumes "\<not> slept tr"
  shows "\<exists>new. getAttestation demo_world h d 40 delay tr = (Inr (Some demo_message, Some ''0xab''), tr @ new)"
proof -
  have "attestation_loop demo_world h d delay 0 (Suc (Suc 38)) tr =
      (Inr (Some demo_message, Some ''0xab''), tr @ [Out (attempt_line 0 h), HttpGet (attestation_url d h), Slept delay,
         Out (attempt_line (Suc 0) h), HttpGet (attestation_url d h)])"
    using assms unfolding attestation_loop_run Let_def
    by (simp add: demo_simps pending_def first_message_def slept_def)
  then show ?thesis by (simp add: getAttestation_def)
qed

lemma mint_run:
  "\<exists>new c. mint_on_solana demo_world demo_setup (Some demo_message) (Some ''0xab'') tr =
     (Inr (), tr @ new @ [SolSend c, Out ''ReceiveMessage transaction sent: signature'']) \<and> is_mint (SolSend c)"
proof -
  have "decodeEventNonceFromMessage demo_world (Some demo_message) = Inr (nat_str 7)"
    using nonce_value by simp
  then show ?thesis
    by (simp add: mint_on_solana_def getReceiveMessagePdas_def receive_addresses_def io_defs demo_simps demo_setup_def
        send_sol_def out_def replaceable_def Let_def try_catch_def)
qed

lemma eth2sol_run:
  "\<exists>p c. transfer_eth2sol demo_world [] =
     (Inr (), p @ SolSend c # [Out ''ReceiveMessage transaction sent: signature'']) \<and> is_mint (SolSend c)"
proof -
  obtain new where burn: "burn_on_ethereum demo_world demo_setup [] = (Inr ''0xhash'', new)" "\<not> slept new"
    using burn_run [of "[]"] by auto
  obtain att where att: "getAttestation demo_world ''0xhash'' ETH_DOMAIN_ID 40 40000 new =
      (Inr (Some demo_message, Some ''0xab''), new @ att)"
    using attestation_run [OF burn(2)] by blast
  obtain last c where "mint_on_solana demo_world demo_setup (Some demo_message) (Some ''0xab'') (new @ att) =
      (Inr (), (new @ att) @ last @ [SolSend c, Out ''ReceiveMessage transaction sent: signature''])" "is_mint (SolSend c)"
    using mint_run by blast
  then have "transfer_eth2sol demo_world [] =
      (Inr (), (new @ att @ last) @ SolSend c # [Out ''ReceiveMessage transaction sent: signature''])"
    using burn(1) att by (simp add: transfer_eth2sol_def bind_run [OF load_run [folded demo_setup_def]] bind_run)
  then show ?thesis using \<open>is_mint (SolSend c)\<close> by blast
qed

lemma mints_follow_attested_burns_witness:
  "\<exists>p c q. ends (transfer_eth2sol demo_world) [] = Some (Inr (), p @ SolSend c # q) \<and> is_mint (SolSend c) \<and>
     (\<exists>h m a. burned demo_world Ethereum p h \<and> attested demo_world p (attestation_url ETH_DOMAIN_ID h) m a \<and> carries m a (SolSend c))"
proof -
  obtain p c where run: "ends (transfer_eth2sol demo_world) [] =
      Some (Inr (), p @ SolSend c # [Out ''ReceiveMessage transaction sent: signature''])" and mint: "is_mint (SolSend c)"
    using eth2sol_run by (auto simp: ends_def)
  have "(ends (transfer_eth2sol demo_world), Ethereum, attestation_url ETH_DOMAIN_ID) \<in> set (transfers demo_world)"
    by (simp add: transfers_def)
  from mints_follow_attested_burns [OF this run mint] run mint show ?thesis by blast
qed

lemma never_twice_witness:
  "\<exists>tr. transfer_eth2sol demo_world [] = (Inr (), tr) \<and> length (List.filter burning tr) \<le> 1 \<and> length (List.filter is_mint tr) = 1"
proof -
  obtain p c where run: "transfer_eth2sol demo_world [] =
      (Inr (), p @ SolSend c # [Out ''ReceiveMessage transaction sent: signature''])" and mint: "is_mint (SolSend c)"
    using eth2sol_run by blast
  have "(ends (transfer_eth2sol demo_world), Ethereum, attestation_url ETH_DOMAIN_ID) \<in> set (transfers demo_world)"
    by (simp add: transfers_def)
  from never_twice [OF this, of "Inr ()" "p @ SolSend c # [Out ''ReceiveMessage transaction sent: signature'']"] run mint
  show ?thesis by (auto simp: ends_def)
qed

end
