(* ===== verification/Idl_Transmitter_V1.thy ===== *)
theory Idl_Transmitter_V1
  imports Idl_Core
begin

text \<open>
  \<^verbatim>\<open>scripts/cross_chain_transfer/cctp_v1/types/message_transmitter.ts\<close>: the description of a program, one definition per instruction
  (its accounts in parts where they are many) and per type. The texts of the documentation are left out.
\<close>

section \<open>Instructions\<close>

definition mt1_initialize :: idl_instruction where
  "mt1_initialize = \<lparr>ii_name = ''initialize'', ii_discriminator = [175, 175, 109, 31, 13, 152, 155, 237],
    ii_accounts =
      [(''payer'', [IsWritable, IsSigner]),
       (''upgradeAuthority'', [IsSigner]),
       (''messageTransmitter'', [IsWritable]),
       (''messageTransmitterProgramData'', []),
       (''messageTransmitterProgram'', []),
       (''systemProgram'', []),
       (''eventAuthority'', []),
       (''program'', [])],
    ii_args = [(''params'', IDefined ''initializeParams'')],
    ii_returns = None\<rparr>"

definition mt1_transferOwnership :: idl_instruction where
  "mt1_transferOwnership = \<lparr>ii_name = ''transferOwnership'', ii_discriminator = [65, 177, 215, 73, 53, 45, 99, 47],
    ii_accounts =
      [(''owner'', [IsSigner]),
       (''messageTransmitter'', [IsWritable]),
       (''eventAuthority'', []),
       (''program'', [])],
    ii_args = [(''params'', IDefined ''transferOwnershipParams'')],
    ii_returns = None\<rparr>"

definition mt1_acceptOwnership :: idl_instruction where
  "mt1_acceptOwnership = \<lparr>ii_name = ''acceptOwnership'', ii_discriminator = [172, 23, 43, 13, 238, 213, 85, 150],
    ii_accounts =
      [(''pendingOwner'', [IsSigner]),
       (''messageTransmitter'', [IsWritable]),
       (''eventAuthority'', []),
       (''program'', [])],
    ii_args = [(''params'', IDefined ''acceptOwnershipParams'')],
    ii_returns = None\<rparr>"

definition mt1_updatePauser :: idl_instruction where
  "mt1_updatePauser = \<lparr>ii_name = ''updatePauser'', ii_discriminator = [140, 171, 211, 132, 57, 201, 16, 254],
    ii_accounts =
      [(''owner'', [IsSigner]),
       (''messageTransmitter'', [IsWritable]),
       (''eventAuthority'', []),
       (''program'', [])],
    ii_args = [(''params'', IDefined ''updatePauserParams'')],
    ii_returns = None\<rparr>"

definition mt1_updateAttesterManager :: idl_instruction where
  "mt1_updateAttesterManager = \<lparr>ii_name = ''updateAttesterManager'', ii_discriminator = [175, 245, 178, 104, 85, 179, 71, 16],
    ii_accounts =
      [(''owner'', [IsSigner]),
       (''messageTransmitter'', [IsWritable]),
       (''eventAuthority'', []),
       (''program'', [])],
    ii_args = [(''params'', IDefined ''updateAttesterManagerParams'')],
    ii_returns = None\<rparr>"

definition mt1_pause :: idl_instruction where
  "mt1_pause = \<lparr>ii_name = ''pause'', ii_discriminator = [211, 22, 221, 251, 74, 121, 193, 47],
    ii_accounts =
      [(''pauser'', [IsSigner]),
       (''messageTransmitter'', [IsWritable]),
       (''eventAuthority'', []),
       (''program'', [])],
    ii_args = [(''params'', IDefined ''pauseParams'')],
    ii_returns = None\<rparr>"

definition mt1_unpause :: idl_instruction where
  "mt1_unpause = \<lparr>ii_name = ''unpause'', ii_discriminator = [169, 144, 4, 38, 10, 141, 188, 255],
    ii_accounts =
      [(''pauser'', [IsSigner]),
       (''messageTransmitter'', [IsWritable]),
       (''eventAuthority'', []),
       (''program'', [])],
    ii_args = [(''params'', IDefined ''unpauseParams'')],
    ii_returns = None\<rparr>"

definition mt1_setMaxMessageBodySize :: idl_instruction where
  "mt1_setMaxMessageBodySize = \<lparr>ii_name = ''setMaxMessageBodySize'', ii_discriminator = [168, 178, 8, 117, 217, 167, 219, 31],
    ii_accounts =
      [(''owner'', [IsSigner]),
       (''messageTransmitter'', [IsWritable]),
       (''eventAuthority'', []),
       (''program'', [])],
    ii_args = [(''params'', IDefined ''setMaxMessageBodySizeParams'')],
    ii_returns = None\<rparr>"

definition mt1_enableAttester :: idl_instruction where
  "mt1_enableAttester = \<lparr>ii_name = ''enableAttester'', ii_discriminator = [2, 11, 193, 115, 5, 148, 4, 198],
    ii_accounts =
      [(''payer'', [IsWritable, IsSigner]),
       (''attesterManager'', [IsSigner]),
       (''messageTransmitter'', [IsWritable]),
       (''systemProgram'', []),
       (''eventAuthority'', []),
       (''program'', [])],
    ii_args = [(''params'', IDefined ''enableAttesterParams'')],
    ii_returns = None\<rparr>"

definition mt1_disableAttester :: idl_instruction where
  "mt1_disableAttester = \<lparr>ii_name = ''disableAttester'', ii_discriminator = [61, 171, 131, 95, 172, 15, 227, 229],
    ii_accounts =
      [(''payer'', [IsWritable, IsSigner]),
       (''attesterManager'', [IsSigner]),
       (''messageTransmitter'', [IsWritable]),
       (''systemProgram'', []),
       (''eventAuthority'', []),
       (''program'', [])],
    ii_args = [(''params'', IDefined ''disableAttesterParams'')],
    ii_returns = None\<rparr>"

definition mt1_setSignatureThreshold :: idl_instruction where
  "mt1_setSignatureThreshold = \<lparr>ii_name = ''setSignatureThreshold'', ii_discriminator = [163, 19, 154, 168, 82, 209, 214, 219],
    ii_accounts =
      [(''attesterManager'', [IsSigner]),
       (''messageTransmitter'', [IsWritable]),
       (''eventAuthority'', []),
       (''program'', [])],
    ii_args = [(''params'', IDefined ''setSignatureThresholdParams'')],
    ii_returns = None\<rparr>"

definition mt1_sendMessage :: idl_instruction where
  "mt1_sendMessage = \<lparr>ii_name = ''sendMessage'', ii_discriminator = [57, 40, 34, 178, 189, 10, 65, 26],
    ii_accounts =
      [(''eventRentPayer'', [IsWritable, IsSigner]),
       (''senderAuthorityPda'', [IsSigner]),
       (''messageTransmitter'', [IsWritable]),
       (''messageSentEventData'', [IsWritable, IsSigner]),
       (''senderProgram'', []),
       (''systemProgram'', [])],
    ii_args = [(''params'', IDefined ''sendMessageParams'')],
    ii_returns = Some IU64\<rparr>"

definition mt1_sendMessageWithCaller :: idl_instruction where
  "mt1_sendMessageWithCaller = \<lparr>ii_name = ''sendMessageWithCaller'', ii_discriminator = [212, 47, 34, 52, 91, 32, 176, 204],
    ii_accounts =
      [(''eventRentPayer'', [IsWritable, IsSigner]),
       (''senderAuthorityPda'', [IsSigner]),
       (''messageTransmitter'', [IsWritable]),
       (''messageSentEventData'', [IsWritable, IsSigner]),
       (''senderProgram'', []),
       (''systemProgram'', [])],
    ii_args = [(''params'', IDefined ''sendMessageWithCallerParams'')],
    ii_returns = Some IU64\<rparr>"

definition mt1_replaceMessage :: idl_instruction where
  "mt1_replaceMessage = \<lparr>ii_name = ''replaceMessage'', ii_discriminator = [189, 189, 210, 163, 149, 205, 69, 229],
    ii_accounts =
      [(''eventRentPayer'', [IsWritable, IsSigner]),
       (''senderAuthorityPda'', [IsSigner]),
       (''messageTransmitter'', [IsWritable]),
       (''messageSentEventData'', [IsWritable, IsSigner]),
       (''senderProgram'', []),
       (''systemProgram'', [])],
    ii_args = [(''params'', IDefined ''replaceMessageParams'')],
    ii_returns = Some IU64\<rparr>"

definition mt1_receiveMessage :: idl_instruction where
  "mt1_receiveMessage = \<lparr>ii_name = ''receiveMessage'', ii_discriminator = [38, 144, 127, 225, 31, 225, 238, 25],
    ii_accounts =
      [(''payer'', [IsWritable, IsSigner]),
       (''caller'', [IsSigner]),
       (''authorityPda'', []),
       (''messageTransmitter'', []),
       (''usedNonces'', [IsWritable]),
       (''receiver'', []),
       (''systemProgram'', []),
       (''eventAuthority'', []),
       (''program'', [])],
    ii_args = [(''params'', IDefined ''receiveMessageParams'')],
    ii_returns = None\<rparr>"

definition mt1_reclaimEventAccount :: idl_instruction where
  "mt1_reclaimEventAccount = \<lparr>ii_name = ''reclaimEventAccount'', ii_discriminator = [94, 198, 180, 159, 131, 236, 15, 174],
    ii_accounts =
      [(''payee'', [IsWritable, IsSigner]),
       (''messageTransmitter'', [IsWritable]),
       (''messageSentEventData'', [IsWritable])],
    ii_args = [(''params'', IDefined ''reclaimEventAccountParams'')],
    ii_returns = None\<rparr>"

definition mt1_getNoncePda :: idl_instruction where
  "mt1_getNoncePda = \<lparr>ii_name = ''getNoncePda'', ii_discriminator = [114, 70, 229, 212, 223, 50, 33, 39],
    ii_accounts =
      [(''messageTransmitter'', [])],
    ii_args = [(''params'', IDefined ''getNoncePdaParams'')],
    ii_returns = Some IPubkey\<rparr>"

definition mt1_isNonceUsed :: idl_instruction where
  "mt1_isNonceUsed = \<lparr>ii_name = ''isNonceUsed'', ii_discriminator = [144, 72, 107, 148, 35, 218, 31, 187],
    ii_accounts =
      [(''usedNonces'', [])],
    ii_args = [(''params'', IDefined ''isNonceUsedParams'')],
    ii_returns = Some IBool\<rparr>"

definition mt1_instructions :: "idl_instruction list" where
  "mt1_instructions =
    [mt1_initialize, mt1_transferOwnership, mt1_acceptOwnership, mt1_updatePauser, mt1_updateAttesterManager,
     mt1_pause, mt1_unpause, mt1_setMaxMessageBodySize, mt1_enableAttester, mt1_disableAttester,
     mt1_setSignatureThreshold, mt1_sendMessage, mt1_sendMessageWithCaller, mt1_replaceMessage,
     mt1_receiveMessage, mt1_reclaimEventAccount, mt1_getNoncePda, mt1_isNonceUsed]"

lemmas mt1_instruction_defs = mt1_initialize_def mt1_transferOwnership_def mt1_acceptOwnership_def mt1_updatePauser_def
  mt1_updateAttesterManager_def mt1_pause_def mt1_unpause_def mt1_setMaxMessageBodySize_def
  mt1_enableAttester_def mt1_disableAttester_def mt1_setSignatureThreshold_def mt1_sendMessage_def
  mt1_sendMessageWithCaller_def mt1_replaceMessage_def mt1_receiveMessage_def mt1_reclaimEventAccount_def
  mt1_getNoncePda_def mt1_isNonceUsed_def

section \<open>Accounts, events and errors\<close>

definition mt1_accounts :: "(string \<times> nat list) list" where
  "mt1_accounts =
    [(''messageSent'', [131, 100, 133, 56, 166, 225, 151, 60]),
     (''messageTransmitter'', [71, 40, 180, 142, 19, 203, 35, 252]),
     (''usedNonces'', [60, 112, 18, 72, 138, 181, 100, 138])]"

definition mt1_events :: "(string \<times> nat list) list" where
  "mt1_events =
    [(''ownershipTransferStarted'', [183, 253, 239, 246, 140, 179, 133, 105]),
     (''ownershipTransferred'', [172, 61, 205, 183, 250, 50, 38, 98]),
     (''pauserChanged'', [142, 157, 158, 87, 127, 8, 119, 55]),
     (''attesterManagerUpdated'', [5, 97, 191, 108, 44, 189, 69, 88]),
     (''messageReceived'', [231, 68, 47, 77, 173, 241, 157, 166]),
     (''signatureThresholdUpdated'', [156, 99, 103, 200, 15, 38, 122, 189]),
     (''attesterEnabled'', [88, 57, 14, 133, 5, 219, 62, 190]),
     (''attesterDisabled'', [186, 136, 186, 14, 229, 2, 121, 211]),
     (''maxMessageBodySizeUpdated'', [134, 206, 151, 111, 137, 11, 160, 225]),
     (''pause'', [194, 251, 232, 196, 118, 95, 111, 219]),
     (''unpause'', [241, 149, 104, 90, 199, 136, 219, 146])]"

definition mt1_errors :: "(nat \<times> string \<times> string) list" where
  "mt1_errors =
    [(6000, ''invalidAuthority'', ''Invalid authority''),
     (6001, ''programPaused'', ''Instruction is not allowed at this time''),
     (6002, ''invalidMessageTransmitterState'', ''Invalid message transmitter state''),
     (6003, ''invalidSignatureThreshold'', ''Invalid signature threshold''),
     (6004, ''signatureThresholdAlreadySet'', ''Signature threshold already set''),
     (6005, ''invalidOwner'', ''Invalid owner''),
     (6006, ''invalidPauser'', ''Invalid pauser''),
     (6007, ''invalidAttesterManager'', ''Invalid attester manager''),
     (6008, ''invalidAttester'', ''Invalid attester''),
     (6009, ''attesterAlreadyEnabled'', ''Attester already enabled''),
     (6010, ''tooFewEnabledAttesters'', ''Too few enabled attesters''),
     (6011, ''signatureThresholdTooLow'', ''Signature threshold is too low''),
     (6012, ''attesterAlreadyDisabled'', ''Attester already disabled''),
     (6013, ''messageBodyLimitExceeded'', ''Message body exceeds max size''),
     (6014, ''invalidDestinationCaller'', ''Invalid destination caller''),
     (6015, ''invalidRecipient'', ''Invalid message recipient''),
     (6016, ''senderNotPermitted'', ''Sender is not permitted''),
     (6017, ''invalidSourceDomain'', ''Invalid source domain''),
     (6018, ''invalidDestinationDomain'', ''Invalid destination domain''),
     (6019, ''invalidMessageVersion'', ''Invalid message version''),
     (6020, ''invalidUsedNoncesAccount'', ''Invalid used nonces account''),
     (6021, ''invalidRecipientProgram'', ''Invalid recipient program''),
     (6022, ''invalidNonce'', ''Invalid nonce''),
     (6023, ''nonceAlreadyUsed'', ''Nonce already used''),
     (6024, ''messageTooShort'', ''Message is too short''),
     (6025, ''malformedMessage'', ''Malformed message''),
     (6026, ''invalidSignatureOrderOrDupe'', ''Invalid signature order or dupe''),
     (6027, ''invalidAttesterSignature'', ''Invalid attester signature''),
     (6028, ''invalidAttestationLength'', ''Invalid attestation length''),
     (6029, ''invalidSignatureRecoveryId'', ''Invalid signature recovery ID''),
     (6030, ''invalidSignatureSValue'', ''Invalid signature S value''),
     (6031, ''invalidMessageHash'', ''Invalid message hash'')]"

section \<open>Types\<close>

definition mt1_type_acceptOwnershipParams :: idl_typedef where
  "mt1_type_acceptOwnershipParams = \<lparr>td_name = ''acceptOwnershipParams'', td_serialization = None, td_repr = None,
    td_fields = [],
    td_variants = []\<rparr>"

definition mt1_type_disableAttesterParams :: idl_typedef where
  "mt1_type_disableAttesterParams = \<lparr>td_name = ''disableAttesterParams'', td_serialization = None, td_repr = None,
    td_fields = [(''attester'', IPubkey)],
    td_variants = []\<rparr>"

definition mt1_type_enableAttesterParams :: idl_typedef where
  "mt1_type_enableAttesterParams = \<lparr>td_name = ''enableAttesterParams'', td_serialization = None, td_repr = None,
    td_fields = [(''newAttester'', IPubkey)],
    td_variants = []\<rparr>"

definition mt1_type_getNoncePdaParams :: idl_typedef where
  "mt1_type_getNoncePdaParams = \<lparr>td_name = ''getNoncePdaParams'', td_serialization = None, td_repr = None,
    td_fields = [(''nonce'', IU64), (''sourceDomain'', IU32)],
    td_variants = []\<rparr>"

definition mt1_type_initializeParams :: idl_typedef where
  "mt1_type_initializeParams = \<lparr>td_name = ''initializeParams'', td_serialization = None, td_repr = None,
    td_fields = [(''localDomain'', IU32), (''attester'', IPubkey), (''maxMessageBodySize'', IU64),
                 (''version'', IU32)],
    td_variants = []\<rparr>"

definition mt1_type_isNonceUsedParams :: idl_typedef where
  "mt1_type_isNonceUsedParams = \<lparr>td_name = ''isNonceUsedParams'', td_serialization = None, td_repr = None,
    td_fields = [(''nonce'', IU64)],
    td_variants = []\<rparr>"

definition mt1_type_pauseParams :: idl_typedef where
  "mt1_type_pauseParams = \<lparr>td_name = ''pauseParams'', td_serialization = None, td_repr = None,
    td_fields = [],
    td_variants = []\<rparr>"

definition mt1_type_receiveMessageParams :: idl_typedef where
  "mt1_type_receiveMessageParams = \<lparr>td_name = ''receiveMessageParams'', td_serialization = None, td_repr = None,
    td_fields = [(''message'', IBytes), (''attestation'', IBytes)],
    td_variants = []\<rparr>"

definition mt1_type_handleReceiveMessageParams :: idl_typedef where
  "mt1_type_handleReceiveMessageParams = \<lparr>td_name = ''handleReceiveMessageParams'', td_serialization = None, td_repr = None,
    td_fields = [(''remoteDomain'', IU32), (''sender'', IPubkey), (''messageBody'', IBytes),
                 (''authorityBump'', IU8)],
    td_variants = []\<rparr>"

definition mt1_type_reclaimEventAccountParams :: idl_typedef where
  "mt1_type_reclaimEventAccountParams = \<lparr>td_name = ''reclaimEventAccountParams'', td_serialization = None, td_repr = None,
    td_fields = [(''attestation'', IBytes)],
    td_variants = []\<rparr>"

definition mt1_type_replaceMessageParams :: idl_typedef where
  "mt1_type_replaceMessageParams = \<lparr>td_name = ''replaceMessageParams'', td_serialization = None, td_repr = None,
    td_fields = [(''originalMessage'', IBytes), (''originalAttestation'', IBytes), (''newMessageBody'', IBytes),
                 (''newDestinationCaller'', IPubkey)],
    td_variants = []\<rparr>"

definition mt1_type_sendMessageWithCallerParams :: idl_typedef where
  "mt1_type_sendMessageWithCallerParams = \<lparr>td_name = ''sendMessageWithCallerParams'', td_serialization = None, td_repr = None,
    td_fields = [(''destinationDomain'', IU32), (''recipient'', IPubkey), (''messageBody'', IBytes),
                 (''destinationCaller'', IPubkey)],
    td_variants = []\<rparr>"

definition mt1_type_sendMessageParams :: idl_typedef where
  "mt1_type_sendMessageParams = \<lparr>td_name = ''sendMessageParams'', td_serialization = None, td_repr = None,
    td_fields = [(''destinationDomain'', IU32), (''recipient'', IPubkey), (''messageBody'', IBytes)],
    td_variants = []\<rparr>"

definition mt1_type_setMaxMessageBodySizeParams :: idl_typedef where
  "mt1_type_setMaxMessageBodySizeParams = \<lparr>td_name = ''setMaxMessageBodySizeParams'', td_serialization = None, td_repr = None,
    td_fields = [(''newMaxMessageBodySize'', IU64)],
    td_variants = []\<rparr>"

definition mt1_type_setSignatureThresholdParams :: idl_typedef where
  "mt1_type_setSignatureThresholdParams = \<lparr>td_name = ''setSignatureThresholdParams'', td_serialization = None, td_repr = None,
    td_fields = [(''newSignatureThreshold'', IU32)],
    td_variants = []\<rparr>"

definition mt1_type_transferOwnershipParams :: idl_typedef where
  "mt1_type_transferOwnershipParams = \<lparr>td_name = ''transferOwnershipParams'', td_serialization = None, td_repr = None,
    td_fields = [(''newOwner'', IPubkey)],
    td_variants = []\<rparr>"

definition mt1_type_unpauseParams :: idl_typedef where
  "mt1_type_unpauseParams = \<lparr>td_name = ''unpauseParams'', td_serialization = None, td_repr = None,
    td_fields = [],
    td_variants = []\<rparr>"

definition mt1_type_updateAttesterManagerParams :: idl_typedef where
  "mt1_type_updateAttesterManagerParams = \<lparr>td_name = ''updateAttesterManagerParams'', td_serialization = None, td_repr = None,
    td_fields = [(''newAttesterManager'', IPubkey)],
    td_variants = []\<rparr>"

definition mt1_type_updatePauserParams :: idl_typedef where
  "mt1_type_updatePauserParams = \<lparr>td_name = ''updatePauserParams'', td_serialization = None, td_repr = None,
    td_fields = [(''newPauser'', IPubkey)],
    td_variants = []\<rparr>"

definition mt1_type_mathError :: idl_typedef where
  "mt1_type_mathError = \<lparr>td_name = ''mathError'', td_serialization = None, td_repr = None,
    td_fields = [],
    td_variants = [''mathOverflow'', ''mathUnderflow'', ''errorInDivision'']\<rparr>"

definition mt1_type_messageSent :: idl_typedef where
  "mt1_type_messageSent = \<lparr>td_name = ''messageSent'', td_serialization = None, td_repr = None,
    td_fields = [(''rentPayer'', IPubkey), (''message'', IBytes)],
    td_variants = []\<rparr>"

definition mt1_type_messageTransmitter :: idl_typedef where
  "mt1_type_messageTransmitter = \<lparr>td_name = ''messageTransmitter'', td_serialization = None, td_repr = None,
    td_fields = [(''owner'', IPubkey), (''pendingOwner'', IPubkey), (''attesterManager'', IPubkey),
                 (''pauser'', IPubkey), (''paused'', IBool), (''localDomain'', IU32), (''version'', IU32),
                 (''signatureThreshold'', IU32), (''enabledAttesters'', IVec IPubkey),
                 (''maxMessageBodySize'', IU64), (''nextAvailableNonce'', IU64)],
    td_variants = []\<rparr>"

definition mt1_type_usedNonces :: idl_typedef where
  "mt1_type_usedNonces = \<lparr>td_name = ''usedNonces'', td_serialization = None, td_repr = None,
    td_fields = [(''remoteDomain'', IU32), (''firstNonce'', IU64), (''usedNonces'', IArray IU64 100)],
    td_variants = []\<rparr>"

definition mt1_type_ownershipTransferStarted :: idl_typedef where
  "mt1_type_ownershipTransferStarted = \<lparr>td_name = ''ownershipTransferStarted'', td_serialization = None, td_repr = None,
    td_fields = [(''previousOwner'', IPubkey), (''newOwner'', IPubkey)],
    td_variants = []\<rparr>"

definition mt1_type_ownershipTransferred :: idl_typedef where
  "mt1_type_ownershipTransferred = \<lparr>td_name = ''ownershipTransferred'', td_serialization = None, td_repr = None,
    td_fields = [(''previousOwner'', IPubkey), (''newOwner'', IPubkey)],
    td_variants = []\<rparr>"

definition mt1_type_pauserChanged :: idl_typedef where
  "mt1_type_pauserChanged = \<lparr>td_name = ''pauserChanged'', td_serialization = None, td_repr = None,
    td_fields = [(''newAddress'', IPubkey)],
    td_variants = []\<rparr>"

definition mt1_type_attesterManagerUpdated :: idl_typedef where
  "mt1_type_attesterManagerUpdated = \<lparr>td_name = ''attesterManagerUpdated'', td_serialization = None, td_repr = None,
    td_fields = [(''previousAttesterManager'', IPubkey), (''newAttesterManager'', IPubkey)],
    td_variants = []\<rparr>"

definition mt1_type_messageReceived :: idl_typedef where
  "mt1_type_messageReceived = \<lparr>td_name = ''messageReceived'', td_serialization = None, td_repr = None,
    td_fields = [(''caller'', IPubkey), (''sourceDomain'', IU32), (''nonce'', IU64), (''sender'', IPubkey),
                 (''messageBody'', IBytes)],
    td_variants = []\<rparr>"

definition mt1_type_signatureThresholdUpdated :: idl_typedef where
  "mt1_type_signatureThresholdUpdated = \<lparr>td_name = ''signatureThresholdUpdated'', td_serialization = None, td_repr = None,
    td_fields = [(''oldSignatureThreshold'', IU32), (''newSignatureThreshold'', IU32)],
    td_variants = []\<rparr>"

definition mt1_type_attesterEnabled :: idl_typedef where
  "mt1_type_attesterEnabled = \<lparr>td_name = ''attesterEnabled'', td_serialization = None, td_repr = None,
    td_fields = [(''attester'', IPubkey)],
    td_variants = []\<rparr>"

definition mt1_type_attesterDisabled :: idl_typedef where
  "mt1_type_attesterDisabled = \<lparr>td_name = ''attesterDisabled'', td_serialization = None, td_repr = None,
    td_fields = [(''attester'', IPubkey)],
    td_variants = []\<rparr>"

definition mt1_type_maxMessageBodySizeUpdated :: idl_typedef where
  "mt1_type_maxMessageBodySizeUpdated = \<lparr>td_name = ''maxMessageBodySizeUpdated'', td_serialization = None, td_repr = None,
    td_fields = [(''newMaxMessageBodySize'', IU64)],
    td_variants = []\<rparr>"

definition mt1_type_pause :: idl_typedef where
  "mt1_type_pause = \<lparr>td_name = ''pause'', td_serialization = None, td_repr = None,
    td_fields = [],
    td_variants = []\<rparr>"

definition mt1_type_unpause :: idl_typedef where
  "mt1_type_unpause = \<lparr>td_name = ''unpause'', td_serialization = None, td_repr = None,
    td_fields = [],
    td_variants = []\<rparr>"

definition mt1_types :: "idl_typedef list" where
  "mt1_types =
    [mt1_type_acceptOwnershipParams, mt1_type_disableAttesterParams, mt1_type_enableAttesterParams,
     mt1_type_getNoncePdaParams, mt1_type_initializeParams, mt1_type_isNonceUsedParams, mt1_type_pauseParams,
     mt1_type_receiveMessageParams, mt1_type_handleReceiveMessageParams, mt1_type_reclaimEventAccountParams,
     mt1_type_replaceMessageParams, mt1_type_sendMessageWithCallerParams, mt1_type_sendMessageParams,
     mt1_type_setMaxMessageBodySizeParams, mt1_type_setSignatureThresholdParams,
     mt1_type_transferOwnershipParams, mt1_type_unpauseParams, mt1_type_updateAttesterManagerParams,
     mt1_type_updatePauserParams, mt1_type_mathError, mt1_type_messageSent, mt1_type_messageTransmitter,
     mt1_type_usedNonces, mt1_type_ownershipTransferStarted, mt1_type_ownershipTransferred,
     mt1_type_pauserChanged, mt1_type_attesterManagerUpdated, mt1_type_messageReceived,
     mt1_type_signatureThresholdUpdated, mt1_type_attesterEnabled, mt1_type_attesterDisabled,
     mt1_type_maxMessageBodySizeUpdated, mt1_type_pause, mt1_type_unpause]"

lemmas mt1_type_defs = mt1_type_acceptOwnershipParams_def mt1_type_disableAttesterParams_def mt1_type_enableAttesterParams_def
  mt1_type_getNoncePdaParams_def mt1_type_initializeParams_def mt1_type_isNonceUsedParams_def
  mt1_type_pauseParams_def mt1_type_receiveMessageParams_def mt1_type_handleReceiveMessageParams_def
  mt1_type_reclaimEventAccountParams_def mt1_type_replaceMessageParams_def
  mt1_type_sendMessageWithCallerParams_def mt1_type_sendMessageParams_def
  mt1_type_setMaxMessageBodySizeParams_def mt1_type_setSignatureThresholdParams_def
  mt1_type_transferOwnershipParams_def mt1_type_unpauseParams_def mt1_type_updateAttesterManagerParams_def
  mt1_type_updatePauserParams_def mt1_type_mathError_def mt1_type_messageSent_def
  mt1_type_messageTransmitter_def mt1_type_usedNonces_def mt1_type_ownershipTransferStarted_def
  mt1_type_ownershipTransferred_def mt1_type_pauserChanged_def mt1_type_attesterManagerUpdated_def
  mt1_type_messageReceived_def mt1_type_signatureThresholdUpdated_def mt1_type_attesterEnabled_def
  mt1_type_attesterDisabled_def mt1_type_maxMessageBodySizeUpdated_def mt1_type_pause_def
  mt1_type_unpause_def

section \<open>The description\<close>

definition MessageTransmitter :: idl where
  "MessageTransmitter = \<lparr>idl_address = ''CCTPmbSD7gX1bxKPAmg77w8oFzNFpaQiQUWD43TKaecd'',
    idl_metadata = [(''name'', ''messageTransmitter''), (''version'', ''0.1.0''), (''spec'', ''0.1.0'')],
    idl_instructions = mt1_instructions, idl_accounts = mt1_accounts, idl_events = mt1_events,
    idl_errors = mt1_errors, idl_types = mt1_types\<rparr>"

end
