(* ===== verification/Idl_Minter_V1.thy ===== *)
theory Idl_Minter_V1
  imports Idl_Core
begin

text \<open>
  \<^verbatim>\<open>scripts/cross_chain_transfer/cctp_v1/types/token_messenger_minter.ts\<close>: the description of a program, one definition per instruction
  (its accounts in parts where they are many) and per type. The texts of the documentation are left out.
\<close>

section \<open>Instructions\<close>

definition tm1_initialize :: idl_instruction where
  "tm1_initialize = \<lparr>ii_name = ''initialize'', ii_discriminator = [175, 175, 109, 31, 13, 152, 155, 237],
    ii_accounts =
      [(''payer'', [IsWritable, IsSigner]),
       (''upgradeAuthority'', [IsSigner]),
       (''authorityPda'', []),
       (''tokenMessenger'', [IsWritable]),
       (''tokenMinter'', [IsWritable]),
       (''tokenMessengerMinterProgramData'', []),
       (''tokenMessengerMinterProgram'', []),
       (''systemProgram'', []),
       (''eventAuthority'', []),
       (''program'', [])],
    ii_args = [(''params'', IDefined ''initializeParams'')],
    ii_returns = None\<rparr>"

definition tm1_transferOwnership :: idl_instruction where
  "tm1_transferOwnership = \<lparr>ii_name = ''transferOwnership'', ii_discriminator = [65, 177, 215, 73, 53, 45, 99, 47],
    ii_accounts =
      [(''owner'', [IsSigner]),
       (''tokenMessenger'', [IsWritable]),
       (''eventAuthority'', []),
       (''program'', [])],
    ii_args = [(''params'', IDefined ''transferOwnershipParams'')],
    ii_returns = None\<rparr>"

definition tm1_acceptOwnership :: idl_instruction where
  "tm1_acceptOwnership = \<lparr>ii_name = ''acceptOwnership'', ii_discriminator = [172, 23, 43, 13, 238, 213, 85, 150],
    ii_accounts =
      [(''pendingOwner'', [IsSigner]),
       (''tokenMessenger'', [IsWritable]),
       (''eventAuthority'', []),
       (''program'', [])],
    ii_args = [(''params'', IDefined ''acceptOwnershipParams'')],
    ii_returns = None\<rparr>"

definition tm1_addRemoteTokenMessenger :: idl_instruction where
  "tm1_addRemoteTokenMessenger = \<lparr>ii_name = ''addRemoteTokenMessenger'', ii_discriminator = [12, 149, 172, 165, 111, 202, 24, 33],
    ii_accounts =
      [(''payer'', [IsWritable, IsSigner]),
       (''owner'', [IsSigner]),
       (''tokenMessenger'', []),
       (''remoteTokenMessenger'', [IsWritable]),
       (''systemProgram'', []),
       (''eventAuthority'', []),
       (''program'', [])],
    ii_args = [(''params'', IDefined ''addRemoteTokenMessengerParams'')],
    ii_returns = None\<rparr>"

definition tm1_removeRemoteTokenMessenger :: idl_instruction where
  "tm1_removeRemoteTokenMessenger = \<lparr>ii_name = ''removeRemoteTokenMessenger'', ii_discriminator = [65, 114, 66, 85, 169, 98, 177, 146],
    ii_accounts =
      [(''payee'', [IsWritable, IsSigner]),
       (''owner'', [IsSigner]),
       (''tokenMessenger'', []),
       (''remoteTokenMessenger'', [IsWritable]),
       (''eventAuthority'', []),
       (''program'', [])],
    ii_args = [(''params'', IDefined ''removeRemoteTokenMessengerParams'')],
    ii_returns = None\<rparr>"

definition tm1_depositForBurn :: idl_instruction where
  "tm1_depositForBurn = \<lparr>ii_name = ''depositForBurn'', ii_discriminator = [215, 60, 61, 46, 114, 55, 128, 176],
    ii_accounts =
      [(''owner'', [IsSigner]),
       (''eventRentPayer'', [IsWritable, IsSigner]),
       (''senderAuthorityPda'', []),
       (''burnTokenAccount'', [IsWritable]),
       (''messageTransmitter'', [IsWritable]),
       (''tokenMessenger'', []),
       (''remoteTokenMessenger'', []),
       (''tokenMinter'', []),
       (''localToken'', [IsWritable]),
       (''burnTokenMint'', [IsWritable]),
       (''messageSentEventData'', [IsWritable, IsSigner]),
       (''messageTransmitterProgram'', []),
       (''tokenMessengerMinterProgram'', []),
       (''tokenProgram'', []),
       (''systemProgram'', []),
       (''eventAuthority'', []),
       (''program'', [])],
    ii_args = [(''params'', IDefined ''depositForBurnParams'')],
    ii_returns = Some IU64\<rparr>"

definition tm1_depositForBurnWithCaller :: idl_instruction where
  "tm1_depositForBurnWithCaller = \<lparr>ii_name = ''depositForBurnWithCaller'', ii_discriminator = [167, 222, 19, 114, 85, 21, 14, 118],
    ii_accounts =
      [(''owner'', [IsSigner]),
       (''eventRentPayer'', [IsWritable, IsSigner]),
       (''senderAuthorityPda'', []),
       (''burnTokenAccount'', [IsWritable]),
       (''messageTransmitter'', [IsWritable]),
       (''tokenMessenger'', []),
       (''remoteTokenMessenger'', []),
       (''tokenMinter'', []),
       (''localToken'', [IsWritable]),
       (''burnTokenMint'', [IsWritable]),
       (''messageSentEventData'', [IsWritable, IsSigner]),
       (''messageTransmitterProgram'', []),
       (''tokenMessengerMinterProgram'', []),
       (''tokenProgram'', []),
       (''systemProgram'', []),
       (''eventAuthority'', []),
       (''program'', [])],
    ii_args = [(''params'', IDefined ''depositForBurnWithCallerParams'')],
    ii_returns = Some IU64\<rparr>"

definition tm1_replaceDepositForBurn :: idl_instruction where
  "tm1_replaceDepositForBurn = \<lparr>ii_name = ''replaceDepositForBurn'', ii_discriminator = [7, 27, 93, 132, 1, 80, 19, 163],
    ii_accounts =
      [(''owner'', [IsSigner]),
       (''eventRentPayer'', [IsWritable, IsSigner]),
       (''senderAuthorityPda'', []),
       (''messageTransmitter'', [IsWritable]),
       (''tokenMessenger'', []),
       (''messageSentEventData'', [IsWritable, IsSigner]),
       (''messageTransmitterProgram'', []),
       (''tokenMessengerMinterProgram'', []),
       (''systemProgram'', []),
       (''eventAuthority'', []),
       (''program'', [])],
    ii_args = [(''params'', IDefined ''replaceDepositForBurnParams'')],
    ii_returns = Some IU64\<rparr>"

definition tm1_handleReceiveMessage :: idl_instruction where
  "tm1_handleReceiveMessage = \<lparr>ii_name = ''handleReceiveMessage'', ii_discriminator = [133, 102, 1, 180, 145, 11, 138, 180],
    ii_accounts =
      [(''authorityPda'', [IsSigner]),
       (''tokenMessenger'', []),
       (''remoteTokenMessenger'', []),
       (''tokenMinter'', []),
       (''localToken'', [IsWritable]),
       (''tokenPair'', []),
       (''recipientTokenAccount'', [IsWritable]),
       (''custodyTokenAccount'', [IsWritable]),
       (''tokenProgram'', []),
       (''eventAuthority'', []),
       (''program'', [])],
    ii_args = [(''params'', IDefined ''handleReceiveMessageParams'')],
    ii_returns = None\<rparr>"

definition tm1_setTokenController :: idl_instruction where
  "tm1_setTokenController = \<lparr>ii_name = ''setTokenController'', ii_discriminator = [88, 6, 98, 10, 79, 59, 15, 24],
    ii_accounts =
      [(''owner'', [IsSigner]),
       (''tokenMessenger'', []),
       (''tokenMinter'', [IsWritable]),
       (''eventAuthority'', []),
       (''program'', [])],
    ii_args = [(''params'', IDefined ''setTokenControllerParams'')],
    ii_returns = None\<rparr>"

definition tm1_pause :: idl_instruction where
  "tm1_pause = \<lparr>ii_name = ''pause'', ii_discriminator = [211, 22, 221, 251, 74, 121, 193, 47],
    ii_accounts =
      [(''pauser'', [IsSigner]),
       (''tokenMinter'', [IsWritable]),
       (''eventAuthority'', []),
       (''program'', [])],
    ii_args = [(''params'', IDefined ''pauseParams'')],
    ii_returns = None\<rparr>"

definition tm1_unpause :: idl_instruction where
  "tm1_unpause = \<lparr>ii_name = ''unpause'', ii_discriminator = [169, 144, 4, 38, 10, 141, 188, 255],
    ii_accounts =
      [(''pauser'', [IsSigner]),
       (''tokenMinter'', [IsWritable]),
       (''eventAuthority'', []),
       (''program'', [])],
    ii_args = [(''params'', IDefined ''unpauseParams'')],
    ii_returns = None\<rparr>"

definition tm1_updatePauser :: idl_instruction where
  "tm1_updatePauser = \<lparr>ii_name = ''updatePauser'', ii_discriminator = [140, 171, 211, 132, 57, 201, 16, 254],
    ii_accounts =
      [(''owner'', [IsSigner]),
       (''tokenMessenger'', []),
       (''tokenMinter'', [IsWritable]),
       (''eventAuthority'', []),
       (''program'', [])],
    ii_args = [(''params'', IDefined ''updatePauserParams'')],
    ii_returns = None\<rparr>"

definition tm1_setMaxBurnAmountPerMessage :: idl_instruction where
  "tm1_setMaxBurnAmountPerMessage = \<lparr>ii_name = ''setMaxBurnAmountPerMessage'', ii_discriminator = [30, 128, 145, 240, 70, 237, 109, 207],
    ii_accounts =
      [(''tokenController'', [IsSigner]),
       (''tokenMinter'', []),
       (''localToken'', [IsWritable]),
       (''eventAuthority'', []),
       (''program'', [])],
    ii_args = [(''params'', IDefined ''setMaxBurnAmountPerMessageParams'')],
    ii_returns = None\<rparr>"

definition tm1_addLocalToken :: idl_instruction where
  "tm1_addLocalToken = \<lparr>ii_name = ''addLocalToken'', ii_discriminator = [213, 199, 205, 18, 98, 124, 73, 198],
    ii_accounts =
      [(''payer'', [IsWritable, IsSigner]),
       (''tokenController'', [IsSigner]),
       (''tokenMinter'', []),
       (''localToken'', [IsWritable]),
       (''custodyTokenAccount'', [IsWritable]),
       (''localTokenMint'', []),
       (''tokenProgram'', []),
       (''systemProgram'', []),
       (''eventAuthority'', []),
       (''program'', [])],
    ii_args = [(''params'', IDefined ''addLocalTokenParams'')],
    ii_returns = None\<rparr>"

definition tm1_removeLocalToken :: idl_instruction where
  "tm1_removeLocalToken = \<lparr>ii_name = ''removeLocalToken'', ii_discriminator = [27, 43, 66, 170, 188, 44, 109, 97],
    ii_accounts =
      [(''payee'', [IsWritable, IsSigner]),
       (''tokenController'', [IsSigner]),
       (''tokenMinter'', []),
       (''localToken'', [IsWritable]),
       (''custodyTokenAccount'', [IsWritable]),
       (''tokenProgram'', []),
       (''eventAuthority'', []),
       (''program'', [])],
    ii_args = [(''params'', IDefined ''removeLocalTokenParams'')],
    ii_returns = None\<rparr>"

definition tm1_linkTokenPair :: idl_instruction where
  "tm1_linkTokenPair = \<lparr>ii_name = ''linkTokenPair'', ii_discriminator = [68, 162, 24, 104, 125, 46, 130, 12],
    ii_accounts =
      [(''payer'', [IsWritable, IsSigner]),
       (''tokenController'', [IsSigner]),
       (''tokenMinter'', []),
       (''tokenPair'', [IsWritable]),
       (''systemProgram'', []),
       (''eventAuthority'', []),
       (''program'', [])],
    ii_args = [(''params'', IDefined ''linkTokenPairParams'')],
    ii_returns = None\<rparr>"

definition tm1_unlinkTokenPair :: idl_instruction where
  "tm1_unlinkTokenPair = \<lparr>ii_name = ''unlinkTokenPair'', ii_discriminator = [52, 198, 100, 114, 104, 174, 85, 58],
    ii_accounts =
      [(''payee'', [IsWritable, IsSigner]),
       (''tokenController'', [IsSigner]),
       (''tokenMinter'', []),
       (''tokenPair'', [IsWritable]),
       (''eventAuthority'', []),
       (''program'', [])],
    ii_args = [(''params'', IDefined ''uninkTokenPairParams'')],
    ii_returns = None\<rparr>"

definition tm1_burnTokenCustody :: idl_instruction where
  "tm1_burnTokenCustody = \<lparr>ii_name = ''burnTokenCustody'', ii_discriminator = [233, 136, 180, 175, 112, 41, 62, 71],
    ii_accounts =
      [(''payee'', [IsWritable, IsSigner]),
       (''tokenController'', [IsSigner]),
       (''tokenMinter'', []),
       (''localToken'', []),
       (''custodyTokenAccount'', [IsWritable]),
       (''custodyTokenMint'', [IsWritable]),
       (''tokenProgram'', []),
       (''eventAuthority'', []),
       (''program'', [])],
    ii_args = [(''params'', IDefined ''burnTokenCustodyParams'')],
    ii_returns = None\<rparr>"

definition tm1_instructions :: "idl_instruction list" where
  "tm1_instructions =
    [tm1_initialize, tm1_transferOwnership, tm1_acceptOwnership, tm1_addRemoteTokenMessenger,
     tm1_removeRemoteTokenMessenger, tm1_depositForBurn, tm1_depositForBurnWithCaller, tm1_replaceDepositForBurn,
     tm1_handleReceiveMessage, tm1_setTokenController, tm1_pause, tm1_unpause, tm1_updatePauser,
     tm1_setMaxBurnAmountPerMessage, tm1_addLocalToken, tm1_removeLocalToken, tm1_linkTokenPair,
     tm1_unlinkTokenPair, tm1_burnTokenCustody]"

lemmas tm1_instruction_defs = tm1_initialize_def tm1_transferOwnership_def tm1_acceptOwnership_def tm1_addRemoteTokenMessenger_def
  tm1_removeRemoteTokenMessenger_def tm1_depositForBurn_def tm1_depositForBurnWithCaller_def
  tm1_replaceDepositForBurn_def tm1_handleReceiveMessage_def tm1_setTokenController_def tm1_pause_def
  tm1_unpause_def tm1_updatePauser_def tm1_setMaxBurnAmountPerMessage_def tm1_addLocalToken_def
  tm1_removeLocalToken_def tm1_linkTokenPair_def tm1_unlinkTokenPair_def tm1_burnTokenCustody_def

section \<open>Accounts, events and errors\<close>

definition tm1_accounts :: "(string \<times> nat list) list" where
  "tm1_accounts =
    [(''tokenMessenger'', [162, 4, 242, 52, 147, 243, 221, 96]),
     (''remoteTokenMessenger'', [105, 115, 174, 34, 95, 233, 138, 252]),
     (''tokenMinter'', [122, 133, 84, 63, 57, 159, 171, 206]),
     (''tokenPair'', [17, 214, 45, 176, 229, 149, 197, 71]),
     (''localToken'', [159, 131, 58, 170, 193, 84, 128, 182])]"

definition tm1_events :: "(string \<times> nat list) list" where
  "tm1_events =
    [(''ownershipTransferStarted'', [183, 253, 239, 246, 140, 179, 133, 105]),
     (''ownershipTransferred'', [172, 61, 205, 183, 250, 50, 38, 98]),
     (''depositForBurn'', [144, 252, 145, 146, 6, 74, 167, 235]),
     (''mintAndWithdraw'', [75, 67, 229, 70, 162, 126, 0, 71]),
     (''remoteTokenMessengerAdded'', [251, 29, 63, 244, 48, 114, 210, 175]),
     (''remoteTokenMessengerRemoved'', [255, 121, 137, 39, 230, 125, 11, 30]),
     (''setTokenController'', [193, 44, 243, 83, 230, 72, 120, 216]),
     (''pauserChanged'', [142, 157, 158, 87, 127, 8, 119, 55]),
     (''setBurnLimitPerMessage'', [98, 152, 88, 191, 245, 30, 27, 209]),
     (''localTokenAdded'', [146, 8, 224, 150, 122, 173, 23, 39]),
     (''localTokenRemoved'', [181, 204, 1, 95, 2, 50, 66, 210]),
     (''tokenPairLinked'', [2, 14, 177, 64, 155, 93, 196, 141]),
     (''tokenPairUnlinked'', [78, 232, 230, 208, 180, 212, 246, 72]),
     (''pause'', [194, 251, 232, 196, 118, 95, 111, 219]),
     (''unpause'', [241, 149, 104, 90, 199, 136, 219, 146]),
     (''tokenCustodyBurned'', [219, 143, 107, 226, 67, 75, 178, 46])]"

definition tm1_errors :: "(nat \<times> string \<times> string) list" where
  "tm1_errors =
    [(6000, ''invalidAuthority'', ''Invalid authority''),
     (6001, ''invalidTokenMessengerState'', ''Invalid token messenger state''),
     (6002, ''invalidTokenMessenger'', ''Invalid token messenger''),
     (6003, ''invalidOwner'', ''Invalid owner''),
     (6004, ''malformedMessage'', ''Malformed message''),
     (6005, ''invalidMessageBodyVersion'', ''Invalid message body version''),
     (6006, ''invalidAmount'', ''Invalid amount''),
     (6007, ''invalidDestinationDomain'', ''Invalid destination domain''),
     (6008, ''invalidDestinationCaller'', ''Invalid destination caller''),
     (6009, ''invalidMintRecipient'', ''Invalid mint recipient''),
     (6010, ''invalidSender'', ''Invalid sender''),
     (6011, ''invalidTokenPair'', ''Invalid token pair''),
     (6012, ''invalidTokenMint'', ''Invalid token mint'')]"

section \<open>Types\<close>

definition tm1_type_acceptOwnershipParams :: idl_typedef where
  "tm1_type_acceptOwnershipParams = \<lparr>td_name = ''acceptOwnershipParams'', td_serialization = None, td_repr = None,
    td_fields = [],
    td_variants = []\<rparr>"

definition tm1_type_addRemoteTokenMessengerParams :: idl_typedef where
  "tm1_type_addRemoteTokenMessengerParams = \<lparr>td_name = ''addRemoteTokenMessengerParams'', td_serialization = None, td_repr = None,
    td_fields = [(''domain'', IU32), (''tokenMessenger'', IPubkey)],
    td_variants = []\<rparr>"

definition tm1_type_depositForBurnWithCallerParams :: idl_typedef where
  "tm1_type_depositForBurnWithCallerParams = \<lparr>td_name = ''depositForBurnWithCallerParams'', td_serialization = None, td_repr = None,
    td_fields = [(''amount'', IU64), (''destinationDomain'', IU32), (''mintRecipient'', IPubkey),
                 (''destinationCaller'', IPubkey)],
    td_variants = []\<rparr>"

definition tm1_type_depositForBurnParams :: idl_typedef where
  "tm1_type_depositForBurnParams = \<lparr>td_name = ''depositForBurnParams'', td_serialization = None, td_repr = None,
    td_fields = [(''amount'', IU64), (''destinationDomain'', IU32), (''mintRecipient'', IPubkey)],
    td_variants = []\<rparr>"

definition tm1_type_handleReceiveMessageParams :: idl_typedef where
  "tm1_type_handleReceiveMessageParams = \<lparr>td_name = ''handleReceiveMessageParams'', td_serialization = None, td_repr = None,
    td_fields = [(''remoteDomain'', IU32), (''sender'', IPubkey), (''messageBody'', IBytes),
                 (''authorityBump'', IU8)],
    td_variants = []\<rparr>"

definition tm1_type_initializeParams :: idl_typedef where
  "tm1_type_initializeParams = \<lparr>td_name = ''initializeParams'', td_serialization = None, td_repr = None,
    td_fields = [(''tokenController'', IPubkey), (''localMessageTransmitter'', IPubkey),
                 (''messageBodyVersion'', IU32)],
    td_variants = []\<rparr>"

definition tm1_type_removeRemoteTokenMessengerParams :: idl_typedef where
  "tm1_type_removeRemoteTokenMessengerParams = \<lparr>td_name = ''removeRemoteTokenMessengerParams'', td_serialization = None, td_repr = None,
    td_fields = [],
    td_variants = []\<rparr>"

definition tm1_type_replaceDepositForBurnParams :: idl_typedef where
  "tm1_type_replaceDepositForBurnParams = \<lparr>td_name = ''replaceDepositForBurnParams'', td_serialization = None, td_repr = None,
    td_fields = [(''originalMessage'', IBytes), (''originalAttestation'', IBytes),
                 (''newDestinationCaller'', IPubkey), (''newMintRecipient'', IPubkey)],
    td_variants = []\<rparr>"

definition tm1_type_transferOwnershipParams :: idl_typedef where
  "tm1_type_transferOwnershipParams = \<lparr>td_name = ''transferOwnershipParams'', td_serialization = None, td_repr = None,
    td_fields = [(''newOwner'', IPubkey)],
    td_variants = []\<rparr>"

definition tm1_type_addLocalTokenParams :: idl_typedef where
  "tm1_type_addLocalTokenParams = \<lparr>td_name = ''addLocalTokenParams'', td_serialization = None, td_repr = None,
    td_fields = [],
    td_variants = []\<rparr>"

definition tm1_type_burnTokenCustodyParams :: idl_typedef where
  "tm1_type_burnTokenCustodyParams = \<lparr>td_name = ''burnTokenCustodyParams'', td_serialization = None, td_repr = None,
    td_fields = [(''amount'', IU64)],
    td_variants = []\<rparr>"

definition tm1_type_linkTokenPairParams :: idl_typedef where
  "tm1_type_linkTokenPairParams = \<lparr>td_name = ''linkTokenPairParams'', td_serialization = None, td_repr = None,
    td_fields = [(''localToken'', IPubkey), (''remoteDomain'', IU32), (''remoteToken'', IPubkey)],
    td_variants = []\<rparr>"

definition tm1_type_pauseParams :: idl_typedef where
  "tm1_type_pauseParams = \<lparr>td_name = ''pauseParams'', td_serialization = None, td_repr = None,
    td_fields = [],
    td_variants = []\<rparr>"

definition tm1_type_removeLocalTokenParams :: idl_typedef where
  "tm1_type_removeLocalTokenParams = \<lparr>td_name = ''removeLocalTokenParams'', td_serialization = None, td_repr = None,
    td_fields = [],
    td_variants = []\<rparr>"

definition tm1_type_setMaxBurnAmountPerMessageParams :: idl_typedef where
  "tm1_type_setMaxBurnAmountPerMessageParams = \<lparr>td_name = ''setMaxBurnAmountPerMessageParams'', td_serialization = None, td_repr = None,
    td_fields = [(''burnLimitPerMessage'', IU64)],
    td_variants = []\<rparr>"

definition tm1_type_setTokenControllerParams :: idl_typedef where
  "tm1_type_setTokenControllerParams = \<lparr>td_name = ''setTokenControllerParams'', td_serialization = None, td_repr = None,
    td_fields = [(''tokenController'', IPubkey)],
    td_variants = []\<rparr>"

definition tm1_type_uninkTokenPairParams :: idl_typedef where
  "tm1_type_uninkTokenPairParams = \<lparr>td_name = ''uninkTokenPairParams'', td_serialization = None, td_repr = None,
    td_fields = [],
    td_variants = []\<rparr>"

definition tm1_type_unpauseParams :: idl_typedef where
  "tm1_type_unpauseParams = \<lparr>td_name = ''unpauseParams'', td_serialization = None, td_repr = None,
    td_fields = [],
    td_variants = []\<rparr>"

definition tm1_type_updatePauserParams :: idl_typedef where
  "tm1_type_updatePauserParams = \<lparr>td_name = ''updatePauserParams'', td_serialization = None, td_repr = None,
    td_fields = [(''newPauser'', IPubkey)],
    td_variants = []\<rparr>"

definition tm1_type_tokenMinterError :: idl_typedef where
  "tm1_type_tokenMinterError = \<lparr>td_name = ''tokenMinterError'', td_serialization = None, td_repr = None,
    td_fields = [],
    td_variants = [''invalidAuthority'', ''invalidTokenMinterState'', ''programPaused'',
                   ''invalidTokenPairState'', ''invalidLocalTokenState'', ''invalidPauser'',
                   ''invalidTokenController'', ''burnAmountExceeded'', ''invalidAmount'']\<rparr>"

definition tm1_type_tokenMessenger :: idl_typedef where
  "tm1_type_tokenMessenger = \<lparr>td_name = ''tokenMessenger'', td_serialization = None, td_repr = None,
    td_fields = [(''owner'', IPubkey), (''pendingOwner'', IPubkey), (''localMessageTransmitter'', IPubkey),
                 (''messageBodyVersion'', IU32), (''authorityBump'', IU8)],
    td_variants = []\<rparr>"

definition tm1_type_remoteTokenMessenger :: idl_typedef where
  "tm1_type_remoteTokenMessenger = \<lparr>td_name = ''remoteTokenMessenger'', td_serialization = None, td_repr = None,
    td_fields = [(''domain'', IU32), (''tokenMessenger'', IPubkey)],
    td_variants = []\<rparr>"

definition tm1_type_tokenMinter :: idl_typedef where
  "tm1_type_tokenMinter = \<lparr>td_name = ''tokenMinter'', td_serialization = None, td_repr = None,
    td_fields = [(''tokenController'', IPubkey), (''pauser'', IPubkey), (''paused'', IBool), (''bump'', IU8)],
    td_variants = []\<rparr>"

definition tm1_type_tokenPair :: idl_typedef where
  "tm1_type_tokenPair = \<lparr>td_name = ''tokenPair'', td_serialization = None, td_repr = None,
    td_fields = [(''remoteDomain'', IU32), (''remoteToken'', IPubkey), (''localToken'', IPubkey),
                 (''bump'', IU8)],
    td_variants = []\<rparr>"

definition tm1_type_localToken :: idl_typedef where
  "tm1_type_localToken = \<lparr>td_name = ''localToken'', td_serialization = None, td_repr = None,
    td_fields = [(''custody'', IPubkey), (''mint'', IPubkey), (''burnLimitPerMessage'', IU64),
                 (''messagesSent'', IU64), (''messagesReceived'', IU64), (''amountSent'', IU128),
                 (''amountReceived'', IU128), (''bump'', IU8), (''custodyBump'', IU8)],
    td_variants = []\<rparr>"

definition tm1_type_ownershipTransferStarted :: idl_typedef where
  "tm1_type_ownershipTransferStarted = \<lparr>td_name = ''ownershipTransferStarted'', td_serialization = None, td_repr = None,
    td_fields = [(''previousOwner'', IPubkey), (''newOwner'', IPubkey)],
    td_variants = []\<rparr>"

definition tm1_type_ownershipTransferred :: idl_typedef where
  "tm1_type_ownershipTransferred = \<lparr>td_name = ''ownershipTransferred'', td_serialization = None, td_repr = None,
    td_fields = [(''previousOwner'', IPubkey), (''newOwner'', IPubkey)],
    td_variants = []\<rparr>"

definition tm1_type_depositForBurn :: idl_typedef where
  "tm1_type_depositForBurn = \<lparr>td_name = ''depositForBurn'', td_serialization = None, td_repr = None,
    td_fields = [(''nonce'', IU64), (''burnToken'', IPubkey), (''amount'', IU64), (''depositor'', IPubkey),
                 (''mintRecipient'', IPubkey), (''destinationDomain'', IU32),
                 (''destinationTokenMessenger'', IPubkey), (''destinationCaller'', IPubkey)],
    td_variants = []\<rparr>"

definition tm1_type_mintAndWithdraw :: idl_typedef where
  "tm1_type_mintAndWithdraw = \<lparr>td_name = ''mintAndWithdraw'', td_serialization = None, td_repr = None,
    td_fields = [(''mintRecipient'', IPubkey), (''amount'', IU64), (''mintToken'', IPubkey)],
    td_variants = []\<rparr>"

definition tm1_type_remoteTokenMessengerAdded :: idl_typedef where
  "tm1_type_remoteTokenMessengerAdded = \<lparr>td_name = ''remoteTokenMessengerAdded'', td_serialization = None, td_repr = None,
    td_fields = [(''domain'', IU32), (''tokenMessenger'', IPubkey)],
    td_variants = []\<rparr>"

definition tm1_type_remoteTokenMessengerRemoved :: idl_typedef where
  "tm1_type_remoteTokenMessengerRemoved = \<lparr>td_name = ''remoteTokenMessengerRemoved'', td_serialization = None, td_repr = None,
    td_fields = [(''domain'', IU32), (''tokenMessenger'', IPubkey)],
    td_variants = []\<rparr>"

definition tm1_type_setTokenController :: idl_typedef where
  "tm1_type_setTokenController = \<lparr>td_name = ''setTokenController'', td_serialization = None, td_repr = None,
    td_fields = [(''tokenController'', IPubkey)],
    td_variants = []\<rparr>"

definition tm1_type_pauserChanged :: idl_typedef where
  "tm1_type_pauserChanged = \<lparr>td_name = ''pauserChanged'', td_serialization = None, td_repr = None,
    td_fields = [(''newAddress'', IPubkey)],
    td_variants = []\<rparr>"

definition tm1_type_setBurnLimitPerMessage :: idl_typedef where
  "tm1_type_setBurnLimitPerMessage = \<lparr>td_name = ''setBurnLimitPerMessage'', td_serialization = None, td_repr = None,
    td_fields = [(''token'', IPubkey), (''burnLimitPerMessage'', IU64)],
    td_variants = []\<rparr>"

definition tm1_type_localTokenAdded :: idl_typedef where
  "tm1_type_localTokenAdded = \<lparr>td_name = ''localTokenAdded'', td_serialization = None, td_repr = None,
    td_fields = [(''custody'', IPubkey), (''mint'', IPubkey)],
    td_variants = []\<rparr>"

definition tm1_type_localTokenRemoved :: idl_typedef where
  "tm1_type_localTokenRemoved = \<lparr>td_name = ''localTokenRemoved'', td_serialization = None, td_repr = None,
    td_fields = [(''custody'', IPubkey), (''mint'', IPubkey)],
    td_variants = []\<rparr>"

definition tm1_type_tokenPairLinked :: idl_typedef where
  "tm1_type_tokenPairLinked = \<lparr>td_name = ''tokenPairLinked'', td_serialization = None, td_repr = None,
    td_fields = [(''localToken'', IPubkey), (''remoteDomain'', IU32), (''remoteToken'', IPubkey)],
    td_variants = []\<rparr>"

definition tm1_type_tokenPairUnlinked :: idl_typedef where
  "tm1_type_tokenPairUnlinked = \<lparr>td_name = ''tokenPairUnlinked'', td_serialization = None, td_repr = None,
    td_fields = [(''localToken'', IPubkey), (''remoteDomain'', IU32), (''remoteToken'', IPubkey)],
    td_variants = []\<rparr>"

definition tm1_type_pause :: idl_typedef where
  "tm1_type_pause = \<lparr>td_name = ''pause'', td_serialization = None, td_repr = None,
    td_fields = [],
    td_variants = []\<rparr>"

definition tm1_type_unpause :: idl_typedef where
  "tm1_type_unpause = \<lparr>td_name = ''unpause'', td_serialization = None, td_repr = None,
    td_fields = [],
    td_variants = []\<rparr>"

definition tm1_type_tokenCustodyBurned :: idl_typedef where
  "tm1_type_tokenCustodyBurned = \<lparr>td_name = ''tokenCustodyBurned'', td_serialization = None, td_repr = None,
    td_fields = [(''custodyTokenAccount'', IPubkey), (''amount'', IU64)],
    td_variants = []\<rparr>"

definition tm1_types :: "idl_typedef list" where
  "tm1_types =
    [tm1_type_acceptOwnershipParams, tm1_type_addRemoteTokenMessengerParams,
     tm1_type_depositForBurnWithCallerParams, tm1_type_depositForBurnParams, tm1_type_handleReceiveMessageParams,
     tm1_type_initializeParams, tm1_type_removeRemoteTokenMessengerParams, tm1_type_replaceDepositForBurnParams,
     tm1_type_transferOwnershipParams, tm1_type_addLocalTokenParams, tm1_type_burnTokenCustodyParams,
     tm1_type_linkTokenPairParams, tm1_type_pauseParams, tm1_type_removeLocalTokenParams,
     tm1_type_setMaxBurnAmountPerMessageParams, tm1_type_setTokenControllerParams, tm1_type_uninkTokenPairParams,
     tm1_type_unpauseParams, tm1_type_updatePauserParams, tm1_type_tokenMinterError, tm1_type_tokenMessenger,
     tm1_type_remoteTokenMessenger, tm1_type_tokenMinter, tm1_type_tokenPair, tm1_type_localToken,
     tm1_type_ownershipTransferStarted, tm1_type_ownershipTransferred, tm1_type_depositForBurn,
     tm1_type_mintAndWithdraw, tm1_type_remoteTokenMessengerAdded, tm1_type_remoteTokenMessengerRemoved,
     tm1_type_setTokenController, tm1_type_pauserChanged, tm1_type_setBurnLimitPerMessage,
     tm1_type_localTokenAdded, tm1_type_localTokenRemoved, tm1_type_tokenPairLinked, tm1_type_tokenPairUnlinked,
     tm1_type_pause, tm1_type_unpause, tm1_type_tokenCustodyBurned]"

lemmas tm1_type_defs = tm1_type_acceptOwnershipParams_def tm1_type_addRemoteTokenMessengerParams_def
  tm1_type_depositForBurnWithCallerParams_def tm1_type_depositForBurnParams_def
  tm1_type_handleReceiveMessageParams_def tm1_type_initializeParams_def
  tm1_type_removeRemoteTokenMessengerParams_def tm1_type_replaceDepositForBurnParams_def
  tm1_type_transferOwnershipParams_def tm1_type_addLocalTokenParams_def tm1_type_burnTokenCustodyParams_def
  tm1_type_linkTokenPairParams_def tm1_type_pauseParams_def tm1_type_removeLocalTokenParams_def
  tm1_type_setMaxBurnAmountPerMessageParams_def tm1_type_setTokenControllerParams_def
  tm1_type_uninkTokenPairParams_def tm1_type_unpauseParams_def tm1_type_updatePauserParams_def
  tm1_type_tokenMinterError_def tm1_type_tokenMessenger_def tm1_type_remoteTokenMessenger_def
  tm1_type_tokenMinter_def tm1_type_tokenPair_def tm1_type_localToken_def
  tm1_type_ownershipTransferStarted_def tm1_type_ownershipTransferred_def tm1_type_depositForBurn_def
  tm1_type_mintAndWithdraw_def tm1_type_remoteTokenMessengerAdded_def tm1_type_remoteTokenMessengerRemoved_def
  tm1_type_setTokenController_def tm1_type_pauserChanged_def tm1_type_setBurnLimitPerMessage_def
  tm1_type_localTokenAdded_def tm1_type_localTokenRemoved_def tm1_type_tokenPairLinked_def
  tm1_type_tokenPairUnlinked_def tm1_type_pause_def tm1_type_unpause_def tm1_type_tokenCustodyBurned_def

section \<open>The description\<close>

definition TokenMessengerMinter :: idl where
  "TokenMessengerMinter = \<lparr>idl_address = ''CCTPiPYPc6AsJuwueEnWgSgucamXDZwBd53dQ11YiKX3'',
    idl_metadata = [(''name'', ''tokenMessengerMinter''), (''version'', ''0.1.0''), (''spec'', ''0.1.0'')],
    idl_instructions = tm1_instructions, idl_accounts = tm1_accounts, idl_events = tm1_events,
    idl_errors = tm1_errors, idl_types = tm1_types\<rparr>"

end
