(* ===== verification/Idl_Transmitter_V2.thy ===== *)
theory Idl_Transmitter_V2
  imports Idl_Core
begin

text \<open>
  \<^verbatim>\<open>scripts/cross_chain_transfer/cctp_v2/types/message_transmitter_v2.ts\<close>: the description of a program, one definition per instruction
  (its accounts in parts where they are many) and per type. The texts of the documentation are left out.
\<close>

section \<open>Instructions\<close>

definition mt2_acceptOwnership :: idl_instruction where
  "mt2_acceptOwnership = \<lparr>ii_name = ''acceptOwnership'', ii_discriminator = [172, 23, 43, 13, 238, 213, 85, 150],
    ii_accounts =
      [(''pendingOwner'', [IsSigner, Relations [''messageTransmitter'']]),
       (''messageTransmitter'', [IsWritable]),
       (''eventAuthority'', [Pda [ConstSeed ''__event_authority''] None]),
       (''program'', [])],
    ii_args = [(''params'', IDefined ''acceptOwnershipParams'')],
    ii_returns = None\<rparr>"

definition mt2_disableAttester :: idl_instruction where
  "mt2_disableAttester = \<lparr>ii_name = ''disableAttester'', ii_discriminator = [61, 171, 131, 95, 172, 15, 227, 229],
    ii_accounts =
      [(''payer'', [IsWritable, IsSigner]),
       (''attesterManager'', [IsSigner, Relations [''messageTransmitter'']]),
       (''messageTransmitter'', [IsWritable]),
       (''systemProgram'', [Address ''11111111111111111111111111111111'']),
       (''eventAuthority'', [Pda [ConstSeed ''__event_authority''] None]),
       (''program'', [])],
    ii_args = [(''params'', IDefined ''disableAttesterParams'')],
    ii_returns = None\<rparr>"

definition mt2_enableAttester :: idl_instruction where
  "mt2_enableAttester = \<lparr>ii_name = ''enableAttester'', ii_discriminator = [2, 11, 193, 115, 5, 148, 4, 198],
    ii_accounts =
      [(''payer'', [IsWritable, IsSigner]),
       (''attesterManager'', [IsSigner, Relations [''messageTransmitter'']]),
       (''messageTransmitter'', [IsWritable]),
       (''systemProgram'', [Address ''11111111111111111111111111111111'']),
       (''eventAuthority'', [Pda [ConstSeed ''__event_authority''] None]),
       (''program'', [])],
    ii_args = [(''params'', IDefined ''enableAttesterParams'')],
    ii_returns = None\<rparr>"

definition mt2_initialize :: idl_instruction where
  "mt2_initialize = \<lparr>ii_name = ''initialize'', ii_discriminator = [175, 175, 109, 31, 13, 152, 155, 237],
    ii_accounts =
      [(''payer'', [IsWritable, IsSigner]),
       (''upgradeAuthority'', [IsSigner]),
       (''messageTransmitter'', [IsWritable, Pda [ConstSeed ''message_transmitter''] None]),
       (''messageTransmitterProgramData'', []),
       (''messageTransmitterProgram'', [Address ''CCTPV2Sm4AdWt5296sk4P66VBZ7bEhcARwFaaS9YPbeC'']),
       (''systemProgram'', [Address ''11111111111111111111111111111111'']),
       (''eventAuthority'', [Pda [ConstSeed ''__event_authority''] None]),
       (''program'', [])],
    ii_args = [(''params'', IDefined ''initializeParams'')],
    ii_returns = None\<rparr>"

definition mt2_isNonceUsed :: idl_instruction where
  "mt2_isNonceUsed = \<lparr>ii_name = ''isNonceUsed'', ii_discriminator = [144, 72, 107, 148, 35, 218, 31, 187],
    ii_accounts =
      [(''usedNonce'', [])],
    ii_args = [],
    ii_returns = Some IBool\<rparr>"

definition mt2_pause :: idl_instruction where
  "mt2_pause = \<lparr>ii_name = ''pause'', ii_discriminator = [211, 22, 221, 251, 74, 121, 193, 47],
    ii_accounts =
      [(''pauser'', [IsSigner, Relations [''messageTransmitter'']]),
       (''messageTransmitter'', [IsWritable]),
       (''eventAuthority'', [Pda [ConstSeed ''__event_authority''] None]),
       (''program'', [])],
    ii_args = [(''params'', IDefined ''pauseParams'')],
    ii_returns = None\<rparr>"

definition mt2_receiveMessage :: idl_instruction where
  "mt2_receiveMessage = \<lparr>ii_name = ''receiveMessage'', ii_discriminator = [38, 144, 127, 225, 31, 225, 238, 25],
    ii_accounts =
      [(''payer'', [IsWritable, IsSigner]),
       (''caller'', [IsSigner]),
       (''authorityPda'', [Pda [ConstSeed ''message_transmitter_authority'', AccountSeed ''receiver''] None]),
       (''messageTransmitter'', []),
       (''usedNonce'', [IsWritable]),
       (''receiver'', []),
       (''systemProgram'', [Address ''11111111111111111111111111111111'']),
       (''eventAuthority'', [Pda [ConstSeed ''__event_authority''] None]),
       (''program'', [])],
    ii_args = [(''params'', IDefined ''receiveMessageParams'')],
    ii_returns = None\<rparr>"

definition mt2_reclaimEventAccount :: idl_instruction where
  "mt2_reclaimEventAccount = \<lparr>ii_name = ''reclaimEventAccount'', ii_discriminator = [94, 198, 180, 159, 131, 236, 15, 174],
    ii_accounts =
      [(''payee'', [IsWritable, IsSigner]),
       (''messageTransmitter'', [IsWritable]),
       (''messageSentEventData'', [IsWritable])],
    ii_args = [(''params'', IDefined ''reclaimEventAccountParams'')],
    ii_returns = None\<rparr>"

definition mt2_sendMessage :: idl_instruction where
  "mt2_sendMessage = \<lparr>ii_name = ''sendMessage'', ii_discriminator = [57, 40, 34, 178, 189, 10, 65, 26],
    ii_accounts =
      [(''eventRentPayer'', [IsWritable, IsSigner]),
       (''senderAuthorityPda'', [IsSigner, Pda [ConstSeed ''sender_authority''] (Some (AccountSeed ''senderProgram''))]),
       (''messageTransmitter'', [IsWritable]),
       (''messageSentEventData'', [IsWritable, IsSigner]),
       (''senderProgram'', []),
       (''systemProgram'', [Address ''11111111111111111111111111111111''])],
    ii_args = [(''params'', IDefined ''sendMessageParams'')],
    ii_returns = None\<rparr>"

definition mt2_setMaxMessageBodySize :: idl_instruction where
  "mt2_setMaxMessageBodySize = \<lparr>ii_name = ''setMaxMessageBodySize'', ii_discriminator = [168, 178, 8, 117, 217, 167, 219, 31],
    ii_accounts =
      [(''owner'', [IsSigner, Relations [''messageTransmitter'']]),
       (''messageTransmitter'', [IsWritable]),
       (''eventAuthority'', [Pda [ConstSeed ''__event_authority''] None]),
       (''program'', [])],
    ii_args = [(''params'', IDefined ''setMaxMessageBodySizeParams'')],
    ii_returns = None\<rparr>"

definition mt2_setSignatureThreshold :: idl_instruction where
  "mt2_setSignatureThreshold = \<lparr>ii_name = ''setSignatureThreshold'', ii_discriminator = [163, 19, 154, 168, 82, 209, 214, 219],
    ii_accounts =
      [(''attesterManager'', [IsSigner, Relations [''messageTransmitter'']]),
       (''messageTransmitter'', [IsWritable]),
       (''eventAuthority'', [Pda [ConstSeed ''__event_authority''] None]),
       (''program'', [])],
    ii_args = [(''params'', IDefined ''setSignatureThresholdParams'')],
    ii_returns = None\<rparr>"

definition mt2_transferOwnership :: idl_instruction where
  "mt2_transferOwnership = \<lparr>ii_name = ''transferOwnership'', ii_discriminator = [65, 177, 215, 73, 53, 45, 99, 47],
    ii_accounts =
      [(''owner'', [IsSigner, Relations [''messageTransmitter'']]),
       (''messageTransmitter'', [IsWritable]),
       (''eventAuthority'', [Pda [ConstSeed ''__event_authority''] None]),
       (''program'', [])],
    ii_args = [(''params'', IDefined ''transferOwnershipParams'')],
    ii_returns = None\<rparr>"

definition mt2_unpause :: idl_instruction where
  "mt2_unpause = \<lparr>ii_name = ''unpause'', ii_discriminator = [169, 144, 4, 38, 10, 141, 188, 255],
    ii_accounts =
      [(''pauser'', [IsSigner, Relations [''messageTransmitter'']]),
       (''messageTransmitter'', [IsWritable]),
       (''eventAuthority'', [Pda [ConstSeed ''__event_authority''] None]),
       (''program'', [])],
    ii_args = [(''params'', IDefined ''unpauseParams'')],
    ii_returns = None\<rparr>"

definition mt2_updateAttesterManager :: idl_instruction where
  "mt2_updateAttesterManager = \<lparr>ii_name = ''updateAttesterManager'', ii_discriminator = [175, 245, 178, 104, 85, 179, 71, 16],
    ii_accounts =
      [(''owner'', [IsSigner, Relations [''messageTransmitter'']]),
       (''messageTransmitter'', [IsWritable]),
       (''eventAuthority'', [Pda [ConstSeed ''__event_authority''] None]),
       (''program'', [])],
    ii_args = [(''params'', IDefined ''updateAttesterManagerParams'')],
    ii_returns = None\<rparr>"

definition mt2_updatePauser :: idl_instruction where
  "mt2_updatePauser = \<lparr>ii_name = ''updatePauser'', ii_discriminator = [140, 171, 211, 132, 57, 201, 16, 254],
    ii_accounts =
      [(''owner'', [IsSigner, Relations [''messageTransmitter'']]),
       (''messageTransmitter'', [IsWritable]),
       (''eventAuthority'', [Pda [ConstSeed ''__event_authority''] None]),
       (''program'', [])],
    ii_args = [(''params'', IDefined ''updatePauserParams'')],
    ii_returns = None\<rparr>"

definition mt2_instructions :: "idl_instruction list" where
  "mt2_instructions =
    [mt2_acceptOwnership, mt2_disableAttester, mt2_enableAttester, mt2_initialize, mt2_isNonceUsed, mt2_pause,
     mt2_receiveMessage, mt2_reclaimEventAccount, mt2_sendMessage, mt2_setMaxMessageBodySize,
     mt2_setSignatureThreshold, mt2_transferOwnership, mt2_unpause, mt2_updateAttesterManager, mt2_updatePauser]"

lemmas mt2_instruction_defs = mt2_acceptOwnership_def mt2_disableAttester_def mt2_enableAttester_def mt2_initialize_def
  mt2_isNonceUsed_def mt2_pause_def mt2_receiveMessage_def mt2_reclaimEventAccount_def mt2_sendMessage_def
  mt2_setMaxMessageBodySize_def mt2_setSignatureThreshold_def mt2_transferOwnership_def mt2_unpause_def
  mt2_updateAttesterManager_def mt2_updatePauser_def

section \<open>Accounts, events and errors\<close>

definition mt2_accounts :: "(string \<times> nat list) list" where
  "mt2_accounts =
    [(''messageSent'', [131, 100, 133, 56, 166, 225, 151, 60]),
     (''messageTransmitter'', [71, 40, 180, 142, 19, 203, 35, 252]),
     (''usedNonce'', [212, 222, 157, 252, 130, 71, 179, 238])]"

definition mt2_events :: "(string \<times> nat list) list" where
  "mt2_events =
    [(''attesterDisabled'', [186, 136, 186, 14, 229, 2, 121, 211]),
     (''attesterEnabled'', [88, 57, 14, 133, 5, 219, 62, 190]),
     (''attesterManagerUpdated'', [5, 97, 191, 108, 44, 189, 69, 88]),
     (''maxMessageBodySizeUpdated'', [134, 206, 151, 111, 137, 11, 160, 225]),
     (''messageReceived'', [231, 68, 47, 77, 173, 241, 157, 166]),
     (''ownershipTransferStarted'', [183, 253, 239, 246, 140, 179, 133, 105]),
     (''ownershipTransferred'', [172, 61, 205, 183, 250, 50, 38, 98]),
     (''pause'', [194, 251, 232, 196, 118, 95, 111, 219]),
     (''pauserChanged'', [142, 157, 158, 87, 127, 8, 119, 55]),
     (''signatureThresholdUpdated'', [156, 99, 103, 200, 15, 38, 122, 189]),
     (''unpause'', [241, 149, 104, 90, 199, 136, 219, 146])]"

definition mt2_errors :: "(nat \<times> string \<times> string) list" where
  "mt2_errors =
    [(6000, ''invalidAuthority'', ''Invalid authority''),
     (6001, ''programPaused'', ''Instruction is not allowed at this time''),
     (6002, ''invalidMessageTransmitterState'', ''Invalid message transmitter state''),
     (6003, ''invalidSignatureThreshold'', ''Invalid signature threshold''),
     (6004, ''signatureThresholdAlreadySet'', ''Signature threshold already set''),
     (6005, ''invalidOwner'', ''Invalid owner''),
     (6006, ''invalidPauser'', ''Invalid pauser''),
     (6007, ''invalidAttesterManager'', ''Invalid attester manager''),
     (6008, ''invalidAttester'', ''Invalid attester''),
     (6009, ''attesterAlreadyEnabled'', ''Attester already enabled''),
     (6010, ''tooFewEnabledAttesters'', ''Too few enabled attesters''),
     (6011, ''signatureThresholdTooLow'', ''Signature threshold is too low''),
     (6012, ''attesterAlreadyDisabled'', ''Attester already disabled''),
     (6013, ''messageBodyLimitExceeded'', ''Message body exceeds max size''),
     (6014, ''invalidDestinationCaller'', ''Invalid destination caller''),
     (6015, ''invalidRecipient'', ''Invalid message recipient''),
     (6016, ''senderNotPermitted'', ''Sender is not permitted''),
     (6017, ''invalidSourceDomain'', ''Invalid source domain''),
     (6018, ''invalidDestinationDomain'', ''Invalid destination domain''),
     (6019, ''invalidMessageVersion'', ''Invalid message version''),
     (6020, ''invalidUsedNoncesAccount'', ''Invalid used nonces account''),
     (6021, ''invalidRecipientProgram'', ''Invalid recipient program''),
     (6022, ''invalidNonce'', ''Invalid nonce''),
     (6023, ''nonceAlreadyUsed'', ''Nonce already used''),
     (6024, ''messageTooShort'', ''Message is too short''),
     (6025, ''malformedMessage'', ''Malformed message''),
     (6026, ''invalidSignatureOrderOrDupe'', ''Invalid signature order or dupe''),
     (6027, ''invalidAttesterSignature'', ''Invalid attester signature''),
     (6028, ''invalidAttestationLength'', ''Invalid attestation length''),
     (6029, ''invalidSignatureRecoveryId'', ''Invalid signature recovery ID''),
     (6030, ''invalidSignatureSValue'', ''Invalid signature S value''),
     (6031, ''invalidMessageHash'', ''Invalid message hash''),
     (6032, ''invalidDestinationMessage'', ''Invalid destination message''),
     (6033, ''eventAccountWindowNotExpired'', ''Event account window not expired''),
     (6034, ''destinationDomainIsLocalDomain'', ''Destination domain is local domain'')]"

section \<open>Types\<close>

definition mt2_type_acceptOwnershipParams :: idl_typedef where
  "mt2_type_acceptOwnershipParams = \<lparr>td_name = ''acceptOwnershipParams'', td_serialization = None, td_repr = None,
    td_fields = [],
    td_variants = []\<rparr>"

definition mt2_type_attesterDisabled :: idl_typedef where
  "mt2_type_attesterDisabled = \<lparr>td_name = ''attesterDisabled'', td_serialization = None, td_repr = None,
    td_fields = [(''attester'', IPubkey)],
    td_variants = []\<rparr>"

definition mt2_type_attesterEnabled :: idl_typedef where
  "mt2_type_attesterEnabled = \<lparr>td_name = ''attesterEnabled'', td_serialization = None, td_repr = None,
    td_fields = [(''attester'', IPubkey)],
    td_variants = []\<rparr>"

definition mt2_type_attesterManagerUpdated :: idl_typedef where
  "mt2_type_attesterManagerUpdated = \<lparr>td_name = ''attesterManagerUpdated'', td_serialization = None, td_repr = None,
    td_fields = [(''previousAttesterManager'', IPubkey), (''newAttesterManager'', IPubkey)],
    td_variants = []\<rparr>"

definition mt2_type_disableAttesterParams :: idl_typedef where
  "mt2_type_disableAttesterParams = \<lparr>td_name = ''disableAttesterParams'', td_serialization = None, td_repr = None,
    td_fields = [(''attester'', IPubkey)],
    td_variants = []\<rparr>"

definition mt2_type_enableAttesterParams :: idl_typedef where
  "mt2_type_enableAttesterParams = \<lparr>td_name = ''enableAttesterParams'', td_serialization = None, td_repr = None,
    td_fields = [(''newAttester'', IPubkey)],
    td_variants = []\<rparr>"

definition mt2_type_initializeParams :: idl_typedef where
  "mt2_type_initializeParams = \<lparr>td_name = ''initializeParams'', td_serialization = None, td_repr = None,
    td_fields = [(''localDomain'', IU32), (''attester'', IPubkey), (''maxMessageBodySize'', IU64),
                 (''version'', IU32)],
    td_variants = []\<rparr>"

definition mt2_type_maxMessageBodySizeUpdated :: idl_typedef where
  "mt2_type_maxMessageBodySizeUpdated = \<lparr>td_name = ''maxMessageBodySizeUpdated'', td_serialization = None, td_repr = None,
    td_fields = [(''newMaxMessageBodySize'', IU64)],
    td_variants = []\<rparr>"

definition mt2_type_messageReceived :: idl_typedef where
  "mt2_type_messageReceived = \<lparr>td_name = ''messageReceived'', td_serialization = None, td_repr = None,
    td_fields = [(''caller'', IPubkey), (''sourceDomain'', IU32), (''nonce'', IArray IU8 32),
                 (''sender'', IPubkey), (''finalityThresholdExecuted'', IU32), (''messageBody'', IBytes)],
    td_variants = []\<rparr>"

definition mt2_type_messageSent :: idl_typedef where
  "mt2_type_messageSent = \<lparr>td_name = ''messageSent'', td_serialization = None, td_repr = None,
    td_fields = [(''rentPayer'', IPubkey), (''createdAt'', II64), (''message'', IBytes)],
    td_variants = []\<rparr>"

definition mt2_type_messageTransmitter :: idl_typedef where
  "mt2_type_messageTransmitter = \<lparr>td_name = ''messageTransmitter'', td_serialization = None, td_repr = None,
    td_fields = [(''owner'', IPubkey), (''pendingOwner'', IPubkey), (''attesterManager'', IPubkey),
                 (''pauser'', IPubkey), (''paused'', IBool), (''localDomain'', IU32), (''version'', IU32),
                 (''signatureThreshold'', IU32), (''enabledAttesters'', IVec IPubkey),
                 (''maxMessageBodySize'', IU64)],
    td_variants = []\<rparr>"

definition mt2_type_ownershipTransferStarted :: idl_typedef where
  "mt2_type_ownershipTransferStarted = \<lparr>td_name = ''ownershipTransferStarted'', td_serialization = None, td_repr = None,
    td_fields = [(''previousOwner'', IPubkey), (''newOwner'', IPubkey)],
    td_variants = []\<rparr>"

definition mt2_type_ownershipTransferred :: idl_typedef where
  "mt2_type_ownershipTransferred = \<lparr>td_name = ''ownershipTransferred'', td_serialization = None, td_repr = None,
    td_fields = [(''previousOwner'', IPubkey), (''newOwner'', IPubkey)],
    td_variants = []\<rparr>"

definition mt2_type_pause :: idl_typedef where
  "mt2_type_pause = \<lparr>td_name = ''pause'', td_serialization = None, td_repr = None,
    td_fields = [],
    td_variants = []\<rparr>"

definition mt2_type_pauseParams :: idl_typedef where
  "mt2_type_pauseParams = \<lparr>td_name = ''pauseParams'', td_serialization = None, td_repr = None,
    td_fields = [],
    td_variants = []\<rparr>"

definition mt2_type_pauserChanged :: idl_typedef where
  "mt2_type_pauserChanged = \<lparr>td_name = ''pauserChanged'', td_serialization = None, td_repr = None,
    td_fields = [(''newAddress'', IPubkey)],
    td_variants = []\<rparr>"

definition mt2_type_receiveMessageParams :: idl_typedef where
  "mt2_type_receiveMessageParams = \<lparr>td_name = ''receiveMessageParams'', td_serialization = None, td_repr = None,
    td_fields = [(''message'', IBytes), (''attestation'', IBytes)],
    td_variants = []\<rparr>"

definition mt2_type_reclaimEventAccountParams :: idl_typedef where
  "mt2_type_reclaimEventAccountParams = \<lparr>td_name = ''reclaimEventAccountParams'', td_serialization = None, td_repr = None,
    td_fields = [(''attestation'', IBytes), (''destinationMessage'', IBytes)],
    td_variants = []\<rparr>"

definition mt2_type_sendMessageParams :: idl_typedef where
  "mt2_type_sendMessageParams = \<lparr>td_name = ''sendMessageParams'', td_serialization = None, td_repr = None,
    td_fields = [(''destinationDomain'', IU32), (''recipient'', IPubkey), (''destinationCaller'', IPubkey),
                 (''minFinalityThreshold'', IU32), (''messageBody'', IBytes)],
    td_variants = []\<rparr>"

definition mt2_type_setMaxMessageBodySizeParams :: idl_typedef where
  "mt2_type_setMaxMessageBodySizeParams = \<lparr>td_name = ''setMaxMessageBodySizeParams'', td_serialization = None, td_repr = None,
    td_fields = [(''newMaxMessageBodySize'', IU64)],
    td_variants = []\<rparr>"

definition mt2_type_setSignatureThresholdParams :: idl_typedef where
  "mt2_type_setSignatureThresholdParams = \<lparr>td_name = ''setSignatureThresholdParams'', td_serialization = None, td_repr = None,
    td_fields = [(''newSignatureThreshold'', IU32)],
    td_variants = []\<rparr>"

definition mt2_type_signatureThresholdUpdated :: idl_typedef where
  "mt2_type_signatureThresholdUpdated = \<lparr>td_name = ''signatureThresholdUpdated'', td_serialization = None, td_repr = None,
    td_fields = [(''oldSignatureThreshold'', IU32), (''newSignatureThreshold'', IU32)],
    td_variants = []\<rparr>"

definition mt2_type_transferOwnershipParams :: idl_typedef where
  "mt2_type_transferOwnershipParams = \<lparr>td_name = ''transferOwnershipParams'', td_serialization = None, td_repr = None,
    td_fields = [(''newOwner'', IPubkey)],
    td_variants = []\<rparr>"

definition mt2_type_unpause :: idl_typedef where
  "mt2_type_unpause = \<lparr>td_name = ''unpause'', td_serialization = None, td_repr = None,
    td_fields = [],
    td_variants = []\<rparr>"

definition mt2_type_unpauseParams :: idl_typedef where
  "mt2_type_unpauseParams = \<lparr>td_name = ''unpauseParams'', td_serialization = None, td_repr = None,
    td_fields = [],
    td_variants = []\<rparr>"

definition mt2_type_updateAttesterManagerParams :: idl_typedef where
  "mt2_type_updateAttesterManagerParams = \<lparr>td_name = ''updateAttesterManagerParams'', td_serialization = None, td_repr = None,
    td_fields = [(''newAttesterManager'', IPubkey)],
    td_variants = []\<rparr>"

definition mt2_type_updatePauserParams :: idl_typedef where
  "mt2_type_updatePauserParams = \<lparr>td_name = ''updatePauserParams'', td_serialization = None, td_repr = None,
    td_fields = [(''newPauser'', IPubkey)],
    td_variants = []\<rparr>"

definition mt2_type_usedNonce :: idl_typedef where
  "mt2_type_usedNonce = \<lparr>td_name = ''usedNonce'', td_serialization = None, td_repr = None,
    td_fields = [(''isUsed'', IBool)],
    td_variants = []\<rparr>"

definition mt2_types :: "idl_typedef list" where
  "mt2_types =
    [mt2_type_acceptOwnershipParams, mt2_type_attesterDisabled, mt2_type_attesterEnabled,
     mt2_type_attesterManagerUpdated, mt2_type_disableAttesterParams, mt2_type_enableAttesterParams,
     mt2_type_initializeParams, mt2_type_maxMessageBodySizeUpdated, mt2_type_messageReceived,
     mt2_type_messageSent, mt2_type_messageTransmitter, mt2_type_ownershipTransferStarted,
     mt2_type_ownershipTransferred, mt2_type_pause, mt2_type_pauseParams, mt2_type_pauserChanged,
     mt2_type_receiveMessageParams, mt2_type_reclaimEventAccountParams, mt2_type_sendMessageParams,
     mt2_type_setMaxMessageBodySizeParams, mt2_type_setSignatureThresholdParams,
     mt2_type_signatureThresholdUpdated, mt2_type_transferOwnershipParams, mt2_type_unpause,
     mt2_type_unpauseParams, mt2_type_updateAttesterManagerParams, mt2_type_updatePauserParams,
     mt2_type_usedNonce]"

lemmas mt2_type_defs = mt2_type_acceptOwnershipParams_def mt2_type_attesterDisabled_def mt2_type_attesterEnabled_def
  mt2_type_attesterManagerUpdated_def mt2_type_disableAttesterParams_def mt2_type_enableAttesterParams_def
  mt2_type_initializeParams_def mt2_type_maxMessageBodySizeUpdated_def mt2_type_messageReceived_def
  mt2_type_messageSent_def mt2_type_messageTransmitter_def mt2_type_ownershipTransferStarted_def
  mt2_type_ownershipTransferred_def mt2_type_pause_def mt2_type_pauseParams_def mt2_type_pauserChanged_def
  mt2_type_receiveMessageParams_def mt2_type_reclaimEventAccountParams_def mt2_type_sendMessageParams_def
  mt2_type_setMaxMessageBodySizeParams_def mt2_type_setSignatureThresholdParams_def
  mt2_type_signatureThresholdUpdated_def mt2_type_transferOwnershipParams_def mt2_type_unpause_def
  mt2_type_unpauseParams_def mt2_type_updateAttesterManagerParams_def mt2_type_updatePauserParams_def
  mt2_type_usedNonce_def

section \<open>The description\<close>

definition MessageTransmitterV2 :: idl where
  "MessageTransmitterV2 = \<lparr>idl_address = ''CCTPV2Sm4AdWt5296sk4P66VBZ7bEhcARwFaaS9YPbeC'',
    idl_metadata = [(''name'', ''messageTransmitterV2''), (''version'', ''0.2.0''), (''spec'', ''0.1.0''),
                    (''description'', ''Message Transmitter for Cross-Chain Transfer Protocol V2''),
                    (''repository'', ''https://github.com/circlefin/solana-cctp-contracts'')],
    idl_instructions = mt2_instructions, idl_accounts = mt2_accounts, idl_events = mt2_events,
    idl_errors = mt2_errors, idl_types = mt2_types\<rparr>"

end
