(* ===== verification/Idl_Minter_V2.thy ===== *)
theory Idl_Minter_V2
  imports Idl_Core
begin

text \<open>
  \<^verbatim>\<open>scripts/cross_chain_transfer/cctp_v2/types/token_messenger_minter_v2.ts\<close>: the description of a program, one definition per instruction
  (its accounts in parts where they are many) and per type. The texts of the documentation are left out.
\<close>

section \<open>Instructions\<close>

definition tm2_program1 :: string where
  "tm2_program1 =
    idl_bytes [166, 95, 200, 28, 225, 158, 220, 210, 210, 195, 64, 176, 47, 166, 27, 225, 213, 186, 221, 225, 89,
               40, 51, 221, 249, 32, 9, 216, 207, 104, 84, 85]"

definition tm2_program2 :: string where
  "tm2_program2 =
    idl_bytes [166, 95, 200, 29, 15, 239, 168, 134, 12, 179, 184, 63, 8, 155, 2, 36, 190, 138, 102, 135, 183,
               174, 73, 245, 148, 192, 185, 180, 215, 233, 56, 147]"

definition tm2_program3 :: string where
  "tm2_program3 =
    idl_bytes [140, 151, 37, 143, 78, 36, 137, 241, 187, 61, 16, 41, 20, 142, 13, 131, 11, 90, 19, 153, 218, 255,
               16, 132, 4, 142, 123, 216, 219, 233, 248, 89]"

definition tm2_program4 :: string where
  "tm2_program4 =
    idl_bytes [6, 221, 246, 225, 215, 101, 161, 147, 217, 203, 225, 70, 206, 235, 121, 172, 28, 180, 133, 237,
               95, 91, 55, 145, 58, 140, 245, 133, 126, 255, 0, 169]"

definition tm2_acceptOwnership :: idl_instruction where
  "tm2_acceptOwnership = \<lparr>ii_name = ''acceptOwnership'', ii_discriminator = [172, 23, 43, 13, 238, 213, 85, 150],
    ii_accounts =
      [(''pendingOwner'', [IsSigner, Relations [''tokenMessenger'']]),
       (''tokenMessenger'', [IsWritable]),
       (''eventAuthority'', [Pda [ConstSeed ''__event_authority''] None]),
       (''program'', [])],
    ii_args = [(''params'', IDefined ''acceptOwnershipParams'')],
    ii_returns = None\<rparr>"

definition tm2_addLocalToken :: idl_instruction where
  "tm2_addLocalToken = \<lparr>ii_name = ''addLocalToken'', ii_discriminator = [213, 199, 205, 18, 98, 124, 73, 198],
    ii_accounts =
      [(''payer'', [IsWritable, IsSigner]),
       (''tokenController'', [IsSigner, Relations [''tokenMinter'']]),
       (''tokenMinter'', []),
       (''localToken'', [IsWritable, Pda [ConstSeed ''local_token'', AccountSeed ''localTokenMint''] None]),
       (''custodyTokenAccount'', [IsWritable, Pda [ConstSeed ''custody'', AccountSeed ''localTokenMint''] None]),
       (''localTokenMint'', []),
       (''tokenProgram'', [Address ''TokenkegQfeZyiNwAJbNbGKPFXCWuBvf9Ss623VQ5DA'']),
       (''systemProgram'', [Address ''11111111111111111111111111111111'']),
       (''eventAuthority'', [Pda [ConstSeed ''__event_authority''] None]),
       (''program'', [])],
    ii_args = [(''params'', IDefined ''addLocalTokenParams'')],
    ii_returns = None\<rparr>"

definition tm2_addRemoteTokenMessenger :: idl_instruction where
  "tm2_addRemoteTokenMessenger = \<lparr>ii_name = ''addRemoteTokenMessenger'', ii_discriminator = [12, 149, 172, 165, 111, 202, 24, 33],
    ii_accounts =
      [(''payer'', [IsWritable, IsSigner]),
       (''owner'', [IsSigner, Relations [''tokenMessenger'']]),
       (''tokenMessenger'', []),
       (''remoteTokenMessenger'', [IsWritable, Pda [ConstSeed ''remote_token_messenger'', ArgSeed ''params.domain''] None]),
       (''systemProgram'', [Address ''11111111111111111111111111111111'']),
       (''eventAuthority'', [Pda [ConstSeed ''__event_authority''] None]),
       (''program'', [])],
    ii_args = [(''params'', IDefined ''addRemoteTokenMessengerParams'')],
    ii_returns = None\<rparr>"

definition tm2_burnTokenCustody :: idl_instruction where
  "tm2_burnTokenCustody = \<lparr>ii_name = ''burnTokenCustody'', ii_discriminator = [233, 136, 180, 175, 112, 41, 62, 71],
    ii_accounts =
      [(''payee'', [IsWritable, IsSigner]),
       (''tokenController'', [IsSigner, Relations [''tokenMinter'']]),
       (''tokenMinter'', []),
       (''localToken'', [Pda [ConstSeed ''local_token'', FieldSeed ''local_token.mint'' ''localToken''] None]),
       (''custodyTokenAccount'', [IsWritable, Pda [ConstSeed ''custody'', FieldSeed ''local_token.mint'' ''localToken''] None]),
       (''custodyTokenMint'', [IsWritable]),
       (''tokenProgram'', [Address ''TokenkegQfeZyiNwAJbNbGKPFXCWuBvf9Ss623VQ5DA'']),
       (''eventAuthority'', [Pda [ConstSeed ''__event_authority''] None]),
       (''program'', [])],
    ii_args = [(''params'', IDefined ''burnTokenCustodyParams'')],
    ii_returns = None\<rparr>"

definition tm2_denylistAccount :: idl_instruction where
  "tm2_denylistAccount = \<lparr>ii_name = ''denylistAccount'', ii_discriminator = [101, 116, 197, 112, 81, 249, 75, 194],
    ii_accounts =
      [(''payer'', [IsWritable, IsSigner]),
       (''denylister'', [IsSigner, Relations [''tokenMessenger'']]),
       (''tokenMessenger'', []),
       (''denylistAccount'', [IsWritable, Pda [ConstSeed ''denylist_account'', ArgSeed ''params.account''] None]),
       (''systemProgram'', [Address ''11111111111111111111111111111111'']),
       (''eventAuthority'', [Pda [ConstSeed ''__event_authority''] None]),
       (''program'', [])],
    ii_args = [(''params'', IDefined ''denylistParams'')],
    ii_returns = None\<rparr>"

definition tm2_depositForBurn_accounts1 :: "idl_account list" where
  "tm2_depositForBurn_accounts1 =
    [(''owner'', [IsSigner, Relations [''burnTokenAccount'']]),
     (''eventRentPayer'', [IsWritable, IsSigner]),
     (''senderAuthorityPda'', [Pda [ConstSeed ''sender_authority''] None]),
     (''burnTokenAccount'', [IsWritable]),
     (''denylistAccount'', [Pda [ConstSeed ''denylist_account'', AccountSeed ''owner''] None]),
     (''messageTransmitter'', [IsWritable]),
     (''tokenMessenger'', []),
     (''remoteTokenMessenger'', []),
     (''tokenMinter'', []),
     (''localToken'', [IsWritable, Pda [ConstSeed ''local_token'', AccountSeed ''burnTokenMint''] None]),
     (''burnTokenMint'', [IsWritable]),
     (''messageSentEventData'', [IsWritable, IsSigner]),
     (''messageTransmitterProgram'', [Address ''CCTPV2Sm4AdWt5296sk4P66VBZ7bEhcARwFaaS9YPbeC'']),
     (''tokenMessengerMinterProgram'', [Address ''CCTPV2vPZJS2u2BBsUoscuikbYjnpFmbFsvVuJdgUMQe'']),
     (''tokenProgram'', [Address ''TokenkegQfeZyiNwAJbNbGKPFXCWuBvf9Ss623VQ5DA'']),
     (''systemProgram'', [Address ''11111111111111111111111111111111''])]"

definition tm2_depositForBurn_accounts2 :: "idl_account list" where
  "tm2_depositForBurn_accounts2 =
    [(''eventAuthority'', [Pda [ConstSeed ''__event_authority''] None]),
     (''program'', [])]"

definition tm2_depositForBurn :: idl_instruction where
  "tm2_depositForBurn = \<lparr>ii_name = ''depositForBurn'', ii_discriminator = [215, 60, 61, 46, 114, 55, 128, 176],
    ii_accounts =
      tm2_depositForBurn_accounts1 @
      tm2_depositForBurn_accounts2,
    ii_args = [(''params'', IDefined ''depositForBurnParams'')],
    ii_returns = None\<rparr>"

definition tm2_depositForBurnWithHook_accounts1 :: "idl_account list" where
  "tm2_depositForBurnWithHook_accounts1 =
    [(''owner'', [IsSigner, Relations [''burnTokenAccount'']]),
     (''eventRentPayer'', [IsWritable, IsSigner]),
     (''senderAuthorityPda'', [Pda [ConstSeed ''sender_authority''] None]),
     (''burnTokenAccount'', [IsWritable]),
     (''denylistAccount'', [Pda [ConstSeed ''denylist_account'', AccountSeed ''owner''] None]),
     (''messageTransmitter'', [IsWritable]),
     (''tokenMessenger'', []),
     (''remoteTokenMessenger'', []),
     (''tokenMinter'', []),
     (''localToken'', [IsWritable, Pda [ConstSeed ''local_token'', AccountSeed ''burnTokenMint''] None]),
     (''burnTokenMint'', [IsWritable]),
     (''messageSentEventData'', [IsWritable, IsSigner]),
     (''messageTransmitterProgram'', [Address ''CCTPV2Sm4AdWt5296sk4P66VBZ7bEhcARwFaaS9YPbeC'']),
     (''tokenMessengerMinterProgram'', [Address ''CCTPV2vPZJS2u2BBsUoscuikbYjnpFmbFsvVuJdgUMQe'']),
     (''tokenProgram'', [Address ''TokenkegQfeZyiNwAJbNbGKPFXCWuBvf9Ss623VQ5DA'']),
     (''systemProgram'', [Address ''11111111111111111111111111111111''])]"

definition tm2_depositForBurnWithHook_accounts2 :: "idl_account list" where
  "tm2_depositForBurnWithHook_accounts2 =
    [(''eventAuthority'', [Pda [ConstSeed ''__event_authority''] None]),
     (''program'', [])]"

definition tm2_depositForBurnWithHook :: idl_instruction where
  "tm2_depositForBurnWithHook = \<lparr>ii_name = ''depositForBurnWithHook'', ii_discriminator = [111, 245, 62, 131, 204, 108, 223, 155],
    ii_accounts =
      tm2_depositForBurnWithHook_accounts1 @
      tm2_depositForBurnWithHook_accounts2,
    ii_args = [(''params'', IDefined ''depositForBurnWithHookParams'')],
    ii_returns = None\<rparr>"

definition tm2_handleReceiveFinalizedMessage_accounts1 :: "idl_account list" where
  "tm2_handleReceiveFinalizedMessage_accounts1 =
    [(''authorityPda'', [IsSigner, Pda [ConstSeed ''message_transmitter_authority'',
          ConstSeed tm2_program2] (Some (ConstSeed tm2_program1))]),
     (''tokenMessenger'', []),
     (''remoteTokenMessenger'', []),
     (''tokenMinter'', [])]"

definition tm2_handleReceiveFinalizedMessage_accounts2 :: "idl_account list" where
  "tm2_handleReceiveFinalizedMessage_accounts2 =
    [(''localToken'', [IsWritable, Pda [ConstSeed ''local_token'', FieldSeed ''local_token.mint'' ''localToken''] None]),
     (''tokenPair'', []),
     (''feeRecipientTokenAccount'', [IsWritable, Pda [FieldSeed ''token_messenger.fee_recipient'' ''tokenMessenger'',
          ConstSeed tm2_program4,
          FieldSeed ''local_token.mint'' ''localToken''] (Some (ConstSeed tm2_program3))]),
     (''recipientTokenAccount'', [IsWritable])]"

definition tm2_handleReceiveFinalizedMessage_accounts3 :: "idl_account list" where
  "tm2_handleReceiveFinalizedMessage_accounts3 =
    [(''custodyTokenAccount'', [IsWritable, Pda [ConstSeed ''custody'', FieldSeed ''local_token.mint'' ''localToken''] None]),
     (''tokenProgram'', [Address ''TokenkegQfeZyiNwAJbNbGKPFXCWuBvf9Ss623VQ5DA'']),
     (''eventAuthority'', [Pda [ConstSeed ''__event_authority''] None]),
     (''program'', [])]"

definition tm2_handleReceiveFinalizedMessage :: idl_instruction where
  "tm2_handleReceiveFinalizedMessage = \<lparr>ii_name = ''handleReceiveFinalizedMessage'', ii_discriminator = [186, 252, 239, 70, 86, 180, 110, 95],
    ii_accounts =
      tm2_handleReceiveFinalizedMessage_accounts1 @
      tm2_handleReceiveFinalizedMessage_accounts2 @
      tm2_handleReceiveFinalizedMessage_accounts3,
    ii_args = [(''params'', IDefined ''handleReceiveMessageParams'')],
    ii_returns = None\<rparr>"

definition tm2_handleReceiveUnfinalizedMessage_accounts1 :: "idl_account list" where
  "tm2_handleReceiveUnfinalizedMessage_accounts1 =
    [(''authorityPda'', [IsSigner, Pda [ConstSeed ''message_transmitter_authority'',
          ConstSeed tm2_program2] (Some (ConstSeed tm2_program1))]),
     (''tokenMessenger'', []),
     (''remoteTokenMessenger'', []),
     (''tokenMinter'', [])]"

definition tm2_handleReceiveUnfinalizedMessage_accounts2 :: "idl_account list" where
  "tm2_handleReceiveUnfinalizedMessage_accounts2 =
    [(''localToken'', [IsWritable, Pda [ConstSeed ''local_token'', FieldSeed ''local_token.mint'' ''localToken''] None]),
     (''tokenPair'', []),
     (''feeRecipientTokenAccount'', [IsWritable, Pda [FieldSeed ''token_messenger.fee_recipient'' ''tokenMessenger'',
          ConstSeed tm2_program4,
          FieldSeed ''local_token.mint'' ''localToken''] (Some (ConstSeed tm2_program3))]),
     (''recipientTokenAccount'', [IsWritable])]"

definition tm2_handleReceiveUnfinalizedMessage_accounts3 :: "idl_account list" where
  "tm2_handleReceiveUnfinalizedMessage_accounts3 =
    [(''custodyTokenAccount'', [IsWritable, Pda [ConstSeed ''custody'', FieldSeed ''local_token.mint'' ''localToken''] None]),
     (''tokenProgram'', [Address ''TokenkegQfeZyiNwAJbNbGKPFXCWuBvf9Ss623VQ5DA'']),
     (''eventAuthority'', [Pda [ConstSeed ''__event_authority''] None]),
     (''program'', [])]"

definition tm2_handleReceiveUnfinalizedMessage :: idl_instruction where
  "tm2_handleReceiveUnfinalizedMessage = \<lparr>ii_name = ''handleReceiveUnfinalizedMessage'', ii_discriminator = [200, 169, 175, 20, 200, 58, 182, 61],
    ii_accounts =
      tm2_handleReceiveUnfinalizedMessage_accounts1 @
      tm2_handleReceiveUnfinalizedMessage_accounts2 @
      tm2_handleReceiveUnfinalizedMessage_accounts3,
    ii_args = [(''params'', IDefined ''handleReceiveMessageParams'')],
    ii_returns = None\<rparr>"

definition tm2_initialize_accounts1 :: "idl_account list" where
  "tm2_initialize_accounts1 =
    [(''payer'', [IsWritable, IsSigner]),
     (''upgradeAuthority'', [IsSigner]),
     (''authorityPda'', [Pda [ConstSeed ''sender_authority''] None]),
     (''tokenMessenger'', [IsWritable, Pda [ConstSeed ''token_messenger''] None]),
     (''tokenMinter'', [IsWritable, Pda [ConstSeed ''token_minter''] None]),
     (''tokenMessengerMinterProgramData'', []),
     (''tokenMessengerMinterProgram'', [Address ''CCTPV2vPZJS2u2BBsUoscuikbYjnpFmbFsvVuJdgUMQe'']),
     (''systemProgram'', [Address ''11111111111111111111111111111111'']),
     (''eventAuthority'', [Pda [ConstSeed ''__event_authority''] None]),
     (''program'', [])]"

definition tm2_initialize :: idl_instruction where
  "tm2_initialize = \<lparr>ii_name = ''initialize'', ii_discriminator = [175, 175, 109, 31, 13, 152, 155, 237],
    ii_accounts =
      tm2_initialize_accounts1,
    ii_args = [(''params'', IDefined ''initializeParams'')],
    ii_returns = None\<rparr>"

definition tm2_linkTokenPair :: idl_instruction where
  "tm2_linkTokenPair = \<lparr>ii_name = ''linkTokenPair'', ii_discriminator = [68, 162, 24, 104, 125, 46, 130, 12],
    ii_accounts =
      [(''payer'', [IsWritable, IsSigner]),
       (''tokenController'', [IsSigner, Relations [''tokenMinter'']]),
       (''tokenMinter'', []),
       (''tokenPair'', [IsWritable, Pda [ConstSeed ''token_pair'',
          ArgSeed ''params.remote_domain'',
          ArgSeed ''params.remote_token''] None]),
       (''systemProgram'', [Address ''11111111111111111111111111111111'']),
       (''eventAuthority'', [Pda [ConstSeed ''__event_authority''] None]),
       (''program'', [])],
    ii_args = [(''params'', IDefined ''linkTokenPairParams'')],
    ii_returns = None\<rparr>"

definition tm2_pause :: idl_instruction where
  "tm2_pause = \<lparr>ii_name = ''pause'', ii_discriminator = [211, 22, 221, 251, 74, 121, 193, 47],
    ii_accounts =
      [(''pauser'', [IsSigner, Relations [''tokenMinter'']]),
       (''tokenMinter'', [IsWritable]),
       (''eventAuthority'', [Pda [ConstSeed ''__event_authority''] None]),
       (''program'', [])],
    ii_args = [(''params'', IDefined ''pauseParams'')],
    ii_returns = None\<rparr>"

definition tm2_removeLocalToken :: idl_instruction where
  "tm2_removeLocalToken = \<lparr>ii_name = ''removeLocalToken'', ii_discriminator = [27, 43, 66, 170, 188, 44, 109, 97],
    ii_accounts =
      [(''payee'', [IsWritable, IsSigner]),
       (''tokenController'', [IsSigner, Relations [''tokenMinter'']]),
       (''tokenMinter'', []),
       (''localToken'', [IsWritable, Pda [ConstSeed ''local_token'', FieldSeed ''local_token.mint'' ''localToken''] None]),
       (''custodyTokenAccount'', [IsWritable, Pda [ConstSeed ''custody'', FieldSeed ''local_token.mint'' ''localToken''] None]),
       (''custodyTokenMint'', [IsWritable]),
       (''tokenProgram'', [Address ''TokenkegQfeZyiNwAJbNbGKPFXCWuBvf9Ss623VQ5DA'']),
       (''eventAuthority'', [Pda [ConstSeed ''__event_authority''] None]),
       (''program'', [])],
    ii_args = [(''params'', IDefined ''removeLocalTokenParams'')],
    ii_returns = None\<rparr>"

definition tm2_removeRemoteTokenMessenger :: idl_instruction where
  "tm2_removeRemoteTokenMessenger = \<lparr>ii_name = ''removeRemoteTokenMessenger'', ii_discriminator = [65, 114, 66, 85, 169, 98, 177, 146],
    ii_accounts =
      [(''payee'', [IsWritable, IsSigner]),
       (''owner'', [IsSigner, Relations [''tokenMessenger'']]),
       (''tokenMessenger'', []),
       (''remoteTokenMessenger'', [IsWritable, Pda [ConstSeed ''remote_token_messenger'',
          FieldSeed ''remote_token_messenger.domain'' ''remoteTokenMessenger''] None]),
       (''eventAuthority'', [Pda [ConstSeed ''__event_authority''] None]),
       (''program'', [])],
    ii_args = [(''params'', IDefined ''removeRemoteTokenMessengerParams'')],
    ii_returns = None\<rparr>"

definition tm2_setFeeRecipient :: idl_instruction where
  "tm2_setFeeRecipient = \<lparr>ii_name = ''setFeeRecipient'', ii_discriminator = [227, 18, 215, 42, 237, 246, 151, 66],
    ii_accounts =
      [(''owner'', [IsSigner, Relations [''tokenMessenger'']]),
       (''tokenMessenger'', [IsWritable]),
       (''eventAuthority'', [Pda [ConstSeed ''__event_authority''] None]),
       (''program'', [])],
    ii_args = [(''params'', IDefined ''setFeeRecipientParams'')],
    ii_returns = None\<rparr>"

definition tm2_setMaxBurnAmountPerMessage :: idl_instruction where
  "tm2_setMaxBurnAmountPerMessage = \<lparr>ii_name = ''setMaxBurnAmountPerMessage'', ii_discriminator = [30, 128, 145, 240, 70, 237, 109, 207],
    ii_accounts =
      [(''tokenController'', [IsSigner, Relations [''tokenMinter'']]),
       (''tokenMinter'', []),
       (''localToken'', [IsWritable, Pda [ConstSeed ''local_token'', FieldSeed ''local_token.mint'' ''localToken''] None]),
       (''eventAuthority'', [Pda [ConstSeed ''__event_authority''] None]),
       (''program'', [])],
    ii_args = [(''params'', IDefined ''setMaxBurnAmountPerMessageParams'')],
    ii_returns = None\<rparr>"

definition tm2_setMinFee :: idl_instruction where
  "tm2_setMinFee = \<lparr>ii_name = ''setMinFee'', ii_discriminator = [114, 198, 35, 3, 41, 196, 194, 246],
    ii_accounts =
      [(''minFeeController'', [IsSigner, Relations [''tokenMessenger'']]),
       (''tokenMessenger'', [IsWritable]),
       (''eventAuthority'', [Pda [ConstSeed ''__event_authority''] None]),
       (''program'', [])],
    ii_args = [(''params'', IDefined ''setMinFeeParams'')],
    ii_returns = None\<rparr>"

definition tm2_setMinFeeController :: idl_instruction where
  "tm2_setMinFeeController = \<lparr>ii_name = ''setMinFeeController'', ii_discriminator = [195, 142, 74, 84, 234, 94, 180, 113],
    ii_accounts =
      [(''owner'', [IsSigner, Relations [''tokenMessenger'']]),
       (''tokenMessenger'', [IsWritable]),
       (''eventAuthority'', [Pda [ConstSeed ''__event_authority''] None]),
       (''program'', [])],
    ii_args = [(''params'', IDefined ''setMinFeeControllerParams'')],
    ii_returns = None\<rparr>"

definition tm2_setTokenController :: idl_instruction where
  "tm2_setTokenController = \<lparr>ii_name = ''setTokenController'', ii_discriminator = [88, 6, 98, 10, 79, 59, 15, 24],
    ii_accounts =
      [(''owner'', [IsSigner, Relations [''tokenMessenger'']]),
       (''tokenMessenger'', []),
       (''tokenMinter'', [IsWritable]),
       (''eventAuthority'', [Pda [ConstSeed ''__event_authority''] None]),
       (''program'', [])],
    ii_args = [(''params'', IDefined ''setTokenControllerParams'')],
    ii_returns = None\<rparr>"

definition tm2_transferOwnership :: idl_instruction where
  "tm2_transferOwnership = \<lparr>ii_name = ''transferOwnership'', ii_discriminator = [65, 177, 215, 73, 53, 45, 99, 47],
    ii_accounts =
      [(''owner'', [IsSigner, Relations [''tokenMessenger'']]),
       (''tokenMessenger'', [IsWritable]),
       (''eventAuthority'', [Pda [ConstSeed ''__event_authority''] None]),
       (''program'', [])],
    ii_args = [(''params'', IDefined ''transferOwnershipParams'')],
    ii_returns = None\<rparr>"

definition tm2_undenylistAccount :: idl_instruction where
  "tm2_undenylistAccount = \<lparr>ii_name = ''undenylistAccount'', ii_discriminator = [57, 36, 43, 168, 62, 172, 33, 39],
    ii_accounts =
      [(''payer'', [IsWritable, IsSigner]),
       (''denylister'', [IsSigner, Relations [''tokenMessenger'']]),
       (''tokenMessenger'', []),
       (''denylistAccount'', [IsWritable, Pda [ConstSeed ''denylist_account'', ArgSeed ''params.account''] None]),
       (''systemProgram'', [Address ''11111111111111111111111111111111'']),
       (''eventAuthority'', [Pda [ConstSeed ''__event_authority''] None]),
       (''program'', [])],
    ii_args = [(''params'', IDefined ''undenylistParams'')],
    ii_returns = None\<rparr>"

definition tm2_unlinkTokenPair :: idl_instruction where
  "tm2_unlinkTokenPair = \<lparr>ii_name = ''unlinkTokenPair'', ii_discriminator = [52, 198, 100, 114, 104, 174, 85, 58],
    ii_accounts =
      [(''payee'', [IsWritable, IsSigner]),
       (''tokenController'', [IsSigner, Relations [''tokenMinter'']]),
       (''tokenMinter'', []),
       (''tokenPair'', [IsWritable, Pda [ConstSeed ''token_pair'',
          FieldSeed ''token_pair.remote_domain'' ''tokenPair'',
          FieldSeed ''token_pair.remote_token'' ''tokenPair''] None]),
       (''eventAuthority'', [Pda [ConstSeed ''__event_authority''] None]),
       (''program'', [])],
    ii_args = [(''params'', IDefined ''uninkTokenPairParams'')],
    ii_returns = None\<rparr>"

definition tm2_unpause :: idl_instruction where
  "tm2_unpause = \<lparr>ii_name = ''unpause'', ii_discriminator = [169, 144, 4, 38, 10, 141, 188, 255],
    ii_accounts =
      [(''pauser'', [IsSigner, Relations [''tokenMinter'']]),
       (''tokenMinter'', [IsWritable]),
       (''eventAuthority'', [Pda [ConstSeed ''__event_authority''] None]),
       (''program'', [])],
    ii_args = [(''params'', IDefined ''unpauseParams'')],
    ii_returns = None\<rparr>"

definition tm2_updateDenylister :: idl_instruction where
  "tm2_updateDenylister = \<lparr>ii_name = ''updateDenylister'', ii_discriminator = [193, 66, 198, 201, 84, 57, 14, 222],
    ii_accounts =
      [(''owner'', [IsSigner, Relations [''tokenMessenger'']]),
       (''tokenMessenger'', [IsWritable]),
       (''eventAuthority'', [Pda [ConstSeed ''__event_authority''] None]),
       (''program'', [])],
    ii_args = [(''params'', IDefined ''updateDenylisterParams'')],
    ii_returns = None\<rparr>"

definition tm2_updatePauser :: idl_instruction where
  "tm2_updatePauser = \<lparr>ii_name = ''updatePauser'', ii_discriminator = [140, 171, 211, 132, 57, 201, 16, 254],
    ii_accounts =
      [(''owner'', [IsSigner, Relations [''tokenMessenger'']]),
       (''tokenMessenger'', []),
       (''tokenMinter'', [IsWritable]),
       (''eventAuthority'', [Pda [ConstSeed ''__event_authority''] None]),
       (''program'', [])],
    ii_args = [(''params'', IDefined ''updatePauserParams'')],
    ii_returns = None\<rparr>"

definition tm2_instructions :: "idl_instruction list" where
  "tm2_instructions =
    [tm2_acceptOwnership, tm2_addLocalToken, tm2_addRemoteTokenMessenger, tm2_burnTokenCustody,
     tm2_denylistAccount, tm2_depositForBurn, tm2_depositForBurnWithHook, tm2_handleReceiveFinalizedMessage,
     tm2_handleReceiveUnfinalizedMessage, tm2_initialize, tm2_linkTokenPair, tm2_pause, tm2_removeLocalToken,
     tm2_removeRemoteTokenMessenger, tm2_setFeeRecipient, tm2_setMaxBurnAmountPerMessage, tm2_setMinFee,
     tm2_setMinFeeController, tm2_setTokenController, tm2_transferOwnership, tm2_undenylistAccount,
     tm2_unlinkTokenPair, tm2_unpause, tm2_updateDenylister, tm2_updatePauser]"

lemmas tm2_instruction_defs = tm2_acceptOwnership_def tm2_addLocalToken_def tm2_addRemoteTokenMessenger_def tm2_burnTokenCustody_def
  tm2_denylistAccount_def tm2_depositForBurn_def tm2_depositForBurnWithHook_def
  tm2_handleReceiveFinalizedMessage_def tm2_handleReceiveUnfinalizedMessage_def tm2_initialize_def
  tm2_linkTokenPair_def tm2_pause_def tm2_removeLocalToken_def tm2_removeRemoteTokenMessenger_def
  tm2_setFeeRecipient_def tm2_setMaxBurnAmountPerMessage_def tm2_setMinFee_def tm2_setMinFeeController_def
  tm2_setTokenController_def tm2_transferOwnership_def tm2_undenylistAccount_def tm2_unlinkTokenPair_def
  tm2_unpause_def tm2_updateDenylister_def tm2_updatePauser_def

lemmas tm2_account_defs = tm2_depositForBurn_accounts1_def tm2_depositForBurn_accounts2_def tm2_depositForBurnWithHook_accounts1_def
  tm2_depositForBurnWithHook_accounts2_def tm2_handleReceiveFinalizedMessage_accounts1_def
  tm2_handleReceiveFinalizedMessage_accounts2_def tm2_handleReceiveFinalizedMessage_accounts3_def
  tm2_handleReceiveUnfinalizedMessage_accounts1_def tm2_handleReceiveUnfinalizedMessage_accounts2_def
  tm2_handleReceiveUnfinalizedMessage_accounts3_def tm2_initialize_accounts1_def tm2_program1_def
  tm2_program2_def tm2_program3_def tm2_program4_def

section \<open>Accounts, events and errors\<close>

definition tm2_accounts :: "(string \<times> nat list) list" where
  "tm2_accounts =
    [(''denylistedAccount'', [186, 58, 212, 239, 102, 131, 157, 146]),
     (''localToken'', [159, 131, 58, 170, 193, 84, 128, 182]),
     (''messageTransmitter'', [71, 40, 180, 142, 19, 203, 35, 252]),
     (''remoteTokenMessenger'', [105, 115, 174, 34, 95, 233, 138, 252]),
     (''tokenMessenger'', [162, 4, 242, 52, 147, 243, 221, 96]),
     (''tokenMinter'', [122, 133, 84, 63, 57, 159, 171, 206]),
     (''tokenPair'', [17, 214, 45, 176, 229, 149, 197, 71])]"

definition tm2_events :: "(string \<times> nat list) list" where
  "tm2_events =
    [(''denylisted'', [20, 145, 173, 200, 182, 17, 234, 154]),
     (''denylisterChanged'', [249, 170, 81, 180, 185, 175, 138, 72]),
     (''depositForBurn'', [144, 252, 145, 146, 6, 74, 167, 235]),
     (''feeRecipientSet'', [99, 140, 80, 35, 245, 176, 179, 110]),
     (''localTokenAdded'', [146, 8, 224, 150, 122, 173, 23, 39]),
     (''localTokenRemoved'', [181, 204, 1, 95, 2, 50, 66, 210]),
     (''minFeeControllerSet'', [239, 12, 122, 105, 231, 114, 13, 196]),
     (''minFeeSet'', [60, 127, 101, 230, 216, 129, 188, 98]),
     (''mintAndWithdraw'', [75, 67, 229, 70, 162, 126, 0, 71]),
     (''ownershipTransferStarted'', [183, 253, 239, 246, 140, 179, 133, 105]),
     (''ownershipTransferred'', [172, 61, 205, 183, 250, 50, 38, 98]),
     (''pause'', [194, 251, 232, 196, 118, 95, 111, 219]),
     (''pauserChanged'', [142, 157, 158, 87, 127, 8, 119, 55]),
     (''remoteTokenMessengerAdded'', [251, 29, 63, 244, 48, 114, 210, 175]),
     (''remoteTokenMessengerRemoved'', [255, 121, 137, 39, 230, 125, 11, 30]),
     (''setBurnLimitPerMessage'', [98, 152, 88, 191, 245, 30, 27, 209]),
     (''setTokenController'', [193, 44, 243, 83, 230, 72, 120, 216]),
     (''tokenCustodyBurned'', [219, 143, 107, 226, 67, 75, 178, 46]),
     (''tokenPairLinked'', [2, 14, 177, 64, 155, 93, 196, 141]),
     (''tokenPairUnlinked'', [78, 232, 230, 208, 180, 212, 246, 72]),
     (''unDenylisted'', [150, 39, 227, 20, 162, 180, 5, 242]),
     (''unpause'', [241, 149, 104, 90, 199, 136, 219, 146])]"

definition tm2_errors :: "(nat \<times> string \<times> string) list" where
  "tm2_errors =
    [(6000, ''invalidAuthority'', ''Invalid authority''),
     (6001, ''invalidTokenMinterState'', ''Invalid token minter state''),
     (6002, ''programPaused'', ''Instruction is not allowed at this time''),
     (6003, ''invalidTokenPairState'', ''Invalid token pair state''),
     (6004, ''invalidLocalTokenState'', ''Invalid local token state''),
     (6005, ''invalidPauser'', ''Invalid pauser''),
     (6006, ''invalidTokenController'', ''Invalid token controller''),
     (6007, ''burnAmountExceeded'', ''Burn amount exceeded''),
     (6008, ''invalidAmount'', ''Invalid amount'')]"

section \<open>Types\<close>

definition tm2_type_acceptOwnershipParams :: idl_typedef where
  "tm2_type_acceptOwnershipParams = \<lparr>td_name = ''acceptOwnershipParams'', td_serialization = None, td_repr = None,
    td_fields = [],
    td_variants = []\<rparr>"

definition tm2_type_addLocalTokenParams :: idl_typedef where
  "tm2_type_addLocalTokenParams = \<lparr>td_name = ''addLocalTokenParams'', td_serialization = None, td_repr = None,
    td_fields = [],
    td_variants = []\<rparr>"

definition tm2_type_addRemoteTokenMessengerParams :: idl_typedef where
  "tm2_type_addRemoteTokenMessengerParams = \<lparr>td_name = ''addRemoteTokenMessengerParams'', td_serialization = None, td_repr = None,
    td_fields = [(''domain'', IU32), (''tokenMessenger'', IPubkey)],
    td_variants = []\<rparr>"

definition tm2_type_burnTokenCustodyParams :: idl_typedef where
  "tm2_type_burnTokenCustodyParams = \<lparr>td_name = ''burnTokenCustodyParams'', td_serialization = None, td_repr = None,
    td_fields = [(''amount'', IU64)],
    td_variants = []\<rparr>"

definition tm2_type_denylistParams :: idl_typedef where
  "tm2_type_denylistParams = \<lparr>td_name = ''denylistParams'', td_serialization = None, td_repr = None,
    td_fields = [(''account'', IPubkey)],
    td_variants = []\<rparr>"

definition tm2_type_denylisted :: idl_typedef where
  "tm2_type_denylisted = \<lparr>td_name = ''denylisted'', td_serialization = None, td_repr = None,
    td_fields = [(''account'', IPubkey)],
    td_variants = []\<rparr>"

definition tm2_type_denylistedAccount :: idl_typedef where
  "tm2_type_denylistedAccount = \<lparr>td_name = ''denylistedAccount'', td_serialization = None, td_repr = None,
    td_fields = [(''account'', IPubkey)],
    td_variants = []\<rparr>"

definition tm2_type_denylisterChanged :: idl_typedef where
  "tm2_type_denylisterChanged = \<lparr>td_name = ''denylisterChanged'', td_serialization = None, td_repr = None,
    td_fields = [(''oldDenylister'', IPubkey), (''newDenylister'', IPubkey)],
    td_variants = []\<rparr>"

definition tm2_type_depositForBurn :: idl_typedef where
  "tm2_type_depositForBurn = \<lparr>td_name = ''depositForBurn'', td_serialization = None, td_repr = None,
    td_fields = [(''burnToken'', IPubkey), (''amount'', IU64), (''depositor'', IPubkey),
                 (''mintRecipient'', IPubkey), (''destinationDomain'', IU32),
                 (''destinationTokenMessenger'', IPubkey), (''destinationCaller'', IPubkey), (''maxFee'', IU64),
                 (''minFinalityThreshold'', IU32), (''hookData'', IBytes)],
    td_variants = []\<rparr>"

definition tm2_type_depositForBurnParams :: idl_typedef where
  "tm2_type_depositForBurnParams = \<lparr>td_name = ''depositForBurnParams'', td_serialization = None, td_repr = Some ''c'',
    td_fields = [(''amount'', IU64), (''destinationDomain'', IU32), (''mintRecipient'', IPubkey),
                 (''destinationCaller'', IPubkey), (''maxFee'', IU64), (''minFinalityThreshold'', IU32)],
    td_variants = []\<rparr>"

definition tm2_type_depositForBurnWithHookParams :: idl_typedef where
  "tm2_type_depositForBurnWithHookParams = \<lparr>td_name = ''depositForBurnWithHookParams'', td_serialization = None, td_repr = Some ''c'',
    td_fields = [(''amount'', IU64), (''destinationDomain'', IU32), (''mintRecipient'', IPubkey),
                 (''destinationCaller'', IPubkey), (''maxFee'', IU64), (''minFinalityThreshold'', IU32),
                 (''hookData'', IBytes)],
    td_variants = []\<rparr>"

definition tm2_type_feeRecipientSet :: idl_typedef where
  "tm2_type_feeRecipientSet = \<lparr>td_name = ''feeRecipientSet'', td_serialization = None, td_repr = None,
    td_fields = [(''newFeeRecipient'', IPubkey)],
    td_variants = []\<rparr>"

definition tm2_type_handleReceiveMessageParams :: idl_typedef where
  "tm2_type_handleReceiveMessageParams = \<lparr>td_name = ''handleReceiveMessageParams'', td_serialization = None, td_repr = None,
    td_fields = [(''remoteDomain'', IU32), (''sender'', IPubkey), (''finalityThresholdExecuted'', IU32),
                 (''messageBody'', IBytes), (''authorityBump'', IU8)],
    td_variants = []\<rparr>"

definition tm2_type_initializeParams :: idl_typedef where
  "tm2_type_initializeParams = \<lparr>td_name = ''initializeParams'', td_serialization = None, td_repr = None,
    td_fields = [(''tokenController'', IPubkey), (''denylister'', IPubkey), (''feeRecipient'', IPubkey),
                 (''minFeeController'', IPubkey), (''minFee'', IU32), (''messageBodyVersion'', IU32)],
    td_variants = []\<rparr>"

definition tm2_type_linkTokenPairParams :: idl_typedef where
  "tm2_type_linkTokenPairParams = \<lparr>td_name = ''linkTokenPairParams'', td_serialization = None, td_repr = None,
    td_fields = [(''localToken'', IPubkey), (''remoteDomain'', IU32), (''remoteToken'', IPubkey)],
    td_variants = []\<rparr>"

definition tm2_type_localToken :: idl_typedef where
  "tm2_type_localToken = \<lparr>td_name = ''localToken'', td_serialization = None, td_repr = None,
    td_fields = [(''custody'', IPubkey), (''mint'', IPubkey), (''burnLimitPerMessage'', IU64),
                 (''messagesSent'', IU64), (''messagesReceived'', IU64), (''amountSent'', IU128),
                 (''amountReceived'', IU128), (''bump'', IU8), (''custodyBump'', IU8)],
    td_variants = []\<rparr>"

definition tm2_type_localTokenAdded :: idl_typedef where
  "tm2_type_localTokenAdded = \<lparr>td_name = ''localTokenAdded'', td_serialization = None, td_repr = None,
    td_fields = [(''custody'', IPubkey), (''mint'', IPubkey)],
    td_variants = []\<rparr>"

definition tm2_type_localTokenRemoved :: idl_typedef where
  "tm2_type_localTokenRemoved = \<lparr>td_name = ''localTokenRemoved'', td_serialization = None, td_repr = None,
    td_fields = [(''custody'', IPubkey), (''mint'', IPubkey)],
    td_variants = []\<rparr>"

definition tm2_type_messageTransmitter :: idl_typedef where
  "tm2_type_messageTransmitter = \<lparr>td_name = ''messageTransmitter'', td_serialization = None, td_repr = None,
    td_fields = [(''owner'', IPubkey), (''pendingOwner'', IPubkey), (''attesterManager'', IPubkey),
                 (''pauser'', IPubkey), (''paused'', IBool), (''localDomain'', IU32), (''version'', IU32),
                 (''signatureThreshold'', IU32), (''enabledAttesters'', IVec IPubkey),
                 (''maxMessageBodySize'', IU64)],
    td_variants = []\<rparr>"

definition tm2_type_minFeeControllerSet :: idl_typedef where
  "tm2_type_minFeeControllerSet = \<lparr>td_name = ''minFeeControllerSet'', td_serialization = None, td_repr = None,
    td_fields = [(''newMinFeeController'', IPubkey)],
    td_variants = []\<rparr>"

definition tm2_type_minFeeSet :: idl_typedef where
  "tm2_type_minFeeSet = \<lparr>td_name = ''minFeeSet'', td_serialization = None, td_repr = None,
    td_fields = [(''newMinFee'', IU32)],
    td_variants = []\<rparr>"

definition tm2_type_mintAndWithdraw :: idl_typedef where
  "tm2_type_mintAndWithdraw = \<lparr>td_name = ''mintAndWithdraw'', td_serialization = None, td_repr = None,
    td_fields = [(''mintRecipient'', IPubkey), (''amount'', IU64), (''mintToken'', IPubkey),
                 (''feeCollected'', IU64)],
    td_variants = []\<rparr>"

definition tm2_type_ownershipTransferStarted :: idl_typedef where
  "tm2_type_ownershipTransferStarted = \<lparr>td_name = ''ownershipTransferStarted'', td_serialization = None, td_repr = None,
    td_fields = [(''previousOwner'', IPubkey), (''newOwner'', IPubkey)],
    td_variants = []\<rparr>"

definition tm2_type_ownershipTransferred :: idl_typedef where
  "tm2_type_ownershipTransferred = \<lparr>td_name = ''ownershipTransferred'', td_serialization = None, td_repr = None,
    td_fields = [(''previousOwner'', IPubkey), (''newOwner'', IPubkey)],
    td_variants = []\<rparr>"

definition tm2_type_pause :: idl_typedef where
  "tm2_type_pause = \<lparr>td_name = ''pause'', td_serialization = None, td_repr = None,
    td_fields = [],
    td_variants = []\<rparr>"

definition tm2_type_pauseParams :: idl_typedef where
  "tm2_type_pauseParams = \<lparr>td_name = ''pauseParams'', td_serialization = None, td_repr = None,
    td_fields = [],
    td_variants = []\<rparr>"

definition tm2_type_pauserChanged :: idl_typedef where
  "tm2_type_pauserChanged = \<lparr>td_name = ''pauserChanged'', td_serialization = None, td_repr = None,
    td_fields = [(''newAddress'', IPubkey)],
    td_variants = []\<rparr>"

definition tm2_type_remoteTokenMessenger :: idl_typedef where
  "tm2_type_remoteTokenMessenger = \<lparr>td_name = ''remoteTokenMessenger'', td_serialization = None, td_repr = None,
    td_fields = [(''domain'', IU32), (''tokenMessenger'', IPubkey)],
    td_variants = []\<rparr>"

definition tm2_type_remoteTokenMessengerAdded :: idl_typedef where
  "tm2_type_remoteTokenMessengerAdded = \<lparr>td_name = ''remoteTokenMessengerAdded'', td_serialization = None, td_repr = None,
    td_fields = [(''domain'', IU32), (''tokenMessenger'', IPubkey)],
    td_variants = []\<rparr>"

definition tm2_type_remoteTokenMessengerRemoved :: idl_typedef where
  "tm2_type_remoteTokenMessengerRemoved = \<lparr>td_name = ''remoteTokenMessengerRemoved'', td_serialization = None, td_repr = None,
    td_fields = [(''domain'', IU32), (''tokenMessenger'', IPubkey)],
    td_variants = []\<rparr>"

definition tm2_type_removeLocalTokenParams :: idl_typedef where
  "tm2_type_removeLocalTokenParams = \<lparr>td_name = ''removeLocalTokenParams'', td_serialization = None, td_repr = None,
    td_fields = [],
    td_variants = []\<rparr>"

definition tm2_type_removeRemoteTokenMessengerParams :: idl_typedef where
  "tm2_type_removeRemoteTokenMessengerParams = \<lparr>td_name = ''removeRemoteTokenMessengerParams'', td_serialization = None, td_repr = None,
    td_fields = [],
    td_variants = []\<rparr>"

definition tm2_type_setBurnLimitPerMessage :: idl_typedef where
  "tm2_type_setBurnLimitPerMessage = \<lparr>td_name = ''setBurnLimitPerMessage'', td_serialization = None, td_repr = None,
    td_fields = [(''token'', IPubkey), (''burnLimitPerMessage'', IU64)],
    td_variants = []\<rparr>"

definition tm2_type_setFeeRecipientParams :: idl_typedef where
  "tm2_type_setFeeRecipientParams = \<lparr>td_name = ''setFeeRecipientParams'', td_serialization = None, td_repr = None,
    td_fields = [(''newFeeRecipient'', IPubkey)],
    td_variants = []\<rparr>"

definition tm2_type_setMaxBurnAmountPerMessageParams :: idl_typedef where
  "tm2_type_setMaxBurnAmountPerMessageParams = \<lparr>td_name = ''setMaxBurnAmountPerMessageParams'', td_serialization = None, td_repr = None,
    td_fields = [(''burnLimitPerMessage'', IU64)],
    td_variants = []\<rparr>"

definition tm2_type_setMinFeeControllerParams :: idl_typedef where
  "tm2_type_setMinFeeControllerParams = \<lparr>td_name = ''setMinFeeControllerParams'', td_serialization = None, td_repr = None,
    td_fields = [(''newMinFeeController'', IPubkey)],
    td_variants = []\<rparr>"

definition tm2_type_setMinFeeParams :: idl_typedef where
  "tm2_type_setMinFeeParams = \<lparr>td_name = ''setMinFeeParams'', td_serialization = None, td_repr = None,
    td_fields = [(''newMinFee'', IU32)],
    td_variants = []\<rparr>"

definition tm2_type_setTokenController :: idl_typedef where
  "tm2_type_setTokenController = \<lparr>td_name = ''setTokenController'', td_serialization = None, td_repr = None,
    td_fields = [(''tokenController'', IPubkey)],
    td_variants = []\<rparr>"

definition tm2_type_setTokenControllerParams :: idl_typedef where
  "tm2_type_setTokenControllerParams = \<lparr>td_name = ''setTokenControllerParams'', td_serialization = None, td_repr = None,
    td_fields = [(''tokenController'', IPubkey)],
    td_variants = []\<rparr>"

definition tm2_type_tokenCustodyBurned :: idl_typedef where
  "tm2_type_tokenCustodyBurned = \<lparr>td_name = ''tokenCustodyBurned'', td_serialization = None, td_repr = None,
    td_fields = [(''custodyTokenAccount'', IPubkey), (''amount'', IU64)],
    td_variants = []\<rparr>"

definition tm2_type_tokenMessenger :: idl_typedef where
  "tm2_type_tokenMessenger = \<lparr>td_name = ''tokenMessenger'', td_serialization = None, td_repr = None,
    td_fields = [(''denylister'', IPubkey), (''owner'', IPubkey), (''pendingOwner'', IPubkey),
                 (''messageBodyVersion'', IU32), (''authorityBump'', IU8), (''feeRecipient'', IPubkey),
                 (''minFeeController'', IPubkey), (''minFee'', IU32)],
    td_variants = []\<rparr>"

definition tm2_type_tokenMinter :: idl_typedef where
  "tm2_type_tokenMinter = \<lparr>td_name = ''tokenMinter'', td_serialization = None, td_repr = None,
    td_fields = [(''tokenController'', IPubkey), (''pauser'', IPubkey), (''paused'', IBool), (''bump'', IU8)],
    td_variants = []\<rparr>"

definition tm2_type_tokenPair :: idl_typedef where
  "tm2_type_tokenPair = \<lparr>td_name = ''tokenPair'', td_serialization = None, td_repr = None,
    td_fields = [(''remoteDomain'', IU32), (''remoteToken'', IPubkey), (''localToken'', IPubkey),
                 (''bump'', IU8)],
    td_variants = []\<rparr>"

definition tm2_type_tokenPairLinked :: idl_typedef where
  "tm2_type_tokenPairLinked = \<lparr>td_name = ''tokenPairLinked'', td_serialization = None, td_repr = None,
    td_fields = [(''localToken'', IPubkey), (''remoteDomain'', IU32), (''remoteToken'', IPubkey)],
    td_variants = []\<rparr>"

definition tm2_type_tokenPairUnlinked :: idl_typedef where
  "tm2_type_tokenPairUnlinked = \<lparr>td_name = ''tokenPairUnlinked'', td_serialization = None, td_repr = None,
    td_fields = [(''localToken'', IPubkey), (''remoteDomain'', IU32), (''remoteToken'', IPubkey)],
    td_variants = []\<rparr>"

definition tm2_type_transferOwnershipParams :: idl_typedef where
  "tm2_type_transferOwnershipParams = \<lparr>td_name = ''transferOwnershipParams'', td_serialization = None, td_repr = None,
    td_fields = [(''newOwner'', IPubkey)],
    td_variants = []\<rparr>"

definition tm2_type_unDenylisted :: idl_typedef where
  "tm2_type_unDenylisted = \<lparr>td_name = ''unDenylisted'', td_serialization = None, td_repr = None,
    td_fields = [(''account'', IPubkey)],
    td_variants = []\<rparr>"

definition tm2_type_undenylistParams :: idl_typedef where
  "tm2_type_undenylistParams = \<lparr>td_name = ''undenylistParams'', td_serialization = None, td_repr = None,
    td_fields = [(''account'', IPubkey)],
    td_variants = []\<rparr>"

definition tm2_type_uninkTokenPairParams :: idl_typedef where
  "tm2_type_uninkTokenPairParams = \<lparr>td_name = ''uninkTokenPairParams'', td_serialization = None, td_repr = None,
    td_fields = [],
    td_variants = []\<rparr>"

definition tm2_type_unpause :: idl_typedef where
  "tm2_type_unpause = \<lparr>td_name = ''unpause'', td_serialization = None, td_repr = None,
    td_fields = [],
    td_variants = []\<rparr>"

definition tm2_type_unpauseParams :: idl_typedef where
  "tm2_type_unpauseParams = \<lparr>td_name = ''unpauseParams'', td_serialization = None, td_repr = None,
    td_fields = [],
    td_variants = []\<rparr>"

definition tm2_type_updateDenylisterParams :: idl_typedef where
  "tm2_type_updateDenylisterParams = \<lparr>td_name = ''updateDenylisterParams'', td_serialization = None, td_repr = None,
    td_fields = [(''newDenylister'', IPubkey)],
    td_variants = []\<rparr>"

definition tm2_type_updatePauserParams :: idl_typedef where
  "tm2_type_updatePauserParams = \<lparr>td_name = ''updatePauserParams'', td_serialization = None, td_repr = None,
    td_fields = [(''newPauser'', IPubkey)],
    td_variants = []\<rparr>"

definition tm2_types :: "idl_typedef list" where
  "tm2_types =
    [tm2_type_acceptOwnershipParams, tm2_type_addLocalTokenParams, tm2_type_addRemoteTokenMessengerParams,
     tm2_type_burnTokenCustodyParams, tm2_type_denylistParams, tm2_type_denylisted, tm2_type_denylistedAccount,
     tm2_type_denylisterChanged, tm2_type_depositForBurn, tm2_type_depositForBurnParams,
     tm2_type_depositForBurnWithHookParams, tm2_type_feeRecipientSet, tm2_type_handleReceiveMessageParams,
     tm2_type_initializeParams, tm2_type_linkTokenPairParams, tm2_type_localToken, tm2_type_localTokenAdded,
     tm2_type_localTokenRemoved, tm2_type_messageTransmitter, tm2_type_minFeeControllerSet, tm2_type_minFeeSet,
     tm2_type_mintAndWithdraw, tm2_type_ownershipTransferStarted, tm2_type_ownershipTransferred, tm2_type_pause,
     tm2_type_pauseParams, tm2_type_pauserChanged, tm2_type_remoteTokenMessenger,
     tm2_type_remoteTokenMessengerAdded, tm2_type_remoteTokenMessengerRemoved, tm2_type_removeLocalTokenParams,
     tm2_type_removeRemoteTokenMessengerParams, tm2_type_setBurnLimitPerMessage, tm2_type_setFeeRecipientParams,
     tm2_type_setMaxBurnAmountPerMessageParams, tm2_type_setMinFeeControllerParams, tm2_type_setMinFeeParams,
     tm2_type_setTokenController, tm2_type_setTokenControllerParams, tm2_type_tokenCustodyBurned,
     tm2_type_tokenMessenger, tm2_type_tokenMinter, tm2_type_tokenPair, tm2_type_tokenPairLinked,
     tm2_type_tokenPairUnlinked, tm2_type_transferOwnershipParams, tm2_type_unDenylisted,
     tm2_type_undenylistParams, tm2_type_uninkTokenPairParams, tm2_type_unpause, tm2_type_unpauseParams,
     tm2_type_updateDenylisterParams, tm2_type_updatePauserParams]"

lemmas tm2_type_defs = tm2_type_acceptOwnershipParams_def tm2_type_addLocalTokenParams_def
  tm2_type_addRemoteTokenMessengerParams_def tm2_type_burnTokenCustodyParams_def tm2_type_denylistParams_def
  tm2_type_denylisted_def tm2_type_denylistedAccount_def tm2_type_denylisterChanged_def
  tm2_type_depositForBurn_def tm2_type_depositForBurnParams_def tm2_type_depositForBurnWithHookParams_def
  tm2_type_feeRecipientSet_def tm2_type_handleReceiveMessageParams_def tm2_type_initializeParams_def
  tm2_type_linkTokenPairParams_def tm2_type_localToken_def tm2_type_localTokenAdded_def
  tm2_type_localTokenRemoved_def tm2_type_messageTransmitter_def tm2_type_minFeeControllerSet_def
  tm2_type_minFeeSet_def tm2_type_mintAndWithdraw_def tm2_type_ownershipTransferStarted_def
  tm2_type_ownershipTransferred_def tm2_type_pause_def tm2_type_pauseParams_def tm2_type_pauserChanged_def
  tm2_type_remoteTokenMessenger_def tm2_type_remoteTokenMessengerAdded_def
  tm2_type_remoteTokenMessengerRemoved_def tm2_type_removeLocalTokenParams_def
  tm2_type_removeRemoteTokenMessengerParams_def tm2_type_setBurnLimitPerMessage_def
  tm2_type_setFeeRecipientParams_def tm2_type_setMaxBurnAmountPerMessageParams_def
  tm2_type_setMinFeeControllerParams_def tm2_type_setMinFeeParams_def tm2_type_setTokenController_def
  tm2_type_setTokenControllerParams_def tm2_type_tokenCustodyBurned_def tm2_type_tokenMessenger_def
  tm2_type_tokenMinter_def tm2_type_tokenPair_def tm2_type_tokenPairLinked_def tm2_type_tokenPairUnlinked_def
  tm2_type_transferOwnershipParams_def tm2_type_unDenylisted_def tm2_type_undenylistParams_def
  tm2_type_uninkTokenPairParams_def tm2_type_unpause_def tm2_type_unpauseParams_def
  tm2_type_updateDenylisterParams_def tm2_type_updatePauserParams_def

section \<open>The description\<close>

definition TokenMessengerMinterV2 :: idl where
  "TokenMessengerMinterV2 = \<lparr>idl_address = ''CCTPV2vPZJS2u2BBsUoscuikbYjnpFmbFsvVuJdgUMQe'',
    idl_metadata = [(''name'', ''tokenMessengerMinterV2''), (''version'', ''0.2.0''), (''spec'', ''0.1.0''),
                    (''description'', ''Token Messenger and Minter for Cross-Chain Transfer Protocol V2''),
                    (''repository'', ''https://github.com/circlefin/solana-cctp-contracts'')],
    idl_instructions = tm2_instructions, idl_accounts = tm2_accounts, idl_events = tm2_events,
    idl_errors = tm2_errors, idl_types = tm2_types\<rparr>"

end
