(* ===== verification/Cctp_Calls.thy ===== *)
theory Cctp_Calls
  imports Cctp_Demo Idl_Calls Idl_Transmitter_V1 Idl_Minter_V1 Idl_Transmitter_V2 Idl_Minter_V2
begin

text \<open>
  The calls of the cross-chain transfers against the descriptions of the four programs they are for: the struct that
  each call passes has the fields of the described type, the named accounts are described, and what is not named can be
  completed by the client; the accounts that a received message needs are those of the handler it is passed on to.
\<close>

section \<open>Calls that fit\<close>

definition description :: "pubkey \<Rightarrow> idl option" where
  "description p = find (\<lambda>I. PublicKey (idl_address I) = p)
     [MessageTransmitter, TokenMessengerMinter, MessageTransmitterV2, TokenMessengerMinterV2]"

fun cval_fits :: "idl_type \<Rightarrow> cval \<Rightarrow> bool" where
  "cval_fits IU64 v = (case v of CInt n \<Rightarrow> True | _ \<Rightarrow> False)"
| "cval_fits IU32 v = (case v of CInt n \<Rightarrow> True | CNum x \<Rightarrow> True | _ \<Rightarrow> False)"
| "cval_fits IPubkey v = (case v of CKey k \<Rightarrow> True | _ \<Rightarrow> False)"
| "cval_fits IBytes v = (case v of CBytes b \<Rightarrow> True | _ \<Rightarrow> False)"
| "cval_fits t v = False"

text \<open>The properties of the object are the fields of the struct, in any order.\<close>

definition struct_fits :: "(string \<times> cval) list \<Rightarrow> (string \<times> idl_type) list \<Rightarrow> bool" where
  "struct_fits ps fs \<longleftrightarrow> length ps = length fs \<and>
     list_all (\<lambda>(f, t). case map_of ps f of Some v \<Rightarrow> cval_fits t v | None \<Rightarrow> False) fs"

text \<open>The client adds the two accounts of event calls itself.\<close>

definition event_accounts :: "string list" where
  "event_accounts = [''eventAuthority'', ''program'']"

text \<open>The accounts of the handler that a message is passed on to, without the caller's own; a message of version 2
  may be handled as final or not.\<close>

definition handlers :: "string \<Rightarrow> idl_account list list" where
  "handlers m = (if m = ''receiveMessage''
     then List.map (\<lambda>d. tl (ii_accounts d)) [tm1_handleReceiveMessage] else [])"

definition handlers_v2 :: "string \<Rightarrow> idl_account list list" where
  "handlers_v2 m = (if m = ''receiveMessage''
     then List.map (\<lambda>d. tl (ii_accounts d)) [tm2_handleReceiveFinalizedMessage, tm2_handleReceiveUnfinalizedMessage] else [])"

definition metas_fit :: "account_meta list \<Rightarrow> idl_account list \<Rightarrow> bool" where
  "metas_fit ms as = list_all2 (\<lambda>m (n, attrs). (IsWritable \<notin> set attrs \<or> am_writable m) \<and> \<not> am_signer m) ms as"

definition call_fits :: "sol_call \<Rightarrow> bool" where
  "call_fits c = (\<exists>I d t n. description (sc_program c) = Some I \<and> find_ix I (sc_method c) = Some d \<and>
     ii_args d = [(''params'', IDefined n)] \<and> find_type I n = Some t \<and>
     struct_fits (sc_params c) (td_fields t) \<and>
     distinct (List.map fst (sc_accounts c)) \<and>
     set (List.map fst (sc_accounts c)) \<subseteq> set (List.map fst (ii_accounts d)) \<and>
     set (unresolved d (List.map fst (sc_accounts c))) \<subseteq> set event_accounts \<and>
     list_all (metas_fit (sc_remaining c)) (if I = MessageTransmitter then handlers (sc_method c)
       else if I = MessageTransmitterV2 then handlers_v2 (sc_method c) else []))"

fun bridge_call_fits :: "cctp_event \<Rightarrow> bool" where
  "bridge_call_fits (SolSend c) = call_fits c"
| "bridge_call_fits (SolView c) = call_fits c"
| "bridge_call_fits e = True"

section \<open>The described calls\<close>

lemma descriptions:
  "description (messageTransmitterProgram getPrograms) = Some MessageTransmitter"
  "description (tokenMessengerMinterProgram getPrograms) = Some TokenMessengerMinter"
  "description (messageTransmitterProgram getProgramsV2) = Some MessageTransmitterV2"
  "description (tokenMessengerMinterProgram getProgramsV2) = Some TokenMessengerMinterV2"
  by (simp_all add: description_def getPrograms_def getProgramsV2_def MessageTransmitter_def TokenMessengerMinter_def
      MessageTransmitterV2_def TokenMessengerMinterV2_def)

lemma described_instructions:
  "find_ix MessageTransmitter ''getNoncePda'' = Some mt1_getNoncePda"
  "find_ix MessageTransmitter ''receiveMessage'' = Some mt1_receiveMessage"
  "find_ix TokenMessengerMinter ''depositForBurn'' = Some tm1_depositForBurn"
  "find_ix MessageTransmitterV2 ''receiveMessage'' = Some mt2_receiveMessage"
  "find_ix MessageTransmitterV2 ''reclaimEventAccount'' = Some mt2_reclaimEventAccount"
  "find_ix TokenMessengerMinterV2 ''depositForBurn'' = Some tm2_depositForBurn"
  "find_ix TokenMessengerMinterV2 ''depositForBurnWithHook'' = Some tm2_depositForBurnWithHook"
  by (simp_all add: find_ix_def MessageTransmitter_def TokenMessengerMinter_def MessageTransmitterV2_def TokenMessengerMinterV2_def
      mt1_instructions_def tm1_instructions_def mt2_instructions_def tm2_instructions_def
      mt1_instruction_defs tm1_instruction_defs mt2_instruction_defs tm2_instruction_defs)

lemma described_types:
  "find_type MessageTransmitter ''getNoncePdaParams'' = Some mt1_type_getNoncePdaParams"
  "find_type MessageTransmitter ''receiveMessageParams'' = Some mt1_type_receiveMessageParams"
  "find_type TokenMessengerMinter ''depositForBurnParams'' = Some tm1_type_depositForBurnParams"
  "find_type MessageTransmitterV2 ''receiveMessageParams'' = Some mt2_type_receiveMessageParams"
  "find_type MessageTransmitterV2 ''reclaimEventAccountParams'' = Some mt2_type_reclaimEventAccountParams"
  "find_type TokenMessengerMinterV2 ''depositForBurnParams'' = Some tm2_type_depositForBurnParams"
  "find_type TokenMessengerMinterV2 ''depositForBurnWithHookParams'' = Some tm2_type_depositForBurnWithHookParams"
  by (simp_all add: find_type_def MessageTransmitter_def TokenMessengerMinter_def MessageTransmitterV2_def TokenMessengerMinterV2_def
      mt1_types_def tm1_types_def mt2_types_def tm2_types_def
      mt1_type_defs tm1_type_defs mt2_type_defs tm2_type_defs)

lemma different_descriptions:
  "TokenMessengerMinter \<noteq> MessageTransmitter" "TokenMessengerMinter \<noteq> MessageTransmitterV2"
  "TokenMessengerMinterV2 \<noteq> MessageTransmitter" "TokenMessengerMinterV2 \<noteq> MessageTransmitterV2"
  "MessageTransmitterV2 \<noteq> MessageTransmitter"
  by (simp_all add: MessageTransmitter_def TokenMessengerMinter_def MessageTransmitterV2_def TokenMessengerMinterV2_def)

lemma call_fitsI:
  assumes "description (sc_program c) = Some I" "find_ix I (sc_method c) = Some d"
    "ii_args d = [(''params'', IDefined n)]" "find_type I n = Some t"
    and "struct_fits (sc_params c) (td_fields t)"
    and "distinct (List.map fst (sc_accounts c))" "set (List.map fst (sc_accounts c)) \<subseteq> set (List.map fst (ii_accounts d))"
    and "set (unresolved d (List.map fst (sc_accounts c))) \<subseteq> set event_accounts"
    and "list_all (metas_fit (sc_remaining c)) (if I = MessageTransmitter then handlers (sc_method c)
       else if I = MessageTransmitterV2 then handlers_v2 (sc_method c) else [])"
  shows "call_fits c"
  using assms unfolding call_fits_def by blast

lemmas fits_eval = struct_fits_def event_accounts_def unresolved_def resolve_round_def different_descriptions handlers_def handlers_v2_def
  metas_fit_def meta_def

lemma getReceiveMessagePdas_fits: "io_all bridge_call_fits (getReceiveMessagePdas W getPrograms k hx d n)"
  unfolding getReceiveMessagePdas_def Let_def
  by (intro io_intros, simp, rule call_fitsI, simp add: descriptions, simp add: described_instructions,
      simp add: mt1_getNoncePda_def, simp add: described_types)
    (simp_all add: fits_eval mt1_getNoncePda_def mt1_type_getNoncePdaParams_def)

lemma mint_on_solana_fits: "io_all bridge_call_fits (mint_on_solana W S m a)"
  unfolding mint_on_solana_def
  by (intro getReceiveMessagePdas_fits io_intros; (simp; fail | simp, rule call_fitsI, simp add: descriptions,
      simp add: described_instructions, simp add: mt1_receiveMessage_def, simp add: described_types,
      simp_all add: fits_eval mt1_receiveMessage_def mt1_type_receiveMessageParams_def receive_metas_def tm1_handleReceiveMessage_def))

lemma burn_on_solana_fits: "io_all bridge_call_fits (burn_on_solana W S)"
  unfolding burn_on_solana_def Let_def
  by (intro io_intros; (simp; fail | simp, rule call_fitsI, simp add: descriptions,
      simp add: described_instructions, simp add: tm1_depositForBurn_def, simp add: described_types,
      simp_all add: fits_eval tm1_depositForBurn_def tm1_type_depositForBurnParams_def))

lemma burn_on_ethereum_fits: "io_all bridge_call_fits (burn_on_ethereum W S)"
  unfolding burn_on_ethereum_def approve_usdc_def check_funds_def ensure_recipient_account_def deposit_eth_def
  by (intro io_intros) simp_all

lemma mint_on_ethereum_fits: "io_all bridge_call_fits (mint_on_ethereum W m a)"
  unfolding mint_on_ethereum_def by (intro io_intros) simp_all

lemma path_accounts_bridge [simp]:
  "path_account ''owner'' = ''owner''" "path_account ''burnTokenMint'' = ''burnTokenMint''" "path_account ''receiver'' = ''receiver''"
  by code_simp+

lemma receive_sol_fits: "io_all bridge_call_fits (receiveMessageSol W m a)"
  unfolding receiveMessageSol_def getReceiveMessagePdasV2_def Let_def
  by (intro io_intros; (simp; fail | simp, rule call_fitsI, simp add: descriptions,
      simp add: described_instructions, simp add: mt2_receiveMessage_def, simp add: described_types,
      simp_all add: fits_eval mt2_receiveMessage_def mt2_type_receiveMessageParams_def receive_metas_v2_def Let_def
        tm2_handleReceiveFinalizedMessage_def tm2_handleReceiveUnfinalizedMessage_def tm2_account_defs))

lemma deposit_sol_fits: "io_all bridge_call_fits (depositForBurnSol W S n mf thr)"
  unfolding depositForBurnSol_def
  by (intro io_intros; (simp; fail | simp, rule call_fitsI, simp add: descriptions,
      simp add: described_instructions, simp add: tm2_depositForBurn_def, simp add: described_types,
      simp_all add: fits_eval tm2_depositForBurn_def tm2_account_defs tm2_type_depositForBurnParams_def
        sol_deposit_params_def sol_deposit_accounts_def Let_def))

lemma deposit_sol_hook_fits: "io_all bridge_call_fits (depositForBurnSolWithHook W S n mf thr h)"
  unfolding depositForBurnSolWithHook_def
  by (intro io_intros; (simp; fail | simp, rule call_fitsI, simp add: descriptions,
      simp add: described_instructions, simp add: tm2_depositForBurnWithHook_def, simp add: described_types,
      simp_all add: fits_eval tm2_depositForBurnWithHook_def tm2_account_defs tm2_type_depositForBurnWithHookParams_def
        sol_deposit_params_def sol_deposit_accounts_def Let_def))

lemma reclaim_fits: "io_all bridge_call_fits (reclaimEventAccount W m a k)"
  unfolding reclaimEventAccount_def
  by (intro io_intros; (simp; fail | simp, rule call_fitsI, simp add: descriptions,
      simp add: described_instructions, simp add: mt2_reclaimEventAccount_def, simp add: described_types,
      simp_all add: fits_eval mt2_reclaimEventAccount_def mt2_type_reclaimEventAccountParams_def))

section \<open>Whole transfers\<close>

lemma bridge_call_fits_quiet [simp]: "asking e \<Longrightarrow> bridge_call_fits e"
  by (cases e) simp_all

lemma announce_fits: "io_all bridge_call_fits m \<Longrightarrow> io_all bridge_call_fits (announce l m)"
  by (intro io_intros) simp_all

lemma deposit_evm2sol_fits: "io_all bridge_call_fits (deposit_evm2sol W a)"
  unfolding deposit_evm2sol_def depositForBurnEvm_def depositForBurnEvmWithHook_def approve_def by (intro io_intros) simp_all

lemma deposit_sol2evm_fits: "io_all bridge_call_fits (deposit_sol2evm W S a)"
  unfolding deposit_sol2evm_def by (intro deposit_sol_fits deposit_sol_hook_fits io_intros)

lemma receive_evm_fits: "io_all bridge_call_fits (receiveMessageEvm W m a)"
  unfolding receiveMessageEvm_def by (intro io_intros) simp_all

lemma transfer_and_receive_fits:
  assumes "io_all bridge_call_fits D" "\<And>m a. io_all bridge_call_fits (R m a)"
  shows "p_all bridge_call_fits (transfer_and_receive W D d R)"
  unfolding transfer_and_receive_def case_prod_unfold
  by (intro p_all_pbind p_all_ends announce_fits io_all_andThen io_all_ret assms p_all_mono [OF fetchAttestation_asks]) simp

lemma transfers_fit: "(script, source, url) \<in> set (transfers W) \<Longrightarrow> p_all bridge_call_fits script"
proof -
  have ask: "p_all bridge_call_fits (ends (getAttestation W h d n delay))" for h d n delay
    by (rule p_all_mono [OF getAttestation_asks]) simp
  have "p_all bridge_call_fits (ends (transfer_eth2sol W))"
    unfolding transfer_eth2sol_def ends_bind case_prod_unfold load_eth2sol_def
    by (intro ask p_all_pbind p_all_ends burn_on_ethereum_fits mint_on_solana_fits io_intros)
  moreover have "p_all bridge_call_fits (ends (transfer_sol2eth W))"
    unfolding transfer_sol2eth_def ends_bind case_prod_unfold load_sol2eth_def
    by (intro ask p_all_pbind p_all_ends burn_on_solana_fits mint_on_ethereum_fits io_intros)
  moreover have "p_all bridge_call_fits (transfer_v2_main W S)" for S
    unfolding transfer_v2_main_def Let_def reclaim_def
    by (intro p_all_pbind; auto intro!: p_all_ends transfer_and_receive_fits deposit_sol2evm_fits deposit_evm2sol_fits
        receive_evm_fits receive_sol_fits reclaim_fits io_intros)
  then have "p_all bridge_call_fits (transfer_v2 W)"
    unfolding transfer_v2_def by (intro p_all_pbind p_all_ends load_solana_quiet)
  ultimately show "(script, source, url) \<in> set (transfers W) \<Longrightarrow> p_all bridge_call_fits script"
    by (auto simp: transfers_def)
qed

text \<open>C29: Every call of a Solana program in a transfer fits the description of that program.\<close>

theorem bridge_calls_fit_their_descriptions:
  assumes "(script, source, url) \<in> set (transfers W)" and "script [] = Some (r, tr)"
  shows "list_all bridge_call_fits tr"
  using transfers_fit [OF assms(1)] assms(2) unfolding p_all_def by fastforce

lemma bridge_calls_fit_their_descriptions_witness:
  "\<exists>p c. transfer_eth2sol demo_world [] = (Inr (), p @ SolSend c # [Out ''ReceiveMessage transaction sent: signature'']) \<and> call_fits c"
proof -
  obtain p c where run: "transfer_eth2sol demo_world [] =
      (Inr (), p @ SolSend c # [Out ''ReceiveMessage transaction sent: signature''])"
    using eth2sol_run by blast
  have "(ends (transfer_eth2sol demo_world), Ethereum, attestation_url ETH_DOMAIN_ID) \<in> set (transfers demo_world)"
    by (simp add: transfers_def)
  from bridge_calls_fit_their_descriptions [OF this, of "Inr ()" "p @ SolSend c # [Out ''ReceiveMessage transaction sent: signature'']"] run
  show ?thesis by (auto simp: ends_def)
qed

end
