(* ===== verification/Spec2Isabelle.thy ===== *)
theory Spec2Isabelle
  imports Config_Props Option_Props Number_Props Role_Props Outcome_Props Display_Props
    Chain_State_Props Chain_Offer_Props Chain_Trade_Props Chain_Approval_Props Chain_Ledger_Props Chain_Market_Props
    Chain_Custody_Props Chain_Supply_Props Idl_Calls Meaning_Props Script_Props Idl_Old_Calls Cctp_Calls
begin

text \<open>
  A model of the OnRe repository: the Solana program \<^verbatim>\<open>programs/onreapp\<close>, through which the ONyc token is sold and
  redeemed, the command line client \<^verbatim>\<open>scripts/cli\<close> with \<^verbatim>\<open>scripts/utils\<close>, with which the boss, the redemption admin
  and users build, show, sign and send its transactions, the interface descriptions between the two, and the
  stand-alone scripts: upgrade, vault reports, smoke tests and cross-chain transfers.

  The parts. The program keeps a state account (boss, proposed boss, admins, approvers, kill switch, mint, supply cap),
  offers with up to ten price vectors, redemption offers and requests; it moves tokens through the token program. The
  client never decides anything for it: a command (\<^verbatim>\<open>cli/commands\<close>, \<^verbatim>\<open>cli/implementations\<close>) runs a handler inside
  \<open>executeCommand\<close> (banner, \<open>ScriptHelper.create\<close>, parameters, handler, one catch-all), and the handler prints an
  account or gives an instruction of \<^verbatim>\<open>script-helper.ts\<close> to \<open>handleTransaction\<close>: show, copy, or sign and send. Anchor
  completes and encodes the instruction from the description \<^verbatim>\<open>target/types/onreapp.ts\<close>. The other scripts use
  \<open>ScriptHelper\<close> in the same way, and the cross-chain transfers call four programs of Circle's bridge and contracts on
  Ethereum.

  How it is modelled. A computation of the client takes the trace of the events so far and gives a result or a thrown
  error with the longer trace (\<open>('e, 'a) run\<close>; \<open>'a io\<close> for the Solana scripts, \<open>'a crun\<close> for the transfers); \<open>await\<close> is
  sequencing, \<open>try\<close> is \<open>try_catch\<close>, a thrown value is an \<open>exn\<close>, and \<open>process.exit\<close> is an error that cannot be caught.
  What is not in the repository is a field of a record (\<open>env\<close>, \<open>outside_world\<close>): web3.js, spl-token, Anchor, ethers,
  bn.js, bs58, inquirer, clipboardy, the file system, the clock, the chains, the attestation service. Answers that may
  differ from call to call are functions of the trace. Parameters are JavaScript values (\<open>jsval\<close>); numbers are
  doubles (\<open>jsnum\<close>) with rounding where the code divides, multiplies or parses. An instruction is the request handed to
  Anchor: method, arguments, named accounts. The program is a function from the chain (accounts, token balances, clock)
  and an instruction to an error or the next chain, with machine arithmetic checked at its width; a failing instruction
  changes nothing, and other programs may run in between.

  The theories, in the order of the code.
    \<^item> \<open>Js_Values\<close>, \<open>Js_Text\<close>: values, errors, doubles, \<open>parseInt\<close>, \<open>toFixed\<close>, dates, \<open>JSON.stringify\<close>.
    \<^item> \<open>Network_Config\<close>: \<^verbatim>\<open>network-config.ts\<close>, and the scan of the arguments in \<^verbatim>\<open>cli/index.ts\<close>.
    \<^item> \<open>Cli_Io\<close>, \<open>Io_Logic\<close>: the outside, computations, and the proof rules for their traces and results; the
      locale \<open>trace_contract\<close> is the interface of trace properties that compose.
    \<^item> \<open>Script_Helper\<close>, \<open>Script_Builders\<close>: \<^verbatim>\<open>script-helper.ts\<close>, one definition per method.
    \<^item> \<open>Cli_Params\<close>, \<open>Cli_Prompts\<close>, \<open>Cli_Display\<close>, \<open>Tx_Handler\<close>: parameter tables, validators and prompts, printers and
      token tables, the transaction menu, the confirmation helper, the transaction builder, the wrapper.
    \<^item> \<open>Command_Contract\<close>: the contract every command keeps; the locale \<open>boss_instruction\<close> is the interface of the
      builders that take the boss. \<open>Cmd_State\<close>, \<open>Cmd_Offer\<close>, \<open>Cmd_Redemption\<close>, \<open>Cmd_Vault\<close>, \<open>Cmd_Market\<close>,
      \<open>Cmd_Init_Mint\<close>: one definition per implementation file, with the interpretations. \<open>Cli_Commands\<close>: the registered
      commands, the merging of options, and \<open>commander_ok\<close>, the documented behaviour of the commander library.
    \<^item> \<open>Chain_Core\<close>, \<open>Chain_State\<close>, \<open>Chain_Offer\<close>, \<open>Chain_Token\<close>, \<open>Chain_Approval\<close>, \<open>Chain_Trade\<close>, \<open>Chain_Redemption\<close>,
      \<open>Chain_Market\<close>, \<open>Chain_Program\<close>: \<^verbatim>\<open>programs/onreapp/src\<close>, one definition per handler and helper, with the account
      constraints as guards; \<open>Chain_Program\<close> dispatches the 38 instructions. \<open>Chain_Frame\<close>, \<open>Chain_State_Inv\<close>,
      \<open>Chain_Offer_Inv\<close>, \<open>Chain_Settlement\<close>, \<open>Chain_Ledger\<close>: what instructions leave alone, and the invariants of
      reachable chains. \<open>Chain_Custody\<close>: bounds on what an operation takes from a token account, which add up along
      a handler; who may make an account pay (\<open>stake\<close>, \<open>release\<close>); what redemption offers record as locked, and runs of
      the program among other programs (\<open>custody_run\<close>).
    \<^item> \<open>Idl_Core\<close>: the format of interface descriptions and Anchor's completion of accounts; \<open>Idl_Instructions\<close>,
      \<open>Idl_Types\<close>: \<^verbatim>\<open>target/types/onreapp.ts\<close>; \<open>Idl_Onre_Old\<close>: \<^verbatim>\<open>old-idl/onre_app.ts\<close>; \<open>Idl_Transmitter_V1\<close>,
      \<open>Idl_Minter_V1\<close>, \<open>Idl_Transmitter_V2\<close>, \<open>Idl_Minter_V2\<close>: the descriptions of the bridge. The texts of the
      documentation are left out.
    \<^item> \<open>Script_Base\<close>, \<open>Script_Upgrade\<close>, \<open>Script_Vaults\<close>, \<open>Script_Smoke\<close>: \<^verbatim>\<open>scripts/programV3upgrade\<close>,
      \<^verbatim>\<open>scripts/vault_operations\<close>, \<^verbatim>\<open>scripts/smoke\<close>.
    \<^item> \<open>Cctp_Core\<close>, \<open>Cctp_V1\<close>, \<open>Cctp_V2\<close>: \<^verbatim>\<open>scripts/cross_chain_transfer\<close>. \<open>Cctp_Logic\<close> has the proof rules and the
      locale \<open>bridge\<close>, the contract between depositing, asking for the attestation and receiving; \<open>Cctp_Parts\<close>
      interprets it for the two scripts of version 1 and both directions of version 2.
    \<^item> \<open>Demo_Env\<close>, \<open>Chain_Demo\<close>, \<open>Cctp_Demo\<close>: concrete outsides and chains in which the witnesses run.

  What is proved.
    \<^item> \<open>Chain_Trade_Props\<close>, \<open>Chain_Ledger_Props\<close>: a purchase, direct or through the intermediary, is one exact exchange;
      fees round up; buying and redeeming never gains; the intermediary is transparent; requests are booked, and a
      cancellation undoes its request whatever ran in between, in a mint without transfer fee.
    \<^item> \<open>Chain_Custody_Props\<close>, \<open>Chain_Supply_Props\<close>: token accounts only lose tokens by the signature of their owner or by
      the four ways in which the vaults pay; the locked tokens stay covered, but for the withdrawals of the boss and
      redemptions that pay in the locked mint, in a mint without transfer fee; who can mint, and the cap.
    \<^item> \<open>Chain_State_Props\<close>, \<open>Chain_Approval_Props\<close>: who can change the state, the kill switch, the hand-over, the
      admin slots as a set, approvals.
    \<^item> \<open>Chain_Offer_Props\<close>, \<open>Chain_Market_Props\<close>: well-formed accounts, prices and their stability, the yield.
    \<^item> \<open>Command_Props\<close>, \<open>Role_Props\<close>, \<open>Outcome_Props\<close>: nothing is sent without its confirmation, the show modes are
      hands-off, methods, payers and signers of every command, how commands end.
    \<^item> \<open>Meaning_Props\<close>: from the command line to the chain. \<open>decode_call\<close> is the instruction of the program that a call of
      the client encodes; what a command of the boss sends is the instruction that its parameters mean.
    \<^item> \<open>Config_Props\<close>, \<open>Prompt_Props\<close>, \<open>Option_Props\<close>, \<open>Number_Props\<close>, \<open>Display_Props\<close>, this theory: networks, types and
      ranges of parameters, options, decimals, lists.
    \<^item> \<open>Idl_Props\<close>, \<open>Idl_Calls\<close>, \<open>Idl_Old_Calls\<close>: the description is the one of the program, the calls of the builders
      fit it, and the two commands whose calls lack accounts never send.
    \<^item> \<open>Script_Upgrade_Props\<close>, \<open>Script_Props\<close>: the printed transactions of the upgrade, run on the model of the program,
      hand over the boss and open offers that trade; the acceptance is printed exactly when it succeeds; the scripts only
      print; the vault report is right.
    \<^item> \<open>Cctp_Props\<close>, \<open>Cctp_Messages\<close>, \<open>Cctp_Calls\<close>: mints follow attested burns, once; the attestation
      loop is bounded, and the polling of version 2 goes on forever exactly after a burn that is never attested; nonces
      are read back; the calls fit the descriptions of the bridge.

  Hypotheses. They state documented behaviour of what is not in the repository. \<open>token_program_ok\<close>: the token program
  moves, mints and burns what it is told for mints without transfer fee, or fails; \<open>fees_withheld\<close>: for other mints it
  may withhold a fee from the destination. Addresses of the program: an address is a hash of the concatenated bytes of
  its seeds, and \<open>distinct_addresses\<close> says that the addresses of the program's own seeds (\<open>program_seeds\<close>) do not collide;
  \<open>program_seeds_differ\<close> shows that these seeds do have different bytes. No derived address signs. \<open>commander_ok\<close>,
  \<open>inquirer_ok\<close>, \<open>checks_accounts\<close>: the libraries of the client. \<open>working\<close>: the machine of the upgrade scripts, where Anchor
  encodes the calls that fit the description (\<open>encodable\<close>), web3.js serialises transactions that fit a packet
  (\<open>fits_packet\<close>), a wallet can be resolved and the node answers; it agrees with \<open>checks_accounts\<close> (\<open>checking_demo\<close>).

  Bounds. The search for the shortest decimal of a double looks at 1 to 17 digits, and 17 always read back; the leading
  zeros of a fraction are counted up to 400, beyond the smallest double; the results on decimals hold below \<open>2 ^ 52\<close>
  and \<open>2 ^ 53\<close>, as stated. The loop over attestations recurses on the remaining tries. The polling of version 2 has no
  bound: it is a partial function, and a run that never ends is None. Anchor's resolver makes 16 rounds.

  Not modelled. Terminal colours; characters outside ASCII in case conversion and trimming; the contents of a compiled
  instruction (Anchor) and a signed transaction (web3.js); account rents, bumps and reserved bytes of the program; the
  parsing and the help texts of commander; \<^verbatim>\<open>utils/load-env.ts\<close>, which loads a file into the environment with a library
  (the environment is a parameter); options of \<^verbatim>\<open>transfer-v2.ts\<close> that are given twice; the contracts of the bridge and the
  token program, which are not in the repository; the tests.
\<close>

section \<open>The command line as a whole\<close>

lemma command_names: "distinct (List.map (\<lambda>c. (c_group c, c_name c)) cli_commands)"
  by (simp add: cli_commands_def register_defs command_def)

lemma find_distinct:
  "distinct (List.map (\<lambda>c. (c_group c, c_name c)) cs) \<Longrightarrow> c \<in> set cs \<Longrightarrow>
     find (\<lambda>c'. c_group c' = c_group c \<and> c_name c' = c_name c) cs = Some c"
proof (induction cs)
  case (Cons d ds)
  show ?case
  proof (cases "c = d")
    case False
    with Cons.prems have "c \<in> set ds" by simp
    with Cons.prems(1) have "\<not> (c_group d = c_group c \<and> c_name d = c_name c)" by force
    with Cons.IH Cons.prems(1) \<open>c \<in> set ds\<close> show ?thesis by auto
  qed simp
qed simp

text \<open>Every implementation runs inside \<open>executeCommand\<close>, with the table of its command.\<close>

lemma command_implementations:
  "list_all (\<lambda>c. \<exists>h. \<forall>E opts. c_execute c E opts = executeCommand E opts (c_params c) (h E opts)) cli_commands"
proof -
  have e: "\<exists>h. \<forall>E opts. executeCommand E opts ps (f E opts) = executeCommand E opts ps (h E opts)" for ps f
    by (rule exI [of _ f]) simp
  show ?thesis
    unfolding cli_commands_def register_defs
    by (simp only: append.simps list.pred_inject command_def cli_command.simps) (simp only: execute_defs e simp_thms)
qed

text \<open>
  C17: the names of the 42 commands are distinct, so each is reached by its own two words, and running it runs its
  handler inside \<open>executeCommand\<close>, which asks for exactly the parameters of its table, in order. Each arrives with the
  declared type, whether it was given as an option, defaulted or typed: a key, a number, a boolean or a text; a
  request number that is given as an option is a number, and a redeemer that is given is a key or missing.
\<close>

theorem commands_get_typed_parameters:
  assumes "c \<in> set cli_commands" and "commander_ok c p" and "inquirer_ok E"
  shows "find_command (c_group c) (c_name c) = Some c \<and>
    (\<exists>h. \<forall>E' p'. run_command c E' p' = executeCommand E' (c_opts c p') (c_params c) (h E' (c_opts c p'))) \<and>
    io_res (\<lambda>r. List.map fst r = List.map p_name (c_params c) \<and>
        (\<forall>q\<in>set (c_params c). declared q (fld (c_opts c p) (p_name q)) (fld r (p_name q))))
      (promptForParams E (c_params c) (c_opts c p) (fld (c_opts c p) ''noInteractive''))"
proof (intro conjI)
  show "find_command (c_group c) (c_name c) = Some c"
    unfolding find_command_def by (rule find_distinct [OF command_names assms(1)])
  show "\<exists>h. \<forall>E' p'. run_command c E' p' = executeCommand E' (c_opts c p') (c_params c) (h E' (c_opts c p'))"
    using command_implementations assms(1) unfolding list_all_iff run_command_def by blast
  show "io_res (\<lambda>r. List.map fst r = List.map p_name (c_params c) \<and>
        (\<forall>q\<in>set (c_params c). declared q (fld (c_opts c p) (p_name q)) (fld r (p_name q))))
      (promptForParams E (c_params c) (c_opts c p) (fld (c_opts c p) ''noInteractive''))"
    using given_values_fit [OF assms(1,2)] by (intro typed_parameters [OF assms(3,1)]) simp
qed

theorem commands_get_typed_parameters_witness:
  "io_res (\<lambda>r. List.map fst r = [''tokenIn'', ''tokenOut'', ''requestId''] \<and> (\<exists>x. fld r ''requestId'' = JNum x))
     (promptForParams (demo ''usdc'' [] True) requestParams
       (c_opts (cli_commands ! 37) \<lparr>pr_options = [(''requestId'', JStr ''25'')], pr_globals = []\<rparr>) JUndefined)"
proof -
  let ?opts = "c_opts (cli_commands ! 37) \<lparr>pr_options = [(''requestId'', JStr ''25'')], pr_globals = []\<rparr>"
  have c: "c_params (cli_commands ! 37) = requestParams"
    by (simp add: cli_commands_def register_defs command_def)
  have ok: "commander_ok (cli_commands ! 37) \<lparr>pr_options = [(''requestId'', JStr ''25'')], pr_globals = []\<rparr>"
    "fld ?opts ''noInteractive'' = JUndefined" "fld ?opts ''requestId'' = JStr ''25''"
    by code_simp+
  have "io_res (\<lambda>r. List.map fst r = List.map p_name requestParams \<and>
        (\<forall>q\<in>set requestParams. declared q (fld ?opts (p_name q)) (fld r (p_name q))))
     (promptForParams (demo ''usdc'' [] True) requestParams ?opts JUndefined)"
    using commands_get_typed_parameters [OF example_registered2 ok(1) demo_inquirer] unfolding c ok(2) by simp
  then show ?thesis
    by (rule io_res_mono) (auto simp: requestParams_def redemptionTokenPairParams_def param_def declared_def ok(3))
qed

end
